(* ===== verification/Prelude.thy ===== *)
theory Prelude
  imports Complex_Main
begin

text \<open>
  The shared ground of the development: the proof-rule collections every component uses, the string
  operations of the browser's standard library that the web user interface calls (\<open>startsWith\<close>,
  \<open>includes\<close>, \<open>indexOf\<close>, \<open>split\<close>, \<open>join\<close>, \<open>trim\<close>, \<open>toLowerCase\<close>, \<open>replaceAll\<close>,
  \<open>substring\<close>) on \<open>string\<close>, decimal printing of integers, and the generic lemmas on lists,
  options and maps that the component theories share.
  A JavaScript string is a list of code units; here a code unit is a \<open>char\<close>, so the texts the
  model speaks of are those with code units below 256.
\<close>

named_theorems js_simps \<open>equations that evaluate JavaScript values\<close>
named_theorems dom_simps \<open>what a document update does to each observation of the document\<close>
named_theorems step_defs \<open>definitions unfolded to expose one step of a component\<close>

section \<open>Strings\<close>

definition starts_with :: "string \<Rightarrow> string \<Rightarrow> bool" where
  "starts_with s p \<longleftrightarrow> take (length p) s = p"

fun includes_str :: "string \<Rightarrow> string \<Rightarrow> bool" where
  "includes_str [] p \<longleftrightarrow> p = []"
| "includes_str (c # s) p \<longleftrightarrow> starts_with (c # s) p \<or> includes_str s p"

fun index_of_char :: "char \<Rightarrow> string \<Rightarrow> nat option" where
  "index_of_char c [] = None"
| "index_of_char c (d # s) = (if d = c then Some 0 else map_option Suc (index_of_char c s))"

fun split_on :: "char \<Rightarrow> string \<Rightarrow> string list" where
  "split_on c [] = [[]]"
| "split_on c (d # s) =
     (if d = c then [] # split_on c s
      else (case split_on c s of [] \<Rightarrow> [[d]] | w # ws \<Rightarrow> (d # w) # ws))"

fun join_with :: "string \<Rightarrow> string list \<Rightarrow> string" where
  "join_with sep [] = []"
| "join_with sep [w] = w"
| "join_with sep (w # v # ws) = w @ sep @ join_with sep (v # ws)"

definition is_space :: "char \<Rightarrow> bool" where
  "is_space c \<longleftrightarrow> of_char c \<in> {9, 10, 11, 12, 13, 32, 160 :: nat}"

definition trim :: "string \<Rightarrow> string" where
  "trim s = rev (dropWhile is_space (rev (dropWhile is_space s)))"

definition to_lower_char :: "char \<Rightarrow> char" where
  "to_lower_char c =
     (let n = (of_char c :: nat)
      in if (65 \<le> n \<and> n \<le> 90) \<or> (192 \<le> n \<and> n \<le> 222 \<and> n \<noteq> 215) then char_of (n + 32) else c)"

definition to_lower :: "string \<Rightarrow> string" where
  "to_lower s = map to_lower_char s"

text \<open>\<open>toUpperCase\<close> on the characters whose capital letter is below 256 (the modelled texts have no others).\<close>

definition to_upper_char :: "char \<Rightarrow> char" where
  "to_upper_char c =
     (let n = (of_char c :: nat)
      in if (97 \<le> n \<and> n \<le> 122) \<or> (224 \<le> n \<and> n \<le> 254 \<and> n \<noteq> 247) then char_of (n - 32) else c)"

definition to_upper :: "string \<Rightarrow> string" where
  "to_upper s = map to_upper_char s"

definition replace_char :: "char \<Rightarrow> char \<Rightarrow> string \<Rightarrow> string" where
  "replace_char a b s = map (\<lambda>c. if c = a then b else c) s"

definition substring :: "string \<Rightarrow> nat \<Rightarrow> nat \<Rightarrow> string" where
  "substring s i j = take (j - i) (drop i s)"

text \<open>\<open>s.trim().split(/\s+/).filter(Boolean)\<close>: the words of a text.\<close>

fun split_by :: "(char \<Rightarrow> bool) \<Rightarrow> string \<Rightarrow> string list" where
  "split_by p [] = [[]]"
| "split_by p (c # s) = (if p c then [] # split_by p s else (c # hd (split_by p s)) # tl (split_by p s))"

definition words :: "string \<Rightarrow> string list" where
  "words s = filter (\<lambda>w. w \<noteq> []) (split_by is_space (trim s))"

definition is_digit :: "char \<Rightarrow> bool" where
  "is_digit c \<longleftrightarrow> (let n = (of_char c :: nat) in 48 \<le> n \<and> n \<le> 57)"

definition digit_val :: "char \<Rightarrow> nat" where
  "digit_val c = of_char c - 48"

fun show_nat :: "nat \<Rightarrow> string" where
  "show_nat n = (if n < 10 then [char_of (48 + n)] else show_nat (n div 10) @ [char_of (48 + n mod 10)])"

definition show_int :: "int \<Rightarrow> string" where
  "show_int i = (if i < 0 then CHR ''-'' # show_nat (nat (- i)) else show_nat (nat i))"

declare show_nat.simps [simp del]

subsection \<open>Splitting and joining\<close>

lemma split_on_not_Nil [simp]: "split_on c s \<noteq> []"
  by (induction s) (auto split: list.splits)

lemma split_on_no_sep: "w \<in> set (split_on c s) \<Longrightarrow> c \<notin> set w"
  by (induction s arbitrary: w) (fastforce split: list.splits if_splits)+

lemma join_with_Cons: "ws \<noteq> [] \<Longrightarrow> join_with sep (w # ws) = w @ sep @ join_with sep ws"
  by (cases ws) simp_all

lemma join_with_prepend: "join_with sep ((d # w) # ws) = d # join_with sep (w # ws)"
  by (cases ws) simp_all

lemma join_split [simp]: "join_with [c] (split_on c s) = s"
proof (induction s)
  case Nil
  show ?case by simp
next
  case (Cons d s)
  then show ?case
    by (cases "split_on c s") (auto simp: join_with_Cons join_with_prepend)
qed

lemma split_on_append_sep: "c \<notin> set w \<Longrightarrow> split_on c (w @ c # s) = w # split_on c s"
  by (induction w) auto

lemma split_on_plain: "c \<notin> set w \<Longrightarrow> split_on c w = [w]"
  by (induction w) auto

lemma split_on_snoc: "split_on c (s @ [c]) = split_on c s @ [[]]"
proof (induction s)
  case (Cons d s)
  then show ?case by (cases "split_on c s"; cases "d = c") simp_all
qed simp

lemma split_join [simp]:
  "ws \<noteq> [] \<Longrightarrow> (\<And>w. w \<in> set ws \<Longrightarrow> c \<notin> set w) \<Longrightarrow> split_on c (join_with [c] ws) = ws"
proof (induction ws rule: induct_list012)
  case 1
  then show ?case by simp
next
  case (2 w)
  then show ?case by (simp add: split_on_plain)
next
  case (3 w v ws)
  then show ?case by (simp add: split_on_append_sep)
qed

lemma index_of_char_Some:
  "index_of_char c s = Some i \<Longrightarrow> s = take i s @ c # drop (Suc i) s \<and> c \<notin> set (take i s)"
proof (induction s arbitrary: i)
  case Nil
  then show ?case by simp
next
  case (Cons d s)
  then show ?case by (cases i) (auto split: if_splits)
qed

lemma index_of_char_None: "index_of_char c s = None \<longleftrightarrow> c \<notin> set s"
  by (induction s) auto

lemma includes_first: "includes_str s (c # t) \<Longrightarrow> c \<in> set s"
  by (induction s) (auto simp: starts_with_def)

lemma includes_single: "includes_str s [c] \<longleftrightarrow> c \<in> set s"
  by (induction s) (auto simp: starts_with_def)

lemma starts_with_append [simp]: "starts_with (p @ s) p"
  by (simp add: starts_with_def)

lemma starts_with_Cons [simp]: "starts_with (c # s) [d] \<longleftrightarrow> c = d"
  by (simp add: starts_with_def)

lemma starts_with_Nil_iff [simp]: "starts_with [] p \<longleftrightarrow> p = []"
  by (auto simp: starts_with_def)

subsection \<open>Decimal numerals\<close>

lemma of_char_digit [simp]: "n < 10 \<Longrightarrow> (of_char (char_of (48 + n) :: char) :: nat) = 48 + n"
  by simp

lemma show_nat_digits: "c \<in> set (show_nat n) \<Longrightarrow> is_digit c"
proof (induction n arbitrary: c rule: show_nat.induct)
  case (1 n)
  have d: "is_digit (char_of (48 + k))" if "k < 10" for k :: nat
    using that by (simp add: is_digit_def Let_def)
  show ?case
  proof (cases "n < 10")
    case True
    with "1.prems" d show ?thesis by (simp add: show_nat.simps [of n])
  next
    case False
    with "1.prems" consider "c \<in> set (show_nat (n div 10))" | "c = char_of (48 + n mod 10)"
      by (auto simp: show_nat.simps [of n])
    then show ?thesis
      using False "1.IH" d [of "n mod 10"] by cases auto
  qed
qed

lemma show_nat_not_Nil [simp]: "show_nat n \<noteq> []"
  by (simp add: show_nat.simps [of n])

section \<open>Statements that may throw\<close>

text \<open>
  A statement takes the state to the state it leaves and says whether it threw; what follows a throwing
  statement does not run.
\<close>

fun run_all :: "('s \<Rightarrow> 's \<times> bool) list \<Rightarrow> 's \<Rightarrow> 's \<times> bool" where
  "run_all [] s = (s, False)"
| "run_all (f # fs) s = (let (s1, threw) = f s in if threw then (s1, True) else run_all fs s1)"

definition plain_step :: "('s \<Rightarrow> 's) \<Rightarrow> 's \<Rightarrow> 's \<times> bool" where
  "plain_step f s = (f s, False)"

lemma run_all_append:
  "run_all (fs @ gs) s = (if snd (run_all fs s) then run_all fs s else run_all gs (fst (run_all fs s)))"
  by (induction fs arbitrary: s) (auto split: prod.splits)

lemma run_all_plain [simp]: "run_all (map plain_step fs) s = (fold (\<lambda>f. f) fs s, False)"
  by (induction fs arbitrary: s) (simp_all add: plain_step_def)

lemma run_all_keeps:
  assumes "\<And>f t. f \<in> set fs \<Longrightarrow> P t \<Longrightarrow> P (fst (f t))" and "P s"
  shows "P (fst (run_all fs s))"
  using assms by (induction fs arbitrary: s) (force split: prod.splits)+

section \<open>Lists, options, maps\<close>

lemma length_take_last: "length (drop (length xs - n) xs) = min n (length xs)"
  by simp

lemma sum_list_upper:
  fixes xs :: "'a::{ordered_semiring,ordered_ab_semigroup_add_imp_le,semiring_1} list"
  assumes "\<And>x. x \<in> set xs \<Longrightarrow> x \<le> k"
  shows "sum_list xs \<le> of_nat (length xs) * k"
  using assms by (induction xs) (auto simp: distrib_right intro: add_mono)

lemma filter_single: "distinct xs \<Longrightarrow> x \<in> set xs \<Longrightarrow> filter (\<lambda>y. y = x) xs = [x]"
  by (induction xs) (auto simp: filter_empty_conv)

lemma trim_solid:
  assumes "s \<noteq> []" "\<not> is_space (hd s)" "\<not> is_space (last s)"
  shows "trim s = s"
proof -
  have a: "dropWhile is_space s = s" using assms(1,2) by (cases s) simp_all
  have "dropWhile is_space (rev s) = rev s"
    using assms(1,3) by (cases "rev s") (auto simp: rev_swap)
  then show ?thesis by (simp add: trim_def a)
qed

lemma hd_split_on: "hd (split_on c s) = takeWhile (\<lambda>d. d \<noteq> c) s"
proof (induction s)
  case (Cons d s)
  then show ?case by (cases "split_on c s") auto
qed simp

lemma split_on_append: "split_on c (a @ c # b) = split_on c a @ split_on c b"
proof (induction a)
  case (Cons d a)
  then show ?case by (cases "split_on c a") auto
qed simp

lemma trim_solid_ends: "trim s \<noteq> [] \<Longrightarrow> \<not> is_space (hd (trim s)) \<and> \<not> is_space (last (trim s))"
proof -
  assume ne: "trim s \<noteq> []"
  define u where "u = dropWhile is_space s"
  define v where "v = dropWhile is_space (rev u)"
  have t: "trim s = rev v" by (simp add: trim_def u_def v_def)
  have v: "v \<noteq> []" using ne t by simp
  have "\<not> is_space (hd v)" using v hd_dropWhile [of is_space "rev u"] by (simp add: v_def)
  obtain w where w: "rev u = w @ v" unfolding v_def by (metis takeWhile_dropWhile_id)
  then have "u = rev v @ rev w" by (metis rev_append rev_rev_ident)
  then have "hd u = hd (rev v)" "u \<noteq> []" using v by simp_all
  moreover have "\<not> is_space (hd u)" using \<open>u \<noteq> []\<close> hd_dropWhile [of is_space s] by (simp add: u_def)
  ultimately show ?thesis using \<open>\<not> is_space (hd v)\<close> v by (simp add: t last_rev)
qed

lemma trim_trim [simp]: "trim (trim s) = trim s"
proof (cases "trim s = []")
  case True
  have "trim [] = []" by (simp add: trim_def)
  with True show ?thesis by simp
next
  case False
  then show ?thesis using trim_solid_ends [OF False] by (intro trim_solid) auto
qed

section \<open>Words\<close>

lemma trim_Nil: "trim [] = []"
  by (simp add: trim_def)

lemma split_by_word: "\<forall>c\<in>set w. \<not> p c \<Longrightarrow> split_by p w = [w]"
  by (induction w) simp_all

lemma split_by_append: "\<forall>c\<in>set w. \<not> p c \<Longrightarrow> p d \<Longrightarrow> split_by p (w @ d # s) = w # split_by p s"
  by (induction w) simp_all

lemma split_by_join: "ws \<noteq> [] \<Longrightarrow> \<forall>w\<in>set ws. \<forall>c\<in>set w. \<not> is_space c \<Longrightarrow> split_by is_space (join_with '' '' ws) = ws"
proof (induction ws)
  case (Cons w ws)
  have "is_space (CHR '' '')" by code_simp
  with Cons show ?case by (cases ws) (simp_all add: split_by_word split_by_append)
qed simp

lemma join_ends:
  "ws \<noteq> [] \<Longrightarrow> \<forall>w\<in>set ws. w \<noteq> [] \<Longrightarrow> join_with '' '' ws \<noteq> [] \<and> hd (join_with '' '' ws) = hd (hd ws) \<and> last (join_with '' '' ws) = last (last ws)"
proof (induction ws)
  case (Cons w ws)
  then show ?case by (cases ws) auto
qed simp

lemma words_join:
  assumes "\<And>w. w \<in> set ws \<Longrightarrow> w \<noteq> []" "\<And>w c. w \<in> set ws \<Longrightarrow> c \<in> set w \<Longrightarrow> \<not> is_space c"
  shows "words (join_with '' '' ws) = ws"
proof (cases "ws = []")
  case True
  then show ?thesis by (simp add: words_def trim_def)
next
  case False
  have ne: "\<forall>w\<in>set ws. w \<noteq> []" and sp: "\<forall>w\<in>set ws. \<forall>c\<in>set w. \<not> is_space c" using assms by auto
  have "hd ws \<in> set ws" "last ws \<in> set ws" using False by auto
  then have "\<not> is_space (hd (hd ws))" "\<not> is_space (last (last ws))" using ne sp by auto
  then have "trim (join_with '' '' ws) = join_with '' '' ws" using join_ends [OF False ne] by (intro trim_solid) auto
  then show ?thesis using split_by_join [OF False sp] ne by (simp add: words_def filter_id_conv)
qed

end
