(* ===== verification/Js_Value.thy ===== *)
theory Js_Value
  imports Prelude
begin

text \<open>
  The JavaScript values the web user interface receives from the camera (decoded JSON), and the
  operations of the language the scripts apply to them: truthiness, property reads, \<open>typeof\<close>,
  conversion to a number, \<open>parseInt\<close>, \<open>Math.round\<close> and the ordering on numbers.
  A finite number is an exact rational: the scripts compute on integers far below \<open>2 ^ 53\<close> and on
  quotients of them that are rounded to an integer at once, where IEEE doubles and rationals agree.
  Comparing a value with a literal by \<open>===\<close> is equality of the datatype (the literals compared
  with are never \<open>NaN\<close> or objects).
\<close>

section \<open>Values\<close>

datatype jnum = NaN | NegInf | PosInf | Fin rat

datatype js = JUndef | JNull | JBool bool | JNum jnum | JStr string | JArr "js list"
  | JObj "(string \<times> js) list"

abbreviation jint :: "int \<Rightarrow> js" where
  "jint i \<equiv> JNum (Fin (of_int i))"

fun truthy :: "js \<Rightarrow> bool" where
  "truthy JUndef = False"
| "truthy JNull = False"
| "truthy (JBool b) = b"
| "truthy (JNum NaN) = False"
| "truthy (JNum (Fin q)) = (q \<noteq> 0)"
| "truthy (JNum _) = True"
| "truthy (JStr s) = (s \<noteq> [])"
| "truthy _ = True"

text \<open>\<open>a || b\<close> and \<open>a ?? b\<close>.\<close>

definition js_or :: "js \<Rightarrow> js \<Rightarrow> js" where
  "js_or a b = (if truthy a then a else b)"

definition nullish :: "js \<Rightarrow> bool" where
  "nullish v \<longleftrightarrow> v = JUndef \<or> v = JNull"

definition coalesce :: "js \<Rightarrow> js \<Rightarrow> js" where
  "coalesce a b = (if nullish a then b else a)"

text \<open>
  A property read on a value that is neither \<open>undefined\<close> nor \<open>null\<close>; on those two the language
  throws, which the callers model where their guards do not exclude it. The JSON values have no
  property beyond their own keys that the scripts read.
\<close>

fun getp :: "js \<Rightarrow> string \<Rightarrow> js" where
  "getp (JObj kvs) k = (case map_of kvs k of None \<Rightarrow> JUndef | Some v \<Rightarrow> v)"
| "getp _ k = JUndef"

text \<open>\<open>a && a.k\<close> as a condition, and the value of \<open>a && a.k\<close> for an object-valued \<open>a\<close>.\<close>

definition and_prop :: "js \<Rightarrow> string \<Rightarrow> js" where
  "and_prop v k = (if truthy v then getp v k else v)"

fun is_object :: "js \<Rightarrow> bool" where
  "is_object JNull = True"
| "is_object (JArr _) = True"
| "is_object (JObj _) = True"
| "is_object _ = False"

fun is_str :: "js \<Rightarrow> bool" where
  "is_str (JStr _) = True"
| "is_str _ = False"

text \<open>\<open>v === true || v === "true"\<close>.\<close>

definition is_true :: "js \<Rightarrow> bool" where
  "is_true v \<longleftrightarrow> v = JBool True \<or> v = JStr ''true''"

text \<open>\<open>typeof v === "string" ? v : ""\<close>.\<close>

fun str_or_empty :: "js \<Rightarrow> string" where
  "str_or_empty (JStr s) = s"
| "str_or_empty _ = []"

section \<open>Numbers\<close>

fun digits_val :: "nat \<Rightarrow> string \<Rightarrow> nat" where
  "digits_val a [] = a"
| "digits_val a (c # s) = digits_val (10 * a + digit_val c) s"

definition hex_val :: "char \<Rightarrow> nat option" where
  "hex_val c =
     (let n = (of_char c :: nat)
      in if 48 \<le> n \<and> n \<le> 57 then Some (n - 48)
         else if 97 \<le> n \<and> n \<le> 102 then Some (n - 87)
         else if 65 \<le> n \<and> n \<le> 70 then Some (n - 55) else None)"

definition radix_digit :: "nat \<Rightarrow> char \<Rightarrow> nat option" where
  "radix_digit r c = (case hex_val c of Some d \<Rightarrow> if d < r then Some d else None | None \<Rightarrow> None)"

fun radix_val :: "nat \<Rightarrow> nat \<Rightarrow> string \<Rightarrow> nat" where
  "radix_val r a [] = a"
| "radix_val r a (c # s) = radix_val r (r * a + (case hex_val c of Some d \<Rightarrow> d | None \<Rightarrow> 0)) s"

text \<open>The sign of a numeric literal: whether it is negative, and what follows it.\<close>

fun take_sign :: "string \<Rightarrow> bool \<times> string" where
  "take_sign (c # s) = (if c = CHR ''-'' then (True, s) else if c = CHR ''+'' then (False, s) else (False, c # s))"
| "take_sign [] = (False, [])"

definition signed :: "bool \<Rightarrow> rat \<Rightarrow> rat" where
  "signed neg q = (if neg then - q else q)"

definition exponent_of :: "string \<Rightarrow> int option" where
  "exponent_of s =
     (case s of [] \<Rightarrow> Some 0
      | c # r \<Rightarrow>
          if c = CHR ''e'' \<or> c = CHR ''E''
          then (let (neg, ds) = take_sign r
                in if ds \<noteq> [] \<and> list_all is_digit ds
                   then Some ((if neg then - 1 else 1) * int (digits_val 0 ds)) else None)
          else None)"

definition pow10 :: "int \<Rightarrow> rat" where
  "pow10 e = (if 0 \<le> e then 10 ^ nat e else 1 / 10 ^ nat (- e))"

definition decimal_of :: "string \<Rightarrow> rat option" where
  "decimal_of s =
     (let ip = takeWhile is_digit s; r1 = dropWhile is_digit s;
          dotted = (case r1 of c # _ \<Rightarrow> c = CHR ''.'' | [] \<Rightarrow> False);
          fp = (if dotted then takeWhile is_digit (tl r1) else []);
          r2 = (if dotted then dropWhile is_digit (tl r1) else r1)
      in if ip = [] \<and> fp = [] then None
         else map_option
                (\<lambda>e. (of_nat (digits_val 0 ip) + of_nat (digits_val 0 fp) / 10 ^ length fp) * pow10 e)
                (exponent_of r2))"

definition radix_of_prefix :: "string \<Rightarrow> nat option" where
  "radix_of_prefix s =
     (case to_lower (take 2 s) of
        [c, d] \<Rightarrow> if c \<noteq> CHR ''0'' then None
                  else if d = CHR ''x'' then Some 16
                  else if d = CHR ''o'' then Some 8
                  else if d = CHR ''b'' then Some 2 else None
      | _ \<Rightarrow> None)"

text \<open>\<open>Number(s)\<close> of a string.\<close>

definition number_of_string :: "string \<Rightarrow> jnum" where
  "number_of_string s =
     (let t = trim s
      in if t = [] then Fin 0
         else (case radix_of_prefix t of
           Some r \<Rightarrow>
             (let ds = drop 2 t
              in if ds \<noteq> [] \<and> list_all (\<lambda>c. radix_digit r c \<noteq> None) ds
                 then Fin (of_nat (radix_val r 0 ds)) else NaN)
         | None \<Rightarrow>
             (let (neg, u) = take_sign t
              in if u = ''Infinity'' then (if neg then NegInf else PosInf)
                 else (case decimal_of u of Some q \<Rightarrow> Fin (signed neg q) | None \<Rightarrow> NaN))))"

text \<open>\<open>Number(v)\<close>. An array converts through its comma-joined text.\<close>

fun to_number :: "js \<Rightarrow> jnum" where
  "to_number JUndef = NaN"
| "to_number JNull = Fin 0"
| "to_number (JBool b) = Fin (if b then 1 else 0)"
| "to_number (JNum n) = n"
| "to_number (JStr s) = number_of_string s"
| "to_number (JArr []) = Fin 0"
| "to_number (JArr [JUndef]) = Fin 0"
| "to_number (JArr [JBool b]) = NaN"
| "to_number (JArr [v]) = to_number v"
| "to_number (JArr _) = NaN"
| "to_number (JObj _) = NaN"

fun is_finite :: "jnum \<Rightarrow> bool" where
  "is_finite (Fin _) = True"
| "is_finite _ = False"

fun fin_val :: "jnum \<Rightarrow> rat option" where
  "fin_val (Fin q) = Some q"
| "fin_val _ = None"

text \<open>\<open>n >= k\<close> for a finite \<open>k\<close>: false for \<open>NaN\<close>.\<close>

fun num_ge :: "jnum \<Rightarrow> rat \<Rightarrow> bool" where
  "num_ge NaN k = False"
| "num_ge NegInf k = False"
| "num_ge PosInf k = True"
| "num_ge (Fin q) k = (k \<le> q)"

definition is_integer_num :: "js \<Rightarrow> bool" where
  "is_integer_num v = (case v of JNum (Fin q) \<Rightarrow> q = of_int \<lfloor>q\<rfloor> | _ \<Rightarrow> False)"

text \<open>\<open>Math.round\<close>: halves go up.\<close>

definition math_round :: "rat \<Rightarrow> int" where
  "math_round q = \<lfloor>q + 1 / 2\<rfloor>"

text \<open>\<open>Math.max(a, b)\<close> and \<open>Math.min(a, b)\<close> are \<open>max\<close> and \<open>min\<close> on rationals.
  \<open>x.toFixed(d)\<close> of a finite \<open>x\<close>: the nearest multiple of \<open>10 ^ (- d)\<close>, halves away from zero.\<close>

definition pad_left :: "nat \<Rightarrow> string \<Rightarrow> string" where
  "pad_left n s = replicate (n - length s) (CHR ''0'') @ s"

definition to_fixed_nonneg :: "nat \<Rightarrow> rat \<Rightarrow> string" where
  "to_fixed_nonneg d x =
     (let n = nat (math_round (x * 10 ^ d)); ds = show_nat (n mod 10 ^ d)
      in if d = 0 then show_nat n else show_nat (n div 10 ^ d) @ ''.'' @ pad_left d ds)"

definition to_fixed :: "nat \<Rightarrow> rat \<Rightarrow> string" where
  "to_fixed d x = (if x < 0 then CHR ''-'' # to_fixed_nonneg d (- x) else to_fixed_nonneg d x)"

text \<open>Multiplying a number by a positive finite factor.\<close>

fun num_scale :: "rat \<Rightarrow> jnum \<Rightarrow> jnum" where
  "num_scale k (Fin q) = Fin (k * q)"
| "num_scale k n = n"

text \<open>\<open>parseInt(s)\<close> and \<open>parseInt(s, radix)\<close> for the radices 10 and 16.\<close>

definition strip_hex :: "string \<Rightarrow> string" where
  "strip_hex s = (if radix_of_prefix s = Some 16 then drop 2 s else s)"

definition parse_int :: "nat option \<Rightarrow> string \<Rightarrow> jnum" where
  "parse_int radix s =
     (let (neg, u) = take_sign (dropWhile is_space s);
          r = (case radix of Some r \<Rightarrow> r | None \<Rightarrow> if radix_of_prefix u = Some 16 then 16 else 10);
          body = (if r = 16 then strip_hex u else u);
          ds = takeWhile (\<lambda>c. radix_digit r c \<noteq> None) body
      in if ds = [] then NaN else Fin (signed neg (of_nat (radix_val r 0 ds))))"

section \<open>Texts\<close>

text \<open>
  The text of a number, as a template literal inserts it: decimal for the integers; a fraction prints its
  decimal expansion, which is what the language prints for the decimals of at most 15 significant digits
  that JSON answers carry.
\<close>

fun frac_digits :: "nat \<Rightarrow> rat \<Rightarrow> string" where
  "frac_digits 0 q = []"
| "frac_digits (Suc n) q =
     (if q = 0 then []
      else let d = \<lfloor>10 * q\<rfloor> in char_of (48 + nat d) # frac_digits n (10 * q - of_int d))"

fun num_text :: "jnum \<Rightarrow> string" where
  "num_text NaN = ''NaN''"
| "num_text PosInf = ''Infinity''"
| "num_text NegInf = ''-Infinity''"
| "num_text (Fin q) =
     (let i = \<lfloor>\<bar>q\<bar>\<rfloor>; r = \<bar>q\<bar> - of_int i
      in (if q < 0 then ''-'' else []) @ show_nat (nat i) @ (if r = 0 then [] else CHR ''.'' # frac_digits 17 r))"

text \<open>\<open>String(v)\<close>.\<close>

fun js_text :: "js \<Rightarrow> string" where
  "js_text JUndef = ''undefined''"
| "js_text JNull = ''null''"
| "js_text (JBool b) = (if b then ''true'' else ''false'')"
| "js_text (JNum n) = num_text n"
| "js_text (JStr s) = s"
| "js_text (JArr vs) = join_with '','' (map (\<lambda>v. case v of JUndef \<Rightarrow> [] | JNull \<Rightarrow> [] | _ \<Rightarrow> js_text v) vs)"
| "js_text (JObj kvs) = ''[object Object]''"

text \<open>
  What \<open>JSON.parse\<close> gives back from \<open>JSON.stringify(v)\<close>: a number that is not finite is written as
  \<open>null\<close>, a property with the value \<open>undefined\<close> is left out.
\<close>

fun jsonify :: "js \<Rightarrow> js" where
  "jsonify (JNum (Fin q)) = JNum (Fin q)"
| "jsonify (JNum _) = JNull"
| "jsonify (JArr vs) = JArr (map (\<lambda>v. if v = JUndef then JNull else jsonify v) vs)"
| "jsonify (JObj kvs) = JObj (map (\<lambda>p. (fst p, jsonify (snd p))) (filter (\<lambda>p. snd p \<noteq> JUndef) kvs))"
| "jsonify v = v"

section \<open>Lemmas\<close>

lemma prop_not_object: "\<not> (\<exists>kvs. v = JObj kvs) \<Longrightarrow> getp v k = JUndef"
  by (cases v) auto

lemma prop_undef_simps [js_simps]: "getp JUndef k = JUndef" "getp JNull k = JUndef"
  by simp_all

lemma math_round_mono: "p \<le> q \<Longrightarrow> math_round p \<le> math_round q"
  by (simp add: math_round_def floor_mono)

lemma math_round_of_int [simp]: "math_round (of_int i) = i"
  by (simp add: math_round_def floor_unique)

lemma math_round_numeral [simp]: "math_round (numeral k) = numeral k" "math_round 0 = 0" "math_round 1 = 1"
  using math_round_of_int [of "numeral k"] math_round_of_int [of 0] math_round_of_int [of 1] by simp_all

lemma math_round_ge: "of_int i \<le> q \<Longrightarrow> i \<le> math_round q"
  using math_round_mono [of "of_int i" q] by simp

lemma math_round_le: "q \<le> of_int i \<Longrightarrow> math_round q \<le> i"
  using math_round_mono [of q "of_int i"] by simp

lemma js_or_truthy: "truthy b \<Longrightarrow> truthy (js_or a b)"
  by (simp add: js_or_def)

lemma is_finite_iff: "is_finite n \<longleftrightarrow> (\<exists>q. n = Fin q)"
  by (cases n) auto

lemma digits_val_append: "digits_val a (xs @ ys) = digits_val (digits_val a xs) ys"
  by (induction xs arbitrary: a) auto

lemma digits_val_show_nat: "digits_val 0 (show_nat n) = n"
proof (induction n rule: show_nat.induct)
  case (1 n)
  then show ?case
    by (cases "n < 10") (simp_all add: show_nat.simps [of n] digits_val_append digit_val_def)
qed

lemma takeWhile_all: "(\<And>c. c \<in> set s \<Longrightarrow> P c) \<Longrightarrow> takeWhile P s = s"
  by (simp add: takeWhile_eq_all_conv)

lemma dropWhile_all: "(\<And>c. c \<in> set s \<Longrightarrow> P c) \<Longrightarrow> dropWhile P s = []"
  by (simp add: dropWhile_eq_Nil_conv)

lemma decimal_of_show_nat: "decimal_of (show_nat n) = Some (of_nat n)"
  by (simp add: decimal_of_def takeWhile_all dropWhile_all show_nat_digits exponent_of_def pow10_def
        digits_val_show_nat)

lemma num_text_of_nat [simp]: "num_text (Fin (of_nat n)) = show_nat n"
proof -
  have "\<lfloor>\<bar>of_nat n :: rat\<bar>\<rfloor> = int n" by simp
  then show ?thesis by (simp del: floor_of_nat add: Let_def)
qed

lemma not_digit_simps [simp]:
  "\<not> is_digit (CHR ''-'')" "\<not> is_digit (CHR ''+'')" "\<not> is_digit (CHR ''.'')" "\<not> is_digit (CHR '':'')"
  by (simp_all add: is_digit_def)

lemma is_digit_val: "is_digit c \<Longrightarrow> hex_val c = Some (digit_val c) \<and> digit_val c < 10"
  by (auto simp: is_digit_def hex_val_def digit_val_def Let_def)

lemma radix_digit_ten: "is_digit c \<Longrightarrow> radix_digit 10 c = Some (digit_val c)"
  using is_digit_val [of c] by (simp add: radix_digit_def)

lemma radix_val_ten: "(\<And>c. c \<in> set s \<Longrightarrow> is_digit c) \<Longrightarrow> radix_val 10 a s = digits_val a s"
  by (induction s arbitrary: a) (simp_all add: is_digit_val)

lemma digit_not_space: "is_digit c \<Longrightarrow> \<not> is_space c"
  by (auto simp: is_digit_def is_space_def Let_def)

lemma show_nat_Cons: obtains c s where "show_nat n = c # s" "is_digit c"
  using show_nat_not_Nil [of n] show_nat_digits [of _ n] by (cases "show_nat n") auto

lemma parse_int_show_nat: "parse_int (Some 10) (show_nat n) = Fin (of_nat n)"
proof -
  obtain c s where cs: "show_nat n = c # s" "is_digit c" by (rule show_nat_Cons)
  have "c \<noteq> CHR ''-''" "c \<noteq> CHR ''+''" using cs(2) by auto
  then have sign: "take_sign (dropWhile is_space (show_nat n)) = (False, show_nat n)"
    using cs digit_not_space by simp
  have all: "takeWhile (\<lambda>c. \<exists>y. radix_digit 10 c = Some y) (show_nat n) = show_nat n"
    by (rule takeWhile_all) (simp add: show_nat_digits radix_digit_ten)
  show ?thesis
    unfolding parse_int_def sign Let_def
    by (simp add: all radix_val_ten show_nat_digits digits_val_show_nat signed_def)
qed

lemma num_text_of_int: "num_text (Fin (of_int i)) = show_int i"
proof -
  have "\<bar>of_int i :: rat\<bar> = of_int \<bar>i\<bar>" by simp
  then show ?thesis by (auto simp: show_int_def Let_def simp del: of_int_abs)
qed

lemma show_int_chars: "c \<in> set (show_int i) \<Longrightarrow> c = CHR ''-'' \<or> is_digit c"
  using show_nat_digits by (auto simp: show_int_def split: if_splits)

lemma parse_int_cases:
  obtains "parse_int r s = NaN" | i where "parse_int r s = Fin (of_int i)"
proof -
  have "parse_int r s = NaN \<or> (\<exists>i. parse_int r s = Fin (of_int i))"
    unfolding parse_int_def Let_def signed_def
    by (auto split: prod.split) (metis of_int_minus of_int_of_nat_eq)+
  then show thesis using that by blast
qed

declare num_text.simps(4) [simp del]
declare num_text_of_int [simp]

lemma show_int_solid: "trim (show_int i) = show_int i"
proof (rule trim_solid)
  show ne: "show_int i \<noteq> []" by (simp add: show_int_def)
  have "\<not> is_space c" if "c \<in> set (show_int i)" for c
    using show_int_chars [OF that] digit_not_space by (auto simp: is_space_def)
  with ne show "\<not> is_space (hd (show_int i))" "\<not> is_space (last (show_int i))" by simp_all
qed

lemma parse_int_show_int: "parse_int (Some 10) (show_int i) = Fin (of_int i)"
proof (cases "i < 0")
  case True
  let ?n = "nat (- i)"
  have all: "takeWhile (\<lambda>c. \<exists>y. radix_digit 10 c = Some y) (show_nat ?n) = show_nat ?n"
    by (rule takeWhile_all) (simp add: show_nat_digits radix_digit_ten)
  have "is_space (CHR ''-'') = False" by (simp add: is_space_def)
  then show ?thesis
    using True by (simp add: show_int_def parse_int_def all radix_val_ten show_nat_digits digits_val_show_nat signed_def)
next
  case False
  then show ?thesis by (simp add: show_int_def parse_int_show_nat)
qed

lemma show_int_no_dot: "CHR ''.'' \<notin> set (show_int i)"
  using show_int_chars [of "CHR ''.''" i] by auto

lemma digit_lower: "is_digit c \<Longrightarrow> to_lower_char c = c"
  by (auto simp: is_digit_def to_lower_char_def Let_def)

lemma digit_letters: "\<not> is_digit (CHR ''x'')" "\<not> is_digit (CHR ''o'')" "\<not> is_digit (CHR ''b'')" "\<not> is_digit (CHR ''I'')"
  by (simp_all add: is_digit_def)

lemma radix_of_digits:
  assumes d: "\<And>c. c \<in> set s \<Longrightarrow> is_digit c" shows "radix_of_prefix s = None"
proof (cases s)
  case (Cons c s')
  show ?thesis
  proof (cases s')
    case (Cons e t)
    then have "is_digit e" "to_lower_char e = e" "to_lower_char c = c" using d \<open>s = c # s'\<close> digit_lower by auto
    then show ?thesis
      using \<open>s = c # s'\<close> Cons digit_letters by (auto simp: radix_of_prefix_def to_lower_def)
  qed (simp add: Cons radix_of_prefix_def to_lower_def)
qed (simp add: radix_of_prefix_def to_lower_def)

lemma number_of_show_int: "number_of_string (show_int i) = Fin (of_int i)"
proof (cases "i < 0")
  case True
  have "trim (CHR ''-'' # show_nat (nat (- i))) = CHR ''-'' # show_nat (nat (- i))"
    using True show_int_solid [of i] by (simp add: show_int_def)
  moreover have "radix_of_prefix (CHR ''-'' # show_nat (nat (- i))) = None"
    by (cases rule: show_nat_Cons [of "nat (- i)"]) (simp add: radix_of_prefix_def to_lower_def to_lower_char_def)
  moreover have "show_nat (nat (- i)) \<noteq> ''Infinity''"
    using digit_letters(4) by (cases rule: show_nat_Cons [of "nat (- i)"]) auto
  ultimately show ?thesis
    using True by (simp add: number_of_string_def show_int_def decimal_of_show_nat signed_def)
next
  case False
  let ?n = "nat i"
  obtain c s where cs: "show_nat ?n = c # s" "is_digit c" by (rule show_nat_Cons)
  have "trim (show_nat ?n) = show_nat ?n" using False show_int_solid [of i] by (simp add: show_int_def)
  moreover have "radix_of_prefix (show_nat ?n) = None" by (rule radix_of_digits) (rule show_nat_digits)
  moreover have "take_sign (show_nat ?n) = (False, show_nat ?n)" using cs by auto
  moreover have "show_nat ?n \<noteq> ''Infinity''" using cs digit_letters(4) by auto
  ultimately show ?thesis
    using False by (simp add: number_of_string_def show_int_def decimal_of_show_nat signed_def)
qed

end
