(* ===== verification/Dom.thy ===== *)
theory Dom
  imports Js_Value
begin

text \<open>
  The document as the scripts see it: a partial map from element ids to the attributes the scripts
  read and write. \<open>on_elem\<close> is the idiom \<open>const el = $("#id"); if (el) { ... }\<close>.
  A text content is kept as the list of the values that are concatenated (and converted to text) when
  it is assigned, so that no claim depends on how numbers print.
\<close>

record elem =
  cls :: "string set"
  content :: "js list"
  disabled :: bool
  val :: string
  attrs :: "string \<rightharpoonup> string"
  icon :: "string option" \<comment> \<open>the class name of the element's \<open><i>\<close>, if it has one\<close>
  img :: "string option" \<comment> \<open>the source of the element's \<open><img>\<close>, if it has one\<close>

type_synonym doc = "string \<rightharpoonup> elem"

definition blank_elem :: elem where
  "blank_elem = \<lparr>cls = {}, content = [], disabled = False, val = [], attrs = Map.empty,
     icon = None, img = None\<rparr>"

section \<open>Updates\<close>

definition class_add :: "string \<Rightarrow> elem \<Rightarrow> elem" where
  "class_add c e = e\<lparr>cls := insert c (cls e)\<rparr>"

definition class_remove :: "string \<Rightarrow> elem \<Rightarrow> elem" where
  "class_remove c e = e\<lparr>cls := cls e - {c}\<rparr>"

definition class_toggle :: "string \<Rightarrow> bool \<Rightarrow> elem \<Rightarrow> elem" where
  "class_toggle c b e = (if b then class_add c e else class_remove c e)"

definition set_content :: "js list \<Rightarrow> elem \<Rightarrow> elem" where
  "set_content ps e = e\<lparr>content := ps\<rparr>"

definition set_attr :: "string \<Rightarrow> string \<Rightarrow> elem \<Rightarrow> elem" where
  "set_attr k v e = e\<lparr>attrs := (attrs e)(k \<mapsto> v)\<rparr>"

definition remove_attr :: "string \<Rightarrow> elem \<Rightarrow> elem" where
  "remove_attr k e = e\<lparr>attrs := (attrs e)(k := None)\<rparr>"

text \<open>Assignments to a child element happen only where the child exists.\<close>

definition set_icon :: "string \<Rightarrow> elem \<Rightarrow> elem" where
  "set_icon c e = e\<lparr>icon := map_option (\<lambda>_. c) (icon e)\<rparr>"

definition set_img :: "string \<Rightarrow> elem \<Rightarrow> elem" where
  "set_img c e = e\<lparr>img := map_option (\<lambda>_. c) (img e)\<rparr>"

definition on_elem :: "string \<Rightarrow> (elem \<Rightarrow> elem) \<Rightarrow> doc \<Rightarrow> doc" where
  "on_elem i f d = (case d i of None \<Rightarrow> d | Some e \<Rightarrow> d(i \<mapsto> f e))"

definition on_class :: "string \<Rightarrow> (elem \<Rightarrow> elem) \<Rightarrow> doc \<Rightarrow> doc" where
  "on_class c f d = (\<lambda>i. map_option (\<lambda>e. if c \<in> cls e then f e else e) (d i))"

section \<open>Requests, answers and notices\<close>

text \<open>
  What a script asks of the browser: a request (\<open>JSON.stringify(v)\<close> bodies are kept as the value
  \<open>v\<close>, form bodies as their parameters), the browser's alert box, or a notice of the page
  (\<open>showAlert(kind, message, timeout)\<close>).
\<close>

datatype request = Get string | PostJson string js | PostForm string "(string \<times> string) list" | PostText string string
  | Delete string

datatype effect = Send request | AlertBox "js list" | Notice string "js list" nat | Overlay string "js list"
  | Redirect string | Confirm "js list"

text \<open>
  How a fetch settles: it is rejected with a message, or answered with a status, a text and what
  \<open>JSON.parse\<close> makes of that text (\<open>None\<close> where it throws).
\<close>

record response =
  status :: int
  text_body :: string
  parsed :: "js option"

datatype outcome = Rejected string | Answer response

definition resp_ok :: "response \<Rightarrow> bool" where
  "resp_ok r \<longleftrightarrow> 200 \<le> status r \<and> status r \<le> 299"

section \<open>Number inputs\<close>

text \<open>A valid floating-point number of HTML: \<open>-?(\d+|\d*\.\d+)([eE][+-]?\d+)?\<close>; a number input keeps no other text.\<close>

definition valid_exponent :: "string \<Rightarrow> bool" where
  "valid_exponent t =
     (case t of
        [] \<Rightarrow> True
      | c # r \<Rightarrow> (c = CHR ''e'' \<or> c = CHR ''E'') \<and>
          (let u = snd (take_sign r) in u \<noteq> [] \<and> list_all is_digit u))"

definition valid_float :: "string \<Rightarrow> bool" where
  "valid_float t =
     (let u = (case t of [] \<Rightarrow> [] | c # r \<Rightarrow> if c = CHR ''-'' then r else t);
          whole = takeWhile is_digit u; r = dropWhile is_digit u
      in case r of
           [] \<Rightarrow> whole \<noteq> []
         | c # s \<Rightarrow>
             if c = CHR ''.'' then takeWhile is_digit s \<noteq> [] \<and> valid_exponent (dropWhile is_digit s)
             else whole \<noteq> [] \<and> valid_exponent r)"

definition number_input :: "string \<Rightarrow> string" where
  "number_input t = (if valid_float t then t else [])"

lemma exponent_chars: "valid_exponent t \<Longrightarrow> c \<in> set t \<Longrightarrow> is_digit c \<or> c \<in> set ''-+.eE''"
proof (cases t)
  case (Cons d r)
  assume v: "valid_exponent t" and c: "c \<in> set t"
  have "set r \<subseteq> set (snd (take_sign r)) \<union> {CHR ''-'', CHR ''+''}" by (cases r) auto
  then show ?thesis using v c Cons by (auto simp: valid_exponent_def Let_def list_all_iff)
qed simp

lemma take_drop_set: "c \<in> set u \<Longrightarrow> c \<in> set (takeWhile P u) \<or> c \<in> set (dropWhile P u)"
  by (metis Un_iff set_append takeWhile_dropWhile_id)

lemma float_chars:
  assumes "valid_float t" "c \<in> set t"
  shows "is_digit c \<or> c \<in> set ''-+.eE''"
proof -
  define u where "u = (case t of [] \<Rightarrow> [] | c # r \<Rightarrow> if c = CHR ''-'' then r else t)"
  have "c = CHR ''-'' \<or> c \<in> set u"
  proof (cases t)
    case (Cons d r)
    then show ?thesis using assms(2) by (cases "d = CHR ''-''") (simp_all add: u_def)
  qed (use assms(2) in simp)
  moreover have "is_digit c \<or> c \<in> set ''-+.eE''" if "c \<in> set (dropWhile is_digit u)"
  proof (cases "dropWhile is_digit u")
    case (Cons d s)
    then show ?thesis
      using assms(1) that exponent_chars [of "dropWhile is_digit s" c] exponent_chars [of "d # s" c] take_drop_set [of c s is_digit]
      by (auto simp: valid_float_def Let_def u_def [symmetric] dest: set_takeWhileD split: if_splits)
  next
    case Nil
    show ?thesis using that unfolding Nil by simp
  qed
  ultimately show ?thesis using take_drop_set [of c u is_digit] by (auto dest: set_takeWhileD)
qed

lemma float_solid: "valid_float t \<Longrightarrow> c \<in> set t \<Longrightarrow> \<not> is_space c \<and> c \<noteq> CHR '','' "
  using float_chars [of t c] by (auto simp: is_space_def is_digit_def)

lemma float_nonempty: "valid_float t \<Longrightarrow> t \<noteq> []"
  by (auto simp: valid_float_def)

lemma show_nat_span: "takeWhile is_digit (show_nat n) = show_nat n" "dropWhile is_digit (show_nat n) = []"
  using show_nat_digits by (simp_all add: takeWhile_eq_all_conv)

lemma valid_show_nat: "valid_float (show_nat n)" "valid_float (CHR ''-'' # show_nat n)"
proof -
  have "CHR ''-'' \<notin> set (show_nat n)" using show_nat_digits [of "CHR ''-''" n] by (auto simp: is_digit_def)
  then have u: "(case show_nat n of [] \<Rightarrow> [] | c # r \<Rightarrow> if c = CHR ''-'' then r else show_nat n) = show_nat n"
    by (cases "show_nat n") auto
  show "valid_float (show_nat n)" unfolding valid_float_def u Let_def show_nat_span by simp
  show "valid_float (CHR ''-'' # show_nat n)" by (simp add: valid_float_def Let_def show_nat_span)
qed

lemma number_input_show_int [simp]: "number_input (show_int i) = show_int i"
  using valid_show_nat by (simp add: number_input_def show_int_def)

section \<open>Observations\<close>

definition has_class :: "doc \<Rightarrow> string \<Rightarrow> string \<Rightarrow> bool" where
  "has_class d i c = (case d i of None \<Rightarrow> False | Some e \<Rightarrow> c \<in> cls e)"

definition present :: "doc \<Rightarrow> string \<Rightarrow> bool" where
  "present d i \<longleftrightarrow> d i \<noteq> None"

lemma on_elem_other [dom_simps]: "j \<noteq> i \<Longrightarrow> on_elem i f d j = d j"
  by (simp add: on_elem_def split: option.split)

lemma on_elem_same [dom_simps]: "on_elem i f d i = map_option f (d i)"
  by (simp add: on_elem_def split: option.split)

lemma on_elem_apply: "on_elem i f d j = (if i = j then map_option f (d j) else d j)"
  by (simp add: on_elem_def split: option.split)

lemma on_class_apply [dom_simps]: "on_class c f d i = map_option (\<lambda>e. if c \<in> cls e then f e else e) (d i)"
  by (simp add: on_class_def)

lemma present_on_elem [simp]: "present (on_elem i f d) j = present d j"
  by (auto simp: present_def on_elem_def split: option.split)

lemma present_on_class [simp]: "present (on_class c f d) j = present d j"
  by (simp add: present_def on_class_def)

lemma cls_simps [simp]:
  "cls (class_add c e) = insert c (cls e)"
  "cls (class_remove c e) = cls e - {c}"
  "cls (class_toggle c b e) = (if b then insert c (cls e) else cls e - {c})"
  "cls (set_content ps e) = cls e"
  "cls (set_attr k v e) = cls e"
  "cls (remove_attr k e) = cls e"
  "cls (set_icon s e) = cls e"
  "cls (set_img s e) = cls e"
  by (simp_all add: class_add_def class_remove_def class_toggle_def set_content_def set_attr_def
      remove_attr_def set_icon_def set_img_def)

lemma content_simps [simp]:
  "content (class_add c e) = content e"
  "content (class_remove c e) = content e"
  "content (class_toggle c b e) = content e"
  "content (set_content ps e) = ps"
  "content (set_attr k v e) = content e"
  "content (remove_attr k e) = content e"
  "content (set_icon s e) = content e"
  "content (set_img s e) = content e"
  by (simp_all add: class_add_def class_remove_def class_toggle_def set_content_def set_attr_def
      remove_attr_def set_icon_def set_img_def)

lemma has_class_on_elem [dom_simps]:
  "has_class (on_elem i f d) j c =
     (if i = j then (case d j of None \<Rightarrow> False | Some e \<Rightarrow> c \<in> cls (f e)) else has_class d j c)"
  by (auto simp: has_class_def on_elem_def split: option.splits)

text \<open>The classes of every element: what the status buttons show.\<close>

definition view :: "doc \<Rightarrow> string \<Rightarrow> string set option" where
  "view d i = map_option cls (d i)"

lemma has_class_view: "has_class d i c = (case view d i of None \<Rightarrow> False | Some s \<Rightarrow> c \<in> s)"
  by (simp add: has_class_def view_def split: option.splits)

lemma present_view: "present d i \<longleftrightarrow> view d i \<noteq> None"
  by (simp add: present_def view_def)

lemma view_on_elem: "view (on_elem i f d) j = (if i = j then map_option (cls \<circ> f) (d j) else view d j)"
  by (simp add: view_def on_elem_apply option.map_comp)

lemma view_on_elem_keep [dom_simps]: "(\<And>e. cls (f e) = cls e) \<Longrightarrow> view (on_elem i f d) = view d"
  by (rule ext) (simp add: view_def on_elem_apply option.map_comp comp_def)

lemma view_on_elem_cls [dom_simps]:
  "(\<And>e. cls (f e) = g (cls e)) \<Longrightarrow> view (on_elem i f d) j = (if i = j then map_option g (view d j) else view d j)"
  by (simp add: view_def on_elem_apply option.map_comp comp_def)

lemma view_on_class_keep [dom_simps]: "(\<And>e. cls (f e) = cls e) \<Longrightarrow> view (on_class c f d) = view d"
proof
  fix i
  assume "\<And>e. cls (f e) = cls e"
  then show "view (on_class c f d) i = view d i"
    by (cases "d i") (simp_all add: view_def on_class_def)
qed

lemma has_class_present: "has_class d i c \<Longrightarrow> present d i"
  by (auto simp: has_class_def present_def split: option.splits)

lemma presentE: "present d i \<Longrightarrow> (\<And>e. d i = Some e \<Longrightarrow> P) \<Longrightarrow> P"
  by (auto simp: present_def)

end
