(* ===== verification/Heartbeat_Ui.thy ===== *)
theory Heartbeat_Ui
  imports Dom
begin

text \<open>
  The status reducer of \<open>main.js\<close>: \<open>updateHeartbeatUi\<close>, which folds one status message of the
  camera (from the event stream, from one of the four pollers or from a toggle's response) into the
  page, with the state it keeps between messages: the recording flags, the latch of the physical
  privacy toggle and the rolling window of CPU samples. One definition per block of the function, in
  its order. The formatting of the clock by the browser's locale data is the parameter \<open>fmt\<close>
  (milliseconds and time zone to text, \<open>None\<close> where \<open>toLocaleString\<close> throws for an unknown zone).
\<close>

section \<open>State\<close>

record ui =
  uidoc :: doc
  rec_ch0 :: bool
  rec_ch1 :: bool
  physPrivDesired :: "bool option"
  physPrivDesiredAt :: int
  cpuSamples :: "int list"
  prevCpuTotal :: "rat option"
  prevCpuIdle :: rat \<comment> \<open>\<open>null\<close> before the first sample, where the only use reads it as 0\<close>

definition CPU_AVG_WINDOW :: nat where
  "CPU_AVG_WINDOW = 4"

section \<open>The recorder icons\<close>

text \<open>
  \<open>recordingState[`ch${channel}`]\<close>: undefined for any channel but 0 and 1, and then
  \<open>classList.toggle\<close> without a force flips the class.
\<close>

definition recording_of :: "ui \<Rightarrow> jnum \<Rightarrow> bool option" where
  "recording_of u ch = (if ch = Fin 0 then Some (rec_ch0 u) else if ch = Fin 1 then Some (rec_ch1 u) else None)"

definition class_force :: "string \<Rightarrow> bool option \<Rightarrow> elem \<Rightarrow> elem" where
  "class_force c b e = class_toggle c (case b of Some b \<Rightarrow> b | None \<Rightarrow> c \<notin> cls e) e"

definition button_channel :: "elem \<Rightarrow> jnum" where
  "button_channel e = (case attrs e ''data-channel'' of None \<Rightarrow> NaN | Some s \<Rightarrow> parse_int None s)"

definition recorder_icon :: "ui \<Rightarrow> elem \<Rightarrow> elem" where
  "recorder_icon u e =
     (let r = recording_of u (button_channel e)
      in class_force ''recorder-active'' r (class_force ''active'' r (class_remove ''pending'' e)))"

definition updateRecordingIcons :: "ui \<Rightarrow> ui" where
  "updateRecordingIcons u =
     u\<lparr>uidoc := on_elem ''recorder-ch1'' (recorder_icon u) (on_elem ''recorder-ch0'' (recorder_icon u) (uidoc u))\<rparr>"

definition updateRecordingState :: "bool \<Rightarrow> bool \<Rightarrow> ui \<Rightarrow> ui" where
  "updateRecordingState c0 c1 u = updateRecordingIcons (u\<lparr>rec_ch0 := c0, rec_ch1 := c1\<rparr>)"

section \<open>Clock, gain, uptime\<close>

definition resolveDeviceTimezone :: "js \<Rightarrow> string" where
  "resolveDeviceTimezone ui_config =
     (let uiConfig = js_or ui_config (JObj []);
          device = getp uiConfig ''device'';
          deviceTimezone =
            (if truthy device \<and> is_str (getp device ''timezone'')
             then trim (str_or_empty (getp device ''timezone'')) else [])
      in if deviceTimezone \<noteq> [] then deviceTimezone
         else trim (str_or_empty (getp uiConfig ''timezone'')))"

type_synonym clock_format = "jnum \<Rightarrow> string \<Rightarrow> string option"

definition hb_time :: "clock_format \<Rightarrow> js \<Rightarrow> js \<Rightarrow> doc \<Rightarrow> doc option" where
  "hb_time fmt ui_config json d =
     (let t = getp json ''time_now''
      in if present d ''time-now'' \<and> \<not> nullish t \<and> t \<noteq> JStr []
         then (let configuredTimezone = resolveDeviceTimezone ui_config;
                   heartbeatTimezone = trim (str_or_empty (getp json ''timezone''));
                   timezoneLabel = (if configuredTimezone \<noteq> [] then configuredTimezone else heartbeatTimezone);
                   timeZoneId = (if timezoneLabel \<noteq> [] then replace_char (CHR '' '') (CHR ''_'') timezoneLabel
                                 else ''UTC'')
               in case fmt (num_scale 1000 (to_number t)) timeZoneId of
                    None \<Rightarrow> None
                  | Some formatted \<Rightarrow>
                      Some (on_elem ''time-now''
                        (set_content (if timezoneLabel \<noteq> [] then [JStr formatted, JStr '' '', JStr timezoneLabel]
                                      else [JStr formatted])) d))
         else Some d)"

definition has_brightness :: "js \<Rightarrow> bool" where
  "has_brightness json \<longleftrightarrow>
     (let v = getp json ''daynight_brightness''
      in v \<noteq> JUndef \<and> v \<noteq> JNull \<and> v \<noteq> JStr ''unknown'' \<and> v \<noteq> JStr [])"

definition has_total_gain :: "js \<Rightarrow> bool" where
  "has_total_gain json \<longleftrightarrow>
     (let v = getp json ''total_gain''
      in v \<noteq> JUndef \<and> v \<noteq> JNull \<and> v \<noteq> JStr ''unknown'' \<and> v \<noteq> JStr [] \<and> num_ge (to_number v) 0)"

definition hb_gain :: "js \<Rightarrow> doc \<Rightarrow> doc" where
  "hb_gain json d =
     (if has_total_gain json \<or> has_brightness json
      then on_class ''dnd-gain''
             (set_content [if has_total_gain json then getp json ''total_gain''
                           else getp json ''daynight_brightness'']) d
      else d)"

text \<open>The label's invisible variation selector (U+FE0F) is outside the model's code units.\<close>

definition hb_uptime :: "js \<Rightarrow> doc \<Rightarrow> doc" where
  "hb_uptime json d =
     (let v = getp json ''uptime''
      in if v \<noteq> JUndef \<and> v \<noteq> JStr [] then on_elem ''uptime'' (set_content [JStr ''Uptime: '', v]) d else d)"

section \<open>The status buttons\<close>

definition mark_button :: "string \<Rightarrow> bool \<Rightarrow> doc \<Rightarrow> doc" where
  "mark_button i b = on_elem i (\<lambda>e. class_toggle ''active'' b (class_remove ''pending'' e))"

definition hb_motion :: "js \<Rightarrow> doc \<Rightarrow> doc" where
  "hb_motion json d =
     (let v = getp json ''motion_enabled''
      in if v \<noteq> JUndef then mark_button ''motion'' (v = JBool True) d else d)"

definition hb_privacy :: "js \<Rightarrow> doc \<Rightarrow> doc" where
  "hb_privacy json d =
     (let v = getp json ''privacy_enabled''
      in if v \<noteq> JUndef then mark_button ''privacy'' (v = JBool True) d else d)"

definition hb_wireguard :: "js \<Rightarrow> doc \<Rightarrow> doc" where
  "hb_wireguard json d =
     (let v = getp json ''wg_status''
      in if v \<noteq> JUndef then mark_button ''wireguard'' (v = jint 1) d else d)"

definition auto_enabled :: "js \<Rightarrow> bool" where
  "auto_enabled json \<longleftrightarrow>
     getp json ''daynight_enabled'' = JBool True \<or> getp json ''daynight_enabled'' = jint 1"

definition hb_daynight :: "js \<Rightarrow> doc \<Rightarrow> doc" where
  "hb_daynight json d =
     (let m = getp json ''daynight_mode''; isNight = (m = JStr ''night''); isAuto = auto_enabled json
      in if m \<noteq> JUndef
         then (let d1 = on_elem ''daynight''
                          (\<lambda>e. set_icon (if isNight then ''bi bi-moon-stars'' else ''bi bi-sun'')
                               (class_toggle ''is-day'' (\<not> isNight)
                                 (class_toggle ''is-night'' isNight
                                   (class_toggle ''active'' isAuto (class_remove ''pending'' e))))) d;
                   d2 = (if present d ''daynight''
                         then on_elem ''daynight-text''
                                (set_content [JStr (if isAuto then ''Auto'' else if isNight then ''Night'' else ''Day'')]) d1
                         else d1);
                   d3 = on_elem ''day'' (class_toggle ''active'' (\<not> isAuto \<and> m = JStr ''day'')) d2
               in on_elem ''night'' (class_toggle ''active'' (\<not> isAuto \<and> isNight)) d3)
         else d)"

definition hb_color :: "js \<Rightarrow> doc \<Rightarrow> doc" where
  "hb_color json d =
     (let v = getp json ''color_mode'' in if nullish v then d else mark_button ''color'' (v = jint 0) d)"

definition hb_ircut :: "js \<Rightarrow> doc \<Rightarrow> doc" where
  "hb_ircut json d =
     (let v = getp json ''ircut_state'' in if nullish v then d else mark_button ''ircut'' (v = jint 1) d)"

definition hb_ir850 :: "js \<Rightarrow> doc \<Rightarrow> doc" where
  "hb_ir850 json d =
     (let v = getp json ''ir850_state'' in if nullish v then d else mark_button ''ir850'' (v = jint 1) d)"

definition hb_ir940 :: "js \<Rightarrow> doc \<Rightarrow> doc" where
  "hb_ir940 json d =
     (let v = getp json ''ir940_state'' in if nullish v then d else mark_button ''ir940'' (v = jint 1) d)"

definition hb_white :: "js \<Rightarrow> doc \<Rightarrow> doc" where
  "hb_white json d =
     (let v = getp json ''white_state'' in if nullish v then d else mark_button ''white'' (v = jint 1) d)"

definition hb_microphone :: "js \<Rightarrow> doc \<Rightarrow> doc" where
  "hb_microphone json d =
     (let v = getp json ''mic_muted''; isActive = (v \<noteq> JBool True)
      in if v \<noteq> JUndef
         then on_elem ''microphone'' (\<lambda>e. set_img (if isActive then ''/a/mic.svg'' else ''/a/mic-mute.svg'')
                (class_toggle ''active'' isActive (class_remove ''pending'' e))) d
         else d)"

definition hb_speaker :: "js \<Rightarrow> doc \<Rightarrow> doc" where
  "hb_speaker json d =
     (let v = getp json ''spk_enabled''; isActive = (v = JBool True)
      in if v \<noteq> JUndef
         then on_elem ''speaker'' (\<lambda>e. set_img (if isActive then ''/a/volume-up.svg'' else ''/a/volume-mute.svg'')
                (class_toggle ''active'' isActive (class_remove ''pending'' e))) d
         else d)"

definition hb_auto :: "js \<Rightarrow> doc \<Rightarrow> doc" where
  "hb_auto json d =
     (let v = getp json ''daynight_enabled'' in if nullish v then d else mark_button ''auto'' (v = jint 1) d)"

section \<open>Physical privacy, Shabbat indicator\<close>

text \<open>
  While a toggle of the user is settling (\<open>physPrivDesired\<close> set), a polled value that differs from
  the requested one is ignored for 15 seconds.
\<close>

definition hb_physical_privacy :: "int \<Rightarrow> js \<Rightarrow> ui \<Rightarrow> ui" where
  "hb_physical_privacy now json u =
     (let v = getp json ''physical_privacy_active''; ppVal = (v = JBool True)
      in if v \<noteq> JUndef \<and> present (uidoc u) ''physical-privacy''
         then (case physPrivDesired u of
                 None \<Rightarrow> u\<lparr>uidoc := mark_button ''physical-privacy'' ppVal (uidoc u)\<rparr>
               | Some want \<Rightarrow>
                   if ppVal = want \<or> now - physPrivDesiredAt u > 15000
                   then u\<lparr>physPrivDesired := None, uidoc := mark_button ''physical-privacy'' ppVal (uidoc u)\<rparr>
                   else u)
         else u)"

definition hb_shabbat :: "js \<Rightarrow> doc \<Rightarrow> doc" where
  "hb_shabbat json d =
     (let v = getp json ''shabbat_ready''; ready = (v = JBool True)
      in if v \<noteq> JUndef
         then on_elem ''shabbat-indicator''
                (\<lambda>e. class_toggle ''text-bg-secondary'' (\<not> ready) (class_toggle ''text-bg-success'' ready
                  (set_content [JStr (if ready then ''Shabbat: Ready'' else ''Shabbat: Not Ready'')] e))) d
         else d)"

section \<open>Health: CPU, memory, storage\<close>

definition clamp_pct :: "int \<Rightarrow> int" where
  "clamp_pct p = (if p < 0 then 0 else if 100 < p then 100 else p)"

definition push_sample :: "int \<Rightarrow> int list \<Rightarrow> int list" where
  "push_sample p xs = (let ys = xs @ [p] in if length ys > CPU_AVG_WINDOW then tl ys else ys)"

definition sample_avg :: "int list \<Rightarrow> int" where
  "sample_avg xs = math_round (of_int (sum_list xs) / of_nat (length xs))"

definition show_cpu :: "int \<Rightarrow> doc \<Rightarrow> doc" where
  "show_cpu p =
     on_elem ''sys-cpu'' (\<lambda>e. class_toggle ''text-warning'' (90 \<le> p) (set_content [JStr ''avg '', jint p, JStr ''%''] e))"

definition hb_cpu :: "js \<Rightarrow> ui \<Rightarrow> ui" where
  "hb_cpu json u =
     (if getp json ''cpu_total'' \<noteq> JUndef \<and> getp json ''cpu_idle'' \<noteq> JUndef \<and> present (uidoc u) ''sys-cpu''
      then (case (to_number (getp json ''cpu_total''), to_number (getp json ''cpu_idle'')) of
              (Fin tot, Fin idle) \<Rightarrow>
                (let u1 = (case prevCpuTotal u of
                       Some prev \<Rightarrow>
                         if tot > prev
                         then (let dt = tot - prev; di = idle - prevCpuIdle u;
                                   p = clamp_pct (if dt > 0 then math_round (((dt - di) * 100) / dt) else 0);
                                   xs = push_sample p (cpuSamples u)
                               in u\<lparr>cpuSamples := xs, uidoc := show_cpu (sample_avg xs) (uidoc u)\<rparr>)
                         else u
                     | None \<Rightarrow>
                         if tot > 0
                         then (let p = clamp_pct (math_round (((tot - idle) * 100) / tot))
                               in u\<lparr>cpuSamples := cpuSamples u @ [p], uidoc := show_cpu p (uidoc u)\<rparr>)
                         else u)
                 in u1\<lparr>prevCpuTotal := Some tot, prevCpuIdle := idle\<rparr>)
            | _ \<Rightarrow> u)
      else u)"

definition hb_mem :: "js \<Rightarrow> doc \<Rightarrow> doc" where
  "hb_mem json d =
     (let v = getp json ''mem_used_pct''
      in if v \<noteq> JUndef then on_elem ''sys-mem'' (set_content [v, JStr ''%'']) d else d)"

definition hb_mem_mb :: "js \<Rightarrow> doc \<Rightarrow> doc" where
  "hb_mem_mb json d =
     (let used = getp json ''mem_used_mb''; avail = getp json ''mem_total_mb''
      in if used \<noteq> JUndef \<and> avail \<noteq> JUndef
         then on_elem ''sys-mem-mb'' (set_content [JStr ''('', used, JStr ''/'', avail, JStr '' MB)'']) d else d)"

definition free_label :: "jnum \<Rightarrow> js list" where
  "free_label n =
     (case n of
        Fin kb \<Rightarrow> if kb < 1024 then [JNum (Fin kb), JStr '' KB'']
                  else if kb < 1048576 then [JStr (to_fixed 1 (kb / 1024)), JStr '' MB'']
                  else [JStr (to_fixed 1 (kb / 1048576)), JStr '' GB'']
      | _ \<Rightarrow> [JStr ''--''])"

definition hb_storage :: "js \<Rightarrow> doc \<Rightarrow> doc" where
  "hb_storage json d =
     (let pct = getp json ''storage_used_pct''; free = getp json ''storage_free_kb''
      in if pct \<noteq> JUndef \<and> free \<noteq> JUndef
         then on_elem ''sys-storage''
                (set_content ([JStr ''Storage '', pct, JStr ''% free ''] @ free_label (to_number free))) d
         else d)"

section \<open>The reducer\<close>

definition on_doc :: "(doc \<Rightarrow> doc) \<Rightarrow> ui \<Rightarrow> ui" where
  "on_doc f u = u\<lparr>uidoc := f (uidoc u)\<rparr>"

definition hb_buttons :: "js \<Rightarrow> doc \<Rightarrow> doc" where
  "hb_buttons json =
     hb_auto json \<circ> hb_speaker json \<circ> hb_microphone json \<circ> hb_white json \<circ> hb_ir940 json \<circ> hb_ir850 json
     \<circ> hb_ircut json \<circ> hb_color json \<circ> hb_daynight json \<circ> hb_wireguard json \<circ> hb_privacy json \<circ> hb_motion json"

text \<open>The page and the reducer's state after a message, and whether it ran to its end.\<close>

definition updateHeartbeatUi :: "clock_format \<Rightarrow> js \<Rightarrow> int \<Rightarrow> js \<Rightarrow> ui \<Rightarrow> ui \<times> bool" where
  "updateHeartbeatUi fmt ui_config now json u =
     (if \<not> truthy json then (u, True)
      else (case hb_time fmt ui_config json (uidoc u) of
        None \<Rightarrow> (u, False)
      | Some d \<Rightarrow>
          (let u1 = on_doc (hb_uptime json \<circ> hb_gain json) (u\<lparr>uidoc := d\<rparr>);
               u2 = updateRecordingState (getp json ''rec_ch0'' = JBool True) (getp json ''rec_ch1'' = JBool True) u1;
               u3 = on_doc (hb_buttons json) u2;
               u4 = on_doc (hb_shabbat json) (hb_physical_privacy now json u3);
               u5 = on_doc (hb_storage json \<circ> hb_mem_mb json \<circ> hb_mem json) (hb_cpu json u4)
           in (u5, True))))"


section \<open>Vocabulary of the properties\<close>

text \<open>The clock of the page can be formatted, so the message is processed to its end.\<close>

definition clock_ok :: "clock_format \<Rightarrow> js \<Rightarrow> js \<Rightarrow> ui \<Rightarrow> bool" where
  "clock_ok fmt cfg json u \<longleftrightarrow> hb_time fmt cfg json (uidoc u) \<noteq> None"

text \<open>
  The contract of the status buttons: the button's id, the message key that drives it, the values that
  leave it alone and the values that show it active.
\<close>

definition status_table :: "(string \<times> string \<times> (js \<Rightarrow> bool) \<times> (js \<Rightarrow> bool)) list" where
  "status_table =
     [(''motion'', ''motion_enabled'', \<lambda>v. v = JUndef, \<lambda>v. v = JBool True),
      (''privacy'', ''privacy_enabled'', \<lambda>v. v = JUndef, \<lambda>v. v = JBool True),
      (''wireguard'', ''wg_status'', \<lambda>v. v = JUndef, \<lambda>v. v = jint 1),
      (''color'', ''color_mode'', nullish, \<lambda>v. v = jint 0),
      (''ircut'', ''ircut_state'', nullish, \<lambda>v. v = jint 1),
      (''ir850'', ''ir850_state'', nullish, \<lambda>v. v = jint 1),
      (''ir940'', ''ir940_state'', nullish, \<lambda>v. v = jint 1),
      (''white'', ''white_state'', nullish, \<lambda>v. v = jint 1),
      (''microphone'', ''mic_muted'', \<lambda>v. v = JUndef, \<lambda>v. v \<noteq> JBool True),
      (''speaker'', ''spk_enabled'', \<lambda>v. v = JUndef, \<lambda>v. v = JBool True),
      (''auto'', ''daynight_enabled'', nullish, \<lambda>v. v = jint 1)]"

text \<open>The CPU window: at most four samples, all percentages, none before the first counters.\<close>

definition cpu_inv :: "ui \<Rightarrow> bool" where
  "cpu_inv u \<longleftrightarrow> length (cpuSamples u) \<le> CPU_AVG_WINDOW \<and> list_all (\<lambda>p. 0 \<le> p \<and> p \<le> 100) (cpuSamples u)
     \<and> (prevCpuTotal u = None \<longrightarrow> cpuSamples u = [])"

text \<open>A page with the elements the examples below speak of.\<close>

definition sample_doc :: doc where
  "sample_doc =
     [''motion'' \<mapsto> blank_elem\<lparr>cls := {''btn'', ''pending''}\<rparr>,
      ''daynight'' \<mapsto> blank_elem, ''day'' \<mapsto> blank_elem, ''night'' \<mapsto> blank_elem\<lparr>cls := {''active''}\<rparr>,
      ''recorder-ch0'' \<mapsto> blank_elem\<lparr>attrs := [''data-channel'' \<mapsto> ''0'']\<rparr>,
      ''physical-privacy'' \<mapsto> blank_elem\<lparr>cls := {''pending'', ''active''}\<rparr>,
      ''sys-cpu'' \<mapsto> blank_elem]"

definition sample_ui :: ui where
  "sample_ui = \<lparr>uidoc = sample_doc, rec_ch0 = True, rec_ch1 = False, physPrivDesired = Some True,
     physPrivDesiredAt = 1000, cpuSamples = [10, 20, 30, 40], prevCpuTotal = Some 1000, prevCpuIdle = 500\<rparr>"

section \<open>The contract of a status block\<close>

text \<open>
  Eleven blocks of the reducer share one contract: a message value either leaves the page alone or
  marks exactly one button. Their frame, effect and idempotence are proved once.
\<close>

locale status_block =
  fixes blk :: "js \<Rightarrow> doc \<Rightarrow> doc" and i :: string and k :: string
    and ignored :: "js \<Rightarrow> bool" and shows_active :: "js \<Rightarrow> bool"
  assumes view_blk: "view (blk json d) j =
    (if ignored (getp json k) then view d j
     else if i = j then map_option (\<lambda>s. if shows_active (getp json k) then insert ''active'' (s - {''pending''})
                                     else s - {''pending'', ''active''}) (view d j)
     else view d j)"
begin

lemma frame: "j \<noteq> i \<Longrightarrow> view (blk json d) j = view d j"
  by (simp add: view_blk)

lemma keeps: "ignored (getp json k) \<Longrightarrow> view (blk json d) = view d"
  by (rule ext) (simp add: view_blk)

lemma reflects:
  assumes "\<not> ignored (getp json k)" and "view d i = Some s"
  shows "has_class (blk json d) i ''active'' = shows_active (getp json k)"
    and "\<not> has_class (blk json d) i ''pending''"
  using assms by (simp_all add: has_class_view view_blk)

lemma idempotent: "view (blk json (blk json d)) = view (blk json d)"
proof
  show "view (blk json (blk json d)) j = view (blk json d) j" for j
    by (cases "view d j") (auto simp: view_blk)
qed

end

section \<open>What each block does to the classes of the page\<close>

lemma class_force_Some [simp]: "class_force c (Some b) = class_toggle c b"
  by (rule ext) (simp add: class_force_def)

lemma view_mark_button [dom_simps]:
  "view (mark_button i b d) j =
     (if i = j then map_option (\<lambda>s. if b then insert ''active'' (s - {''pending''}) else s - {''pending'', ''active''}) (view d j)
      else view d j)"
  by (cases "d j") (auto simp: mark_button_def view_def on_elem_apply)

lemma mark_button_other [dom_simps]: "j \<noteq> i \<Longrightarrow> mark_button i b d j = d j"
  by (simp add: mark_button_def on_elem_other)

lemma present_mark_button [simp]: "present (mark_button i b d) j = present d j"
  by (simp add: mark_button_def)

lemma view_keepers [dom_simps]:
  "view (hb_gain json d) = view d"
  "view (hb_uptime json d) = view d"
  "view (hb_mem json d) = view d"
  "view (hb_mem_mb json d) = view d"
  "view (hb_storage json d) = view d"
  by (simp_all add: hb_gain_def hb_uptime_def hb_mem_def hb_mem_mb_def hb_storage_def Let_def
      view_on_elem_keep view_on_class_keep)

lemma view_hb_time [dom_simps]: "hb_time fmt cfg json d = Some d' \<Longrightarrow> view d' = view d"
  by (auto simp: hb_time_def Let_def view_on_elem_keep split: if_splits option.splits)

lemma view_recording_other [dom_simps]:
  "i \<noteq> ''recorder-ch0'' \<Longrightarrow> i \<noteq> ''recorder-ch1'' \<Longrightarrow>
     view (uidoc (updateRecordingState c0 c1 u)) i = view (uidoc u) i"
  by (simp add: updateRecordingState_def updateRecordingIcons_def view_on_elem)

lemma view_shabbat_other [dom_simps]: "i \<noteq> ''shabbat-indicator'' \<Longrightarrow> view (hb_shabbat json d) i = view d i"
  by (simp add: hb_shabbat_def Let_def view_on_elem)

lemma view_physical_other [dom_simps]:
  "i \<noteq> ''physical-privacy'' \<Longrightarrow> view (uidoc (hb_physical_privacy now json u)) i = view (uidoc u) i"
  by (simp add: hb_physical_privacy_def Let_def view_mark_button split: option.split)

lemma view_show_cpu_other [dom_simps]: "i \<noteq> ''sys-cpu'' \<Longrightarrow> view (show_cpu p d) i = view d i"
  by (simp add: show_cpu_def view_on_elem)

lemma view_cpu_other [dom_simps]: "i \<noteq> ''sys-cpu'' \<Longrightarrow> view (uidoc (hb_cpu json u)) i = view (uidoc u) i"
  by (auto simp: hb_cpu_def Let_def view_show_cpu_other split: option.splits jnum.splits)

lemma uidoc_on_doc [simp]: "uidoc (on_doc f u) = f (uidoc u)"
  by (simp add: on_doc_def)

lemma view_hb_blocks [dom_simps]:
  "view (hb_motion json d) j = (if getp json ''motion_enabled'' = JUndef then view d j
     else view (mark_button ''motion'' (getp json ''motion_enabled'' = JBool True) d) j)"
  "view (hb_privacy json d) j = (if getp json ''privacy_enabled'' = JUndef then view d j
     else view (mark_button ''privacy'' (getp json ''privacy_enabled'' = JBool True) d) j)"
  "view (hb_wireguard json d) j = (if getp json ''wg_status'' = JUndef then view d j
     else view (mark_button ''wireguard'' (getp json ''wg_status'' = jint 1) d) j)"
  "view (hb_color json d) j = (if nullish (getp json ''color_mode'') then view d j
     else view (mark_button ''color'' (getp json ''color_mode'' = jint 0) d) j)"
  "view (hb_ircut json d) j = (if nullish (getp json ''ircut_state'') then view d j
     else view (mark_button ''ircut'' (getp json ''ircut_state'' = jint 1) d) j)"
  "view (hb_ir850 json d) j = (if nullish (getp json ''ir850_state'') then view d j
     else view (mark_button ''ir850'' (getp json ''ir850_state'' = jint 1) d) j)"
  "view (hb_ir940 json d) j = (if nullish (getp json ''ir940_state'') then view d j
     else view (mark_button ''ir940'' (getp json ''ir940_state'' = jint 1) d) j)"
  "view (hb_white json d) j = (if nullish (getp json ''white_state'') then view d j
     else view (mark_button ''white'' (getp json ''white_state'' = jint 1) d) j)"
  "view (hb_auto json d) j = (if nullish (getp json ''daynight_enabled'') then view d j
     else view (mark_button ''auto'' (getp json ''daynight_enabled'' = jint 1) d) j)"
  "view (hb_microphone json d) j = (if getp json ''mic_muted'' = JUndef then view d j
     else view (mark_button ''microphone'' (getp json ''mic_muted'' \<noteq> JBool True) d) j)"
  "view (hb_speaker json d) j = (if getp json ''spk_enabled'' = JUndef then view d j
     else view (mark_button ''speaker'' (getp json ''spk_enabled'' = JBool True) d) j)"
  by (simp_all add: hb_motion_def hb_privacy_def hb_wireguard_def hb_color_def hb_ircut_def hb_ir850_def
      hb_ir940_def hb_white_def hb_auto_def hb_microphone_def hb_speaker_def Let_def mark_button_def
      view_on_elem comp_def)

lemma view_daynight_other [dom_simps]:
  "i \<notin> {''daynight'', ''day'', ''night''} \<Longrightarrow> view (hb_daynight json d) i = view d i"
  by (auto simp: hb_daynight_def Let_def view_on_elem view_on_elem_keep)

lemma view_daynight:
  assumes "getp json ''daynight_mode'' \<noteq> JUndef"
  shows "view (hb_daynight json d) ''day'' = map_option
          (cls \<circ> class_toggle ''active'' (\<not> auto_enabled json \<and> getp json ''daynight_mode'' = JStr ''day'')) (d ''day'')"
    and "view (hb_daynight json d) ''night'' = map_option
          (cls \<circ> class_toggle ''active'' (\<not> auto_enabled json \<and> getp json ''daynight_mode'' = JStr ''night'')) (d ''night'')"
    and "view (hb_daynight json d) ''daynight'' = map_option
          (\<lambda>e. cls (class_toggle ''is-day'' (getp json ''daynight_mode'' \<noteq> JStr ''night'')
                    (class_toggle ''is-night'' (getp json ''daynight_mode'' = JStr ''night'')
                      (class_toggle ''active'' (auto_enabled json) (class_remove ''pending'' e))))) (d ''daynight'')"
  using assms by (simp_all only: hb_daynight_def Let_def if_True not_False_eq_True if_not_P if_P)
    (simp_all add: view_on_elem on_elem_apply view_def option.map_comp comp_def del: cls_simps(3))

lemma view_update:
  assumes "truthy json" and "clock_ok fmt cfg json u"
  obtains d where "\<And>i. i \<notin> {''recorder-ch0'', ''recorder-ch1''} \<Longrightarrow> view d i = view (uidoc u) i"
    and "\<And>i. i \<notin> {''shabbat-indicator'', ''physical-privacy'', ''sys-cpu''} \<Longrightarrow>
           view (uidoc (fst (updateHeartbeatUi fmt cfg now json u))) i = view (hb_buttons json d) i"
proof -
  obtain d0 where d0: "hb_time fmt cfg json (uidoc u) = Some d0"
    using assms(2) by (auto simp: clock_ok_def)
  define u1 where "u1 = on_doc (hb_uptime json \<circ> hb_gain json) (u\<lparr>uidoc := d0\<rparr>)"
  define u2 where "u2 = updateRecordingState (getp json ''rec_ch0'' = JBool True) (getp json ''rec_ch1'' = JBool True) u1"
  show thesis
  proof
    show "view (uidoc u2) i = view (uidoc u) i" if "i \<notin> {''recorder-ch0'', ''recorder-ch1''}" for i
      using that d0 by (simp add: u2_def u1_def dom_simps)
    show "view (uidoc (fst (updateHeartbeatUi fmt cfg now json u))) i = view (hb_buttons json (uidoc u2)) i"
      if "i \<notin> {''shabbat-indicator'', ''physical-privacy'', ''sys-cpu''}" for i
      using that assms(1) d0
      by (simp add: updateHeartbeatUi_def Let_def dom_simps flip: u1_def u2_def)
  qed
qed


lemmas status_blocks = hb_motion_def hb_privacy_def hb_wireguard_def hb_color_def hb_ircut_def hb_ir850_def
  hb_ir940_def hb_white_def hb_auto_def hb_microphone_def hb_speaker_def

interpretation motion: status_block hb_motion "''motion''" "''motion_enabled''" "\<lambda>v. v = JUndef" "\<lambda>v. v = JBool True"
  by unfold_locales (simp add: dom_simps)

interpretation privacy: status_block hb_privacy "''privacy''" "''privacy_enabled''" "\<lambda>v. v = JUndef" "\<lambda>v. v = JBool True"
  by unfold_locales (simp add: dom_simps)

interpretation wireguard: status_block hb_wireguard "''wireguard''" "''wg_status''" "\<lambda>v. v = JUndef" "\<lambda>v. v = jint 1"
  by unfold_locales (simp add: dom_simps)

interpretation color: status_block hb_color "''color''" "''color_mode''" nullish "\<lambda>v. v = jint 0"
  by unfold_locales (simp add: dom_simps)

interpretation ircut: status_block hb_ircut "''ircut''" "''ircut_state''" nullish "\<lambda>v. v = jint 1"
  by unfold_locales (simp add: dom_simps)

interpretation ir850: status_block hb_ir850 "''ir850''" "''ir850_state''" nullish "\<lambda>v. v = jint 1"
  by unfold_locales (simp add: dom_simps)

interpretation ir940: status_block hb_ir940 "''ir940''" "''ir940_state''" nullish "\<lambda>v. v = jint 1"
  by unfold_locales (simp add: dom_simps)

interpretation white: status_block hb_white "''white''" "''white_state''" nullish "\<lambda>v. v = jint 1"
  by unfold_locales (simp add: dom_simps)

interpretation microphone: status_block hb_microphone "''microphone''" "''mic_muted''" "\<lambda>v. v = JUndef" "\<lambda>v. v \<noteq> JBool True"
  by unfold_locales (simp add: dom_simps)

interpretation speaker: status_block hb_speaker "''speaker''" "''spk_enabled''" "\<lambda>v. v = JUndef" "\<lambda>v. v = JBool True"
  by unfold_locales (simp add: dom_simps)

interpretation auto: status_block hb_auto "''auto''" "''daynight_enabled''" nullish "\<lambda>v. v = jint 1"
  by unfold_locales (simp add: dom_simps)

lemmas block_views = motion.view_blk privacy.view_blk wireguard.view_blk color.view_blk ircut.view_blk
  ir850.view_blk ir940.view_blk white.view_blk microphone.view_blk speaker.view_blk auto.view_blk

lemmas block_frames = motion.frame privacy.frame wireguard.frame color.frame ircut.frame
  ir850.frame ir940.frame white.frame microphone.frame speaker.frame auto.frame

lemma hb_buttons_view:
  "(i, k, ignored, shows) \<in> set status_table \<Longrightarrow>
     view (hb_buttons json d) i =
       (if ignored (getp json k) then view d i
        else map_option (\<lambda>s. if shows (getp json k) then insert ''active'' (s - {''pending''})
                          else s - {''pending'', ''active''}) (view d i))"
  unfolding status_table_def list.set insert_iff empty_iff prod.inject
  by (elim disjE conjE; simp add: hb_buttons_def block_views view_daynight_other)


lemma update_button_view:
  assumes "truthy json" and "clock_ok fmt cfg json u" and row: "(i, k, ignored, shown) \<in> set status_table"
  shows "view (uidoc (fst (updateHeartbeatUi fmt cfg now json u))) i =
       (if ignored (getp json k) then view (uidoc u) i
        else map_option (\<lambda>s. if shown (getp json k) then insert ''active'' (s - {''pending''})
                          else s - {''pending'', ''active''}) (view (uidoc u) i))"
proof -
  have ids: "i \<notin> {''recorder-ch0'', ''recorder-ch1'', ''shabbat-indicator'', ''physical-privacy'', ''sys-cpu''}"
    using row by (auto simp: status_table_def)
  obtain d where "\<And>i. i \<notin> {''recorder-ch0'', ''recorder-ch1''} \<Longrightarrow> view d i = view (uidoc u) i"
    and "\<And>i. i \<notin> {''shabbat-indicator'', ''physical-privacy'', ''sys-cpu''} \<Longrightarrow>
           view (uidoc (fst (updateHeartbeatUi fmt cfg now json u))) i = view (hb_buttons json d) i"
    using view_update [OF assms(1,2), of now] by blast
  with ids have "view d i = view (uidoc u) i"
    and "view (uidoc (fst (updateHeartbeatUi fmt cfg now json u))) i = view (hb_buttons json d) i"
    by simp_all
  then show ?thesis
    by (simp add: hb_buttons_view [OF row])
qed

section \<open>State kept between messages\<close>

lemma updateRecordingState_fields [simp]:
  "rec_ch0 (updateRecordingState c0 c1 u) = c0"
  "rec_ch1 (updateRecordingState c0 c1 u) = c1"
  "physPrivDesired (updateRecordingState c0 c1 u) = physPrivDesired u"
  "physPrivDesiredAt (updateRecordingState c0 c1 u) = physPrivDesiredAt u"
  "cpuSamples (updateRecordingState c0 c1 u) = cpuSamples u"
  "prevCpuTotal (updateRecordingState c0 c1 u) = prevCpuTotal u"
  by (simp_all add: updateRecordingState_def updateRecordingIcons_def)

lemma on_doc_fields [simp]:
  "rec_ch0 (on_doc f u) = rec_ch0 u" "rec_ch1 (on_doc f u) = rec_ch1 u"
  "physPrivDesired (on_doc f u) = physPrivDesired u" "physPrivDesiredAt (on_doc f u) = physPrivDesiredAt u"
  "cpuSamples (on_doc f u) = cpuSamples u" "prevCpuTotal (on_doc f u) = prevCpuTotal u"
  by (simp_all add: on_doc_def)

lemma hb_physical_privacy_fields [simp]:
  "rec_ch0 (hb_physical_privacy now json u) = rec_ch0 u"
  "rec_ch1 (hb_physical_privacy now json u) = rec_ch1 u"
  "cpuSamples (hb_physical_privacy now json u) = cpuSamples u"
  "prevCpuTotal (hb_physical_privacy now json u) = prevCpuTotal u"
  by (simp_all add: hb_physical_privacy_def Let_def split: option.split)

lemma hb_cpu_fields [simp]:
  "rec_ch0 (hb_cpu json u) = rec_ch0 u" "rec_ch1 (hb_cpu json u) = rec_ch1 u"
  "physPrivDesired (hb_cpu json u) = physPrivDesired u" "physPrivDesiredAt (hb_cpu json u) = physPrivDesiredAt u"
  by (auto simp: hb_cpu_def Let_def split: option.splits jnum.splits)

lemma cpu_inv_cong:
  "cpuSamples u' = cpuSamples u \<Longrightarrow> prevCpuTotal u' = prevCpuTotal u \<Longrightarrow> cpu_inv u' = cpu_inv u"
  by (simp add: cpu_inv_def)

lemma clamp_pct_range [simp]: "0 \<le> clamp_pct p" "clamp_pct p \<le> 100"
  by (simp_all add: clamp_pct_def)

lemma push_sample_inv:
  assumes "length xs \<le> CPU_AVG_WINDOW" and "list_all P xs" and "P p"
  shows "length (push_sample p xs) \<le> CPU_AVG_WINDOW" and "list_all P (push_sample p xs)"
  using assms
  by (cases xs; auto simp: push_sample_def Let_def CPU_AVG_WINDOW_def)+

lemma cpu_inv_hb_cpu:
  assumes "cpu_inv u"
  shows "cpu_inv (hb_cpu json u)"
proof (cases "prevCpuTotal u")
  case None
  with assms show ?thesis
    by (auto simp: hb_cpu_def cpu_inv_def Let_def CPU_AVG_WINDOW_def split: jnum.splits)
next
  case (Some prev)
  with assms push_sample_inv [of "cpuSamples u" "\<lambda>p. 0 \<le> p \<and> p \<le> 100"] show ?thesis
    by (auto simp: hb_cpu_def cpu_inv_def Let_def split: jnum.splits)
qed

lemma sample_avg_range:
  assumes "xs \<noteq> []" and "list_all (\<lambda>p. 0 \<le> p \<and> p \<le> 100) xs"
  shows "0 \<le> sample_avg xs" and "sample_avg xs \<le> 100"
proof -
  have "0 \<le> sum_list xs"
    using assms(2) by (intro sum_list_nonneg) (simp add: list_all_iff)
  then show "0 \<le> sample_avg xs"
    by (simp add: sample_avg_def math_round_ge)
  have "sum_list xs \<le> int (length xs) * 100"
    using assms(2) by (intro sum_list_upper) (simp add: list_all_iff)
  then have "(of_int (sum_list xs) :: rat) \<le> of_int (int (length xs) * 100)"
    by (simp only: of_int_le_iff)
  then have "of_int (sum_list xs) / of_nat (length xs) \<le> (of_int 100 :: rat)"
    using assms(1) by (simp add: field_simps)
  then show "sample_avg xs \<le> 100"
    unfolding sample_avg_def by (rule math_round_le)
qed


lemma hb_cpu_shows:
  assumes "cpu_inv u" and "cpuSamples (hb_cpu json u) \<noteq> cpuSamples u"
  obtains p e where "0 \<le> p" and "p \<le> 100" and "uidoc (hb_cpu json u) ''sys-cpu'' = Some e"
    and "content e = [JStr ''avg '', jint p, JStr ''%'']" and "''text-warning'' \<in> cls e \<longleftrightarrow> 90 \<le> p"
proof -
  obtain e0 where e0: "uidoc u ''sys-cpu'' = Some e0"
    using assms(2) by (auto simp: hb_cpu_def present_def split: if_splits)
  from assms(2) obtain p where u': "uidoc (hb_cpu json u) = show_cpu p (uidoc u)" and p: "0 \<le> p" "p \<le> 100"
  proof (cases "prevCpuTotal u")
    case None
    with assms(2) show thesis
      by (auto simp: hb_cpu_def Let_def split: if_splits jnum.splits intro: that)
  next
    case (Some prev)
    have ne: "push_sample q xs \<noteq> []" for q xs
      by (cases xs) (simp_all add: push_sample_def Let_def CPU_AVG_WINDOW_def)
    have rng: "0 \<le> sample_avg (push_sample (clamp_pct q) (cpuSamples u))
               \<and> sample_avg (push_sample (clamp_pct q) (cpuSamples u)) \<le> 100" for q
      using assms(1) by (intro conjI sample_avg_range ne push_sample_inv) (simp_all add: cpu_inv_def)
    from Some assms(2) rng show thesis
      by (auto simp: hb_cpu_def Let_def split: if_splits jnum.splits intro: that)
  qed
  show thesis
    by (rule that [of p "class_toggle ''text-warning'' (90 \<le> p) (set_content [JStr ''avg '', jint p, JStr ''%''] e0)"])
       (simp_all add: p u' e0 show_cpu_def on_elem_same)
qed

lemma update_sys_cpu:
  assumes "truthy json" and "clock_ok fmt cfg json u"
  obtains v where "cpuSamples v = cpuSamples u" and "prevCpuTotal v = prevCpuTotal u"
    and "cpuSamples (fst (updateHeartbeatUi fmt cfg now json u)) = cpuSamples (hb_cpu json v)"
    and "prevCpuTotal (fst (updateHeartbeatUi fmt cfg now json u)) = prevCpuTotal (hb_cpu json v)"
    and "uidoc (fst (updateHeartbeatUi fmt cfg now json u)) ''sys-cpu'' = uidoc (hb_cpu json v) ''sys-cpu''"
proof -
  obtain d0 where d0: "hb_time fmt cfg json (uidoc u) = Some d0"
    using assms(2) by (auto simp: clock_ok_def)
  define v where "v = on_doc (hb_shabbat json) (hb_physical_privacy now json (on_doc (hb_buttons json)
    (updateRecordingState (getp json ''rec_ch0'' = JBool True) (getp json ''rec_ch1'' = JBool True)
      (on_doc (hb_uptime json \<circ> hb_gain json) (u\<lparr>uidoc := d0\<rparr>)))))"
  have "fst (updateHeartbeatUi fmt cfg now json u) = on_doc (hb_storage json \<circ> hb_mem_mb json \<circ> hb_mem json) (hb_cpu json v)"
    using assms(1) d0 by (simp add: updateHeartbeatUi_def Let_def v_def)
  then show thesis
    by (intro that [of v])
       (simp_all add: v_def hb_storage_def hb_mem_mb_def hb_mem_def Let_def on_elem_other)
qed

lemma view_buttons_physical:
  "view (hb_buttons json d) ''physical-privacy'' = view d ''physical-privacy''"
  by (simp add: hb_buttons_def block_frames view_daynight_other)

lemma update_physical:
  assumes "truthy json" and "clock_ok fmt cfg json u"
  obtains v where "view (uidoc v) ''physical-privacy'' = view (uidoc u) ''physical-privacy''"
    and "physPrivDesired v = physPrivDesired u" and "physPrivDesiredAt v = physPrivDesiredAt u"
    and "physPrivDesired (fst (updateHeartbeatUi fmt cfg now json u)) = physPrivDesired (hb_physical_privacy now json v)"
    and "view (uidoc (fst (updateHeartbeatUi fmt cfg now json u))) ''physical-privacy''
         = view (uidoc (hb_physical_privacy now json v)) ''physical-privacy''"
proof -
  obtain d0 where d0: "hb_time fmt cfg json (uidoc u) = Some d0"
    using assms(2) by (auto simp: clock_ok_def)
  define v where "v = on_doc (hb_buttons json)
    (updateRecordingState (getp json ''rec_ch0'' = JBool True) (getp json ''rec_ch1'' = JBool True)
      (on_doc (hb_uptime json \<circ> hb_gain json) (u\<lparr>uidoc := d0\<rparr>)))"
  have "fst (updateHeartbeatUi fmt cfg now json u) = on_doc (hb_storage json \<circ> hb_mem_mb json \<circ> hb_mem json)
     (hb_cpu json (on_doc (hb_shabbat json) (hb_physical_privacy now json v)))"
    using assms(1) d0 by (simp add: updateHeartbeatUi_def Let_def v_def)
  then show thesis
    by (intro that [of v]) (simp_all add: v_def dom_simps view_buttons_physical view_hb_time [OF d0])
qed

section \<open>Properties\<close>

text \<open>
  Every status button shows exactly what the message says of it: for each row of the button
  contract, a message that the page processes leaves the button as it was when its key is missing (or
  null, for the keys read so), and otherwise ends the button's pending state and shows it active exactly
  for the values the contract names. No other block of the reducer disturbs the button.
\<close>

theorem status_buttons_reflect:
  assumes "truthy json" and "clock_ok fmt cfg json u" and "(i, k, ignored, shown) \<in> set status_table"
    and "present (uidoc u) i"
  shows "let d' = uidoc (fst (updateHeartbeatUi fmt cfg now json u))
         in if ignored (getp json k) then view d' i = view (uidoc u) i
            else has_class d' i ''active'' = shown (getp json k) \<and> \<not> has_class d' i ''pending''"
proof -
  obtain s where "view (uidoc u) i = Some s"
    using assms(4) by (auto simp: present_view)
  then show ?thesis
    by (simp add: Let_def update_button_view [OF assms(1-3)] has_class_view)
qed

theorem status_buttons_reflect_witness:
  "(let d' = uidoc (fst (updateHeartbeatUi (\<lambda>_ _. Some ''now'') JUndef 0
          (JObj [(''motion_enabled'', JBool True)]) sample_ui))
    in has_class d' ''motion'' ''active'' \<and> \<not> has_class d' ''motion'' ''pending'')
   \<and> has_class (uidoc sample_ui) ''motion'' ''pending''"
proof -
  let ?j = "JObj [(''motion_enabled'', JBool True)]"
  have "clock_ok (\<lambda>_ _. Some ''now'') JUndef ?j sample_ui" and "present (uidoc sample_ui) ''motion''"
    by (simp_all add: clock_ok_def hb_time_def nullish_def sample_ui_def sample_doc_def present_def)
  then show ?thesis
    using status_buttons_reflect [of ?j "\<lambda>_ _. Some ''now''" JUndef sample_ui "''motion''" "''motion_enabled''"
        "\<lambda>v. v = JUndef" "\<lambda>v. v = JBool True" 0]
    by (simp add: status_table_def Let_def has_class_def sample_ui_def sample_doc_def)
qed

text \<open>
  C8. The three day/night buttons agree with the message: after a message with a mode, the Day button is
  active exactly in manual day mode and the Night button exactly in manual night mode (so never both), and
  the mode button is marked as night or as day, never both, and active exactly in automatic mode.
\<close>

theorem daynight_buttons_agree:
  assumes "truthy json" and "clock_ok fmt cfg json u" and "getp json ''daynight_mode'' \<noteq> JUndef"
    and "present (uidoc u) ''daynight''" and "present (uidoc u) ''day''" and "present (uidoc u) ''night''"
  shows "let d' = uidoc (fst (updateHeartbeatUi fmt cfg now json u)); m = getp json ''daynight_mode''
         in has_class d' ''day'' ''active'' = (\<not> auto_enabled json \<and> m = JStr ''day'')
          \<and> has_class d' ''night'' ''active'' = (\<not> auto_enabled json \<and> m = JStr ''night'')
          \<and> has_class d' ''daynight'' ''active'' = auto_enabled json
          \<and> has_class d' ''daynight'' ''is-night'' = (m = JStr ''night'')
          \<and> has_class d' ''daynight'' ''is-day'' = (m \<noteq> JStr ''night'')
          \<and> \<not> has_class d' ''daynight'' ''pending''"
proof -
  obtain d where d: "\<And>i. i \<notin> {''recorder-ch0'', ''recorder-ch1''} \<Longrightarrow> view d i = view (uidoc u) i"
    and d': "\<And>i. i \<notin> {''shabbat-indicator'', ''physical-privacy'', ''sys-cpu''} \<Longrightarrow>
           view (uidoc (fst (updateHeartbeatUi fmt cfg now json u))) i = view (hb_buttons json d) i"
    using view_update [OF assms(1,2), of now] by blast
  have b: "view (hb_buttons json d) i = view (hb_daynight json (hb_wireguard json (hb_privacy json (hb_motion json d)))) i"
    if "i \<in> {''day'', ''night'', ''daynight''}" for i
    using that unfolding insert_iff empty_iff by (elim disjE; simp add: hb_buttons_def block_frames)
  have v0: "view (hb_wireguard json (hb_privacy json (hb_motion json d))) i = view (uidoc u) i"
    if "i \<in> {''day'', ''night'', ''daynight''}" for i
    using that unfolding insert_iff empty_iff by (elim disjE; simp add: block_frames d)
  let ?d0 = "hb_wireguard json (hb_privacy json (hb_motion json d))"
  have some: "\<exists>e. ?d0 i = Some e" if "i \<in> {''day'', ''night'', ''daynight''}" "present (uidoc u) i" for i
    using that v0 [of i] by (simp add: present_view view_def) (metis map_option_eq_Some)
  obtain x where x: "?d0 ''day'' = Some x" using some [of "''day''"] assms(5) by auto
  obtain y where y: "?d0 ''night'' = Some y" using some [of "''night''"] assms(6) by auto
  obtain z where z: "?d0 ''daynight'' = Some z" using some [of "''daynight''"] assms(4) by auto
  show ?thesis
    by (simp add: Let_def has_class_view d' b view_daynight [OF assms(3)] x y z)
qed

theorem daynight_buttons_agree_witness:
  "let d' = uidoc (fst (updateHeartbeatUi (\<lambda>_ _. None) JUndef 0 (JObj [(''daynight_mode'', JStr ''day'')]) sample_ui))
   in has_class d' ''day'' ''active'' \<and> \<not> has_class d' ''night'' ''active'' \<and> has_class (uidoc sample_ui) ''night'' ''active''"
proof -
  let ?j = "JObj [(''daynight_mode'', JStr ''day'')]"
  have "clock_ok (\<lambda>_ _. None) JUndef ?j sample_ui" and "present (uidoc sample_ui) ''day''"
    and "present (uidoc sample_ui) ''night''" and "present (uidoc sample_ui) ''daynight''"
    by (simp_all add: clock_ok_def hb_time_def nullish_def sample_ui_def sample_doc_def present_def)
  then show ?thesis
    using daynight_buttons_agree [of ?j "\<lambda>_ _. None" JUndef sample_ui 0]
    by (simp add: Let_def auto_enabled_def has_class_def sample_ui_def sample_doc_def)
qed

text \<open>
  The latch of the physical privacy toggle: while a requested state is settling, a polled value that
  differs from it changes neither the button nor the latch for 15 seconds; a value that matches, or one
  that arrives later, or any value without a latch, ends the latch and is shown.
\<close>

theorem physical_privacy_latch:
  assumes "truthy json" and "clock_ok fmt cfg json u" and "present (uidoc u) ''physical-privacy''"
    and "getp json ''physical_privacy_active'' \<noteq> JUndef"
  shows "let u' = fst (updateHeartbeatUi fmt cfg now json u);
             p = (getp json ''physical_privacy_active'' = JBool True)
         in if physPrivDesired u = Some (\<not> p) \<and> now - physPrivDesiredAt u \<le> 15000
            then physPrivDesired u' = Some (\<not> p)
                 \<and> view (uidoc u') ''physical-privacy'' = view (uidoc u) ''physical-privacy''
            else physPrivDesired u' = None \<and> has_class (uidoc u') ''physical-privacy'' ''active'' = p
                 \<and> \<not> has_class (uidoc u') ''physical-privacy'' ''pending''"
proof -
  obtain v where v: "view (uidoc v) ''physical-privacy'' = view (uidoc u) ''physical-privacy''"
      "physPrivDesired v = physPrivDesired u" "physPrivDesiredAt v = physPrivDesiredAt u"
      "physPrivDesired (fst (updateHeartbeatUi fmt cfg now json u)) = physPrivDesired (hb_physical_privacy now json v)"
      "view (uidoc (fst (updateHeartbeatUi fmt cfg now json u))) ''physical-privacy''
         = view (uidoc (hb_physical_privacy now json v)) ''physical-privacy''"
    using update_physical [OF assms(1,2), of now] by blast
  obtain s where s: "view (uidoc u) ''physical-privacy'' = Some s"
    using assms(3) by (auto simp: present_view)
  show ?thesis
    using assms(4) s v
    by (cases "physPrivDesired u")
       (auto simp: hb_physical_privacy_def Let_def present_view has_class_view view_mark_button)
qed

theorem physical_privacy_latch_witness:
  "physPrivDesired (fst (updateHeartbeatUi (\<lambda>_ _. None) JUndef 16000
      (JObj [(''physical_privacy_active'', JBool False)]) sample_ui)) = Some True
   \<and> physPrivDesired (fst (updateHeartbeatUi (\<lambda>_ _. None) JUndef 16001
      (JObj [(''physical_privacy_active'', JBool False)]) sample_ui)) = None"
proof -
  let ?j = "JObj [(''physical_privacy_active'', JBool False)]"
  have "clock_ok (\<lambda>_ _. None) JUndef ?j sample_ui" and "present (uidoc sample_ui) ''physical-privacy''"
    by (simp_all add: clock_ok_def hb_time_def nullish_def sample_ui_def sample_doc_def present_def)
  moreover have "physPrivDesired sample_ui = Some True" "physPrivDesiredAt sample_ui = 1000"
    by (simp_all add: sample_ui_def)
  ultimately show ?thesis
    using physical_privacy_latch [of ?j "\<lambda>_ _. None" JUndef sample_ui 16000]
      physical_privacy_latch [of ?j "\<lambda>_ _. None" JUndef sample_ui 16001]
    by (simp add: Let_def)
qed

text \<open>
  The CPU badge: the rolling window keeps at most four samples, all of them percentages, over every
  message; and whenever a message changes the window, the badge shows an average between 0 and 100, with
  the warning colour exactly from 90 on.
\<close>

theorem cpu_window:
  assumes "truthy json" and "clock_ok fmt cfg json u" and "cpu_inv u"
  shows "let u' = fst (updateHeartbeatUi fmt cfg now json u)
         in cpu_inv u' \<and> (cpuSamples u' = cpuSamples u \<or>
              (\<exists>p e. 0 \<le> p \<and> p \<le> 100 \<and> uidoc u' ''sys-cpu'' = Some e
                 \<and> content e = [JStr ''avg '', jint p, JStr ''%'']
                 \<and> (''text-warning'' \<in> cls e \<longleftrightarrow> 90 \<le> p)))"
proof -
  let ?u' = "fst (updateHeartbeatUi fmt cfg now json u)"
  obtain v where v: "cpuSamples v = cpuSamples u" "prevCpuTotal v = prevCpuTotal u"
    "cpuSamples ?u' = cpuSamples (hb_cpu json v)" "prevCpuTotal ?u' = prevCpuTotal (hb_cpu json v)"
    "uidoc ?u' ''sys-cpu'' = uidoc (hb_cpu json v) ''sys-cpu''"
    using update_sys_cpu [OF assms(1,2), of now] by blast
  have inv: "cpu_inv v"
    using assms(3) v(1,2) cpu_inv_cong by blast
  have "cpu_inv ?u'"
    using cpu_inv_hb_cpu [OF inv, of json] cpu_inv_cong [OF v(3,4)] by simp
  moreover have "\<exists>p e. 0 \<le> p \<and> p \<le> 100 \<and> uidoc ?u' ''sys-cpu'' = Some e
      \<and> content e = [JStr ''avg '', jint p, JStr ''%''] \<and> (''text-warning'' \<in> cls e \<longleftrightarrow> 90 \<le> p)"
    if "cpuSamples ?u' \<noteq> cpuSamples u"
  proof -
    from that have "cpuSamples (hb_cpu json v) \<noteq> cpuSamples v" by (simp add: v)
    then show ?thesis by (rule hb_cpu_shows [OF inv]) (auto simp: v(5))
  qed
  ultimately show ?thesis unfolding Let_def by blast
qed

theorem cpu_window_witness:
  "let u' = fst (updateHeartbeatUi (\<lambda>_ _. None) JUndef 0 (JObj [(''cpu_total'', jint 1200), (''cpu_idle'', jint 600)]) sample_ui)
   in cpu_inv u' \<and> cpuSamples u' = [20, 30, 40, 50]"
proof -
  let ?j = "JObj [(''cpu_total'', jint 1200), (''cpu_idle'', jint 600)]"
  have "clock_ok (\<lambda>_ _. None) JUndef ?j sample_ui" and "cpu_inv sample_ui"
    by (simp_all add: clock_ok_def hb_time_def nullish_def sample_ui_def sample_doc_def present_def cpu_inv_def
        CPU_AVG_WINDOW_def)
  moreover have "cpuSamples (fst (updateHeartbeatUi (\<lambda>_ _. None) JUndef 0 ?j sample_ui)) = [20, 30, 40, 50]"
    by code_simp
  ultimately show ?thesis
    using cpu_window [of ?j "\<lambda>_ _. None" JUndef sample_ui 0] by (simp add: Let_def)
qed

end
