(* ===== verification/Toggles.thy ===== *)
theory Toggles
  imports Heartbeat_Ui
begin

text \<open>
  The camera toggles of \<open>main.js\<close>: recording, motion, privacy, physical privacy, WireGuard, day/night,
  audio and the image buttons (\<open>toggleButton\<close>). A toggle has two halves: what runs in the click
  (marking the button pending and sending the request) and what runs when the request settles
  (\<open>..._settle\<close>, one definition for the whole chain of \<open>then\<close> and \<open>catch\<close> handlers), which feeds the
  confirmed or the assumed value to the status reducer. Console output is not modelled;
  the text of an exception thrown by the engine is represented by the name of its class.
\<close>

section \<open>Shared pieces\<close>

definition add_pending :: "string \<Rightarrow> ui \<Rightarrow> ui" where
  "add_pending i = on_doc (on_elem i (class_add ''pending''))"

definition drop_pending :: "string \<Rightarrow> ui \<Rightarrow> ui" where
  "drop_pending i = on_doc (on_elem i (class_remove ''pending''))"

text \<open>
  A message made by the page itself has no \<open>time_now\<close>, so the clock, the configuration and the locale
  play no part; \<open>now\<close> is the time at which the request settles.
\<close>

definition feed :: "int \<Rightarrow> (string \<times> js) list \<Rightarrow> ui \<Rightarrow> ui" where
  "feed now kvs u = fst (updateHeartbeatUi (\<lambda>_ _. None) JUndef now (JObj kvs) u)"

text \<open>
  \<open>if (!res.ok) throw ...; text = await res.text()\<close>, then \<open>JSON.parse(text)\<close> where the text is not
  empty. The error carries the message of the exception.
\<close>

definition read_answer :: "outcome \<Rightarrow> string + js option" where
  "read_answer out =
     (case out of
        Rejected msg \<Rightarrow> Inl msg
      | Answer r \<Rightarrow>
          if \<not> resp_ok r then Inl (''HTTP error '' @ show_int (status r))
          else if text_body r = [] then Inr None
          else (case parsed r of None \<Rightarrow> Inl ''SyntaxError'' | Some v \<Rightarrow> Inr (Some v)))"

text \<open>
  \<open>data.g && data.g.k !== undefined ? data.g.k : fallback\<close>; reading a property of \<open>null\<close> throws.
\<close>

definition confirmed :: "js \<Rightarrow> string \<Rightarrow> string \<Rightarrow> js \<Rightarrow> js option" where
  "confirmed data g k fallback =
     (if nullish data then None
      else (let gv = getp data g
            in if truthy gv \<and> getp gv k \<noteq> JUndef then Some (getp gv k) else Some fallback))"

section \<open>Recording\<close>

definition recorder_id :: "jnum \<Rightarrow> string" where
  "recorder_id ch = ''recorder-ch'' @ (case ch of Fin q \<Rightarrow> show_int \<lfloor>q\<rfloor> | _ \<Rightarrow> ''NaN'')"

definition is_recording :: "jnum \<Rightarrow> ui \<Rightarrow> bool" where
  "is_recording ch u = (recording_of u ch = Some True)"

definition recording_action :: "bool \<Rightarrow> string" where
  "recording_action isRecording = (if isRecording then ''stop'' else ''start'')"

definition toggleRecording :: "jnum \<Rightarrow> ui \<Rightarrow> ui \<times> effect list" where
  "toggleRecording ch u =
     (add_pending (recorder_id ch) u,
      [Send (PostJson ''/x/json-prudynt.cgi''
        (JObj [(''mp4'', JObj [(recording_action (is_recording ch u), JObj [(''channel'', JNum ch)])])]))])"

definition recording_failed :: "jnum \<Rightarrow> string \<Rightarrow> js list \<Rightarrow> ui \<Rightarrow> ui \<times> effect list" where
  "recording_failed ch action detail u =
     (drop_pending (recorder_id ch) u,
      [AlertBox ([JStr ''Failed to '', JStr action, JStr '' recording on channel '', JNum ch] @ detail)])"

text \<open>\<open>isRecording\<close> is the flag the click read, kept by the handlers' closure.\<close>

definition toggleRecording_settle :: "jnum \<Rightarrow> bool \<Rightarrow> outcome \<Rightarrow> ui \<Rightarrow> ui \<times> effect list" where
  "toggleRecording_settle ch isRecording out u =
     (let action = recording_action isRecording
      in case read_answer out of
           Inl _ \<Rightarrow> recording_failed ch action [] u
         | Inr None \<Rightarrow> (u, [])
         | Inr (Some data) \<Rightarrow>
             if nullish data then recording_failed ch action [] u
             else (let mp4 = getp data ''mp4''; r = getp mp4 action
                   in if truthy mp4 \<and> truthy r
                      then if r = JStr ''ok''
                           then (updateRecordingState
                                   (if ch = Fin 0 then action = ''start'' else rec_ch0 u)
                                   (if ch = Fin 1 then action = ''start'' else rec_ch1 u) u, [])
                           else recording_failed ch action [JStr '': '', r] u
                      else recording_failed ch action [] u))"

section \<open>Motion and privacy\<close>

definition toggleMotion :: "bool \<Rightarrow> ui \<Rightarrow> ui \<times> effect list" where
  "toggleMotion state u =
     (add_pending ''motion'' u,
      [Send (PostJson ''/x/json-prudynt.cgi'' (JObj [(''motion'', JObj [(''enabled'', JBool state)])]))])"

definition toggleMotion_settle :: "bool \<Rightarrow> int \<Rightarrow> outcome \<Rightarrow> ui \<Rightarrow> ui" where
  "toggleMotion_settle state now out u =
     (case read_answer out of
        Inl _ \<Rightarrow> drop_pending ''motion'' u
      | Inr None \<Rightarrow> feed now [(''motion_enabled'', JBool state)] u
      | Inr (Some data) \<Rightarrow>
          (case confirmed data ''motion'' ''enabled'' (JBool state) of
             None \<Rightarrow> drop_pending ''motion'' u
           | Some v \<Rightarrow> feed now [(''motion_enabled'', v)] u))"

definition togglePrivacy :: "bool \<Rightarrow> ui \<Rightarrow> ui \<times> effect list" where
  "togglePrivacy state u =
     (add_pending ''privacy'' u,
      [Send (PostJson ''/x/json-prudynt.cgi'' (JObj [(''privacy'', JObj [(''enabled'', JBool state)])]))])"

definition togglePrivacy_settle :: "bool \<Rightarrow> int \<Rightarrow> outcome \<Rightarrow> ui \<Rightarrow> ui" where
  "togglePrivacy_settle state now out u =
     (case read_answer out of
        Inl _ \<Rightarrow> drop_pending ''privacy'' u
      | Inr None \<Rightarrow> feed now [(''privacy_enabled'', JBool state)] u
      | Inr (Some data) \<Rightarrow>
          (case confirmed data ''privacy'' ''enabled'' (JBool state) of
             None \<Rightarrow> drop_pending ''privacy'' u
           | Some v \<Rightarrow> feed now [(''privacy_enabled'', v)] u))"

section \<open>Physical privacy\<close>

definition togglePhysicalPrivacy :: "bool \<Rightarrow> int \<Rightarrow> ui \<Rightarrow> ui \<times> effect list" where
  "togglePhysicalPrivacy state now u =
     (on_doc (on_elem ''physical-privacy'' (\<lambda>e. class_toggle ''active'' state (class_add ''pending'' e)))
        (u\<lparr>physPrivDesired := Some state, physPrivDesiredAt := now\<rparr>),
      [Send (Get (''/x/json-physical-privacy.cgi?state='' @ (if state then ''on'' else ''off'')))])"

definition togglePhysicalPrivacy_settle :: "outcome \<Rightarrow> ui \<Rightarrow> ui" where
  "togglePhysicalPrivacy_settle out u =
     (if (case out of Rejected _ \<Rightarrow> False | Answer r \<Rightarrow> resp_ok r) then u
      else drop_pending ''physical-privacy'' (u\<lparr>physPrivDesired := None\<rparr>))"

text \<open>The timer of 16 seconds that runs whatever the request did.\<close>

definition togglePhysicalPrivacy_timeout :: "bool \<Rightarrow> ui \<Rightarrow> ui" where
  "togglePhysicalPrivacy_timeout myState u =
     (if physPrivDesired u = Some myState
      then drop_pending ''physical-privacy'' (u\<lparr>physPrivDesired := None\<rparr>) else u)"

section \<open>WireGuard and day/night\<close>

definition toggleWireGuard :: "bool \<Rightarrow> ui \<Rightarrow> ui \<times> effect list" where
  "toggleWireGuard state u =
     (add_pending ''wireguard'' u,
      [Send (Get (''/x/json-wireguard.cgi?iface=wg0&state='' @ (if state then ''1'' else ''0'')))])"

text \<open>The first handler: the text is parsed before the status is looked at.\<close>

definition wireguard_answer :: "outcome \<Rightarrow> js list + js" where
  "wireguard_answer out =
     (case out of
        Rejected msg \<Rightarrow> Inl [JStr msg]
      | Answer r \<Rightarrow>
          (case (if text_body r = [] then Some (JObj []) else parsed r) of
             None \<Rightarrow> Inl [JStr ''SyntaxError'']
           | Some data \<Rightarrow>
               let http = JStr (''HTTP error '' @ show_int (status r)); err = getp data ''error''
               in if \<not> resp_ok r
                  then Inl [if nullish data \<or> nullish err \<or> \<not> truthy (getp err ''message'') then http
                            else getp err ''message'']
                  else if nullish data then Inl [JStr ''TypeError'']
                  else if truthy err
                  then Inl [js_or (getp err ''message'') http]
                  else Inr data))"

definition toggleWireGuard_settle :: "bool \<Rightarrow> int \<Rightarrow> outcome \<Rightarrow> ui \<Rightarrow> ui \<times> effect list" where
  "toggleWireGuard_settle state now out u =
     (case wireguard_answer out of
        Inl msg \<Rightarrow> (drop_pending ''wireguard'' u,
                    [Overlay ''danger'' (if msg = [JStr []] then [JStr ''Failed to toggle WireGuard''] else msg)])
      | Inr data \<Rightarrow>
          (let message = getp data ''message'';
               nextStatus = (if truthy data \<and> truthy message \<and> getp message ''status'' \<noteq> JUndef
                             then getp message ''status'' else jint (if state then 1 else 0))
           in (feed now [(''wg_status'', nextStatus)] u, [])))"

definition toggleDayNight :: "string \<Rightarrow> ui \<Rightarrow> ui \<times> effect list" where
  "toggleDayNight mode u =
     (add_pending ''daynight'' u,
      [Send (PostJson ''/x/json-imp.cgi'' (JObj [(''cmd'', JStr ''daynight''), (''val'', JStr mode)]))])"

definition toggleDayNight_settle :: "string \<Rightarrow> int \<Rightarrow> outcome \<Rightarrow> ui \<Rightarrow> ui" where
  "toggleDayNight_settle mode now out u =
     (case read_answer out of
        Inl _ \<Rightarrow> drop_pending ''daynight'' u
      | Inr _ \<Rightarrow> feed now [(''daynight_mode'', JStr mode), (''daynight_enabled'', JBool False)] u)"

section \<open>Audio\<close>

definition audio_param :: "string \<Rightarrow> string" where
  "audio_param device = (if device = ''microphone'' then ''mic_muted'' else ''spk_enabled'')"

definition audio_value :: "string \<Rightarrow> bool \<Rightarrow> bool" where
  "audio_value device state = (if device = ''microphone'' then \<not> state else state)"

definition toggleAudio :: "string \<Rightarrow> bool \<Rightarrow> ui \<Rightarrow> ui \<times> effect list" where
  "toggleAudio device state u =
     (add_pending device u,
      [Send (PostJson ''/x/json-prudynt.cgi''
        (JObj [(''audio'', JObj [(audio_param device, JBool (audio_value device state))])]))])"

definition toggleAudio_settle :: "string \<Rightarrow> bool \<Rightarrow> int \<Rightarrow> outcome \<Rightarrow> ui \<Rightarrow> ui" where
  "toggleAudio_settle device state now out u =
     (let param = audio_param device; fallback = JBool (audio_value device state)
      in case read_answer out of
           Inl _ \<Rightarrow> drop_pending device u
         | Inr None \<Rightarrow> feed now [(param, fallback)] u
         | Inr (Some data) \<Rightarrow>
             (case confirmed data ''audio'' param fallback of
                None \<Rightarrow> drop_pending device u
              | Some v \<Rightarrow> feed now [(param, v)] u))"

section \<open>The image buttons\<close>

text \<open>
  \<open>newState\<close> is the opposite of the shown state, except for the colour button, whose ISP value is
  0 for colour (shown active) and 1 for black and white.
\<close>

definition button_new_state :: "string \<Rightarrow> bool \<Rightarrow> int" where
  "button_new_state i active =
     (if i = ''color'' then (if active then 1 else 0) else (if active then 0 else 1))"

definition toggleButton :: "string \<Rightarrow> ui \<Rightarrow> ui \<times> effect list" where
  "toggleButton i u =
     (if present (uidoc u) i
      then (add_pending i u,
            [Send (PostJson ''/x/json-imp.cgi''
              (JObj [(''cmd'', JStr i), (''val'', jint (button_new_state i (has_class (uidoc u) i ''active'')))]))])
      else (u, []))"

definition key_map :: "string \<Rightarrow> int \<Rightarrow> (string \<times> js) list option" where
  "key_map i newState =
     (if i = ''color'' then Some [(''color_mode'', jint newState)]
      else if i = ''ircut'' then Some [(''ircut_state'', jint newState)]
      else if i = ''ir850'' then Some [(''ir850_state'', jint newState)]
      else if i = ''ir940'' then Some [(''ir940_state'', jint newState)]
      else if i = ''white'' then Some [(''white_state'', jint newState)]
      else if i = ''auto'' then Some [(''daynight_enabled'', jint newState),
                                      (''daynight_mode'', if newState \<noteq> 0 then JUndef else JStr ''day'')]
      else None)"

text \<open>The read-back of the camera is preferred, unless it has no key or its first value is null.\<close>

definition button_readback :: "js \<Rightarrow> (string \<times> js) list option" where
  "button_readback data =
     (case getp data ''state'' of
        JObj ((k, v) # kvs) \<Rightarrow> if k \<noteq> [] \<and> v \<noteq> JNull then Some ((k, v) # kvs) else None
      | JArr (v # vs) \<Rightarrow> if v \<noteq> JNull then Some [] else None \<comment> \<open>an array: none of its keys is a status key\<close>
      | _ \<Rightarrow> None)"

definition button_update :: "string \<Rightarrow> int \<Rightarrow> js \<Rightarrow> (string \<times> js) list option" where
  "button_update i newState data =
     map_option (filter (\<lambda>kv. snd kv \<noteq> JUndef))
       (case button_readback data of Some kvs \<Rightarrow> Some kvs | None \<Rightarrow> key_map i newState)"

text \<open>
  \<open>res.json()\<close> ignores the status; a body that is not JSON, or is \<open>null\<close> (whose \<open>message\<close> is read),
  throws.
\<close>

definition toggleButton_settle :: "string \<Rightarrow> int \<Rightarrow> int \<Rightarrow> outcome \<Rightarrow> ui \<Rightarrow> ui" where
  "toggleButton_settle i newState now out u =
     (case (case out of Rejected _ \<Rightarrow> None | Answer r \<Rightarrow> parsed r) of
        None \<Rightarrow> drop_pending i u
      | Some data \<Rightarrow>
          if nullish data then drop_pending i u
          else drop_pending i (case button_update i newState data of None \<Rightarrow> u | Some kvs \<Rightarrow> feed now kvs u))"


section \<open>Vocabulary of the properties\<close>

text \<open>The toggles that confirm through the status reducer: the click, the settling and the button.\<close>

definition toggle_table ::
  "((bool \<Rightarrow> ui \<Rightarrow> ui \<times> effect list) \<times> (bool \<Rightarrow> int \<Rightarrow> outcome \<Rightarrow> ui \<Rightarrow> ui) \<times> string) list" where
  "toggle_table =
     [(toggleMotion, toggleMotion_settle, ''motion''), (togglePrivacy, togglePrivacy_settle, ''privacy''),
      (toggleAudio ''microphone'', toggleAudio_settle ''microphone'', ''microphone''),
      (toggleAudio ''speaker'', toggleAudio_settle ''speaker'', ''speaker'')]"

definition image_buttons :: "string list" where
  "image_buttons = [''auto'', ''color'', ''ircut'', ''ir850'', ''ir940'', ''white'']"

definition ok_answer :: "js \<Rightarrow> outcome" where
  "ok_answer v = Answer \<lparr>status = 200, text_body = ''{...}'', parsed = Some v\<rparr>"

section \<open>What a fed message does\<close>

lemma clock_ok_feed [simp]: "map_of kvs ''time_now'' = None \<Longrightarrow> clock_ok fmt cfg (JObj kvs) u"
  by (simp add: clock_ok_def hb_time_def nullish_def)

lemma feed_button_view:
  assumes "map_of kvs ''time_now'' = None" and "(i, k, ignored, shown) \<in> set status_table"
  shows "view (uidoc (feed now kvs u)) i =
       (if ignored (getp (JObj kvs) k) then view (uidoc u) i
        else map_option (\<lambda>s. if shown (getp (JObj kvs) k) then insert ''active'' (s - {''pending''})
                          else s - {''pending'', ''active''}) (view (uidoc u) i))"
  unfolding feed_def using assms by (intro update_button_view) simp_all

lemma update_recording:
  assumes "truthy json" and "clock_ok fmt cfg json u"
  shows "rec_ch0 (fst (updateHeartbeatUi fmt cfg now json u)) = (getp json ''rec_ch0'' = JBool True)"
    and "rec_ch1 (fst (updateHeartbeatUi fmt cfg now json u)) = (getp json ''rec_ch1'' = JBool True)"
proof -
  obtain d0 where "hb_time fmt cfg json (uidoc u) = Some d0"
    using assms(2) by (auto simp: clock_ok_def)
  then show "rec_ch0 (fst (updateHeartbeatUi fmt cfg now json u)) = (getp json ''rec_ch0'' = JBool True)"
    and "rec_ch1 (fst (updateHeartbeatUi fmt cfg now json u)) = (getp json ''rec_ch1'' = JBool True)"
    using assms(1) by (simp_all add: updateHeartbeatUi_def Let_def)
qed

lemma view_add_pending [dom_simps]:
  "view (uidoc (add_pending i u)) j = (if i = j then map_option (insert ''pending'') (view (uidoc u) j) else view (uidoc u) j)"
  by (simp add: add_pending_def view_def on_elem_apply option.map_comp comp_def)

lemma view_drop_pending [dom_simps]:
  "view (uidoc (drop_pending i u)) j = (if i = j then map_option (\<lambda>s. s - {''pending''}) (view (uidoc u) j) else view (uidoc u) j)"
  by (simp add: drop_pending_def view_def on_elem_apply option.map_comp comp_def)

lemma pending_fields [simp]:
  "rec_ch0 (drop_pending i u) = rec_ch0 u" "rec_ch1 (drop_pending i u) = rec_ch1 u"
  "rec_ch0 (add_pending i u) = rec_ch0 u" "rec_ch1 (add_pending i u) = rec_ch1 u"
  "physPrivDesired (drop_pending i u) = physPrivDesired u"
  by (simp_all add: drop_pending_def add_pending_def)


section \<open>The contract of a confirmed toggle\<close>

text \<open>
  Motion, privacy, microphone and speaker share one protocol: the click marks the button pending, a failed
  request only ends the pending state, and an answer without a confirmation shows the requested state.
\<close>

locale confirmed_toggle =
  fixes start :: "bool \<Rightarrow> ui \<Rightarrow> ui \<times> effect list" and settle :: "bool \<Rightarrow> int \<Rightarrow> outcome \<Rightarrow> ui \<Rightarrow> ui"
    and i :: string
  assumes start_view: "view (uidoc (fst (start b u))) i = map_option (insert ''pending'') (view (uidoc u) i)"
    and settle_failed: "read_answer out = Inl msg \<Longrightarrow> settle b now out u = drop_pending i u"
    and settle_silent: "read_answer out = Inr None \<Longrightarrow>
          view (uidoc (settle b now out u)) i =
            map_option (\<lambda>s. if b then insert ''active'' (s - {''pending''}) else s - {''pending'', ''active''})
              (view (uidoc u) i)"
    and settle_not_pending: "\<not> has_class (uidoc (settle b now out u)) i ''pending''"
begin

lemma click_pending: "present (uidoc u) i \<Longrightarrow> has_class (uidoc (fst (start b u))) i ''pending''"
  by (auto simp: has_class_view start_view present_view)

lemma failed_keeps_active:
  "read_answer out = Inl msg \<Longrightarrow> has_class (uidoc (settle b now out u)) i ''active'' = has_class (uidoc u) i ''active''"
  by (cases "view (uidoc u) i") (simp_all add: settle_failed has_class_view view_drop_pending)

lemma silent_shows_request:
  "read_answer out = Inr None \<Longrightarrow> present (uidoc u) i \<Longrightarrow> has_class (uidoc (settle b now out u)) i ''active'' = b"
  by (auto simp: settle_silent has_class_view present_view split: if_splits)

lemma round_trip:
  assumes "present (uidoc u) i"
  shows "has_class (uidoc (fst (start b u))) i ''pending'' \<and> \<not> has_class (uidoc (settle b now out v)) i ''pending''
     \<and> (case read_answer out of
          Inl _ \<Rightarrow> has_class (uidoc (settle b now out v)) i ''active'' = has_class (uidoc v) i ''active''
        | Inr None \<Rightarrow> has_class (uidoc (settle b now out v)) i ''active'' = (b \<and> present (uidoc v) i)
        | Inr (Some _) \<Rightarrow> True)"
proof (cases "read_answer out")
  case (Inl msg)
  with assms show ?thesis by (simp add: click_pending settle_not_pending failed_keeps_active)
next
  case (Inr r)
  show ?thesis
  proof (cases r)
    case None
    with Inr assms show ?thesis
      by (cases "view (uidoc v) i") (auto simp: click_pending settle_not_pending silent_shows_request has_class_present present_view
        dest!: has_class_present [of "uidoc (settle b now out v)"] simp: settle_silent)
  next
    case (Some data)
    with Inr assms show ?thesis by (simp add: click_pending settle_not_pending)
  qed
qed

end

lemmas toggle_defs = toggleMotion_def togglePrivacy_def toggleAudio_def toggleMotion_settle_def
  togglePrivacy_settle_def toggleAudio_settle_def audio_param_def audio_value_def

lemma feed_single:
  assumes "(i, k, ignored, shown) \<in> set status_table" and "k \<noteq> ''time_now''" and "\<not> ignored v"
  shows "view (uidoc (feed now [(k, v)] u)) i =
     map_option (\<lambda>s. if shown v then insert ''active'' (s - {''pending''}) else s - {''pending'', ''active''})
       (view (uidoc u) i)"
  using assms by (simp add: feed_button_view [OF _ assms(1)])

lemma in_table:
  "(''motion'', ''motion_enabled'', \<lambda>v. v = JUndef, \<lambda>v. v = JBool True) \<in> set status_table"
  "(''privacy'', ''privacy_enabled'', \<lambda>v. v = JUndef, \<lambda>v. v = JBool True) \<in> set status_table"
  "(''microphone'', ''mic_muted'', \<lambda>v. v = JUndef, \<lambda>v. v \<noteq> JBool True) \<in> set status_table"
  "(''speaker'', ''spk_enabled'', \<lambda>v. v = JUndef, \<lambda>v. v = JBool True) \<in> set status_table"
  by (simp_all add: status_table_def)

lemmas feed_toggles = feed_single [OF in_table(1)] feed_single [OF in_table(2)] feed_single [OF in_table(3)]
  feed_single [OF in_table(4)]

lemma confirmed_defined: "confirmed data g k (JBool b) = Some v \<Longrightarrow> v \<noteq> JUndef"
  by (auto simp: confirmed_def Let_def split: if_splits)

lemma not_pending_drop: "\<not> has_class (uidoc (drop_pending i u)) i ''pending''"
  by (cases "view (uidoc u) i") (simp_all add: has_class_view view_drop_pending)

lemma not_pending_feed:
  assumes "(i, k, ignored, shown) \<in> set status_table" and "k \<noteq> ''time_now''" and "\<not> ignored v"
  shows "\<not> has_class (uidoc (feed now [(k, v)] u)) i ''pending''"
  by (cases "view (uidoc u) i") (simp_all add: has_class_view feed_single [OF assms])

lemmas not_pending_toggles = not_pending_feed [OF in_table(1)] not_pending_feed [OF in_table(2)]
  not_pending_feed [OF in_table(3)] not_pending_feed [OF in_table(4)]

interpretation motion_toggle: confirmed_toggle toggleMotion toggleMotion_settle "''motion''"
proof
  show "\<not> has_class (uidoc (toggleMotion_settle b now out u)) ''motion'' ''pending''" for b now out u
    by (auto simp: toggle_defs Let_def not_pending_drop not_pending_toggles dest: confirmed_defined split: sum.split option.split)
qed (simp_all add: toggle_defs view_add_pending feed_toggles)

interpretation privacy_toggle: confirmed_toggle togglePrivacy togglePrivacy_settle "''privacy''"
proof
  show "\<not> has_class (uidoc (togglePrivacy_settle b now out u)) ''privacy'' ''pending''" for b now out u
    by (auto simp: toggle_defs Let_def not_pending_drop not_pending_toggles dest: confirmed_defined split: sum.split option.split)
qed (simp_all add: toggle_defs view_add_pending feed_toggles)

interpretation microphone_toggle: confirmed_toggle "toggleAudio ''microphone''" "toggleAudio_settle ''microphone''" "''microphone''"
proof
  show "\<not> has_class (uidoc (toggleAudio_settle ''microphone'' b now out u)) ''microphone'' ''pending''" for b now out u
    by (auto simp: toggle_defs Let_def not_pending_drop not_pending_toggles dest: confirmed_defined split: sum.split option.split)
qed (simp_all add: toggle_defs view_add_pending feed_toggles)

interpretation speaker_toggle: confirmed_toggle "toggleAudio ''speaker''" "toggleAudio_settle ''speaker''" "''speaker''"
proof
  show "\<not> has_class (uidoc (toggleAudio_settle ''speaker'' b now out u)) ''speaker'' ''pending''" for b now out u
    by (auto simp: toggle_defs Let_def not_pending_drop not_pending_toggles dest: confirmed_defined split: sum.split option.split)
qed (simp_all add: toggle_defs view_add_pending feed_toggles)


lemma key_map_row:
  assumes "i \<in> set image_buttons"
  obtains k shown kvs where "(i, k, nullish, shown) \<in> set status_table" and "key_map i n = Some kvs"
    and "map_of kvs k = Some (jint n)" and "\<And>n'. shown (jint n') \<longleftrightarrow> n' = (if i = ''color'' then 0 else 1)"
    and "map_of kvs ''time_now'' = None" and "k \<noteq> ''time_now''"
  using assms unfolding image_buttons_def list.set insert_iff empty_iff
  by (elim disjE) (auto simp: status_table_def key_map_def)

lemma map_of_filter_defined:
  "map_of kvs k = Some v \<Longrightarrow> v \<noteq> JUndef \<Longrightarrow> distinct (map fst kvs) \<Longrightarrow>
     map_of (filter (\<lambda>kv. snd kv \<noteq> JUndef) kvs) k = Some v"
  by (induction kvs) (auto simp: map_of_eq_None_iff split: if_splits)

lemma map_of_filter_None: "map_of kvs k = None \<Longrightarrow> map_of (filter P kvs) k = None"
  by (induction kvs) (auto split: if_splits)

lemma key_map_distinct: "key_map i n = Some kvs \<Longrightarrow> distinct (map fst kvs)"
  by (auto simp: key_map_def split: if_splits)

section \<open>Properties\<close>

text \<open>
  The toggles that confirm through the status reducer: the click marks the button pending, and when the
  request settles, in whatever state the page is by then, the button is never left pending; a failed request
  keeps what the button shows, and an empty answer shows the state the user asked for.
\<close>

theorem toggles_settle:
  assumes "(start, settle, i) \<in> set toggle_table" and "present (uidoc u) i"
  shows "has_class (uidoc (fst (start b u))) i ''pending'' \<and> \<not> has_class (uidoc (settle b now out v)) i ''pending''
     \<and> (case read_answer out of
          Inl _ \<Rightarrow> has_class (uidoc (settle b now out v)) i ''active'' = has_class (uidoc v) i ''active''
        | Inr None \<Rightarrow> has_class (uidoc (settle b now out v)) i ''active'' = (b \<and> present (uidoc v) i)
        | Inr (Some _) \<Rightarrow> True)"
  using assms(1) unfolding toggle_table_def list.set insert_iff empty_iff prod.inject
  by (elim disjE conjE FalseE; hypsubst)
     (rule motion_toggle.round_trip privacy_toggle.round_trip microphone_toggle.round_trip speaker_toggle.round_trip,
      use assms(2) in simp)+

theorem toggles_settle_witness:
  "\<not> has_class (uidoc (toggleMotion_settle True 0 (Rejected ''offline'') sample_ui)) ''motion'' ''pending''
   \<and> has_class (uidoc (fst (toggleMotion True sample_ui))) ''motion'' ''pending''"
  using toggles_settle [of toggleMotion toggleMotion_settle "''motion''" sample_ui True 0 "Rejected ''offline''" sample_ui]
  by (simp add: toggle_table_def sample_ui_def sample_doc_def present_def)

text \<open>
  The image buttons flip: when the camera answers a click without a read-back, the button, in whatever
  state the page is by then, shows the opposite of what it showed at the click. For the colour button this
  rests on the inverted ISP value (0 is colour).
\<close>

theorem image_button_flips:
  assumes "i \<in> set image_buttons" and "present (uidoc v) i"
    and "parsed r = Some data" and "\<not> nullish data" and "button_readback data = None"
  shows "has_class (uidoc (toggleButton_settle i (button_new_state i (has_class (uidoc u) i ''active'')) now (Answer r) v)) i ''active''
         = (\<not> has_class (uidoc u) i ''active'')"
proof -
  let ?n = "button_new_state i (has_class (uidoc u) i ''active'')"
  obtain k shown kvs where row: "(i, k, nullish, shown) \<in> set status_table" and kvs: "key_map i ?n = Some kvs"
      "map_of kvs k = Some (jint ?n)" "map_of kvs ''time_now'' = None"
    and shown: "\<And>n'. shown (jint n') \<longleftrightarrow> n' = (if i = ''color'' then 0 else 1)"
    using key_map_row [OF assms(1), of ?n] by metis
  let ?kvs = "filter (\<lambda>kv. snd kv \<noteq> JUndef) kvs"
  have upd: "button_update i ?n data = Some ?kvs"
    by (simp add: button_update_def assms(5) kvs(1))
  have k: "getp (JObj ?kvs) k = jint ?n" and t: "map_of ?kvs ''time_now'' = None"
    using map_of_filter_defined [OF kvs(2)] key_map_distinct [OF kvs(1)] map_of_filter_None [OF kvs(3)] by simp_all
  obtain s where s: "view (uidoc v) i = Some s"
    using assms(2) by (auto simp: present_view)
  have "has_class (uidoc (drop_pending i (feed now ?kvs v))) i ''active'' = shown (jint ?n)"
    using s by (simp add: has_class_view view_drop_pending feed_button_view [OF t row] k nullish_def del: getp.simps)
  moreover have "toggleButton_settle i ?n now (Answer r) v = drop_pending i (feed now ?kvs v)"
    using assms(3,4) by (simp add: toggleButton_settle_def upd)
  moreover have "shown (jint ?n) = (\<not> has_class (uidoc u) i ''active'')"
    by (simp add: shown button_new_state_def)
  ultimately show ?thesis by simp
qed

theorem image_button_flips_witness:
  "has_class (uidoc (toggleButton_settle ''white'' 1 0 (ok_answer (JObj [(''message'', JStr ''ok'')]))
      (sample_ui\<lparr>uidoc := sample_doc(''white'' \<mapsto> blank_elem)\<rparr>))) ''white'' ''active''"
proof -
  let ?u = "sample_ui\<lparr>uidoc := sample_doc(''white'' \<mapsto> blank_elem)\<rparr>"
  let ?r = "\<lparr>status = 200, text_body = ''{...}'', parsed = Some (JObj [(''message'', JStr ''ok'')])\<rparr>"
  have "button_new_state ''white'' (has_class (uidoc ?u) ''white'' ''active'') = 1"
      "\<not> has_class (uidoc ?u) ''white'' ''active''"
    by (simp_all add: button_new_state_def has_class_def blank_elem_def)
  then show ?thesis
    using image_button_flips [of "''white''" ?u ?r "JObj [(''message'', JStr ''ok'')]" ?u 0]
    by (simp add: image_buttons_def present_def nullish_def button_readback_def ok_answer_def)
qed

text \<open>
  A confirmed recording toggle changes exactly the flag of its channel, to the opposite of what the click
  saw; any other answer leaves both flags as they are.
\<close>

theorem recording_toggle_flips:
  assumes "ch \<in> {Fin 0, Fin 1}"
  shows "let u' = fst (toggleRecording_settle ch r out u);
             ok = (\<exists>data. read_answer out = Inr (Some data) \<and> getp (getp data ''mp4'') (recording_action r) = JStr ''ok'')
         in recording_of u' ch = Some (if ok then \<not> r else recording_of u ch = Some True)
          \<and> recording_of u' (if ch = Fin 0 then Fin 1 else Fin 0) = recording_of u (if ch = Fin 0 then Fin 1 else Fin 0)"
proof (cases "read_answer out")
  case (Inl msg)
  with assms show ?thesis
    by (auto simp: toggleRecording_settle_def recording_failed_def recording_of_def Let_def)
next
  case (Inr a)
  show ?thesis
  proof (cases a)
    case None
    with Inr assms show ?thesis
      by (auto simp: toggleRecording_settle_def recording_of_def Let_def)
  next
    case (Some data)
    have "nullish data \<or> \<not> truthy (getp data ''mp4'') \<Longrightarrow> getp (getp data ''mp4'') (recording_action r) \<noteq> JStr ''ok''"
      by (cases data; cases "getp data ''mp4''") (auto simp: nullish_def)
    with Some Inr assms show ?thesis
      by (auto simp: toggleRecording_settle_def recording_failed_def recording_of_def recording_action_def Let_def)
  qed
qed

theorem recording_toggle_flips_witness:
  "recording_of (fst (toggleRecording_settle (Fin 0) True (ok_answer (JObj [(''mp4'', JObj [(''stop'', JStr ''ok'')])])) sample_ui)) (Fin 0)
     = Some False"
  using recording_toggle_flips [of "Fin 0" True "ok_answer (JObj [(''mp4'', JObj [(''stop'', JStr ''ok'')])])" sample_ui]
  by (simp add: Let_def read_answer_def ok_answer_def resp_ok_def recording_action_def)

text \<open>
  C40. A status message without the recording keys (the answers of the fast, health and live-gain pollers and
  of every toggle) clears the recording flags, so the next click on a recorder button asks the camera to start
  a recording, whatever the page knew before.
\<close>

theorem partial_message_restarts_recording:
  assumes "truthy json" and "clock_ok fmt cfg json u" and "ch \<in> {Fin 0, Fin 1}"
    and "getp json ''rec_ch0'' = JUndef" and "getp json ''rec_ch1'' = JUndef"
  shows "snd (toggleRecording ch (fst (updateHeartbeatUi fmt cfg now json u))) =
     [Send (PostJson ''/x/json-prudynt.cgi'' (JObj [(''mp4'', JObj [(''start'', JObj [(''channel'', JNum ch)])])]))]"
  using assms(3) update_recording [OF assms(1,2), of now] assms(4,5)
  by (auto simp: toggleRecording_def is_recording_def recording_of_def recording_action_def)

theorem partial_message_restarts_recording_witness:
  "rec_ch0 sample_ui \<and> snd (toggleRecording (Fin 0) sample_ui) =
     [Send (PostJson ''/x/json-prudynt.cgi'' (JObj [(''mp4'', JObj [(''stop'', JObj [(''channel'', jint 0)])])]))]
   \<and> snd (toggleRecording (Fin 0) (fst (updateHeartbeatUi (\<lambda>_ _. None) JUndef 0 (JObj [(''total_gain'', jint 7)]) sample_ui))) =
     [Send (PostJson ''/x/json-prudynt.cgi'' (JObj [(''mp4'', JObj [(''start'', JObj [(''channel'', jint 0)])])]))]"
  using partial_message_restarts_recording [of "JObj [(''total_gain'', jint 7)]" "\<lambda>_ _. None" JUndef sample_ui "Fin 0" 0]
  by (simp add: sample_ui_def toggleRecording_def is_recording_def recording_of_def recording_action_def)

end
