(* ===== verification/Heartbeat.thy ===== *)
theory Heartbeat
  imports Dom
begin

text \<open>
  The status channels of \<open>main.js\<close>: the server-sent event stream with its reconnecting, the four pollers
  (slow, fast, health, live gain), the clean-up on hiding or leaving the page, and the password gate that
  keeps them all off. The state holds the script's variables and, beside them, what the browser keeps: the
  queue of armed timers, the open event sources and the number of requests of each poller that have not
  settled yet. An event is one turn of the browser's event loop; \<open>step\<close> runs the handler it triggers.
  The four pollers are one text with four sets of variables, so they are instances of one definition each.
\<close>

section \<open>State\<close>

datatype chan = Slow | Fast | Health | Gain

datatype job = Poll chan | Reconnect | PasswordDone

record hb =
  passwordCheckComplete :: bool
  isDefaultPassword :: bool
  doc_hidden :: bool
  heartbeatSource :: "nat option"
  heartbeatReconnectTimer :: "nat option"
  currentReconnectDelay :: nat
  pollTimer :: "chan \<Rightarrow> nat option"
  inFlight :: "chan \<Rightarrow> bool"
  sessionChecked :: bool \<comment> \<open>the check that the load event schedules has run\<close>
  queue :: "(nat \<times> job \<times> nat) list" \<comment> \<open>armed timers: handle, callback, delay\<close>
  sources :: "nat list" \<comment> \<open>open event sources\<close>
  pending :: "chan \<Rightarrow> nat" \<comment> \<open>requests that have not settled\<close>
  nextId :: nat \<comment> \<open>the next fresh handle\<close>

definition HeartBeatReconnectDelay :: nat where
  "HeartBeatReconnectDelay = 5 * 1000"

definition HeartBeatMaxReconnectDelay :: nat where
  "HeartBeatMaxReconnectDelay = 120 * 1000"

fun poll_interval :: "chan \<Rightarrow> nat" where
  "poll_interval Slow = 15 * 1000"
| "poll_interval Fast = 2 * 1000"
| "poll_interval Health = 7 * 1000"
| "poll_interval Gain = 5 * 1000"

definition init_hb :: "bool \<Rightarrow> hb" where
  "init_hb hidden = \<lparr>passwordCheckComplete = False, isDefaultPassword = False, doc_hidden = hidden,
     heartbeatSource = None, heartbeatReconnectTimer = None, currentReconnectDelay = HeartBeatReconnectDelay,
     pollTimer = (\<lambda>_. None), inFlight = (\<lambda>_. False), sessionChecked = False,
     queue = [], sources = [], pending = (\<lambda>_. 0), nextId = 0\<rparr>"

section \<open>Timers\<close>

definition set_timeout :: "job \<Rightarrow> nat \<Rightarrow> hb \<Rightarrow> hb" where
  "set_timeout j delay s = s\<lparr>queue := queue s @ [(nextId s, j, delay)], nextId := Suc (nextId s)\<rparr>"

definition clear_timeout :: "nat \<Rightarrow> hb \<Rightarrow> hb" where
  "clear_timeout i s = s\<lparr>queue := filter (\<lambda>(k, _). k \<noteq> i) (queue s)\<rparr>"

definition clear_timer_var :: "nat option \<Rightarrow> hb \<Rightarrow> hb" where
  "clear_timer_var t s = (case t of None \<Rightarrow> s | Some i \<Rightarrow> clear_timeout i s)"

section \<open>The pollers\<close>

definition gated :: "hb \<Rightarrow> bool" where
  "gated s \<longleftrightarrow> \<not> passwordCheckComplete s \<or> isDefaultPassword s \<or> doc_hidden s"

definition fetch_chan :: "chan \<Rightarrow> hb \<Rightarrow> hb" where
  "fetch_chan c s =
     (if inFlight s c \<or> gated s then s
      else s\<lparr>inFlight := (inFlight s)(c := True), pending := (pending s)(c := Suc (pending s c))\<rparr>)"

definition schedule_chan :: "chan \<Rightarrow> hb \<Rightarrow> hb" where
  "schedule_chan c s =
     (let s1 = (clear_timer_var (pollTimer s c) s)\<lparr>pollTimer := (pollTimer s)(c := None)\<rparr>
      in if gated s1 then s1
         else set_timeout (Poll c) (poll_interval c) (s1\<lparr>pollTimer := (pollTimer s1)(c \<mapsto> nextId s1)\<rparr>))"

text \<open>The \<open>finally\<close> block, when a request of the poller settles in whatever way.\<close>

definition settle_chan :: "chan \<Rightarrow> hb \<Rightarrow> hb" where
  "settle_chan c s =
     schedule_chan c (s\<lparr>pending := (pending s)(c := pending s c - 1), inFlight := (inFlight s)(c := False)\<rparr>)"

definition start_chan :: "chan \<Rightarrow> hb \<Rightarrow> hb" where
  "start_chan c s = (if pollTimer s c \<noteq> None \<or> inFlight s c then s else fetch_chan c s)"

definition fetchSlowHeartbeatStatus :: "hb \<Rightarrow> hb" where "fetchSlowHeartbeatStatus = fetch_chan Slow"
definition scheduleSlowHeartbeatStatus :: "hb \<Rightarrow> hb" where "scheduleSlowHeartbeatStatus = schedule_chan Slow"
definition startSlowHeartbeatStatus :: "hb \<Rightarrow> hb" where "startSlowHeartbeatStatus = start_chan Slow"
definition fetchFastStatus :: "hb \<Rightarrow> hb" where "fetchFastStatus = fetch_chan Fast"
definition scheduleFastStatus :: "hb \<Rightarrow> hb" where "scheduleFastStatus = schedule_chan Fast"
definition startFastStatus :: "hb \<Rightarrow> hb" where "startFastStatus = start_chan Fast"
definition fetchHealthStatus :: "hb \<Rightarrow> hb" where "fetchHealthStatus = fetch_chan Health"
definition scheduleHealthStatus :: "hb \<Rightarrow> hb" where "scheduleHealthStatus = schedule_chan Health"
definition startHealthStatus :: "hb \<Rightarrow> hb" where "startHealthStatus = start_chan Health"
definition fetchLiveGainStatus :: "hb \<Rightarrow> hb" where "fetchLiveGainStatus = fetch_chan Gain"
definition scheduleLiveGainStatus :: "hb \<Rightarrow> hb" where "scheduleLiveGainStatus = schedule_chan Gain"
definition startLiveGainStatus :: "hb \<Rightarrow> hb" where "startLiveGainStatus = start_chan Gain"

text \<open>
  The messages a settled request hands to the status reducer: the body of a successful answer, and for
  the slow poller the two audio values of it, one message each.
\<close>

definition chan_messages :: "chan \<Rightarrow> outcome \<Rightarrow> js list" where
  "chan_messages c out =
     (case out of
        Rejected _ \<Rightarrow> []
      | Answer r \<Rightarrow>
          (case parsed r of
             None \<Rightarrow> []
           | Some data \<Rightarrow>
               if \<not> resp_ok r then []
               else if c \<noteq> Slow then [data]
               else (let audio = getp data ''audio''
                     in if truthy data \<and> truthy audio
                        then map (\<lambda>k. JObj [(k, getp audio k)])
                               (filter (\<lambda>k. getp audio k \<noteq> JUndef) [''mic_muted'', ''spk_enabled''])
                        else [])))"

section \<open>The event stream\<close>

definition startHeartbeatSse :: "hb \<Rightarrow> hb" where
  "startHeartbeatSse s =
     (if \<not> passwordCheckComplete s \<or> isDefaultPassword s then s
      else if heartbeatSource s \<noteq> None then s
      else s\<lparr>heartbeatSource := Some (nextId s), sources := sources s @ [nextId s], nextId := Suc (nextId s)\<rparr>)"

definition close_source :: "hb \<Rightarrow> hb" where
  "close_source s = (case heartbeatSource s of None \<Rightarrow> s
     | Some i \<Rightarrow> s\<lparr>sources := filter (\<lambda>k. k \<noteq> i) (sources s), heartbeatSource := None\<rparr>)"

definition sse_onmessage :: "hb \<Rightarrow> hb" where
  "sse_onmessage s = s\<lparr>currentReconnectDelay := HeartBeatReconnectDelay\<rparr>"

definition sse_onerror :: "hb \<Rightarrow> hb" where
  "sse_onerror s =
     (let s1 = close_source s;
          s2 = clear_timer_var (heartbeatReconnectTimer s1) s1;
          s3 = set_timeout Reconnect (currentReconnectDelay s2)
                 (s2\<lparr>heartbeatReconnectTimer := Some (nextId s2)\<rparr>)
      in s3\<lparr>currentReconnectDelay := min (currentReconnectDelay s3 * 2) HeartBeatMaxReconnectDelay\<rparr>)"

section \<open>Start and clean-up\<close>

definition heartbeat :: "hb \<Rightarrow> hb" where
  "heartbeat s =
     (if \<not> passwordCheckComplete s then s
      else if isDefaultPassword s then s
      else if doc_hidden s then s
      else startSlowHeartbeatStatus (startHeartbeatSse (startLiveGainStatus (startHealthStatus (startFastStatus s)))))"

definition clear_poll_timer :: "chan \<Rightarrow> hb \<Rightarrow> hb" where
  "clear_poll_timer c s = (clear_timer_var (pollTimer s c) s)\<lparr>pollTimer := (pollTimer s)(c := None)\<rparr>"

definition cleanupHeartbeatResources :: "hb \<Rightarrow> hb" where
  "cleanupHeartbeatResources s =
     (let s1 = close_source s;
          s2 = (clear_timer_var (heartbeatReconnectTimer s1) s1)\<lparr>heartbeatReconnectTimer := None\<rparr>;
          s3 = clear_poll_timer Gain (clear_poll_timer Health (clear_poll_timer Fast (clear_poll_timer Slow s2)))
      in s3\<lparr>inFlight := (\<lambda>_. False), currentReconnectDelay := HeartBeatReconnectDelay\<rparr>)"

definition visibilitychange :: "bool \<Rightarrow> hb \<Rightarrow> hb" where
  "visibilitychange hid s =
     (let s1 = s\<lparr>doc_hidden := hid\<rparr>
      in if hid then cleanupHeartbeatResources s1
         else if passwordCheckComplete s1 \<and> \<not> isDefaultPassword s1 then heartbeat s1 else s1)"

section \<open>The session and password check\<close>

datatype session = ToLogin | DefaultPassword | SessionOk

definition session_decision :: "outcome \<Rightarrow> session" where
  "session_decision out =
     (case out of
        Rejected _ \<Rightarrow> ToLogin
      | Answer r \<Rightarrow>
          if \<not> resp_ok r then ToLogin
          else (case parsed r of
                  None \<Rightarrow> ToLogin
                | Some data \<Rightarrow>
                    if nullish data then ToLogin
                    else if \<not> truthy (getp data ''authenticated'') then ToLogin
                    else if truthy (getp data ''is_default_password'') then DefaultPassword
                    else SessionOk))"

definition checkSessionAndPassword :: "session \<Rightarrow> hb \<Rightarrow> hb" where
  "checkSessionAndPassword d s0 =
     (let s = s0\<lparr>sessionChecked := True\<rparr>
      in case d of
           ToLogin \<Rightarrow> s
         | DefaultPassword \<Rightarrow> s\<lparr>isDefaultPassword := True, passwordCheckComplete := True\<rparr>
         | SessionOk \<Rightarrow> heartbeat (s\<lparr>isDefaultPassword := False, passwordCheckComplete := True\<rparr>))"

text \<open>The password dialog: its checks, the accepted change, and the timer that closes it.\<close>

datatype password_error = TooShort | Mismatch | StillRoot

definition password_check :: "string \<Rightarrow> string \<Rightarrow> password_error option" where
  "password_check newPassword confirmPassword =
     (if length newPassword < 4 then Some TooShort
      else if newPassword \<noteq> confirmPassword then Some Mismatch
      else if newPassword = ''root'' then Some StillRoot
      else None)"

definition password_submit :: "string \<Rightarrow> string \<Rightarrow> hb \<Rightarrow> hb \<times> effect list" where
  "password_submit newPassword confirmPassword s =
     (case password_check newPassword confirmPassword of
        Some _ \<Rightarrow> (s, [])
      | None \<Rightarrow> (cleanupHeartbeatResources s,
                 [Send (PostJson ''/x/json-config-webui.cgi'' (JObj [(''password'', JStr newPassword)]))]))"

definition password_changed :: "hb \<Rightarrow> hb" where
  "password_changed s = set_timeout PasswordDone 1500 (s\<lparr>isDefaultPassword := False\<rparr>)"

definition password_done :: "hb \<Rightarrow> hb" where
  "password_done s = (if heartbeatSource s = None then heartbeat s else s)"

section \<open>Steps\<close>

datatype event = Session session | PasswordSubmit string string | PasswordChanged
  | Visibility bool | Unload | Timer nat | Settled chan | SseMessage | SseError

definition run_job :: "job \<Rightarrow> hb \<Rightarrow> hb" where
  "run_job j s =
     (case j of
        Poll c \<Rightarrow> fetch_chan c (s\<lparr>pollTimer := (pollTimer s)(c := None)\<rparr>)
      | Reconnect \<Rightarrow> heartbeat s
      | PasswordDone \<Rightarrow> password_done s)"

definition fire :: "nat \<Rightarrow> hb \<Rightarrow> hb" where
  "fire i s = (case map_of (queue s) i of None \<Rightarrow> s | Some (j, _) \<Rightarrow> run_job j (clear_timeout i s))"

text \<open>
  When an event can happen: the browser fires armed timers, settles requests that are pending, and delivers
  stream events to an open source only; the session check runs once; the password dialog exists while the
  default password is in use.
\<close>

fun enabled :: "event \<Rightarrow> hb \<Rightarrow> bool" where
  "enabled (Session _) s = (\<not> sessionChecked s)"
| "enabled (PasswordSubmit _ _) s = (passwordCheckComplete s \<and> isDefaultPassword s)"
| "enabled PasswordChanged s = (passwordCheckComplete s \<and> isDefaultPassword s)"
| "enabled (Visibility hid) s = (hid \<noteq> doc_hidden s)"
| "enabled Unload s = True"
| "enabled (Timer i) s = (i \<in> fst ` set (queue s))"
| "enabled (Settled c) s = (0 < pending s c)"
| "enabled SseMessage s = (heartbeatSource s \<noteq> None)"
| "enabled SseError s = (heartbeatSource s \<noteq> None)"

fun step :: "event \<Rightarrow> hb \<Rightarrow> hb" where
  "step (Session d) s = checkSessionAndPassword d s"
| "step (PasswordSubmit p q) s = fst (password_submit p q s)"
| "step PasswordChanged s = password_changed s"
| "step (Visibility hid) s = visibilitychange hid s"
| "step Unload s = cleanupHeartbeatResources s"
| "step (Timer i) s = fire i s"
| "step (Settled c) s = settle_chan c s"
| "step SseMessage s = sse_onmessage s"
| "step SseError s = sse_onerror s"

text \<open>The states a page can reach through events that satisfy \<open>P\<close>.\<close>

inductive reachable :: "(event \<Rightarrow> bool) \<Rightarrow> hb \<Rightarrow> bool" for P :: "event \<Rightarrow> bool" where
  start: "reachable P (init_hb hidden)"
| step: "reachable P s \<Longrightarrow> P e \<Longrightarrow> enabled e s \<Longrightarrow> reachable P (step e s)"

fun run :: "event list \<Rightarrow> hb \<Rightarrow> hb option" where
  "run [] s = Some s"
| "run (e # es) s = (if enabled e s then run es (step e s) else None)"

text \<open>One failure of the event stream and the reconnect timer it arms.\<close>

definition error_cycle :: "hb \<Rightarrow> hb" where
  "error_cycle s = (let s1 = sse_onerror s in fire (nextId s) s1)"

section \<open>The invariant\<close>

text \<open>The handles armed for a callback.\<close>

definition timer_ids :: "job \<Rightarrow> hb \<Rightarrow> nat list" where
  "timer_ids j s = map fst (filter (\<lambda>(_, k, _). k = j) (queue s))"

text \<open>
  Handles are fresh and distinct; each variable of the script names what the browser holds: one open
  source, one armed timer per poller, one reconnect timer (whose variable may be stale after it fired,
  but then names no other timer).
\<close>

definition wf_hb :: "hb \<Rightarrow> bool" where
  "wf_hb s \<longleftrightarrow>
     distinct (map fst (queue s)) \<and> (\<forall>i \<in> fst ` set (queue s). i < nextId s)
     \<and> sources s = (case heartbeatSource s of None \<Rightarrow> [] | Some i \<Rightarrow> [i])
     \<and> (\<forall>c. timer_ids (Poll c) s = (case pollTimer s c of None \<Rightarrow> [] | Some i \<Rightarrow> [i]))
     \<and> (timer_ids Reconnect s = [] \<or> (\<exists>i. heartbeatReconnectTimer s = Some i \<and> timer_ids Reconnect s = [i]))
     \<and> (\<forall>i j. heartbeatReconnectTimer s = Some i \<longrightarrow> i < nextId s \<and> (j \<noteq> Reconnect \<longrightarrow> i \<notin> set (timer_ids j s)))"

text \<open>Nothing that loads the camera runs: no open stream, no armed poll, no armed reconnect.\<close>

definition quiet :: "hb \<Rightarrow> bool" where
  "quiet s \<longleftrightarrow> sources s = [] \<and> heartbeatSource s = None \<and> (\<forall>c. timer_ids (Poll c) s = [] \<and> pollTimer s c = None)
     \<and> timer_ids Reconnect s = []"

definition hb_inv :: "hb \<Rightarrow> bool" where
  "hb_inv s \<longleftrightarrow> wf_hb s \<and> (gated s \<longrightarrow> quiet s) \<and> (\<not> sessionChecked s \<longrightarrow> \<not> passwordCheckComplete s)
     \<and> HeartBeatReconnectDelay \<le> currentReconnectDelay s \<and> currentReconnectDelay s \<le> HeartBeatMaxReconnectDelay"

lemmas chan_ops = fetchSlowHeartbeatStatus_def scheduleSlowHeartbeatStatus_def startSlowHeartbeatStatus_def
  fetchFastStatus_def scheduleFastStatus_def startFastStatus_def
  fetchHealthStatus_def scheduleHealthStatus_def startHealthStatus_def
  fetchLiveGainStatus_def scheduleLiveGainStatus_def startLiveGainStatus_def

subsection \<open>Timers\<close>

lemma timer_ids_set_timeout [simp]:
  "timer_ids j (set_timeout k d s) = timer_ids j s @ (if j = k then [nextId s] else [])"
  by (simp add: timer_ids_def set_timeout_def)

lemma timer_ids_clear_timeout [simp]: "timer_ids j (clear_timeout i s) = filter (\<lambda>k. k \<noteq> i) (timer_ids j s)"
  by (auto simp: timer_ids_def clear_timeout_def filter_map comp_def split_def intro!: arg_cong [where f = "map fst"] filter_cong)

lemma timer_ids_cong: "queue s' = queue s \<Longrightarrow> timer_ids j s' = timer_ids j s"
  by (simp add: timer_ids_def)

lemma timer_ids_upd [simp]:
  "timer_ids j (s\<lparr>passwordCheckComplete := a\<rparr>) = timer_ids j s"
  "timer_ids j (s\<lparr>isDefaultPassword := a\<rparr>) = timer_ids j s"
  "timer_ids j (s\<lparr>doc_hidden := a\<rparr>) = timer_ids j s"
  "timer_ids j (s\<lparr>heartbeatSource := b\<rparr>) = timer_ids j s"
  "timer_ids j (s\<lparr>heartbeatReconnectTimer := b\<rparr>) = timer_ids j s"
  "timer_ids j (s\<lparr>currentReconnectDelay := n\<rparr>) = timer_ids j s"
  "timer_ids j (s\<lparr>pollTimer := pt\<rparr>) = timer_ids j s"
  "timer_ids j (s\<lparr>inFlight := fl\<rparr>) = timer_ids j s"
  "timer_ids j (s\<lparr>sessionChecked := a\<rparr>) = timer_ids j s"
  "timer_ids j (s\<lparr>sources := ss\<rparr>) = timer_ids j s"
  "timer_ids j (s\<lparr>pending := pe\<rparr>) = timer_ids j s"
  "timer_ids j (s\<lparr>nextId := n\<rparr>) = timer_ids j s"
  by (simp_all add: timer_ids_def)

lemma set_timeout_fields [simp]:
  "passwordCheckComplete (set_timeout j d s) = passwordCheckComplete s"
  "isDefaultPassword (set_timeout j d s) = isDefaultPassword s"
  "doc_hidden (set_timeout j d s) = doc_hidden s"
  "heartbeatSource (set_timeout j d s) = heartbeatSource s"
  "heartbeatReconnectTimer (set_timeout j d s) = heartbeatReconnectTimer s"
  "currentReconnectDelay (set_timeout j d s) = currentReconnectDelay s"
  "pollTimer (set_timeout j d s) = pollTimer s" "inFlight (set_timeout j d s) = inFlight s"
  "sessionChecked (set_timeout j d s) = sessionChecked s" "sources (set_timeout j d s) = sources s"
  "pending (set_timeout j d s) = pending s" "nextId (set_timeout j d s) = Suc (nextId s)"
  "queue (set_timeout j d s) = queue s @ [(nextId s, j, d)]"
  by (simp_all add: set_timeout_def)

lemma clear_timeout_fields [simp]:
  "passwordCheckComplete (clear_timeout i s) = passwordCheckComplete s"
  "isDefaultPassword (clear_timeout i s) = isDefaultPassword s"
  "doc_hidden (clear_timeout i s) = doc_hidden s"
  "heartbeatSource (clear_timeout i s) = heartbeatSource s"
  "heartbeatReconnectTimer (clear_timeout i s) = heartbeatReconnectTimer s"
  "currentReconnectDelay (clear_timeout i s) = currentReconnectDelay s"
  "pollTimer (clear_timeout i s) = pollTimer s" "inFlight (clear_timeout i s) = inFlight s"
  "sessionChecked (clear_timeout i s) = sessionChecked s" "sources (clear_timeout i s) = sources s"
  "pending (clear_timeout i s) = pending s" "nextId (clear_timeout i s) = nextId s"
  "queue (clear_timeout i s) = filter (\<lambda>(k, _). k \<noteq> i) (queue s)"
  by (simp_all add: clear_timeout_def)

lemma clear_timer_var_fields [simp]:
  "passwordCheckComplete (clear_timer_var t s) = passwordCheckComplete s"
  "isDefaultPassword (clear_timer_var t s) = isDefaultPassword s"
  "doc_hidden (clear_timer_var t s) = doc_hidden s"
  "heartbeatSource (clear_timer_var t s) = heartbeatSource s"
  "heartbeatReconnectTimer (clear_timer_var t s) = heartbeatReconnectTimer s"
  "currentReconnectDelay (clear_timer_var t s) = currentReconnectDelay s"
  "pollTimer (clear_timer_var t s) = pollTimer s" "inFlight (clear_timer_var t s) = inFlight s"
  "sessionChecked (clear_timer_var t s) = sessionChecked s" "sources (clear_timer_var t s) = sources s"
  "pending (clear_timer_var t s) = pending s" "nextId (clear_timer_var t s) = nextId s"
  "queue (clear_timer_var t s) = filter (\<lambda>(k, _). Some k \<noteq> t) (queue s)"
  by (simp_all add: clear_timer_var_def split: option.split)

lemma timer_ids_clear_timer_var [simp]:
  "timer_ids j (clear_timer_var t s) = filter (\<lambda>k. Some k \<noteq> t) (timer_ids j s)"
  by (simp add: clear_timer_var_def split: option.split)

lemma timer_ids_queue: "i \<in> set (timer_ids j s) \<longleftrightarrow> (\<exists>d. (i, j, d) \<in> set (queue s))"
  by (force simp: timer_ids_def)

lemma timer_ids_disjoint:
  assumes "wf_hb s" and "i \<in> set (timer_ids j s)" and "i \<in> set (timer_ids k s)"
  shows "j = k"
  using assms by (auto simp: wf_hb_def timer_ids_queue dest: eq_key_imp_eq_value)

lemma timer_ids_fresh: "wf_hb s \<Longrightarrow> i \<in> set (timer_ids j s) \<Longrightarrow> i < nextId s"
  by (force simp: wf_hb_def timer_ids_queue)

lemma wf_poll: "wf_hb s \<Longrightarrow> timer_ids (Poll c) s = (case pollTimer s c of None \<Rightarrow> [] | Some i \<Rightarrow> [i])"
  by (simp add: wf_hb_def)

lemma filter_timer_ids_other:
  "wf_hb s \<Longrightarrow> pollTimer s c = Some i \<Longrightarrow> j \<noteq> Poll c \<Longrightarrow> filter (\<lambda>k. k \<noteq> i) (timer_ids j s) = timer_ids j s"
  using timer_ids_disjoint [of s i j "Poll c"] wf_poll [of s c]
  by (auto simp: filter_id_conv)

lemma wf_upd [simp]:
  "wf_hb (s\<lparr>passwordCheckComplete := a\<rparr>) = wf_hb s"
  "wf_hb (s\<lparr>isDefaultPassword := a\<rparr>) = wf_hb s"
  "wf_hb (s\<lparr>doc_hidden := a\<rparr>) = wf_hb s"
  "wf_hb (s\<lparr>currentReconnectDelay := n\<rparr>) = wf_hb s"
  "wf_hb (s\<lparr>inFlight := fl\<rparr>) = wf_hb s"
  "wf_hb (s\<lparr>sessionChecked := a\<rparr>) = wf_hb s"
  "wf_hb (s\<lparr>pending := pe\<rparr>) = wf_hb s"
  by (simp_all add: wf_hb_def)

lemma distinct_filter_fst: "distinct (map fst xs) \<Longrightarrow> distinct (map fst (filter P xs))"
  by (induction xs) auto

lemma wf_clear_poll_timer:
  assumes "wf_hb s"
  shows "wf_hb (clear_poll_timer c s)" and "timer_ids (Poll c) (clear_poll_timer c s) = []"
    and "pollTimer (clear_poll_timer c s) = (pollTimer s)(c := None)"
proof -
  show "timer_ids (Poll c) (clear_poll_timer c s) = []"
    using wf_poll [OF assms, of c] by (auto simp: clear_poll_timer_def split: option.splits)
  show "pollTimer (clear_poll_timer c s) = (pollTimer s)(c := None)"
    by (simp add: clear_poll_timer_def)
  show "wf_hb (clear_poll_timer c s)"
  proof (cases "pollTimer s c")
    case None
    then show ?thesis
      using assms by (simp add: clear_poll_timer_def clear_timer_var_def fun_upd_idem)
  next
    case (Some i)
    note keep = filter_timer_ids_other [OF assms Some]
    have "timer_ids (Poll c') (clear_poll_timer c s) = (case ((pollTimer s)(c := None)) c' of None \<Rightarrow> [] | Some i \<Rightarrow> [i])" for c'
      using wf_poll [OF assms, of c'] keep [of "Poll c'"] Some
      by (auto simp: clear_poll_timer_def)
    moreover have "timer_ids j (clear_poll_timer c s) = timer_ids j s" if "j \<noteq> Poll c" for j
      using keep [OF that] Some by (simp add: clear_poll_timer_def)
    moreover have "set (timer_ids j (clear_poll_timer c s)) \<subseteq> set (timer_ids j s)" for j
      by (auto simp: clear_poll_timer_def)
    ultimately show ?thesis
      using assms unfolding wf_hb_def
      by (auto simp: clear_poll_timer_def distinct_filter_fst)
  qed
qed

lemma wf_arm_poll:
  assumes "wf_hb s" and "pollTimer s c = None"
  shows "wf_hb (set_timeout (Poll c) d (s\<lparr>pollTimer := (pollTimer s)(c \<mapsto> nextId s)\<rparr>))"
proof -
  have "timer_ids (Poll c) s = []"
    using assms by (simp add: wf_poll)
  then show ?thesis
    using assms(1) unfolding wf_hb_def by (auto simp: less_SucI)
qed

lemma schedule_chan_eq:
  "schedule_chan c s =
     (let s1 = clear_poll_timer c s
      in if gated s then s1 else set_timeout (Poll c) (poll_interval c) (s1\<lparr>pollTimer := (pollTimer s1)(c \<mapsto> nextId s1)\<rparr>))"
  by (simp add: schedule_chan_def clear_poll_timer_def gated_def Let_def)

lemma wf_schedule_chan: "wf_hb s \<Longrightarrow> wf_hb (schedule_chan c s)"
  using wf_clear_poll_timer [of s c] wf_arm_poll [of "clear_poll_timer c s" c]
  by (simp add: schedule_chan_eq Let_def)

lemma wf_fetch_chan [simp]: "wf_hb (fetch_chan c s) = wf_hb s"
  by (simp add: fetch_chan_def)

lemma wf_start_chan [simp]: "wf_hb (start_chan c s) = wf_hb s"
  by (simp add: start_chan_def)

lemma wf_close_source: "wf_hb s \<Longrightarrow> wf_hb (close_source s)"
  by (auto simp: close_source_def wf_hb_def split: option.splits)

lemma wf_start_sse: "wf_hb s \<Longrightarrow> wf_hb (startHeartbeatSse s)"
  by (auto simp: startHeartbeatSse_def wf_hb_def less_SucI)

lemma wf_clear_reconnect:
  assumes "wf_hb s"
  shows "wf_hb (clear_timer_var (heartbeatReconnectTimer s) s)"
    and "timer_ids Reconnect (clear_timer_var (heartbeatReconnectTimer s) s) = []"
proof -
  show empty: "timer_ids Reconnect (clear_timer_var (heartbeatReconnectTimer s) s) = []"
    using assms by (auto simp: wf_hb_def)
  have keep: "timer_ids j (clear_timer_var (heartbeatReconnectTimer s) s) = timer_ids j s" if "j \<noteq> Reconnect" for j
    using assms that by (auto simp: wf_hb_def filter_id_conv)
  show "wf_hb (clear_timer_var (heartbeatReconnectTimer s) s)"
    using assms empty keep unfolding wf_hb_def
    by (auto simp: distinct_filter_fst simp del: timer_ids_clear_timer_var)
qed

lemma wf_arm_reconnect:
  assumes "wf_hb s" and "timer_ids Reconnect s = []"
  shows "wf_hb (set_timeout Reconnect d (s\<lparr>heartbeatReconnectTimer := Some (nextId s)\<rparr>))"
proof -
  have "nextId s \<notin> set (timer_ids j s)" for j
    using timer_ids_fresh [OF assms(1)] by blast
  then show ?thesis
    using assms unfolding wf_hb_def by (auto simp: less_SucI)
qed

lemma wf_sse_onerror: "wf_hb s \<Longrightarrow> wf_hb (sse_onerror s)"
  using wf_arm_reconnect [OF wf_clear_reconnect [OF wf_close_source]]
  by (simp add: sse_onerror_def Let_def)

lemma wf_no_reconnect: "wf_hb s \<Longrightarrow> timer_ids Reconnect s = [] \<Longrightarrow> wf_hb (s\<lparr>heartbeatReconnectTimer := None\<rparr>)"
  by (simp add: wf_hb_def)

lemma wf_cleanup: "wf_hb s \<Longrightarrow> wf_hb (cleanupHeartbeatResources s)"
  using wf_no_reconnect [OF wf_clear_reconnect [OF wf_close_source]]
  by (simp add: cleanupHeartbeatResources_def Let_def wf_clear_poll_timer)

lemma wf_heartbeat: "wf_hb s \<Longrightarrow> wf_hb (heartbeat s)"
  by (simp add: heartbeat_def chan_ops wf_start_sse)

subsection \<open>Silence\<close>

lemma quiet_upd [simp]:
  "quiet (s\<lparr>passwordCheckComplete := a\<rparr>) = quiet s"
  "quiet (s\<lparr>isDefaultPassword := a\<rparr>) = quiet s"
  "quiet (s\<lparr>doc_hidden := a\<rparr>) = quiet s"
  "quiet (s\<lparr>currentReconnectDelay := n\<rparr>) = quiet s"
  "quiet (s\<lparr>inFlight := fl\<rparr>) = quiet s"
  "quiet (s\<lparr>sessionChecked := a\<rparr>) = quiet s"
  "quiet (s\<lparr>pending := pe\<rparr>) = quiet s"
  by (simp_all add: quiet_def)

lemma quiet_clear_poll_timer: "quiet s \<Longrightarrow> quiet (clear_poll_timer c s)"
  by (simp add: quiet_def clear_poll_timer_def)

lemma quiet_cleanup:
  assumes "wf_hb s"
  shows "quiet (cleanupHeartbeatResources s)"
proof -
  let ?s1 = "close_source s"
  let ?s2 = "(clear_timer_var (heartbeatReconnectTimer ?s1) ?s1)\<lparr>heartbeatReconnectTimer := None\<rparr>"
  have w1: "wf_hb ?s1" using assms by (rule wf_close_source)
  have r: "timer_ids Reconnect ?s2 = []" and w2: "wf_hb ?s2"
    using wf_clear_reconnect [OF w1] wf_no_reconnect [of "clear_timer_var (heartbeatReconnectTimer ?s1) ?s1"] by simp_all
  let ?s3 = "clear_poll_timer Gain (clear_poll_timer Health (clear_poll_timer Fast (clear_poll_timer Slow ?s2)))"
  have w3: "wf_hb ?s3" using w2 by (simp add: wf_clear_poll_timer)
  have "pollTimer ?s3 c = None" for c
    by (cases c) (simp_all add: clear_poll_timer_def)
  moreover have "heartbeatSource ?s3 = None"
    by (simp add: clear_poll_timer_def close_source_def split: option.split)
  moreover have "timer_ids Reconnect ?s3 = []"
    using r by (simp add: clear_poll_timer_def)
  ultimately have "quiet ?s3"
    using w3 by (simp add: quiet_def wf_hb_def)
  then show ?thesis
    by (simp add: cleanupHeartbeatResources_def Let_def)
qed

lemma cleanup_fields [simp]:
  "passwordCheckComplete (cleanupHeartbeatResources s) = passwordCheckComplete s"
  "isDefaultPassword (cleanupHeartbeatResources s) = isDefaultPassword s"
  "doc_hidden (cleanupHeartbeatResources s) = doc_hidden s"
  "sessionChecked (cleanupHeartbeatResources s) = sessionChecked s"
  "pending (cleanupHeartbeatResources s) = pending s"
  "inFlight (cleanupHeartbeatResources s) = (\<lambda>_. False)"
  "currentReconnectDelay (cleanupHeartbeatResources s) = HeartBeatReconnectDelay"
  by (simp_all add: cleanupHeartbeatResources_def Let_def clear_poll_timer_def close_source_def split: option.split)

lemma heartbeat_gated: "gated s \<Longrightarrow> heartbeat s = s"
  by (auto simp: heartbeat_def gated_def)

lemma fetch_chan_fields [simp]:
  "passwordCheckComplete (fetch_chan c s) = passwordCheckComplete s"
  "isDefaultPassword (fetch_chan c s) = isDefaultPassword s"
  "doc_hidden (fetch_chan c s) = doc_hidden s"
  "sessionChecked (fetch_chan c s) = sessionChecked s"
  "currentReconnectDelay (fetch_chan c s) = currentReconnectDelay s"
  "pollTimer (fetch_chan c s) = pollTimer s" "heartbeatSource (fetch_chan c s) = heartbeatSource s"
  "queue (fetch_chan c s) = queue s" "nextId (fetch_chan c s) = nextId s"
  by (simp_all add: fetch_chan_def)

lemma start_chan_fields [simp]:
  "passwordCheckComplete (start_chan c s) = passwordCheckComplete s"
  "isDefaultPassword (start_chan c s) = isDefaultPassword s"
  "doc_hidden (start_chan c s) = doc_hidden s"
  "sessionChecked (start_chan c s) = sessionChecked s"
  "currentReconnectDelay (start_chan c s) = currentReconnectDelay s"
  "pollTimer (start_chan c s) = pollTimer s" "heartbeatSource (start_chan c s) = heartbeatSource s"
  "queue (start_chan c s) = queue s" "nextId (start_chan c s) = nextId s"
  by (simp_all add: start_chan_def)

lemma start_sse_fields [simp]:
  "passwordCheckComplete (startHeartbeatSse s) = passwordCheckComplete s"
  "isDefaultPassword (startHeartbeatSse s) = isDefaultPassword s"
  "doc_hidden (startHeartbeatSse s) = doc_hidden s"
  "sessionChecked (startHeartbeatSse s) = sessionChecked s"
  "currentReconnectDelay (startHeartbeatSse s) = currentReconnectDelay s"
  "pollTimer (startHeartbeatSse s) = pollTimer s" "inFlight (startHeartbeatSse s) = inFlight s"
  "pending (startHeartbeatSse s) = pending s" "queue (startHeartbeatSse s) = queue s"
  by (simp_all add: startHeartbeatSse_def)

lemma heartbeat_fields [simp]:
  "passwordCheckComplete (heartbeat s) = passwordCheckComplete s"
  "isDefaultPassword (heartbeat s) = isDefaultPassword s"
  "doc_hidden (heartbeat s) = doc_hidden s"
  "sessionChecked (heartbeat s) = sessionChecked s"
  "currentReconnectDelay (heartbeat s) = currentReconnectDelay s"
  by (simp_all add: heartbeat_def chan_ops)

lemma delay_range [simp]: "HeartBeatReconnectDelay \<le> HeartBeatMaxReconnectDelay"
  by (simp add: HeartBeatReconnectDelay_def HeartBeatMaxReconnectDelay_def)

subsection \<open>The invariant is kept\<close>

lemma hb_inv_heartbeat: "hb_inv s \<Longrightarrow> hb_inv (heartbeat s)"
  by (cases "gated s") (auto simp: hb_inv_def heartbeat_gated wf_heartbeat gated_def)

lemma hb_inv_cleanup: "hb_inv s \<Longrightarrow> hb_inv (cleanupHeartbeatResources s)"
  by (simp add: hb_inv_def wf_cleanup quiet_cleanup)

lemma wf_fire_poll:
  assumes "wf_hb s" and "i \<in> set (timer_ids (Poll c) s)"
  shows "(clear_timeout i s)\<lparr>pollTimer := (pollTimer s)(c := None)\<rparr> = clear_poll_timer c s"
  using assms wf_poll [OF assms(1), of c]
  by (auto simp: clear_poll_timer_def clear_timer_var_def split: option.splits)

lemma wf_fire_reconnect:
  assumes "wf_hb s" and "i \<in> set (timer_ids Reconnect s)"
  shows "clear_timeout i s = clear_timer_var (heartbeatReconnectTimer s) s"
  using assms by (auto simp: wf_hb_def clear_timer_var_def)

lemma wf_fire_password:
  assumes "wf_hb s" and "i \<in> set (timer_ids PasswordDone s)"
  shows "wf_hb (clear_timeout i s)" and "j \<noteq> PasswordDone \<Longrightarrow> timer_ids j (clear_timeout i s) = timer_ids j s"
proof -
  show keep: "timer_ids j (clear_timeout i s) = timer_ids j s" if "j \<noteq> PasswordDone" for j
    using timer_ids_disjoint [OF assms, of j] that by (auto simp: filter_id_conv)
  have sub: "set (timer_ids j (clear_timeout i s)) \<subseteq> set (timer_ids j s)" for j by auto
  show "wf_hb (clear_timeout i s)"
    using assms(1) keep unfolding wf_hb_def
    by (auto simp: distinct_filter_fst simp del: timer_ids_clear_timeout dest: subsetD [OF sub])
qed

lemma fire_cases:
  assumes "wf_hb s" and "i \<in> fst ` set (queue s)"
  obtains (poll) c where "i \<in> set (timer_ids (Poll c) s)" "fire i s = fetch_chan c (clear_poll_timer c s)"
    | (reconnect) "i \<in> set (timer_ids Reconnect s)" "fire i s = heartbeat (clear_timer_var (heartbeatReconnectTimer s) s)"
    | (password) "i \<in> set (timer_ids PasswordDone s)" "fire i s = password_done (clear_timeout i s)"
proof -
  from assms obtain j d where q: "(i, j, d) \<in> set (queue s)" and m: "map_of (queue s) i = Some (j, d)"
    by (auto simp: wf_hb_def)
  then have t: "i \<in> set (timer_ids j s)" by (auto simp: timer_ids_queue)
  show thesis
  proof (cases j)
    case (Poll c)
    with t m wf_fire_poll [OF assms(1), of i c] show thesis
      by (intro poll) (simp_all add: fire_def run_job_def)
  next
    case Reconnect
    with t m wf_fire_reconnect [OF assms(1), of i] show thesis
      by (intro reconnect) (simp_all add: fire_def run_job_def)
  next
    case PasswordDone
    with t m show thesis
      by (intro password) (simp_all add: fire_def run_job_def)
  qed
qed

lemma hb_inv_fire:
  assumes "hb_inv s" and "i \<in> fst ` set (queue s)"
  shows "hb_inv (fire i s)"
proof -
  have wf: "wf_hb s" using assms(1) by (simp add: hb_inv_def)
  from wf assms(2) show ?thesis
  proof (cases rule: fire_cases)
    case (poll c)
    then have "\<not> gated s" using assms(1) by (auto simp: hb_inv_def quiet_def)
    then show ?thesis
      using assms(1) wf_clear_poll_timer(1) [OF wf, of c]
      by (simp add: poll hb_inv_def gated_def) (simp add: clear_poll_timer_def)
  next
    case reconnect
    then have "\<not> gated s" using assms(1) by (auto simp: hb_inv_def quiet_def)
    then show ?thesis
      using assms(1) wf_heartbeat [OF wf_clear_reconnect(1) [OF wf]]
      by (simp add: reconnect hb_inv_def gated_def)
  next
    case password
    have "gated s \<Longrightarrow> quiet (clear_timeout i s)"
      using assms(1) by (simp add: hb_inv_def quiet_def)
    then have "hb_inv (clear_timeout i s)"
      using assms(1) wf_fire_password(1) [OF wf password(1)] by (simp add: hb_inv_def gated_def)
    then show ?thesis
      by (simp add: password(2) password_done_def hb_inv_heartbeat)
  qed
qed

lemma hb_inv_settle:
  assumes "hb_inv s"
  shows "hb_inv (settle_chan c s)"
proof -
  let ?s = "s\<lparr>pending := (pending s)(c := pending s c - 1), inFlight := (inFlight s)(c := False)\<rparr>"
  have g: "gated (schedule_chan c ?s) = gated s" and d: "currentReconnectDelay (schedule_chan c ?s) = currentReconnectDelay s"
    and k: "sessionChecked (schedule_chan c ?s) = sessionChecked s"
    and p: "passwordCheckComplete (schedule_chan c ?s) = passwordCheckComplete s"
    by (simp_all add: schedule_chan_def gated_def Let_def)
  have "gated s \<Longrightarrow> quiet (schedule_chan c ?s)"
    using assms quiet_clear_poll_timer [of ?s c] by (simp add: schedule_chan_eq Let_def hb_inv_def gated_def)
  then show ?thesis
    using assms unfolding settle_chan_def hb_inv_def g d k p by (simp add: wf_schedule_chan)
qed

lemma hb_inv_error:
  assumes "hb_inv s" and "heartbeatSource s \<noteq> None"
  shows "hb_inv (sse_onerror s)"
proof -
  have "\<not> gated s" using assms by (auto simp: hb_inv_def quiet_def)
  moreover have "gated (sse_onerror s) = gated s"
      "currentReconnectDelay (sse_onerror s) = min (currentReconnectDelay s * 2) HeartBeatMaxReconnectDelay"
      "sessionChecked (sse_onerror s) = sessionChecked s"
      "passwordCheckComplete (sse_onerror s) = passwordCheckComplete s"
    by (simp_all add: sse_onerror_def gated_def close_source_def Let_def split: option.split)
  ultimately show ?thesis
    using assms(1) by (simp add: hb_inv_def wf_sse_onerror)
qed

lemma hb_inv_session:
  assumes "hb_inv s" and "\<not> sessionChecked s"
  shows "hb_inv (checkSessionAndPassword d s)"
proof (cases d)
  case ToLogin
  with assms show ?thesis by (simp add: checkSessionAndPassword_def hb_inv_def gated_def)
next
  case DefaultPassword
  with assms show ?thesis by (simp add: checkSessionAndPassword_def hb_inv_def gated_def)
next
  case SessionOk
  let ?s = "s\<lparr>sessionChecked := True, isDefaultPassword := False, passwordCheckComplete := True\<rparr>"
  have "hb_inv ?s"
    using assms by (simp add: hb_inv_def gated_def)
  then show ?thesis
    by (simp add: checkSessionAndPassword_def SessionOk hb_inv_heartbeat)
qed

lemma hb_inv_visibility:
  assumes "hb_inv s"
  shows "hb_inv (visibilitychange hid s)"
proof (cases hid)
  case True
  have "hb_inv (cleanupHeartbeatResources (s\<lparr>doc_hidden := True\<rparr>))"
    using assms by (simp add: hb_inv_def wf_cleanup quiet_cleanup)
  with True show ?thesis by (simp add: visibilitychange_def)
next
  case False
  have "hb_inv (s\<lparr>doc_hidden := False\<rparr>)"
    using assms by (simp add: hb_inv_def gated_def)
  with False show ?thesis by (simp add: visibilitychange_def Let_def hb_inv_heartbeat)
qed

lemma hb_inv_password_changed:
  assumes "hb_inv s" and "isDefaultPassword s"
  shows "hb_inv (password_changed s)"
proof -
  have q: "quiet s" and wf: "wf_hb s" using assms by (simp_all add: hb_inv_def gated_def)
  have "nextId s \<notin> set (timer_ids j s)" for j
    using timer_ids_fresh [OF wf] by blast
  then have "wf_hb (set_timeout PasswordDone 1500 (s\<lparr>isDefaultPassword := False\<rparr>))"
    using wf unfolding wf_hb_def by (auto simp: less_SucI)
  moreover have "quiet (set_timeout PasswordDone 1500 (s\<lparr>isDefaultPassword := False\<rparr>))"
    using q by (simp add: quiet_def)
  ultimately show ?thesis
    using assms by (simp add: password_changed_def hb_inv_def)
qed

lemma hb_inv_message: "hb_inv s \<Longrightarrow> hb_inv (sse_onmessage s)"
  by (simp add: hb_inv_def sse_onmessage_def gated_def)

lemma hb_inv_step: "hb_inv s \<Longrightarrow> enabled e s \<Longrightarrow> hb_inv (step e s)"
  by (cases e) (simp_all add: hb_inv_session hb_inv_password_changed hb_inv_visibility hb_inv_cleanup hb_inv_fire
      hb_inv_settle hb_inv_error hb_inv_message password_submit_def split: option.split)

lemma hb_inv_init: "hb_inv (init_hb hidden)"
  by (simp add: hb_inv_def wf_hb_def quiet_def init_hb_def timer_ids_def)

lemma reachable_inv: "reachable P s \<Longrightarrow> hb_inv s"
  by (induction rule: reachable.induct) (auto simp: hb_inv_init hb_inv_step)


lemma run_reachable_from:
  "reachable P s \<Longrightarrow> list_all P es \<Longrightarrow> run es s = Some s' \<Longrightarrow> reachable P s'"
  by (induction es arbitrary: s) (auto intro: reachable.step split: if_splits)

lemma run_reachable: "list_all P es \<Longrightarrow> run es (init_hb hidden) = Some s \<Longrightarrow> reachable P s"
  by (rule run_reachable_from [OF reachable.start])

lemmas hb_eval = init_hb_def checkSessionAndPassword_def heartbeat_def chan_ops start_chan_def fetch_chan_def gated_def
  startHeartbeatSse_def settle_chan_def schedule_chan_def clear_timer_var_def clear_timeout_def set_timeout_def
  sse_onerror_def close_source_def visibilitychange_def cleanupHeartbeatResources_def clear_poll_timer_def
  password_submit_def password_changed_def password_done_def fire_def run_job_def sse_onmessage_def
  HeartBeatReconnectDelay_def HeartBeatMaxReconnectDelay_def Let_def

section \<open>The contract of a poller\<close>

locale gated_poller =
  fixes c :: chan and fetch :: "hb \<Rightarrow> hb" and schedule :: "hb \<Rightarrow> hb" and start :: "hb \<Rightarrow> hb"
  assumes fetch_gated: "gated s \<Longrightarrow> fetch s = s"
    and fetch_once: "inFlight s c \<Longrightarrow> fetch s = s"
    and fetch_starts: "\<not> gated s \<Longrightarrow> inFlight (fetch s) c"
    and fetch_timer: "pollTimer (fetch s) = pollTimer s"
    and fetch_gate: "gated (fetch s) = gated s"
    and schedule_timers: "wf_hb s \<Longrightarrow> timer_ids (Poll c) (schedule s) = (if gated s then [] else [nextId s])"
    and start_guard: "start s = (if pollTimer s c \<noteq> None \<or> inFlight s c then s else fetch s)"
begin

lemma start_alive: "\<not> gated s \<Longrightarrow> pollTimer (start s) c \<noteq> None \<or> inFlight (start s) c"
  by (simp add: start_guard fetch_starts)

lemma start_gated: "gated s \<Longrightarrow> start s = s"
  by (simp add: start_guard fetch_gated)

lemma start_idempotent: "start (start s) = start s"
proof (cases "gated s")
  case True
  then show ?thesis by (simp add: start_gated)
next
  case False
  then have "pollTimer (start s) c \<noteq> None \<or> inFlight (start s) c" by (rule start_alive)
  then show ?thesis by (subst start_guard) simp
qed

lemma schedule_single: "wf_hb s \<Longrightarrow> length (timer_ids (Poll c) (schedule s)) \<le> 1"
  by (simp add: schedule_timers)

end

lemma poller_laws:
  "gated s \<Longrightarrow> fetch_chan c s = s"
  "inFlight s c \<Longrightarrow> fetch_chan c s = s"
  "\<not> gated s \<Longrightarrow> inFlight (fetch_chan c s) c"
  "gated (fetch_chan c s) = gated s"
  by (simp_all add: fetch_chan_def gated_def)

lemma schedule_chan_timers:
  "wf_hb s \<Longrightarrow> timer_ids (Poll c) (schedule_chan c s) = (if gated s then [] else [nextId s])"
  using wf_clear_poll_timer(2) [of s c] by (simp add: schedule_chan_eq Let_def) (simp add: clear_poll_timer_def)

interpretation slow: gated_poller Slow fetchSlowHeartbeatStatus scheduleSlowHeartbeatStatus startSlowHeartbeatStatus
  by unfold_locales (simp_all add: chan_ops poller_laws schedule_chan_timers start_chan_def)

interpretation fast: gated_poller Fast fetchFastStatus scheduleFastStatus startFastStatus
  by unfold_locales (simp_all add: chan_ops poller_laws schedule_chan_timers start_chan_def)

interpretation health: gated_poller Health fetchHealthStatus scheduleHealthStatus startHealthStatus
  by unfold_locales (simp_all add: chan_ops poller_laws schedule_chan_timers start_chan_def)

interpretation gain: gated_poller Gain fetchLiveGainStatus scheduleLiveGainStatus startLiveGainStatus
  by unfold_locales (simp_all add: chan_ops poller_laws schedule_chan_timers start_chan_def)

lemma error_cycle_step:
  assumes "hb_inv s" and "heartbeatSource s \<noteq> None"
  shows "hb_inv (error_cycle s)" and "heartbeatSource (error_cycle s) \<noteq> None"
    and "currentReconnectDelay (error_cycle s) = min (currentReconnectDelay s * 2) HeartBeatMaxReconnectDelay"
proof -
  let ?s1 = "sse_onerror s"
  have inv: "hb_inv ?s1" and wf: "wf_hb ?s1" using hb_inv_error [OF assms] by (simp_all add: hb_inv_def)
  have ng: "\<not> gated s" using assms by (auto simp: hb_inv_def quiet_def)
  have n: "nextId (close_source s) = nextId s"
    by (simp add: close_source_def split: option.split)
  have t: "heartbeatReconnectTimer ?s1 = Some (nextId s)" "nextId s \<in> set (timer_ids Reconnect ?s1)"
    and d: "currentReconnectDelay ?s1 = min (currentReconnectDelay s * 2) HeartBeatMaxReconnectDelay"
    and g: "gated ?s1 = gated s"
    by (simp_all add: sse_onerror_def Let_def n) (simp_all add: close_source_def gated_def split: option.split)
  have q: "nextId s \<in> fst ` set (queue ?s1)"
    using t(2) by (force simp: timer_ids_queue)
  have e: "error_cycle s = heartbeat (clear_timer_var (heartbeatReconnectTimer ?s1) ?s1)"
    using fire_cases [OF wf q] timer_ids_disjoint [OF wf t(2)] unfolding error_cycle_def Let_def by blast
  show "hb_inv (error_cycle s)"
    using hb_inv_fire [OF inv q] by (simp add: error_cycle_def)
  show "currentReconnectDelay (error_cycle s) = min (currentReconnectDelay s * 2) HeartBeatMaxReconnectDelay"
    by (simp add: e d)
  show "heartbeatSource (error_cycle s) \<noteq> None"
    using ng g by (simp add: e heartbeat_def chan_ops startHeartbeatSse_def gated_def)
qed

subsection \<open>Polling does not die\<close>

text \<open>
  In an open page every poller has a timer or a request, and a stream is open or about to be reopened,
  unless the dialog's closing timer, which starts them, is still armed.
\<close>

definition streaming :: "hb \<Rightarrow> bool" where
  "streaming s \<longleftrightarrow> heartbeatSource s \<noteq> None \<or> timer_ids Reconnect s \<noteq> []"

definition polling :: "hb \<Rightarrow> bool" where
  "polling s \<longleftrightarrow> (\<forall>c. pollTimer s c \<noteq> None \<or> inFlight s c)"

definition live_inv :: "hb \<Rightarrow> bool" where
  "live_inv s \<longleftrightarrow> (\<forall>c. inFlight s c \<longrightarrow> 0 < pending s c)
     \<and> (\<not> gated s \<longrightarrow> (streaming s \<longrightarrow> polling s) \<and> (streaming s \<or> timer_ids PasswordDone s \<noteq> []))"

lemma in_flight_fetch: "(\<forall>c. inFlight s c \<longrightarrow> 0 < pending s c) \<Longrightarrow> inFlight (fetch_chan d s) c \<Longrightarrow> 0 < pending (fetch_chan d s) c"
  by (auto simp: fetch_chan_def split: if_splits)

lemma in_flight_start: "(\<forall>c. inFlight s c \<longrightarrow> 0 < pending s c) \<Longrightarrow> inFlight (start_chan d s) c \<Longrightarrow> 0 < pending (start_chan d s) c"
  by (auto simp: start_chan_def in_flight_fetch split: if_splits)

lemma in_flight_heartbeat:
  "(\<forall>c. inFlight s c \<longrightarrow> 0 < pending s c) \<Longrightarrow> inFlight (heartbeat s) c \<Longrightarrow> 0 < pending (heartbeat s) c"
  by (auto simp: heartbeat_def chan_ops in_flight_start split: if_splits)

lemma start_keeps: "inFlight s c \<Longrightarrow> inFlight (start_chan d s) c"
  by (simp add: start_chan_def fetch_chan_def)

lemma start_alive_self: "\<not> gated s \<Longrightarrow> pollTimer s c \<noteq> None \<or> inFlight (start_chan c s) c"
  by (simp add: start_chan_def poller_laws)

lemma gated_start [simp]: "gated (start_chan c s) = gated s" "gated (startHeartbeatSse s) = gated s"
  by (simp_all add: gated_def)

lemma heartbeat_live:
  assumes "\<not> gated s"
  shows "heartbeatSource (heartbeat s) \<noteq> None" and "polling (heartbeat s)"
proof -
  let ?s1 = "start_chan Fast s"
  let ?s2 = "start_chan Health ?s1"
  let ?s3 = "startHeartbeatSse (start_chan Gain ?s2)"
  have h: "heartbeat s = start_chan Slow ?s3"
    using assms by (simp add: heartbeat_def gated_def chan_ops)
  show "heartbeatSource (heartbeat s) \<noteq> None"
    using assms by (simp add: h startHeartbeatSse_def gated_def)
  have k2: "inFlight (start_chan Slow ?s3) c" if "inFlight ?s2 c" for c
    using that by (simp add: start_keeps)
  have k1: "inFlight (start_chan Slow ?s3) c" if "inFlight ?s1 c" for c
    using start_keeps [OF that, of Health] by (rule k2)
  have k3: "inFlight (start_chan Slow ?s3) c" if "inFlight (start_chan Gain ?s2) c" for c
    using that by (simp add: start_keeps)
  have "pollTimer s c \<noteq> None \<or> inFlight (start_chan Slow ?s3) c" for c
  proof (cases c)
    case Slow
    then show ?thesis using start_alive_self [of ?s3 Slow] assms by simp
  next
    case Fast
    then show ?thesis using start_alive_self [of s Fast] assms k1 by blast
  next
    case Health
    then show ?thesis using start_alive_self [of ?s1 Health] assms k2 by auto
  next
    case Gain
    then show ?thesis using start_alive_self [of ?s2 Gain] assms k3 by auto
  qed
  then show "polling (heartbeat s)"
    by (simp add: h polling_def)
qed

lemma live_heartbeat: "\<forall>c. inFlight s c \<longrightarrow> 0 < pending s c \<Longrightarrow> \<not> gated s \<Longrightarrow> live_inv (heartbeat s)"
  using heartbeat_live [of s] in_flight_heartbeat [of s] by (simp add: live_inv_def streaming_def)

lemma live_gated: "\<forall>c. inFlight s c \<longrightarrow> 0 < pending s c \<Longrightarrow> gated s \<Longrightarrow> live_inv s"
  by (simp add: live_inv_def)

lemma live_heartbeat_any: "\<forall>c. inFlight s c \<longrightarrow> 0 < pending s c \<Longrightarrow> live_inv (heartbeat s)"
  by (cases "gated s") (simp_all add: live_heartbeat heartbeat_gated live_gated)

lemma live_inv_D: "live_inv s \<Longrightarrow> \<forall>c. inFlight s c \<longrightarrow> 0 < pending s c"
  by (simp add: live_inv_def)

lemma timer_ids_fetch [simp]: "timer_ids j (fetch_chan c s) = timer_ids j s"
  by (simp add: timer_ids_def)

lemma live_fire:
  assumes "hb_inv s" and "live_inv s" and "i \<in> fst ` set (queue s)"
  shows "live_inv (fire i s)"
proof -
  have wf: "wf_hb s" using assms(1) by (simp add: hb_inv_def)
  from wf assms(3) show ?thesis
  proof (cases rule: fire_cases)
    case (poll c)
    then have ng: "\<not> gated s" using assms(1) by (auto simp: hb_inv_def quiet_def)
    have "timer_ids j (fetch_chan c (clear_poll_timer c s)) = timer_ids j s" if "j \<noteq> Poll c" for j
      using filter_timer_ids_other [OF wf, of c _ j] that
      by (cases "pollTimer s c") (simp_all add: timer_ids_fetch clear_poll_timer_def)
    then have "streaming (fetch_chan c (clear_poll_timer c s)) = streaming s"
        "timer_ids PasswordDone (fetch_chan c (clear_poll_timer c s)) = timer_ids PasswordDone s"
      by (simp_all add: streaming_def) (simp_all add: clear_poll_timer_def)
    moreover have "polling s \<Longrightarrow> polling (fetch_chan c (clear_poll_timer c s))"
      using ng by (auto simp: polling_def clear_poll_timer_def fetch_chan_def gated_def)
    ultimately show ?thesis
      using assms(2) ng in_flight_fetch [of "clear_poll_timer c s" c]
      by (simp add: poll live_inv_def gated_def) (simp add: clear_poll_timer_def)
  next
    case reconnect
    then show ?thesis
      using live_inv_D [OF assms(2)] by (simp add: live_heartbeat_any)
  next
    case password
    show ?thesis
    proof (cases "heartbeatSource s")
      case None
      with password show ?thesis
        using live_inv_D [OF assms(2)] by (simp add: password_done_def live_heartbeat_any)
    next
      case (Some k)
      with password assms(2) show ?thesis
        by (simp add: password_done_def live_inv_def streaming_def polling_def gated_def)
    qed
  qed
qed

lemma live_settle:
  assumes "hb_inv s" and "live_inv s"
  shows "live_inv (settle_chan c s)"
proof -
  let ?s = "s\<lparr>pending := (pending s)(c := pending s c - 1), inFlight := (inFlight s)(c := False)\<rparr>"
  have wf: "wf_hb ?s" using assms(1) by (simp add: hb_inv_def)
  have g: "gated (settle_chan c s) = gated s" and f: "inFlight (settle_chan c s) = (inFlight s)(c := False)"
    and p: "pending (settle_chan c s) = (pending s)(c := pending s c - 1)"
    and h: "heartbeatSource (settle_chan c s) = heartbeatSource s"
    by (simp_all add: settle_chan_def schedule_chan_def gated_def Let_def)
  have t: "pollTimer (settle_chan c s) c \<noteq> None \<and> (\<forall>c'. c' \<noteq> c \<longrightarrow> pollTimer (settle_chan c s) c' = pollTimer s c')"
    if "\<not> gated s"
    using that by (simp add: settle_chan_def schedule_chan_def Let_def gated_def)
  have "timer_ids j (settle_chan c s) = timer_ids j s" if "j \<noteq> Poll c" for j
    using filter_timer_ids_other [OF wf, of c _ j] that
    by (cases "pollTimer s c") (simp_all add: settle_chan_def schedule_chan_def Let_def)
  then have r: "streaming (settle_chan c s) = streaming s" "timer_ids PasswordDone (settle_chan c s) = timer_ids PasswordDone s"
    by (simp_all add: streaming_def h)
  have "polling (settle_chan c s)" if "\<not> gated s" "polling s"
    using t [OF that(1)] that(2) by (auto simp: polling_def f)
  then show ?thesis
    using assms(2) unfolding live_inv_def g r by (auto simp: f p)
qed

lemma live_error:
  assumes "hb_inv s" and "live_inv s" and "heartbeatSource s \<noteq> None"
  shows "live_inv (sse_onerror s)"
proof -
  have "\<not> gated s" using assms by (auto simp: hb_inv_def quiet_def)
  then have "polling s" using assms(2,3) by (simp add: live_inv_def streaming_def)
  then have "polling (sse_onerror s)"
    by (auto simp: polling_def sse_onerror_def close_source_def Let_def split: option.split)
  moreover have "streaming (sse_onerror s)"
    by (simp add: streaming_def sse_onerror_def Let_def)
  moreover have "inFlight (sse_onerror s) = inFlight s" "pending (sse_onerror s) = pending s"
    by (simp_all add: sse_onerror_def close_source_def Let_def split: option.split)
  ultimately show ?thesis using assms(2) by (simp add: live_inv_def)
qed

lemma live_session:
  assumes "hb_inv s" and "live_inv s" and "\<not> sessionChecked s"
  shows "live_inv (checkSessionAndPassword d s)"
proof -
  have "\<not> passwordCheckComplete s" using assms by (simp add: hb_inv_def)
  with live_inv_D [OF assms(2)] show ?thesis
    by (cases d) (simp_all add: checkSessionAndPassword_def live_heartbeat_any live_gated gated_def)
qed

lemma live_visibility: "live_inv s \<Longrightarrow> live_inv (visibilitychange hid s)"
  using live_inv_D [of s]
  by (cases hid) (simp_all add: visibilitychange_def Let_def live_heartbeat_any live_gated gated_def)

lemma live_password_changed:
  assumes "hb_inv s" and "live_inv s" and "isDefaultPassword s"
  shows "live_inv (password_changed s)"
proof -
  have "quiet s" using assms(1,3) by (simp add: hb_inv_def gated_def)
  then have "\<not> streaming (password_changed s)"
    by (simp add: streaming_def quiet_def password_changed_def)
  then show ?thesis
    using live_inv_D [OF assms(2)] by (simp add: live_inv_def) (simp add: password_changed_def)
qed

lemma live_step: "hb_inv s \<Longrightarrow> live_inv s \<Longrightarrow> enabled e s \<Longrightarrow> e \<noteq> Unload \<Longrightarrow> live_inv (step e s)"
  by (cases e) (simp_all add: live_session live_visibility live_password_changed live_fire live_settle live_error
      password_submit_def live_gated gated_def sse_onmessage_def live_inv_def [of "_\<lparr>currentReconnectDelay := _\<rparr>"]
      streaming_def polling_def live_inv_def [of s] split: option.split)

lemma reachable_live: "reachable (\<lambda>e. e \<noteq> Unload) s \<Longrightarrow> live_inv s"
proof (induction rule: reachable.induct)
  case (start hidden)
  then show ?case by (simp add: live_inv_def init_hb_def gated_def)
next
  case (step s e)
  then show ?case using reachable_inv [OF step.hyps(1)] by (simp add: live_step)
qed

subsection \<open>Requests in flight\<close>

text \<open>The events that do not clean up.\<close>

fun keeps_flags :: "event \<Rightarrow> bool" where
  "keeps_flags (Visibility hid) = (\<not> hid)"
| "keeps_flags Unload = False"
| "keeps_flags (PasswordSubmit _ _) = False"
| "keeps_flags _ = True"

definition flight_inv :: "hb \<Rightarrow> bool" where
  "flight_inv s \<longleftrightarrow> (\<forall>c. pending s c = (if inFlight s c then 1 else 0))"

lemma flight_upd [simp]:
  "flight_inv (s\<lparr>passwordCheckComplete := a\<rparr>) = flight_inv s"
  "flight_inv (s\<lparr>isDefaultPassword := a\<rparr>) = flight_inv s"
  "flight_inv (s\<lparr>doc_hidden := a\<rparr>) = flight_inv s"
  "flight_inv (s\<lparr>sessionChecked := a\<rparr>) = flight_inv s"
  "flight_inv (s\<lparr>currentReconnectDelay := n\<rparr>) = flight_inv s"
  "flight_inv (s\<lparr>pollTimer := pt\<rparr>) = flight_inv s"
  "flight_inv (set_timeout j d s) = flight_inv s"
  "flight_inv (clear_timeout i s) = flight_inv s"
  "flight_inv (startHeartbeatSse s) = flight_inv s"
  by (simp_all add: flight_inv_def)

lemma flight_fetch: "flight_inv s \<Longrightarrow> flight_inv (fetch_chan c s)"
  by (simp add: flight_inv_def fetch_chan_def)

lemma flight_start: "flight_inv s \<Longrightarrow> flight_inv (start_chan c s)"
  by (simp add: start_chan_def flight_fetch)

lemma flight_heartbeat: "flight_inv s \<Longrightarrow> flight_inv (heartbeat s)"
  by (simp add: heartbeat_def chan_ops flight_start)

lemma flight_run_job: "flight_inv s \<Longrightarrow> flight_inv (run_job j s)"
  by (cases j) (simp_all add: run_job_def password_done_def flight_fetch flight_heartbeat)

lemma flight_settle:
  assumes "flight_inv s" and "0 < pending s c"
  shows "flight_inv (settle_chan c s)"
proof -
  have "pending (settle_chan c s) = (pending s)(c := pending s c - 1)" "inFlight (settle_chan c s) = (inFlight s)(c := False)"
    by (simp_all add: settle_chan_def schedule_chan_def Let_def)
  with assms show ?thesis by (auto simp: flight_inv_def split: if_splits)
qed

lemma flight_error: "flight_inv s \<Longrightarrow> flight_inv (sse_onerror s)"
  by (simp add: sse_onerror_def close_source_def Let_def flight_inv_def split: option.split)

lemma flight_session: "flight_inv s \<Longrightarrow> flight_inv (checkSessionAndPassword d s)"
  by (cases d) (simp_all add: checkSessionAndPassword_def flight_heartbeat)

lemma flight_step: "flight_inv s \<Longrightarrow> keeps_flags e \<Longrightarrow> enabled e s \<Longrightarrow> flight_inv (step e s)"
  by (cases e) (simp_all add: flight_session visibilitychange_def flight_heartbeat Let_def fire_def flight_run_job
      flight_settle flight_error password_changed_def sse_onmessage_def split: option.split)

lemma reachable_flight: "reachable keeps_flags s \<Longrightarrow> flight_inv s"
  by (induction rule: reachable.induct) (simp_all add: flight_step, simp add: flight_inv_def init_hb_def)

section \<open>Properties\<close>

text \<open>
  C1. Nothing loads the camera behind the gate: in every reachable state in which the tab is hidden, the
  session has not been checked or the default password is in use, no event stream is open and the only timer
  that can be armed is the one that closes the password dialog. In particular no queued reconnect or poll
  survives hiding the tab, whatever requests settle later.
\<close>

theorem gate_silences:
  assumes "reachable P s" and "gated s"
  shows "sources s = [] \<and> heartbeatSource s = None \<and> (\<forall>(i, j, d) \<in> set (queue s). j = PasswordDone)"
proof -
  have q: "quiet s" using reachable_inv [OF assms(1)] assms(2) by (simp add: hb_inv_def)
  have "j = PasswordDone" if "(i, j, d) \<in> set (queue s)" for i j d
  proof (rule ccontr)
    assume "j \<noteq> PasswordDone"
    moreover have "i \<in> set (timer_ids j s)" using that by (auto simp: timer_ids_queue)
    ultimately show False using q by (cases j) (auto simp: quiet_def)
  qed
  with q show ?thesis by (auto simp: quiet_def)
qed

theorem gate_silences_witness:
  "let s = the (run [Session SessionOk, Settled Fast, SseError, Visibility True, Settled Health] (init_hb False))
   in gated s \<and> sources s = [] \<and> heartbeatSource s = None \<and> pending s Gain = 1"
proof -
  let ?es = "[Session SessionOk, Settled Fast, SseError, Visibility True, Settled Health]"
  obtain s where s: "run ?es (init_hb False) = Some s" and g: "gated s" and p: "pending s Gain = 1"
    by (simp add: hb_eval)
  have "reachable (\<lambda>_. True) s"
    by (rule run_reachable [OF _ s]) simp
  from gate_silences [OF this g] g p s show ?thesis by (simp add: Let_def)
qed

text \<open>
  C2. No leak: in every reachable state at most one event stream is open and at most one timer is armed for
  each poller and for the reconnect, and the script's variables name them, so that clearing through the
  variables clears everything.
\<close>

theorem no_leaks:
  assumes "reachable P s"
  shows "sources s = (case heartbeatSource s of None \<Rightarrow> [] | Some i \<Rightarrow> [i])
     \<and> timer_ids (Poll c) s = (case pollTimer s c of None \<Rightarrow> [] | Some i \<Rightarrow> [i])
     \<and> timer_ids Reconnect s \<in> {[], (case heartbeatReconnectTimer s of None \<Rightarrow> [] | Some i \<Rightarrow> [i])}"
  using reachable_inv [OF assms] by (auto simp: hb_inv_def wf_hb_def)

theorem no_leaks_witness:
  "let s = the (run [Session SessionOk, Settled Fast, SseError, Timer 2] (init_hb False))
   in timer_ids (Poll Fast) s = [1] \<and> length (sources s) = 1"
proof -
  let ?es = "[Session SessionOk, Settled Fast, SseError, Timer 2]"
  obtain s where s: "run ?es (init_hb False) = Some s" and v: "pollTimer s Fast = Some 1" and h: "heartbeatSource s = Some 3"
    by (simp add: hb_eval)
  have "reachable (\<lambda>_. True) s"
    by (rule run_reachable [OF _ s]) simp
  from no_leaks [OF this, of Fast] v h s show ?thesis by (simp add: Let_def)
qed






text \<open>
  C7. One request at a time, as long as nothing cleans up: in every state reached without hiding or leaving the
  page or submitting a password, each poller has exactly one request under way when its flag is set and none
  otherwise.
\<close>

theorem single_request:
  assumes "reachable keeps_flags s"
  shows "pending s c = (if inFlight s c then 1 else 0)"
  using reachable_flight [OF assms] by (simp add: flight_inv_def)

theorem single_request_witness:
  "let s = the (run [Session SessionOk, Settled Fast, Timer 1] (init_hb False)) in pending s Fast = 1"
proof -
  let ?es = "[Session SessionOk, Settled Fast, Timer 1]"
  obtain s where s: "run ?es (init_hb False) = Some s" and f: "inFlight s Fast"
    by (simp add: hb_eval)
  have "reachable keeps_flags s"
    by (rule run_reachable [OF _ s]) simp
  from single_request [OF this, of Fast] f s show ?thesis by (simp add: Let_def)
qed

text \<open>
  Hiding and showing the tab breaks the single-request discipline: the clean-up drops the flags but does
  not abort the requests, so every quick hide and show while a request is under way adds one more concurrent
  request, without bound.
\<close>

theorem requests_pile_up:
  "\<exists>s. reachable (\<lambda>_. True) s \<and> pending s Fast = Suc n"
proof -
  have "\<exists>s. reachable (\<lambda>_. True) s \<and> pending s Fast = Suc n \<and> \<not> gated s"
  proof (induction n)
    case 0
    obtain s where s: "run [Session SessionOk] (init_hb False) = Some s" and "pending s Fast = 1" and "\<not> gated s"
      by (simp add: hb_eval)
    then show ?case using run_reachable [OF _ s, of "\<lambda>_. True"] by auto
  next
    case (Suc n)
    then obtain s where s: "reachable (\<lambda>_. True) s" "pending s Fast = Suc n" "\<not> gated s" by blast
    let ?h = "step (Visibility True) s"
    let ?v = "step (Visibility False) ?h"
    have h: "reachable (\<lambda>_. True) ?h"
      using s by (intro reachable.step) (simp_all add: gated_def)
    have v: "reachable (\<lambda>_. True) ?v"
      by (rule reachable.step [OF h]) (simp_all add: visibilitychange_def)
    have q: "quiet ?h" "\<not> inFlight ?h Fast" "pending ?h Fast = Suc n"
      using s reachable_inv [OF s(1)] by (simp_all add: visibilitychange_def quiet_cleanup hb_inv_def)
    have "pending (heartbeat (?h\<lparr>doc_hidden := False\<rparr>)) Fast = Suc (Suc n)"
      using q s(3) by (simp add: heartbeat_def chan_ops start_chan_def fetch_chan_def gated_def quiet_def
          visibilitychange_def)
    moreover have "?v = heartbeat (?h\<lparr>doc_hidden := False\<rparr>)"
      using s(3) by (simp add: visibilitychange_def gated_def)
    moreover have "\<not> gated ?v"
      using s(3) by (simp add: visibilitychange_def gated_def)
    ultimately show ?case using v by auto
  qed
  then show ?thesis by blast
qed

end
