(* ===== verification/Url.thy ===== *)
theory Url
  imports Prelude
begin

text \<open>
  The URL encodings the scripts use: \<open>encodeURIComponent\<close> and the form encoding of \<open>URLSearchParams\<close>
  (parsing, \<open>set\<close> and \<open>toString\<close>). In this theory a string stands for its UTF-8 bytes, which is what
  both encodings work on.
\<close>

section \<open>Percent encoding\<close>

definition hex_digit :: "nat \<Rightarrow> char" where
  "hex_digit n = char_of (if n < 10 then 48 + n else 55 + n)"

text \<open>\<open>toString(16)\<close> and \<open>padStart\<close>.\<close>

definition low_hex_digit :: "nat \<Rightarrow> char" where
  "low_hex_digit n = char_of (if n < 10 then 48 + n else 87 + n)"

fun to_hex :: "nat \<Rightarrow> string" where
  "to_hex n = (if n < 16 then [low_hex_digit n] else to_hex (n div 16) @ [low_hex_digit (n mod 16)])"

declare to_hex.simps [simp del]

definition pad_start :: "nat \<Rightarrow> char \<Rightarrow> string \<Rightarrow> string" where
  "pad_start k c s = replicate (k - length s) c @ s"

definition unhex :: "char \<Rightarrow> nat option" where
  "unhex c =
     (let n = (of_char c :: nat)
      in if 48 \<le> n \<and> n \<le> 57 then Some (n - 48)
         else if 97 \<le> n \<and> n \<le> 102 then Some (n - 87)
         else if 65 \<le> n \<and> n \<le> 70 then Some (n - 55) else None)"

definition is_alnum :: "char \<Rightarrow> bool" where
  "is_alnum c \<longleftrightarrow> (let n = (of_char c :: nat) in 48 \<le> n \<and> n \<le> 57 \<or> 65 \<le> n \<and> n \<le> 90 \<or> 97 \<le> n \<and> n \<le> 122)"

definition pct_byte :: "char \<Rightarrow> string" where
  "pct_byte c = (let n = of_char c in [CHR ''%'', hex_digit (n div 16), hex_digit (n mod 16)])"

fun pct_decode :: "string \<Rightarrow> string" where
  "pct_decode (c # a # b # s) =
     (if c = CHR ''%'' then
        (case (unhex a, unhex b) of
           (Some h, Some l) \<Rightarrow> char_of (16 * h + l) # pct_decode s
         | _ \<Rightarrow> c # pct_decode (a # b # s))
      else c # pct_decode (a # b # s))"
| "pct_decode (c # s) = c # pct_decode s"
| "pct_decode [] = []"

text \<open>\<open>encodeURIComponent\<close>.\<close>

definition uri_safe :: "char \<Rightarrow> bool" where
  "uri_safe c \<longleftrightarrow> is_alnum c \<or> c \<in> set ''-_.!~*()'' \<or> c = CHR 0x27"

definition encodeURIComponent :: "string \<Rightarrow> string" where
  "encodeURIComponent s = concat (map (\<lambda>c. if uri_safe c then [c] else pct_byte c) s)"

text \<open>The form encoding: a space is a plus sign.\<close>

definition form_safe :: "char \<Rightarrow> bool" where
  "form_safe c \<longleftrightarrow> is_alnum c \<or> c \<in> set ''*-._''"

definition form_byte :: "char \<Rightarrow> string" where
  "form_byte c = (if c = CHR '' '' then ''+'' else if form_safe c then [c] else pct_byte c)"

definition form_encode :: "string \<Rightarrow> string" where
  "form_encode s = concat (map form_byte s)"

definition form_decode :: "string \<Rightarrow> string" where
  "form_decode s = pct_decode (replace_char (CHR ''+'') (CHR '' '') s)"

section \<open>Query parameters\<close>

type_synonym params = "(string \<times> string) list"

definition parse_pair :: "string \<Rightarrow> string \<times> string" where
  "parse_pair w =
     (case index_of_char (CHR ''='') w of
        None \<Rightarrow> (form_decode w, [])
      | Some i \<Rightarrow> (form_decode (take i w), form_decode (drop (Suc i) w)))"

text \<open>\<open>new URLSearchParams(query)\<close> for a query without a leading question mark.\<close>

definition parse_params :: "string \<Rightarrow> params" where
  "parse_params q = map parse_pair (filter (\<lambda>w. w \<noteq> []) (split_on (CHR ''&'') q))"

definition show_params :: "params \<Rightarrow> string" where
  "show_params ps = join_with ''&'' (map (\<lambda>(k, v). form_encode k @ ''='' @ form_encode v) ps)"

text \<open>\<open>params.set(k, v)\<close>: the first pair of the key gets the value, later ones go; else a pair is added.\<close>

fun set_param :: "string \<Rightarrow> string \<Rightarrow> params \<Rightarrow> params" where
  "set_param k v [] = [(k, v)]"
| "set_param k v ((k', v') # ps) =
     (if k' = k then (k, v) # filter (\<lambda>p. fst p \<noteq> k) ps else (k', v') # set_param k v ps)"

section \<open>The contract of an encoding\<close>

locale text_codec =
  fixes enc :: "string \<Rightarrow> string" and dec :: "string \<Rightarrow> string" and alphabet :: "char \<Rightarrow> bool"
  assumes dec_enc: "dec (enc s) = s" and enc_alphabet: "c \<in> set (enc s) \<Longrightarrow> alphabet c"
begin

lemma enc_inj: "enc s = enc t \<longleftrightarrow> s = t"
  using dec_enc by metis

lemma enc_avoids: "\<not> alphabet c \<Longrightarrow> c \<notin> set (enc s)"
  using enc_alphabet by blast

end

section \<open>Lemmas\<close>

lemma pct_decode_plain: "c \<noteq> CHR ''%'' \<Longrightarrow> pct_decode (c # s) = c # pct_decode s"
proof (cases s)
  case (Cons a t)
  then show "c \<noteq> CHR ''%'' \<Longrightarrow> pct_decode (c # s) = c # pct_decode s" by (cases t) simp_all
qed simp

lemma unhex_hex_digit: "n < 16 \<Longrightarrow> unhex (hex_digit n) = Some n"
  by (simp add: unhex_def hex_digit_def Let_def)

lemma byte_nibbles: "(of_char (c :: char) :: nat) div 16 < 16" "(of_char c :: nat) mod 16 < 16"
  using nat_of_char_less_256 [of c] by (simp_all add: less_mult_imp_div_less)

lemma pct_decode_byte: "pct_decode (pct_byte c @ s) = c # pct_decode s"
proof -
  note b = byte_nibbles [of c]
  have "16 * ((of_char c :: nat) div 16) + of_char c mod 16 = of_char c" by simp
  then show ?thesis
    using b by (simp add: pct_byte_def Let_def unhex_hex_digit)
qed

lemma hex_digit_alnum: "n < 16 \<Longrightarrow> is_alnum (hex_digit n)"
  by (simp add: is_alnum_def hex_digit_def Let_def)

lemma pct_byte_chars: "d \<in> set (pct_byte c) \<Longrightarrow> d = CHR ''%'' \<or> is_alnum d"
  using byte_nibbles [of c] by (auto simp: pct_byte_def Let_def hex_digit_alnum)

lemma alnum_not_special:
  "\<not> is_alnum (CHR ''%'')" "\<not> is_alnum (CHR ''&'')" "\<not> is_alnum (CHR ''='')" "\<not> is_alnum (CHR ''+'')"
  "\<not> is_alnum (CHR '' '')" "\<not> is_alnum (CHR ''?'')" "\<not> is_alnum (CHR ''#'')" "\<not> is_alnum (CHR ''/'')"
  "\<not> is_alnum (CHR '':'')" "\<not> is_alnum (CHR ''@'')"
  by (simp_all add: is_alnum_def)

lemma pct_decode_uri: "pct_decode (encodeURIComponent s) = s"
proof (induction s)
  case Nil
  then show ?case by (simp add: encodeURIComponent_def)
next
  case (Cons c s)
  have "c \<noteq> CHR ''%''" if "uri_safe c"
    using that by (auto simp: uri_safe_def alnum_not_special)
  with Cons show ?case
    by (auto simp: encodeURIComponent_def pct_decode_plain pct_decode_byte)
qed

lemma replace_plus_append: "replace_char a b (s @ t) = replace_char a b s @ replace_char a b t"
  by (simp add: replace_char_def)

lemma replace_plus_pct: "replace_char (CHR ''+'') (CHR '' '') (pct_byte c) = pct_byte c"
  unfolding replace_char_def
proof (rule map_idI)
  fix d assume "d \<in> set (pct_byte c)"
  then have "d = CHR ''%'' \<or> is_alnum d" by (rule pct_byte_chars)
  then show "(if d = CHR ''+'' then CHR '' '' else d) = d" by (auto simp: alnum_not_special)
qed

lemma form_decode_Cons: "form_decode (form_byte c @ s) = c # form_decode s"
proof -
  consider "c = CHR '' ''" | "c \<noteq> CHR '' ''" "form_safe c" | "c \<noteq> CHR '' ''" "\<not> form_safe c" by blast
  then show ?thesis
  proof cases
    case 1
    then show ?thesis
      by (simp add: form_byte_def form_decode_def replace_char_def pct_decode_plain)
  next
    case 2
    then have "c \<noteq> CHR ''%''" "c \<noteq> CHR ''+''" by (auto simp: form_safe_def alnum_not_special)
    with 2 show ?thesis
      by (simp add: form_byte_def form_decode_def replace_char_def pct_decode_plain)
  next
    case 3
    then show ?thesis
      by (simp add: form_byte_def form_decode_def replace_plus_append replace_plus_pct pct_decode_byte)
  qed
qed

lemma form_decode_encode: "form_decode (form_encode s) = s"
proof (induction s)
  case Nil
  then show ?case by (simp add: form_encode_def form_decode_def replace_char_def)
next
  case (Cons c s)
  then show ?case by (simp add: form_encode_def form_decode_Cons)
qed

lemma alnum_safe: "is_alnum d \<Longrightarrow> form_safe d" "is_alnum d \<Longrightarrow> uri_safe d"
  by (simp_all add: form_safe_def uri_safe_def)

lemma form_byte_chars: "d \<in> set (form_byte c) \<Longrightarrow> form_safe d \<or> d = CHR ''%'' \<or> d = CHR ''+''"
proof (cases "c = CHR '' ''"; cases "form_safe c")
  assume "d \<in> set (form_byte c)" "c \<noteq> CHR '' ''" "\<not> form_safe c"
  then have "d \<in> set (pct_byte c)" by (simp add: form_byte_def)
  from pct_byte_chars [OF this] show ?thesis using alnum_safe by blast
qed (simp_all add: form_byte_def)

lemma form_encode_chars:
  assumes "d \<in> set (form_encode s)" shows "form_safe d \<or> d = CHR ''%'' \<or> d = CHR ''+''"
proof -
  from assms obtain c where "d \<in> set (form_byte c)" unfolding form_encode_def by auto
  then show ?thesis by (rule form_byte_chars)
qed

lemma uri_chars:
  assumes "d \<in> set (encodeURIComponent s)" shows "uri_safe d \<or> d = CHR ''%''"
proof -
  from assms obtain c where "d \<in> set (if uri_safe c then [c] else pct_byte c)"
    unfolding encodeURIComponent_def set_concat set_map by blast
  then show ?thesis using pct_byte_chars [of d c] alnum_safe by (cases "uri_safe c") auto
qed

interpretation uri: text_codec encodeURIComponent pct_decode "\<lambda>d. uri_safe d \<or> d = CHR ''%''"
  by unfold_locales (simp_all add: pct_decode_uri uri_chars)

interpretation form: text_codec form_encode form_decode "\<lambda>d. form_safe d \<or> d = CHR ''%'' \<or> d = CHR ''+''"
  by unfold_locales (simp_all add: form_decode_encode form_encode_chars)

lemma form_avoids: "CHR ''='' \<notin> set (form_encode s)" "CHR ''&'' \<notin> set (form_encode s)"
  by (rule form.enc_avoids; simp add: form_safe_def alnum_not_special)+

lemma index_of_char_append: "c \<notin> set s \<Longrightarrow> index_of_char c (s @ c # t) = Some (length s)"
  by (induction s) auto

lemma parse_show_pair: "parse_pair (form_encode k @ CHR ''='' # form_encode v) = (k, v)"
  by (simp add: parse_pair_def index_of_char_append form_avoids form.dec_enc)

lemma parse_show_params: "parse_params (show_params ps) = ps"
proof (cases "ps = []")
  case True
  then show ?thesis by (simp add: parse_params_def show_params_def)
next
  case False
  let ?show = "\<lambda>(k, v). form_encode k @ ''='' @ form_encode v"
  have "split_on (CHR ''&'') (join_with ''&'' (map ?show ps)) = map ?show ps"
    using False by (intro split_join) (auto simp: form_avoids)
  moreover have "filter (\<lambda>w. w \<noteq> []) (map ?show ps) = map ?show ps"
    by (auto simp: filter_id_conv)
  moreover have "map (parse_pair \<circ> ?show) ps = ps"
    by (rule map_idI) (auto simp: parse_show_pair)
  ultimately show ?thesis by (simp add: parse_params_def show_params_def)
qed

lemma map_of_filter_other: "j \<noteq> k \<Longrightarrow> map_of (filter (\<lambda>p. fst p \<noteq> k) ps) j = map_of ps j"
  by (induction ps) auto

lemma map_of_set_param: "map_of (set_param k v ps) j = (if j = k then Some v else map_of ps j)"
proof (induction ps)
  case (Cons p ps)
  then show ?case by (cases p) (cases "j = k"; simp add: map_of_filter_other)
qed simp

lemma set_param_other: "j \<noteq> k \<Longrightarrow> filter (\<lambda>p. fst p = j) (set_param k v ps) = filter (\<lambda>p. fst p = j) ps"
  by (induction ps) (auto simp: filter_filter conj_commute intro: filter_cong)

lemma set_param_single: "filter (\<lambda>p. fst p = k) (set_param k v ps) = [(k, v)]"
  by (induction ps) auto

lemma pct_decode_id: "CHR ''%'' \<notin> set s \<Longrightarrow> pct_decode s = s"
proof (induction s)
  case (Cons c s)
  then show ?case using pct_decode_plain [of c s] by auto
qed simp

lemma form_decode_id:
  assumes "CHR ''%'' \<notin> set s" "CHR ''+'' \<notin> set s" shows "form_decode s = s"
proof -
  have "replace_char (CHR ''+'') (CHR '' '') s = s"
    unfolding replace_char_def using assms(2) by (intro map_idI) auto
  then show ?thesis using assms(1) by (simp add: form_decode_def pct_decode_id)
qed

text \<open>A single parameter whose texts need no encoding.\<close>

lemma parse_single:
  assumes "set (k @ v) \<inter> {CHR ''%'', CHR ''+'', CHR ''&'', CHR ''=''} = {}"
  shows "parse_params (k @ CHR ''='' # v) = [(k, v)]"
proof -
  have k: "form_decode k = k" and v: "form_decode v = v"
    using assms by (auto intro!: form_decode_id)
  have "split_on (CHR ''&'') (k @ CHR ''='' # v) = [k @ CHR ''='' # v]"
    using assms by (intro split_on_plain) auto
  moreover have "index_of_char (CHR ''='') (k @ CHR ''='' # v) = Some (length k)"
    using assms by (intro index_of_char_append) auto
  ultimately show ?thesis by (simp add: parse_params_def parse_pair_def k v)
qed

lemma upper_hex_digit: "n < 16 \<Longrightarrow> to_upper_char (low_hex_digit n) = hex_digit n"
  by (auto simp: low_hex_digit_def to_upper_char_def hex_digit_def Let_def)

end
