(* ===== verification/Timelapse.thy ===== *)
theory Timelapse
  imports Url Dom
begin

text \<open>
  The timelapse recorder button of \<open>main.js\<close>: the state the page keeps (\<open>timelapseState\<close>,
  \<open>timelapseStateLoaded\<close>), its normalisation (\<open>applyTimelapseState\<close>), its loading and the toggle, which
  sends every setting of the state back with only the enabled flag changed. An asynchronous function is
  one definition per stretch between two awaits. Text of an exception thrown by the engine is
  represented by the name of its class.
\<close>

section \<open>State\<close>

record presets =
  p_ircut :: bool
  p_ir850 :: bool
  p_ir940 :: bool
  p_white :: bool
  p_color :: bool

record timelapse =
  tl_enabled :: bool
  mount :: string
  filepath :: string
  filename :: string
  interval :: int
  keep_days :: int
  preset_enabled :: bool
  tl_presets :: presets

record tl_page =
  timelapseState :: timelapse
  timelapseStateLoaded :: bool
  tl_doc :: doc

definition initial_timelapse :: timelapse where
  "initial_timelapse =
     \<lparr>tl_enabled = False, mount = [], filepath = [], filename = [], interval = 1, keep_days = 7,
      preset_enabled = False,
      tl_presets = \<lparr>p_ircut = False, p_ir850 = False, p_ir940 = False, p_white = False, p_color = False\<rparr>\<rparr>"

section \<open>Operations\<close>

text \<open>\<open>Number.isInteger(v) && v >= lo ? v : fallback\<close>.\<close>

definition int_at_least :: "int \<Rightarrow> int \<Rightarrow> js \<Rightarrow> int" where
  "int_at_least lo fallback v =
     (case v of JNum (Fin q) \<Rightarrow> if q = of_int \<lfloor>q\<rfloor> \<and> lo \<le> \<lfloor>q\<rfloor> then \<lfloor>q\<rfloor> else fallback | _ \<Rightarrow> fallback)"

definition updateTimelapseButtonState :: "tl_page \<Rightarrow> tl_page" where
  "updateTimelapseButtonState p =
     p\<lparr>tl_doc := on_elem ''timelapse''
        (\<lambda>e. class_toggle ''active'' (tl_enabled (timelapseState p)) (class_remove ''pending'' e)) (tl_doc p)\<rparr>"

definition timelapse_of :: "js \<Rightarrow> timelapse" where
  "timelapse_of t =
     (let ps = js_or (getp t ''presets'') (JObj []); flag = (\<lambda>k. getp ps k = JBool True)
      in \<lparr>tl_enabled = (getp t ''enabled'' = JBool True),
          mount = str_or_empty (getp t ''mount''),
          filepath = str_or_empty (getp t ''filepath''),
          filename = str_or_empty (getp t ''filename''),
          interval = int_at_least 1 1 (getp t ''interval''),
          keep_days = int_at_least 0 7 (getp t ''keep_days''),
          preset_enabled = (getp t ''preset_enabled'' = JBool True),
          tl_presets = \<lparr>p_ircut = flag ''ircut'', p_ir850 = flag ''ir850'', p_ir940 = flag ''ir940'',
            p_white = flag ''white'', p_color = flag ''color''\<rparr>\<rparr>)"

definition applyTimelapseState :: "js \<Rightarrow> tl_page \<Rightarrow> tl_page" where
  "applyTimelapseState t p =
     updateTimelapseButtonState (p\<lparr>timelapseState := timelapse_of t, timelapseStateLoaded := True\<rparr>)"

text \<open>
  How both requests read their answer: an error message, or the timelapse object that is applied.
  An answer that parses to \<open>null\<close> passes the error check and then fails on \<open>payload.data\<close>.
\<close>

definition read_record_answer :: "string \<Rightarrow> outcome \<Rightarrow> js + js" where
  "read_record_answer fallback out =
     (case out of
        Rejected msg \<Rightarrow> Inl (JStr msg)
      | Answer r \<Rightarrow>
          (case parsed r of
             None \<Rightarrow> Inl (JStr ''SyntaxError'')
           | Some payload \<Rightarrow>
               (let has_error = truthy payload \<and> truthy (getp payload ''error'')
                in if \<not> resp_ok r \<or> has_error
                   then Inl (js_or (if has_error then getp (getp payload ''error'') ''message''
                                    else JStr (''Request failed with status '' @ show_int (status r)))
                                   (JStr fallback))
                   else if nullish payload then Inl (JStr ''TypeError'')
                   else Inr (js_or (and_prop (getp payload ''data'') ''timelapse'') (JObj [])))))"

definition loadTimelapseState :: "request" where
  "loadTimelapseState = Get ''/x/tool-record.cgi''"

definition loadTimelapseState_settle :: "outcome \<Rightarrow> tl_page \<Rightarrow> js + tl_page" where
  "loadTimelapseState_settle out p =
     (case read_record_answer ''Unable to load timelapse state'' out of
        Inl msg \<Rightarrow> Inl msg
      | Inr t \<Rightarrow> Inr (applyTimelapseState t p))"

definition bool_text :: "bool \<Rightarrow> string" where
  "bool_text b = (if b then ''true'' else ''false'')"

definition buildTimelapseToggleParams :: "bool \<Rightarrow> timelapse \<Rightarrow> params" where
  "buildTimelapseToggleParams enabled t =
     fold (\<lambda>(k, v). set_param k v)
       [(''form'', ''timelapse''),
        (''tl_enabled'', bool_text enabled),
        (''tl_mount'', mount t),
        (''tl_filepath'', filepath t),
        (''tl_filename'', filename t),
        (''tl_interval'', show_int (if interval t = 0 then 1 else interval t)),
        (''tl_keep_days'', show_int (keep_days t)),
        (''tl_preset_enabled'', bool_text (preset_enabled t)),
        (''tl_ircut'', bool_text (p_ircut (tl_presets t))),
        (''tl_ir850'', bool_text (p_ir850 (tl_presets t))),
        (''tl_ir940'', bool_text (p_ir940 (tl_presets t))),
        (''tl_white'', bool_text (p_white (tl_presets t))),
        (''tl_color'', bool_text (p_color (tl_presets t)))] []"

text \<open>
  The toggle: the click, the state loaded first where it is not known yet, and the answer to the post
  (\<open>nextEnabled\<close> is the flag the post carried). The body of the post is the text of the parameters.
\<close>

definition toggle_post :: "tl_page \<Rightarrow> effect list" where
  "toggle_post p =
     [Send (PostText ''/x/tool-record.cgi''
        (show_params (buildTimelapseToggleParams (\<not> tl_enabled (timelapseState p)) (timelapseState p))))]"

definition toggle_failed :: "js \<Rightarrow> tl_page \<Rightarrow> tl_page \<times> effect list" where
  "toggle_failed msg p =
     (updateTimelapseButtonState p, [Notice ''danger'' [js_or msg (JStr ''Failed to toggle timelapse.'')] 5000])"

definition toggleTimelapse :: "tl_page \<Rightarrow> tl_page \<times> effect list" where
  "toggleTimelapse p =
     (let p1 = p\<lparr>tl_doc := on_elem ''timelapse'' (class_add ''pending'') (tl_doc p)\<rparr>
      in (p1, if timelapseStateLoaded p1 then toggle_post p1 else [Send loadTimelapseState]))"

definition toggleTimelapse_loaded :: "outcome \<Rightarrow> tl_page \<Rightarrow> tl_page \<times> effect list" where
  "toggleTimelapse_loaded out p =
     (case loadTimelapseState_settle out p of
        Inl msg \<Rightarrow> toggle_failed msg p
      | Inr p1 \<Rightarrow> (p1, toggle_post p1))"

definition toggleTimelapse_settle :: "bool \<Rightarrow> outcome \<Rightarrow> tl_page \<Rightarrow> tl_page \<times> effect list" where
  "toggleTimelapse_settle nextEnabled out p =
     (case read_record_answer ''Unable to update timelapse recorder'' out of
        Inl msg \<Rightarrow> toggle_failed msg p
      | Inr t \<Rightarrow>
          (applyTimelapseState t p,
           [Notice ''success'' [JStr (if nextEnabled then ''Timelapse enabled.'' else ''Timelapse disabled.'')] 2500]))"

text \<open>What can happen to the page's timelapse state, in any order.\<close>

datatype tl_event = Click | Loaded outcome | Load outcome | Posted bool outcome

fun tl_step :: "tl_event \<Rightarrow> tl_page \<Rightarrow> tl_page \<times> effect list" where
  "tl_step Click p = toggleTimelapse p"
| "tl_step (Loaded out) p = toggleTimelapse_loaded out p"
| "tl_step (Load out) p =
     (case loadTimelapseState_settle out p of Inl _ \<Rightarrow> (updateTimelapseButtonState p, []) | Inr p1 \<Rightarrow> (p1, []))"
| "tl_step (Posted b out) p = toggleTimelapse_settle b out p"

fun tl_run :: "tl_event list \<Rightarrow> tl_page \<Rightarrow> tl_page \<times> effect list" where
  "tl_run [] p = (p, [])"
| "tl_run (e # es) p = (let (p1, fx) = tl_step e p; (p2, gx) = tl_run es p1 in (p2, fx @ gx))"

section \<open>Lemmas\<close>

definition wf_timelapse :: "timelapse \<Rightarrow> bool" where
  "wf_timelapse t \<longleftrightarrow> 1 \<le> interval t \<and> 0 \<le> keep_days t"

text \<open>The button shows the state and waits for nothing.\<close>

definition button_settled :: "tl_page \<Rightarrow> bool" where
  "button_settled p \<longleftrightarrow>
     \<not> has_class (tl_doc p) ''timelapse'' ''pending'' \<and>
     (present (tl_doc p) ''timelapse'' \<longrightarrow>
       has_class (tl_doc p) ''timelapse'' ''active'' = tl_enabled (timelapseState p))"

lemma int_at_least_ge: "lo \<le> fallback \<Longrightarrow> lo \<le> int_at_least lo fallback v"
  by (auto simp: int_at_least_def split: js.splits jnum.splits)

lemma wf_timelapse_of: "wf_timelapse (timelapse_of t)"
  using int_at_least_ge [of 1 1] int_at_least_ge [of 0 7]
  by (simp add: wf_timelapse_def timelapse_of_def Let_def)

lemma update_button_fields [simp]:
  "timelapseState (updateTimelapseButtonState p) = timelapseState p"
  "timelapseStateLoaded (updateTimelapseButtonState p) = timelapseStateLoaded p"
  by (simp_all add: updateTimelapseButtonState_def)

lemma update_button_settled: "button_settled (updateTimelapseButtonState p)"
  by (auto simp: button_settled_def updateTimelapseButtonState_def has_class_on_elem present_def on_elem_apply split: option.splits)

lemma apply_settled: "button_settled (applyTimelapseState t p)"
  by (simp add: applyTimelapseState_def update_button_settled)

lemma apply_fields [simp]:
  "timelapseState (applyTimelapseState t p) = timelapse_of t"
  "timelapseStateLoaded (applyTimelapseState t p)"
  by (simp_all add: applyTimelapseState_def)

lemmas tl_defs = toggleTimelapse_def toggleTimelapse_loaded_def toggleTimelapse_settle_def toggle_failed_def
  loadTimelapseState_settle_def Let_def

lemma tl_step_wf: "wf_timelapse (timelapseState p) \<Longrightarrow> wf_timelapse (timelapseState (fst (tl_step e p)))"
  by (cases e) (simp_all add: tl_defs wf_timelapse_of split: sum.splits)

lemma params_list:
  "buildTimelapseToggleParams b t =
     [(''form'', ''timelapse''), (''tl_enabled'', bool_text b), (''tl_mount'', mount t),
      (''tl_filepath'', filepath t), (''tl_filename'', filename t),
      (''tl_interval'', show_int (if interval t = 0 then 1 else interval t)), (''tl_keep_days'', show_int (keep_days t)),
      (''tl_preset_enabled'', bool_text (preset_enabled t)), (''tl_ircut'', bool_text (p_ircut (tl_presets t))),
      (''tl_ir850'', bool_text (p_ir850 (tl_presets t))), (''tl_ir940'', bool_text (p_ir940 (tl_presets t))),
      (''tl_white'', bool_text (p_white (tl_presets t))), (''tl_color'', bool_text (p_color (tl_presets t)))]"
  by (simp add: buildTimelapseToggleParams_def)

text \<open>How a reader of the form takes it back: flags by the text \<open>true\<close>, numbers by their decimal value.\<close>

definition form_field :: "params \<Rightarrow> string \<Rightarrow> string" where
  "form_field ps k = (case map_of ps k of Some v \<Rightarrow> v | None \<Rightarrow> [])"

definition timelapse_of_form :: "params \<Rightarrow> timelapse" where
  "timelapse_of_form ps =
     (let flag = (\<lambda>k. form_field ps k = ''true''); num = (\<lambda>k. int (digits_val 0 (form_field ps k)))
      in \<lparr>tl_enabled = flag ''tl_enabled'', mount = form_field ps ''tl_mount'', filepath = form_field ps ''tl_filepath'',
          filename = form_field ps ''tl_filename'', interval = num ''tl_interval'', keep_days = num ''tl_keep_days'',
          preset_enabled = flag ''tl_preset_enabled'',
          tl_presets = \<lparr>p_ircut = flag ''tl_ircut'', p_ir850 = flag ''tl_ir850'', p_ir940 = flag ''tl_ir940'',
            p_white = flag ''tl_white'', p_color = flag ''tl_color''\<rparr>\<rparr>)"

lemma bool_text_true [simp]: "bool_text b = ''true'' \<longleftrightarrow> b"
  by (simp add: bool_text_def)

lemma digits_val_show_int: "0 \<le> i \<Longrightarrow> int (digits_val 0 (show_int i)) = i"
  by (simp add: show_int_def digits_val_show_nat)

lemma form_of_params: "wf_timelapse t \<Longrightarrow> timelapse_of_form (buildTimelapseToggleParams b t) = t\<lparr>tl_enabled := b\<rparr>"
  by (simp add: timelapse_of_form_def params_list form_field_def Let_def wf_timelapse_def digits_val_show_int)

lemma tl_run_wf: "wf_timelapse (timelapseState p) \<Longrightarrow> wf_timelapse (timelapseState (fst (tl_run es p)))"
  by (induction es arbitrary: p) (simp_all add: Let_def split_def tl_step_wf)

lemma tl_step_posts:
  assumes "wf_timelapse (timelapseState p)" "Send (PostText url body) \<in> set (snd (tl_step e p))"
  shows "let t = timelapseState (fst (tl_step e p))
         in wf_timelapse t \<and> url = ''/x/tool-record.cgi'' \<and>
            body = show_params (buildTimelapseToggleParams (\<not> tl_enabled t) t)"
  using assms by (cases e) (auto simp: tl_defs toggle_post_def loadTimelapseState_def wf_timelapse_of split: sum.splits if_splits)

section \<open>Properties\<close>

text \<open>
  C32. Toggling the timelapse never changes another setting: whatever answers the page has seen before
  (malformed ones included), the body of every post that the toggle sends, decoded by the form decoding
  of the server, gives back exactly the page's settings with the enabled flag inverted, and these are
  well formed (an interval of at least one minute, no negative retention).\<close>

theorem timelapse_toggle_preserves:
  assumes "timelapseState p = initial_timelapse"
  assumes "Send (PostText url body) \<in> set (snd (tl_step e (fst (tl_run es p))))"
  shows "let t = timelapseState (fst (tl_step e (fst (tl_run es p))))
         in wf_timelapse t \<and> url = ''/x/tool-record.cgi'' \<and>
            timelapse_of_form (parse_params body) = t\<lparr>tl_enabled := \<not> tl_enabled t\<rparr>"
proof -
  have "wf_timelapse (timelapseState p)"
    using assms(1) by (simp add: wf_timelapse_def initial_timelapse_def)
  then have "wf_timelapse (timelapseState (fst (tl_run es p)))" by (rule tl_run_wf)
  from tl_step_posts [OF this assms(2)] show ?thesis
    by (simp add: Let_def parse_show_params form_of_params)
qed

definition sample_page :: tl_page where
  "sample_page = \<lparr>timelapseState = initial_timelapse, timelapseStateLoaded = False,
     tl_doc = [''timelapse'' \<mapsto> blank_elem]\<rparr>"

definition sample_answer :: outcome where
  "sample_answer = Answer \<lparr>status = 200, text_body = ''...'',
     parsed = Some (JObj [(''data'', JObj [(''timelapse'', JObj [(''enabled'', JBool True), (''interval'', jint 5)])])])\<rparr>"

lemma sample_posts:
  "snd (tl_step Click (fst (tl_run [Load sample_answer] sample_page))) =
     toggle_post (fst (tl_step Click (fst (tl_run [Load sample_answer] sample_page))))"
  by (simp add: tl_defs sample_answer_def sample_page_def read_record_answer_def resp_ok_def nullish_def)

theorem timelapse_toggle_preserves_witness:
  "let p = fst (tl_run [Load sample_answer] sample_page); t = timelapseState (fst (tl_step Click p))
   in \<exists>body. Send (PostText ''/x/tool-record.cgi'' body) \<in> set (snd (tl_step Click p)) \<and>
        timelapse_of_form (parse_params body) = t\<lparr>tl_enabled := \<not> tl_enabled t\<rparr>"
proof -
  let ?p = "fst (tl_run [Load sample_answer] sample_page)"
  let ?q = "fst (tl_step Click ?p)"
  let ?body = "show_params (buildTimelapseToggleParams (\<not> tl_enabled (timelapseState ?q)) (timelapseState ?q))"
  have post: "Send (PostText ''/x/tool-record.cgi'' ?body) \<in> set (snd (tl_step Click ?p))"
    unfolding sample_posts by (simp add: toggle_post_def)
  have init: "timelapseState sample_page = initial_timelapse" by (simp add: sample_page_def)
  show ?thesis
    using timelapse_toggle_preserves [OF init post] post by (auto simp: Let_def)
qed

text \<open>
  A settled toggle never leaves the button waiting: after the answer to the post, and after the
  answer to the load where that fails, the button is not pending and shows the known state; a failure
  leaves the state as it was and shows a message that is not empty; a success shows the state of the
  answer.\<close>

theorem timelapse_toggle_settles:
  "button_settled (fst (toggleTimelapse_settle b out p)) \<and>
   button_settled (fst (toggleTimelapse_loaded out p)) \<and>
   (case read_record_answer ''Unable to update timelapse recorder'' out of
      Inl _ \<Rightarrow> timelapseState (fst (toggleTimelapse_settle b out p)) = timelapseState p \<and>
        (\<exists>m. truthy m \<and> snd (toggleTimelapse_settle b out p) = [Notice ''danger'' [m] 5000])
    | Inr t \<Rightarrow> timelapseState (fst (toggleTimelapse_settle b out p)) = timelapse_of t \<and>
        (\<exists>m. snd (toggleTimelapse_settle b out p) = [Notice ''success'' m 2500]))"
proof (cases "read_record_answer ''Unable to update timelapse recorder'' out")
  case (Inl msg)
  have "truthy (js_or msg (JStr ''Failed to toggle timelapse.''))" by (rule js_or_truthy) simp
  with Inl show ?thesis
    by (simp add: tl_defs update_button_settled apply_settled split: sum.splits)
next
  case (Inr t)
  then show ?thesis
    by (simp add: tl_defs update_button_settled apply_settled split: sum.splits)
qed

end
