(* ===== verification/Base64.thy ===== *)
theory Base64
  imports Url
begin

text \<open>
  Base64 and UTF-8 as the scripts use them: \<open>btoa\<close> (commands for \<open>/x/run.cgi\<close>), \<open>atob\<close> with the
  forgiving decoding of the browser, the UTF-8 decoder of \<open>TextDecoder\<close> (malformed input becomes
  U+FFFD), and \<open>decodeBase64String\<close> of \<open>main.js\<close>. Here a string is a list of bytes and a decoded text is
  the list of its code points.
\<close>

section \<open>Base64\<close>

definition b64_char :: "nat \<Rightarrow> char" where
  "b64_char n =
     (if n < 26 then char_of (65 + n) else if n < 52 then char_of (71 + n)
      else if n < 62 then char_of (n - 4) else if n = 62 then CHR ''+'' else CHR ''/'')"

definition b64_val :: "char \<Rightarrow> nat option" where
  "b64_val c =
     (let n = (of_char c :: nat)
      in if 65 \<le> n \<and> n \<le> 90 then Some (n - 65) else if 97 \<le> n \<and> n \<le> 122 then Some (n - 71)
         else if 48 \<le> n \<and> n \<le> 57 then Some (n + 4) else if n = 43 then Some 62 else if n = 47 then Some 63 else None)"

fun sextets :: "nat list \<Rightarrow> nat list" where
  "sextets (a # b # c # bs) =
     [a div 4, (a mod 4) * 16 + b div 16, (b mod 16) * 4 + c div 64, c mod 64] @ sextets bs"
| "sextets [a, b] = [a div 4, (a mod 4) * 16 + b div 16, (b mod 16) * 4]"
| "sextets [a] = [a div 4, (a mod 4) * 16]"
| "sextets [] = []"

fun octets :: "nat list \<Rightarrow> nat list" where
  "octets (v # w # x # y # vs) = [v * 4 + w div 16, (w mod 16) * 16 + x div 4, (x mod 4) * 64 + y] @ octets vs"
| "octets [v, w, x] = [v * 4 + w div 16, (w mod 16) * 16 + x div 4]"
| "octets [v, w] = [v * 4 + w div 16]"
| "octets _ = []"

definition bytes_of :: "string \<Rightarrow> nat list" where
  "bytes_of s = map of_char s"

definition btoa :: "string \<Rightarrow> string" where
  "btoa s =
     (let cs = map b64_char (sextets (bytes_of s)) in cs @ replicate ((4 - length cs mod 4) mod 4) (CHR ''=''))"

definition strip_padding :: "string \<Rightarrow> string" where
  "strip_padding s =
     (if length s mod 4 \<noteq> 0 then s
      else case rev s of
        a # b # r \<Rightarrow> if a = CHR ''='' then (if b = CHR ''='' then rev r else rev (b # r)) else s
      | _ \<Rightarrow> s)"

definition ascii_space :: "char \<Rightarrow> bool" where
  "ascii_space c \<longleftrightarrow> of_char c \<in> {9, 10, 12, 13, 32 :: nat}"

definition atob :: "string \<Rightarrow> string option" where
  "atob t =
     (let s = strip_padding (filter (\<lambda>c. \<not> ascii_space c) t)
      in if length s mod 4 = 1 then None
         else map_option (\<lambda>vs. map char_of (octets vs)) (those (map b64_val s)))"

section \<open>UTF-8\<close>

text \<open>
  The decoder's state: the bits collected, the number of continuation bytes missing and the range of the
  next one. A byte outside the range ends the sequence as malformed and is read again.
\<close>

function (sequential) utf8_go :: "nat \<Rightarrow> nat \<Rightarrow> nat \<Rightarrow> nat \<Rightarrow> nat list \<Rightarrow> nat list" where
  "utf8_go cp need lo hi [] = (if need = 0 then [] else [0xFFFD])"
| "utf8_go cp need lo hi (b # bs) =
     (if need = 0 then
        (if b \<le> 0x7F then b # utf8_go 0 0 0x80 0xBF bs
         else if 0xC2 \<le> b \<and> b \<le> 0xDF then utf8_go (b - 0xC0) 1 0x80 0xBF bs
         else if 0xE0 \<le> b \<and> b \<le> 0xEF then
           utf8_go (b - 0xE0) 2 (if b = 0xE0 then 0xA0 else 0x80) (if b = 0xED then 0x9F else 0xBF) bs
         else if 0xF0 \<le> b \<and> b \<le> 0xF4 then
           utf8_go (b - 0xF0) 3 (if b = 0xF0 then 0x90 else 0x80) (if b = 0xF4 then 0x8F else 0xBF) bs
         else 0xFFFD # utf8_go 0 0 0x80 0xBF bs)
      else if b < lo \<or> hi < b then 0xFFFD # utf8_go 0 0 0x80 0xBF (b # bs)
      else if need = 1 then (cp * 64 + (b - 0x80)) # utf8_go 0 0 0x80 0xBF bs
      else utf8_go (cp * 64 + (b - 0x80)) (need - 1) 0x80 0xBF bs)"
  by pat_completeness auto
termination
  by (relation "measure (\<lambda>(cp, need, lo, hi, bs). 2 * length bs + (if need = 0 then 0 else 1))") auto

text \<open>\<open>new TextDecoder("utf-8", { fatal: false }).decode(bytes)\<close> drops a leading byte order mark.\<close>

definition utf8_decode :: "nat list \<Rightarrow> nat list" where
  "utf8_decode bs = (case utf8_go 0 0 0x80 0xBF bs of
     cp # cps \<Rightarrow> if cp = 0xFEFF \<and> take 3 bs = [0xEF, 0xBB, 0xBF] then cps else cp # cps | [] \<Rightarrow> [])"

definition utf8_bytes :: "nat \<Rightarrow> nat list" where
  "utf8_bytes cp =
     (if cp < 0x80 then [cp]
      else if cp < 0x800 then [0xC0 + cp div 64, 0x80 + cp mod 64]
      else if cp < 0x10000 then [0xE0 + cp div 4096, 0x80 + cp div 64 mod 64, 0x80 + cp mod 64]
      else [0xF0 + cp div 262144, 0x80 + cp div 4096 mod 64, 0x80 + cp div 64 mod 64, 0x80 + cp mod 64])"

definition utf8_encode :: "nat list \<Rightarrow> string" where
  "utf8_encode cps = map char_of (concat (map utf8_bytes cps))"

section \<open>decodeBase64String\<close>

definition decodeBase64String :: "bool \<Rightarrow> string \<Rightarrow> nat list" where
  "decodeBase64String hasTextDecoder encoded =
     (if encoded = [] then []
      else case atob encoded of
        None \<Rightarrow> []
      | Some binary \<Rightarrow> if hasTextDecoder then utf8_decode (bytes_of binary) else bytes_of binary)"

section \<open>Lemmas\<close>

lemma bytes_less: "b \<in> set (bytes_of s) \<Longrightarrow> b < 256"
  by (auto simp: bytes_of_def nat_of_char_less_256)

lemma map_char_of_bytes [simp]: "map char_of (bytes_of s) = s"
  by (simp add: bytes_of_def map_idI)

lemma bytes_of_char: "(\<And>b. b \<in> set bs \<Longrightarrow> b < 256) \<Longrightarrow> bytes_of (map char_of bs) = bs"
  by (simp add: bytes_of_def map_idI)

lemma byte_parts:
  fixes x :: nat
  assumes "x < 256"
  shows "x div 4 < 64" "x div 16 < 16" "x div 64 < 4" "x mod 4 < 4" "x mod 16 < 16" "x mod 64 < 64"
  using assms by (simp_all add: less_mult_imp_div_less)

lemma sextet_bounds:
  fixes a b c :: nat
  assumes "a < 256" "b < 256" "c < 256"
  shows "a div 4 < 64" "(a mod 4) * 16 + b div 16 < 64" "(b mod 16) * 4 + c div 64 < 64" "c mod 64 < 64"
    "(a mod 4) * 16 < 64" "(b mod 16) * 4 < 64"
  using byte_parts [OF assms(1)] byte_parts [OF assms(2)] byte_parts [OF assms(3)] by linarith+

lemma octet_sextet:
  fixes a b c :: nat
  assumes "a < 256" "b < 256" "c < 256"
  shows "a div 4 * 4 + ((a mod 4) * 16 + b div 16) div 16 = a"
    "((a mod 4) * 16 + b div 16) mod 16 * 16 + ((b mod 16) * 4 + c div 64) div 4 = b"
    "((b mod 16) * 4 + c div 64) mod 4 * 64 + c mod 64 = c"
    "((a mod 4) * 16 + b div 16) mod 16 * 16 + ((b mod 16) * 4) div 4 = b"
    "a div 4 * 4 + ((a mod 4) * 16) div 16 = a"
  using byte_parts [OF assms(1)] byte_parts [OF assms(2)] byte_parts [OF assms(3)] by simp_all

lemma octets_sextets: "(\<And>b. b \<in> set bs \<Longrightarrow> b < 256) \<Longrightarrow> octets (sextets bs) = bs"
proof (induction bs rule: sextets.induct)
  case (1 a b c bs)
  have "octets (sextets bs) = bs" using 1 by simp
  moreover have "a < 256" "b < 256" "c < 256" using "1.prems" by simp_all
  ultimately show ?case
    unfolding sextets.simps append_Cons append_Nil octets.simps using octet_sextet by simp
next
  case (2 a b)
  have "a < 256" "b < 256" using 2 by simp_all
  then show ?case
    unfolding sextets.simps octets.simps using octet_sextet [of a b 0] by simp
next
  case (3 a)
  then show ?case using octet_sextet(5) [of a 0 0] by simp
qed simp

lemma sextets_less: "(\<And>b. b \<in> set bs \<Longrightarrow> b < 256) \<Longrightarrow> v \<in> set (sextets bs) \<Longrightarrow> v < 64"
proof (induction bs rule: sextets.induct)
  case (1 a b c bs)
  have "a < 256" "b < 256" "c < 256" using "1.prems"(1) by simp_all
  note k = sextet_bounds [OF this]
  consider "v \<in> {a div 4, (a mod 4) * 16 + b div 16, (b mod 16) * 4 + c div 64, c mod 64}" | "v \<in> set (sextets bs)"
    using "1.prems"(2) by auto
  then show ?case
  proof cases
    case 1
    then show ?thesis using k by blast
  next
    case 2
    then show ?thesis using "1.IH" "1.prems"(1) by simp
  qed
next
  case (2 a b)
  have "a < 256" "b < 256" using "2.prems"(1) by simp_all
  then show ?case using sextet_bounds [of a b 0] "2.prems"(2) by auto
next
  case (3 a)
  then show ?case using sextet_bounds(1,5) [of a 0 0] by auto
qed simp

lemma sextets_length: "length (sextets bs) mod 4 \<noteq> 1"
  by (induction bs rule: sextets.induct) simp_all

lemma b64_val_char:
  assumes "n < 64" shows "b64_val (b64_char n) = Some n"
proof -
  consider "n < 26" | "26 \<le> n" "n < 52" | k where "n = 52 + k" "k < 10" | "n = 62" | "n = 63"
    using assms le_Suc_ex [of 52 n] by fastforce
  then show ?thesis
    by cases (simp_all add: b64_val_def b64_char_def Let_def)
qed

lemma those_map_Some: "(\<And>x. x \<in> set xs \<Longrightarrow> f x = Some x) \<Longrightarrow> those (map f xs) = Some xs"
  by (induction xs) simp_all

lemma b64_plain: "b64_val c = Some n \<Longrightarrow> c \<noteq> CHR ''='' \<and> \<not> ascii_space c"
  by (auto simp: b64_val_def ascii_space_def Let_def split: if_splits)

lemma strip_padding_pad:
  assumes "CHR ''='' \<notin> set xs" "length xs mod 4 \<noteq> 1"
  shows "strip_padding (xs @ replicate ((4 - length xs mod 4) mod 4) (CHR ''='')) = xs"
proof -
  have "length xs mod 4 < 4" by simp
  with assms(2) consider (0) "length xs mod 4 = 0" | (2) "length xs mod 4 = 2" | (3) "length xs mod 4 = 3"
    by linarith
  then show ?thesis
  proof cases
    case 0
    show ?thesis
    proof (cases "rev xs")
      case (Cons a r)
      then have "a \<in> set xs" by (metis list.set_intros(1) set_rev)
      then have "a \<noteq> CHR ''=''" using assms(1) by auto
      then show ?thesis using 0 Cons by (simp add: strip_padding_def split: list.splits)
    qed (use 0 in \<open>simp add: strip_padding_def\<close>)
  next
    case 2
    then have "(length xs + 2) mod 4 = 0" by presburger
    then show ?thesis using 2 by (simp add: strip_padding_def numeral_2_eq_2)
  next
    case 3
    then have m: "Suc (length xs) mod 4 = 0" by presburger
    obtain b r where r: "rev xs = b # r" using 3 by (cases "rev xs") auto
    then have "b \<in> set xs" by (metis list.set_intros(1) set_rev)
    then have "b \<noteq> CHR ''=''" using assms(1) by auto
    moreover have "rev r @ [b] = xs" using r by (metis rev.simps(2) rev_rev_ident)
    ultimately have "strip_padding (xs @ ''='') = xs"
      using m unfolding strip_padding_def by (simp add: r)
    then show ?thesis using 3 by simp
  qed
qed

lemma atob_btoa: "atob (btoa s) = Some s"
proof -
  let ?vs = "sextets (bytes_of s)"
  let ?cs = "map b64_char ?vs"
  have v: "v < 64" if "v \<in> set ?vs" for v
    using sextets_less [OF bytes_less that] .
  have c: "c \<noteq> CHR ''='' \<and> \<not> ascii_space c" if "c \<in> set ?cs" for c
    using that v b64_val_char b64_plain by fastforce
  have "\<not> ascii_space (CHR ''='')" by (simp add: ascii_space_def)
  with c have "filter (\<lambda>c. \<not> ascii_space c) (btoa s) = btoa s"
    by (auto simp: btoa_def Let_def filter_id_conv)
  moreover have "strip_padding (btoa s) = ?cs"
    unfolding btoa_def Let_def by (rule strip_padding_pad) (use c sextets_length in auto)
  moreover have "those (map b64_val ?cs) = Some ?vs"
    using those_map_Some [of ?vs "b64_val \<circ> b64_char"] v b64_val_char by simp
  moreover have "octets ?vs = bytes_of s" by (rule octets_sextets) (rule bytes_less)
  ultimately show ?thesis
    using sextets_length [of "bytes_of s"] by (simp add: atob_def Let_def)
qed

definition scalar_value :: "nat \<Rightarrow> bool" where
  "scalar_value cp \<longleftrightarrow> cp < 0xD800 \<or> 0xE000 \<le> cp \<and> cp < 0x110000"

lemma utf8_bytes_less:
  assumes "scalar_value cp" "b \<in> set (utf8_bytes cp)" shows "b < 256"
proof -
  have "b \<in> {cp, 0xC0 + cp div 64} \<union> {0xE0 + cp div 4096} \<union> {0xF0 + cp div 262144} \<or> (\<exists>k. b = 0x80 + k mod 64)"
    using assms(2) by (auto simp: utf8_bytes_def split: if_splits)
  moreover have "0x80 + k mod 64 < 256" for k :: nat by simp
  ultimately show ?thesis
    using assms by (auto simp: utf8_bytes_def scalar_value_def split: if_splits)
qed

text \<open>A code point as its groups of six bits.\<close>

lemma six_bits:
  fixes cp :: nat
  shows "cp = cp div 64 * 64 + cp mod 64" "cp mod 64 < 64"
    "cp div 64 = cp div 4096 * 64 + cp div 64 mod 64" "cp div 64 mod 64 < 64"
    "cp div 4096 = cp div 262144 * 64 + cp div 4096 mod 64" "cp div 4096 mod 64 < 64"
  using div_mult_mod_eq [of cp 64] div_mult_mod_eq [of "cp div 64" 64] div_mult_mod_eq [of "cp div 4096" 64]
  by (simp_all add: div_mult2_eq [symmetric])

lemma utf8_go_2:
  assumes "0x80 \<le> cp" "cp < 0x800"
  shows "utf8_go 0 0 0x80 0xBF (utf8_bytes cp @ bs) = cp # utf8_go 0 0 0x80 0xBF bs"
proof -
  define l m where "l = cp mod 64" and "m = cp div 64"
  have e: "cp = m * 64 + l" "l < 64" using six_bits(1,2) [of cp] by (simp_all add: l_def m_def)
  then have "2 \<le> m" "m \<le> 31" using assms by linarith+
  moreover have "utf8_bytes cp = [0xC0 + m, 0x80 + l]"
    using assms by (simp add: utf8_bytes_def l_def m_def)
  ultimately show ?thesis using e by simp
qed

lemma utf8_go_3:
  assumes "0x800 \<le> cp" "cp < 0x10000" "scalar_value cp"
  shows "utf8_go 0 0 0x80 0xBF (utf8_bytes cp @ bs) = cp # utf8_go 0 0 0x80 0xBF bs"
proof -
  define l m q where "l = cp mod 64" and "m = cp div 64 mod 64" and "q = cp div 4096"
  have e: "cp = q * 4096 + m * 64 + l" "l < 64" "m < 64"
    using six_bits(1-4) [of cp] unfolding l_def m_def q_def by linarith+
  have "q \<le> 15" using e assms by linarith
  moreover have "32 \<le> m" if "q = 0" using e assms that by linarith
  moreover have "m \<le> 31" if "q = 13" using e assms that unfolding scalar_value_def by linarith
  ultimately have k: "q \<le> 15" "q = 0 \<longrightarrow> 32 \<le> m" "q = 13 \<longrightarrow> m \<le> 31" by simp_all
  have "utf8_bytes cp = [0xE0 + q, 0x80 + m, 0x80 + l]"
    using assms by (simp add: utf8_bytes_def l_def m_def q_def)
  then show ?thesis
    using k e by (cases "q = 0"; cases "q = 13") simp_all
qed

lemma utf8_go_4:
  assumes "0x10000 \<le> cp" "scalar_value cp"
  shows "utf8_go 0 0 0x80 0xBF (utf8_bytes cp @ bs) = cp # utf8_go 0 0 0x80 0xBF bs"
proof -
  define l m q r where "l = cp mod 64" and "m = cp div 64 mod 64" and "q = cp div 4096 mod 64" and "r = cp div 262144"
  have e: "cp = r * 262144 + q * 4096 + m * 64 + l" "l < 64" "m < 64" "q < 64"
    using six_bits [of cp] unfolding l_def m_def q_def r_def by linarith+
  have "r \<le> 4" using e assms unfolding scalar_value_def by linarith
  moreover have "16 \<le> q" if "r = 0" using e assms that by linarith
  moreover have "q \<le> 15" if "r = 4" using e assms that unfolding scalar_value_def by linarith
  ultimately have k: "r \<le> 4" "r = 0 \<longrightarrow> 16 \<le> q" "r = 4 \<longrightarrow> q \<le> 15" by simp_all
  have "utf8_bytes cp = [0xF0 + r, 0x80 + q, 0x80 + m, 0x80 + l]"
    using assms by (simp add: utf8_bytes_def l_def m_def q_def r_def)
  then show ?thesis
    using k e by (cases "r = 0"; cases "r = 4") simp_all
qed

lemma utf8_go_bytes:
  assumes "scalar_value cp"
  shows "utf8_go 0 0 0x80 0xBF (utf8_bytes cp @ bs) = cp # utf8_go 0 0 0x80 0xBF bs"
proof -
  consider "cp < 0x80" | "0x80 \<le> cp" "cp < 0x800" | "0x800 \<le> cp" "cp < 0x10000" | "0x10000 \<le> cp"
    by linarith
  then show ?thesis
  proof cases
    case 1
    then show ?thesis by (simp add: utf8_bytes_def)
  next
    case 2
    then show ?thesis by (rule utf8_go_2)
  next
    case 3
    then show ?thesis using assms by (rule utf8_go_3)
  next
    case 4
    then show ?thesis using assms by (rule utf8_go_4)
  qed
qed

lemma utf8_go_text:
  "list_all scalar_value cps \<Longrightarrow> utf8_go 0 0 0x80 0xBF (concat (map utf8_bytes cps)) = cps"
  by (induction cps) (simp_all add: utf8_go_bytes)

lemma btoa_Nil_iff: "btoa s = [] \<longleftrightarrow> s = []"
proof
  assume "btoa s = []"
  then have "atob [] = Some s" using atob_btoa [of s] by simp
  moreover have "atob [] = Some []" by (simp add: atob_def strip_padding_def)
  ultimately show "s = []" by simp
qed (simp add: btoa_def bytes_of_def)

lemma utf8_bytes_nonempty: "utf8_bytes c \<noteq> []"
  by (simp add: utf8_bytes_def)

lemma utf8_encode_Nil: "utf8_encode v = [] \<longleftrightarrow> v = []"
  by (cases v) (simp_all add: utf8_encode_def utf8_bytes_nonempty)

lemma decode_text:
  assumes "list_all scalar_value v" "v = [] \<or> hd v \<noteq> 0xFEFF"
  shows "decodeBase64String True (btoa (utf8_encode v)) = v"
proof -
  have "bytes_of (utf8_encode v) = concat (map utf8_bytes v)"
    unfolding utf8_encode_def
    using assms(1) utf8_bytes_less by (intro bytes_of_char) (auto simp: list_all_iff)
  moreover have "utf8_decode (concat (map utf8_bytes v)) = v"
    using assms by (auto simp: utf8_decode_def utf8_go_text split: list.splits)
  ultimately show ?thesis
    by (simp add: decodeBase64String_def atob_btoa btoa_Nil_iff utf8_encode_Nil)
qed

section \<open>Properties\<close>

text \<open>
  \<open>decodeBase64String\<close> recovers every text: for each sequence of Unicode scalar values that does not
  start with a byte order mark, decoding the Base64 form of its UTF-8 bytes gives back exactly that
  sequence.\<close>

theorem base64_text_roundtrip:
  assumes "list_all scalar_value cps" "cps = [] \<or> hd cps \<noteq> 0xFEFF"
  shows "decodeBase64String True (btoa (utf8_encode cps)) = cps"
  using assms by (rule decode_text)

theorem base64_text_roundtrip_witness:
  "decodeBase64String True (btoa (utf8_encode [0x43, 0xB0, 0x20AC, 0x1F4F7])) = [0x43, 0xB0, 0x20AC, 0x1F4F7]"
  by (rule base64_text_roundtrip) (simp_all add: scalar_value_def)

end
