(* ===== verification/Stream_Output.thy ===== *)
theory Stream_Output
  imports Base64 Dom
begin

text \<open>
  The console of \<open>main.js\<close>, which streams the output of a command that runs on the camera into
  \<open>pre#output\<close>: the line iterator over the chunks of the response, the rendering of a line with its ANSI
  colours and its carriage returns, the single-command guard, the start of a command and the end of the
  stream. A chunk is the text \<open>TextDecoder.decode\<close> gives for it. Reading \<open>innerHTML\<close> back gives what the
  browser's HTML parser made of the assigned text; that is the argument \<open>html\<close> of the definitions.
\<close>

section \<open>Lines\<close>

abbreviation CR :: char where "CR \<equiv> CHR 0x0D"
abbreviation LF :: char where "LF \<equiv> CHR 0x0A"

text \<open>The first match of \<open>/\r\n|\n|\r/\<close>: its position and its text.\<close>

fun eol :: "string \<Rightarrow> (nat \<times> string) option" where
  "eol [] = None"
| "eol (c # s) =
     (if c = CR then Some (0, if starts_with s [LF] then [CR, LF] else [CR])
      else if c = LF then Some (0, [LF])
      else map_option (\<lambda>(i, e). (Suc i, e)) (eol s))"

definition re_exec :: "string \<Rightarrow> nat \<Rightarrow> (nat \<times> string) option" where
  "re_exec chunk lastIndex = map_option (\<lambda>(i, e). (lastIndex + i, e)) (eol (drop lastIndex chunk))"

lemma eol_Some: "eol s = Some (i, e) \<Longrightarrow> s = take i s @ e @ drop (i + length e) s \<and> e \<noteq> [] \<and> i + length e \<le> length s"
proof (induction s arbitrary: i e)
  case (Cons c s)
  then show ?case
    by (auto split: if_splits) (cases s; simp)+
qed simp

text \<open>
  The loop of the iterator: \<open>re.lastIndex\<close> always equals \<open>startIndex\<close> when the pattern runs. The reader
  delivers the remaining chunks one by one and then reports that it is done.
\<close>

function (sequential) line_loop :: "string \<Rightarrow> nat \<Rightarrow> bool \<Rightarrow> string list \<Rightarrow> (string \<times> string) list" where
  "line_loop chunk startIndex readerDone reads =
     (case re_exec chunk startIndex of
        None \<Rightarrow>
          if readerDone
          then (if startIndex < length chunk then [(drop startIndex chunk, [])] else [])
          else (case reads of
                  [] \<Rightarrow> line_loop (drop startIndex chunk) 0 True []
                | c # rs \<Rightarrow> line_loop (drop startIndex chunk @ c) 0 False rs)
      | Some (index, ending) \<Rightarrow>
          (substring chunk startIndex index, ending) # line_loop chunk (index + length ending) readerDone reads)"
  by pat_completeness auto

termination
proof (relation "measures [\<lambda>(chunk, st, dn, reads). if dn then 0 else Suc (length reads),
    \<lambda>(chunk, st, dn, reads). length chunk - st]")
  fix chunk st dn reads p index ending
  assume "re_exec chunk st = Some p" "(index, ending) = p"
  then obtain i where i: "eol (drop st chunk) = Some (i, ending)" "index = st + i"
    by (auto simp: re_exec_def)
  from eol_Some [OF i(1)] have "ending \<noteq> []" "i + length ending \<le> length chunk - st" by simp_all
  then show "((chunk, index + length ending, dn, reads), chunk, st, dn, reads)
      \<in> measures [\<lambda>(chunk, st, dn, reads). if dn then 0 else Suc (length reads),
          \<lambda>(chunk, st, dn, reads). length chunk - st]"
    using i(2) by (cases ending) auto
qed auto

declare line_loop.simps [simp del]

definition makeLineIterator :: "string list \<Rightarrow> (string \<times> string) list" where
  "makeLineIterator reads =
     (case reads of [] \<Rightarrow> line_loop [] 0 True [] | c # rs \<Rightarrow> line_loop c 0 False rs)"

section \<open>Rendering\<close>

text \<open>\<open>/\u001b\[1;(\d+)m/\<close> at the start of a text: the digits and the rest.\<close>

definition ansi_colour :: "string \<Rightarrow> (string \<times> string) option" where
  "ansi_colour s =
     (if starts_with s (CHR 0x1B # ''[1;'')
      then (let r = drop 4 s; ds = takeWhile is_digit r; t = dropWhile is_digit r
            in if ds \<noteq> [] \<and> starts_with t ''m'' then Some (ds, tl t) else None)
      else None)"

fun open_spans :: "string \<Rightarrow> string" where
  "open_spans [] = []"
| "open_spans (c # s) =
     (case ansi_colour (c # s) of
        Some (ds, rest) \<Rightarrow> ''<span class=\"ansi-'' @ ds @ ''\">'' @ rest
      | None \<Rightarrow> c # open_spans s)"

fun close_spans :: "string \<Rightarrow> string" where
  "close_spans [] = []"
| "close_spans (c # s) =
     (if starts_with (c # s) (CHR 0x1B # ''[0m'') then ''</span>'' @ drop 4 (c # s) else c # close_spans s)"

definition ansi_line :: "string \<Rightarrow> string" where
  "ansi_line line = close_spans (open_spans line)"

definition put_line :: "(string \<Rightarrow> string) \<Rightarrow> string \<times> string \<Rightarrow> string \<Rightarrow> string" where
  "put_line html le inner =
     (let line = ansi_line (fst le)
      in if snd le = [CR]
         then html (join_with [LF] (butlast (split_on LF inner) @ [line]))
         else html (inner @ line @ [LF]))"

section \<open>The console\<close>

record console =
  commandInFlight :: bool
  inner_html :: string
  data_reboot :: string
  data_cmd :: string
  data_stream :: string
  data_encoded :: string

datatype console_effect = Fetch string | Goto string | Started string | Finished

definition finalizeStream :: "(string \<Rightarrow> string) \<Rightarrow> console \<Rightarrow> console \<times> console_effect list" where
  "finalizeStream html c =
     (let c1 = c\<lparr>commandInFlight := False\<rparr>
      in if data_reboot c = ''true'' then (c1, [Goto ''/x/reboot.cgi'', Finished])
         else (c1\<lparr>inner_html := html (inner_html c1 @ [LF] @ ''--- finished ---'' @ [LF])\<rparr>, [Finished]))"

definition streamCommand :: "string \<Rightarrow> console \<Rightarrow> console \<times> console_effect list" where
  "streamCommand url c =
     (if url = [] \<or> commandInFlight c then (c, []) else (c\<lparr>commandInFlight := True\<rparr>, [Fetch url]))"

text \<open>
  How the response of the stream ends: the fetch fails, the server refuses, or the body delivers chunks
  until it is done or breaks off (the lines that were complete by then have been rendered).
\<close>

datatype stream_outcome = NoAnswer | RefusedBy int string | Body "string list" | Broken "(string \<times> string) list"

definition streamCommand_settle :: "(string \<Rightarrow> string) \<Rightarrow> stream_outcome \<Rightarrow> console \<Rightarrow> console \<times> console_effect list" where
  "streamCommand_settle html out c =
     finalizeStream html
       (case out of
          NoAnswer \<Rightarrow> c
        | RefusedBy st statusText \<Rightarrow>
            c\<lparr>inner_html := html (''Error: server returned '' @ show_int st @ '' '' @ statusText @ [LF])\<rparr>
        | Body chunks \<Rightarrow> c\<lparr>inner_html := fold (put_line html) (makeLineIterator chunks) (inner_html c)\<rparr>
        | Broken ls \<Rightarrow> c\<lparr>inner_html := fold (put_line html) ls (inner_html c)\<rparr>)"

record start_options =
  o_stream :: string
  o_encoded :: string
  o_reboot :: "bool option"

definition or_else :: "string \<Rightarrow> string \<Rightarrow> string" where
  "or_else a b = (if a = [] then b else a)"

definition startStreaming :: "(string \<Rightarrow> string) \<Rightarrow> string \<Rightarrow> start_options \<Rightarrow> console \<Rightarrow> console \<times> console_effect list" where
  "startStreaming html command opts c =
     (if commandInFlight c then (c, [])
      else
        let streamOverride = or_else (o_stream opts) (data_stream c);
            encodedOverride = or_else (o_encoded opts) (data_encoded c);
            resolvedCommand = or_else command (data_cmd c);
            plan = (if streamOverride \<noteq> [] then Some (streamOverride, [])
                    else if encodedOverride \<noteq> [] then Some (''/x/run.cgi?cmd='' @ encodedOverride, encodedOverride)
                    else if resolvedCommand \<noteq> []
                    then Some (''/x/run.cgi?cmd='' @ btoa resolvedCommand, btoa resolvedCommand)
                    else None)
        in case plan of
             None \<Rightarrow> (c, [])
           | Some (streamUrl, encodedValue) \<Rightarrow>
               let c1 = (case o_reboot opts of
                           Some b \<Rightarrow> c\<lparr>data_reboot := (if b then ''true'' else ''false'')\<rparr>
                         | None \<Rightarrow> c);
                   c2 = c1\<lparr>data_cmd := resolvedCommand, data_stream := streamOverride,
                           data_encoded := encodedValue, inner_html := html []\<rparr>;
                   (c3, fx) = streamCommand streamUrl c2
               in (c3, Started resolvedCommand # fx))"

text \<open>The page load, which starts what the markup names, and the event \<open>thingino:start-command\<close>.\<close>

definition autostart :: "(string \<Rightarrow> string) \<Rightarrow> console \<Rightarrow> console \<times> console_effect list" where
  "autostart html c =
     (if data_cmd c \<noteq> [] \<or> data_stream c \<noteq> [] \<or> data_encoded c \<noteq> []
      then startStreaming html (data_cmd c) \<lparr>o_stream = data_stream c, o_encoded = data_encoded c, o_reboot = None\<rparr> c
      else (c, []))"

definition start_command :: "(string \<Rightarrow> string) \<Rightarrow> string \<Rightarrow> start_options \<Rightarrow> console \<Rightarrow> console \<times> console_effect list" where
  "start_command html cmd opts c =
     (let c1 = (case o_reboot opts of
                  Some b \<Rightarrow> c\<lparr>data_reboot := (if b then ''true'' else ''false'')\<rparr>
                | None \<Rightarrow> c)
      in if cmd \<noteq> [] \<or> o_stream opts \<noteq> [] \<or> o_encoded opts \<noteq> [] then startStreaming html cmd opts c1 else (c1, []))"

section \<open>Lemmas\<close>

subsection \<open>The reference splitting\<close>

fun lines_of :: "string \<Rightarrow> (string \<times> string) list" where
  "lines_of [] = []"
| "lines_of (c # s) =
     (if c = LF then ([], [LF]) # lines_of s
      else if c = CR then
        (case s of
           [] \<Rightarrow> [([], [CR])]
         | d # r \<Rightarrow> if d = LF then ([], [CR, LF]) # lines_of r else ([], [CR]) # lines_of s)
      else (case lines_of s of
              [] \<Rightarrow> [([c], [])]
            | (l, e) # ls \<Rightarrow> (c # l, e) # ls))"

fun no_cut :: "string list \<Rightarrow> bool" where
  "no_cut [] = True"
| "no_cut (c # rs) \<longleftrightarrow> \<not> (c \<noteq> [] \<and> last c = CR \<and> starts_with (concat rs) [LF]) \<and> no_cut rs"

definition is_eol :: "char \<Rightarrow> bool" where
  "is_eol c \<longleftrightarrow> c = CR \<or> c = LF"

lemma eol_None: "eol s = None \<longleftrightarrow> (\<forall>c \<in> set s. \<not> is_eol c)"
  by (induction s) (auto simp: is_eol_def)

lemma lines_plain: "(\<forall>c \<in> set s. \<not> is_eol c) \<Longrightarrow> lines_of s = (if s = [] then [] else [(s, [])])"
  by (induction s) (auto simp: is_eol_def)

lemma eol_ending:
  assumes "eol s = Some (i, e)"
  shows "(\<forall>c \<in> set (take i s). \<not> is_eol c) \<and>
    (e = [LF] \<or> e = [CR, LF] \<or> e = [CR] \<and> \<not> starts_with (drop (Suc i) s) [LF])"
  using assms
proof (induction s arbitrary: i e)
  case (Cons c s)
  then show ?case by (auto simp: is_eol_def split: if_splits)
qed simp

lemma lines_prefix:
  "(\<forall>c \<in> set l. \<not> is_eol c) \<Longrightarrow> lines_of (l @ LF # t) = (l, [LF]) # lines_of t"
  "(\<forall>c \<in> set l. \<not> is_eol c) \<Longrightarrow> lines_of (l @ CR # LF # t) = (l, [CR, LF]) # lines_of t"
  "(\<forall>c \<in> set l. \<not> is_eol c) \<Longrightarrow> \<not> starts_with t [LF] \<Longrightarrow> lines_of (l @ CR # t) = (l, [CR]) # lines_of t"
  by (induction l) (auto simp: is_eol_def split: list.splits)

lemma line_loop_None:
  assumes "re_exec chunk st = None"
  shows "line_loop chunk st d rs =
       (if d then (if st < length chunk then [(drop st chunk, [])] else [])
        else case rs of [] \<Rightarrow> line_loop (drop st chunk) 0 True []
             | c # rs' \<Rightarrow> line_loop (drop st chunk @ c) 0 False rs')"
  unfolding line_loop.simps [of chunk st d rs] assms option.case ..

lemma line_loop_Some:
  assumes "re_exec chunk st = Some (i, e)"
  shows "line_loop chunk st d rs = (substring chunk st i, e) # line_loop chunk (i + length e) d rs"
  unfolding line_loop.simps [of chunk st d rs] assms option.case prod.case ..

text \<open>What one match says of the text that is still to be read.\<close>

lemma re_exec_SomeE:
  assumes "re_exec chunk st = Some (i, e)"
  obtains k where "eol (drop st chunk) = Some (k, e)" "i = st + k" "substring chunk st i = take k (drop st chunk)"
    "drop st chunk = substring chunk st i @ e @ drop (i + length e) chunk"
proof -
  from assms obtain k where k: "eol (drop st chunk) = Some (k, e)" "i = st + k" by (auto simp: re_exec_def)
  have "substring chunk st i = take k (drop st chunk)" using k(2) by (simp add: substring_def)
  moreover have "drop (k + length e) (drop st chunk) = drop (i + length e) chunk" using k(2) by (simp add: add_ac)
  moreover note conjunct1 [OF eol_Some [OF k(1)]]
  ultimately show ?thesis using that k by metis
qed

text \<open>Lines and endings put together again give the text, however it was cut.\<close>

definition unlines_of :: "(string \<times> string) list \<Rightarrow> string" where
  "unlines_of ls = concat (map (\<lambda>le. fst le @ snd le) ls)"

lemma unlines_simps [simp]: "unlines_of [] = []" "unlines_of (le # ls) = fst le @ snd le @ unlines_of ls"
  by (simp_all add: unlines_of_def)

lemma line_loop_lossless:
  "d \<longrightarrow> rs = [] \<Longrightarrow> unlines_of (line_loop chunk st d rs) = drop st chunk @ concat rs"
proof (induction chunk st d rs rule: line_loop.induct)
  case (1 chunk st d rs)
  show ?case
  proof (cases "re_exec chunk st")
    case None
    show ?thesis
    proof (cases d)
      case True
      with None "1.prems" show ?thesis by (simp add: line_loop_None)
    next
      case False
      then show ?thesis
        using "1.IH"(1) [OF None False] "1.IH"(2) [OF None False] None
        by (cases rs) (simp_all add: line_loop_None)
    qed
  next
    case (Some p)
    then obtain i e where p: "p = (i, e)" "re_exec chunk st = Some (i, e)" by (cases p) auto
    from p(2) obtain k where "drop st chunk = substring chunk st i @ e @ drop (i + length e) chunk"
      by (rule re_exec_SomeE)
    then have parts: "substring chunk st i @ e @ drop (i + length e) chunk = drop st chunk" by (rule sym)
    have "unlines_of (line_loop chunk (i + length e) d rs) = drop (i + length e) chunk @ concat rs"
      using "1.IH"(3) [OF Some p(1) [symmetric] "1.prems"] .
    then have "unlines_of (line_loop chunk st d rs) =
        (substring chunk st i @ e @ drop (i + length e) chunk) @ concat rs"
      by (simp add: line_loop_Some [OF p(2)])
    then show ?thesis unfolding parts .
  qed
qed

lemma no_cut_join:
  assumes "no_cut (chunk # c # rs)" "\<forall>x \<in> set w. \<not> is_eol x" shows "no_cut ((w @ c) # rs)"
proof (cases "c = []")
  case True
  have "last w \<noteq> CR" if "w \<noteq> []"
    using assms(2) last_in_set [OF that] unfolding is_eol_def by blast
  then show ?thesis using True assms(1) by (cases "w = []") simp_all
qed (use assms(1) in simp)

lemma starts_LF_append: "starts_with (s @ t) [LF] \<longleftrightarrow> starts_with s [LF] \<or> s = [] \<and> starts_with t [LF]"
  by (cases s) auto

lemma re_exec_None: "re_exec chunk st = None \<longleftrightarrow> (\<forall>x \<in> set (drop st chunk). \<not> is_eol x)"
  by (simp add: re_exec_def eol_None)

lemma drop_one_last:
  assumes "drop st chunk = l @ [x]" shows "chunk \<noteq> [] \<and> last chunk = x"
  using assms last_drop [of st chunk] by (cases "st < length chunk") auto

lemma line_loop_match:
  assumes "re_exec chunk st = Some (i, e)" "no_cut (chunk # rs)"
  shows "lines_of (drop st chunk @ concat rs) =
    (substring chunk st i, e) # lines_of (drop (i + length e) chunk @ concat rs)"
proof -
  from assms(1) obtain k where k: "eol (drop st chunk) = Some (k, e)" "i = st + k"
      "substring chunk st i = take k (drop st chunk)"
      "drop st chunk = substring chunk st i @ e @ drop (i + length e) chunk"
    by (rule re_exec_SomeE)
  let ?l = "substring chunk st i" and ?t = "drop (i + length e) chunk @ concat rs"
  from eol_ending [OF k(1)] have l: "\<forall>c \<in> set ?l. \<not> is_eol c"
    and e: "e = [LF] \<or> e = [CR, LF] \<or> e = [CR] \<and> \<not> starts_with (drop (Suc k) (drop st chunk)) [LF]"
    by (simp_all add: k(3))
  have whole: "drop st chunk @ concat rs = ?l @ e @ ?t" using k(4) by (metis append_assoc)
  from e consider "e = [LF]" | "e = [CR, LF]" | "e = [CR]" "\<not> starts_with (drop (Suc k) (drop st chunk)) [LF]" by blast
  then show ?thesis
  proof cases
    case 1
    then show ?thesis using lines_prefix(1) [OF l, of ?t] by (simp add: whole)
  next
    case 2
    then show ?thesis using lines_prefix(2) [OF l, of ?t] by (simp add: whole)
  next
    case 3
    have "\<not> starts_with ?t [LF]"
    proof (cases "drop (i + length e) chunk = []")
      case True
      then have "drop st chunk = ?l @ [CR]" using k(4) 3(1) by simp
      then have "chunk \<noteq> [] \<and> last chunk = CR" by (rule drop_one_last)
      then show ?thesis using assms(2) True by simp
    next
      case False
      then show ?thesis using 3 k(2) by (simp add: starts_LF_append drop_drop add_ac)
    qed
    then show ?thesis using lines_prefix(3) [OF l, of ?t] 3(1) by (simp add: whole)
  qed
qed

lemma line_loop_lines:
  "d \<longrightarrow> rs = [] \<Longrightarrow> no_cut (chunk # rs) \<Longrightarrow> line_loop chunk st d rs = lines_of (drop st chunk @ concat rs)"
proof (induction chunk st d rs rule: line_loop.induct)
  case (1 chunk st d rs)
  show ?case
  proof (cases "re_exec chunk st")
    case None
    then have plain: "\<forall>x \<in> set (drop st chunk). \<not> is_eol x" by (simp add: re_exec_None)
    have nil: "no_cut [drop st chunk]" by simp
    show ?thesis
    proof (cases d)
      case True
      with None plain "1.prems"(1) show ?thesis by (simp add: line_loop_None lines_plain)
    next
      case False
      then show ?thesis
        using "1.IH"(1) [OF None False] "1.IH"(2) [OF None False] "1.prems"(2) None nil
          no_cut_join [OF _ plain, of chunk]
        by (cases rs) (simp_all add: line_loop_None)
    qed
  next
    case (Some p)
    then obtain i e where p: "p = (i, e)" "re_exec chunk st = Some (i, e)" by (cases p) auto
    then show ?thesis
      using "1.IH"(3) [OF Some p(1) [symmetric]] "1.prems" line_loop_match [OF p(2)]
      by (simp add: line_loop_Some [OF p(2)])
  qed
qed

lemma iterator_lines: "no_cut reads \<Longrightarrow> makeLineIterator reads = lines_of (concat reads)"
  unfolding makeLineIterator_def
  by (cases reads) (simp_all add: line_loop_lines [where st = 0, simplified])

lemma iterator_lossless: "unlines_of (makeLineIterator reads) = concat reads"
  unfolding makeLineIterator_def
  by (cases reads) (simp_all add: line_loop_lossless [where st = 0, simplified])

lemma no_cut_LF: "CR \<notin> set (concat reads) \<Longrightarrow> no_cut reads"
proof (induction reads)
  case (Cons c rs)
  then have "CR \<notin> set c" "no_cut rs" by simp_all
  then show ?case by (metis last_in_set no_cut.simps(2))
qed simp

subsection \<open>Plain text\<close>

text \<open>
  Text that is its own HTML: no markup, no escape, no carriage return, and none of the characters that
  the serialisation rewrites. \<open>html_plain\<close> is what the HTML standard says of such text.
\<close>

definition plain_char :: "char \<Rightarrow> bool" where
  "plain_char c \<longleftrightarrow> c \<notin> {CHR ''<'', CHR ''>'', CHR ''&'', CHR 0x1B, CR, CHR 0x00, CHR 0xA0}"

definition plain_text :: "string \<Rightarrow> bool" where
  "plain_text s \<longleftrightarrow> list_all plain_char s"

definition html_plain :: "(string \<Rightarrow> string) \<Rightarrow> bool" where
  "html_plain html \<longleftrightarrow> (\<forall>s. plain_text s \<longrightarrow> html s = s)"

lemma plain_simps [simp]:
  "plain_text []" "plain_text (c # s) \<longleftrightarrow> plain_char c \<and> plain_text s"
  "plain_text (s @ t) \<longleftrightarrow> plain_text s \<and> plain_text t" "plain_char LF"
  by (simp_all add: plain_text_def plain_char_def)

lemma plain_finished: "plain_text ''--- finished ---''"
  by (simp add: plain_char_def)

lemma plain_not: "plain_text s \<Longrightarrow> CHR 0x1B \<notin> set s \<and> CR \<notin> set s"
  by (auto simp: plain_text_def plain_char_def list_all_iff)

lemma html_plainD: "html_plain html \<Longrightarrow> plain_text s \<Longrightarrow> html s = s"
  by (simp add: html_plain_def)

lemma open_spans_plain: "CHR 0x1B \<notin> set s \<Longrightarrow> open_spans s = s"
  by (induction s) (auto simp: ansi_colour_def starts_with_def)

lemma close_spans_plain: "CHR 0x1B \<notin> set s \<Longrightarrow> close_spans s = s"
  by (induction s) (auto simp: starts_with_def)

lemma ansi_line_plain: "CHR 0x1B \<notin> set s \<Longrightarrow> ansi_line s = s"
  by (simp add: ansi_line_def open_spans_plain close_spans_plain)

lemma put_line_plain:
  assumes "html_plain html" "plain_text (inner @ l)" "e \<noteq> [CR]"
  shows "put_line html (l, e) inner = inner @ l @ [LF]"
proof -
  have "ansi_line l = l" using assms(2) plain_not [of l] by (simp add: ansi_line_plain)
  moreover have "html (inner @ l @ [LF]) = inner @ l @ [LF]"
    using assms by (intro html_plainD) simp_all
  ultimately show ?thesis using assms(3) by (simp add: put_line_def)
qed

definition closing_LF :: "string \<Rightarrow> string" where
  "closing_LF t = (if t = [] \<or> last t = LF then [] else [LF])"

lemma lines_of_eq_Nil: "lines_of t = [] \<longleftrightarrow> t = []"
  by (cases t) (auto split: list.splits prod.splits)

lemma lines_no_CR: "CR \<notin> set t \<Longrightarrow> list_all (\<lambda>le. snd le \<noteq> [CR]) (lines_of t)"
proof (induction t)
  case (Cons c t)
  then have "c \<noteq> CR" "list_all (\<lambda>le. snd le \<noteq> [CR]) (lines_of t)" by auto
  then show ?case by (auto split: list.splits prod.splits)
qed simp

lemma render_plain:
  "html_plain html \<Longrightarrow> plain_text (inner @ t) \<Longrightarrow>
     fold (put_line html) (lines_of t) inner = inner @ t @ closing_LF t"
proof (induction t arbitrary: inner)
  case Nil
  then show ?case by (simp add: closing_LF_def)
next
  case (Cons c t)
  have pl: "plain_char c" "plain_text t" "plain_text inner" using Cons.prems(2) by simp_all
  then have c: "c \<noteq> CR" "CR \<notin> set t" using plain_not [of t] by (auto simp: plain_char_def)
  show ?case
  proof (cases "c = LF")
    case True
    have "fold (put_line html) (lines_of t) (inner @ [LF]) = (inner @ [LF]) @ t @ closing_LF t"
      using Cons.prems(1) pl by (intro Cons.IH) simp_all
    then show ?thesis
      using True pl Cons.prems(1) by (simp add: put_line_plain closing_LF_def)
  next
    case False
    have IH: "fold (put_line html) (lines_of t) (inner @ [c]) = (inner @ [c]) @ t @ closing_LF t"
      using Cons.prems(1) pl by (intro Cons.IH) simp_all
    show ?thesis
    proof (cases "lines_of t")
      case Nil
      then have "t = []" by (simp add: lines_of_eq_Nil)
      then show ?thesis using False c pl Cons.prems(1) by (simp add: put_line_plain closing_LF_def)
    next
      case (Cons le ls)
      obtain l e where le: "le = (l, e)" by (cases le)
      have "e \<noteq> [CR]" using lines_no_CR [OF c(2)] Cons le by simp
      moreover have "plain_text l"
      proof -
        have "unlines_of (lines_of t) = t"
          using iterator_lossless [of "[t]"] iterator_lines [of "[t]"] by simp
        then show ?thesis using pl(2) Cons le by auto
      qed
      moreover have "t \<noteq> []" using Cons by auto
      ultimately show ?thesis
        using IH False c pl Cons le \<open>html_plain html\<close>
        by (simp add: put_line_plain closing_LF_def)
    qed
  qed
qed

subsection \<open>One command at a time\<close>

datatype console_event = Start string start_options | StreamEnd stream_outcome

definition console_step :: "(string \<Rightarrow> string) \<Rightarrow> console_event \<Rightarrow> console \<Rightarrow> console \<times> console_effect list" where
  "console_step html ev c =
     (case ev of
        Start cmd opts \<Rightarrow> start_command html cmd opts c
      | StreamEnd out \<Rightarrow> if commandInFlight c then streamCommand_settle html out c else (c, []))"

fun console_run :: "(string \<Rightarrow> string) \<Rightarrow> console_event list \<Rightarrow> console \<Rightarrow> console \<times> console_effect list" where
  "console_run html [] c = (c, [])"
| "console_run html (ev # evs) c =
     (let (c1, fx) = console_step html ev c; (c2, gx) = console_run html evs c1 in (c2, fx @ gx))"

fun is_fetch :: "console_effect \<Rightarrow> bool" where
  "is_fetch (Fetch _) = True"
| "is_fetch _ = False"

definition count_of :: "(console_effect \<Rightarrow> bool) \<Rightarrow> console_effect list \<Rightarrow> nat" where
  "count_of P fx = length (filter P fx)"

lemma count_of_append [simp]: "count_of P (fx @ gx) = count_of P fx + count_of P gx"
  by (simp add: count_of_def)

definition running :: "console \<Rightarrow> nat" where
  "running c = (if commandInFlight c then 1 else 0)"

lemma start_balance:
  "running (fst (startStreaming html cmd opts c)) = running c + count_of is_fetch (snd (startStreaming html cmd opts c)) \<and>
   count_of ((=) Finished) (snd (startStreaming html cmd opts c)) = 0"
  by (simp add: startStreaming_def streamCommand_def running_def count_of_def Let_def split: option.splits)

lemma reboot_flag [simp]: "running (c\<lparr>data_reboot := b\<rparr>) = running c"
  by (simp add: running_def)

lemma step_balance:
  "running c + count_of is_fetch (snd (console_step html ev c)) =
     running (fst (console_step html ev c)) + count_of ((=) Finished) (snd (console_step html ev c))"
proof (cases ev)
  case (Start cmd opts)
  then show ?thesis
    using start_balance [of html cmd opts c]
      start_balance [of html cmd opts "c\<lparr>data_reboot := ''true''\<rparr>"]
      start_balance [of html cmd opts "c\<lparr>data_reboot := ''false''\<rparr>"]
    by (simp add: console_step_def start_command_def count_of_def Let_def split: option.splits)
next
  case (StreamEnd out)
  then show ?thesis
    by (simp add: console_step_def streamCommand_settle_def finalizeStream_def running_def count_of_def Let_def
        split: stream_outcome.splits)
qed

lemma run_balance:
  "running c + count_of is_fetch (snd (console_run html evs c)) =
     running (fst (console_run html evs c)) + count_of ((=) Finished) (snd (console_run html evs c))"
proof (induction evs arbitrary: c)
  case (Cons ev evs)
  then show ?case
    using step_balance [of c html ev] Cons.IH [of "fst (console_step html ev c)"]
    unfolding console_run.simps Let_def split_def fst_conv snd_conv count_of_append by linarith
qed (simp add: count_of_def)

subsection \<open>What stays on the element\<close>

lemma start_keeps_encoded:
  assumes "\<not> commandInFlight c" "data_stream c = []" "data_encoded c = []" "cmd \<noteq> []"
    and "o_stream opts = []" "o_encoded opts = []"
  shows "data_encoded (fst (start_command html cmd opts c)) = btoa cmd \<and>
    data_stream (fst (start_command html cmd opts c)) = []"
  using assms by (cases "o_reboot opts")
    (simp_all add: start_command_def startStreaming_def streamCommand_def or_else_def Let_def)

lemma settle_data:
  "data_encoded (fst (streamCommand_settle html out c)) = data_encoded c"
  "data_stream (fst (streamCommand_settle html out c)) = data_stream c"
  "\<not> commandInFlight (fst (streamCommand_settle html out c))"
  by (cases out; simp add: streamCommand_settle_def finalizeStream_def Let_def)+

lemma start_uses_encoded:
  assumes "\<not> commandInFlight c" "data_stream c = []" "data_encoded c \<noteq> []" "cmd \<noteq> []"
    and "o_stream opts = []" "o_encoded opts = []"
  shows "snd (start_command html cmd opts c) = [Started cmd, Fetch (''/x/run.cgi?cmd='' @ data_encoded c)]"
  using assms by (cases "o_reboot opts")
    (simp_all add: start_command_def startStreaming_def streamCommand_def or_else_def Let_def)

section \<open>Properties\<close>



text \<open>
  The line iterator loses and invents nothing, however the stream is cut: the yielded lines and
  endings, put together in order, are the received text; and a cut inside a CR LF pair only turns the
  pair into two endings with an empty line between them.\<close>

theorem iterator_loses_nothing:
  "unlines_of (makeLineIterator reads) = concat reads \<and>
   makeLineIterator [[CHR ''a'', CR], [LF]] = [(''a'', [CR]), ([], [LF])] \<and>
   makeLineIterator [[CHR ''a'', CR, LF]] = [(''a'', [CR, LF])]"
proof (intro conjI)
  show "makeLineIterator [[CHR ''a'', CR], [LF]] = [(''a'', [CR]), ([], [LF])]"
    by (simp add: makeLineIterator_def line_loop.simps re_exec_def substring_def)
  show "makeLineIterator [[CHR ''a'', CR, LF]] = [(''a'', [CR, LF])]"
    by (simp add: makeLineIterator_def line_loop.simps re_exec_def substring_def)
qed (rule iterator_lossless)


definition idle_console :: console where
  "idle_console = \<lparr>commandInFlight = False, inner_html = [], data_reboot = ''false'', data_cmd = [],
     data_stream = [], data_encoded = []\<rparr>"


text \<open>
  One command at a time: along every sequence of start events and stream ends, the number of streams
  fetched is the number of streams finished, plus one exactly while a command is in flight.\<close>

theorem one_command_at_a_time:
  "\<not> commandInFlight c \<Longrightarrow>
   count_of is_fetch (snd (console_run html evs c)) =
     count_of ((=) Finished) (snd (console_run html evs c)) +
     (if commandInFlight (fst (console_run html evs c)) then 1 else 0)"
  using run_balance [of c html evs] by (simp add: running_def)

theorem one_command_at_a_time_witness:
  "let r = console_run (\<lambda>s. s)
       [Start ''ls'' \<lparr>o_stream = [], o_encoded = [], o_reboot = None\<rparr>, StreamEnd NoAnswer] idle_console
   in count_of is_fetch (snd r) = count_of ((=) Finished) (snd r) + (if commandInFlight (fst r) then 1 else 0)"
  unfolding Let_def by (rule one_command_at_a_time) (simp add: idle_console_def)

text \<open>
  A command reaches the camera as it was given: on an idle console that names no other stream, the
  request carries a Base64 value from which the camera recovers the command.\<close>

theorem command_transmitted:
  assumes "\<not> commandInFlight c" "data_stream c = []" "data_encoded c = []" "cmd \<noteq> []"
    and "o_stream opts = []" "o_encoded opts = []"
  shows "\<exists>v. Fetch (''/x/run.cgi?cmd='' @ v) \<in> set (snd (start_command html cmd opts c)) \<and> atob v = Some cmd"
  using assms
  by (intro exI [of _ "btoa cmd"])
    (simp add: start_command_def startStreaming_def streamCommand_def or_else_def atob_btoa Let_def split: option.splits)

theorem command_transmitted_witness:
  "\<exists>v. Fetch (''/x/run.cgi?cmd='' @ v) \<in>
       set (snd (start_command (\<lambda>s. s) ''ls'' \<lparr>o_stream = [], o_encoded = [], o_reboot = None\<rparr> idle_console)) \<and>
     atob v = Some ''ls''"
  by (rule command_transmitted) (simp_all add: idle_console_def)

text \<open>
  A second command repeats the first: after a command given by its text has run, a start event with
  another command (and neither a stream nor an encoded form) announces the new command and fetches the
  old one, since the encoded form of the first stays on the element and takes precedence.\<close>

theorem second_command_repeats_first:
  assumes "\<not> commandInFlight c" "data_stream c = []" "data_encoded c = []" "first \<noteq> []" "second \<noteq> []"
    and "o_stream opts = []" "o_encoded opts = []"
  shows "let c1 = fst (start_command html first opts c); c2 = fst (streamCommand_settle html out c1)
         in snd (start_command html second opts c2) = [Started second, Fetch (''/x/run.cgi?cmd='' @ btoa first)]"
  using start_keeps_encoded [of c first opts html] assms
  by (simp add: Let_def start_uses_encoded settle_data btoa_Nil_iff)

theorem second_command_repeats_first_witness:
  "let opts = \<lparr>o_stream = [], o_encoded = [], o_reboot = Some False\<rparr>;
       c1 = fst (start_command (\<lambda>s. s) ''one'' opts idle_console);
       c2 = fst (streamCommand_settle (\<lambda>s. s) (Body []) c1)
   in snd (start_command (\<lambda>s. s) ''two'' opts c2) = [Started ''two'', Fetch (''/x/run.cgi?cmd='' @ btoa ''one'')]"
  using second_command_repeats_first [of idle_console "''one''" "''two''"
      "\<lparr>o_stream = [], o_encoded = [], o_reboot = Some False\<rparr>" "\<lambda>s. s" "Body []"]
  by (simp add: idle_console_def Let_def)

text \<open>A line that follows a carriage return does not replace the progress text: a line ended by CR takes
  the place of the last line, and the next line, ended by a newline, is appended to it on the same line.\<close>

theorem newline_after_cr_appends:
  assumes "html_plain html" "plain_text (inner @ a @ b)" "LF \<notin> set a"
  shows "put_line html (b, [LF]) (put_line html (a, [CR]) (inner @ [LF])) = inner @ [LF] @ a @ b @ [LF]"
proof -
  have "plain_text inner" "plain_text a" "plain_text b" using assms(2) by simp_all
  moreover have "butlast (split_on LF (inner @ [LF])) = split_on LF inner" by (simp add: split_on_snoc)
  moreover have "join_with [LF] (split_on LF inner @ [a]) = inner @ [LF] @ a"
  proof -
    have "join_with [LF] (ws @ [a]) = join_with [LF] ws @ [LF] @ a" if "ws \<noteq> []" for ws
      using that by (induction ws rule: induct_list012) simp_all
    then show ?thesis by simp
  qed
  ultimately have "put_line html (a, [CR]) (inner @ [LF]) = inner @ [LF] @ a"
    using assms(1) plain_not [of a] by (simp add: put_line_def ansi_line_plain html_plainD)
  then show ?thesis
    using assms(1,2) by (simp add: put_line_plain)
qed

theorem newline_after_cr_appends_witness:
  "put_line (\<lambda>s. s) (''done'', [LF]) (put_line (\<lambda>s. s) (''90%'', [CR]) (''start'' @ [LF])) =
     ''start'' @ [LF] @ ''90%done'' @ [LF]"
  using newline_after_cr_appends [of "\<lambda>s. s" "''start''" "''90%''" "''done''"]
  by (simp add: html_plain_def plain_char_def)

end
