(* ===== verification/Confirm.thy ===== *)
theory Confirm
  imports Dom
begin

text \<open>
  The confirmation system of \<open>main.js\<close>: the options of a dialog, the one modal all dialogs share and the
  promises they resolve (\<open>showConfirmDialog\<close>), the binding of confirmable elements
  (\<open>attachConfirmTrigger\<close>, \<open>scanConfirmTriggers\<close>, \<open>scheduleConfirmScan\<close>) and the bypass protocol that
  repeats a confirmed click or submit (\<open>handleConfirmableClick\<close>, \<open>handleConfirmableSubmit\<close>).
\<close>

section \<open>Options\<close>

record confirm_options =
  title :: js
  c_message :: js
  confirmLabel :: js
  cancelLabel :: js
  intent :: js

definition ConfirmDefaults :: confirm_options where
  "ConfirmDefaults =
     \<lparr>title = JStr ''Confirm action'', c_message = JStr ''Are you sure you want to continue?'',
      confirmLabel = JStr ''Continue'', cancelLabel = JStr ''Cancel'', intent = JStr ''danger''\<rparr>"

text \<open>\<open>assignFrom(source)\<close>: a text is the message, an object gives its truthy fields.\<close>

definition assignFrom :: "js \<Rightarrow> confirm_options \<Rightarrow> confirm_options" where
  "assignFrom source n =
     (if \<not> truthy source then n
      else if is_str source then n\<lparr>c_message := source\<rparr>
      else if \<not> is_object source then n
      else \<lparr>title = js_or (getp source ''title'') (title n),
            c_message = js_or (getp source ''message'') (c_message n),
            confirmLabel = js_or (getp source ''confirmLabel'') (confirmLabel n),
            cancelLabel = js_or (getp source ''cancelLabel'') (cancelLabel n),
            intent = js_or (getp source ''intent'') (intent n)\<rparr>)"

definition normalizeConfirmOptions :: "js \<Rightarrow> js \<Rightarrow> confirm_options" where
  "normalizeConfirmOptions messageOrOptions extraOptions =
     (let n = assignFrom extraOptions (assignFrom messageOrOptions ConfirmDefaults)
      in n\<lparr>c_message := js_or (c_message n) (c_message ConfirmDefaults)\<rparr>)"

text \<open>The class of the confirm button; a truthy intent that is not a text has no \<open>toLowerCase\<close> and throws.\<close>

definition resolveConfirmIntentClass :: "js \<Rightarrow> string option" where
  "resolveConfirmIntentClass i =
     (case js_or i (intent ConfirmDefaults) of
        JStr s \<Rightarrow>
          Some (if to_lower s = ''warning'' then ''btn-warning''
                else if to_lower s = ''success'' then ''btn-success''
                else if to_lower s = ''primary'' then ''btn-primary'' else ''btn-danger'')
      | _ \<Rightarrow> None)"

text \<open>The options an element carries in its \<open>data-\<close> attributes.\<close>

definition data_text :: "(string \<rightharpoonup> string) \<Rightarrow> string \<Rightarrow> string" where
  "data_text dataset k = (case dataset k of Some s \<Rightarrow> s | None \<Rightarrow> [])"

definition first_text :: "string \<Rightarrow> string list \<Rightarrow> (string \<times> js) list" where
  "first_text key candidates =
     (case filter (\<lambda>s. s \<noteq> []) candidates of s # _ \<Rightarrow> [(key, JStr s)] | [] \<Rightarrow> [])"

definition getElementConfirmOptions :: "(string \<rightharpoonup> string) \<Rightarrow> js" where
  "getElementConfirmOptions dataset =
     (let d = data_text dataset
      in JObj (first_text ''message'' [d ''confirmMessage'', d ''confirm''] @
               first_text ''title'' [d ''confirmTitle''] @
               first_text ''intent'' [d ''confirmIntent''] @
               first_text ''confirmLabel'' [d ''confirmConfirm'', d ''confirmAction''] @
               first_text ''cancelLabel'' [d ''confirmCancel'']))"

definition isSubmitControl :: "string \<Rightarrow> string \<Rightarrow> bool" where
  "isSubmitControl tag type_attr =
     (let t = to_lower type_attr
      in if tag = ''BUTTON'' then t = [] \<or> t = ''submit''
         else if tag = ''INPUT'' then t = ''submit'' \<or> t = ''image'' else False)"

section \<open>The dialog\<close>

text \<open>
  All dialogs share one modal. \<open>listening\<close> are the dialogs whose listeners are on the modal's buttons (a
  dialog is finished exactly when it has removed them), \<open>answers\<close> the promises resolved so far,
  \<open>hiding\<close> says that the framework was told to hide the modal and has not yet sent its hidden event.
  A dialog whose intent makes \<open>resolveConfirmIntentClass\<close> throw never opens.
\<close>

record confirm_modal =
  shown_title :: js
  shown_message :: js
  shown_confirm :: js
  shown_cancel :: js
  confirm_class :: string
  listening :: "nat list"
  answers :: "(nat \<times> bool) list"
  next_dialog :: nat
  is_shown :: bool
  hiding :: bool

definition finalize :: "bool \<Rightarrow> bool \<Rightarrow> nat \<Rightarrow> confirm_modal \<Rightarrow> confirm_modal" where
  "finalize bootstrap result n m =
     (if n \<notin> set (listening m) then m
      else m\<lparr>listening := filter (\<lambda>k. k \<noteq> n) (listening m),
             hiding := (if bootstrap then True else hiding m),
             is_shown := (if bootstrap then is_shown m else False),
             answers := answers m @ [(n, result)]\<rparr>)"

text \<open>Assigning the texts comes first, so a throwing intent leaves them changed and rejects.\<close>

definition showConfirmDialog :: "confirm_options \<Rightarrow> confirm_modal \<Rightarrow> confirm_modal" where
  "showConfirmDialog opts m =
     (let m1 = m\<lparr>shown_title := js_or (title opts) (title ConfirmDefaults),
                 shown_message := js_or (c_message opts) (c_message ConfirmDefaults),
                 shown_confirm := js_or (confirmLabel opts) (confirmLabel ConfirmDefaults),
                 shown_cancel := js_or (cancelLabel opts) (cancelLabel ConfirmDefaults)\<rparr>
      in case resolveConfirmIntentClass (intent opts) of
           None \<Rightarrow> m1
         | Some c \<Rightarrow> m1\<lparr>confirm_class := ''btn '' @ c, listening := listening m @ [next_dialog m],
                         next_dialog := Suc (next_dialog m), is_shown := True\<rparr>)"

definition thinginoConfirm :: "js \<Rightarrow> js \<Rightarrow> confirm_modal \<Rightarrow> confirm_modal" where
  "thinginoConfirm messageOrOptions extraOptions m =
     showConfirmDialog (normalizeConfirmOptions messageOrOptions extraOptions) m"

text \<open>
  What the user and the framework do to the modal. A click or the hidden event reaches every dialog that
  listens, in the order in which they registered.
\<close>

datatype dialog_event = Ask js js | AcceptClick | CancelClick | CloseClick | ModalHidden

definition finalize_all :: "bool \<Rightarrow> bool \<Rightarrow> confirm_modal \<Rightarrow> confirm_modal" where
  "finalize_all bootstrap result m = fold (finalize bootstrap result) (listening m) m"

definition hideConfirmModalInstant :: "confirm_modal \<Rightarrow> confirm_modal" where
  "hideConfirmModalInstant m = m\<lparr>is_shown := False\<rparr>"

definition dialog_step :: "bool \<Rightarrow> dialog_event \<Rightarrow> confirm_modal \<Rightarrow> confirm_modal" where
  "dialog_step bootstrap ev m =
     (case ev of
        Ask a b \<Rightarrow> thinginoConfirm a b m
      | AcceptClick \<Rightarrow> finalize_all bootstrap True m
      | CancelClick \<Rightarrow> finalize_all bootstrap False m
      | CloseClick \<Rightarrow>
          finalize_all bootstrap False (if bootstrap then m else hideConfirmModalInstant m)
      | ModalHidden \<Rightarrow>
          if bootstrap then finalize_all bootstrap False (m\<lparr>is_shown := False, hiding := False\<rparr>) else m)"

definition fresh_modal :: confirm_modal where
  "fresh_modal =
     \<lparr>shown_title = title ConfirmDefaults, shown_message = c_message ConfirmDefaults,
      shown_confirm = confirmLabel ConfirmDefaults, shown_cancel = cancelLabel ConfirmDefaults,
      confirm_class = ''btn btn-primary'', listening = [], answers = [], next_dialog = 0,
      is_shown = False, hiding = False\<rparr>"

definition dialog_run :: "bool \<Rightarrow> dialog_event list \<Rightarrow> confirm_modal \<Rightarrow> confirm_modal" where
  "dialog_run bootstrap evs m = fold (dialog_step bootstrap) evs m"

section \<open>Lemmas on options and dialogs\<close>

definition all_truthy :: "confirm_options \<Rightarrow> bool" where
  "all_truthy n \<longleftrightarrow> truthy (title n) \<and> truthy (c_message n) \<and> truthy (confirmLabel n) \<and>
     truthy (cancelLabel n) \<and> truthy (intent n)"

lemma assignFrom_truthy: "all_truthy n \<Longrightarrow> all_truthy (assignFrom s n)"
  by (simp add: all_truthy_def assignFrom_def js_or_def)

lemma defaults_truthy: "all_truthy ConfirmDefaults"
  by (simp add: all_truthy_def ConfirmDefaults_def)

lemma first_text_values: "list_all (\<lambda>kv. snd kv \<in> range JStr) (first_text k cs)"
  by (cases "filter (\<lambda>s. s \<noteq> []) cs") (simp_all add: first_text_def)

lemma element_option: "getp (getElementConfirmOptions dataset) k \<in> insert JUndef (range JStr)"
proof -
  have strs: "getp (JObj kvs) k \<in> insert JUndef (range JStr)" if "list_all (\<lambda>kv. snd kv \<in> range JStr) kvs" for kvs
    using that by (induction kvs) (auto split: option.splits)
  show ?thesis
    unfolding getElementConfirmOptions_def Let_def by (rule strs) (simp add: first_text_values)
qed

lemma element_intent: "intent (normalizeConfirmOptions JUndef (getElementConfirmOptions dataset)) \<in> range JStr"
proof -
  have "\<exists>kvs. getElementConfirmOptions dataset = JObj kvs" by (simp add: getElementConfirmOptions_def Let_def)
  then show ?thesis
    using element_option [of dataset "''intent''"]
    by (auto simp: normalizeConfirmOptions_def assignFrom_def js_or_def ConfirmDefaults_def Let_def)
qed

text \<open>Every dialog is open or answered, never both, and answered at most once.\<close>

definition dialog_inv :: "confirm_modal \<Rightarrow> bool" where
  "dialog_inv m \<longleftrightarrow> distinct (listening m) \<and> distinct (map fst (answers m)) \<and>
     set (listening m) \<inter> fst ` set (answers m) = {} \<and>
     set (listening m) \<union> fst ` set (answers m) = {..<next_dialog m}"

lemma finalize_fold:
  assumes "distinct ns"
  shows "let m' = fold (finalize b r) ns (m\<lparr>listening := ns @ rest\<rparr>)
         in set ns \<inter> set rest = {} \<longrightarrow>
            listening m' = rest \<and> answers m' = answers m @ map (\<lambda>n. (n, r)) ns \<and> next_dialog m' = next_dialog m"
  using assms
proof (induction ns arbitrary: m)
  case (Cons n ns)
  have other: "filter (\<lambda>k. k \<noteq> n) xs = xs" if "n \<notin> set xs" for xs
    using that by (auto simp: filter_id_conv)
  have rest: "filter (\<lambda>k. k \<noteq> n) (ns @ rest) = ns @ rest" if "n \<notin> set rest"
    using other [of ns] other [OF that] Cons.prems by simp
  have "finalize b r n (m\<lparr>listening := (n # ns) @ rest\<rparr>) =
      (m\<lparr>hiding := (if b then True else hiding m), is_shown := (if b then is_shown m else False),
         answers := answers m @ [(n, r)]\<rparr>)\<lparr>listening := ns @ rest\<rparr>" if "n \<notin> set rest"
    using rest [OF that] by (simp add: finalize_def)
  then show ?case
    using Cons.IH [of "m\<lparr>hiding := (if b then True else hiding m), is_shown := (if b then is_shown m else False),
        answers := answers m @ [(n, r)]\<rparr>"] Cons.prems
    by (auto simp: Let_def)
qed simp

lemma finalize_all_result:
  assumes "distinct (listening m)"
  shows "listening (finalize_all b r m) = []"
    and "answers (finalize_all b r m) = answers m @ map (\<lambda>n. (n, r)) (listening m)"
    and "next_dialog (finalize_all b r m) = next_dialog m"
  using finalize_fold [OF assms, where b = b and r = r and m = m and rest = "[]"] by (simp_all add: finalize_all_def Let_def)

lemma finalize_all_inv: "dialog_inv m \<Longrightarrow> dialog_inv (finalize_all b r m)"
  by (auto simp: dialog_inv_def finalize_all_result distinct_map inj_on_def image_Un comp_def image_image)

lemma show_dialog_inv: "dialog_inv m \<Longrightarrow> dialog_inv (showConfirmDialog opts m)"
  by (auto simp: dialog_inv_def showConfirmDialog_def Let_def split: option.splits)

lemma dialog_step_inv: "dialog_inv m \<Longrightarrow> dialog_inv (dialog_step b ev m)"
proof (cases ev)
  case CloseClick
  assume "dialog_inv m"
  then have "dialog_inv (hideConfirmModalInstant m)" by (simp add: dialog_inv_def hideConfirmModalInstant_def)
  with \<open>dialog_inv m\<close> CloseClick show ?thesis by (simp add: dialog_step_def finalize_all_inv)
next
  case ModalHidden
  assume "dialog_inv m"
  then have "dialog_inv (m\<lparr>is_shown := False, hiding := False\<rparr>)" by (simp add: dialog_inv_def)
  with \<open>dialog_inv m\<close> ModalHidden show ?thesis by (simp add: dialog_step_def finalize_all_inv)
qed (simp_all add: dialog_step_def finalize_all_inv show_dialog_inv thinginoConfirm_def)

lemma dialog_run_inv: "dialog_inv m \<Longrightarrow> dialog_inv (dialog_run b evs m)"
  unfolding dialog_run_def by (induction evs arbitrary: m) (simp_all add: dialog_step_inv)

lemma fresh_inv: "dialog_inv fresh_modal"
  by (simp add: dialog_inv_def fresh_modal_def)

section \<open>Binding\<close>

text \<open>
  An element as the binding sees it: its identity, the form around it, whether it submits that form, and
  its skip mark. \<open>click_bound\<close> are the click listeners and \<open>submit_bound\<close> the submit listeners
  installed, in order; \<open>submitters\<close> is the map from a form to the controls that need a confirmation.
\<close>

record trigger =
  t_id :: nat
  t_form :: "nat option"
  t_submits :: bool
  t_skip :: string

record confirm_bindings =
  confirmProcessedElements :: "nat set"
  click_bound :: "nat list"
  submit_bound :: "nat list"
  confirmFormSubmitters :: "nat \<Rightarrow> nat set option"
  confirmScanScheduled :: bool

definition bindConfirmClick :: "nat \<Rightarrow> confirm_bindings \<Rightarrow> confirm_bindings" where
  "bindConfirmClick e b = b\<lparr>click_bound := click_bound b @ [e]\<rparr>"

definition bindConfirmFormSubmit :: "nat \<Rightarrow> nat \<Rightarrow> confirm_bindings \<Rightarrow> confirm_bindings" where
  "bindConfirmFormSubmit form e b =
     (let b1 = (case confirmFormSubmitters b form of
                  Some _ \<Rightarrow> b
                | None \<Rightarrow> b\<lparr>confirmFormSubmitters := (confirmFormSubmitters b)(form \<mapsto> {}),
                             submit_bound := submit_bound b @ [form]\<rparr>)
      in b1\<lparr>confirmFormSubmitters :=
             (confirmFormSubmitters b1)(form := map_option (insert e) (confirmFormSubmitters b1 form))\<rparr>)"

definition attachConfirmTrigger :: "trigger \<Rightarrow> confirm_bindings \<Rightarrow> confirm_bindings" where
  "attachConfirmTrigger t b =
     (if t_id t \<in> confirmProcessedElements b then b
      else if t_skip t = ''true'' \<or> t_skip t = ''1'' then b
      else let b1 = b\<lparr>confirmProcessedElements := insert (t_id t) (confirmProcessedElements b)\<rparr>
           in case t_form t of
                Some form \<Rightarrow>
                  if t_submits t then bindConfirmFormSubmit form (t_id t) b1 else bindConfirmClick (t_id t) b1
              | None \<Rightarrow> bindConfirmClick (t_id t) b1)"

definition scanConfirmTriggers :: "trigger list \<Rightarrow> confirm_bindings \<Rightarrow> confirm_bindings" where
  "scanConfirmTriggers ts b = fold attachConfirmTrigger ts b"

text \<open>The scheduled scan: at most one frame callback is outstanding, and it clears the flag.\<close>

definition scheduleConfirmScan :: "confirm_bindings \<Rightarrow> confirm_bindings \<times> bool" where
  "scheduleConfirmScan b =
     (if confirmScanScheduled b then (b, False) else (b\<lparr>confirmScanScheduled := True\<rparr>, True))"

definition scan_frame :: "trigger list \<Rightarrow> confirm_bindings \<Rightarrow> confirm_bindings" where
  "scan_frame ts b = scanConfirmTriggers ts (b\<lparr>confirmScanScheduled := False\<rparr>)"

text \<open>The observer: a batch of mutations (kind and number of added nodes) schedules at most one scan.\<close>

definition confirm_observer :: "(string \<times> nat) list \<Rightarrow> confirm_bindings \<Rightarrow> confirm_bindings \<times> bool" where
  "confirm_observer mutations b =
     (if \<exists>m \<in> set mutations. fst m = ''childList'' \<and> 0 < snd m then scheduleConfirmScan b else (b, False))"

section \<open>The bypass protocol\<close>

text \<open>
  A guarded click: \<open>bypass\<close> is \<open>data-confirm-bypass\<close>, \<open>asking\<close> counts the dialogs that are open for the
  element, \<open>repeats\<close> the timers that will click it again. \<open>runs\<close> counts the clicks that were let through
  to the element's own handlers, \<open>grants\<close> the confirmations the user gave.
\<close>

record click_guard =
  bypass :: bool
  is_disabled :: bool
  asking :: nat
  repeats :: nat
  runs :: nat
  grants :: nat

datatype guard_event = ClickEv | AnswerEv bool | TimerEv | SetDisabled bool

definition handleConfirmableClick :: "click_guard \<Rightarrow> click_guard" where
  "handleConfirmableClick g =
     (if bypass g then g\<lparr>bypass := False, runs := Suc (runs g)\<rparr>
      else if is_disabled g then g
      else g\<lparr>asking := Suc (asking g)\<rparr>)"

definition confirmed_click :: "bool \<Rightarrow> click_guard \<Rightarrow> click_guard" where
  "confirmed_click yes g =
     (let g1 = g\<lparr>asking := asking g - 1\<rparr>
      in if yes then g1\<lparr>grants := Suc (grants g1), bypass := True, repeats := Suc (repeats g1)\<rparr> else g1)"

text \<open>The browser sends no click event to a disabled control.\<close>

definition click_event :: "click_guard \<Rightarrow> click_guard" where
  "click_event g = (if is_disabled g then g else handleConfirmableClick g)"

definition click_step :: "guard_event \<Rightarrow> click_guard \<Rightarrow> click_guard" where
  "click_step ev g =
     (case ev of
        ClickEv \<Rightarrow> click_event g
      | AnswerEv yes \<Rightarrow> if 0 < asking g then confirmed_click yes g else g
      | TimerEv \<Rightarrow> if 0 < repeats g then click_event (g\<lparr>repeats := repeats g - 1\<rparr>) else g
      | SetDisabled d \<Rightarrow> g\<lparr>is_disabled := d\<rparr>)"

text \<open>
  A guarded form: \<open>asked\<close> and \<open>resubmits\<close> hold the controls of the open dialogs and of the timers.
  A submit by a control that needs no confirmation is not counted.
\<close>

record form_guard =
  f_bypass :: bool
  submitters :: "nat set"
  asked :: "nat list"
  resubmits :: "nat list"
  f_runs :: nat
  f_grants :: nat

datatype form_event = SubmitEv "nat option" | FormAnswer bool | ResubmitEv

definition handleConfirmableSubmit :: "nat option \<Rightarrow> form_guard \<Rightarrow> form_guard" where
  "handleConfirmableSubmit trig g =
     (let guarded = (case trig of Some t \<Rightarrow> t \<in> submitters g | None \<Rightarrow> False)
      in if f_bypass g then g\<lparr>f_bypass := False, f_runs := f_runs g + (if guarded then 1 else 0)\<rparr>
         else if \<not> guarded then g
         else g\<lparr>asked := asked g @ [the trig]\<rparr>)"

definition confirmed_submit :: "bool \<Rightarrow> form_guard \<Rightarrow> form_guard" where
  "confirmed_submit yes g =
     (case asked g of
        [] \<Rightarrow> g
      | t # ts \<Rightarrow>
          let g1 = g\<lparr>asked := ts\<rparr>
          in if yes then g1\<lparr>f_grants := Suc (f_grants g1), f_bypass := True, resubmits := resubmits g1 @ [t]\<rparr> else g1)"

definition form_step :: "form_event \<Rightarrow> form_guard \<Rightarrow> form_guard" where
  "form_step ev g =
     (case ev of
        SubmitEv trig \<Rightarrow> handleConfirmableSubmit trig g
      | FormAnswer yes \<Rightarrow> confirmed_submit yes g
      | ResubmitEv \<Rightarrow>
          (case resubmits g of
             [] \<Rightarrow> g
           | t # ts \<Rightarrow> handleConfirmableSubmit (Some t) (g\<lparr>resubmits := ts\<rparr>)))"

section \<open>The contract of a guard\<close>

text \<open>
  Both guards spend tokens: a step that runs the action spends one, a confirmation earns at most one, and
  the bypass mark is the one token that can be outstanding.
\<close>

locale guarded_action =
  fixes step :: "'e \<Rightarrow> 's \<Rightarrow> 's" and token :: "'s \<Rightarrow> bool" and ran :: "'s \<Rightarrow> nat" and granted :: "'s \<Rightarrow> nat"
  assumes spends: "ran (step e s) + of_bool (token (step e s)) + granted s \<le> ran s + of_bool (token s) + granted (step e s)"
begin

lemma runs_within_grants:
  "ran s + of_bool (token s) \<le> granted s \<Longrightarrow> ran (fold step es s) + of_bool (token (fold step es s)) \<le> granted (fold step es s)"
proof (induction es arbitrary: s)
  case (Cons e es)
  have "ran (step e s) + of_bool (token (step e s)) \<le> granted (step e s)"
    using spends [of e s] Cons.prems by linarith
  then show ?case using Cons.IH by simp
qed simp

lemma never_unconfirmed: "ran s + of_bool (token s) \<le> granted s \<Longrightarrow> ran (fold step es s) \<le> granted (fold step es s)"
  using runs_within_grants [of s es] by linarith

end

interpretation click: guarded_action click_step bypass runs grants
proof
  show "runs (click_step e s) + of_bool (bypass (click_step e s)) + grants s
      \<le> runs s + of_bool (bypass s) + grants (click_step e s)" for e s
    by (cases e) (simp_all add: click_step_def click_event_def handleConfirmableClick_def confirmed_click_def Let_def)
qed

interpretation submit: guarded_action form_step f_bypass f_runs f_grants
proof
  show "f_runs (form_step e s) + of_bool (f_bypass (form_step e s)) + f_grants s
      \<le> f_runs s + of_bool (f_bypass s) + f_grants (form_step e s)" for e s
    by (cases e) (auto simp: form_step_def handleConfirmableSubmit_def confirmed_submit_def Let_def split: list.splits)
qed

section \<open>Lemmas on binding\<close>

definition bind_inv :: "confirm_bindings \<Rightarrow> bool" where
  "bind_inv b \<longleftrightarrow> distinct (click_bound b) \<and> distinct (submit_bound b) \<and>
     set (click_bound b) \<subseteq> confirmProcessedElements b \<and>
     set (submit_bound b) = dom (confirmFormSubmitters b)"

definition bound :: "trigger \<Rightarrow> confirm_bindings \<Rightarrow> bool" where
  "bound t b \<longleftrightarrow> (case t_form t of
     Some form \<Rightarrow> if t_submits t then (\<exists>S. confirmFormSubmitters b form = Some S \<and> t_id t \<in> S) else t_id t \<in> set (click_bound b)
   | None \<Rightarrow> t_id t \<in> set (click_bound b))"

lemma attach_inv: "bind_inv b \<Longrightarrow> bind_inv (attachConfirmTrigger t b)"
  by (auto simp: bind_inv_def attachConfirmTrigger_def bindConfirmClick_def bindConfirmFormSubmit_def Let_def
      split: option.splits if_splits)

lemma attach_bound_mono: "bound u b \<Longrightarrow> bound u (attachConfirmTrigger t b)"
  by (auto simp: bound_def attachConfirmTrigger_def bindConfirmClick_def bindConfirmFormSubmit_def Let_def
      split: option.splits if_splits)

lemma attach_processed:
  "t_id t \<in> confirmProcessedElements (attachConfirmTrigger t b) \<or> t_skip t = ''true'' \<or> t_skip t = ''1''"
  by (auto simp: attachConfirmTrigger_def bindConfirmClick_def bindConfirmFormSubmit_def Let_def split: option.splits)

lemma attach_binds: "t_id t \<notin> confirmProcessedElements b \<Longrightarrow>
   t_id t \<in> confirmProcessedElements (attachConfirmTrigger t b) \<Longrightarrow> bound t (attachConfirmTrigger t b)"
  by (auto simp: bound_def attachConfirmTrigger_def bindConfirmClick_def bindConfirmFormSubmit_def Let_def
      split: option.splits if_splits)

lemma attach_processed_mono:
  "confirmProcessedElements b \<subseteq> confirmProcessedElements (attachConfirmTrigger t b) \<and>
   confirmProcessedElements (attachConfirmTrigger t b) \<subseteq> insert (t_id t) (confirmProcessedElements b)"
  by (auto simp: attachConfirmTrigger_def bindConfirmClick_def bindConfirmFormSubmit_def Let_def
      split: option.splits if_splits)

text \<open>Elements are known by their identity, and every processed element of the page is bound.\<close>

definition same_elements :: "trigger set \<Rightarrow> bool" where
  "same_elements T \<longleftrightarrow> (\<forall>t \<in> T. \<forall>u \<in> T. t_id t = t_id u \<longrightarrow> t = u)"

definition covers :: "trigger set \<Rightarrow> confirm_bindings \<Rightarrow> bool" where
  "covers T b \<longleftrightarrow> bind_inv b \<and> (\<forall>t \<in> T. t_id t \<in> confirmProcessedElements b \<longrightarrow> bound t b)"

lemma attach_covers:
  assumes "same_elements T" "t \<in> T" "covers T b"
  shows "covers T (attachConfirmTrigger t b)"
  unfolding covers_def
proof (intro conjI ballI impI)
  show "bind_inv (attachConfirmTrigger t b)" using assms(3) by (simp add: covers_def attach_inv)
  fix u assume u: "u \<in> T" "t_id u \<in> confirmProcessedElements (attachConfirmTrigger t b)"
  show "bound u (attachConfirmTrigger t b)"
  proof (cases "t_id u \<in> confirmProcessedElements b")
    case True
    then show ?thesis using assms(3) u(1) by (simp add: covers_def attach_bound_mono)
  next
    case False
    then have "t_id u = t_id t" using u(2) attach_processed_mono [of b t] by blast
    then have "u = t" using assms(1,2) u(1) by (simp add: same_elements_def)
    then show ?thesis using attach_binds False u(2) by simp
  qed
qed

lemma scan_covers: "same_elements T \<Longrightarrow> set ts \<subseteq> T \<Longrightarrow> covers T b \<Longrightarrow> covers T (scanConfirmTriggers ts b)"
  unfolding scanConfirmTriggers_def by (induction ts arbitrary: b) (simp_all add: attach_covers)

lemma scan_processed:
  "t \<in> set ts \<or> t_id t \<in> confirmProcessedElements b \<Longrightarrow> t_skip t \<noteq> ''true'' \<Longrightarrow> t_skip t \<noteq> ''1'' \<Longrightarrow>
     t_id t \<in> confirmProcessedElements (scanConfirmTriggers ts b)"
  unfolding scanConfirmTriggers_def
proof (induction ts arbitrary: b)
  case (Cons u us)
  have "t \<in> set us \<or> t_id t \<in> confirmProcessedElements (attachConfirmTrigger u b)"
    using Cons.prems attach_processed [of t b] attach_processed_mono [of b u] by auto
  then show ?case using Cons by simp
qed simp

definition no_bindings :: confirm_bindings where
  "no_bindings = \<lparr>confirmProcessedElements = {}, click_bound = [], submit_bound = [],
     confirmFormSubmitters = Map.empty, confirmScanScheduled = False\<rparr>"

lemma no_bindings_covers: "covers T no_bindings"
  by (simp add: covers_def bind_inv_def no_bindings_def)

lemma scans_cover:
  "same_elements T \<Longrightarrow> (\<Union>ts \<in> set tss. set ts) \<subseteq> T \<Longrightarrow> covers T b \<Longrightarrow> covers T (fold scanConfirmTriggers tss b)"
  by (induction tss arbitrary: b) (simp_all add: scan_covers)

lemma scans_processed:
  "(\<exists>ts \<in> set tss. t \<in> set ts) \<or> t_id t \<in> confirmProcessedElements b \<Longrightarrow> t_skip t \<noteq> ''true'' \<Longrightarrow> t_skip t \<noteq> ''1'' \<Longrightarrow>
     t_id t \<in> confirmProcessedElements (fold scanConfirmTriggers tss b)"
proof (induction tss arbitrary: b)
  case (Cons us tss)
  have "(\<exists>ts \<in> set tss. t \<in> set ts) \<or> t_id t \<in> confirmProcessedElements (scanConfirmTriggers us b)"
    using Cons.prems scan_processed [of t us b] by auto
  then show ?case using Cons by simp
qed simp

section \<open>Properties\<close>

text \<open>
  C31. Every confirmation is answered exactly once: along every sequence of requests, clicks and hidden
  events, no dialog is answered twice, every dialog asked so far is either waiting or answered and never
  both, and a click on accept, cancel or close answers every waiting dialog with what was clicked.\<close>

theorem confirm_answers_once:
  "let m = dialog_run bootstrap evs fresh_modal
   in distinct (map fst (answers m)) \<and>
      set (listening m) \<inter> fst ` set (answers m) = {} \<and>
      set (listening m) \<union> fst ` set (answers m) = {..<next_dialog m} \<and>
      answers (dialog_step bootstrap AcceptClick m) = answers m @ map (\<lambda>n. (n, True)) (listening m) \<and>
      answers (dialog_step bootstrap CancelClick m) = answers m @ map (\<lambda>n. (n, False)) (listening m) \<and>
      answers (dialog_step bootstrap CloseClick m) = answers m @ map (\<lambda>n. (n, False)) (listening m) \<and>
      (\<forall>ev \<in> {AcceptClick, CancelClick, CloseClick}. listening (dialog_step bootstrap ev m) = [])"
proof -
  define m where "m = dialog_run bootstrap evs fresh_modal"
  have inv: "dialog_inv m" unfolding m_def by (rule dialog_run_inv) (rule fresh_inv)
  then have d: "distinct (listening m)" "distinct (listening (hideConfirmModalInstant m))"
    by (simp_all add: dialog_inv_def hideConfirmModalInstant_def)
  show ?thesis
    unfolding m_def [symmetric] Let_def
    using inv d finalize_all_result [OF d(2)]
    by (simp add: dialog_inv_def dialog_step_def finalize_all_result) (simp add: hideConfirmModalInstant_def)
qed

theorem confirm_answers_once_witness:
  "answers (dialog_run True [Ask (JStr ''Reboot?'') JUndef, AcceptClick] fresh_modal) = [(0, True)]"
  using confirm_answers_once [of True "[Ask (JStr ''Reboot?'') JUndef]"]
  by (simp add: dialog_run_def dialog_step_def thinginoConfirm_def showConfirmDialog_def resolveConfirmIntentClass_def
      normalizeConfirmOptions_def assignFrom_def js_or_def ConfirmDefaults_def fresh_modal_def Let_def)

text \<open>
  A hidden event that arrives late cancels the next question: the framework sends its hidden event
  after the answer, and a dialog asked between the two is answered with no by that event although nobody
  has answered it.\<close>

theorem late_hidden_cancels_next:
  "let m = dialog_run True [Ask a b, AcceptClick, Ask c d, ModalHidden] fresh_modal
   in resolveConfirmIntentClass (intent (normalizeConfirmOptions a b)) \<noteq> None \<and>
      resolveConfirmIntentClass (intent (normalizeConfirmOptions c d)) \<noteq> None \<longrightarrow>
      answers m = [(0, True), (1, False)] \<and> listening m = []"
  by (auto simp: dialog_run_def dialog_step_def thinginoConfirm_def showConfirmDialog_def finalize_all_def finalize_def
      fresh_modal_def Let_def)

theorem late_hidden_cancels_next_witness:
  "let m = dialog_run True [Ask (JStr ''Save?'') JUndef, AcceptClick, Ask (JStr ''Reboot?'') JUndef, ModalHidden] fresh_modal
   in answers m = [(0, True), (1, False)] \<and> listening m = []"
  using late_hidden_cancels_next [of "JStr ''Save?''" JUndef "JStr ''Reboot?''" JUndef]
  by (simp add: normalizeConfirmOptions_def assignFrom_def resolveConfirmIntentClass_def js_or_def ConfirmDefaults_def Let_def)

definition fresh_click :: click_guard where
  "fresh_click = \<lparr>bypass = False, is_disabled = False, asking = 0, repeats = 0, runs = 0, grants = 0\<rparr>"

definition fresh_form :: "nat set \<Rightarrow> form_guard" where
  "fresh_form S = \<lparr>f_bypass = False, submitters = S, asked = [], resubmits = [], f_runs = 0, f_grants = 0\<rparr>"


text \<open>
  Every confirmable element is bound once: however often and on whatever parts of the page the scan
  runs, no element and no form gets two listeners, and every element without a skip mark that a scan has
  seen is bound (to its form where it submits one, to its click otherwise).\<close>

theorem scan_binds_once:
  assumes "same_elements (\<Union>ts \<in> set tss. set ts)"
  shows "let b = fold scanConfirmTriggers tss no_bindings
         in distinct (click_bound b) \<and> distinct (submit_bound b) \<and>
            (\<forall>ts \<in> set tss. \<forall>t \<in> set ts. t_skip t = ''true'' \<or> t_skip t = ''1'' \<or> bound t b)"
proof -
  define b where "b = fold scanConfirmTriggers tss no_bindings"
  have c: "covers (\<Union>ts \<in> set tss. set ts) b"
    unfolding b_def using assms no_bindings_covers by (rule scans_cover [OF _ subset_refl])
  have "t_skip t = ''true'' \<or> t_skip t = ''1'' \<or> bound t b" if t: "ts \<in> set tss" "t \<in> set ts" for t ts
    using c t scans_processed [of tss t no_bindings] unfolding covers_def b_def by auto
  then show ?thesis
    using c unfolding b_def [symmetric] Let_def covers_def bind_inv_def by blast
qed

definition sample_triggers :: "trigger list" where
  "sample_triggers = [\<lparr>t_id = 1, t_form = None, t_submits = False, t_skip = []\<rparr>,
     \<lparr>t_id = 2, t_form = Some 7, t_submits = True, t_skip = []\<rparr>]"

theorem scan_binds_once_witness:
  "let b = fold scanConfirmTriggers [sample_triggers, sample_triggers] no_bindings
   in click_bound b = [1] \<and> submit_bound b = [7] \<and> distinct (click_bound b)"
  using scan_binds_once [of "[sample_triggers, sample_triggers]"]
  by (simp add: same_elements_def sample_triggers_def Let_def scanConfirmTriggers_def attachConfirmTrigger_def
      bindConfirmClick_def bindConfirmFormSubmit_def no_bindings_def)

text \<open>A dialog is never blank: whatever is passed to \<open>confirm\<close> (a text, an options object, nothing, or
  values of other types, and the attributes of an element), the title, the message, both labels and the
  intent that are used are not empty, a given message is used, and every intent text gives a button class.\<close>

theorem confirm_options_complete:
  "let n = normalizeConfirmOptions a b
   in truthy (title n) \<and> truthy (c_message n) \<and> truthy (confirmLabel n) \<and> truthy (cancelLabel n) \<and> truthy (intent n) \<and>
      c_message (normalizeConfirmOptions (JStr (CHR ''x'' # s)) JUndef) = JStr (CHR ''x'' # s) \<and>
      resolveConfirmIntentClass (JStr s) \<in> Some ` {''btn-warning'', ''btn-success'', ''btn-primary'', ''btn-danger''} \<and>
      intent (normalizeConfirmOptions JUndef (getElementConfirmOptions dataset)) \<in> range JStr"
proof -
  have "all_truthy (assignFrom b (assignFrom a ConfirmDefaults))"
    by (intro assignFrom_truthy defaults_truthy)
  moreover have "c_message (normalizeConfirmOptions (JStr (CHR ''x'' # s)) JUndef) = JStr (CHR ''x'' # s)"
    by (simp add: normalizeConfirmOptions_def assignFrom_def js_or_def Let_def)
  moreover have "resolveConfirmIntentClass (JStr s) \<in> Some ` {''btn-warning'', ''btn-success'', ''btn-primary'', ''btn-danger''}"
    by (simp add: resolveConfirmIntentClass_def js_or_def ConfirmDefaults_def)
  moreover have "intent (normalizeConfirmOptions JUndef (getElementConfirmOptions dataset)) \<in> range JStr"
    by (rule element_intent)
  ultimately show ?thesis
    by (simp add: normalizeConfirmOptions_def all_truthy_def js_or_def Let_def)
qed

end
