(* ===== verification/Page_State.thy ===== *)
theory Page_State
  imports Dom
begin

text \<open>
  The small stateful services of \<open>main.js\<close> that every page uses: the colour theme with its cache in local
  storage, the clipboard, the progress bars, the busy bar with its time-out and the alert overlay.
  \<open>String(v)\<close> of a value that is not a text is the argument \<open>str\<close> of the definitions that need it.
\<close>

section \<open>Theme\<close>

text \<open>
  Local storage may be missing (reads and writes do nothing) or full (writes fail); \<open>theme_attr\<close> is the
  attribute \<open>data-bs-theme\<close> of the document. Values that are not texts are kept as they are, where the
  browser keeps the text of them.
\<close>

record theme_page =
  storage_available :: bool
  storage_writable :: bool
  items :: "string \<rightharpoonup> js"
  theme_attr :: js
  theme_img_alt :: "string option" \<comment> \<open>the \<open>alt\<close> of the image in \<open>#theme-toggle\<close>, if both exist\<close>

definition preferenceKey :: string where "preferenceKey = ''thingino-theme-preference''"
definition activeKey :: string where "activeKey = ''thingino-theme-active''"

definition safeStorageGet :: "string \<Rightarrow> theme_page \<Rightarrow> js" where
  "safeStorageGet key p =
     (if \<not> storage_available p then JNull else case items p key of Some v \<Rightarrow> v | None \<Rightarrow> JNull)"

definition safeStorageSet :: "string \<Rightarrow> js \<Rightarrow> theme_page \<Rightarrow> theme_page" where
  "safeStorageSet key v p =
     (if \<not> storage_available p then p
      else if v = JNull \<or> v = JUndef \<or> v = JStr [] then p\<lparr>items := (items p)(key := None)\<rparr>
      else if storage_writable p then p\<lparr>items := (items p)(key \<mapsto> v)\<rparr> else p)"

definition resolve_theme :: "int \<Rightarrow> js \<Rightarrow> js" where
  "resolve_theme hour theme =
     (if theme = JStr ''auto'' then (if 8 \<le> hour \<and> hour < 20 then JStr ''light'' else JStr ''dark'') else theme)"

definition applyThemeAttribute :: "int \<Rightarrow> js \<Rightarrow> theme_page \<Rightarrow> theme_page" where
  "applyThemeAttribute hour theme p =
     (if \<not> truthy theme then p else p\<lparr>theme_attr := resolve_theme hour theme\<rparr>)"

definition rememberThemeState :: "int \<Rightarrow> js \<Rightarrow> js \<Rightarrow> theme_page \<Rightarrow> theme_page" where
  "rememberThemeState hour activeTheme preferenceTheme p =
     (let p1 = (if truthy activeTheme
                then applyThemeAttribute hour activeTheme (safeStorageSet activeKey activeTheme p) else p)
      in if truthy preferenceTheme then safeStorageSet preferenceKey preferenceTheme p1 else p1)"

text \<open>The settings the server sends: \<open>data.theme\<close>, or \<open>data.webui.theme\<close>; the active theme defaults to it.\<close>

definition theme_preference :: "js \<Rightarrow> js" where
  "theme_preference data =
     (if truthy data
      then js_or (getp data ''theme'') (and_prop (getp data ''webui'') ''theme'') else data)"

definition theme_active :: "js \<Rightarrow> js" where
  "theme_active data = js_or (and_prop data ''active_theme'') (theme_preference data)"

definition refreshThemeFromServer_settle :: "int \<Rightarrow> outcome \<Rightarrow> theme_page \<Rightarrow> theme_page" where
  "refreshThemeFromServer_settle hour out p =
     (case out of
        Rejected _ \<Rightarrow> p
      | Answer r \<Rightarrow>
          if \<not> resp_ok r then p
          else (case parsed r of
                  None \<Rightarrow> p
                | Some data \<Rightarrow> rememberThemeState hour (theme_active data) (theme_preference data) p))"

text \<open>\<open>theme-init.js\<close>, which runs before the page is drawn: an unavailable storage gives the dark theme.\<close>

definition theme_init :: "int \<Rightarrow> theme_page \<Rightarrow> theme_page" where
  "theme_init hour p =
     p\<lparr>theme_attr := (if storage_available p then resolve_theme hour (js_or (safeStorageGet activeKey p) (JStr ''dark'')) else JStr ''dark'')\<rparr>"

definition initThemeBridge :: "int \<Rightarrow> theme_page \<Rightarrow> theme_page \<times> effect list" where
  "initThemeBridge hour p =
     (let cachedTheme = safeStorageGet activeKey p
      in (if truthy cachedTheme then applyThemeAttribute hour cachedTheme p else p,
          [Send (Get ''/x/json-config-webui.cgi'')]))"

definition toggleTheme :: "theme_page \<Rightarrow> theme_page" where
  "toggleTheme p =
     (let newTheme = (if theme_attr p = JStr ''dark'' then ''light'' else ''dark'')
      in p\<lparr>theme_attr := JStr newTheme,
           theme_img_alt := map_option (\<lambda>_. if newTheme = ''dark'' then ''Light mode'' else ''Dark mode'') (theme_img_alt p)\<rparr>)"

datatype theme_event = Refreshed int outcome | Toggled | Remember int js js | Apply int js

fun theme_step :: "theme_event \<Rightarrow> theme_page \<Rightarrow> theme_page" where
  "theme_step (Refreshed hour out) p = refreshThemeFromServer_settle hour out p"
| "theme_step Toggled p = toggleTheme p"
| "theme_step (Remember hour a b) p = rememberThemeState hour a b p"
| "theme_step (Apply hour a) p = applyThemeAttribute hour a p"

section \<open>Clipboard\<close>

text \<open>
  The browser's side: whether the clipboard interface can be used (it exists and the context is secure),
  whether its write succeeds, and what \<open>execCommand("copy")\<close> does (\<open>None\<close> where it throws). The result is
  the error or the text that was copied; \<open>textareas\<close> counts the helper elements in the page.
\<close>

record clipboard_env =
  nav_clipboard :: bool
  secure_context :: bool
  write_succeeds :: bool
  exec_copy :: "bool option"

definition hasNavigatorClipboard :: "clipboard_env \<Rightarrow> bool" where
  "hasNavigatorClipboard env \<longleftrightarrow> nav_clipboard env \<and> secure_context env"

definition fallbackClipboardCopy :: "clipboard_env \<Rightarrow> string \<Rightarrow> nat \<Rightarrow> (string + string) \<times> nat" where
  "fallbackClipboardCopy env txt textareas =
     (let inserted = Suc textareas;
          res = (case exec_copy env of
                   Some True \<Rightarrow> Inr txt
                 | Some False \<Rightarrow> Inl ''clipboard-fallback''
                 | None \<Rightarrow> Inl ''Error'')
      in (res, inserted - 1))"

definition clipboard_value :: "(js \<Rightarrow> string) \<Rightarrow> js \<Rightarrow> string" where
  "clipboard_value str v = (case v of JStr s \<Rightarrow> s | JNull \<Rightarrow> [] | JUndef \<Rightarrow> [] | _ \<Rightarrow> str v)"

definition copyTextToClipboard :: "(js \<Rightarrow> string) \<Rightarrow> clipboard_env \<Rightarrow> js \<Rightarrow> nat \<Rightarrow> (string + string) \<times> nat" where
  "copyTextToClipboard str env v textareas =
     (let txt = clipboard_value str v
      in if txt = [] then (Inl ''clipboard-empty'', textareas)
         else if hasNavigatorClipboard env \<and> write_succeeds env then (Inr txt, textareas)
         else fallbackClipboardCopy env txt textareas)"

section \<open>Progress bars\<close>

text \<open>\<open>Number(v) || 0\<close> and \<open>Math.max(0, \<dots>)\<close>.\<close>

definition num_or_zero :: "js \<Rightarrow> jnum" where
  "num_or_zero v = (case to_number v of NaN \<Rightarrow> Fin 0 | n \<Rightarrow> n)"

definition num_max0 :: "jnum \<Rightarrow> jnum" where
  "num_max0 n = (case n of Fin q \<Rightarrow> Fin (max 0 q) | NegInf \<Rightarrow> Fin 0 | m \<Rightarrow> m)"

text \<open>\<open>Math.min(100, Math.max(0, Math.round(v / safeMax * 100)))\<close> for a finite positive \<open>safeMax\<close>.\<close>

definition value_percent :: "jnum \<Rightarrow> rat \<Rightarrow> int" where
  "value_percent v safeMax =
     (case v of
        Fin q \<Rightarrow> min 100 (max 0 (math_round (q / safeMax * 100)))
      | PosInf \<Rightarrow> 100
      | NegInf \<Rightarrow> 0
      | NaN \<Rightarrow> 0)"

text \<open>The bar that is written: its range attributes, width in percent and title; \<open>None\<close> where nothing is written.\<close>

record progress_bar =
  aria_max :: rat
  aria_now :: jnum
  width_pct :: int
  bar_title :: "js list"

definition setProgressBar :: "bool \<Rightarrow> js \<Rightarrow> js \<Rightarrow> js \<Rightarrow> progress_bar option" where
  "setProgressBar exists v maxvalue name =
     (case to_number maxvalue of
        Fin safeMax \<Rightarrow>
          if \<not> exists \<or> safeMax \<le> 0 then None
          else (let safeValue = num_max0 (num_or_zero v); pct = value_percent safeValue safeMax
                in Some \<lparr>aria_max = safeMax, aria_now = safeValue, width_pct = pct,
                         bar_title = [js_or name (JStr ''Usage''), JStr '': '', JNum safeValue, JStr ''KiB ('',
                           jint pct, JStr ''%)'']\<rparr>)
      | _ \<Rightarrow> None)"

section \<open>Busy bar\<close>

text \<open>
  Timers are known by their numbers. \<open>auto_hides\<close> are the armed time-outs of twenty seconds,
  \<open>grow_timers\<close> and \<open>reset_timers\<close> the armed timers that set the width to 70 and to 0 percent;
  \<open>busyBarTimeout\<close> is the variable of the script.
\<close>

record busy_bar =
  bar_made :: bool
  bar_width :: nat
  busyBarTimeout :: "nat option"
  auto_hides :: "nat list"
  grow_timers :: "nat list"
  reset_timers :: "nat list"
  next_timer :: nat

definition ensureBusyBar :: "busy_bar \<Rightarrow> busy_bar" where
  "ensureBusyBar b = (if bar_made b then b else b\<lparr>bar_made := True, bar_width := 0\<rparr>)"

definition clear_busy_timeout :: "busy_bar \<Rightarrow> busy_bar" where
  "clear_busy_timeout b =
     (case busyBarTimeout b of
        None \<Rightarrow> b
      | Some t \<Rightarrow> b\<lparr>auto_hides := filter (\<lambda>u. u \<noteq> t) (auto_hides b), busyBarTimeout := None\<rparr>)"

definition showBusy :: "busy_bar \<Rightarrow> busy_bar" where
  "showBusy b =
     (let b1 = clear_busy_timeout (ensureBusyBar b); n = next_timer b1
      in b1\<lparr>bar_width := 0, grow_timers := grow_timers b1 @ [n],
            auto_hides := auto_hides b1 @ [Suc n], busyBarTimeout := Some (Suc n), next_timer := n + 2\<rparr>)"

definition hideBusy :: "busy_bar \<Rightarrow> busy_bar" where
  "hideBusy b =
     (let b1 = clear_busy_timeout b
      in if \<not> bar_made b1 then b1
         else b1\<lparr>bar_width := 100, reset_timers := reset_timers b1 @ [next_timer b1], next_timer := Suc (next_timer b1)\<rparr>)"

definition busy_timeout_fires :: "nat \<Rightarrow> busy_bar \<Rightarrow> busy_bar \<times> effect list" where
  "busy_timeout_fires t b =
     (if t \<notin> set (auto_hides b) then (b, [])
      else (hideBusy (b\<lparr>auto_hides := filter (\<lambda>u. u \<noteq> t) (auto_hides b)\<rparr>),
            [Notice ''warning'' [JStr ''Operation timed out. Please try again or check your connection.''] 8000]))"

definition width_timer_fires :: "nat \<Rightarrow> busy_bar \<Rightarrow> busy_bar" where
  "width_timer_fires t b =
     (if t \<in> set (grow_timers b) then b\<lparr>bar_width := 70, grow_timers := filter (\<lambda>u. u \<noteq> t) (grow_timers b)\<rparr>
      else if t \<in> set (reset_timers b) then b\<lparr>bar_width := 0, reset_timers := filter (\<lambda>u. u \<noteq> t) (reset_timers b)\<rparr>
      else b)"

datatype busy_event = Show | Hide | Timeout nat | WidthTimer nat

definition busy_step :: "busy_event \<Rightarrow> busy_bar \<Rightarrow> busy_bar \<times> effect list" where
  "busy_step ev b =
     (case ev of
        Show \<Rightarrow> (showBusy b, [])
      | Hide \<Rightarrow> (hideBusy b, [])
      | Timeout t \<Rightarrow> busy_timeout_fires t b
      | WidthTimer t \<Rightarrow> (width_timer_fires t b, []))"

fun busy_run :: "busy_event list \<Rightarrow> busy_bar \<Rightarrow> busy_bar \<times> effect list" where
  "busy_run [] b = (b, [])"
| "busy_run (ev # evs) b = (let (b1, fx) = busy_step ev b; (b2, gx) = busy_run evs b1 in (b2, fx @ gx))"

section \<open>Alerts\<close>

definition alert_variant :: "string \<Rightarrow> string" where
  "alert_variant kind =
     (if kind = ''success'' then ''success'' else if kind = ''danger'' then ''danger'' else ''info'')"

text \<open>
  The overlay of the page: whether it exists, its text, variant and visibility, and the armed timers that
  hide it (by their time-out). \<open>footer_shown\<close> are the messages handed to the footer, where that is loaded.
\<close>

record overlay =
  overlay_made :: bool
  overlay_text :: js
  overlay_variant :: string
  overlay_shown :: bool
  overlay_timers :: "nat list"
  footer_loaded :: bool
  footer_shown :: "(js \<times> string) list"

definition showAlert :: "string \<Rightarrow> js \<Rightarrow> nat \<Rightarrow> overlay \<Rightarrow> overlay" where
  "showAlert kind msg timeout o1 =
     (if \<not> truthy msg then o1
      else if footer_loaded o1 then o1\<lparr>footer_shown := footer_shown o1 @ [(msg, alert_variant kind)]\<rparr>
      else o1\<lparr>overlay_made := True, overlay_text := msg, overlay_variant := alert_variant kind,
              overlay_shown := True, overlay_timers := overlay_timers o1 @ [timeout]\<rparr>)"

definition overlay_timer :: "nat \<Rightarrow> overlay \<Rightarrow> overlay" where
  "overlay_timer t o1 =
     (if t \<in> set (overlay_timers o1)
      then o1\<lparr>overlay_timers := remove1 t (overlay_timers o1), overlay_shown := False\<rparr> else o1)"

definition clearAlerts :: "overlay \<Rightarrow> overlay" where
  "clearAlerts o1 = o1\<lparr>overlay_shown := False, footer_shown := (if footer_loaded o1 then [] else footer_shown o1)\<rparr>"

definition showOverlayMessage :: "js \<Rightarrow> string \<Rightarrow> overlay \<Rightarrow> overlay" where
  "showOverlayMessage msg variant o1 =
     (if footer_loaded o1 then o1\<lparr>footer_shown := footer_shown o1 @ [(msg, variant)]\<rparr>
      else showAlert (if variant = ''danger'' then ''danger'' else ''info'') msg 6000 o1)"

section \<open>Lemmas\<close>

lemma resolve_not_auto: "resolve_theme hour t \<noteq> JStr ''auto''"
  by (simp add: resolve_theme_def)

lemma storage_set_get:
  "storage_available p \<Longrightarrow> storage_writable p \<Longrightarrow> truthy v \<Longrightarrow> items (safeStorageSet k v p) = (items p)(k \<mapsto> v)"
  by (auto simp: safeStorageSet_def)

lemma storage_set_keeps [simp]:
  "storage_available (safeStorageSet k v p) = storage_available p"
  "storage_writable (safeStorageSet k v p) = storage_writable p"
  "theme_attr (safeStorageSet k v p) = theme_attr p"
  by (simp_all add: safeStorageSet_def)

lemma apply_keeps [simp]:
  "items (applyThemeAttribute h t p) = items p"
  "storage_available (applyThemeAttribute h t p) = storage_available p"
  "storage_writable (applyThemeAttribute h t p) = storage_writable p"
  by (simp_all add: applyThemeAttribute_def)

lemma keys_differ: "activeKey \<noteq> preferenceKey"
  by (simp add: activeKey_def preferenceKey_def)

lemma remember_active:
  assumes "storage_available p" "storage_writable p" "truthy a"
  shows "items (rememberThemeState h a b p) activeKey = Some a"
    and "theme_attr (rememberThemeState h a b p) = resolve_theme h a"
    and "storage_available (rememberThemeState h a b p)"
  using assms keys_differ
  by (auto simp: rememberThemeState_def Let_def storage_set_get applyThemeAttribute_def)

lemma theme_step_not_auto: "theme_attr p \<noteq> JStr ''auto'' \<Longrightarrow> theme_attr (theme_step ev p) \<noteq> JStr ''auto''"
  by (cases ev) (auto simp: refreshThemeFromServer_settle_def rememberThemeState_def applyThemeAttribute_def toggleTheme_def
      resolve_theme_def Let_def split: outcome.splits option.splits)

definition timeout_of :: "busy_bar \<Rightarrow> nat list" where
  "timeout_of b = (case busyBarTimeout b of Some t \<Rightarrow> [t] | None \<Rightarrow> [])"

lemma clear_timeout: "auto_hides b = timeout_of b \<Longrightarrow>
   auto_hides (clear_busy_timeout b) = [] \<and> busyBarTimeout (clear_busy_timeout b) = None"
  by (auto simp: clear_busy_timeout_def timeout_of_def split: option.splits)

lemma ensure_bar_keeps [simp]:
  "auto_hides (ensureBusyBar b) = auto_hides b" "busyBarTimeout (ensureBusyBar b) = busyBarTimeout b"
  "timeout_of (ensureBusyBar b) = timeout_of b"
  by (simp_all add: ensureBusyBar_def timeout_of_def)

lemma show_timeout: "auto_hides b = timeout_of b \<Longrightarrow>
   auto_hides (showBusy b) = timeout_of (showBusy b) \<and> length (auto_hides (showBusy b)) = 1"
  using clear_timeout [of "ensureBusyBar b"] by (simp add: showBusy_def timeout_of_def Let_def)

lemma hide_timeout: "auto_hides b = timeout_of b \<Longrightarrow> auto_hides (hideBusy b) = [] \<and> timeout_of (hideBusy b) = []"
  using clear_timeout [of b] by (simp add: hideBusy_def timeout_of_def Let_def)

lemma fired_timeout:
  assumes "auto_hides b = timeout_of b" "t \<in> set (auto_hides b)"
  shows "auto_hides (fst (busy_timeout_fires t b)) = [] \<and> timeout_of (fst (busy_timeout_fires t b)) = []"
proof -
  have "busyBarTimeout b = Some t" "auto_hides b = [t]"
    using assms by (auto simp: timeout_of_def split: option.splits)
  then show ?thesis
    by (simp add: busy_timeout_fires_def hideBusy_def clear_busy_timeout_def timeout_of_def Let_def)
qed

lemma width_timer_keeps [simp]:
  "timeout_of (width_timer_fires t b) = timeout_of b" "auto_hides (width_timer_fires t b) = auto_hides b"
  by (simp_all add: width_timer_fires_def timeout_of_def)

lemma busy_step_inv: "auto_hides b = timeout_of b \<Longrightarrow> auto_hides (fst (busy_step ev b)) = timeout_of (fst (busy_step ev b))"
proof (cases ev)
  case (Timeout t)
  assume b: "auto_hides b = timeout_of b"
  show ?thesis
  proof (cases "t \<in> set (auto_hides b)")
    case True
    then show ?thesis using fired_timeout [OF b] Timeout by (simp add: busy_step_def)
  next
    case False
    then show ?thesis using b Timeout by (simp add: busy_step_def busy_timeout_fires_def)
  qed
qed (simp_all add: busy_step_def show_timeout hide_timeout)

lemma busy_run_inv: "auto_hides b = timeout_of b \<Longrightarrow> auto_hides (fst (busy_run evs b)) = timeout_of (fst (busy_run evs b))"
  by (induction evs arbitrary: b) (simp_all add: Let_def split_def busy_step_inv)

definition idle_bar :: busy_bar where
  "idle_bar = \<lparr>bar_made = False, bar_width = 0, busyBarTimeout = None, auto_hides = [], grow_timers = [],
     reset_timers = [], next_timer = 0\<rparr>"

text \<open>Without a timer of its own, nothing but a new operation can bring up the time-out warning.\<close>

lemma quiet_run:
  "auto_hides b = [] \<Longrightarrow> Show \<notin> set evs \<Longrightarrow> busyBarTimeout b = None \<Longrightarrow> snd (busy_run evs b) = []"
proof (induction evs arbitrary: b)
  case (Cons ev evs)
  have "auto_hides (fst (busy_step ev b)) = []" "busyBarTimeout (fst (busy_step ev b)) = None" "snd (busy_step ev b) = []"
    using Cons.prems
    by (cases ev; simp add: busy_step_def hideBusy_def clear_busy_timeout_def busy_timeout_fires_def
        width_timer_fires_def Let_def)+
  with Cons show ?case by (simp add: Let_def split_def)
qed simp

lemma percent_bounds: "0 \<le> value_percent v m" "value_percent v m \<le> 100"
  by (simp_all add: value_percent_def split: jnum.split)

lemma percent_mono: "0 < m \<Longrightarrow> p \<le> q \<Longrightarrow> value_percent (Fin p) m \<le> value_percent (Fin q) m"
  using math_round_mono [of "p / m * 100" "q / m * 100"]
  by (simp add: value_percent_def divide_right_mono min.coboundedI2 max.coboundedI2)

section \<open>Properties\<close>

text \<open>
  The theme survives a reload: where local storage works, the theme the server names as active is
  shown at once and is shown again by the next page before the server is asked, with the automatic theme
  resolved to light or dark by the hour of that moment; no sequence of refreshes, toggles and changes
  ever shows an unresolved automatic theme.\<close>

theorem theme_survives_reload:
  assumes "storage_available p" "storage_writable p" "theme_attr p \<noteq> JStr ''auto''"
    and "resp_ok r" "parsed r = Some data" "truthy (theme_active data)"
  shows "let p1 = refreshThemeFromServer_settle hour (Answer r) p;
             q = fst (initThemeBridge later (p1\<lparr>theme_attr := blank\<rparr>))
         in theme_attr p1 = resolve_theme hour (theme_active data) \<and>
            theme_attr q = resolve_theme later (theme_active data) \<and>
            theme_attr (fold theme_step evs p1) \<noteq> JStr ''auto''"
proof -
  define p1 where "p1 = refreshThemeFromServer_settle hour (Answer r) p"
  have p1: "p1 = rememberThemeState hour (theme_active data) (theme_preference data) p"
    using assms by (simp add: p1_def refreshThemeFromServer_settle_def)
  note k = remember_active [OF assms(1,2,6), of hour "theme_preference data", folded p1]
  have "theme_attr (fold theme_step evs s) \<noteq> JStr ''auto''" if "theme_attr s \<noteq> JStr ''auto''" for s
    using that by (induction evs arbitrary: s) (simp_all add: theme_step_not_auto)
  then show ?thesis
    using k assms(6) unfolding p1_def [symmetric]
    by (simp add: initThemeBridge_def safeStorageGet_def applyThemeAttribute_def resolve_not_auto Let_def)
qed

definition sample_theme :: theme_page where
  "sample_theme = \<lparr>storage_available = True, storage_writable = True, items = Map.empty, theme_attr = JStr ''dark'',
     theme_img_alt = None\<rparr>"

theorem theme_survives_reload_witness:
  "let r = \<lparr>status = 200, text_body = ''..'', parsed = Some (JObj [(''theme'', JStr ''auto'')])\<rparr>;
       p1 = refreshThemeFromServer_settle 9 (Answer r) sample_theme
   in theme_attr p1 = JStr ''light'' \<and>
      theme_attr (fst (initThemeBridge 21 (p1\<lparr>theme_attr := JNull\<rparr>))) = JStr ''dark''"
  using theme_survives_reload [of sample_theme "\<lparr>status = 200, text_body = ''..'', parsed = Some (JObj [(''theme'', JStr ''auto'')])\<rparr>"
      "JObj [(''theme'', JStr ''auto'')]" 9 21 JNull "[]"]
  by (simp add: sample_theme_def resp_ok_def theme_active_def theme_preference_def and_prop_def js_or_def resolve_theme_def Let_def)

text \<open>
  The busy bar never warns about an operation that has ended: along every sequence of operations and
  timers at most one time-out is armed and the script's variable names it, showing the bar arms exactly
  one, and once the bar is hidden no warning appears until the next operation starts.\<close>

theorem busy_timeout_single:
  "let b = fst (busy_run evs idle_bar)
   in auto_hides b = (case busyBarTimeout b of Some t \<Rightarrow> [t] | None \<Rightarrow> []) \<and>
      length (auto_hides (showBusy b)) = 1 \<and>
      (Show \<in> set later \<or> snd (busy_run later (hideBusy b)) = [])"
proof -
  define b where "b = fst (busy_run evs idle_bar)"
  have inv: "auto_hides b = timeout_of b"
    unfolding b_def by (rule busy_run_inv) (simp add: idle_bar_def timeout_of_def)
  have "busyBarTimeout (hideBusy b) = None"
    using clear_timeout [OF inv] by (simp add: hideBusy_def Let_def)
  with inv show ?thesis
    unfolding b_def [symmetric] Let_def
    using show_timeout [OF inv] hide_timeout [OF inv] quiet_run [of "hideBusy b" later]
    by (auto simp: timeout_of_def [symmetric])
qed

text \<open>
  The page does not flash: the theme \<open>theme-init.js\<close> sets before the page is drawn is the one \<open>main.js\<close> sets from its cache afterwards, within the same hour.\<close>

theorem theme_does_not_flash:
  "fst (initThemeBridge hour (theme_init hour p)) = theme_init hour p"
  by (simp add: initThemeBridge_def theme_init_def applyThemeAttribute_def safeStorageGet_def js_or_def Let_def)

end
