(* ===== verification/Controls.thy ===== *)
theory Controls
  imports Dom
begin

text \<open>
  The form helpers of \<open>main.js\<close>: filling a field from a configuration (\<open>setValue\<close>), the shared slider
  modal (\<open>openSliderModal\<close> and its handlers), the inline sliders (\<open>initSlider\<close>), the automatic value boxes
  (\<open>toggleAuto\<close>), the password reveal buttons and the debug dialog. What a range control makes of a
  text assigned to it (the value sanitisation of HTML) is the argument \<open>range_value\<close>.
\<close>

section \<open>Fields\<close>

record field =
  f_type :: string
  f_value :: js
  f_checked :: bool
  f_disabled :: bool
  f_wrapper_disabled :: "bool option" \<comment> \<open>the \<open>disabled\<close> class of the wrapper, if there is one\<close>

record fields =
  inputs :: "string \<rightharpoonup> field"
  labels :: "string \<rightharpoonup> js" \<comment> \<open>the text of the other elements, by id\<close>

definition set_label :: "string \<Rightarrow> js \<Rightarrow> fields \<Rightarrow> fields" where
  "set_label i v f = f\<lparr>labels := (\<lambda>j. if j = i then map_option (\<lambda>_. v) (labels f i) else labels f j)\<rparr>"

definition on_field :: "string \<Rightarrow> (field \<Rightarrow> field) \<Rightarrow> fields \<Rightarrow> fields" where
  "on_field i g f = f\<lparr>inputs := (\<lambda>j. if j = i then map_option g (inputs f i) else inputs f j)\<rparr>"

text \<open>
  \<open>setValue(data, domain, name)\<close>; the second result says that it threw: \<open>data\<close> has no properties, or a
  range field has no \<open>-show\<close> element.
\<close>

definition set_slider :: "string \<Rightarrow> js \<Rightarrow> fields \<Rightarrow> fields" where
  "set_slider i v f =
     (case inputs f (i @ ''-slider'') of
        None \<Rightarrow> f
      | Some _ \<Rightarrow>
          set_label (i @ ''-slider-value'') v
            (on_field (i @ ''-slider'') (\<lambda>s. s\<lparr>f_value := v, f_disabled := False\<rparr>) f))"

definition setValue :: "js \<Rightarrow> string \<Rightarrow> string \<Rightarrow> fields \<Rightarrow> fields \<times> bool" where
  "setValue data domain name f =
     (let i = domain @ ''_'' @ name
      in case inputs f i of
           None \<Rightarrow> (f, False)
         | Some el \<Rightarrow>
             if nullish data then (f, True)
             else let v = getp data name
                  in if v = JUndef then (f, False)
                     else let f1 = on_field i (\<lambda>e. e\<lparr>f_disabled := False,
                                     f_wrapper_disabled := map_option (\<lambda>_. False) (f_wrapper_disabled e)\<rparr>) f
                          in if f_type el = ''checkbox'' then (on_field i (\<lambda>e. e\<lparr>f_checked := truthy v\<rparr>) f1, False)
                             else let f2 = on_field i (\<lambda>e. e\<lparr>f_value := v\<rparr>) f1
                                  in if f_type el = ''range'' \<and> labels f2 (i @ ''-show'') = None then (f2, True)
                                     else (set_slider i v
                                             (if f_type el = ''range'' then set_label (i @ ''-show'') v f2 else f2), False))"

section \<open>The slider modal\<close>

text \<open>
  A number field with its limits: \<open>data_*\<close> are the \<open>data-\<close> attributes, \<open>attr_*\<close> the plain ones.
\<close>

record number_field =
  n_value :: string
  data_min :: "string option"
  data_max :: "string option"
  data_step :: "string option"
  attr_min :: "string option"
  attr_max :: "string option"
  attr_step :: "string option"
  n_label :: string

text \<open>\<open>parseInt(a) || parseInt(b) || fallback\<close>; a missing attribute parses to \<open>NaN\<close>.\<close>

definition parsed_limit :: "string option \<Rightarrow> string option \<Rightarrow> int \<Rightarrow> int" where
  "parsed_limit a b fallback =
     (let p = (\<lambda>t. case t of None \<Rightarrow> 0 | Some s \<Rightarrow> (case parse_int None s of Fin q \<Rightarrow> \<lfloor>q\<rfloor> | _ \<Rightarrow> 0))
      in if p a \<noteq> 0 then p a else if p b \<noteq> 0 then p b else fallback)"

record slider_modal =
  sl_fields :: "string \<rightharpoonup> number_field"
  sl_title :: string
  sl_min :: int
  sl_max :: int
  sl_step :: int
  sl_value :: string
  sl_display :: string
  hiddenHandler :: "(string \<times> string) option" \<comment> \<open>field and initial value of the installed handler\<close>
  sl_open :: bool
  sl_changes :: "string list" \<comment> \<open>the fields that were sent a change event, in order\<close>

definition openSliderModal :: "(int \<Rightarrow> int \<Rightarrow> int \<Rightarrow> string \<Rightarrow> string) \<Rightarrow> string \<Rightarrow> slider_modal \<Rightarrow> slider_modal" where
  "openSliderModal range_value inputId m =
     (case sl_fields m inputId of
        None \<Rightarrow> m
      | Some input \<Rightarrow>
          let mn = parsed_limit (data_min input) (attr_min input) 0;
              mx = parsed_limit (data_max input) (attr_max input) 100;
              st = parsed_limit (data_step input) (attr_step input) 1;
              v = range_value mn mx st (if n_value input = [] then show_int mn else n_value input)
          in m\<lparr>sl_title := (if n_label input = [] then ''Value'' else n_label input),
               sl_min := mn, sl_max := mx, sl_step := st, sl_value := v, sl_display := v,
               hiddenHandler := Some (inputId, n_value input), sl_open := True\<rparr>)"

text \<open>Sliding changes the slider and its display only; the field is written when the modal is hidden, once.\<close>

definition slider_input :: "string \<Rightarrow> slider_modal \<Rightarrow> slider_modal" where
  "slider_input v m = m\<lparr>sl_value := v, sl_display := v\<rparr>"

definition slider_hidden :: "slider_modal \<Rightarrow> slider_modal" where
  "slider_hidden m =
     (case hiddenHandler m of
        None \<Rightarrow> m\<lparr>sl_open := False\<rparr>
      | Some (i, initialValue) \<Rightarrow>
          let m1 = m\<lparr>sl_open := False, hiddenHandler := None\<rparr>
          in if sl_value m = initialValue then m1
             else m1\<lparr>sl_fields := (\<lambda>j. if j = i then map_option (\<lambda>n. n\<lparr>n_value := sl_value m\<rparr>) (sl_fields m i) else sl_fields m j),
                     sl_changes := sl_changes m @ [i]\<rparr>)"

text \<open>A button opens the modal for the text field of its group and is bound once.\<close>

record slider_button =
  sliderInitialized :: bool
  group_input :: "string option"
  click_listeners :: nat

definition attachSliderButtons :: "slider_button list \<Rightarrow> slider_button list" where
  "attachSliderButtons bs =
     map (\<lambda>b. if sliderInitialized b then b
              else b\<lparr>sliderInitialized := True, click_listeners := Suc (click_listeners b)\<rparr>) bs"

definition slider_button_click ::
  "(int \<Rightarrow> int \<Rightarrow> int \<Rightarrow> string \<Rightarrow> string) \<Rightarrow> slider_button \<Rightarrow> slider_modal \<Rightarrow> slider_modal" where
  "slider_button_click range_value b m =
     (case group_input b of Some i \<Rightarrow> if i = [] then m else openSliderModal range_value i m | None \<Rightarrow> m)"

section \<open>Inline sliders\<close>

record inline_slider =
  is_min :: int
  is_max :: int
  is_input :: string
  is_slider :: string
  is_text :: string

definition initSlider :: "string option \<Rightarrow> string option \<Rightarrow> inline_slider \<Rightarrow> inline_slider" where
  "initSlider min_attr max_attr s = s\<lparr>is_min := parsed_limit min_attr None 0, is_max := parsed_limit max_attr None 100\<rparr>"

definition inline_slide :: "string \<Rightarrow> inline_slider \<Rightarrow> inline_slider" where
  "inline_slide v s = s\<lparr>is_slider := v, is_input := v, is_text := v\<rparr>"

definition typed_value :: "inline_slider \<Rightarrow> string \<Rightarrow> int" where
  "typed_value s v =
     (let n = (case parse_int None v of Fin q \<Rightarrow> \<lfloor>q\<rfloor> | _ \<Rightarrow> 0); k = (if n = 0 then is_min s else n)
      in max (is_min s) (min (is_max s) k))"

definition inline_type :: "string \<Rightarrow> inline_slider \<Rightarrow> inline_slider" where
  "inline_type v s =
     s\<lparr>is_input := v, is_slider := show_int (typed_value s v), is_text := show_int (typed_value s v)\<rparr>"

section \<open>Automatic values and passwords\<close>

record auto_box =
  a_checked :: bool
  a_saved :: string \<comment> \<open>\<open>data-value\<close>\<close>
  a_value :: string
  a_disabled :: bool
  a_show :: string

definition toggleAuto :: "auto_box \<Rightarrow> auto_box" where
  "toggleAuto b =
     (if a_checked b then b\<lparr>a_saved := a_value b, a_value := ''auto'', a_disabled := True, a_show := ''--''\<rparr>
      else b\<lparr>a_value := a_saved b, a_disabled := False, a_show := a_saved b\<rparr>)"

record password_field =
  p_type :: string
  p_ready :: bool
  p_button :: "(string \<times> string) option" \<comment> \<open>label and icon of the reveal button\<close>

definition initPasswordReveal :: "password_field \<Rightarrow> password_field" where
  "initPasswordReveal p =
     (if p_type p = ''password'' \<and> \<not> p_ready p
      then p\<lparr>p_ready := True, p_button := Some (''Show password'', ''bi bi-eye'')\<rparr> else p)"

definition reveal_click :: "password_field \<Rightarrow> password_field" where
  "reveal_click p =
     (let reveal = (p_type p = ''password'')
      in p\<lparr>p_type := (if reveal then ''text'' else ''password''),
           p_button := Some (if reveal then (''Hide password'', ''bi bi-eye-slash'') else (''Show password'', ''bi bi-eye''))\<rparr>)"

section \<open>The debug dialog\<close>

text \<open>
  \<open>panels\<close> are the texts of the \<open>.ui-debug\<close> panels; the dialog shows copies of them. With the framework
  the dialog is shown and hidden by it and the button is released by its hidden event.
\<close>

record debug_ui =
  panels :: "string list"
  panels_hidden :: bool
  footer_stack :: bool
  debug_button :: bool
  debug_bound :: bool
  debug_active :: bool
  debug_made :: bool
  debug_shown :: bool
  debug_body :: "string list"
  retries :: "nat list" \<comment> \<open>the attempts the armed timers will make\<close>

definition ensureDebugModalStructure :: "debug_ui \<Rightarrow> debug_ui" where
  "ensureDebugModalStructure d =
     (if debug_made d then d else d\<lparr>debug_made := True, debug_shown := False, debug_body := [''No debug information available.'']\<rparr>)"

definition populateDebugModalContent :: "debug_ui \<Rightarrow> debug_ui" where
  "populateDebugModalContent d =
     (let d1 = ensureDebugModalStructure d
      in d1\<lparr>debug_body := (if panels d1 = [] then [''No debug information available.''] else panels d1)\<rparr>)"

definition hideDebugModal :: "bool \<Rightarrow> debug_ui \<Rightarrow> debug_ui" where
  "hideDebugModal bootstrap d =
     (if \<not> debug_made d then d
      else if bootstrap then d\<lparr>debug_shown := False\<rparr>
      else d\<lparr>debug_shown := False, debug_active := False\<rparr>)"

definition showDebugModal :: "debug_ui \<Rightarrow> debug_ui" where
  "showDebugModal d = (if debug_made d then d\<lparr>debug_shown := True\<rparr> else d)"

definition debug_hidden_event :: "debug_ui \<Rightarrow> debug_ui" where
  "debug_hidden_event d = d\<lparr>debug_active := False\<rparr>"

definition debug_click :: "bool \<Rightarrow> debug_ui \<Rightarrow> debug_ui" where
  "debug_click bootstrap d =
     (let d1 = ensureDebugModalStructure d
      in if debug_shown d1 then hideDebugModal bootstrap d1
         else showDebugModal ((populateDebugModalContent d1)\<lparr>debug_active := True\<rparr>))"

definition ensureDebugControl :: "nat \<Rightarrow> debug_ui \<Rightarrow> debug_ui" where
  "ensureDebugControl attempt d =
     (if panels d = [] then d
      else let d1 = d\<lparr>panels_hidden := True\<rparr>
           in if \<not> footer_stack d1
              then (if attempt < 20 then d1\<lparr>retries := retries d1 @ [Suc attempt]\<rparr> else d1)
              else d1\<lparr>debug_button := True, debug_bound := True\<rparr>)"

definition debug_retry :: "debug_ui \<Rightarrow> debug_ui" where
  "debug_retry d = (case retries d of [] \<Rightarrow> d | a # as \<Rightarrow> ensureDebugControl a (d\<lparr>retries := as\<rparr>))"

section \<open>Lemmas\<close>

lemma typed_value_bounds: "is_min s \<le> is_max s \<Longrightarrow> is_min s \<le> typed_value s v \<and> typed_value s v \<le> is_max s"
  by (simp add: typed_value_def Let_def)

lemma toggleAuto_restores:
  "\<not> a_checked b \<Longrightarrow> a_value (toggleAuto ((toggleAuto (b\<lparr>a_checked := True\<rparr>))\<lparr>a_checked := False\<rparr>)) = a_value b"
  by (simp add: toggleAuto_def)

lemma reveal_involutive: "p_type p = ''password'' \<Longrightarrow> p_type (reveal_click (reveal_click p)) = ''password''"
  by (simp add: reveal_click_def)

lemma attach_idempotent: "attachSliderButtons (attachSliderButtons bs) = attachSliderButtons bs"
  by (simp add: attachSliderButtons_def)

lemma debug_retries_end:
  "retries d = [a] \<Longrightarrow> \<not> footer_stack d \<Longrightarrow> 20 < a + n \<Longrightarrow> 0 < n \<Longrightarrow> retries ((debug_retry ^^ n) d) = []"
proof (induction n arbitrary: d a)
  case (Suc n)
  define d1 where "d1 = debug_retry d"
  have "footer_stack d1 = False" "retries d1 = [] \<or> retries d1 = [Suc a] \<and> a < 20"
    using Suc.prems by (auto simp: d1_def debug_retry_def ensureDebugControl_def Let_def)
  moreover have "retries ((debug_retry ^^ n) e) = []" if "retries e = []" for e
    using that by (induction n) (simp_all add: debug_retry_def)
  ultimately have "retries ((debug_retry ^^ n) d1) = []"
    using Suc.IH [of d1 "Suc a"] Suc.prems by auto
  then show ?case by (simp add: d1_def funpow_swap1)
qed simp

lemma slider_fold_keeps:
  "sl_fields (fold slider_input vs m) = sl_fields m" "hiddenHandler (fold slider_input vs m) = hiddenHandler m"
  "sl_changes (fold slider_input vs m) = sl_changes m"
  "sl_value (fold slider_input vs m) = (if vs = [] then sl_value m else last vs)"
  by (induction vs arbitrary: m) (simp_all add: slider_input_def)

lemma inputs_on_field [simp]: "inputs (on_field i g f) = (\<lambda>j. if j = i then map_option g (inputs f i) else inputs f j)"
  by (simp add: on_field_def)

lemma inputs_set_label [simp]: "inputs (set_label i v f) = inputs f"
  by (simp add: set_label_def)

lemma inputs_set_slider: "inputs (set_slider i v f) i = inputs f i"
  by (simp add: set_slider_def split: option.splits)

lemma setValue_field:
  assumes "inputs f (domain @ ''_'' @ q) = Some el" "v \<noteq> JUndef"
    "f_type el = ''range'' \<Longrightarrow> labels f (domain @ ''_'' @ q @ ''-show'') \<noteq> None"
  obtains f' el' where "setValue (JObj [(q, v)]) domain q f = (f', False)" "inputs f' (domain @ ''_'' @ q) = Some el'"
    "f_type el' = f_type el"
    "f_type el = ''checkbox'' \<Longrightarrow> f_checked el' = truthy v" "f_type el \<noteq> ''checkbox'' \<Longrightarrow> f_value el' = v"
proof -
  have r: "labels f (domain @ CHR ''_'' # q @ ''-show'') \<noteq> None" if "f_type el = ''range''"
    using assms(3) [OF that] by simp
  show thesis
    using assms(1,2) r that
    by (cases "f_type el = ''checkbox''"; cases "f_type el = ''range''")
      (auto simp: setValue_def nullish_def Let_def inputs_set_slider on_field_def)
qed

section \<open>Properties\<close>

text \<open>
  The slider modal writes the field it was opened for, once and last: however often it was opened
  before without being closed, whatever positions the slider went through, closing it gives the last
  opened field the last position, sends that field one change event exactly when this differs from the
  value it had, and leaves every other field alone; hiding it again does nothing more.\<close>

theorem slider_commits_last:
  assumes "sl_fields m i = Some n" "sl_fields m j \<noteq> None"
  shows "let opened = openSliderModal rv i (fold slider_input us (openSliderModal rv j m));
             moved = fold slider_input vs opened; shut = slider_hidden moved
         in sl_fields shut = (sl_fields m)(i \<mapsto> n\<lparr>n_value := sl_value moved\<rparr>) \<and>
            sl_changes shut = sl_changes m @ (if sl_value moved = n_value n then [] else [i]) \<and>
            sl_fields (slider_hidden shut) = sl_fields shut \<and> sl_changes (slider_hidden shut) = sl_changes shut"
proof -
  obtain k where k: "sl_fields m j = Some k" using assms(2) by auto
  define o1 where "o1 = openSliderModal rv i (fold slider_input us (openSliderModal rv j m))"
  have o1: "sl_fields o1 = sl_fields m" "sl_changes o1 = sl_changes m" "hiddenHandler o1 = Some (i, n_value n)"
    using assms(1) k by (simp_all add: o1_def openSliderModal_def slider_fold_keeps Let_def)
  have "n\<lparr>n_value := n_value n\<rparr> = n" by simp
  then show ?thesis
    unfolding o1_def [symmetric] Let_def
    using o1 assms(1) by (auto simp: slider_hidden_def slider_fold_keeps Let_def fun_eq_iff)
qed

definition sample_slider :: slider_modal where
  "sample_slider = \<lparr>sl_fields = [''gain'' \<mapsto> \<lparr>n_value = ''3'', data_min = None, data_max = Some ''10'', data_step = None,
     attr_min = None, attr_max = None, attr_step = None, n_label = ''Gain''\<rparr>],
     sl_title = [], sl_min = 0, sl_max = 0, sl_step = 1, sl_value = [], sl_display = [], hiddenHandler = None,
     sl_open = False, sl_changes = []\<rparr>"

theorem slider_commits_last_witness:
  "sl_changes (slider_hidden (fold slider_input [''5'', ''7''] (openSliderModal (\<lambda>_ _ _ s. s) ''gain''
     (openSliderModal (\<lambda>_ _ _ s. s) ''gain'' sample_slider)))) = [''gain'']"
  using slider_commits_last [of sample_slider "''gain''" _ "''gain''" "\<lambda>_ _ _ s. s" "[]" "[''5'', ''7'']"]
  by (simp add: sample_slider_def Let_def slider_input_def)

end
