(* ===== verification/Agent_Api.thy ===== *)
theory Agent_Api
  imports Url Dom
begin

text \<open>
  The agent interface of \<open>main.js\<close>: the address of an agent request (\<open>agentApiUrl\<close>), the reading of
  its answer (\<open>agentJsonRequest\<close>) and the cache of the agent's configuration (\<open>AgentConfigCache\<close>,
  \<open>getAgentConfig\<close>, \<open>invalidateAgentConfigCache\<close>). \<open>JSON.parse\<close> is the argument \<open>parse\<close> of the
  definitions that call it (\<open>None\<close> where it throws), so every theorem holds for each text whatever it
  parses to. A promise of the cache is known by the number of the request it waits for.
\<close>

section \<open>The address\<close>

definition agent_split :: "string \<Rightarrow> string \<times> string" where
  "agent_split rawPath =
     (let normalized = (if starts_with rawPath ''/'' then rawPath else CHR ''/'' # rawPath)
      in case index_of_char (CHR ''?'') normalized of
           Some queryIndex \<Rightarrow> (take queryIndex normalized, drop (Suc queryIndex) normalized)
         | None \<Rightarrow> (normalized, []))"

text \<open>The parser drops one leading question mark of the query it is given.\<close>

definition search_params :: "string \<Rightarrow> params" where
  "search_params query = parse_params (if starts_with query ''?'' then tl query else query)"

definition agentApiUrl :: "string \<Rightarrow> string" where
  "agentApiUrl path =
     (let (agentPath, query) = agent_split path
      in ''/x/agent.cgi?'' @ show_params (set_param ''agent_path'' agentPath (search_params query)))"

section \<open>The answer\<close>

record agent_error =
  message :: js
  err_status :: int
  err_body :: string

definition agent_error_of :: "js \<Rightarrow> string \<Rightarrow> int \<Rightarrow> agent_error" where
  "agent_error_of payload trimmedText st =
     \<lparr>message =
        js_or (and_prop (and_prop payload ''error'') ''message'')
         (js_or (and_prop payload ''message'')
           (js_or (if trimmedText \<noteq> [] \<and> length trimmedText \<le> 200 then JStr trimmedText else JNull)
             (JStr (''HTTP error '' @ show_int st)))),
      err_status = st, err_body = trimmedText\<rparr>"

definition agent_payload :: "(string \<Rightarrow> js option) \<Rightarrow> string \<Rightarrow> js" where
  "agent_payload parse trimmedText =
     (if trimmedText = [] then JNull else (case parse trimmedText of Some v \<Rightarrow> v | None \<Rightarrow> JNull))"

text \<open>What the promise of \<open>agentJsonRequest\<close> becomes: a failed fetch is passed on as its message.\<close>

datatype agent_failure = Network string | Refused agent_error

definition agentJsonRequest :: "(string \<Rightarrow> js option) \<Rightarrow> outcome \<Rightarrow> agent_failure + js" where
  "agentJsonRequest parse out =
     (case out of
        Rejected msg \<Rightarrow> Inl (Network msg)
      | Answer r \<Rightarrow>
          (let trimmedText = trim (text_body r); payload = agent_payload parse trimmedText
           in if \<not> resp_ok r then Inl (Refused (agent_error_of payload trimmedText (status r)))
              else Inr payload))"

section \<open>The configuration cache\<close>

text \<open>
  \<open>conf_pending\<close> names the request whose promise is shared, \<open>conf_value\<close> and \<open>fetchedAt\<close> are the last
  answer and its time. \<open>in_flight\<close> and \<open>next_req\<close> belong to the browser: the requests that have not
  settled and the number of the next one.
\<close>

record config_cache =
  conf_pending :: "nat option"
  conf_value :: js
  fetchedAt :: int
  in_flight :: "nat list"
  next_req :: nat

definition AgentConfigCache :: config_cache where
  "AgentConfigCache = \<lparr>conf_pending = None, conf_value = JNull, fetchedAt = 0, in_flight = [], next_req = 0\<rparr>"

definition invalidateAgentConfigCache :: "config_cache \<Rightarrow> config_cache" where
  "invalidateAgentConfigCache c = c\<lparr>conf_pending := None, conf_value := JNull, fetchedAt := 0\<rparr>"

datatype config_result = Cached js | Awaits nat

definition getAgentConfig :: "bool \<Rightarrow> int \<Rightarrow> int \<Rightarrow> config_cache \<Rightarrow> config_cache \<times> config_result" where
  "getAgentConfig force maxAgeMs now c =
     (if \<not> force \<and> truthy (conf_value c) \<and> now - fetchedAt c \<le> maxAgeMs then (c, Cached (conf_value c))
      else case (if force then None else conf_pending c) of
        Some n \<Rightarrow> (c, Awaits n)
      | None \<Rightarrow>
          (c\<lparr>conf_pending := Some (next_req c), in_flight := in_flight c @ [next_req c],
             next_req := Suc (next_req c)\<rparr>, Awaits (next_req c)))"

text \<open>Request \<open>n\<close> settles at time \<open>now\<close>: the \<open>then\<close> handler on success, then the \<open>finally\<close> handler.\<close>

definition config_settle :: "nat \<Rightarrow> agent_failure + js \<Rightarrow> int \<Rightarrow> config_cache \<Rightarrow> config_cache" where
  "config_settle n res now c =
     (let c1 = c\<lparr>in_flight := remove1 n (in_flight c)\<rparr>;
          c2 = (case res of Inr payload \<Rightarrow> c1\<lparr>conf_value := payload, fetchedAt := now\<rparr> | Inl _ \<Rightarrow> c1)
      in c2\<lparr>conf_pending := None\<rparr>)"

datatype config_event = Read bool int int | Settle nat "agent_failure + js" int | Invalidate

fun config_step :: "config_event \<Rightarrow> config_cache \<Rightarrow> config_cache" where
  "config_step (Read force maxAge now) c = fst (getAgentConfig force maxAge now c)"
| "config_step (Settle n res now) c = (if n \<in> set (in_flight c) then config_settle n res now c else c)"
| "config_step Invalidate c = invalidateAgentConfigCache c"

definition config_run :: "config_event list \<Rightarrow> config_cache \<Rightarrow> config_cache" where
  "config_run es c = fold config_step es c"

section \<open>Lemmas\<close>

definition shared_event :: "config_event \<Rightarrow> bool" where
  "shared_event e = (case e of Read force _ _ \<Rightarrow> \<not> force | Settle _ _ _ \<Rightarrow> True | Invalidate \<Rightarrow> False)"

definition shared_inv :: "config_cache \<Rightarrow> bool" where
  "shared_inv c \<longleftrightarrow> in_flight c = (case conf_pending c of Some n \<Rightarrow> [n] | None \<Rightarrow> [])"

lemma shared_inv_step: "shared_inv c \<Longrightarrow> shared_event e \<Longrightarrow> shared_inv (config_step e c)"
  by (cases e) (auto simp: shared_inv_def shared_event_def getAgentConfig_def config_settle_def Let_def
      split: option.splits sum.splits)

lemma shared_inv_run: "shared_inv c \<Longrightarrow> list_all shared_event es \<Longrightarrow> shared_inv (config_run es c)"
  unfolding config_run_def by (induction es arbitrary: c) (simp_all add: shared_inv_step)

lemma shared_inv_init: "shared_inv AgentConfigCache"
  by (simp add: shared_inv_def AgentConfigCache_def)

lemma agent_split_path:
  assumes "agent_split p = (a, q)"
  shows "CHR ''?'' \<notin> set a" and "starts_with a ''/''"
proof -
  define n where "n = (if starts_with p ''/'' then p else CHR ''/'' # p)"
  have hd: "\<exists>r. n = CHR ''/'' # r" by (cases p) (auto simp: n_def)
  have aq: "(case index_of_char (CHR ''?'') n of Some i \<Rightarrow> (take i n, drop (Suc i) n) | None \<Rightarrow> (n, [])) = (a, q)"
    using assms unfolding agent_split_def n_def Let_def .
  show "CHR ''?'' \<notin> set a"
    using aq index_of_char_Some [of "CHR ''?''" n] index_of_char_None [of "CHR ''?''" n]
    by (auto split: option.splits)
  show "starts_with a ''/''"
  proof (cases "index_of_char (CHR ''?'') n")
    case None
    then show ?thesis using aq hd by auto
  next
    case (Some i)
    with hd have "0 < i" by (cases i) auto
    then show ?thesis using aq hd Some by (cases i) auto
  qed
qed

lemma agent_split_join:
  assumes "CHR ''?'' \<notin> set a" "starts_with a ''/''"
  shows "agent_split (a @ CHR ''?'' # q) = (a, q)"
proof -
  obtain r where "a = CHR ''/'' # r" using assms by (cases a) auto
  then show ?thesis using assms by (simp add: agent_split_def index_of_char_append)
qed

lemma falsy_getp: "\<not> truthy v \<Longrightarrow> getp v k = JUndef"
  by (cases v) auto

lemma getp_and_prop: "getp (and_prop v j) k = getp (getp v j) k"
  by (simp add: and_prop_def falsy_getp)

lemma js_or_and_prop: "js_or (and_prop v k) b = js_or (getp v k) b"
  by (simp add: js_or_def and_prop_def falsy_getp)

lemma agent_message:
  "err_status (agent_error_of p t st) = st \<and> err_body (agent_error_of p t st) = t \<and>
   truthy (message (agent_error_of p t st)) \<and>
   (if truthy (getp (getp p ''error'') ''message'')
    then message (agent_error_of p t st) = getp (getp p ''error'') ''message''
    else if truthy (getp p ''message'') then message (agent_error_of p t st) = getp p ''message''
    else if t \<noteq> [] \<and> length t \<le> 200 then message (agent_error_of p t st) = JStr t
    else message (agent_error_of p t st) = JStr (''HTTP error '' @ show_int st))"
  by (simp add: agent_error_of_def js_or_and_prop getp_and_prop) (simp add: js_or_def)

section \<open>Properties\<close>


text \<open>
  A refused agent request always explains itself: the error carries the status and the trimmed text,
  its message is never empty, it is the server's \<open>error.message\<close> where that is given, else its \<open>message\<close>,
  else the text where that is short, else the status. A request that is not refused gives the parsed text,
  and \<open>null\<close> for a text that is empty or does not parse.\<close>

theorem agent_answer_read:
  "\<exists>payload. payload = agent_payload parse (trim (text_body r)) \<and>
     (case agentJsonRequest parse (Answer r) of
        Inr v \<Rightarrow> resp_ok r \<and> v = payload
      | Inl (Network _) \<Rightarrow> False
      | Inl (Refused e) \<Rightarrow>
          \<not> resp_ok r \<and> err_status e = status r \<and> err_body e = trim (text_body r) \<and> truthy (message e) \<and>
          (if truthy (getp (getp payload ''error'') ''message'')
           then message e = getp (getp payload ''error'') ''message''
           else if truthy (getp payload ''message'') then message e = getp payload ''message''
           else if err_body e \<noteq> [] \<and> length (err_body e) \<le> 200 then message e = JStr (err_body e)
           else message e = JStr (''HTTP error '' @ show_int (status r))))"
proof (cases "resp_ok r")
  case True
  then show ?thesis by (simp add: agentJsonRequest_def Let_def)
next
  case False
  then show ?thesis
    using agent_message [of "agent_payload parse (trim (text_body r))" "trim (text_body r)" "status r"]
    by (simp add: agentJsonRequest_def Let_def)
qed

text \<open>
  Reads of the configuration share one request: as long as nobody forces or invalidates, at most one
  request is under way in any state the page can reach, and a further read either is answered by the
  cached value or waits for that one request; it starts a request only when none is under way.\<close>

theorem config_requests_shared:
  assumes "list_all shared_event es"
  shows "let c = config_run es AgentConfigCache; (c', r) = getAgentConfig False maxAge now c
         in length (in_flight c) \<le> 1 \<and>
            (case r of
               Cached v \<Rightarrow> c' = c \<and> v = conf_value c \<and> now - fetchedAt c \<le> maxAge
             | Awaits n \<Rightarrow> in_flight c' = [n] \<and> (c' = c \<or> in_flight c = []))"
proof -
  have "shared_inv (config_run es AgentConfigCache)"
    using assms by (simp add: shared_inv_run shared_inv_init)
  then show ?thesis
    by (auto simp: shared_inv_def getAgentConfig_def Let_def split: option.splits)
qed

theorem config_requests_shared_witness:
  "let c = config_run [Read False 3000 10] AgentConfigCache; (c', r) = getAgentConfig False 3000 20 c
   in length (in_flight c) \<le> 1 \<and>
      (case r of
         Cached v \<Rightarrow> c' = c \<and> v = conf_value c \<and> 20 - fetchedAt c \<le> 3000
       | Awaits n \<Rightarrow> in_flight c' = [n] \<and> (c' = c \<or> in_flight c = []))"
  by (rule config_requests_shared) (simp add: shared_event_def)

text \<open>Invalidation does not reach a request that is under way: whatever answer such a request brings
  later is cached and served to the readers that come after the invalidation, for as long as the
  maximum age allows, without a new request.\<close>

theorem stale_config_after_invalidate:
  "truthy old \<and> t1 - t0 \<le> maxAge \<longrightarrow>
   (let c = config_run [Read False maxAge s, Invalidate, Settle 0 (Inr old) t0] AgentConfigCache
    in getAgentConfig False maxAge t1 c = (c, Cached old) \<and> in_flight c = [])"
  by (simp add: config_run_def AgentConfigCache_def getAgentConfig_def invalidateAgentConfigCache_def
      config_settle_def Let_def)

theorem stale_config_after_invalidate_witness:
  "let c = config_run [Read False 3000 0, Invalidate, Settle 0 (Inr (JStr ''old'')) 5] AgentConfigCache
   in getAgentConfig False 3000 6 c = (c, Cached (JStr ''old'')) \<and> in_flight c = []"
  using stale_config_after_invalidate [of "JStr ''old''" 6 5 3000 0] by simp

end
