(* ===== verification/Send.thy ===== *)
theory Send
  imports Agent_Api
begin

text \<open>
  The sending of snapshots and clips of \<open>main.js\<close>: the grid of the send modal with its targets and its
  two download links (\<open>buildSendModalGrid\<close>), the snapshot download with its fallback, the send buttons,
  and the helpers the \<open>tool-send2\<close> pages share (\<open>send2Load\<close>, \<open>send2Save\<close>, \<open>send2SetupReload\<close>).
  The page's own functions that the helpers call (\<open>populateFn\<close>, \<open>buildPayloadFn\<close>, \<open>loadConfigFn\<close>) are
  given by what they return or the message they throw.
\<close>

datatype send_effect =
    Do effect
  | Download string
  | OpenWindow string
  | PostEmpty string
  | BusyOn string
  | BusyOff

section \<open>The send modal\<close>

definition sendModalTargets :: "(string \<times> string) list" where
  "sendModalTargets =
     [(''email'', ''Email''), (''ftp'', ''FTP''), (''mqtt'', ''MQTT''), (''ntfy'', ''Ntfy''),
      (''storage'', ''Storage''), (''telegram'', ''Telegram''), (''webhook'', ''Webhook'')]"

text \<open>A button of the grid: what it sends to, and the type it asks for (none for the configured one).\<close>

record send_button =
  sendto :: string
  b_type :: "string option"
  b_title :: string

definition target_buttons :: "string \<Rightarrow> send_button list" where
  "target_buttons key =
     [\<lparr>sendto = key, b_type = None, b_title = ''Send as configured''\<rparr>,
      \<lparr>sendto = key, b_type = Some ''photo'', b_title = ''Send photo only''\<rparr>,
      \<lparr>sendto = key, b_type = Some ''video'', b_title = ''Send video only''\<rparr>]"

text \<open>The download links: \<open>dl_data\<close> is \<open>data-disabled\<close>.\<close>

record dl_link =
  dl_stream :: nat
  dl_data :: string
  dl_class_disabled :: bool
  dl_aria :: "string option"
  dl_tabindex :: bool
  dl_title :: string
  dl_enabledTitle :: string

definition new_link :: "nat \<Rightarrow> string \<Rightarrow> dl_link" where
  "new_link n t = \<lparr>dl_stream = n, dl_data = [], dl_class_disabled = False, dl_aria = None, dl_tabindex = False,
     dl_title = t, dl_enabledTitle = t\<rparr>"

record send_grid =
  grid_buttons :: "send_button list"
  link0 :: dl_link
  link1 :: dl_link

definition buildSendModalGrid :: "send_grid \<times> send_effect list" where
  "buildSendModalGrid =
     (\<lparr>grid_buttons = concat (map (\<lambda>(k, _). target_buttons k) sendModalTargets),
       link0 = new_link 0 ''Download main stream'', link1 = new_link 1 ''Download substream''\<rparr>,
      [Do (Send (Get (agentApiUrl ''/api/v1/runtime/media'')))])"

definition resolveSnapshotStreamEnabled :: "js \<Rightarrow> string \<Rightarrow> bool" where
  "resolveSnapshotStreamEnabled mediaConfig streamKey =
     (let streams = (if truthy mediaConfig \<and> is_object mediaConfig then getp mediaConfig ''streams'' else JNull)
      in if \<not> truthy streams \<or> \<not> is_object streams then True
         else
           let altStreamKey = (if streamKey = ''ch0'' then ''stream0'' else ''stream1'');
               stream = js_or (getp streams streamKey) (js_or (getp streams altStreamKey) JNull)
           in if \<not> truthy stream \<or> \<not> is_object stream then False
              else if getp stream ''available'' = JBool False \<or> getp stream ''enabled'' = JBool False then False
              else if getp stream ''snapshot_url'' = JStr [] \<or> getp stream ''snapshot_url'' = JNull then False
              else True)"

definition setDownloadLinkEnabled :: "bool \<Rightarrow> string \<Rightarrow> dl_link \<Rightarrow> dl_link" where
  "setDownloadLinkEnabled enabled unavailableMessage l =
     (let l1 = l\<lparr>dl_data := (if enabled then ''false'' else ''true''), dl_class_disabled := \<not> enabled,
                 dl_aria := Some (if enabled then ''false'' else ''true'')\<rparr>
      in if enabled
         then l1\<lparr>dl_tabindex := False,
                 dl_title := (if dl_enabledTitle l = [] then ''Download snapshot'' else dl_enabledTitle l)\<rparr>
         else l1\<lparr>dl_tabindex := True, dl_title := unavailableMessage\<rparr>)"

definition media_settle :: "agent_failure + js \<Rightarrow> send_grid \<Rightarrow> send_grid" where
  "media_settle res g =
     (case res of
        Inr mediaConfig \<Rightarrow>
          g\<lparr>link0 := setDownloadLinkEnabled (resolveSnapshotStreamEnabled mediaConfig ''ch0'')
                       ''Download main stream is not available on this camera.'' (link0 g),
            link1 := setDownloadLinkEnabled (resolveSnapshotStreamEnabled mediaConfig ''ch1'')
                       ''Download substream is not available on this camera.'' (link1 g)\<rparr>
      | Inl _ \<Rightarrow>
          g\<lparr>link0 := setDownloadLinkEnabled True [] (link0 g), link1 := setDownloadLinkEnabled True [] (link1 g)\<rparr>)"

text \<open>
  The click on a download link, and the answer: a refused or failed request, or a body with its size and
  content type. \<open>stamp\<close> is the time in the name of the file.
\<close>

definition fallback_url :: "nat \<Rightarrow> string" where
  "fallback_url n = (if n = 0 then ''/x/dl0.jpg'' else ''/x/dl1.jpg'')"

definition download_click :: "dl_link \<Rightarrow> dl_link \<times> send_effect list" where
  "download_click l =
     (if dl_data l = ''true''
      then (l, [Do (Notice ''info'' [JStr (''Download Ch'' @ show_nat (dl_stream l) @
                  '' is unavailable for this camera stream.'')] 3500)])
      else (l\<lparr>dl_class_disabled := True, dl_aria := Some ''true''\<rparr>,
            [PostEmpty (agentApiUrl (''/api/v1/actions/snapshot?stream_id='' @ show_nat (dl_stream l)))]))"

datatype blob_outcome = NoBlob | BlobRefused int | Blob nat string

definition blob_usable :: "blob_outcome \<Rightarrow> bool" where
  "blob_usable out =
     (case out of
        Blob bytes type_text \<Rightarrow>
          0 < bytes \<and> \<not> includes_str (to_lower type_text) ''application/json'' \<and> \<not> starts_with (to_lower type_text) ''text/''
      | _ \<Rightarrow> False)"

definition snapshot_name :: "nat \<Rightarrow> string \<Rightarrow> string" where
  "snapshot_name n stamp =
     ''snapshot-ch'' @ show_nat n @ ''-'' @ replace_char (CHR '':'') (CHR ''-'') (replace_char (CHR ''.'') (CHR ''-'') stamp) @ ''.jpg''"

definition downloadSnapshot_settle :: "string \<Rightarrow> blob_outcome \<Rightarrow> dl_link \<Rightarrow> dl_link \<times> send_effect list" where
  "downloadSnapshot_settle stamp out l =
     (l\<lparr>dl_class_disabled := False, dl_aria := None\<rparr>,
      if blob_usable out then [Download (snapshot_name (dl_stream l) stamp)]
      else [Do (Notice ''warning''
              [JStr ''Agent snapshot download failed. Falling back to legacy snapshot endpoint.''] 5000),
            OpenWindow (fallback_url (dl_stream l))])"

section \<open>Send buttons\<close>

text \<open>A button marked with the bypass keeps its own handler. The others ask, and send when confirmed.\<close>

definition sendto_bound :: "string \<Rightarrow> bool" where
  "sendto_bound bypass_mark \<longleftrightarrow> bypass_mark \<noteq> ''1'' \<and> bypass_mark \<noteq> ''true''"

definition sendto_click :: "js \<Rightarrow> send_effect list" where
  "sendto_click opts = [Do (Confirm [js_or (getp opts ''message'') (JStr ''Send this action now?'')])]"

definition sendto_confirmed :: "bool \<Rightarrow> send_button \<Rightarrow> send_effect list" where
  "sendto_confirmed yes b =
     (if \<not> yes then []
      else [Do (Send (PostForm ''/x/send.cgi''
             ((''to'', sendto b) # (case b_type b of Some t \<Rightarrow> if t = [] then [] else [(''type'', t)] | None \<Rightarrow> []))))])"

section \<open>Shared helpers of the service pages\<close>

definition send2_url :: string where "send2_url = ''/x/json-send2.cgi''"

text \<open>\<open>err.message || err\<close>: an error without a message prints as its class.\<close>

definition err_text :: "js \<Rightarrow> js" where
  "err_text msg = js_or msg (JStr ''Error'')"

definition send2Load :: "string \<Rightarrow> send_effect list" where
  "send2Load service = [BusyOn (''Loading '' @ service @ '' settings...''), Do (Send (Get send2_url))]"

definition send2Load_failed :: "string \<Rightarrow> js \<Rightarrow> send_effect list" where
  "send2Load_failed service msg =
     [Do (Notice ''danger'' [JStr (''Failed to load '' @ service @ '' settings: ''), err_text msg] 6000), BusyOff]"

definition send2Load_settle :: "string \<Rightarrow> (js \<Rightarrow> js option) \<Rightarrow> outcome \<Rightarrow> send_effect list" where
  "send2Load_settle service populateFn out =
     (case out of
        Rejected msg \<Rightarrow> send2Load_failed service (JStr msg)
      | Answer r \<Rightarrow>
          if \<not> resp_ok r then send2Load_failed service (JStr ''Failed to load configuration'')
          else (case parsed r of
                  None \<Rightarrow> send2Load_failed service (JStr ''SyntaxError'')
                | Some data \<Rightarrow>
                    (case populateFn data of
                       Some msg \<Rightarrow> send2Load_failed service msg
                     | None \<Rightarrow> [BusyOff])))"

text \<open>
  Saving: the form is validated in the submit handler; \<open>validated\<close> is the class \<open>was-validated\<close> of the form.
  A payload function that throws is caught like a failed request.
\<close>

definition send2_failed :: "js \<Rightarrow> send_effect list" where
  "send2_failed msg = [Do (Notice ''danger'' [JStr ''Failed to save settings: '', err_text msg] 6000), BusyOff]"

definition send2Save :: "string \<Rightarrow> bool \<Rightarrow> js + js \<Rightarrow> bool \<Rightarrow> bool \<times> send_effect list" where
  "send2Save service valid payload validated =
     (if \<not> valid then (True, [])
      else (validated,
            BusyOn (''Saving '' @ service @ '' settings...'') #
            (case payload of
               Inl msg \<Rightarrow> send2_failed msg
             | Inr v \<Rightarrow> [Do (Send (PostJson send2_url v))])))"

definition send2Save_settle :: "string \<Rightarrow> outcome \<Rightarrow> bool \<Rightarrow> bool \<times> send_effect list" where
  "send2Save_settle service out validated =
     (case out of
        Rejected msg \<Rightarrow> (validated, send2_failed (JStr msg))
      | Answer r \<Rightarrow>
          if \<not> resp_ok r then (validated, send2_failed (JStr ''Failed to save settings''))
          else (case parsed r of
                  None \<Rightarrow> (validated, send2_failed (JStr ''SyntaxError''))
                | Some result \<Rightarrow>
                    if nullish result then (validated, send2_failed (JStr ''TypeError''))
                    else if truthy (getp result ''error'')
                    then (validated, send2_failed (js_or (getp (getp result ''error'') ''message'') (JStr ''Failed to save settings'')))
                    else (False, [Do (Notice ''success'' [JStr (service @ '' settings saved successfully.'')] 3000), BusyOff])))"

text \<open>The reload button: disabled while the page's loader runs, enabled again whatever it did.\<close>

definition send2Reload_click :: "bool \<Rightarrow> bool" where
  "send2Reload_click button_disabled = True"

definition send2Reload_settle :: "string \<Rightarrow> js option \<Rightarrow> bool \<times> send_effect list" where
  "send2Reload_settle service threw =
     (False,
      case threw of
        None \<Rightarrow> [Do (Notice ''info'' [JStr (service @ '' settings reloaded from camera.'')] 3000)]
      | Some _ \<Rightarrow> [Do (Notice ''danger'' [JStr (''Failed to reload '' @ service @ '' settings.'')] 6000)])"

section \<open>Lemmas\<close>

fun notice_kinds :: "send_effect list \<Rightarrow> string list" where
  "notice_kinds [] = []"
| "notice_kinds (Do (Notice k _ _) # fx) = k # notice_kinds fx"
| "notice_kinds (_ # fx) = notice_kinds fx"

definition busy_balance :: "send_effect list \<Rightarrow> int" where
  "busy_balance fx = int (length (filter (\<lambda>e. \<exists>s. e = BusyOn s) fx)) - int (count_list fx BusyOff)"

definition accepted :: "outcome \<Rightarrow> bool" where
  "accepted out = (case out of
     Rejected _ \<Rightarrow> False
   | Answer r \<Rightarrow> resp_ok r \<and> (case parsed r of Some v \<Rightarrow> \<not> nullish v \<and> \<not> truthy (getp v ''error'') | None \<Rightarrow> False))"

lemma send2_failed_effects: "notice_kinds (send2_failed msg) = [''danger''] \<and> busy_balance (send2_failed msg) = - 1"
  by (simp add: send2_failed_def busy_balance_def)

lemma snapshot_split:
  "agent_split (''/api/v1/actions/snapshot?stream_id='' @ s) = (''/api/v1/actions/snapshot'', ''stream_id='' @ s)"
  using agent_split_join [of "''/api/v1/actions/snapshot''" "''stream_id='' @ s"] by simp

lemma digit_plain: "is_digit c \<Longrightarrow> c \<notin> {CHR ''%'', CHR ''+'', CHR ''&'', CHR ''='', CHR ''?''}"
  by (auto simp: is_digit_def)

lemma snapshot_query: "search_params (''stream_id='' @ show_nat n) = [(''stream_id'', show_nat n)]"
proof -
  have "parse_params (''stream_id'' @ CHR ''='' # show_nat n) = [(''stream_id'', show_nat n)]"
    using show_nat_digits [of _ n] digit_plain by (intro parse_single) auto
  then show ?thesis by (simp add: search_params_def)
qed

lemma snapshot_url:
  "agentApiUrl (''/api/v1/actions/snapshot?stream_id='' @ show_nat n) = ''/x/agent.cgi?'' @
     show_params [(''stream_id'', show_nat n), (''agent_path'', ''/api/v1/actions/snapshot'')]"
  unfolding agentApiUrl_def snapshot_split by (simp add: snapshot_query del: append.simps)

section \<open>Properties\<close>

text \<open>
  A service page never hangs and never lies: a save of an invalid form sends nothing and marks the
  form; otherwise the busy bar that the save shows is taken down exactly once by the answer (or by a
  payload that fails), and the user is told of success exactly when the server accepted the settings and
  of a failure in every other case.\<close>

theorem send2_save_reports:
  "send2Save service False payload validated = (True, []) \<and>
   busy_balance (snd (send2Save service True (Inr v) validated)) = 1 \<and>
   busy_balance (snd (send2Save service True (Inl msg) validated)) = 0 \<and>
   busy_balance (snd (send2Save_settle service out validated)) = - 1 \<and>
   notice_kinds (snd (send2Save_settle service out validated)) = [if accepted out then ''success'' else ''danger''] \<and>
   fst (send2Save_settle service out validated) = (validated \<and> \<not> accepted out)"
proof -
  have "busy_balance (snd (send2Save_settle service out validated)) = - 1 \<and>
   notice_kinds (snd (send2Save_settle service out validated)) = [if accepted out then ''success'' else ''danger''] \<and>
   fst (send2Save_settle service out validated) = (validated \<and> \<not> accepted out)"
    using send2_failed_effects
    by (auto simp: send2Save_settle_def accepted_def busy_balance_def split: outcome.splits option.splits)
  then show ?thesis
    by (simp add: send2Save_def send2_failed_def busy_balance_def)
qed

text \<open>
  A snapshot download always delivers: an enabled link asks the agent for its own stream, and whatever
  the answer is, the user gets either the downloaded image or the window of the legacy address of that
  stream, the link can be used again, and its availability mark is what it was; an unavailable link asks
  for nothing.\<close>

theorem snapshot_delivered:
  "(dl_data l = ''true'' \<longrightarrow> (\<exists>m. download_click l = (l, [Do (Notice ''info'' m 3500)]))) \<and>
   (dl_data l \<noteq> ''true'' \<longrightarrow>
      (\<exists>qs. snd (download_click l) = [PostEmpty (''/x/agent.cgi?'' @ qs)] \<and>
         parse_params qs = [(''stream_id'', show_nat (dl_stream l)), (''agent_path'', ''/api/v1/actions/snapshot'')])) \<and>
   (let (l1, fx) = downloadSnapshot_settle stamp out (fst (download_click l))
    in (if blob_usable out then fx = [Download (snapshot_name (dl_stream l) stamp)]
        else \<exists>n. fx = [n, OpenWindow (fallback_url (dl_stream l))]) \<and>
       \<not> dl_class_disabled l1 \<and> dl_data l1 = dl_data l)"
proof (intro conjI impI)
  assume "dl_data l = ''true''"
  then show "\<exists>m. download_click l = (l, [Do (Notice ''info'' m 3500)])" by (simp add: download_click_def)
next
  assume "dl_data l \<noteq> ''true''"
  then show "\<exists>qs. snd (download_click l) = [PostEmpty (''/x/agent.cgi?'' @ qs)] \<and>
      parse_params qs = [(''stream_id'', show_nat (dl_stream l)), (''agent_path'', ''/api/v1/actions/snapshot'')]"
    unfolding download_click_def snapshot_url
    by (intro exI [of _ "show_params [(''stream_id'', show_nat (dl_stream l)), (''agent_path'', ''/api/v1/actions/snapshot'')]"])
      (simp add: parse_show_params del: append.simps)
next
  have "dl_stream (fst (download_click l)) = dl_stream l" "dl_data (fst (download_click l)) = dl_data l"
    by (simp_all add: download_click_def)
  then show "let (l1, fx) = downloadSnapshot_settle stamp out (fst (download_click l))
      in (if blob_usable out then fx = [Download (snapshot_name (dl_stream l) stamp)]
          else \<exists>n. fx = [n, OpenWindow (fallback_url (dl_stream l))]) \<and>
         \<not> dl_class_disabled l1 \<and> dl_data l1 = dl_data l"
    by (simp add: downloadSnapshot_settle_def)
qed

theorem snapshot_delivered_witness:
  "snd (download_click (new_link 1 ''Download substream'')) \<noteq> [] \<and>
   snd (downloadSnapshot_settle ''2024-01-01T00:00:00.000Z'' (Blob 0 ''image/jpeg'')
     (fst (download_click (new_link 1 ''Download substream'')))) \<noteq> []"
  using snapshot_delivered [of "new_link 1 ''Download substream''" "''2024-01-01T00:00:00.000Z''" "Blob 0 ''image/jpeg''"]
  by (auto simp: new_link_def blob_usable_def split_def)

end
