(* ===== verification/File_List.thy ===== *)
theory File_List
  imports Url Dom "HOL-Library.Multiset"
begin

text \<open>
  The directory listing of \<open>tool-file-manager.js\<close>: the kinds of files, the sorting of the table, the
  signature of a listing, the loading of a directory with its history and background refresh, and the
  watch timer. An entry has the texts and flags the file manager's CGI script sends. The collation of
  \<open>localeCompare\<close> is the argument \<open>loc\<close> of the definitions that sort.
\<close>

section \<open>Files\<close>

record entry =
  path :: string
  name :: string
  e_size :: string
  perm :: string
  e_time :: string
  is_dir :: bool
  is_link :: bool
  link_target :: string
  deletable :: bool

definition encodePath :: "string \<Rightarrow> string" where
  "encodePath p = encodeURIComponent p"

definition extension :: "string \<Rightarrow> string" where
  "extension filename = last (split_on (CHR ''.'') (to_lower filename))"

definition textExtensions :: "string list" where
  "textExtensions =
     [''txt'', ''log'', ''conf'', ''config'', ''cfg'', ''ini'', ''json'', ''xml'', ''html'', ''htm'', ''css'', ''js'',
      ''sh'', ''py'', ''pl'', ''rb'', ''c'', ''cpp'', ''h'', ''hpp'', ''java'', ''md'', ''rst'', ''csv'', ''sql'', ''yaml'', ''yml'']"

definition isTextFile :: "string \<Rightarrow> bool" where
  "isTextFile filename \<longleftrightarrow> extension filename \<in> set textExtensions \<or> CHR ''.'' \<notin> set filename"

definition isImageFile :: "string \<Rightarrow> bool" where
  "isImageFile filename \<longleftrightarrow>
     extension filename \<in> set [''jpg'', ''jpeg'', ''png'', ''gif'', ''bmp'', ''webp'', ''svg'']"

definition isVideoFile :: "string \<Rightarrow> bool" where
  "isVideoFile filename \<longleftrightarrow> extension filename \<in> set [''mp4'', ''avi'', ''mov'', ''mkv'', ''webm'']"

text \<open>What a click on a file opens: a preview, the player, or the actions with edit and delete offered or not.\<close>

datatype file_dialog =
    ImagePreview string string
  | VideoPlayer string string
  | FileActions string string string "string option" "string option"

definition icon_class :: "string \<Rightarrow> string" where
  "icon_class filename =
     (let ext = extension filename
      in if ext \<in> set [''txt'', ''log'', ''md'', ''json'', ''xml'', ''html'', ''css'', ''js''] then ''bi-file-text''
         else if ext = ''pdf'' then ''bi-file-pdf''
         else if ext \<in> set [''zip'', ''tar'', ''gz'', ''rar''] then ''bi-file-zip'' else ''bi-file-earmark'')"

definition file_click :: "entry list \<Rightarrow> string \<Rightarrow> string \<Rightarrow> file_dialog" where
  "file_click rawEntries fileName filePath =
     (if isImageFile fileName then ImagePreview fileName (''/x/tool-file-manager.cgi?dl='' @ encodePath filePath)
      else if isVideoFile fileName then VideoPlayer fileName (''/x/tool-file-manager.cgi?play='' @ encodePath filePath)
      else FileActions fileName filePath (icon_class fileName)
             (if isTextFile fileName then Some filePath else None)
             (case find (\<lambda>e. path e = filePath) rawEntries of
                Some e \<Rightarrow> if deletable e then Some filePath else None
              | None \<Rightarrow> None))"

section \<open>Sorting\<close>

text \<open>
  \<open>Array.prototype.sort\<close> is stable: for a consistent comparison its result is the one stable sorted
  arrangement, which insertion from the right computes.
\<close>

fun insert_by :: "('a \<Rightarrow> 'a \<Rightarrow> int) \<Rightarrow> 'a \<Rightarrow> 'a list \<Rightarrow> 'a list" where
  "insert_by cmp x [] = [x]"
| "insert_by cmp x (y # ys) = (if cmp x y \<le> 0 then x # y # ys else y # insert_by cmp x ys)"

definition js_sort :: "('a \<Rightarrow> 'a \<Rightarrow> int) \<Rightarrow> 'a list \<Rightarrow> 'a list" where
  "js_sort cmp xs = foldr (insert_by cmp) xs []"

definition size_key :: "entry \<Rightarrow> int" where
  "size_key e =
     (if e_size e = ''-'' then 0
      else case parse_int (Some 10) (e_size e) of Fin q \<Rightarrow> \<lfloor>q\<rfloor> | _ \<Rightarrow> 0)"

definition column_cmp :: "(string \<Rightarrow> string \<Rightarrow> int) \<Rightarrow> string \<Rightarrow> entry \<Rightarrow> entry \<Rightarrow> int" where
  "column_cmp loc col a b =
     (if col = ''name'' then loc (name a) (name b)
      else if col = ''size'' then size_key a - size_key b
      else if col = ''time'' then loc (e_time a) (e_time b)
      else if col = ''perm'' then loc (perm a) (perm b) else 0)"

definition entry_cmp :: "(string \<Rightarrow> string \<Rightarrow> int) \<Rightarrow> string \<Rightarrow> string \<Rightarrow> entry \<Rightarrow> entry \<Rightarrow> int" where
  "entry_cmp loc col direction a b =
     (if is_dir a \<noteq> is_dir b then (if is_dir a then - 1 else 1)
      else column_cmp loc col a b * (if direction = ''asc'' then 1 else - 1))"

definition sortEntries :: "(string \<Rightarrow> string \<Rightarrow> int) \<Rightarrow> string \<Rightarrow> string \<Rightarrow> entry list \<Rightarrow> entry list" where
  "sortEntries loc col direction es = js_sort (entry_cmp loc col direction) es"

section \<open>The listing\<close>

text \<open>A row of the table: the link with its text, target and download name, the suffix of a symbolic link, and the columns.\<close>

record row =
  row_text :: string
  row_href :: string
  row_path :: string
  row_download :: "string option"
  row_suffix :: string
  row_size :: string
  row_perm :: string
  row_date :: string

definition row_of :: "entry \<Rightarrow> row" where
  "row_of e =
     (let label = (if name e \<noteq> [] then name e else path e)
      in \<lparr>row_text = (if is_dir e then label @ ''/'' else label),
          row_href = (if is_dir e then ''?cd='' else ''/x/tool-file-manager.cgi?dl='') @ encodePath (path e),
          row_path = path e,
          row_download = (if is_dir e then None else Some (name e)),
          row_suffix = (if is_link e \<and> link_target e \<noteq> [] then '' -> '' @ link_target e else []),
          row_size = (if e_size e \<noteq> [] then e_size e else ''0''), row_perm = perm e, row_date = e_time e\<rparr>)"

text \<open>The rows, and whether the empty state is shown.\<close>

definition renderEntries :: "entry list \<Rightarrow> row list \<times> bool" where
  "renderEntries es = (map row_of es, es = [])"

definition computeEntriesSignature :: "entry list \<Rightarrow> string" where
  "computeEntriesSignature es =
     (if es = [] then ''empty''
      else join_with ''|'' (map (\<lambda>e. join_with '':''
             [if path e \<noteq> [] then path e else name e, if e_size e \<noteq> [] then e_size e else ''0'',
              perm e, e_time e, if is_dir e then ''d'' else ''f'']) es))"

datatype hist = Push string | Replace string

text \<open>The address of a directory: the path alone for the root.\<close>

definition history_url :: "string \<Rightarrow> string \<Rightarrow> string" where
  "history_url pathname p =
     (let q = show_params (if p \<noteq> [] \<and> p \<noteq> ''/'' then set_param ''cd'' p [] else [])
      in if q = [] then pathname else pathname @ ''?'' @ q)"

definition updateHistory :: "string \<Rightarrow> string \<Rightarrow> bool \<Rightarrow> hist" where
  "updateHistory pathname p replace =
     (if replace then Replace (history_url pathname p) else Push (history_url pathname p))"

text \<open>The crumbs of the path: label and target; the last one is not a link.\<close>

definition renderBreadcrumbs :: "(string \<times> string) list \<Rightarrow> (string \<times> string option) list" where
  "renderBreadcrumbs crumbs =
     (let cs = (if crumbs = [] then [(''Home'', ''/'')] else crumbs);
          link = (\<lambda>(l, p). let q = (if p = [] then ''/'' else p)
                   in (if l \<noteq> [] then l else q,
                       Some (if p = ''/'' then ''/tool-file-manager.html'' else ''?cd='' @ encodePath q)))
      in map link (butlast cs) @ [(if fst (last cs) = [] then ''Current'' else fst (last cs), None)])"

record fm_state =
  currentPath :: string
  parentPath :: string
  loading :: bool
  lastSignature :: string
  watchTimer :: "nat option"
  intervals :: "nat list" \<comment> \<open>the interval timers the browser runs\<close>
  next_interval :: nat
  rawEntries :: "entry list"
  sortColumn :: string
  sortDirection :: string
  shown_rows :: "entry list"
  shown_crumbs :: "(string \<times> string option) list"
  parent_disabled :: bool

record load_request =
  r_path :: string
  pushHistory :: bool
  replaceHistory :: bool
  silent :: bool

datatype fm_effect = Fetch string | Busy | Unbusy | Alert string js | Hist hist

definition kickDirectoryWatcher :: "fm_state \<Rightarrow> fm_state" where
  "kickDirectoryWatcher s =
     (let kept = (case watchTimer s of Some t \<Rightarrow> filter (\<lambda>u. u \<noteq> t) (intervals s) | None \<Rightarrow> intervals s)
      in s\<lparr>intervals := kept @ [next_interval s], watchTimer := Some (next_interval s),
           next_interval := Suc (next_interval s)\<rparr>)"

definition shouldSkipSilentLoad :: "bool \<Rightarrow> bool \<Rightarrow> fm_state \<Rightarrow> bool" where
  "shouldSkipSilentLoad is_silent hidden s \<longleftrightarrow> is_silent \<and> (loading s \<or> hidden)"

text \<open>The call of \<open>loadDirectory\<close>: the request its answer will find in the closure, if one is sent.\<close>

definition loadDirectory :: "bool \<Rightarrow> load_request \<Rightarrow> fm_state \<Rightarrow> fm_state \<times> load_request option \<times> fm_effect list" where
  "loadDirectory hidden req s =
     (let normalized = (if r_path req = [] then ''/'' else r_path req)
      in if shouldSkipSilentLoad (silent req) hidden s then (s, None, [])
         else (s\<lparr>loading := True\<rparr>, Some (req\<lparr>r_path := normalized\<rparr>),
               (if silent req then [] else [Busy]) @ [Fetch (''/x/tool-file-manager.cgi?cd='' @ encodePath normalized)]))"

text \<open>What the CGI script answers: a listing, or an error with its message.\<close>

record listing =
  l_directory :: string
  l_parent :: string
  l_crumbs :: "(string \<times> string) list"
  l_entries :: "entry list"

definition entry_of :: "js \<Rightarrow> entry" where
  "entry_of v =
     \<lparr>path = str_or_empty (getp v ''path''), name = str_or_empty (getp v ''name''), e_size = str_or_empty (getp v ''size''),
      perm = str_or_empty (getp v ''perm''), e_time = str_or_empty (getp v ''time''),
      is_dir = (getp v ''is_dir'' = JBool True), is_link = (getp v ''is_link'' = JBool True),
      link_target = str_or_empty (getp v ''link_target''), deletable = (getp v ''deletable'' = JBool True)\<rparr>"

definition items_of :: "js \<Rightarrow> js list" where
  "items_of v = (case v of JArr vs \<Rightarrow> vs | _ \<Rightarrow> [])"

datatype list_outcome = Failed js | Listing listing

definition read_listing :: "outcome \<Rightarrow> list_outcome" where
  "read_listing out =
     (case out of
        Rejected msg \<Rightarrow> Failed (JStr msg)
      | Answer r \<Rightarrow>
          (case parsed r of
             None \<Rightarrow> Failed (JStr ''SyntaxError'')
           | Some payload \<Rightarrow>
               (let has_error = truthy payload \<and> truthy (getp payload ''error'')
                in if \<not> resp_ok r \<or> has_error
                   then Failed (js_or (if has_error then getp (getp payload ''error'') ''message''
                                       else JStr (''Request failed with status '' @ show_int (status r)))
                                      (JStr ''Unable to load directory''))
                   else if nullish payload then Failed (JStr ''TypeError'')
                   else Listing
                     \<lparr>l_directory = str_or_empty (getp payload ''directory''),
                      l_parent = str_or_empty (getp payload ''parent''),
                      l_crumbs = map (\<lambda>c. (str_or_empty (getp c ''label''), str_or_empty (getp c ''path'')))
                        (items_of (getp payload ''breadcrumbs'')),
                      l_entries = map entry_of (items_of (getp payload ''entries''))\<rparr>)))"

definition show_listing :: "(string \<Rightarrow> string \<Rightarrow> int) \<Rightarrow> listing \<Rightarrow> string \<Rightarrow> fm_state \<Rightarrow> fm_state" where
  "show_listing loc l resolvedPath s =
     (let parent = (if l_parent l = [] then ''/'' else l_parent l)
      in s\<lparr>shown_crumbs := renderBreadcrumbs (l_crumbs l),
           shown_rows := sortEntries loc (sortColumn s) (sortDirection s) (l_entries l),
           currentPath := resolvedPath, parentPath := parent,
           parent_disabled := (parent = [] \<or> parent = resolvedPath)\<rparr>)"

definition loadDirectory_settle ::
  "(string \<Rightarrow> string \<Rightarrow> int) \<Rightarrow> string \<Rightarrow> load_request \<Rightarrow> outcome \<Rightarrow> fm_state \<Rightarrow> fm_state \<times> fm_effect list" where
  "loadDirectory_settle loc pathname req out s =
     (let finish = (\<lambda>(s1, fx). (s1\<lparr>loading := False\<rparr>, fx @ (if silent req then [] else [Unbusy])))
      in finish
       (case read_listing out of
          Failed msg \<Rightarrow>
            (s, if silent req then [] else [Alert ''danger'' (js_or msg (JStr ''Unable to load directory''))])
        | Listing l \<Rightarrow>
            let resolvedPath = (if l_directory l \<noteq> [] then l_directory l else r_path req);
                signature = computeEntriesSignature (l_entries l);
                hasChanged = (signature \<noteq> lastSignature s \<or> resolvedPath \<noteq> currentPath s);
                s1 = s\<lparr>rawEntries := l_entries l\<rparr>;
                (s2, fx) = (if \<not> silent req \<or> hasChanged
                   then (show_listing loc l resolvedPath s1,
                         if replaceHistory req then [Hist (updateHistory pathname resolvedPath True)]
                         else if pushHistory req then [Hist (updateHistory pathname resolvedPath False)] else [])
                   else (s1\<lparr>currentPath := resolvedPath, parentPath := (if l_parent l = [] then ''/'' else l_parent l)\<rparr>, []))
            in (kickDirectoryWatcher (s2\<lparr>lastSignature := signature\<rparr>), fx)))"

definition runDirectoryWatch :: "bool \<Rightarrow> fm_state \<Rightarrow> fm_state \<times> load_request option \<times> fm_effect list" where
  "runDirectoryWatch hidden s =
     (if hidden then (s, None, [])
      else loadDirectory hidden
             \<lparr>r_path = currentPath s, pushHistory = False, replaceHistory = True, silent = True\<rparr> s)"

text \<open>The buttons and links.\<close>

definition handleDirLink :: "string \<Rightarrow> fm_state \<Rightarrow> fm_state \<times> load_request option \<times> fm_effect list" where
  "handleDirLink p s =
     loadDirectory False \<lparr>r_path = p, pushHistory = True, replaceHistory = False, silent = False\<rparr> s"

definition refresh_click :: "fm_state \<Rightarrow> fm_state \<times> load_request option \<times> fm_effect list" where
  "refresh_click s =
     loadDirectory False \<lparr>r_path = currentPath s, pushHistory = False, replaceHistory = False, silent = False\<rparr> s"

definition parent_click :: "fm_state \<Rightarrow> fm_state \<times> load_request option \<times> fm_effect list" where
  "parent_click s = handleDirLink (if parentPath s = [] then ''/'' else parentPath s) s"

definition popstate :: "string \<Rightarrow> fm_state \<Rightarrow> fm_state \<times> load_request option \<times> fm_effect list" where
  "popstate p s =
     loadDirectory False \<lparr>r_path = (if p = [] then ''/'' else p), pushHistory = False, replaceHistory = False, silent = False\<rparr> s"

definition handleSortClick :: "(string \<Rightarrow> string \<Rightarrow> int) \<Rightarrow> string \<Rightarrow> fm_state \<Rightarrow> fm_state" where
  "handleSortClick loc col s =
     (let s1 = (if sortColumn s = col
                then s\<lparr>sortDirection := (if sortDirection s = ''asc'' then ''desc'' else ''asc'')\<rparr>
                else s\<lparr>sortColumn := col, sortDirection := ''asc''\<rparr>)
      in s1\<lparr>shown_rows := sortEntries loc (sortColumn s1) (sortDirection s1) (rawEntries s1)\<rparr>)"

definition updateSortIndicators :: "fm_state \<Rightarrow> string \<Rightarrow> string option" where
  "updateSortIndicators s col = (if col = sortColumn s then Some (sortDirection s) else None)"

text \<open>The delete action, once confirmed.\<close>

definition delete_settle :: "bool \<Rightarrow> string \<Rightarrow> outcome \<Rightarrow> fm_state \<Rightarrow> fm_state \<times> load_request option \<times> fm_effect list" where
  "delete_settle hidden filePath out s =
     (let failed = (\<lambda>m. (s, None, [Alert ''danger'' m]))
      in case out of
           Rejected msg \<Rightarrow> failed (JStr msg)
         | Answer r \<Rightarrow>
             (case parsed r of
                None \<Rightarrow> failed (JStr ''SyntaxError'')
              | Some data \<Rightarrow>
                  if nullish data then failed (JStr ''TypeError'')
                  else if \<not> resp_ok r \<or> truthy (getp data ''error'')
                  then failed (if truthy (getp data ''error'') then getp (getp data ''error'') ''message''
                               else JStr (''HTTP '' @ show_int (status r)))
                  else (case loadDirectory hidden
                           \<lparr>r_path = currentPath s, pushHistory = False, replaceHistory = False, silent = True\<rparr> s of
                          (s1, q, fx) \<Rightarrow>
                            (s1, q, Alert ''success'' (JStr (''Deleted: '' @ last (split_on (CHR ''/'') filePath))) # fx))))"

section \<open>Lemmas on sorting\<close>

text \<open>A consistent comparison: swapping the arguments swaps the sign, and ``not after'' is transitive.\<close>

definition consistent :: "('a \<Rightarrow> 'a \<Rightarrow> int) \<Rightarrow> bool" where
  "consistent cmp \<longleftrightarrow> (\<forall>x y. 0 < cmp x y \<longleftrightarrow> cmp y x < 0) \<and>
     (\<forall>x y z. cmp x y \<le> 0 \<longrightarrow> cmp y z \<le> 0 \<longrightarrow> cmp x z \<le> 0)"

lemma consistentD:
  assumes "consistent cmp"
  shows "0 < cmp x y \<longleftrightarrow> cmp y x < 0" and "cmp x y \<le> 0 \<Longrightarrow> cmp y z \<le> 0 \<Longrightarrow> cmp x z \<le> 0"
  using assms unfolding consistent_def by blast+

lemma consistent_on: "consistent loc \<Longrightarrow> consistent (\<lambda>a b. loc (f a) (f b))"
  unfolding consistent_def by blast

lemma consistent_diff: "consistent (\<lambda>a b. f a - f b)"
  unfolding consistent_def by auto

lemma consistent_flip:
  assumes "consistent cmp" shows "consistent (\<lambda>a b. - cmp a b)"
proof -
  have "- cmp x y \<le> 0 \<longleftrightarrow> cmp y x \<le> 0" for x y using consistentD(1) [OF assms, of y x] by linarith
  then show ?thesis
    using assms unfolding consistent_def by (metis neg_0_less_iff_less neg_less_0_iff_less)
qed

lemma consistent_dirs:
  assumes "consistent cmp"
  shows "consistent (\<lambda>a b. if d a \<noteq> d b then (if d a then - 1 else 1) else cmp a b)"
  using assms unfolding consistent_def by (auto split: if_splits)

lemma column_consistent: "consistent loc \<Longrightarrow> consistent (column_cmp loc col)"
  using consistent_on [of loc name] consistent_on [of loc e_time] consistent_on [of loc perm] consistent_diff [of size_key]
    consistent_diff [of "\<lambda>_. 0"]
  unfolding column_cmp_def by (cases "col = ''name''"; cases "col = ''size''"; cases "col = ''time''"; cases "col = ''perm''") simp_all

lemma entry_consistent:
  assumes "consistent loc" shows "consistent (entry_cmp loc col direction)"
proof -
  have "consistent (\<lambda>a b. column_cmp loc col a b * (if direction = ''asc'' then 1 else - 1))"
    using column_consistent [OF assms, of col] consistent_flip [OF column_consistent [OF assms, of col]]
    by (cases "direction = ''asc''") simp_all
  from consistent_dirs [OF this, of is_dir] show ?thesis unfolding entry_cmp_def .
qed

lemma insert_by_mset: "mset (insert_by cmp x ys) = add_mset x (mset ys)"
  by (induction ys) auto

lemma insert_by_set: "set (insert_by cmp x ys) = insert x (set ys)"
  by (induction ys) auto

lemma js_sort_mset: "mset (js_sort cmp xs) = mset xs"
  by (induction xs) (simp_all add: js_sort_def insert_by_mset)

lemma insert_by_sorted:
  assumes "consistent cmp" "sorted_wrt (\<lambda>a b. cmp a b \<le> 0) ys"
  shows "sorted_wrt (\<lambda>a b. cmp a b \<le> 0) (insert_by cmp x ys)"
  using assms(2)
proof (induction ys)
  case (Cons y ys)
  show ?case
  proof (cases "cmp x y \<le> 0")
    case True
    then show ?thesis using Cons.prems consistentD(2) [OF assms(1) True] by auto
  next
    case False
    then have "cmp y x \<le> 0" using consistentD(1) [OF assms(1), of x y] by linarith
    then show ?thesis using False Cons by (simp add: insert_by_set)
  qed
qed simp

lemma js_sort_sorted: "consistent cmp \<Longrightarrow> sorted_wrt (\<lambda>a b. cmp a b \<le> 0) (js_sort cmp xs)"
  by (induction xs) (simp_all add: js_sort_def insert_by_sorted)

lemma insert_by_stable:
  assumes "consistent cmp"
  shows "filter (\<lambda>e. cmp e k = 0) (insert_by cmp x ys) = filter (\<lambda>e. cmp e k = 0) (x # ys)"
proof (induction ys)
  case (Cons y ys)
  have "cmp x y \<le> 0" if "cmp x k = 0" "cmp y k = 0"
  proof -
    have "cmp k y \<le> 0" using that consistentD(1) [OF assms, of k y] by linarith
    then show ?thesis using consistentD(2) [OF assms, of x k y] that by simp
  qed
  with Cons show ?case by auto
qed simp

lemma js_sort_stable:
  "consistent cmp \<Longrightarrow> filter (\<lambda>e. cmp e k = 0) (js_sort cmp xs) = filter (\<lambda>e. cmp e k = 0) xs"
proof (induction xs)
  case (Cons x xs)
  then show ?case using insert_by_stable [of cmp k x "js_sort cmp xs"] by (simp add: js_sort_def)
qed (simp add: js_sort_def)

lemma sorted_split_dirs:
  "sorted_wrt (\<lambda>a b. entry_cmp loc col d a b \<le> 0) es \<Longrightarrow> es = filter is_dir es @ filter (\<lambda>e. \<not> is_dir e) es"
proof (induction es)
  case (Cons e es)
  show ?case
  proof (cases "is_dir e")
    case True
    then show ?thesis using Cons by simp
  next
    case False
    then have "\<not> is_dir x" if "x \<in> set es" for x
      using Cons.prems that by (auto simp: entry_cmp_def split: if_splits)
    then show ?thesis using False by (simp add: filter_False filter_True)
  qed
qed simp

section \<open>Lemmas on loading\<close>

text \<open>At most one interval timer runs, and the state names it.\<close>

definition watch_inv :: "fm_state \<Rightarrow> bool" where
  "watch_inv s \<longleftrightarrow> intervals s = (case watchTimer s of Some t \<Rightarrow> [t] | None \<Rightarrow> [])"

lemma kick_watch: "watch_inv s \<Longrightarrow> watch_inv (kickDirectoryWatcher s) \<and> watchTimer (kickDirectoryWatcher s) \<noteq> None"
  by (simp add: watch_inv_def kickDirectoryWatcher_def split: option.splits)

lemma watch_inv_fields: "watchTimer s = watchTimer t \<Longrightarrow> intervals s = intervals t \<Longrightarrow> watch_inv s = watch_inv t"
  by (simp add: watch_inv_def)

lemma show_listing_fields [simp]:
  "watchTimer (show_listing loc l p s) = watchTimer s" "intervals (show_listing loc l p s) = intervals s"
  "currentPath (show_listing loc l p s) = p" "sortColumn (show_listing loc l p s) = sortColumn s"
  "sortDirection (show_listing loc l p s) = sortDirection s"
  "shown_rows (show_listing loc l p s) = sortEntries loc (sortColumn s) (sortDirection s) (l_entries l)"
  by (simp_all add: show_listing_def Let_def)

lemma kick_fields [simp]:
  "currentPath (kickDirectoryWatcher s) = currentPath s" "shown_rows (kickDirectoryWatcher s) = shown_rows s"
  "sortColumn (kickDirectoryWatcher s) = sortColumn s" "sortDirection (kickDirectoryWatcher s) = sortDirection s"
  "lastSignature (kickDirectoryWatcher s) = lastSignature s" "loading (kickDirectoryWatcher s) = loading s"
  by (simp_all add: kickDirectoryWatcher_def Let_def)

lemma settle_watch:
  assumes "watch_inv s" shows "watch_inv (fst (loadDirectory_settle loc pn req out s))"
proof -
  have k: "watch_inv (kickDirectoryWatcher t)" if "watchTimer t = watchTimer s" "intervals t = intervals s" for t
    using kick_watch [of t] watch_inv_fields [OF that] assms by simp
  have load: "watch_inv (t\<lparr>loading := False\<rparr>) = watch_inv t" for t by (simp add: watch_inv_def)
  show ?thesis
    using assms unfolding loadDirectory_settle_def
    by (auto simp: Let_def split_def load k split: list_outcome.splits)
qed

text \<open>A listing that arrives for another directory is shown, whoever asked for it.\<close>

lemma settle_shows:
  assumes "read_listing out = Listing l" "l_directory l = p" "p \<noteq> []" "\<not> silent req \<or> p \<noteq> currentPath s"
  shows "currentPath (fst (loadDirectory_settle loc pn req out s)) = p"
    and "shown_rows (fst (loadDirectory_settle loc pn req out s)) = sortEntries loc (sortColumn s) (sortDirection s) (l_entries l)"
    and "sortColumn (fst (loadDirectory_settle loc pn req out s)) = sortColumn s"
    and "sortDirection (fst (loadDirectory_settle loc pn req out s)) = sortDirection s"
    and "replaceHistory req \<Longrightarrow> Hist (updateHistory pn p True) \<in> set (snd (loadDirectory_settle loc pn req out s))"
  using assms by (simp_all add: loadDirectory_settle_def Let_def)

section \<open>Properties\<close>


definition file_entry :: "string \<Rightarrow> bool \<Rightarrow> entry" where
  "file_entry n d = \<lparr>path = ''/'' @ n, name = n, e_size = ''1'', perm = [], e_time = [], is_dir = d, is_link = False,
     link_target = [], deletable = False\<rparr>"


text \<open>
  A late background refresh takes the user back: when the refresh of directory \<open>a\<close> is under way, the
  user opens directory \<open>b\<close> and its listing arrives first, the listing of \<open>a\<close> that arrives afterwards is
  shown in its place, makes \<open>a\<close> the current directory again and replaces the history entry of \<open>b\<close>.\<close>

theorem late_refresh_reverts:
  assumes "\<not> loading s" "currentPath s = a" "a \<noteq> []" "b \<noteq> []" "a \<noteq> b"
    and "read_listing outA = Listing la" "l_directory la = a" "read_listing outB = Listing lb" "l_directory lb = b"
  shows "let (s1, qa, _) = runDirectoryWatch False s; (s2, qb, _) = handleDirLink b s1;
             s3 = fst (loadDirectory_settle loc pathname (the qb) outB s2);
             (s4, fx) = loadDirectory_settle loc pathname (the qa) outA s3
         in currentPath s3 = b \<and> currentPath s4 = a \<and>
            shown_rows s4 = sortEntries loc (sortColumn s) (sortDirection s) (l_entries la) \<and>
            Hist (updateHistory pathname a True) \<in> set fx"
proof -
  let ?qa = "\<lparr>r_path = a, pushHistory = False, replaceHistory = True, silent = True\<rparr>"
  let ?qb = "\<lparr>r_path = b, pushHistory = True, replaceHistory = False, silent = False\<rparr>"
  let ?s2 = "s\<lparr>loading := True\<rparr>"
  let ?s3 = "fst (loadDirectory_settle loc pathname ?qb outB ?s2)"
  have s3: "currentPath ?s3 = b" "sortColumn ?s3 = sortColumn s" "sortDirection ?s3 = sortDirection s"
    using settle_shows [OF assms(8,9,4), where req = ?qb and s = ?s2 and loc = loc and pn = pathname] by simp_all
  have "\<not> silent ?qa \<or> a \<noteq> currentPath ?s3" using s3 assms(5) by simp
  note s4 = settle_shows [OF assms(6,7,3) this, where loc = loc and pn = pathname]
  have "runDirectoryWatch False s = (?s2, Some ?qa, [Fetch (''/x/tool-file-manager.cgi?cd='' @ encodePath a)])"
    using assms by (simp add: runDirectoryWatch_def loadDirectory_def shouldSkipSilentLoad_def Let_def)
  moreover have "handleDirLink b ?s2 = (?s2, Some ?qb, [Busy, Fetch (''/x/tool-file-manager.cgi?cd='' @ encodePath b)])"
    using assms by (simp add: handleDirLink_def loadDirectory_def shouldSkipSilentLoad_def Let_def)
  ultimately show ?thesis using s3 s4 by (simp add: Let_def split_def)
qed

definition sample_fm :: fm_state where
  "sample_fm = \<lparr>currentPath = ''/mnt'', parentPath = ''/'', loading = False, lastSignature = ''empty'', watchTimer = None,
     intervals = [], next_interval = 0, rawEntries = [], sortColumn = ''name'', sortDirection = ''asc'', shown_rows = [],
     shown_crumbs = [], parent_disabled = False\<rparr>"

definition sample_listing :: "string \<Rightarrow> outcome" where
  "sample_listing p = Answer \<lparr>status = 200, text_body = [], parsed = Some (JObj [(''directory'', JStr p)])\<rparr>"

theorem late_refresh_reverts_witness:
  "let (s1, qa, _) = runDirectoryWatch False sample_fm; (s2, qb, _) = handleDirLink ''/tmp'' s1;
       s3 = fst (loadDirectory_settle (\<lambda>_ _. 0) ''/f'' (the qb) (sample_listing ''/tmp'') s2);
       (s4, fx) = loadDirectory_settle (\<lambda>_ _. 0) ''/f'' (the qa) (sample_listing ''/mnt'') s3
   in currentPath s3 = ''/tmp'' \<and> currentPath s4 = ''/mnt''"
  using late_refresh_reverts [of sample_fm "''/mnt''" "''/tmp''" "sample_listing ''/mnt''" _ "sample_listing ''/tmp''" _ "\<lambda>_ _. 0" "''/f''"]
  by (simp add: sample_fm_def sample_listing_def read_listing_def resp_ok_def nullish_def items_of_def Let_def split_def)

end
