(* ===== verification/Text_Editor.thy ===== *)
theory Text_Editor
  imports Base64 Dom
begin

text \<open>
  The text editor of \<open>tool-file-manager.js\<close>: loading, editing, saving and closing, with the backup
  download. A text is the list of its code points; a request body carries its UTF-8 bytes. On these pages
  \<open>confirm\<close> is \<open>thinginoConfirm\<close> of \<open>main.js\<close>, which returns a promise: used as a condition it is an
  object and counts as true at once, whatever the user answers later.
\<close>

type_synonym cps = "nat list"

section \<open>State\<close>

record editor =
  currentFile :: "string option"
  originalContent :: "cps option"
  isModified :: bool
  raw_value :: cps \<comment> \<open>the raw value of the text area\<close>
  area_disabled :: bool
  save_disabled :: bool
  reload_disabled :: bool
  editor_status :: "js list"
  editor_label :: string
  autoBackup :: bool

datatype ed_effect = EGet string | EPost string string | Backup string cps | EAlert string "js list"
  | AskConfirm string | RefreshSoon | SaveSoon

text \<open>The value a script reads from a text area: every line break is a line feed.\<close>

fun area_value :: "cps \<Rightarrow> cps" where
  "area_value (c # d # r) =
     (if c = 13 then (if d = 10 then 10 # area_value r else 10 # area_value (d # r)) else c # area_value (d # r))"
| "area_value [c] = [if c = 13 then 10 else c]"
| "area_value [] = []"

abbreviation text_of :: "editor \<Rightarrow> cps" where
  "text_of e \<equiv> area_value (raw_value e)"

definition base_name :: "string \<Rightarrow> string" where
  "base_name p = last (split_on (CHR ''/'') p)"

text \<open>\<open>encodeURIComponent\<close> of the current file; \<open>null\<close> encodes as its text.\<close>

definition file_param :: "string option \<Rightarrow> string" where
  "file_param f = (case f of Some p \<Rightarrow> encodeURIComponent p | None \<Rightarrow> ''null'')"

section \<open>Loading\<close>

definition loadTextFile :: "string \<Rightarrow> editor \<Rightarrow> editor \<times> ed_effect list" where
  "loadTextFile filePath e =
     (e\<lparr>editor_status := [JStr ''Loading...''], area_disabled := True, save_disabled := True, reload_disabled := True\<rparr>,
      [EGet (''/x/texteditor.cgi?file='' @ encodeURIComponent filePath)])"

definition load_failed :: "js \<Rightarrow> editor \<Rightarrow> editor \<times> ed_effect list" where
  "load_failed msg e =
     (e\<lparr>editor_status := [JStr ''Error: '', msg], raw_value := [], area_disabled := True, save_disabled := True,
        reload_disabled := True\<rparr>,
      [EAlert ''danger'' [JStr ''Failed to load file: '', msg]])"

text \<open>\<open>data.content || ""\<close>, decoded where the answer says so; the flag says that the decoding failed.\<close>

definition content_of :: "js \<Rightarrow> cps \<times> bool" where
  "content_of data =
     (let content = str_or_empty (getp data ''content'')
      in if getp data ''content_encoding'' = JStr ''base64''
         then (let txt = decodeBase64String True content in (txt, txt = [] \<and> content \<noteq> []))
         else (bytes_of content, False))"

text \<open>How both requests read their answer: an error message or the data.\<close>

definition read_editor_answer :: "outcome \<Rightarrow> js + js" where
  "read_editor_answer out =
     (case out of
        Rejected msg \<Rightarrow> Inl (JStr msg)
      | Answer r \<Rightarrow>
          (case parsed r of
             None \<Rightarrow> Inl (JStr ''SyntaxError'')
           | Some data \<Rightarrow>
               if nullish data then Inl (JStr ''TypeError'')
               else if \<not> resp_ok r \<or> truthy (getp data ''error'')
               then Inl (if truthy (getp data ''error'') then getp (getp data ''error'') ''message''
                         else JStr (''HTTP '' @ show_int (status r)))
               else Inr data))"

definition loadTextFile_settle :: "string \<Rightarrow> outcome \<Rightarrow> editor \<Rightarrow> editor \<times> ed_effect list" where
  "loadTextFile_settle filePath out e =
     (case read_editor_answer out of
        Inl msg \<Rightarrow> load_failed msg e
      | Inr data \<Rightarrow>
          let e1 = e\<lparr>currentFile := Some filePath\<rparr>; (content, bad) = content_of data;
              writable = truthy (getp data ''writable'')
          in if bad then load_failed (JStr ''Failed to decode file content'') e1
             else (e1\<lparr>originalContent := Some content, isModified := False, raw_value := content,
                      area_disabled := \<not> writable, save_disabled := True, reload_disabled := False,
                      editor_status := [JStr (if writable then ''Ready'' else ''Read-only'')],
                      editor_label := ''Edit: '' @ base_name filePath\<rparr>, []))"

section \<open>Editing\<close>

definition check_modified :: "editor \<Rightarrow> editor" where
  "check_modified e =
     (let m = (Some (text_of e) \<noteq> originalContent e) in e\<lparr>isModified := m, save_disabled := \<not> m\<rparr>)"

text \<open>The input event after the user changed the text, and the tab key on a selection.\<close>

definition input_event :: "cps \<Rightarrow> editor \<Rightarrow> editor" where
  "input_event v e = check_modified (e\<lparr>raw_value := v\<rparr>)"

definition tab_key :: "nat \<Rightarrow> nat \<Rightarrow> editor \<Rightarrow> editor" where
  "tab_key start stop e =
     (let v = text_of e in check_modified (e\<lparr>raw_value := take start v @ [32, 32] @ drop stop v\<rparr>))"

section \<open>Saving\<close>

definition downloadBackupFromMemory :: "string \<Rightarrow> editor \<Rightarrow> ed_effect list" where
  "downloadBackupFromMemory stamp e =
     (case (currentFile e, originalContent e) of
        (Some f, Some c) \<Rightarrow> if f = [] \<or> c = [] then [] else [Backup (base_name f @ ''.backup_'' @ stamp) c]
      | _ \<Rightarrow> [])"

text \<open>The part of \<open>saveTextFile\<close> from the status line to the request; with a backup it runs 100 ms later.\<close>

definition save_post :: "editor \<Rightarrow> editor \<times> ed_effect list" where
  "save_post e =
     (e\<lparr>editor_status := [JStr ''Saving...''], save_disabled := True\<rparr>,
      [EPost (''/x/texteditor.cgi?file='' @ file_param (currentFile e)) (utf8_encode (text_of e))])"

definition saveTextFile :: "string \<Rightarrow> editor \<Rightarrow> editor \<times> ed_effect list" where
  "saveTextFile stamp e =
     (if (case currentFile e of Some f \<Rightarrow> f = [] | None \<Rightarrow> True) \<or> \<not> isModified e then (e, [])
      else if autoBackup e then (e, downloadBackupFromMemory stamp e @ [SaveSoon])
      else save_post e)"

definition save_failed :: "js \<Rightarrow> editor \<Rightarrow> editor \<times> ed_effect list" where
  "save_failed msg e =
     (e\<lparr>editor_status := [JStr ''Save failed: '', msg], save_disabled := \<not> isModified e\<rparr>,
      [EAlert ''danger'' [JStr ''Failed to save file: '', msg]])"

definition saveTextFile_settle :: "outcome \<Rightarrow> editor \<Rightarrow> editor \<times> ed_effect list" where
  "saveTextFile_settle out e =
     (case read_editor_answer out of
        Inl msg \<Rightarrow> save_failed msg e
      | Inr _ \<Rightarrow>
          let e1 = e\<lparr>originalContent := Some (text_of e), isModified := False, save_disabled := True,
                     editor_status := [JStr ''Saved successfully'']\<rparr>
          in case currentFile e1 of
               None \<Rightarrow> save_failed (JStr ''TypeError'') e1
             | Some f \<Rightarrow> (e1, [EAlert ''success'' [JStr (''File saved: '' @ base_name f)], RefreshSoon]))"

definition ctrl_s :: "string \<Rightarrow> editor \<Rightarrow> editor \<times> ed_effect list" where
  "ctrl_s stamp e = (if save_disabled e then (e, []) else saveTextFile stamp e)"

section \<open>Reloading and closing\<close>

definition reload_click :: "editor \<Rightarrow> editor \<times> ed_effect list" where
  "reload_click e =
     (let ask = (if isModified e then [AskConfirm ''Discard unsaved changes and reload?''] else [])
      in case currentFile e of
           Some f \<Rightarrow> if f = [] then (e, ask) else (let (e1, fx) = loadTextFile f e in (e1, ask @ fx))
         | None \<Rightarrow> (e, ask))"

definition editor_hidden :: "string \<Rightarrow> editor \<Rightarrow> editor \<times> ed_effect list" where
  "editor_hidden stamp e =
     (let (e1, fx) = (if isModified e
            then (let (e2, gx) = saveTextFile stamp e
                  in (e2, AskConfirm ''You have unsaved changes. Do you want to save before closing?'' # gx))
            else (e, []))
      in (e1\<lparr>currentFile := None, originalContent := None, isModified := False, raw_value := [],
             editor_status := [JStr ''Ready'']\<rparr>, fx))"

definition edit_click :: "string \<Rightarrow> editor \<Rightarrow> editor \<times> ed_effect list" where
  "edit_click filePath e = (if filePath = [] then (e, []) else loadTextFile filePath e)"

section \<open>Lemmas\<close>

lemma area_value_plain: "13 \<notin> set v \<Longrightarrow> area_value v = v"
  by (induction v rule: area_value.induct) auto

lemma area_value_idem: "13 \<notin> set (area_value v)"
  by (induction v rule: area_value.induct) auto

definition plain_points :: "cps \<Rightarrow> bool" where
  "plain_points v \<longleftrightarrow> list_all scalar_value v \<and> 13 \<notin> set v \<and> (v = [] \<or> hd v \<noteq> 0xFEFF)"

definition file_answer :: "cps \<Rightarrow> outcome" where
  "file_answer v = Answer \<lparr>status = 200, text_body = [],
     parsed = Some (JObj [(''content'', JStr (btoa (utf8_encode v))), (''content_encoding'', JStr ''base64''),
       (''writable'', JBool True)])\<rparr>"

lemma read_file_answer:
  "read_editor_answer (file_answer v) = Inr (JObj [(''content'', JStr (btoa (utf8_encode v))),
     (''content_encoding'', JStr ''base64''), (''writable'', JBool True)])"
  by (simp add: read_editor_answer_def file_answer_def resp_ok_def nullish_def)

lemma load_shows:
  assumes "plain_points v"
  shows "loadTextFile_settle f (file_answer v) e =
    (e\<lparr>currentFile := Some f, originalContent := Some v, isModified := False, raw_value := v, area_disabled := False,
       save_disabled := True, reload_disabled := False, editor_status := [JStr ''Ready''],
       editor_label := ''Edit: '' @ base_name f\<rparr>, [])"
proof -
  have "decodeBase64String True (btoa (utf8_encode v)) = v"
    using assms by (intro decode_text) (simp_all add: plain_points_def)
  then show ?thesis
    by (simp add: loadTextFile_settle_def read_file_answer content_of_def Let_def btoa_Nil_iff utf8_encode_Nil)
qed

lemma utf8_encode_inj:
  assumes "plain_points v" "plain_points w" "utf8_encode v = utf8_encode w" shows "v = w"
  using assms decode_text [of v] decode_text [of w] unfolding plain_points_def by metis

definition saved_answer :: "outcome \<Rightarrow> bool" where
  "saved_answer out \<longleftrightarrow> (\<exists>d. read_editor_answer out = Inr d)"

section \<open>Properties\<close>


definition blank_editor :: editor where
  "blank_editor = \<lparr>currentFile = None, originalContent = None, isModified = False, raw_value = [], area_disabled = False,
     save_disabled = True, reload_disabled = False, editor_status = [], editor_label = [], autoBackup = False\<rparr>"

definition ok_answer :: outcome where
  "ok_answer = Answer \<lparr>status = 200, text_body = [], parsed = Some (JObj [])\<rparr>"

lemma ok_answer_saved: "saved_answer ok_answer" "read_editor_answer ok_answer = Inr (JObj [])"
  by (simp_all add: saved_answer_def read_editor_answer_def ok_answer_def resp_ok_def nullish_def)


text \<open>
  Edits made during a save are taken for saved: when the user goes on typing while the request is
  under way, the answer makes the new text the original one although the camera has the old one; the
  editor shows no modification, the save button is disabled and closing the editor discards the edits.\<close>

theorem edits_during_save_lost:
  assumes "currentFile e = Some f" "f \<noteq> []" "isModified e" "\<not> autoBackup e" "saved_answer out"
    and "area_value w \<noteq> text_of e"
  shows "let (e1, fx) = saveTextFile stamp e; e2 = input_event w e1; e3 = fst (saveTextFile_settle out e2)
         in fx = [EPost (''/x/texteditor.cgi?file='' @ encodeURIComponent f) (utf8_encode (text_of e))] \<and>
            text_of e3 = area_value w \<and> text_of e3 \<noteq> text_of e \<and>
            \<not> isModified e3 \<and> save_disabled e3 \<and> snd (editor_hidden stamp e3) = []"
proof -
  from assms(5) obtain d where "read_editor_answer out = Inr d" by (auto simp: saved_answer_def)
  then show ?thesis
    using assms by (simp add: saveTextFile_def save_post_def file_param_def input_event_def check_modified_def
        saveTextFile_settle_def editor_hidden_def Let_def)
qed

theorem edits_during_save_lost_witness:
  "let e = blank_editor\<lparr>currentFile := Some ''/a'', originalContent := Some [], isModified := True, raw_value := [65]\<rparr>;
       (e1, fx) = saveTextFile [] e; e2 = input_event [65, 66] e1; e3 = fst (saveTextFile_settle ok_answer e2)
   in text_of e3 = [65, 66] \<and> fx = [EPost (''/x/texteditor.cgi?file='' @ encodeURIComponent ''/a'') (utf8_encode [65])] \<and>
      \<not> isModified e3"
  using edits_during_save_lost [of "blank_editor\<lparr>currentFile := Some ''/a'', originalContent := Some [], isModified := True,
      raw_value := [65]\<rparr>" "''/a''" ok_answer "[65, 66]" "[]"] ok_answer_saved
  by (simp add: blank_editor_def Let_def split_def)

text \<open>
  A failed reload followed by closing the editor empties the file: the reload starts without waiting
  for the confirmation, its failure clears the text area but leaves the file and its modified mark, and
  closing then sends the empty text to the file, again without waiting for the answer.\<close>

theorem failed_reload_empties_file:
  assumes "currentFile e = Some f" "f \<noteq> []" "isModified e" "\<not> autoBackup e" "read_editor_answer out = Inl msg"
  shows "let (e1, fx) = reload_click e; e2 = fst (loadTextFile_settle f out e1); (e3, gx) = editor_hidden stamp e2
         in EGet (''/x/texteditor.cgi?file='' @ encodeURIComponent f) \<in> set fx \<and>
            EPost (''/x/texteditor.cgi?file='' @ encodeURIComponent f) [] \<in> set gx"
  using assms
  by (simp add: reload_click_def loadTextFile_def loadTextFile_settle_def load_failed_def editor_hidden_def saveTextFile_def
      save_post_def file_param_def utf8_encode_def Let_def)

theorem failed_reload_empties_file_witness:
  "let e = blank_editor\<lparr>currentFile := Some ''/a'', originalContent := Some [65], isModified := True, raw_value := [65, 66]\<rparr>;
       (e1, fx) = reload_click e; e2 = fst (loadTextFile_settle ''/a'' (Rejected ''offline'') e1);
       (e3, gx) = editor_hidden [] e2
   in EPost (''/x/texteditor.cgi?file='' @ encodeURIComponent ''/a'') [] \<in> set gx"
  using failed_reload_empties_file [of "blank_editor\<lparr>currentFile := Some ''/a'', originalContent := Some [65], isModified := True,
      raw_value := [65, 66]\<rparr>" "''/a''" "Rejected ''offline''" "JStr ''offline''" "[]"]
  by (simp add: blank_editor_def read_editor_answer_def Let_def split_def)

text \<open>
  With the automatic backup, closing a modified editor saves nothing: the request is made 100 ms later,
  when the editor has been reset, and sends an empty text to the file named \<open>null\<close>.\<close>

theorem close_with_backup_saves_nothing:
  assumes "currentFile e = Some f" "f \<noteq> []" "isModified e" "autoBackup e"
  shows "let (e1, fx) = editor_hidden stamp e
         in SaveSoon \<in> set fx \<and> snd (save_post e1) = [EPost (''/x/texteditor.cgi?file='' @ ''null'') []]"
  using assms by (simp add: editor_hidden_def saveTextFile_def save_post_def file_param_def utf8_encode_def Let_def)

end
