(* ===== verification/Preview_Endpoints.thy ===== *)
theory Preview_Endpoints
  imports Page_State Url
begin

text \<open>
  The endpoint list of the preview page (\<open>preview.js\<close>): the addresses under which the camera's streams and
  snapshots can be opened elsewhere, kept up to date with the streamer's configuration, and the links that
  copy them. The location of the page is a record; values of the configuration enter an address as
  their text. An address is built from texts as their UTF-8 bytes, as in the theory of the encodings.
\<close>

section \<open>State\<close>

record endpoint_state =
  rtsp_username :: js
  rtsp_password :: js
  rtsp_port :: js
  stream0_endpoint :: js
  stream1_endpoint :: js

definition previewEndpointState :: endpoint_state where
  "previewEndpointState = \<lparr>rtsp_username = JStr ''thingino'', rtsp_password = JStr ''thingino'',
     rtsp_port = JStr ''554'', stream0_endpoint = JStr ''ch0'', stream1_endpoint = JStr ''ch1''\<rparr>"

record location =
  loc_origin :: string
  loc_protocol :: string
  loc_host :: string
  loc_hostname :: string

record endpoint_link =
  lk_href :: string
  lk_copyUrl :: string
  lk_title :: string
  lk_aria :: string
  lk_label :: string

record endpoint_page =
  ep_state :: endpoint_state
  ep_key :: js \<comment> \<open>\<open>previewEndpointApiKey\<close>\<close>
  ep_list :: "endpoint_link list option" \<comment> \<open>the links of \<open>#preview-endpoint-list\<close>, if it exists\<close>

section \<open>Addresses\<close>

definition rgba2color :: "string \<Rightarrow> string" where
  "rgba2color hex8 = substring hex8 0 7"

definition rgba2alpha :: "string \<Rightarrow> jnum" where
  "rgba2alpha hex8 = parse_int (Some 16) (substring hex8 7 9)"

definition previewEndpointValue :: "js \<Rightarrow> js \<Rightarrow> js" where
  "previewEndpointValue v fallback = (if v = JUndef \<or> v = JNull \<or> v = JStr [] then fallback else v)"

definition wrapIpv6Host :: "string \<Rightarrow> string" where
  "wrapIpv6Host host =
     (if host \<noteq> [] \<and> includes_str host '':'' \<and> \<not> starts_with host ''['' then ''['' @ host @ '']'' else host)"

definition formatPreviewHostWithPort :: "string \<Rightarrow> js \<Rightarrow> int \<Rightarrow> string" where
  "formatPreviewHostWithPort host port defaultPort =
     (let numericPort = parse_int (Some 10) (js_text port)
      in if \<not> truthy port \<or> numericPort = NaN \<or> numericPort = Fin (of_int defaultPort) then host
         else host @ '':'' @ num_text numericPort)"

definition buildPreviewOrigin :: "location \<Rightarrow> string" where
  "buildPreviewOrigin l = (if loc_origin l \<noteq> [] then loc_origin l else loc_protocol l @ ''//'' @ loc_host l)"

definition buildRtspCredential :: "js \<Rightarrow> js \<Rightarrow> string" where
  "buildRtspCredential user pass = encodeURIComponent (js_text user) @ '':'' @ encodeURIComponent (js_text pass)"

definition buildPreviewEndpointUrl :: "js \<Rightarrow> string \<Rightarrow> string" where
  "buildPreviewEndpointUrl key baseUrl =
     (if \<not> truthy key then baseUrl
      else baseUrl @ (if includes_str baseUrl ''?'' then ''&'' else ''?'') @ ''token='' @ encodeURIComponent (js_text key))"

section \<open>The list\<close>

text \<open>\<open>net\<close> is \<open>window.network_address\<close>, empty where it is not set.\<close>

definition endpoint_host :: "string \<Rightarrow> location \<Rightarrow> string" where
  "endpoint_host net l =
     (if net \<noteq> [] then net else if loc_hostname l \<noteq> [] then loc_hostname l else ''localhost'')"

definition rtsp_url :: "string \<Rightarrow> location \<Rightarrow> endpoint_state \<Rightarrow> js \<Rightarrow> string" where
  "rtsp_url net l st channel =
     ''rtsp://'' @ buildRtspCredential (rtsp_username st) (rtsp_password st) @ ''@'' @
     formatPreviewHostWithPort (wrapIpv6Host (endpoint_host net l)) (rtsp_port st) 554 @ ''/'' @ js_text channel"

definition endpoint_entries :: "string \<Rightarrow> location \<Rightarrow> endpoint_page \<Rightarrow> (string \<times> string) list" where
  "endpoint_entries net l p =
     (let st = ep_state p; http = (\<lambda>path. buildPreviewEndpointUrl (ep_key p) (buildPreviewOrigin l @ path))
      in [(''RTSP Ch0'', rtsp_url net l st (stream0_endpoint st)),
          (''RTSP Ch1'', rtsp_url net l st (stream1_endpoint st)),
          (''MJPEG Ch0'', http ''/x/ch0.mjpg''),
          (''MJPEG Ch1'', http ''/x/ch1.mjpg''),
          (''Snapshot Ch0'', http ''/x/ch0.jpg''),
          (''Snapshot Ch1'', http ''/x/ch1.jpg'')])"

definition endpoint_link_of :: "string \<times> string \<Rightarrow> endpoint_link" where
  "endpoint_link_of e =
     \<lparr>lk_href = snd e, lk_copyUrl = snd e, lk_title = fst e @ '': '' @ snd e, lk_aria = fst e @ '' endpoint'',
      lk_label = fst e\<rparr>"

definition renderPreviewEndpoints :: "string \<Rightarrow> location \<Rightarrow> endpoint_page \<Rightarrow> endpoint_page" where
  "renderPreviewEndpoints net l p =
     (case ep_list p of
        None \<Rightarrow> p
      | Some _ \<Rightarrow> p\<lparr>ep_list := Some (map endpoint_link_of (endpoint_entries net l p))\<rparr>)"

definition updated_state :: "js \<Rightarrow> endpoint_state \<Rightarrow> endpoint_state" where
  "updated_state msg st =
     (let r = getp msg ''rtsp''; s0 = getp msg ''stream0''; s1 = getp msg ''stream1'';
          st1 = (if truthy r
                 then st\<lparr>rtsp_username := previewEndpointValue (getp r ''username'') (rtsp_username st),
                         rtsp_password := previewEndpointValue (getp r ''password'') (rtsp_password st),
                         rtsp_port := previewEndpointValue (getp r ''port'') (rtsp_port st)\<rparr>
                 else st);
          st2 = (if truthy s0
                 then st1\<lparr>stream0_endpoint := previewEndpointValue (getp s0 ''rtsp_endpoint'') (stream0_endpoint st1)\<rparr>
                 else st1)
      in if truthy s1
         then st2\<lparr>stream1_endpoint := previewEndpointValue (getp s1 ''rtsp_endpoint'') (stream1_endpoint st2)\<rparr>
         else st2)"

definition updatePreviewEndpointState :: "string \<Rightarrow> location \<Rightarrow> js \<Rightarrow> endpoint_page \<Rightarrow> endpoint_page" where
  "updatePreviewEndpointState net l msg p =
     renderPreviewEndpoints net l (p\<lparr>ep_state := updated_state msg (ep_state p)\<rparr>)"

text \<open>The key request: an answer that is refused, no JSON or \<open>null\<close> leaves the key.\<close>

definition loadPreviewEndpointApiKey :: request where
  "loadPreviewEndpointApiKey = Get ''/x/api-key.cgi''"

definition api_key_settle :: "outcome \<Rightarrow> endpoint_page \<Rightarrow> endpoint_page" where
  "api_key_settle out p =
     (case out of
        Rejected _ \<Rightarrow> p
      | Answer r \<Rightarrow>
          if \<not> resp_ok r then p
          else (case parsed r of
                  None \<Rightarrow> p
                | Some d \<Rightarrow> if truthy (getp d ''exists'') \<and> truthy (getp d ''api_key'')
                            then p\<lparr>ep_key := getp d ''api_key''\<rparr> else p))"

definition initPreviewEndpoints_settle :: "string \<Rightarrow> location \<Rightarrow> outcome \<Rightarrow> endpoint_page \<Rightarrow> endpoint_page" where
  "initPreviewEndpoints_settle net l out p = renderPreviewEndpoints net l (api_key_settle out p)"

section \<open>Copying\<close>

text \<open>The mark of a copied link and the timers that take it away; \<open>copyTimer\<close> is \<open>link._copyTimer\<close>.\<close>

record copy_mark =
  copied :: bool
  copyTimer :: "nat option"
  copy_armed :: "nat list"
  copy_next :: nat

definition markPreviewEndpointCopied :: "copy_mark \<Rightarrow> copy_mark" where
  "markPreviewEndpointCopied m =
     (let n = copy_next m; armed = (case copyTimer m of None \<Rightarrow> copy_armed m | Some t \<Rightarrow> removeAll t (copy_armed m))
      in m\<lparr>copied := True, copyTimer := Some n, copy_armed := armed @ [n], copy_next := Suc n\<rparr>)"

definition copy_timer_fires :: "nat \<Rightarrow> copy_mark \<Rightarrow> copy_mark" where
  "copy_timer_fires t m =
     (if t \<notin> set (copy_armed m) then m
      else m\<lparr>copied := False, copyTimer := None, copy_armed := removeAll t (copy_armed m)\<rparr>)"

text \<open>
  \<open>copyPreviewEndpoint\<close>, with the clipboard of \<open>main.js\<close>; \<open>has_clipboard\<close> says whether
  \<open>window.thinginoClipboard.copy\<close> exists. The result is the mark, the notices and the copied text.
\<close>

definition copyPreviewEndpoint ::
  "bool \<Rightarrow> clipboard_env \<Rightarrow> endpoint_link \<Rightarrow> copy_mark \<Rightarrow> copy_mark \<times> effect list \<times> string option" where
  "copyPreviewEndpoint has_clipboard env k m =
     (let url = (if lk_copyUrl k \<noteq> [] then lk_copyUrl k else lk_href k)
      in if url = [] \<or> \<not> has_clipboard
         then (m, [Notice ''warning'' [JStr ''Clipboard copy is not available.''] 3000], None)
         else (case fst (copyTextToClipboard js_text env (JStr url) 0) of
                 Inr txt \<Rightarrow> (markPreviewEndpointCopied m, [], Some txt)
               | Inl _ \<Rightarrow> (m, [Notice ''danger'' [JStr ''Unable to copy the endpoint.''] 3000], None)))"

section \<open>What an address says\<close>

text \<open>How a client reads an RTSP address (user, password, host with port, path) and a query.\<close>

definition rtsp_parts :: "string \<Rightarrow> (string \<times> string \<times> string \<times> string) option" where
  "rtsp_parts u =
     (if \<not> starts_with u ''rtsp://'' then None
      else let r = drop 7 u
           in case index_of_char (CHR ''@'') r of
                None \<Rightarrow> None
              | Some i \<Rightarrow>
                  (case (index_of_char (CHR '':'') (take i r), index_of_char (CHR ''/'') (drop (Suc i) r)) of
                     (Some j, Some k) \<Rightarrow>
                       Some (pct_decode (take j (take i r)), pct_decode (drop (Suc j) (take i r)),
                             take k (drop (Suc i) r), drop (Suc k) (drop (Suc i) r))
                   | _ \<Rightarrow> None))"

definition query_of :: "string \<Rightarrow> string" where
  "query_of u = (case index_of_char (CHR ''?'') u of None \<Rightarrow> [] | Some i \<Rightarrow> drop (Suc i) u)"

lemma uri_avoids:
  "CHR ''@'' \<notin> set (encodeURIComponent s)" "CHR '':'' \<notin> set (encodeURIComponent s)"
  "CHR ''/'' \<notin> set (encodeURIComponent s)" "CHR ''&'' \<notin> set (encodeURIComponent s)"
  "CHR ''+'' \<notin> set (encodeURIComponent s)" "CHR ''='' \<notin> set (encodeURIComponent s)"
  by (rule uri.enc_avoids; simp add: uri_safe_def alnum_not_special)+

lemma form_decode_uri: "form_decode (encodeURIComponent s) = s"
proof -
  have "replace_char (CHR ''+'') (CHR '' '') (encodeURIComponent s) = encodeURIComponent s"
    unfolding replace_char_def using uri_avoids(5) [of s] by (intro map_idI) auto
  then show ?thesis by (simp add: form_decode_def uri.dec_enc)
qed

lemma rtsp_parts_of:
  assumes "CHR ''/'' \<notin> set hp"
  shows "rtsp_parts (''rtsp://'' @ (encodeURIComponent u @ '':'' @ encodeURIComponent w) @ ''@'' @ hp @ ''/'' @ path) =
           Some (u, w, hp, path)"
proof -
  let ?c = "encodeURIComponent u @ CHR '':'' # encodeURIComponent w"
  have a: "index_of_char (CHR ''@'') (?c @ CHR ''@'' # hp @ CHR ''/'' # path) = Some (length ?c)"
    by (rule index_of_char_append) (simp add: uri_avoids)
  have b: "index_of_char (CHR '':'') ?c = Some (length (encodeURIComponent u))"
    by (rule index_of_char_append) (rule uri_avoids)
  have c: "index_of_char (CHR ''/'') (hp @ CHR ''/'' # path) = Some (length hp)"
    by (rule index_of_char_append) (rule assms)
  have s: "starts_with (''rtsp://'' @ t) ''rtsp://''" for t by (rule starts_with_append)
  have d: "drop 7 (''rtsp://'' @ t) = t" for t by simp
  have n: "(''rtsp://'' @ (encodeURIComponent u @ '':'' @ encodeURIComponent w) @ ''@'' @ hp @ ''/'' @ path) =
           ''rtsp://'' @ ?c @ CHR ''@'' # hp @ CHR ''/'' # path" by simp
  have t: "take (length ?c) (?c @ x) = ?c" "drop (Suc (length ?c)) (?c @ y # x) = x" for x :: string and y
    by simp_all
  show ?thesis
    unfolding n rtsp_parts_def d Let_def a option.case t b c prod.case using s
    by (simp add: uri.dec_enc)
qed

lemma host_port_no_slash:
  assumes "CHR ''/'' \<notin> set host" shows "CHR ''/'' \<notin> set (formatPreviewHostWithPort (wrapIpv6Host host) port d)"
proof -
  have w: "CHR ''/'' \<notin> set (wrapIpv6Host host)" using assms by (simp add: wrapIpv6Host_def)
  have "CHR ''/'' \<notin> set (show_int i)" for i
    using show_int_chars [of "CHR ''/''" i] by (auto simp: is_digit_def)
  with w show ?thesis
    by (cases rule: parse_int_cases [of "Some 10" "js_text port"])
      (simp_all add: formatPreviewHostWithPort_def Let_def num_text_of_int)
qed

lemma query_of_token:
  assumes "CHR ''?'' \<notin> set base"
  shows "query_of (buildPreviewEndpointUrl key base) =
    (if truthy key then ''token='' @ encodeURIComponent (js_text key) else [])"
proof (cases "truthy key")
  case True
  have "index_of_char (CHR ''?'') (base @ CHR ''?'' # t) = Some (length base)" for t
    by (rule index_of_char_append) (rule assms)
  with True assms show ?thesis
    by (simp add: buildPreviewEndpointUrl_def query_of_def includes_single)
next
  case False
  then show ?thesis
    using assms index_of_char_None [of "CHR ''?''" base] by (simp add: buildPreviewEndpointUrl_def query_of_def)
qed

lemma parse_token: "parse_params (''token='' @ encodeURIComponent t) = [(''token'', t)]"
proof -
  have n: "''token='' @ encodeURIComponent t = ''token'' @ CHR ''='' # encodeURIComponent t" by simp
  have "split_on (CHR ''&'') (''token'' @ CHR ''='' # encodeURIComponent t) = [''token'' @ CHR ''='' # encodeURIComponent t]"
    by (rule split_on_plain) (simp add: uri_avoids)
  moreover have "index_of_char (CHR ''='') (''token'' @ CHR ''='' # encodeURIComponent t) = Some (length ''token'')"
    by (rule index_of_char_append) simp
  moreover have "form_decode ''token'' = ''token''" by (rule form_decode_id) simp_all
  ultimately show ?thesis
    unfolding n parse_params_def by (simp add: parse_pair_def form_decode_uri)
qed

lemma copy_mark_inv:
  fixes m :: copy_mark
  defines "ok \<equiv> \<lambda>m. copy_armed m = (case copyTimer m of None \<Rightarrow> [] | Some t \<Rightarrow> [t]) \<and> (copied m \<longleftrightarrow> copyTimer m \<noteq> None)"
  assumes "ok m"
  shows "ok (markPreviewEndpointCopied m)" "ok (copy_timer_fires t m)"
  using assms(2) unfolding ok_def
  by (simp_all add: markPreviewEndpointCopied_def copy_timer_fires_def Let_def split: option.splits)

section \<open>Properties\<close>

text \<open>
  C33. The endpoint list says what the configuration says: after a message, from the two RTSP links
  a client recovers the user, the password and the stream path now in force exactly, whatever characters the
  credentials contain, and the host with its port; the four links over HTTP carry the access key as their
  only parameter, in a form that decodes to the key, when there is one, and no parameter when there is none.\<close>

theorem endpoint_links_recover:
  assumes "CHR ''/'' \<notin> set (endpoint_host net l)" "CHR ''?'' \<notin> set (buildPreviewOrigin l)" "ep_list p = Some ks"
  shows "let q = updatePreviewEndpointState net l msg p; st = ep_state q; links = the (ep_list q);
             hp = formatPreviewHostWithPort (wrapIpv6Host (endpoint_host net l)) (rtsp_port st) 554;
             read = (\<lambda>ch. Some (js_text (rtsp_username st), js_text (rtsp_password st), hp, js_text ch))
         in map lk_label links = [''RTSP Ch0'', ''RTSP Ch1'', ''MJPEG Ch0'', ''MJPEG Ch1'', ''Snapshot Ch0'', ''Snapshot Ch1''] \<and>
            map (rtsp_parts \<circ> lk_copyUrl) (take 2 links) = [read (stream0_endpoint st), read (stream1_endpoint st)] \<and>
            map (parse_params \<circ> query_of \<circ> lk_copyUrl) (drop 2 links) =
              replicate 4 (if truthy (ep_key p) then [(''token'', js_text (ep_key p))] else [])"
proof -
  define st where "st = updated_state msg (ep_state p)"
  define hp where "hp = formatPreviewHostWithPort (wrapIpv6Host (endpoint_host net l)) (rtsp_port st) 554"
  have r: "rtsp_parts (rtsp_url net l st ch) = Some (js_text (rtsp_username st), js_text (rtsp_password st), hp, js_text ch)" for ch
    unfolding rtsp_url_def buildRtspCredential_def hp_def
    by (rule rtsp_parts_of) (rule host_port_no_slash [OF assms(1)])
  have q: "parse_params (query_of (buildPreviewEndpointUrl (ep_key p) (buildPreviewOrigin l @ path))) =
      (if truthy (ep_key p) then [(''token'', js_text (ep_key p))] else [])" if "CHR ''?'' \<notin> set path" for path
    using that assms(2) parse_token [of "js_text (ep_key p)"]
    by (simp add: query_of_token parse_params_def)
  show ?thesis
    using assms(3)
    by (simp add: updatePreviewEndpointState_def renderPreviewEndpoints_def endpoint_entries_def endpoint_link_of_def
        st_def [symmetric] hp_def [symmetric] r q Let_def numeral_eq_Suc)
qed

definition sample_location :: location where
  "sample_location = \<lparr>loc_origin = ''http://cam'', loc_protocol = ''http:'', loc_host = ''cam'', loc_hostname = ''cam''\<rparr>"

theorem endpoint_links_recover_witness:
  "map (rtsp_parts \<circ> lk_copyUrl)
     (take 2 (the (ep_list (updatePreviewEndpointState [] sample_location
        (JObj [(''rtsp'', JObj [(''password'', JStr ''p@ss:/'')])])
        \<lparr>ep_state = previewEndpointState, ep_key = JStr [], ep_list = Some []\<rparr>)))) =
   [Some (''thingino'', ''p@ss:/'', ''cam'', ''ch0''), Some (''thingino'', ''p@ss:/'', ''cam'', ''ch1'')]"
proof -
  have "parse_int (Some 10) ''554'' = Fin 554" by code_simp
  then have hp: "formatPreviewHostWithPort ''cam'' (JStr ''554'') 554 = ''cam''" by (simp add: formatPreviewHostWithPort_def)
  have w: "wrapIpv6Host ''cam'' = ''cam''" by code_simp
  have h: "endpoint_host [] sample_location = ''cam''" by (simp add: endpoint_host_def sample_location_def)
  have o: "buildPreviewOrigin sample_location = ''http://cam''" by (simp add: buildPreviewOrigin_def sample_location_def)
  have f: "rtsp_username previewEndpointState = JStr ''thingino''" "rtsp_port previewEndpointState = JStr ''554''"
    "stream0_endpoint previewEndpointState = JStr ''ch0''" "stream1_endpoint previewEndpointState = JStr ''ch1''"
    by (simp_all add: previewEndpointState_def)
  let ?p = "\<lparr>ep_state = previewEndpointState, ep_key = JStr [], ep_list = Some []\<rparr>"
  let ?m = "JObj [(''rtsp'', JObj [(''password'', JStr ''p@ss:/'')])]"
  have s: "ep_state (updatePreviewEndpointState [] sample_location ?m ?p) =
      previewEndpointState\<lparr>rtsp_password := JStr ''p@ss:/''\<rparr>"
    by (simp add: updatePreviewEndpointState_def renderPreviewEndpoints_def updated_state_def previewEndpointState_def
        previewEndpointValue_def Let_def)
  show ?thesis
    using endpoint_links_recover [of "[]" sample_location ?p "[]" ?m]
    by (simp add: h o s Let_def w hp f)
qed

end
