(* ===== verification/Preview_Settings.thy ===== *)
theory Preview_Settings
  imports Controls Preview_Endpoints
begin

text \<open>
  The streamer settings of the preview page (\<open>preview.js\<close>): the query for the configuration, the message
  handler that fills the form (\<open>handleMessage\<close>, \<open>handleOsdData\<close>), and the change handlers that send one setting
  (\<open>saveStreamValue\<close>, \<open>sendOsdUpdate\<close>, \<open>setFont\<close>, \<open>saveImageValue\<close>). Statements that may throw are run by
  \<open>run_all\<close>; the callers catch what is thrown.
\<close>

definition endpoint :: string where "endpoint = ''/x/json-prudynt.cgi''"

definition stream_params :: "string list" where
  "stream_params = [''enabled'', ''width'', ''height'', ''fps'', ''bitrate'', ''gop'', ''max_gop'', ''format'',
     ''mode'', ''buffers'', ''profile'', ''rtsp_endpoint'', ''audio_enabled'']"

definition image_params :: "string list" where
  "image_params = [''hflip'', ''vflip'', ''wb_bgain'', ''wb_rgain'', ''ae_compensation'', ''core_wb_mode'']"

definition stream_name :: "nat \<Rightarrow> string" where "stream_name k = ''stream'' @ show_nat k"
definition osd_id :: "nat \<Rightarrow> string \<Rightarrow> string" where "osd_id k name = ''osd'' @ show_nat k @ ''_'' @ name"

section \<open>Filling the form\<close>

text \<open>One statement of \<open>handleOsdData\<close> per field: a checkbox, a value, a colour of a text \<open>#rrggbbaa\<close>.\<close>

definition osd_check :: "string \<Rightarrow> js \<Rightarrow> fields \<Rightarrow> fields \<times> bool" where
  "osd_check i v f =
     (if v = JUndef then f else on_field i (\<lambda>e. e\<lparr>f_checked := truthy v, f_disabled := False\<rparr>) f, False)"

definition osd_value :: "string \<Rightarrow> js \<Rightarrow> fields \<Rightarrow> fields \<times> bool" where
  "osd_value i v f =
     (if v = JUndef then f else on_field i (\<lambda>e. e\<lparr>f_value := v, f_disabled := False\<rparr>) f, False)"

definition osd_color :: "string \<Rightarrow> js \<Rightarrow> fields \<Rightarrow> fields \<times> bool" where
  "osd_color i v f =
     (if \<not> truthy v \<or> inputs f i = None then (f, False)
      else (case v of
              JStr s \<Rightarrow> (on_field i (\<lambda>e. e\<lparr>f_value := JStr (rgba2color s), f_disabled := False\<rparr>) f, False)
            | _ \<Rightarrow> (f, True)))"

definition osd_part :: "js \<Rightarrow> string \<Rightarrow> (js \<Rightarrow> (fields \<Rightarrow> fields \<times> bool) list) \<Rightarrow> (fields \<Rightarrow> fields \<times> bool) list" where
  "osd_part osd name steps = (if truthy (getp osd name) then steps (getp osd name) else [])"

definition handleOsdData :: "js \<Rightarrow> nat \<Rightarrow> fields \<Rightarrow> fields \<times> bool" where
  "handleOsdData osd k f =
     (if \<not> truthy osd then (f, False)
      else run_all
        ([osd_check (osd_id k ''enabled'') (getp osd ''enabled''),
          osd_value (osd_id k ''fontsize'') (getp osd ''font_size''),
          osd_value (osd_id k ''strokesize'') (getp osd ''stroke_size'')]
         @ osd_part osd ''logo'' (\<lambda>b.
           [osd_check (osd_id k ''logo_enabled'') (getp b ''enabled''),
            osd_value (osd_id k ''logo_position'') (getp b ''position'')])
         @ osd_part osd ''time'' (\<lambda>b.
           [osd_check (osd_id k ''time_enabled'') (getp b ''enabled''),
            osd_value (osd_id k ''time_format'') (getp b ''format''),
            osd_value (osd_id k ''time_position'') (getp b ''position''),
            osd_color (osd_id k ''time_fillcolor'') (getp b ''fill_color''),
            osd_color (osd_id k ''time_strokecolor'') (getp b ''stroke_color'')])
         @ osd_part osd ''uptime'' (\<lambda>b.
           [osd_check (osd_id k ''uptime_enabled'') (getp b ''enabled''),
            osd_value (osd_id k ''uptime_position'') (getp b ''position''),
            osd_color (osd_id k ''uptime_fillcolor'') (getp b ''fill_color''),
            osd_color (osd_id k ''uptime_strokecolor'') (getp b ''stroke_color'')])
         @ osd_part osd ''usertext'' (\<lambda>b.
           [osd_check (osd_id k ''usertext_enabled'') (getp b ''enabled''),
            osd_value (osd_id k ''usertext_format'') (getp b ''format''),
            osd_value (osd_id k ''usertext_position'') (getp b ''position''),
            osd_color (osd_id k ''usertext_fillcolor'') (getp b ''fill_color''),
            osd_color (osd_id k ''usertext_strokecolor'') (getp b ''stroke_color'')])) f)"

record preview_page =
  pv_fields :: fields
  pv_endpoints :: endpoint_page
  pv_busy :: busy_bar
  pv_motor :: js \<comment> \<open>\<open>window.motorParams\<close>\<close>

definition on_fields :: "(fields \<Rightarrow> fields \<times> bool) \<Rightarrow> preview_page \<Rightarrow> preview_page \<times> bool" where
  "on_fields g p = (let (f, threw) = g (pv_fields p) in (p\<lparr>pv_fields := f\<rparr>, threw))"

text \<open>\<open>$("#id").checked = v\<close> throws where the element is missing.\<close>

definition set_checked :: "string \<Rightarrow> js \<Rightarrow> fields \<Rightarrow> fields \<times> bool" where
  "set_checked i v f =
     (if inputs f i = None then (f, True) else (on_field i (\<lambda>e. e\<lparr>f_checked := truthy v\<rparr>) f, False))"

definition set_params :: "js \<Rightarrow> string \<Rightarrow> string list \<Rightarrow> (fields \<Rightarrow> fields \<times> bool) list" where
  "set_params block domain ps =
     map (\<lambda>q. setValue block domain q) (filter (\<lambda>q. getp block q \<noteq> JUndef) ps)"

definition handleMessage :: "string \<Rightarrow> location \<Rightarrow> js \<Rightarrow> preview_page \<Rightarrow> preview_page \<times> bool" where
  "handleMessage net l msg p =
     (if nullish msg then (p, True)
      else let motion = getp msg ''motion''; privacy = getp msg ''privacy''; image = getp msg ''image'';
               stream = (\<lambda>k. let s = getp msg (stream_name k)
                              in if truthy s
                                 then set_params s (stream_name k) stream_params @ [handleOsdData (getp s ''osd'') k]
                                 else []);
               fill = (if truthy motion \<and> getp motion ''enabled'' \<noteq> JUndef
                       then [set_checked ''motion'' (getp motion ''enabled'')] else [])
                    @ (if truthy privacy \<and> getp privacy ''enabled'' \<noteq> JUndef
                       then [set_checked ''privacy'' (getp privacy ''enabled'')] else [])
                    @ (if truthy image then set_params image ''image'' image_params else [])
                    @ stream 0 @ stream 1
           in run_all (map on_fields fill
                @ [plain_step (\<lambda>q. q\<lparr>pv_endpoints := updatePreviewEndpointState net l msg (pv_endpoints q)\<rparr>)]) p)"

section \<open>Requests\<close>

definition nulls :: "string list \<Rightarrow> js" where
  "nulls ks = JObj (map (\<lambda>k. (k, JNull)) ks)"

definition osd_query :: js where
  "osd_query = JObj
     [(''enabled'', JNull), (''font_path'', JNull), (''font_size'', JNull), (''stroke_size'', JNull),
      (''logo'', nulls [''enabled'', ''position'']),
      (''time'', nulls [''enabled'', ''format'', ''position'', ''fill_color'', ''stroke_color'']),
      (''uptime'', nulls [''enabled'', ''position'', ''fill_color'', ''stroke_color'']),
      (''usertext'', nulls [''enabled'', ''format'', ''position'', ''fill_color'', ''stroke_color''])]"

definition stream_query :: js where
  "stream_query = JObj
     [(''enabled'', JNull), (''width'', JNull), (''height'', JNull), (''fps'', JNull), (''bitrate'', JNull),
      (''gop'', JNull), (''max_gop'', JNull), (''format'', JNull), (''mode'', JNull), (''buffers'', JNull),
      (''profile'', JNull), (''rtsp_endpoint'', JNull), (''audio_enabled'', JNull), (''osd'', osd_query)]"

definition config_query :: js where
  "config_query = JObj
     [(''image'', nulls [''hflip'', ''vflip'', ''wb_bgain'', ''wb_rgain'', ''ae_compensation'', ''core_wb_mode'']),
      (''motion'', nulls [''enabled'']), (''privacy'', nulls [''enabled'']),
      (''rtsp'', nulls [''username'', ''password'', ''port'']),
      (''stream0'', stream_query), (''stream1'', stream_query),
      (''action'', nulls [''capture''])]"

text \<open>What an answer of the streamer does: refused, empty or unreadable ones nothing.\<close>

definition message_of :: "outcome \<Rightarrow> js option" where
  "message_of out =
     (case out of
        Rejected _ \<Rightarrow> None
      | Answer r \<Rightarrow> if \<not> resp_ok r \<or> text_body r = [] then None else parsed r)"

definition apply_answer :: "string \<Rightarrow> location \<Rightarrow> outcome \<Rightarrow> preview_page \<Rightarrow> preview_page" where
  "apply_answer net l out p = (case message_of out of None \<Rightarrow> p | Some msg \<Rightarrow> fst (handleMessage net l msg p))"

definition loadConfig :: "preview_page \<Rightarrow> preview_page \<times> effect list" where
  "loadConfig p = (p\<lparr>pv_busy := showBusy (pv_busy p)\<rparr>, [Send (PostJson endpoint config_query)])"

definition loadConfig_settle :: "string \<Rightarrow> location \<Rightarrow> outcome \<Rightarrow> preview_page \<Rightarrow> preview_page" where
  "loadConfig_settle net l out p = (let q = apply_answer net l out p in q\<lparr>pv_busy := hideBusy (pv_busy q)\<rparr>)"

definition sendToEndpoint :: "js \<Rightarrow> effect list" where
  "sendToEndpoint payload = [Send (PostJson endpoint (jsonify payload))]"

definition sendToEndpoint_settle :: "string \<Rightarrow> location \<Rightarrow> outcome \<Rightarrow> preview_page \<Rightarrow> preview_page" where
  "sendToEndpoint_settle net l out p = apply_answer net l out p"

text \<open>The answer's status is not looked at: any JSON it carries becomes the motor parameters.\<close>

definition loadMotorParams_settle :: "outcome \<Rightarrow> preview_page \<Rightarrow> preview_page" where
  "loadMotorParams_settle out p =
     p\<lparr>pv_motor :=
        (case out of
           Answer r \<Rightarrow> (case parsed r of Some d \<Rightarrow> d
                         | None \<Rightarrow> JObj [(''steps_pan'', jint 0), (''steps_tilt'', jint 0), (''pos_0_x'', jint 0), (''pos_0_y'', jint 0)])
         | Rejected _ \<Rightarrow> JObj [(''steps_pan'', jint 0), (''steps_tilt'', jint 0), (''pos_0_x'', jint 0), (''pos_0_y'', jint 0)])\<rparr>"

section \<open>Sending one setting\<close>

text \<open>The text of a control: \<open>null\<close> assigned to it leaves it empty.\<close>

definition field_text :: "field \<Rightarrow> string" where
  "field_text e = (if f_value e = JNull then [] else js_text (f_value e))"

text \<open>The pattern \<open>^-?\d+(?:\.\d+)?$\<close>.\<close>

definition numeric_text :: "string \<Rightarrow> bool" where
  "numeric_text t =
     (let u = (case t of [] \<Rightarrow> [] | c # r \<Rightarrow> if c = CHR ''-'' then r else t);
          r = dropWhile is_digit u
      in takeWhile is_digit u \<noteq> [] \<and>
         (case r of [] \<Rightarrow> True | c # ds \<Rightarrow> c = CHR ''.'' \<and> ds \<noteq> [] \<and> list_all is_digit ds))"

text \<open>On a text of that pattern \<open>Number.parseFloat\<close> is \<open>Number\<close>.\<close>

definition coerceStreamValue :: "field \<Rightarrow> js" where
  "coerceStreamValue el =
     (if f_type el = ''checkbox'' then JBool (f_checked el)
      else let trimmed = trim (field_text el)
           in if trimmed = [] then JStr []
              else if numeric_text trimmed
                   then JNum (if includes_str trimmed ''.'' then number_of_string trimmed else parse_int (Some 10) trimmed)
                   else JStr trimmed)"

definition ThreadRtsp :: int where "ThreadRtsp = 1"
definition ThreadVideo :: int where "ThreadVideo = 2"
definition ThreadOSD :: int where "ThreadOSD = 8"

definition saveStreamValue :: "nat \<Rightarrow> string \<Rightarrow> fields \<Rightarrow> effect list" where
  "saveStreamValue k param f =
     (case inputs f (stream_name k @ ''_'' @ param) of
        None \<Rightarrow> []
      | Some el \<Rightarrow>
          sendToEndpoint (JObj [(stream_name k, JObj [(param, coerceStreamValue el)]),
            (''action'', JObj [(''restart_thread'', jint (or ThreadRtsp ThreadVideo))])]))"

text \<open>Dragging the slider of a stream parameter: the field and the slider's label follow it.\<close>

definition stream_slider_input :: "nat \<Rightarrow> string \<Rightarrow> string \<Rightarrow> fields \<Rightarrow> fields" where
  "stream_slider_input k param v f =
     (let i = stream_name k @ ''_'' @ param
      in set_label (i @ ''-slider-value'') (JStr v)
           (on_field i (\<lambda>e. e\<lparr>f_value := JStr v\<rparr>) (on_field (i @ ''-slider'') (\<lambda>e. e\<lparr>f_value := JStr v\<rparr>) f)))"

definition sendOsdUpdate :: "nat \<Rightarrow> js \<Rightarrow> effect list" where
  "sendOsdUpdate k osdPayload =
     sendToEndpoint (JObj [(stream_name k, JObj [(''osd'', osdPayload)]),
       (''action'', JObj [(''restart_thread'', jint ThreadOSD)])])"

definition font_payload :: "string \<Rightarrow> field \<Rightarrow> (string \<times> js) list" where
  "font_payload key e =
     (let n = number_of_string (field_text e) in if n = NaN then [] else [(key, JNum n)])"

definition setFont :: "nat \<Rightarrow> fields \<Rightarrow> effect list" where
  "setFont k f =
     (case (inputs f (osd_id k ''fontsize''), inputs f (osd_id k ''strokesize'')) of
        (Some a, Some b) \<Rightarrow>
          let payload = font_payload ''font_size'' a @ font_payload ''stroke_size'' b
          in if payload = [] then []
             else sendToEndpoint (JObj [(stream_name k, JObj [(''osd'', JObj payload)]),
                    (''action'', JObj [(''restart_thread'', jint ThreadOSD)])])
      | _ \<Rightarrow> [])"

text \<open>The table of the OSD controls: \<open>None\<close> calls \<open>setFont\<close>, the others \<open>sendOsdUpdate\<close> with a payload.\<close>

definition checked_of :: "field \<Rightarrow> js" where "checked_of e = JBool (f_checked e)"
definition value_of :: "field \<Rightarrow> js" where "value_of e = JStr (field_text e)"
definition color_of :: "field \<Rightarrow> js" where "color_of e = JStr (field_text e @ ''ff'')"

definition osdControls :: "(string \<times> (field \<Rightarrow> js) option) list" where
  "osdControls =
     [(''enabled'', Some (\<lambda>e. JObj [(''enabled'', checked_of e)])),
      (''fontsize'', None),
      (''strokesize'', None),
      (''logo_enabled'', Some (\<lambda>e. JObj [(''logo'', JObj [(''enabled'', checked_of e)])])),
      (''logo_position'', Some (\<lambda>e. JObj [(''logo'', JObj [(''position'', value_of e)])])),
      (''time_enabled'', Some (\<lambda>e. JObj [(''time'', JObj [(''enabled'', checked_of e)])])),
      (''time_format'', Some (\<lambda>e. JObj [(''time'', JObj [(''format'', value_of e)])])),
      (''time_position'', Some (\<lambda>e. JObj [(''time'', JObj [(''position'', value_of e)])])),
      (''time_fillcolor'', Some (\<lambda>e. JObj [(''time'', JObj [(''fill_color'', color_of e)])])),
      (''time_strokecolor'', Some (\<lambda>e. JObj [(''time'', JObj [(''stroke_color'', color_of e)])])),
      (''uptime_enabled'', Some (\<lambda>e. JObj [(''uptime'', JObj [(''enabled'', checked_of e)])])),
      (''uptime_position'', Some (\<lambda>e. JObj [(''uptime'', JObj [(''position'', value_of e)])])),
      (''uptime_fillcolor'', Some (\<lambda>e. JObj [(''uptime'', JObj [(''fill_color'', color_of e)])])),
      (''uptime_strokecolor'', Some (\<lambda>e. JObj [(''uptime'', JObj [(''stroke_color'', color_of e)])])),
      (''usertext_enabled'', Some (\<lambda>e. JObj [(''usertext'', JObj [(''enabled'', checked_of e)])])),
      (''usertext_format'', Some (\<lambda>e. JObj [(''usertext'', JObj [(''format'', value_of e)])])),
      (''usertext_position'', Some (\<lambda>e. JObj [(''usertext'', JObj [(''position'', value_of e)])])),
      (''usertext_fillcolor'', Some (\<lambda>e. JObj [(''usertext'', JObj [(''fill_color'', color_of e)])])),
      (''usertext_strokecolor'', Some (\<lambda>e. JObj [(''usertext'', JObj [(''stroke_color'', color_of e)])]))]"

definition osd_change :: "nat \<Rightarrow> string \<Rightarrow> fields \<Rightarrow> effect list" where
  "osd_change k name f =
     (case (map_of osdControls name, inputs f (osd_id k name)) of
        (Some None, Some _) \<Rightarrow> setFont k f
      | (Some (Some payload), Some e) \<Rightarrow> sendOsdUpdate k (payload e)
      | _ \<Rightarrow> [])"

definition saveImageValue :: "string \<Rightarrow> fields \<Rightarrow> effect list" where
  "saveImageValue param f =
     (case inputs f (''image_'' @ param) of
        None \<Rightarrow> []
      | Some el \<Rightarrow>
          let v = (if f_type el = ''checkbox'' then JBool (f_checked el) else JNum (parse_int None (field_text el)))
          in sendToEndpoint (JObj [(''image'', JObj [(param, v)])]))"

section \<open>Start of the page\<close>

definition disable_field :: "string \<Rightarrow> fields \<Rightarrow> fields" where
  "disable_field i f = on_field i (\<lambda>e. e\<lparr>f_disabled := True\<rparr>) f"

definition streamer_control_ids :: "string list" where
  "streamer_control_ids =
     concat (map (\<lambda>k. concat (map (\<lambda>q. let i = stream_name k @ ''_'' @ q in [i, i @ ''-slider'']) stream_params)) [0, 1])
     @ concat (map (\<lambda>k. map (\<lambda>c. osd_id k (fst c)) osdControls) [0, 1])
     @ map (\<lambda>q. ''image_'' @ q) image_params"

definition disable_controls :: "fields \<Rightarrow> fields" where
  "disable_controls f = fold disable_field streamer_control_ids f"

section \<open>Export and save\<close>

record save_button =
  sb_disabled :: bool
  sb_timers :: nat

definition export_click :: "save_button \<Rightarrow> save_button \<times> effect list" where
  "export_click b = (b\<lparr>sb_disabled := True, sb_timers := Suc (sb_timers b)\<rparr>, [Redirect ''/x/json-prudynt-config.cgi''])"

definition export_timer :: "save_button \<Rightarrow> save_button" where
  "export_timer b = (if sb_timers b = 0 then b else b\<lparr>sb_disabled := False, sb_timers := sb_timers b - 1\<rparr>)"

definition save_confirmed :: "bool \<Rightarrow> save_button \<Rightarrow> save_button \<times> effect list" where
  "save_confirmed confirmed b =
     (if \<not> confirmed then (b, [])
      else (b\<lparr>sb_disabled := True\<rparr>,
            [Send (PostJson ''/x/json-prudynt.cgi'' (JObj [(''action'', JObj [(''save_config'', JNull)])]))]))"

definition save_answer :: "outcome \<Rightarrow> js list option" where
  "save_answer out =
     (case out of
        Rejected m \<Rightarrow> Some [JStr m]
      | Answer r \<Rightarrow>
          if \<not> resp_ok r then Some [JStr ''HTTP '', jint (status r)]
          else (case parsed r of
                  None \<Rightarrow> Some [JStr ''SyntaxError'']
                | Some d \<Rightarrow>
                    if nullish d then Some [JStr ''TypeError'']
                    else if truthy (getp d ''action'') \<and> getp (getp d ''action'') ''save_config'' = JStr ''ok'' then None
                    else Some [JStr ''Save failed'']))"

definition save_settle :: "outcome \<Rightarrow> save_button \<Rightarrow> save_button \<times> effect list" where
  "save_settle out b =
     (b\<lparr>sb_disabled := False\<rparr>,
      case save_answer out of
        None \<Rightarrow> [AlertBox [JStr ''Configuration saved successfully to /etc/prudynt.json'']]
      | Some m \<Rightarrow> [AlertBox (JStr ''Failed to save configuration: '' # m)])"

section \<open>Sensor information\<close>

record sensor_panel =
  sn_path :: js
  sn_md5 :: js
  sn_soc :: "js option" \<comment> \<open>\<open>None\<close> where the page has no such element\<close>
  sn_model :: "js option"
  sn_loading_text :: "js list"
  sn_loading_hidden :: bool
  sn_details_hidden :: bool

definition sensor_answer :: "outcome \<Rightarrow> js list + js" where
  "sensor_answer out =
     (case out of
        Rejected m \<Rightarrow> Inl [JStr m]
      | Answer r \<Rightarrow>
          if \<not> resp_ok r then Inl [JStr ''HTTP '', jint (status r)]
          else (case parsed r of
                  None \<Rightarrow> Inl [JStr ''SyntaxError'']
                | Some d \<Rightarrow>
                    if nullish d then Inl [JStr ''TypeError'']
                    else if truthy (getp d ''error'')
                         then Inl [js_or (getp (getp d ''error'') ''message'') (JStr ''Unknown error'')] else Inr d))"

definition fetchSensorInfo_settle :: "outcome \<Rightarrow> sensor_panel \<Rightarrow> sensor_panel" where
  "fetchSensorInfo_settle out s =
     (case sensor_answer out of
        Inl m \<Rightarrow> s\<lparr>sn_loading_text := JStr ''Error loading sensor info: '' # m\<rparr>
      | Inr d \<Rightarrow>
          let known = (\<lambda>k. js_or (getp d k) (JStr ''Unknown''))
          in s\<lparr>sn_path := known ''file_path'', sn_md5 := known ''md5'',
               sn_soc := map_option (\<lambda>_. known ''soc_family'') (sn_soc s),
               sn_model := map_option (\<lambda>_. known ''sensor_model'') (sn_model s),
               sn_loading_hidden := True, sn_details_hidden := False\<rparr>)"

section \<open>Lemmas\<close>

text \<open>The details are shown exactly for a usable answer, and then no field of them is empty.\<close>

lemma sensor_details_shown:
  assumes "sn_details_hidden s"
  shows "sn_details_hidden (fetchSensorInfo_settle out s) \<longleftrightarrow> (\<exists>m. sensor_answer out = Inl m)"
    and "\<not> sn_details_hidden (fetchSensorInfo_settle out s) \<Longrightarrow>
         truthy (sn_path (fetchSensorInfo_settle out s)) \<and> truthy (sn_md5 (fetchSensorInfo_settle out s))"
  using assms by (auto simp: fetchSensorInfo_settle_def js_or_truthy Let_def split: sum.splits)

text \<open>The values whose form field shows them as they are: switches, integers, texts that are not numbers.\<close>

definition plain_setting :: "bool \<Rightarrow> js \<Rightarrow> bool" where
  "plain_setting checkbox v =
     (case v of
        JBool _ \<Rightarrow> checkbox
      | JNum (Fin q) \<Rightarrow> \<not> checkbox \<and> q = of_int \<lfloor>q\<rfloor>
      | JStr s \<Rightarrow> \<not> checkbox \<and> trim s = s \<and> \<not> numeric_text s
      | _ \<Rightarrow> False)"

lemma numeric_show_nat: "numeric_text (show_nat n)"
proof -
  obtain c s where cs: "show_nat n = c # s" "is_digit c" by (rule show_nat_Cons)
  then have "(case show_nat n of [] \<Rightarrow> [] | c # r \<Rightarrow> if c = CHR ''-'' then r else show_nat n) = show_nat n" by auto
  then show ?thesis
    by (simp add: numeric_text_def Let_def takeWhile_all dropWhile_all show_nat_digits)
qed

lemma numeric_show_int: "numeric_text (show_int i)"
proof (cases "i < 0")
  case True
  then show ?thesis
    by (simp add: numeric_text_def show_int_def Let_def takeWhile_all dropWhile_all show_nat_digits)
next
  case False
  then show ?thesis by (simp add: show_int_def numeric_show_nat)
qed

lemma coerce_plain:
  assumes "plain_setting (f_type e = ''checkbox'') v"
  shows "coerceStreamValue (e\<lparr>f_value := v, f_checked := truthy v\<rparr>) = v"
proof (cases v)
  case (JNum n)
  then obtain q where q: "v = JNum (Fin q)" "f_type e \<noteq> ''checkbox''" "q = of_int \<lfloor>q\<rfloor>"
    using assms by (cases n) (auto simp: plain_setting_def)
  define i where "i = \<lfloor>q\<rfloor>"
  have v: "v = jint i" using q by (simp add: i_def)
  have "show_int i \<noteq> []" by (simp add: show_int_def)
  then show ?thesis
    using q(2) by (simp add: v coerceStreamValue_def field_text_def show_int_solid numeric_show_int includes_single
        show_int_no_dot parse_int_show_int Let_def)
qed (use assms in \<open>auto simp: plain_setting_def coerceStreamValue_def field_text_def\<close>)

lemma coerce_cong:
  "f_type e = f_type e' \<Longrightarrow> (f_type e = ''checkbox'' \<Longrightarrow> f_checked e = f_checked e') \<Longrightarrow>
   (f_type e \<noteq> ''checkbox'' \<Longrightarrow> f_value e = f_value e') \<Longrightarrow> coerceStreamValue e = coerceStreamValue e'"
  by (simp add: coerceStreamValue_def field_text_def)

lemma stream_name_neq: "stream_name 0 \<noteq> stream_name 1" "stream_name k \<noteq> ''motion''" "stream_name k \<noteq> ''privacy''"
   "stream_name k \<noteq> ''image''"
  by (simp_all add: stream_name_def show_nat.simps)

lemma handleMessage_stream:
  assumes "k = 0 \<or> k = 1" "q \<in> set stream_params" "v \<noteq> JUndef"
    "setValue (JObj [(q, v)]) (stream_name k) q (pv_fields p) = (f', False)"
  shows "pv_fields (fst (handleMessage net l (JObj [(stream_name k, JObj [(q, v)])]) p)) = f'"
proof -
  have d: "distinct stream_params" by (simp add: stream_params_def)
  have "getp (JObj [(q, v)]) q' \<noteq> JUndef \<longleftrightarrow> q' = q" for q'
    using assms(3) by simp
  then have set: "set_params (JObj [(q, v)]) (stream_name k) stream_params = [setValue (JObj [(q, v)]) (stream_name k) q]"
    unfolding set_params_def by (simp only: filter_single [OF d assms(2)] list.map)
  have osd: "handleOsdData (getp (JObj [(q, v)]) ''osd'') k = (\<lambda>f. (f, False))"
    using assms(2) by (auto simp: handleOsdData_def stream_params_def fun_eq_iff)
  let ?m = "JObj [(stream_name k, JObj [(q, v)])]"
  have g: "getp ?m ''motion'' = JUndef" "getp ?m ''privacy'' = JUndef" "getp ?m ''image'' = JUndef"
    "getp ?m (stream_name k) = JObj [(q, v)]" "k = 0 \<Longrightarrow> getp ?m (stream_name 1) = JUndef" "k = 1 \<Longrightarrow> getp ?m (stream_name 0) = JUndef"
    using stream_name_neq stream_name_neq [symmetric] by simp_all
  have n: "\<not> nullish ?m" by (simp add: nullish_def)
  from assms(1) show ?thesis
  proof
    assume k: "k = 0"
    show ?thesis
      using n g set osd assms(4) unfolding k handleMessage_def
      by (simp del: getp.simps add: Let_def on_fields_def plain_step_def)
  next
    assume k: "k = 1"
    show ?thesis
      using n g set osd assms(4) unfolding k handleMessage_def
      by (simp del: getp.simps One_nat_def add: Let_def on_fields_def plain_step_def)
  qed
qed

text \<open>What an OSD control shows after its setting came back.\<close>

definition is_switch :: "string \<Rightarrow> bool" where
  "is_switch name = starts_with (rev name) (rev ''enabled'')"

definition is_color :: "string \<Rightarrow> bool" where
  "is_color name = starts_with (rev name) (rev ''color'')"

definition osd_shows :: "string \<Rightarrow> field \<Rightarrow> field \<Rightarrow> field" where
  "osd_shows name e e' =
     (if is_switch name then e'\<lparr>f_checked := f_checked e, f_disabled := False\<rparr>
      else e'\<lparr>f_value := JStr (field_text e), f_disabled := False\<rparr>)"

lemmas osd_defs = handleOsdData_def osd_part_def osd_check_def osd_value_def osd_color_def
  checked_of_def value_of_def color_of_def

lemma rgba2color_opaque: "length s = 7 \<Longrightarrow> rgba2color (s @ ''ff'') = s"
  by (simp add: rgba2color_def substring_def)

lemma osd_payload_applied:
  assumes "(name, Some payload) \<in> set osdControls" "inputs g (osd_id k name) = Some e'"
    "is_color name \<Longrightarrow> length (field_text e) = 7"
  shows "handleOsdData (payload e) k g = (on_field (osd_id k name) (osd_shows name e) g, False)"
proof -
  have c: "is_color name \<Longrightarrow> rgba2color (field_text e @ ''ff'') = field_text e"
    using assms(3) by (simp add: rgba2color_opaque)
  show ?thesis
    using assms(1) unfolding osdControls_def
    apply (simp only: list.set insert_iff empty_iff prod.inject option.inject option.distinct simp_thms)
    apply (elim disjE conjE; hypsubst)
    using assms(2) c
    by (simp_all add: osd_defs osd_shows_def[abs_def] is_switch_def is_color_def starts_with_def on_field_def cong: if_cong)
qed

lemma osd_payload_json: "(name, Some payload) \<in> set osdControls \<Longrightarrow> jsonify (payload e) = payload e"
  unfolding osdControls_def
  by (simp only: list.set insert_iff empty_iff prod.inject option.inject option.distinct simp_thms)
    (elim disjE conjE; hypsubst; simp add: checked_of_def value_of_def color_of_def)

lemma distinct_osdControls: "distinct (map fst osdControls)"
  by (simp add: osdControls_def)

lemma handleMessage_osd:
  assumes "k = 0 \<or> k = 1" "truthy osd" "handleOsdData osd k (pv_fields p) = (f', False)"
  shows "pv_fields (fst (handleMessage net l
      (JObj [(stream_name k, JObj [(''osd'', osd)]), (''action'', JObj [(''restart_thread'', jint t)])]) p)) = f'"
proof -
  let ?m = "JObj [(stream_name k, JObj [(''osd'', osd)]), (''action'', JObj [(''restart_thread'', jint t)])]"
  have a: "stream_name j \<noteq> ''action''" for j by (simp add: stream_name_def)
  have g: "getp ?m ''motion'' = JUndef" "getp ?m ''privacy'' = JUndef" "getp ?m ''image'' = JUndef"
    "getp ?m (stream_name k) = JObj [(''osd'', osd)]"
    "k = 0 \<Longrightarrow> getp ?m (stream_name 1) = JUndef" "k = 1 \<Longrightarrow> getp ?m (stream_name 0) = JUndef"
    using stream_name_neq stream_name_neq [symmetric] a by simp_all
  have n: "\<not> nullish ?m" by (simp add: nullish_def)
  have o: "getp (JObj [(''osd'', osd)]) ''osd'' = osd" by simp
  have sp: "set_params (JObj [(''osd'', osd)]) d stream_params = []" for d
    by (simp add: set_params_def stream_params_def)
  from assms(1) show ?thesis
  proof
    assume k: "k = 0"
    show ?thesis
      using n g sp o assms(3) unfolding k handleMessage_def
      by (simp del: getp.simps add: Let_def on_fields_def plain_step_def)
  next
    assume k: "k = 1"
    show ?thesis
      using n g sp o assms(3) unfolding k handleMessage_def
      by (simp del: getp.simps One_nat_def add: Let_def on_fields_def plain_step_def)
  qed
qed

section \<open>Properties\<close>

text \<open>
  Reading a stream setting into the form and sending it back changes neither its value nor its JSON type: whatever
  stream and parameter, a switch comes back as a boolean, an integer as the same number and a text as the
  same text, with the restart of the RTSP and video threads.\<close>

theorem stream_setting_keeps_type:
  assumes "k = 0 \<or> k = 1" "q \<in> set stream_params" 
    "inputs (pv_fields p) (stream_name k @ ''_'' @ q) = Some el"
    "f_type el = ''range'' \<Longrightarrow> labels (pv_fields p) (stream_name k @ ''_'' @ q @ ''-show'') \<noteq> None"
    "plain_setting (f_type el = ''checkbox'') v"
  shows "saveStreamValue k q (pv_fields (fst (handleMessage net l (JObj [(stream_name k, JObj [(q, v)])]) p))) =
    [Send (PostJson endpoint (JObj [(stream_name k, JObj [(q, v)]), (''action'', JObj [(''restart_thread'', jint 3)])]))]"
proof -
  have u: "v \<noteq> JUndef" "jsonify v = v"
    using assms(5) by (auto simp: plain_setting_def split: js.splits jnum.splits)
  obtain f' el' where f': "setValue (JObj [(q, v)]) (stream_name k) q (pv_fields p) = (f', False)"
    "inputs f' (stream_name k @ ''_'' @ q) = Some el'" "f_type el' = f_type el"
    "f_type el = ''checkbox'' \<Longrightarrow> f_checked el' = truthy v" "f_type el \<noteq> ''checkbox'' \<Longrightarrow> f_value el' = v"
    using setValue_field [OF assms(3) u(1) assms(4)] by metis
  have "coerceStreamValue el' = coerceStreamValue (el\<lparr>f_value := v, f_checked := truthy v\<rparr>)"
    by (rule coerce_cong) (use f' in simp_all)
  then have "coerceStreamValue el' = v" using coerce_plain [OF assms(5)] by simp
  moreover have "pv_fields (fst (handleMessage net l (JObj [(stream_name k, JObj [(q, v)])]) p)) = f'"
    by (rule handleMessage_stream [OF assms(1,2) u(1) f'(1)])
  ultimately show ?thesis
    using f'(2) u by (simp add: saveStreamValue_def sendToEndpoint_def ThreadRtsp_def ThreadVideo_def)
qed

definition text_field :: "string \<Rightarrow> js \<Rightarrow> field" where
  "text_field ty v = \<lparr>f_type = ty, f_value = v, f_checked = False, f_disabled = True, f_wrapper_disabled = None\<rparr>"

definition sample_preview :: "(string \<rightharpoonup> field) \<Rightarrow> preview_page" where
  "sample_preview fs = \<lparr>pv_fields = \<lparr>inputs = fs, labels = Map.empty\<rparr>,
     pv_endpoints = \<lparr>ep_state = previewEndpointState, ep_key = JStr [], ep_list = None\<rparr>,
     pv_busy = idle_bar, pv_motor = JUndef\<rparr>"

theorem stream_setting_keeps_type_witness:
  "saveStreamValue 1 ''fps'' (pv_fields (fst (handleMessage [] sample_location
     (JObj [(stream_name 1, JObj [(''fps'', jint 25)])])
     (sample_preview [stream_name 1 @ ''_fps'' \<mapsto> text_field ''number'' JNull])))) =
   [Send (PostJson endpoint (JObj [(stream_name 1, JObj [(''fps'', jint 25)]),
      (''action'', JObj [(''restart_thread'', jint 3)])]))]"
  by (rule stream_setting_keeps_type [where el = "text_field ''number'' JNull"])
    (simp_all add: stream_params_def sample_preview_def text_field_def plain_setting_def)

text \<open>
  An OSD setting shows what was set: the message an OSD control of either stream sends on a change (the two
  size fields apart, which are sent together), received by another page, gives that control the state
  it had on the first page, switches, texts, positions and colours alike, enables it, and touches no other control.\<close>

theorem osd_setting_roundtrip:
  assumes "k = 0 \<or> k = 1" "(name, Some payload) \<in> set osdControls"
    "inputs f (osd_id k name) = Some e" "inputs (pv_fields p) (osd_id k name) = Some e'"
    "is_color name \<Longrightarrow> length (field_text e) = 7"
  shows "\<exists>m. osd_change k name f = [Send (PostJson endpoint m)] \<and>
    pv_fields (fst (handleMessage net l m p)) = on_field (osd_id k name) (osd_shows name e) (pv_fields p)"
proof -
  let ?m = "JObj [(stream_name k, JObj [(''osd'', payload e)]), (''action'', JObj [(''restart_thread'', jint 8)])]"
  have "map_of osdControls name = Some (Some payload)"
    using assms(2) distinct_osdControls by (rule map_of_is_SomeI [rotated])
  moreover obtain kvs where kvs: "payload e = JObj kvs"
    using assms(2) unfolding osdControls_def by auto
  ultimately have "osd_change k name f = [Send (PostJson endpoint ?m)]"
    using assms(3) osd_payload_json [OF assms(2), of e]
    by (simp add: osd_change_def sendOsdUpdate_def sendToEndpoint_def ThreadOSD_def)
  moreover have "pv_fields (fst (handleMessage net l ?m p)) = on_field (osd_id k name) (osd_shows name e) (pv_fields p)"
    using assms(1) _ osd_payload_applied [OF assms(2,4,5)]
    by (rule handleMessage_osd) (simp_all add: kvs)
  ultimately show ?thesis by blast
qed

theorem osd_setting_roundtrip_witness:
  "\<exists>m. osd_change 0 ''time_fillcolor'' \<lparr>inputs = [osd_id 0 ''time_fillcolor'' \<mapsto> text_field ''color'' (JStr ''#a0b1c2'')], labels = Map.empty\<rparr>
       = [Send (PostJson endpoint m)] \<and>
     pv_fields (fst (handleMessage [] sample_location m (sample_preview [osd_id 0 ''time_fillcolor'' \<mapsto> text_field ''color'' JNull]))) =
     on_field (osd_id 0 ''time_fillcolor'') (osd_shows ''time_fillcolor'' (text_field ''color'' (JStr ''#a0b1c2'')))
       (pv_fields (sample_preview [osd_id 0 ''time_fillcolor'' \<mapsto> text_field ''color'' JNull]))"
  by (rule osd_setting_roundtrip [where e' = "text_field ''color'' JNull"
      and payload = "\<lambda>e. JObj [(''time'', JObj [(''fill_color'', color_of e)])]"])
    (simp_all add: osdControls_def sample_preview_def text_field_def field_text_def)

section \<open>Errors\<close>

text \<open>
  A message that reports the motion state on a page without the element \<open>#motion\<close> fills nothing at all: the
  handler throws before the first field.
\<close>

lemma message_without_motion_box:
  assumes "inputs (pv_fields p) ''motion'' = None" "truthy (getp msg ''motion'')"
    "getp (getp msg ''motion'') ''enabled'' \<noteq> JUndef"
  shows "handleMessage net l msg p = (p, True)"
proof -
  have "\<not> nullish msg" using assms(2) by (auto simp: nullish_def)
  then show ?thesis
    using assms by (simp add: handleMessage_def Let_def on_fields_def set_checked_def)
qed

text \<open>An emptied size field is sent as the size 0: only texts that are no number are held back.\<close>

lemma empty_font_size_is_zero:
  assumes "inputs f (osd_id k ''fontsize'') = Some a" "inputs f (osd_id k ''strokesize'') = Some b"
    "field_text a = []" "number_of_string (field_text b) = NaN"
  shows "setFont k f = [Send (PostJson endpoint (JObj [(stream_name k, JObj [(''osd'', JObj [(''font_size'', jint 0)])]),
           (''action'', JObj [(''restart_thread'', jint 8)])]))]"
proof -
  have "number_of_string [] = Fin 0" by (simp add: number_of_string_def trim_def)
  then show ?thesis
    using assms by (simp add: setFont_def font_payload_def sendToEndpoint_def ThreadOSD_def)
qed

text \<open>A number field of the image settings that holds no number is sent as \<open>null\<close>, the form of a query.\<close>

lemma image_value_or_query:
  assumes "inputs f (''image_'' @ q) = Some el" "f_type el \<noteq> ''checkbox''"
  shows "saveImageValue q f = [Send (PostJson endpoint (JObj [(''image'', JObj [(q, JNull)])]))] \<or>
         (\<exists>i. parse_int None (field_text el) = Fin (of_int i) \<and>
              saveImageValue q f = [Send (PostJson endpoint (JObj [(''image'', JObj [(q, jint i)])]))])"
  using assms
  by (cases rule: parse_int_cases [of None "field_text el"]) (simp_all add: saveImageValue_def sendToEndpoint_def)

lemma fold_disable:
  "inputs (fold disable_field is f) i = map_option (\<lambda>e. if i \<in> set is then e\<lparr>f_disabled := True\<rparr> else e) (inputs f i)"
  by (induction "is" arbitrary: f) (auto simp: disable_field_def option.map_comp comp_def option.map_ident intro!: option.map_cong0)

text \<open>Every control of the streamer is disabled until a message brings its value.\<close>

lemma controls_start_disabled:
  "i \<in> set streamer_control_ids \<Longrightarrow> inputs (disable_controls f) i = Some e \<Longrightarrow> f_disabled e"
  by (auto simp: disable_controls_def fold_disable)

text \<open>The query asks for everything the message handler can show.\<close>

lemma config_query_complete:
  "list_all (\<lambda>q. getp (getp config_query ''stream0'') q = JNull \<and> getp (getp config_query ''stream1'') q = JNull) stream_params"
  "list_all (\<lambda>q. getp (getp config_query ''image'') q = JNull) image_params"
  by (simp_all add: config_query_def stream_query_def nulls_def stream_params_def image_params_def)

end
