(* ===== verification/Preview_Imaging.thy ===== *)
theory Preview_Imaging
  imports Preview_Settings
begin

text \<open>
  The imaging sliders of the preview page (\<open>preview.js\<close>): nine settings with a number field and a slider each,
  whose limits and defaults come from the camera (\<open>applyFieldMetadata\<close>), and the handlers that send a new value
  to the imaging service and then store it in the streamer's configuration.
\<close>

section \<open>State\<close>

definition imagingFields :: "string list" where
  "imagingFields = [''brightness'', ''contrast'', ''sharpness'', ''saturation'', ''backlight'',
     ''wide_dynamic_range'', ''tone'', ''defog'', ''noise_reduction'']"

definition imageConfigKeyMap :: "(string \<times> string) list" where
  "imageConfigKeyMap =
     [(''brightness'', ''brightness''), (''contrast'', ''contrast''), (''sharpness'', ''sharpness''),
      (''saturation'', ''saturation''), (''backlight'', ''backlight_compensation''),
      (''wide_dynamic_range'', ''drc_strength''), (''tone'', ''highlight_depress''),
      (''defog'', ''defog_strength''), (''noise_reduction'', ''sinter_strength'')]"

text \<open>
  A number field keeps its limits in \<open>data-min\<close> and \<open>data-max\<close>, which may be missing; a slider has
  attributes of its own, whose properties read as the empty text when missing. A busy control has
  \<open>data-busy\<close> and is faded.
\<close>

record imaging_input =
  ii_value :: js
  ii_disabled :: bool
  ii_min :: "string option"
  ii_max :: "string option"
  ii_default :: "string option"
  ii_wrapper :: bool \<comment> \<open>the \<open>disabled\<close> class of the wrapper\<close>
  ii_busy :: bool

record imaging_slider =
  is_value :: js
  is_disabled :: bool
  is_min_attr :: string
  is_max_attr :: string
  is_default :: "string option"
  is_busy :: bool

record imaging_field =
  im_input :: "imaging_input option"
  im_slider :: "imaging_slider option"
  im_label :: "js option" \<comment> \<open>the text of \<open>#<field>-slider-value\<close>, if it exists\<close>

type_synonym imaging_page = "string \<Rightarrow> imaging_field"

definition on_input :: "(imaging_input \<Rightarrow> imaging_input) \<Rightarrow> imaging_field \<Rightarrow> imaging_field" where
  "on_input g f = f\<lparr>im_input := map_option g (im_input f)\<rparr>"

definition on_slider :: "(imaging_slider \<Rightarrow> imaging_slider) \<Rightarrow> imaging_field \<Rightarrow> imaging_field" where
  "on_slider g f = f\<lparr>im_slider := map_option g (im_slider f)\<rparr>"

text \<open>The dash shown for a missing value, as its UTF-8 bytes.\<close>

definition dash :: js where "dash = JStr (map char_of [226, 128, 148 :: nat])"

definition disable_imaging :: "imaging_field \<Rightarrow> imaging_field" where
  "disable_imaging f =
     on_slider (\<lambda>s. s\<lparr>is_disabled := True\<rparr>) (on_input (\<lambda>i. i\<lparr>ii_disabled := True, ii_wrapper := True\<rparr>) f)"

section \<open>Showing the camera's values\<close>

definition updateImagingLabel :: "js \<Rightarrow> imaging_field \<Rightarrow> imaging_field" where
  "updateImagingLabel v f =
     (let f1 = on_input (\<lambda>i. i\<lparr>ii_value := (if nullish v then JStr [] else v)\<rparr>) f;
          f2 = f1\<lparr>im_label := map_option (\<lambda>_. if nullish v then dash else v) (im_label f1)\<rparr>
      in if nullish v then f2 else on_slider (\<lambda>s. s\<lparr>is_value := v\<rparr>) f2)"

definition setSliderBounds :: "jnum \<Rightarrow> jnum \<Rightarrow> jnum \<Rightarrow> jnum \<Rightarrow> imaging_field \<Rightarrow> imaging_field" where
  "setSliderBounds mn mx v dflt f =
     (let f1 = (if is_finite mn
                then on_slider (\<lambda>s. s\<lparr>is_min_attr := num_text mn\<rparr>) (on_input (\<lambda>i. i\<lparr>ii_min := Some (num_text mn)\<rparr>) f) else f);
          f2 = (if is_finite mx
                then on_slider (\<lambda>s. s\<lparr>is_max_attr := num_text mx\<rparr>) (on_input (\<lambda>i. i\<lparr>ii_max := Some (num_text mx)\<rparr>) f1) else f1);
          f3 = (if is_finite v
                then on_slider (\<lambda>s. s\<lparr>is_value := JNum v\<rparr>) (on_input (\<lambda>i. i\<lparr>ii_value := JNum v\<rparr>) f2) else f2);
          d = (if is_finite dflt then Some (num_text dflt) else None)
      in on_slider (\<lambda>s. s\<lparr>is_default := d\<rparr>) (on_input (\<lambda>i. i\<lparr>ii_default := d\<rparr>) f3))"

definition applyFieldMetadata :: "js \<Rightarrow> imaging_field \<Rightarrow> imaging_field" where
  "applyFieldMetadata data f =
     (if im_input f = None then f
      else if \<not> (truthy data \<and> getp data ''supported'' \<noteq> JBool False)
      then updateImagingLabel dash
             (on_slider (\<lambda>s. s\<lparr>is_disabled := True, is_default := None\<rparr>)
               (on_input (\<lambda>i. i\<lparr>ii_disabled := True, ii_wrapper := True, ii_default := None\<rparr>) f))
      else updateImagingLabel (getp data ''value'')
             (setSliderBounds (to_number (getp data ''min'')) (to_number (getp data ''max''))
                (to_number (getp data ''value'')) (to_number (getp data ''default''))
                (on_slider (\<lambda>s. s\<lparr>is_disabled := False\<rparr>)
                  (on_input (\<lambda>i. i\<lparr>ii_disabled := False, ii_wrapper := False\<rparr>) f))))"

text \<open>\<open>payload && payload.message && payload.message.fields\<close>, and \<open>fields[field] || null\<close>.\<close>

definition imaging_fields_of :: "js \<Rightarrow> js" where
  "imaging_fields_of payload = and_prop (and_prop payload ''message'') ''fields''"

definition metadata_of :: "js \<Rightarrow> string \<Rightarrow> js" where
  "metadata_of fs name = js_or (getp fs name) JNull"

definition fetchImagingState_settle :: "outcome \<Rightarrow> imaging_page \<times> busy_bar \<Rightarrow> imaging_page \<times> busy_bar" where
  "fetchImagingState_settle out p =
     (let shown = (case out of
            Rejected _ \<Rightarrow> fst p
          | Answer r \<Rightarrow>
              if \<not> resp_ok r then fst p
              else (case parsed r of
                      None \<Rightarrow> fst p
                    | Some payload \<Rightarrow>
                        let fs = imaging_fields_of payload
                        in if \<not> truthy fs then fst p
                           else fold (\<lambda>n q. q(n := applyFieldMetadata (metadata_of fs n) (q n))) imagingFields (fst p)))
      in (shown, hideBusy (snd p)))"

definition fetchImagingState :: "imaging_page \<times> busy_bar \<Rightarrow> (imaging_page \<times> busy_bar) \<times> effect list" where
  "fetchImagingState p = ((fst p, showBusy (snd p)), [Send (Get ''/x/json-imaging.cgi'')])"

section \<open>Sending a value\<close>

datatype imaging_target = InputEl | SliderEl

definition set_busy :: "imaging_target \<Rightarrow> bool \<Rightarrow> imaging_field \<Rightarrow> imaging_field" where
  "set_busy t b f =
     (case t of InputEl \<Rightarrow> on_input (\<lambda>i. i\<lparr>ii_busy := b\<rparr>) f | SliderEl \<Rightarrow> on_slider (\<lambda>s. s\<lparr>is_busy := b\<rparr>) f)"

definition persistImagingSetting :: "string \<Rightarrow> jnum \<Rightarrow> effect list" where
  "persistImagingSetting name v =
     (case map_of imageConfigKeyMap name of
        None \<Rightarrow> []
      | Some key \<Rightarrow> if \<not> is_finite v then [] else sendToEndpoint (JObj [(''image'', JObj [(key, JNum v)])]))"

definition sendImagingUpdate :: "string \<Rightarrow> jnum \<Rightarrow> imaging_target \<Rightarrow> imaging_field \<Rightarrow> imaging_field \<times> effect list" where
  "sendImagingUpdate name v t f =
     (set_busy t True f, [Send (PostForm ''/x/json-imaging.cgi'' [(''cmd'', ''set''), (name, num_text v)])])"

text \<open>The answer: the fields it reports, and whether the update went through (so that it is stored).\<close>

definition imaging_answer :: "outcome \<Rightarrow> js option \<times> bool" where
  "imaging_answer out =
     (case out of
        Rejected _ \<Rightarrow> (None, False)
      | Answer r \<Rightarrow>
          if \<not> resp_ok r then (None, False)
          else if text_body r = [] then (None, True)
          else (case parsed r of
                  None \<Rightarrow> (None, False)
                | Some payload \<Rightarrow>
                    (if truthy (imaging_fields_of payload) then Some (imaging_fields_of payload) else None, True)))"

definition sendImagingUpdate_settle ::
  "string \<Rightarrow> jnum \<Rightarrow> imaging_target \<Rightarrow> outcome \<Rightarrow> imaging_field \<Rightarrow> imaging_field \<times> effect list" where
  "sendImagingUpdate_settle name v t out f =
     (let (fs, accepted) = imaging_answer out;
          f1 = (case fs of None \<Rightarrow> f | Some fs \<Rightarrow> applyFieldMetadata (metadata_of fs name) f)
      in (set_busy t False f1, if accepted then persistImagingSetting name v else []))"

section \<open>Handlers\<close>

definition el_text :: "js \<Rightarrow> string" where
  "el_text v = (if v = JNull then [] else js_text v)"

definition imaging_change :: "string \<Rightarrow> imaging_target \<Rightarrow> imaging_field \<Rightarrow> imaging_field \<times> effect list" where
  "imaging_change name t f =
     (let txt = (case t of InputEl \<Rightarrow> map_option (\<lambda>i. el_text (ii_value i)) (im_input f)
                         | SliderEl \<Rightarrow> map_option (\<lambda>s. el_text (is_value s)) (im_slider f))
      in case txt of
           None \<Rightarrow> (f, [])
         | Some s \<Rightarrow> (case parse_int None s of NaN \<Rightarrow> (f, []) | v \<Rightarrow> sendImagingUpdate name v t f))"

definition slider_drag :: "js \<Rightarrow> imaging_field \<Rightarrow> imaging_field" where
  "slider_drag v f = updateImagingLabel v (on_slider (\<lambda>s. s\<lparr>is_value := v\<rparr>) f)"

text \<open>\<open>Math.round((min + max) / 2)\<close>.\<close>

fun num_midpoint :: "jnum \<Rightarrow> jnum \<Rightarrow> jnum" where
  "num_midpoint (Fin a) (Fin b) = Fin (of_int (math_round ((a + b) / 2)))"
| "num_midpoint NaN b = NaN"
| "num_midpoint a NaN = NaN"
| "num_midpoint PosInf NegInf = NaN"
| "num_midpoint NegInf PosInf = NaN"
| "num_midpoint PosInf b = PosInf"
| "num_midpoint NegInf b = NegInf"
| "num_midpoint (Fin a) b = b"

definition reset_value :: "string \<Rightarrow> string \<Rightarrow> string option \<Rightarrow> jnum" where
  "reset_value mn mx dflt =
     (let d = (case dflt of None \<Rightarrow> NaN | Some s \<Rightarrow> number_of_string s)
      in if is_finite d then d else num_midpoint (number_of_string mn) (number_of_string mx))"

definition reset_to :: "string \<Rightarrow> imaging_target \<Rightarrow> jnum \<Rightarrow> imaging_field \<Rightarrow> imaging_field \<times> effect list" where
  "reset_to name t v f = sendImagingUpdate name v t (updateImagingLabel (JNum v) f)"

definition imaging_dblclick :: "string \<Rightarrow> imaging_target \<Rightarrow> imaging_field \<Rightarrow> imaging_field \<times> effect list" where
  "imaging_dblclick name t f =
     (case t of
        InputEl \<Rightarrow>
          (case im_input f of
             None \<Rightarrow> (f, [])
           | Some i \<Rightarrow>
               let v = reset_value (case ii_min i of None \<Rightarrow> ''0'' | Some s \<Rightarrow> s)
                         (case ii_max i of None \<Rightarrow> ''255'' | Some s \<Rightarrow> s) (ii_default i)
               in reset_to name t v (on_input (\<lambda>i. i\<lparr>ii_value := JNum v\<rparr>) f))
      | SliderEl \<Rightarrow>
          (case im_slider f of
             None \<Rightarrow> (f, [])
           | Some s \<Rightarrow>
               let v = reset_value (is_min_attr s) (is_max_attr s) (is_default s)
               in reset_to name t v (on_slider (\<lambda>s. s\<lparr>is_value := JNum v\<rparr>) f)))"

section \<open>Lemmas\<close>

lemma midpoint_bounds:
  assumes "a \<le> b" obtains v where "num_midpoint (Fin (of_int a)) (Fin (of_int b)) = Fin (of_int v)" "a \<le> v" "v \<le> b"
proof
  show "num_midpoint (Fin (of_int a)) (Fin (of_int b)) = Fin (of_int (math_round ((of_int a + of_int b) / 2)))" by simp
  show "a \<le> math_round ((of_int a + of_int b) / 2)" using assms by (intro math_round_ge) (simp add: field_simps)
  show "math_round ((of_int a + of_int b) / 2) \<le> b" using assms by (intro math_round_le) (simp add: field_simps)
qed

text \<open>A default is missing or lies within the limits.\<close>

definition default_ok :: "int \<Rightarrow> int \<Rightarrow> js \<Rightarrow> bool" where
  "default_ok a b v = (v = JUndef \<or> (\<exists>d. v = jint d \<and> a \<le> d \<and> d \<le> b))"

lemma reset_value_bounds:
  assumes "a \<le> b" "default_ok a b d"
  obtains v where "reset_value (show_int a) (show_int b)
      (if is_finite (to_number d) then Some (num_text (to_number d)) else None) = Fin (of_int v)" "a \<le> v" "v \<le> b"
proof (cases "d = JUndef")
  case True
  then show thesis using midpoint_bounds [OF assms(1)] that by (auto simp: reset_value_def number_of_show_int)
next
  case False
  then obtain e where "d = jint e" "a \<le> e" "e \<le> b" using assms(2) by (auto simp: default_ok_def)
  then show thesis using that [of e] by (simp add: reset_value_def number_of_show_int)
qed

lemmas imaging_defs = on_input_def on_slider_def updateImagingLabel_def setSliderBounds_def

lemma metadata_limits:
  assumes "im_input f = Some i0" "truthy data" "getp data ''supported'' \<noteq> JBool False"
    "getp data ''min'' = jint a" "getp data ''max'' = jint b"
  defines "d \<equiv> to_number (getp data ''default'')"
  shows "\<exists>i. im_input (applyFieldMetadata data f) = Some i \<and> ii_min i = Some (show_int a) \<and> ii_max i = Some (show_int b) \<and>
           ii_default i = (if is_finite d then Some (num_text d) else None)"
    and "im_slider f = Some s0 \<Longrightarrow> \<exists>s. im_slider (applyFieldMetadata data f) = Some s \<and> is_min_attr s = show_int a \<and>
           is_max_attr s = show_int b \<and> is_default s = (if is_finite d then Some (num_text d) else None)"
  unfolding d_def using assms(1-5) by (simp_all add: applyFieldMetadata_def imaging_defs Let_def)

definition shown_value :: "imaging_target \<Rightarrow> imaging_field \<Rightarrow> js option" where
  "shown_value t f = (case t of InputEl \<Rightarrow> map_option ii_value (im_input f) | SliderEl \<Rightarrow> map_option is_value (im_slider f))"

section \<open>Properties\<close>

text \<open>
  Resetting an imaging setting stays within its limits: once the camera has reported integer limits and no default or
  one between them, a double click on the number field or on the slider sends exactly one request, with a
  value between the limits, and shows that value.\<close>

theorem imaging_reset_in_range:
  assumes "im_input f \<noteq> None" "shown_value t f \<noteq> None" "truthy data" "getp data ''supported'' \<noteq> JBool False"
    "getp data ''min'' = jint a" "getp data ''max'' = jint b" "a \<le> b" "default_ok a b (getp data ''default'')"
  shows "\<exists>v. a \<le> v \<and> v \<le> b \<and>
     snd (imaging_dblclick name t (applyFieldMetadata data f)) =
       [Send (PostForm ''/x/json-imaging.cgi'' [(''cmd'', ''set''), (name, show_int v)])] \<and>
     shown_value t (fst (imaging_dblclick name t (applyFieldMetadata data f))) = Some (jint v)"
proof -
  obtain i0 where i0: "im_input f = Some i0" using assms(1) by auto
  obtain v where v: "reset_value (show_int a) (show_int b)
      (if is_finite (to_number (getp data ''default'')) then Some (num_text (to_number (getp data ''default''))) else None) =
        Fin (of_int v)" "a \<le> v" "v \<le> b"
    using reset_value_bounds [OF assms(7,8)] by metis
  note lim = metadata_limits [OF i0 assms(3-6)]
  show ?thesis
  proof (cases t)
    case InputEl
    obtain i where "im_input (applyFieldMetadata data f) = Some i" "ii_min i = Some (show_int a)" "ii_max i = Some (show_int b)"
      "ii_default i = (if is_finite (to_number (getp data ''default'')) then Some (num_text (to_number (getp data ''default''))) else None)"
      using lim(1) by blast
    then show ?thesis
      using v InputEl by (intro exI [of _ v]) (simp add: imaging_dblclick_def reset_to_def sendImagingUpdate_def shown_value_def
        set_busy_def imaging_defs nullish_def Let_def)
  next
    case SliderEl
    then obtain s0 where s0: "im_slider f = Some s0" using assms(2) by (auto simp: shown_value_def)
    obtain s where "im_slider (applyFieldMetadata data f) = Some s" "is_min_attr s = show_int a" "is_max_attr s = show_int b"
      "is_default s = (if is_finite (to_number (getp data ''default'')) then Some (num_text (to_number (getp data ''default''))) else None)"
      using lim(2) [OF s0] by blast
    then show ?thesis
      using v SliderEl by (intro exI [of _ v]) (simp add: imaging_dblclick_def reset_to_def sendImagingUpdate_def shown_value_def
        set_busy_def imaging_defs nullish_def Let_def)
  qed
qed

definition sample_imaging :: imaging_field where
  "sample_imaging = \<lparr>im_input = Some \<lparr>ii_value = JStr [], ii_disabled = True, ii_min = None, ii_max = None, ii_default = None,
     ii_wrapper = True, ii_busy = False\<rparr>, im_slider = None, im_label = None\<rparr>"

theorem imaging_reset_in_range_witness:
  "\<exists>v. 0 \<le> v \<and> v \<le> 255 \<and>
     snd (imaging_dblclick ''tone'' InputEl (applyFieldMetadata (JObj [(''min'', jint 0), (''max'', jint 255)]) sample_imaging)) =
       [Send (PostForm ''/x/json-imaging.cgi'' [(''cmd'', ''set''), (''tone'', show_int v)])]"
  using imaging_reset_in_range [of sample_imaging InputEl "JObj [(''min'', jint 0), (''max'', jint 255)]" 0 255 "''tone''"]
  by (auto simp: sample_imaging_def shown_value_def default_ok_def)

text \<open>
  An imaging update is stored exactly when the camera took it: for every imaging field a new value is posted to the
  imaging service, and the streamer's configuration is given the value under the field's configuration
  key if the answer was accepted and readable, and not otherwise; either way the control is no longer busy.\<close>

theorem imaging_update_stored:
  assumes "name \<in> set imagingFields"
  shows "let (f1, sent) = sendImagingUpdate name (Fin (of_int v)) t f;
             (f2, stored) = sendImagingUpdate_settle name (Fin (of_int v)) t out f1;
             busy = (\<lambda>g. (t = InputEl \<and> (\<exists>i. im_input g = Some i \<and> ii_busy i)) \<or> (t = SliderEl \<and> (\<exists>s. im_slider g = Some s \<and> is_busy s)))
         in sent = [Send (PostForm ''/x/json-imaging.cgi'' [(''cmd'', ''set''), (name, show_int v)])] \<and>
            (\<exists>key. map_of imageConfigKeyMap name = Some key \<and>
              stored = (if snd (imaging_answer out) then [Send (PostJson endpoint (JObj [(''image'', JObj [(key, jint v)])]))] else [])) \<and>
            \<not> busy f2"
proof -
  have "\<exists>key. map_of imageConfigKeyMap name = Some key"
    using assms by (auto simp: imagingFields_def imageConfigKeyMap_def)
  then show ?thesis
    by (cases t) (auto simp: sendImagingUpdate_def sendImagingUpdate_settle_def persistImagingSetting_def sendToEndpoint_def
        set_busy_def on_input_def on_slider_def Let_def split: prod.splits)
qed

theorem imaging_update_stored_witness:
  "''tone'' \<in> set imagingFields \<and>
   snd (sendImagingUpdate_settle ''tone'' (Fin (of_int 7)) InputEl (Answer \<lparr>status = 200, text_body = [], parsed = None\<rparr>)
     (fst (sendImagingUpdate ''tone'' (Fin (of_int 7)) InputEl sample_imaging))) =
     [Send (PostJson endpoint (JObj [(''image'', JObj [(''highlight_depress'', jint 7)])]))]"
  using imaging_update_stored [of "''tone''" 7 InputEl sample_imaging "Answer \<lparr>status = 200, text_body = [], parsed = None\<rparr>"]
  by (simp add: imagingFields_def imageConfigKeyMap_def imaging_answer_def resp_ok_def split: prod.splits)

end
