(* ===== verification/Preview_Watchdog.thy ===== *)
theory Preview_Watchdog
  imports Dom
begin

text \<open>
  The live preview (\<open>preview.js\<close>): starting and stopping the stream with the visibility and the focus of the
  window, the delayed stop, the watchdog that restarts a stalled stream with growing pauses, and the full-screen
  dialog. Times are milliseconds; every handler is given the time at which it runs. The stream address is the
  argument \<open>url\<close>, the texts assigned to the images are kept as assigned.
\<close>

section \<open>State\<close>

definition ImageNoStream :: string where "ImageNoStream = ''/a/nostream.svg''"
definition restartBackoffInitialMs :: int where "restartBackoffInitialMs = 15000"
definition restartBackoffMaxMs :: int where "restartBackoffMaxMs = 60000"
definition stall_timeout :: int where "stall_timeout = 15000"

record preview =
  pv_src :: string
  full_src :: string
  savedPreviewSrc :: string
  track_focus :: bool
  focus_timeout :: int
  lastLoadTime :: int
  isWindowVisible :: bool
  focusTimeoutId :: "nat option"
  nextRestartAt :: int
  restartBackoffMs :: int
  focus_armed :: "nat list" \<comment> \<open>the armed stop timers\<close>
  focus_next :: nat
  on_visibility :: bool \<comment> \<open>the \<open>visibilitychange\<close> listener\<close>
  on_focus :: bool \<comment> \<open>the \<open>focus\<close> and \<open>blur\<close> listeners\<close>

definition stream_url :: "string option \<Rightarrow> string" where
  "stream_url dataset_stream =
     ''/x/'' @ (case dataset_stream of None \<Rightarrow> ''ch0'' | Some s \<Rightarrow> if s = [] then ''ch0'' else s) @ ''.mjpg''"

section \<open>Starting and stopping\<close>

definition clear_focus_timer :: "preview \<Rightarrow> preview" where
  "clear_focus_timer w =
     (case focusTimeoutId w of
        None \<Rightarrow> w
      | Some t \<Rightarrow> w\<lparr>focusTimeoutId := None, focus_armed := removeAll t (focus_armed w)\<rparr>)"

definition startPreview :: "string \<Rightarrow> int \<Rightarrow> preview \<Rightarrow> preview" where
  "startPreview url now w =
     (let w1 = clear_focus_timer w
      in if isWindowVisible w1 then w1\<lparr>pv_src := url, lastLoadTime := now, nextRestartAt := 0\<rparr> else w1)"

definition stopPreview :: "preview \<Rightarrow> preview" where
  "stopPreview w = (clear_focus_timer w)\<lparr>pv_src := ImageNoStream, nextRestartAt := 0\<rparr>"

definition stopPreviewWithDelay :: "preview \<Rightarrow> preview" where
  "stopPreviewWithDelay w =
     (if \<not> track_focus w then w
      else let w1 = w\<lparr>focus_armed := (case focusTimeoutId w of None \<Rightarrow> focus_armed w | Some t \<Rightarrow> removeAll t (focus_armed w))\<rparr>
           in if focus_timeout w1 > 0
              then w1\<lparr>focusTimeoutId := Some (focus_next w1), focus_armed := focus_armed w1 @ [focus_next w1],
                      focus_next := Suc (focus_next w1)\<rparr>
              else stopPreview w1)"

definition focus_timer_fires :: "nat \<Rightarrow> preview \<Rightarrow> preview" where
  "focus_timer_fires t w =
     (if t \<notin> set (focus_armed w) then w
      else let w1 = w\<lparr>focus_armed := removeAll t (focus_armed w)\<rparr>
           in if \<not> isWindowVisible w1 then stopPreview w1 else w1)"

section \<open>The watchdog\<close>

definition preview_loaded :: "int \<Rightarrow> preview \<Rightarrow> preview" where
  "preview_loaded now w = w\<lparr>lastLoadTime := now, restartBackoffMs := restartBackoffInitialMs, nextRestartAt := 0\<rparr>"

definition restart_due :: "int \<Rightarrow> preview \<Rightarrow> bool" where
  "restart_due now w \<longleftrightarrow> isWindowVisible w \<and> now - lastLoadTime w > stall_timeout \<and> now \<ge> nextRestartAt w"

definition stamped :: "string \<Rightarrow> int \<Rightarrow> string" where
  "stamped src now = hd (split_on (CHR ''?'') src) @ ''?'' @ show_int now"

definition watchdog_tick :: "int \<Rightarrow> preview \<Rightarrow> preview" where
  "watchdog_tick now w =
     (if restart_due now w
      then w\<lparr>pv_src := stamped (pv_src w) now, lastLoadTime := now, nextRestartAt := now + restartBackoffMs w,
             restartBackoffMs := min (restartBackoffMs w * 2) restartBackoffMaxMs\<rparr>
      else w)"

section \<open>Visibility and focus\<close>

definition handleVisibilityChange :: "string \<Rightarrow> bool \<Rightarrow> int \<Rightarrow> preview \<Rightarrow> preview" where
  "handleVisibilityChange url hidden now w =
     (if hidden then stopPreview (w\<lparr>isWindowVisible := False\<rparr>)
      else startPreview url now (w\<lparr>isWindowVisible := True\<rparr>))"

definition handleWindowFocus :: "string \<Rightarrow> int \<Rightarrow> preview \<Rightarrow> preview" where
  "handleWindowFocus url now w = startPreview url now (w\<lparr>isWindowVisible := True\<rparr>)"

definition handleWindowBlur :: "preview \<Rightarrow> preview" where
  "handleWindowBlur w = stopPreviewWithDelay (w\<lparr>isWindowVisible := False\<rparr>)"

text \<open>The settings: read from an accepted answer that is JSON; other answers leave them.\<close>

definition loadWebuiConfig :: "outcome \<Rightarrow> preview \<Rightarrow> preview" where
  "loadWebuiConfig out w =
     (case out of
        Rejected _ \<Rightarrow> w
      | Answer r \<Rightarrow>
          if \<not> resp_ok r then w
          else (case parsed r of
                  None \<Rightarrow> w
                | Some d \<Rightarrow>
                    if nullish d then w
                    else w\<lparr>track_focus := (getp d ''track_focus'' = JBool True),
                           focus_timeout := max 0 (case parse_int None (js_text (getp d ''focus_timeout'')) of Fin q \<Rightarrow> \<lfloor>q\<rfloor> | _ \<Rightarrow> 0)\<rparr>))"

definition reloadPreviewFocusSettings :: "string \<Rightarrow> outcome \<Rightarrow> int \<Rightarrow> preview \<Rightarrow> preview" where
  "reloadPreviewFocusSettings url out now w =
     (let w1 = loadWebuiConfig out w
      in if track_focus w1 then w1\<lparr>on_visibility := True, on_focus := True\<rparr>
         else startPreview url now ((clear_focus_timer (w1\<lparr>on_visibility := False, on_focus := False\<rparr>))\<lparr>isWindowVisible := True\<rparr>))"

text \<open>The start of the page: the settings are awaited, then the preview is started and the listeners are added.\<close>

definition start_page :: "string \<Rightarrow> outcome \<Rightarrow> int \<Rightarrow> preview" where
  "start_page url out now =
     (let w = loadWebuiConfig out
            \<lparr>pv_src = [], full_src = ImageNoStream, savedPreviewSrc = [], track_focus = False, focus_timeout = 0,
             lastLoadTime = now, isWindowVisible = True, focusTimeoutId = None, nextRestartAt = 0,
             restartBackoffMs = restartBackoffInitialMs, focus_armed = [], focus_next = 1,
             on_visibility = False, on_focus = False\<rparr>;
          w1 = startPreview url now w
      in w1\<lparr>on_visibility := True, on_focus := track_focus w1\<rparr>)"

section \<open>The full-screen dialog\<close>

definition modal_show :: "int \<Rightarrow> preview \<Rightarrow> preview" where
  "modal_show now w =
     w\<lparr>savedPreviewSrc := pv_src w, pv_src := ImageNoStream, full_src := ''/x/ch0.mjpg?'' @ show_int now\<rparr>"

definition modal_hidden :: "int \<Rightarrow> preview \<Rightarrow> preview" where
  "modal_hidden now w =
     (let w1 = w\<lparr>full_src := ImageNoStream\<rparr>
      in if savedPreviewSrc w1 \<noteq> [] \<and> isWindowVisible w1
         then w1\<lparr>pv_src := stamped (savedPreviewSrc w1) now, lastLoadTime := now\<rparr> else w1)"

section \<open>Runs\<close>

datatype preview_event = Loaded int | Tick int | Visibility bool int | Focus int | Blur | StopTimer nat
  | Leave | Settings outcome int | FullShow int | FullHidden int

fun preview_step :: "string \<Rightarrow> preview_event \<Rightarrow> preview \<Rightarrow> preview" where
  "preview_step url (Loaded now) w = preview_loaded now w"
| "preview_step url (Tick now) w = watchdog_tick now w"
| "preview_step url (Visibility hidden now) w = (if on_visibility w then handleVisibilityChange url hidden now w else w)"
| "preview_step url (Focus now) w = (if on_focus w then handleWindowFocus url now w else w)"
| "preview_step url Blur w = (if on_focus w then handleWindowBlur w else w)"
| "preview_step url (StopTimer t) w = focus_timer_fires t w"
| "preview_step url Leave w = stopPreview w"
| "preview_step url (Settings out now) w = reloadPreviewFocusSettings url out now w"
| "preview_step url (FullShow now) w = modal_show now w"
| "preview_step url (FullHidden now) w = modal_hidden now w"

definition preview_run :: "string \<Rightarrow> preview_event list \<Rightarrow> preview \<Rightarrow> preview" where
  "preview_run url evs w = fold (preview_step url) evs w"

section \<open>Lemmas\<close>

lemmas preview_defs = clear_focus_timer_def startPreview_def stopPreview_def stopPreviewWithDelay_def
  focus_timer_fires_def preview_loaded_def watchdog_tick_def handleVisibilityChange_def handleWindowFocus_def
  handleWindowBlur_def loadWebuiConfig_def reloadPreviewFocusSettings_def modal_show_def modal_hidden_def

text \<open>The pause is one of three values and at most one stop timer is armed, which the variable names; a visible window has none.\<close>

definition preview_inv :: "preview \<Rightarrow> bool" where
  "preview_inv w \<longleftrightarrow>
     restartBackoffMs w \<in> {15000, 30000, 60000} \<and>
     focus_armed w = (case focusTimeoutId w of None \<Rightarrow> [] | Some t \<Rightarrow> [t]) \<and>
     (isWindowVisible w \<longrightarrow> focusTimeoutId w = None) \<and> 0 \<le> focus_timeout w"

lemma loadWebuiConfig_keeps:
  "pv_src (loadWebuiConfig out w) = pv_src w" "restartBackoffMs (loadWebuiConfig out w) = restartBackoffMs w"
  "focusTimeoutId (loadWebuiConfig out w) = focusTimeoutId w" "focus_armed (loadWebuiConfig out w) = focus_armed w"
  "isWindowVisible (loadWebuiConfig out w) = isWindowVisible w"
  "0 \<le> focus_timeout w \<Longrightarrow> 0 \<le> focus_timeout (loadWebuiConfig out w)"
  by (simp_all add: loadWebuiConfig_def split: outcome.splits option.splits)

lemma preview_step_inv: "preview_inv w \<Longrightarrow> preview_inv (preview_step url ev w)"
proof (cases ev)
  case (Settings out now)
  assume "preview_inv w"
  then have "preview_inv (loadWebuiConfig out w)"
    by (simp add: preview_inv_def loadWebuiConfig_keeps)
  then show ?thesis
    unfolding Settings preview_step.simps reloadPreviewFocusSettings_def Let_def
    by (auto simp: preview_inv_def startPreview_def clear_focus_timer_def split: option.splits)
qed (auto simp: preview_inv_def preview_defs restartBackoffInitialMs_def restartBackoffMaxMs_def Let_def split: option.splits)

lemma preview_run_inv: "preview_inv w \<Longrightarrow> preview_inv (preview_run url evs w)"
  unfolding preview_run_def by (induction evs arbitrary: w) (simp_all add: preview_step_inv)

lemma start_page_inv: "preview_inv (start_page url out now)"
proof -
  have "preview_inv (loadWebuiConfig out w)" if "preview_inv w" for w
    using that by (simp add: preview_inv_def loadWebuiConfig_keeps)
  then show ?thesis
    unfolding start_page_def Let_def
    by (simp add: preview_inv_def startPreview_def clear_focus_timer_def loadWebuiConfig_keeps restartBackoffInitialMs_def Let_def
        split: option.splits)
qed

lemma base_stamped: "hd (split_on (CHR ''?'') (stamped src now)) = hd (split_on (CHR ''?'') src)"
proof -
  have "CHR ''?'' \<notin> set (hd (split_on (CHR ''?'') src))"
    by (rule split_on_no_sep [of _ _ src]) simp
  then show ?thesis by (simp add: stamped_def split_on_append_sep)
qed

lemma base_NoStream: "hd (split_on (CHR ''?'') ImageNoStream) = ImageNoStream"
  by (simp add: ImageNoStream_def)

lemma restart_gap:
  assumes "restart_due now w" "restart_due now' (watchdog_tick now w)"
  shows "now + restartBackoffMs w \<le> now'" "15000 < now' - now"
  using assms by (simp_all add: restart_due_def watchdog_tick_def stall_timeout_def)

text \<open>The times at which a sequence of watchdog ticks restarts the stream.\<close>

fun restart_times :: "int list \<Rightarrow> preview \<Rightarrow> int list" where
  "restart_times [] w = []"
| "restart_times (now # ts) w =
     (if restart_due now w then now # restart_times ts (watchdog_tick now w) else restart_times ts w)"

lemma restart_times_first:
  "restart_times ts w = now # rest \<Longrightarrow> restart_due now w"
  by (induction ts arbitrary: w) (auto split: if_splits)

lemma restart_times_gap: "successively (\<lambda>a b. 15000 < b - a) (restart_times ts w)"
proof (induction ts arbitrary: w)
  case (Cons now ts)
  show ?case
  proof (cases "restart_due now w")
    case True
    show ?thesis
    proof (cases "restart_times ts (watchdog_tick now w)")
      case Nil
      with True show ?thesis by simp
    next
      case (Cons now' rest)
      have "15000 < now' - now" using restart_gap(2) [OF True restart_times_first [OF Cons]] .
      moreover have "successively (\<lambda>a b. 15000 < b - a) (now' # rest)" using Cons.IH Cons by metis
      ultimately show ?thesis using True Cons by simp
    qed
  qed (use Cons.IH in simp)
qed simp

text \<open>The events that may start the stream of a hidden window, and what is left to happen unattended.\<close>

fun wakes :: "preview_event \<Rightarrow> bool" where
  "wakes (Visibility hidden _) = (\<not> hidden)"
| "wakes (Focus _) = True"
| "wakes (Settings _ _) = True"
| "wakes _ = False"

definition stopped :: "preview \<Rightarrow> bool" where
  "stopped w \<longleftrightarrow> \<not> isWindowVisible w \<and> pv_src w = ImageNoStream"

lemma stopped_step: "stopped w \<Longrightarrow> \<not> wakes ev \<Longrightarrow> stopped (preview_step url ev w)"
  by (cases ev) (auto simp: stopped_def preview_defs restart_due_def Let_def split: option.splits)

lemma stopped_run: "stopped w \<Longrightarrow> list_all (\<lambda>ev. \<not> wakes ev) evs \<Longrightarrow> stopped (preview_run url evs w)"
  unfolding preview_run_def by (induction evs arbitrary: w) (simp_all add: stopped_step)

fun unattended :: "preview_event \<Rightarrow> bool" where
  "unattended (Tick _) = True"
| "unattended (Loaded _) = True"
| "unattended _ = False"

section \<open>Properties\<close>


definition sample_start :: preview where
  "sample_start = start_page ''/x/ch0.mjpg'' (Rejected []) 0"


text \<open>
  A hidden preview stays off: once the visibility handler has seen the page hidden, no load, watchdog tick, loss of focus,
  timer, full-screen dialog or leaving of the page shows a stream again, until the page is shown, focused or its
  settings are changed.\<close>

theorem hidden_preview_stays_off:
  assumes "on_visibility w" "list_all (\<lambda>ev. \<not> wakes ev) later"
  shows "stopped (preview_run url later (preview_step url (Visibility True now) w))"
proof (rule stopped_run [OF _ assms(2)])
  show "stopped (preview_step url (Visibility True now) w)"
    using assms(1) by (simp add: stopped_def preview_defs split: option.splits)
qed

theorem hidden_preview_stays_off_witness:
  "stopped (preview_run ''/x/ch0.mjpg'' [Tick 30000, FullHidden 31000, StopTimer 1]
     (preview_step ''/x/ch0.mjpg'' (Visibility True 1000) sample_start))"
  by (rule hidden_preview_stays_off) (simp_all add: sample_start_def start_page_def Let_def)

text \<open>
  With focus tracking and a delay, losing the focus arms one timer and leaves the stream; the timer stops the
  stream, unless the focus comes back first, which restores the stream and makes the timer void.
\<close>

lemma focus_loss_stops_later:
  assumes "preview_inv w" "on_focus w" "track_focus w" "0 < focus_timeout w"
  shows "let b = preview_step url Blur w in \<exists>t. focus_armed b = [t] \<and> pv_src b = pv_src w \<and> stopped (preview_step url (StopTimer t) b) \<and>
          (let f = preview_step url (Focus now) b in focus_armed f = [] \<and> pv_src f = url \<and> preview_step url (StopTimer t) f = f)"
  using assms by (auto simp: preview_inv_def preview_defs stopped_def Let_def split: option.splits)

text \<open>
  A preview stopped by the \<open>beforeunload\<close> handler never comes back by itself: the handler also runs when a download
  is started from the page (as the export button does), the page stays, and from then on the watchdog and the load
  events only ever reload the placeholder image, never the stream.\<close>

theorem preview_lost_after_leave:
  assumes "list_all unattended later"
  shows "hd (split_on (CHR ''?'') (pv_src (preview_run url later (preview_step url Leave w)))) = ImageNoStream"
proof -
  let ?off = "\<lambda>w. hd (split_on (CHR ''?'') (pv_src w)) = ImageNoStream"
  have step: "?off (preview_step url ev v)" if "?off v" "unattended ev" for ev v
    using that by (cases ev) (simp_all add: preview_loaded_def watchdog_tick_def base_stamped)
  have "?off (preview_run url later v)" if "?off v" for v
    unfolding preview_run_def using assms that
    by (induction later arbitrary: v) (simp_all add: step)
  then show ?thesis by (simp add: stopPreview_def base_NoStream)
qed

theorem preview_lost_after_leave_witness:
  "hd (split_on (CHR ''?'') (pv_src (preview_run ''/x/ch0.mjpg'' [Tick 20000, Loaded 20100, Tick 40000]
     (preview_step ''/x/ch0.mjpg'' Leave sample_start)))) = ImageNoStream"
  by (rule preview_lost_after_leave) simp

text \<open>
  The visibility listener is installed whether or not focus tracking is enabled: a page without tracking stops
  its preview when it is hidden.
\<close>

lemma untracked_page_still_stops:
  assumes "\<not> track_focus (start_page url out t0)"
  shows "pv_src (preview_step url (Visibility True now) (start_page url out t0)) = ImageNoStream"
  by (simp add: start_page_def handleVisibilityChange_def stopPreview_def Let_def)

end
