(* ===== verification/Markup.thy ===== *)
theory Markup
  imports Prelude
begin

text \<open>
  The element trees the scripts build with \<open>createElement\<close>, \<open>setAttribute\<close> and \<open>appendChild\<close>. A node is a text or an
  element with its attributes and children; \<open>className\<close>, \<open>id\<close> and \<open>title\<close> are the attributes \<open>class\<close>, \<open>id\<close>
  and \<open>title\<close>, and \<open>dataset.fooBar\<close> is the attribute \<open>data-foo-bar\<close>. An attribute that is never assigned is
  not in the list. Texts are the UTF-8 bytes of what is shown.
\<close>

datatype node = TextNode string | Elem string "(string \<times> string) list" "node list"

definition opt_attr :: "string \<Rightarrow> string \<Rightarrow> (string \<times> string) list" where
  "opt_attr k v = (if v = [] then [] else [(k, v)])"

fun attr_of :: "string \<Rightarrow> node \<Rightarrow> string option" where
  "attr_of k (TextNode _) = None"
| "attr_of k (Elem _ as _) = map_of as k"

fun children :: "node \<Rightarrow> node list" where
  "children (TextNode _) = []"
| "children (Elem _ _ ns) = ns"

text \<open>All elements of a tree in document order.\<close>

fun elems :: "node \<Rightarrow> node list" where
  "elems (TextNode _) = []"
| "elems (Elem t as ns) = Elem t as ns # concat (map elems ns)"

definition classes :: "node \<Rightarrow> string list" where
  "classes n = (case attr_of ''class'' n of None \<Rightarrow> [] | Some c \<Rightarrow> filter (\<lambda>w. w \<noteq> []) (split_on (CHR '' '') c))"

fun present_values :: "string option list \<Rightarrow> string list" where
  "present_values [] = []"
| "present_values (None # xs) = present_values xs"
| "present_values (Some x # xs) = x # present_values xs"

text \<open>The values of an attribute in document order: the ids of a tree, the addresses of its links.\<close>

definition attr_values :: "string \<Rightarrow> node \<Rightarrow> string list" where
  "attr_values k n = present_values (map (attr_of k) (elems n))"

definition ids_of :: "node \<Rightarrow> string list" where
  "ids_of n = attr_values ''id'' n"

text \<open>\<open>classList.add(c)\<close>: a class is added once.\<close>

fun set_assoc :: "string \<Rightarrow> string \<Rightarrow> (string \<times> string) list \<Rightarrow> (string \<times> string) list" where
  "set_assoc k v [] = [(k, v)]"
| "set_assoc k v ((k', v') # as) = (if k' = k then (k, v) # as else (k', v') # set_assoc k v as)"

fun set_attribute :: "string \<Rightarrow> string \<Rightarrow> node \<Rightarrow> node" where
  "set_attribute k v (TextNode s) = TextNode s"
| "set_attribute k v (Elem t as ns) = Elem t (set_assoc k v as) ns"

definition add_class :: "string \<Rightarrow> node \<Rightarrow> node" where
  "add_class c n =
     (if c \<in> set (classes n) then n else set_attribute ''class'' (join_with '' '' (classes n @ [c])) n)"

fun append_nodes :: "node \<Rightarrow> node list \<Rightarrow> node" where
  "append_nodes (TextNode s) ms = TextNode s"
| "append_nodes (Elem t as ns) ms = Elem t as (ns @ ms)"

text \<open>\<open>a || b\<close> on texts.\<close>

definition or_text :: "string \<Rightarrow> string \<Rightarrow> string" where
  "or_text a b = (if a = [] then b else a)"

section \<open>Lemmas\<close>

lemma present_values_append [simp]: "present_values (xs @ ys) = present_values xs @ present_values ys"
  by (induction xs rule: present_values.induct) simp_all

lemma attr_values_text [simp]: "attr_values k (TextNode s) = []"
  by (simp add: attr_values_def)

lemma present_values_concat: "present_values (concat xss) = concat (map present_values xss)"
  by (induction xss) simp_all

lemma attr_values_elem [simp]:
  "attr_values k (Elem t as ns) = (case map_of as k of None \<Rightarrow> [] | Some v \<Rightarrow> [v]) @ concat (map (attr_values k) ns)"
  by (simp add: attr_values_def [abs_def] map_concat present_values_concat comp_def split: option.splits)

lemma attr_values_append: "attr_values k (append_nodes n ms) =
    (case n of TextNode _ \<Rightarrow> [] | Elem _ _ _ \<Rightarrow> attr_values k n @ concat (map (attr_values k) ms))"
  by (cases n) simp_all

lemma map_of_set_assoc: "map_of (set_assoc k v as) j = (if j = k then Some v else map_of as j)"
  by (induction as) auto

lemma attr_values_set_other: "k \<noteq> j \<Longrightarrow> attr_values j (set_attribute k v n) = attr_values j n"
  by (cases n) (simp_all add: map_of_set_assoc)

lemma attr_values_add_class [simp]: "j \<noteq> ''class'' \<Longrightarrow> attr_values j (add_class c n) = attr_values j n"
  by (simp add: add_class_def attr_values_set_other)

lemma ids_simps [simp]:
  "ids_of (TextNode s) = []"
  "ids_of (Elem t as ns) = (case map_of as ''id'' of None \<Rightarrow> [] | Some v \<Rightarrow> [v]) @ concat (map ids_of ns)"
  "ids_of (add_class c n) = ids_of n"
  by (simp_all add: ids_of_def [abs_def])

lemma map_of_opt_attr [simp]: "map_of (opt_attr k v) j = (if j = k \<and> v \<noteq> [] then Some v else None)"
  by (simp add: opt_attr_def)

lemma classes_clean: "w \<in> set (classes n) \<Longrightarrow> w \<noteq> [] \<and> CHR '' '' \<notin> set w"
  by (auto simp: classes_def split: option.splits dest: split_on_no_sep)

lemma attr_set_attribute: "attr_of j (set_attribute k v (Elem t as ns)) = (if j = k then Some v else map_of as j)"
  by (simp add: map_of_set_assoc)

lemma classes_add_class:
  assumes "c \<noteq> []" "CHR '' '' \<notin> set c"
  shows "set (classes (add_class c (Elem t as ns))) = insert c (set (classes (Elem t as ns)))"
proof (cases "c \<in> set (classes (Elem t as ns))")
  case False
  let ?ws = "classes (Elem t as ns) @ [c]"
  have ok: "w \<noteq> [] \<and> CHR '' '' \<notin> set w" if "w \<in> set ?ws" for w
    using that assms classes_clean by auto
  have "split_on (CHR '' '') (join_with '' '' ?ws) = ?ws"
    by (rule split_join) (use ok in auto)
  moreover have "filter (\<lambda>w. w \<noteq> []) ?ws = ?ws"
    using ok by (intro filter_True) blast
  ultimately have "classes (set_attribute ''class'' (join_with '' '' ?ws) (Elem t as ns)) = ?ws"
    unfolding classes_def attr_set_attribute by simp
  then show ?thesis using False by (simp add: add_class_def)
qed (auto simp: add_class_def)

text \<open>The words of a class attribute.\<close>

definition class_words :: "string \<Rightarrow> string list" where
  "class_words s = filter (\<lambda>w. w \<noteq> []) (split_on (CHR '' '') s)"

lemma class_words_append: "class_words (a @ '' '' @ b) = class_words a @ class_words b"
  by (simp add: class_words_def split_on_append)

lemma classes_words: "map_of as ''class'' = Some s \<Longrightarrow> classes (Elem t as ns) = class_words s"
  by (simp add: classes_def class_words_def)

lemma attr_add_class: "j \<noteq> ''class'' \<Longrightarrow> attr_of j (add_class c n) = attr_of j n"
  by (cases n) (simp_all add: add_class_def map_of_set_assoc)

lemma elems_add_class: "set (elems (add_class c (Elem t as ns))) = insert (add_class c (Elem t as ns)) (set (concat (map elems ns)))"
  by (simp add: add_class_def)

lemma present_values_set: "v \<in> set (present_values xs) \<longleftrightarrow> Some v \<in> set xs"
  by (induction xs rule: present_values.induct) auto

lemma attr_values_set: "v \<in> set (attr_values k n) \<longleftrightarrow> (\<exists>e\<in>set (elems n). attr_of k e = Some v)"
  by (auto simp: attr_values_def present_values_set) (metis imageI)

end
