(* ===== verification/Control_Bar.thy ===== *)
theory Control_Bar
  imports Markup
begin

text \<open>
  The control bar of every page (\<open>control-bar.js\<close>): the groups of buttons, the status line and the clock that
  the status reducer of \<open>main.js\<close> writes to, built as element trees and put in place of the placeholders
  of the page. \<open>active\<close> says which configuration page is the current one; the browser's URL parser is the
  argument \<open>pathname\<close> (\<open>None\<close> where it throws).
\<close>

section \<open>Paths\<close>

definition strip_slashes :: "string \<Rightarrow> string" where
  "strip_slashes s = rev (dropWhile (\<lambda>c. c = CHR ''/'') (rev s))"

definition normalizePath :: "(string \<Rightarrow> string option) \<Rightarrow> string \<Rightarrow> string" where
  "normalizePath pathname input =
     (if input = [] then ''/''
      else let path = (case pathname input of None \<Rightarrow> input | Some p \<Rightarrow> p)
           in if path = [] then ''/''
              else let trimmed = hd (split_on (CHR ''#'') (hd (split_on (CHR ''?'') path)))
                   in if 1 < length trimmed \<and> last trimmed = CHR ''/'' then strip_slashes trimmed
                      else or_text trimmed ''/'')"

definition isCurrentPath :: "(string \<Rightarrow> string option) \<Rightarrow> string \<Rightarrow> string \<Rightarrow> string \<Rightarrow> bool" where
  "isCurrentPath pathname activePath location_path target =
     (target \<noteq> [] \<and> normalizePath pathname (or_text activePath location_path) = normalizePath pathname target)"

section \<open>Buttons\<close>

definition createIcon :: "string \<Rightarrow> string \<Rightarrow> node" where
  "createIcon iconClass title = Elem ''i'' ((''class'', iconClass) # opt_attr ''title'' title) []"

text \<open>The nodes \<open>appendLabelWithIcon\<close> appends to its element.\<close>

definition appendLabelWithIcon :: "string \<Rightarrow> string \<Rightarrow> string \<Rightarrow> string \<Rightarrow> node list" where
  "appendLabelWithIcon iconClass title label labelClass =
     (if iconClass = [] then [] else [createIcon iconClass title])
     @ (if label = [] then []
        else let text = Elem ''span'' (opt_attr ''class'' labelClass) [TextNode label]
             in [if iconClass = [] then text else add_class ''ms-1'' text])"

record button_options =
  b_class :: string
  b_id :: string
  b_title :: string
  b_dataset :: "(string \<times> string) list"
  b_attributes :: "(string \<times> string) list"
  b_icon :: string
  b_iconTitle :: string
  b_label :: string

definition plain_button :: button_options where
  "plain_button = \<lparr>b_class = [], b_id = [], b_title = [], b_dataset = [], b_attributes = [], b_icon = [], b_iconTitle = [], b_label = []\<rparr>"

definition createButton :: "button_options \<Rightarrow> node" where
  "createButton b =
     Elem ''button''
       ([(''type'', ''button''), (''class'', or_text (b_class b) ''btn btn-secondary'')]
        @ opt_attr ''id'' (b_id b) @ opt_attr ''title'' (b_title b) @ b_dataset b @ b_attributes b)
       (appendLabelWithIcon (b_icon b) (or_text (b_iconTitle b) (b_title b)) (b_label b) ''btn-label'')"

section \<open>Groups\<close>

definition btn_group :: "node list \<Rightarrow> node" where
  "btn_group ns = Elem ''div'' [(''class'', ''btn-group''), (''role'', ''group'')] ns"

text \<open>The split toggle of a group with its hidden text, and a link of its menu.\<close>

definition sr_only :: "string \<Rightarrow> node" where
  "sr_only t = Elem ''span'' [(''class'', ''visually-hidden'')] [TextNode t]"

definition menu_toggle :: "string \<Rightarrow> node" where
  "menu_toggle title =
     createButton (plain_button\<lparr>b_class := ''btn btn-secondary dropdown-toggle dropdown-toggle-split'', b_title := title,
       b_attributes := [(''data-bs-toggle'', ''dropdown''), (''aria-expanded'', ''false'')]\<rparr>)"

definition menu_link :: "(string \<Rightarrow> bool) \<Rightarrow> string \<Rightarrow> string \<Rightarrow> string \<Rightarrow> string \<Rightarrow> node" where
  "menu_link active href title icon label =
     Elem ''a''
       ([(''class'', if active href then ''dropdown-item active'' else ''dropdown-item''), (''href'', href)]
        @ opt_attr ''title'' title @ (if active href then [(''aria-current'', ''page'')] else []))
       (appendLabelWithIcon icon title label [])"

definition menu_of :: "node list \<Rightarrow> node" where
  "menu_of links = Elem ''ul'' [(''class'', ''dropdown-menu'')] (map (\<lambda>l. Elem ''li'' [] [l]) links)"

definition split_group :: "node list \<Rightarrow> string \<Rightarrow> string \<Rightarrow> node list \<Rightarrow> node" where
  "split_group buttons toggle_title hidden links =
     btn_group (buttons @ [append_nodes (menu_toggle toggle_title) [sr_only hidden], menu_of links])"

definition createRecorderGroup :: "(string \<Rightarrow> bool) \<Rightarrow> node" where
  "createRecorderGroup active =
     split_group
       [createButton (plain_button\<lparr>b_id := ''recorder-ch0'', b_title := ''Main stream recorder'', b_icon := ''bi bi-camera-reels'',
          b_label := ''Rec ch0'', b_dataset := [(''data-channel'', ''0'')]\<rparr>),
        createButton (plain_button\<lparr>b_id := ''recorder-ch1'', b_title := ''Substream recorder'', b_icon := ''bi bi-camera-reels'',
          b_label := ''Rec ch1'', b_dataset := [(''data-channel'', ''1'')]\<rparr>),
        createButton (plain_button\<lparr>b_id := ''timelapse'', b_title := ''Timelapse'', b_icon := ''bi bi-camera'', b_label := ''Timelapse''\<rparr>)]
       ''Recorder options'' ''Toggle recorder menu''
       [menu_link active ''/tool-record.html'' ''Recording configuration'' ''bi bi-gear'' ''Recording settings'',
        menu_link active ''/tool-timelapse.html'' ''Timelapse configuration'' ''bi bi-stopwatch'' ''Timelapse settings'']"

definition createRecorderButton :: "(string \<Rightarrow> bool) \<Rightarrow> nat \<Rightarrow> node" where
  "createRecorderButton active channel =
     split_group
       [createButton (plain_button\<lparr>b_id := ''recorder-ch'' @ show_nat channel,
          b_title := (if channel = 0 then ''Main stream recorder'' else ''Substream recorder''),
          b_icon := ''bi bi-record'', b_label := ''Recording'', b_dataset := [(''data-channel'', show_nat channel)]\<rparr>)]
       ''Recorder options'' ''Toggle recorder menu''
       [menu_link active ''/tool-record.html'' ''Recording configuration'' ''bi bi-gear'' ''Recording settings'']"

definition createSendButton :: "(string \<Rightarrow> bool) \<Rightarrow> node" where
  "createSendButton active =
     split_group
       [createButton (plain_button\<lparr>b_title := ''Send snapshot'', b_icon := ''bi bi-send'', b_label := ''Send...'',
          b_attributes := [(''data-bs-toggle'', ''modal''), (''data-bs-target'', ''#sendModal'')]\<rparr>)]
       ''Send-to options'' ''Toggle send menu''
       [menu_link active ''/tool-send2.html'' ''Send-to configuration'' ''bi bi-gear'' ''Send-to settings'']"

definition createMotionGuardButton :: "(string \<Rightarrow> bool) \<Rightarrow> node" where
  "createMotionGuardButton active =
     split_group
       [createButton (plain_button\<lparr>b_id := ''motion'', b_title := ''Motion Guard'', b_icon := ''bi bi-person-walking'', b_label := ''Motion''\<rparr>)]
       ''Motion options'' ''Toggle motion menu''
       [menu_link active ''/tool-send2.html'' ''Motion Guard configuration'' ''bi bi-gear'' ''Motion settings'']"

definition createPrivacyModeButton :: "(string \<Rightarrow> bool) \<Rightarrow> node" where
  "createPrivacyModeButton active =
     split_group
       [createButton (plain_button\<lparr>b_id := ''privacy'', b_title := ''Privacy mode'', b_icon := ''bi bi-eye-slash'', b_label := ''Privacy''\<rparr>)]
       ''Privacy options'' ''Toggle privacy menu''
       [menu_link active ''/config-privacy.html'' ''Privacy screen configuration'' ''bi bi-gear'' ''Privacy settings'']"

definition createPhysicalPrivacyButton :: node where
  "createPhysicalPrivacyButton =
     btn_group [createButton (plain_button\<lparr>b_id := ''physical-privacy'', b_title := ''Physical Privacy (tilt the lens away)'',
       b_icon := ''bi bi-camera-video-off'', b_label := ''Phys. Privacy''\<rparr>)]"

definition createPtzHomeButton :: node where
  "createPtzHomeButton =
     btn_group [createButton (plain_button\<lparr>b_id := ''ptz-home'', b_title := ''PTZ Home (recenter the lens)'',
       b_icon := ''bi bi-house'', b_label := ''Home''\<rparr>)]"

definition createAudioControlGroup :: "(string \<Rightarrow> bool) \<Rightarrow> node" where
  "createAudioControlGroup active =
     split_group
       [createButton (plain_button\<lparr>b_id := ''microphone'', b_title := ''Microphone'', b_icon := ''bi bi-mic'', b_label := ''Mic''\<rparr>),
        createButton (plain_button\<lparr>b_id := ''speaker'', b_title := ''Speaker'', b_icon := ''bi bi-volume-up'', b_label := ''Speaker''\<rparr>)]
       ''Audio options'' ''Toggle audio menu''
       [menu_link active ''/config-audio.html'' ''Audio configuration'' ''bi bi-gear'' ''Audio settings'']"

definition createAudioControlButton :: "(string \<Rightarrow> bool) \<Rightarrow> button_options \<Rightarrow> node" where
  "createAudioControlButton active options =
     split_group [createButton options] ''Audio options'' ''Toggle audio menu''
       [menu_link active ''/config-audio.html'' ''Audio configuration'' ''bi bi-gear'' ''Audio settings'']"

datatype menu_item = MenuButton string string string string | MenuDivider | MenuLink string string string string

definition daynight_items :: "menu_item list" where
  "daynight_items =
     [MenuButton ''auto'' ''bi bi-magic'' ''Auto mode'' ''Auto mode'',
      MenuButton ''day'' ''bi bi-sun'' ''Day mode'' ''Day mode'',
      MenuButton ''night'' ''bi bi-moon'' ''Night mode'' ''Night mode'',
      MenuDivider,
      MenuButton ''color'' ''bi bi-palette'' ''Color'' ''Color mode'',
      MenuButton ''ircut'' ''bi bi-transparency'' ''IR filter'' ''IR filter'',
      MenuButton ''ir850'' ''bi bi-lightbulb'' ''IR LED 850 nm'' ''IR LED 850 nm'',
      MenuButton ''ir940'' ''bi bi-lightbulb'' ''IR LED 940 nm'' ''IR LED 940 nm'',
      MenuButton ''white'' ''bi bi-lightbulb'' ''White LED'' ''White LED'',
      MenuDivider,
      MenuLink ''/config-photosensing.html'' ''bi bi-gear'' ''Photosensing Config'' ''Photosensing Config'',
      MenuLink ''/tool-sensor-data.html'' ''bi bi-graph-up'' ''Sensor Data Collector'' ''Sensor Data Collector'']"

fun dropdown_item :: "(string \<Rightarrow> bool) \<Rightarrow> menu_item \<Rightarrow> node" where
  "dropdown_item active MenuDivider = Elem ''hr'' [(''class'', ''dropdown-divider'')] []"
| "dropdown_item active (MenuLink href icon label title) = menu_link active href title icon label"
| "dropdown_item active (MenuButton i icon label title) =
     createButton (plain_button\<lparr>b_id := i, b_title := title, b_icon := icon, b_iconTitle := title, b_label := label,
       b_class := ''dropdown-item btn btn-secondary''\<rparr>)"

definition createDropdownMenu :: "(string \<Rightarrow> bool) \<Rightarrow> node" where
  "createDropdownMenu active = menu_of (map (dropdown_item active) daynight_items)"

definition createWireGuardButton :: "(string \<Rightarrow> bool) \<Rightarrow> node" where
  "createWireGuardButton active =
     split_group
       [createButton (plain_button\<lparr>b_id := ''wireguard'', b_title := ''WireGuard VPN'', b_icon := ''bi bi-shield-lock'', b_label := ''VPN''\<rparr>)]
       ''VPN options'' ''Toggle VPN menu''
       [menu_link active ''/config-wireguard.html'' ''WireGuard configuration'' ''bi bi-gear'' ''VPN settings'']"

definition createDayNightGroup :: "(string \<Rightarrow> bool) \<Rightarrow> node" where
  "createDayNightGroup active =
     btn_group
       [append_nodes
          (createButton (plain_button\<lparr>b_id := ''daynight'', b_title := ''Night mode'', b_icon := ''bi bi-sun'', b_iconTitle := ''Day mode''\<rparr>))
          [TextNode '' '', Elem ''span'' [(''id'', ''daynight-text'')] [TextNode ''----'']],
        append_nodes (menu_toggle ''Toggle dropdown'')
          [Elem ''span'' [(''id'', ''daynight-gain''), (''class'', ''dnd-gain x-small me-1''), (''title'', ''Gain'')] [TextNode ''---''],
           sr_only ''Toggle Dropdown''],
        createDropdownMenu active]"

section \<open>The bar\<close>

definition buildButtonBar :: "(string \<Rightarrow> bool) \<Rightarrow> node" where
  "buildButtonBar active =
     Elem ''div'' [(''id'', ''button-bar''), (''class'', ''d-flex align-items-stretch gap-1 mb-2 flex-wrap'')]
       (map (add_class ''flex-fill'')
          [createMotionGuardButton active, createPrivacyModeButton active, createPhysicalPrivacyButton, createPtzHomeButton,
           createWireGuardButton active, createSendButton active, createDayNightGroup active, createAudioControlGroup active,
           createRecorderGroup active])"

text \<open>The dash and the middle dot of the titles, as UTF-8 bytes.\<close>

definition em_dash :: string where "em_dash = map char_of [226, 128, 148 :: nat]"
definition mid_dot :: string where "mid_dot = map char_of [194, 183 :: nat]"

definition buildStatusColumn :: node where
  "buildStatusColumn =
     Elem ''div'' [(''class'', ''col-12 col-lg text-lg-start x-small'')]
       [Elem ''span'' [(''class'', ''d-inline-flex align-items-center gap-2 flex-wrap'')]
          [Elem ''span'' [(''id'', ''shabbat-indicator''), (''class'', ''badge rounded-pill text-bg-secondary pe-none''),
             (''title'', ''Shabbat Ready '' @ em_dash @ '' motion detection off and day/night forced (not auto)'')]
             [TextNode ''Shabbat: Not Ready''],
           Elem ''span'' [(''class'', ''text-secondary pe-none''), (''title'', ''CPU usage '' @ mid_dot @ '' RAM used'')]
             [TextNode ''CPU '', Elem ''span'' [(''id'', ''sys-cpu'')] [TextNode ''--''],
              TextNode ('' '' @ mid_dot @ '' RAM ''), Elem ''span'' [(''id'', ''sys-mem'')] [TextNode ''--%''],
              TextNode '' '', Elem ''span'' [(''id'', ''sys-mem-mb''), (''class'', ''ms-1'')] [],
              TextNode ('' '' @ mid_dot @ '' ''), Elem ''span'' [(''id'', ''sys-storage'')] [TextNode ''Storage --'']]]]"

definition buildTimeColumn :: "string \<Rightarrow> node" where
  "buildTimeColumn className =
     Elem ''div'' [(''class'', className)]
       [Elem ''a'' [(''href'', ''/config-time.html''), (''id'', ''time-now''),
          (''class'', ''link-underline link-underline-opacity-0 link-underline-opacity-75-hover'')] []]"

text \<open>The classes of the configuration (\<open>globalConfig\<close>), empty where not given; those of the placeholder are its data attributes.\<close>

record bar_config =
  c_wrapperClass :: string
  c_timeRowClass :: string
  c_clockColClass :: string
  c_rowClass :: string
  c_btnColClass :: string

definition data_of :: "(string \<times> string) list \<Rightarrow> string \<Rightarrow> string" where
  "data_of as k = (case map_of as (''data-'' @ k) of None \<Rightarrow> [] | Some v \<Rightarrow> v)"

definition buildControlRow :: "(string \<Rightarrow> bool) \<Rightarrow> bar_config \<Rightarrow> (string \<times> string) list \<Rightarrow> node" where
  "buildControlRow active cfg as =
     Elem ''div''
       (opt_attr ''class'' (or_text (data_of as ''wrapper-class'') (c_wrapperClass cfg)) @ [(''data-generated-controls'', ''true'')])
       [Elem ''div''
          [(''class'', or_text (data_of as ''clock-row'') (or_text (data_of as ''time-row'')
              (or_text (c_timeRowClass cfg) ''row my-2 x-small align-items-center'')))]
          [buildStatusColumn,
           buildTimeColumn (or_text (data_of as ''clock-col'') (or_text (c_clockColClass cfg) ''col-12 col-lg text-lg-end''))],
        Elem ''div''
          [(''class'', or_text (data_of as ''row-class'') (or_text (c_rowClass cfg) ''row my-2 x-small align-items-center''))]
          [Elem ''div'' [(''class'', or_text (data_of as ''btn-col'') (or_text (c_btnColClass cfg) ''col-12''))]
             [buildButtonBar active]]]"

text \<open>Every element with \<open>data-app-controls\<close> below the root is replaced by a row of its own.\<close>

fun mount_node :: "(string \<Rightarrow> bool) \<Rightarrow> bar_config \<Rightarrow> node \<Rightarrow> node" where
  "mount_node active cfg (TextNode s) = TextNode s"
| "mount_node active cfg (Elem t as ns) =
     (if map_of as ''data-app-controls'' \<noteq> None then buildControlRow active cfg as
      else Elem t as (map (mount_node active cfg) ns))"

fun mountControlBars :: "(string \<Rightarrow> bool) \<Rightarrow> bar_config \<Rightarrow> node \<Rightarrow> node" where
  "mountControlBars active cfg (TextNode s) = TextNode s"
| "mountControlBars active cfg (Elem t as ns) = Elem t as (map (mount_node active cfg) ns)"

section \<open>Compact titles\<close>

text \<open>A button of the bar: its title, the saved one (empty where there is none) and its label.\<close>

record bar_button =
  bb_title :: string
  bb_originalTitle :: string
  bb_label :: string

definition sync_button :: "bool \<Rightarrow> bar_button \<Rightarrow> bar_button" where
  "sync_button narrow b =
     (let b1 = (if bb_originalTitle b = [] then b\<lparr>bb_originalTitle := bb_title b\<rparr> else b);
          labelText = trim (bb_label b1)
      in if narrow \<and> labelText \<noteq> [] then b1\<lparr>bb_title := labelText\<rparr> else b1\<lparr>bb_title := bb_originalTitle b1\<rparr>)"

definition syncButtonBarCompactState :: "bool \<Rightarrow> bool \<times> bar_button list \<Rightarrow> bool \<times> bar_button list" where
  "syncButtonBarCompactState narrow bar = (narrow, map (sync_button narrow) (snd bar))"

section \<open>Lemmas\<close>

text \<open>The ids of the bar, in document order.\<close>

definition control_ids :: "string list" where
  "control_ids =
     [''shabbat-indicator'', ''sys-cpu'', ''sys-mem'', ''sys-mem-mb'', ''sys-storage'', ''time-now'', ''button-bar'',
      ''motion'', ''privacy'', ''physical-privacy'', ''ptz-home'', ''wireguard'', ''daynight'', ''daynight-text'', ''daynight-gain'',
      ''auto'', ''day'', ''night'', ''color'', ''ircut'', ''ir850'', ''ir940'', ''white'', ''microphone'', ''speaker'',
      ''recorder-ch0'', ''recorder-ch1'', ''timelapse'']"

lemma ids_append_nodes: "ids_of (append_nodes n ms) = (case n of TextNode _ \<Rightarrow> [] | Elem _ _ _ \<Rightarrow> ids_of n @ concat (map ids_of ms))"
  by (cases n) simp_all

lemma labels_no_attr:
  "k \<noteq> ''class'' \<Longrightarrow> k \<noteq> ''title'' \<Longrightarrow> concat (map (attr_values k) (appendLabelWithIcon i t l c)) = []"
  by (simp add: appendLabelWithIcon_def createIcon_def opt_attr_def Let_def)

lemma button_attr:
  "k \<notin> {''class'', ''title'', ''type'', ''id''} \<Longrightarrow>
     attr_values k (createButton b) =
       (case map_of (b_dataset b @ b_attributes b) k of None \<Rightarrow> [] | Some v \<Rightarrow> [v])"
  by (auto simp: createButton_def labels_no_attr opt_attr_def map_add_def split: option.splits)

lemma button_ids: "ids_of (createButton b) =
    (if b_id b \<noteq> [] then [b_id b] else (case map_of (b_dataset b @ b_attributes b) ''id'' of None \<Rightarrow> [] | Some v \<Rightarrow> [v]))"
  using labels_no_attr [of "''id''"]
  by (auto simp: createButton_def ids_of_def opt_attr_def map_add_def split: option.splits)

lemma button_elem: obtains as ns where "createButton b = Elem ''button'' as ns"
  by (simp add: createButton_def)

lemma ids_append_button: "ids_of (append_nodes (createButton b) ms) = ids_of (createButton b) @ concat (map ids_of ms)"
  by (cases rule: button_elem [of b]) (simp add: ids_append_nodes)

lemma attr_append_button: "attr_values k (append_nodes (createButton b) ms) = attr_values k (createButton b) @ concat (map (attr_values k) ms)"
  by (cases rule: button_elem [of b]) (simp add: attr_values_append)

lemma link_ids: "ids_of (menu_link active h t i l) = []"
  using labels_no_attr [of "''id''"] by (simp add: menu_link_def ids_of_def opt_attr_def)

lemma link_attr: "k \<notin> {''class'', ''title'', ''href'', ''aria-current''} \<Longrightarrow> attr_values k (menu_link active h t i l) = []"
  by (simp add: menu_link_def opt_attr_def labels_no_attr)

lemma split_group_ids:
  "ids_of (split_group bs t h ls) = concat (map ids_of bs) @ concat (map ids_of ls)"
  by (simp add: split_group_def btn_group_def menu_of_def menu_toggle_def ids_append_button button_ids plain_button_def sr_only_def comp_def)

lemma split_group_attr:
  "k \<notin> {''class'', ''title'', ''type'', ''id'', ''role'', ''data-bs-toggle'', ''aria-expanded''} \<Longrightarrow>
   attr_values k (split_group bs t h ls) = concat (map (attr_values k) bs) @ concat (map (attr_values k) ls)"
  by (simp add: split_group_def btn_group_def menu_of_def menu_toggle_def attr_append_button button_attr plain_button_def sr_only_def comp_def)

lemmas bar_parts = plain_button_def btn_group_def menu_of_def menu_toggle_def sr_only_def
  createRecorderGroup_def createSendButton_def createMotionGuardButton_def createPrivacyModeButton_def
  createPhysicalPrivacyButton_def createPtzHomeButton_def createAudioControlGroup_def createWireGuardButton_def
  createDayNightGroup_def createDropdownMenu_def daynight_items_def

lemmas bar_ids = split_group_ids button_ids link_ids ids_append_button bar_parts
lemmas bar_attrs = split_group_attr button_attr link_attr attr_append_button bar_parts

lemma button_bar_ids: "ids_of (buildButtonBar active) = drop 6 control_ids"
  by (simp add: buildButtonBar_def bar_ids control_ids_def)

lemma status_column_ids: "ids_of buildStatusColumn = take 5 control_ids"
  by (simp add: buildStatusColumn_def control_ids_def)

lemma control_row_ids: "ids_of (buildControlRow active cfg as) = control_ids" "distinct control_ids"
  by (simp_all add: buildControlRow_def button_bar_ids status_column_ids buildTimeColumn_def opt_attr_def) (simp_all add: control_ids_def)

lemma row_no_placeholder: "attr_values ''data-app-controls'' (buildControlRow active cfg as) = []"
  by (simp add: buildControlRow_def buildButtonBar_def bar_attrs buildStatusColumn_def buildTimeColumn_def opt_attr_def)

lemma mount_fixed: "attr_values ''data-app-controls'' n = [] \<Longrightarrow> mount_node active cfg n = n"
  by (induction n) (auto intro: map_idI split: option.splits)

lemma mount_clears: "attr_values ''data-app-controls'' (mount_node active cfg n) = []"
  by (induction n) (auto simp: row_no_placeholder)

lemma sync_keeps_original: "bb_originalTitle c \<noteq> [] \<Longrightarrow> bb_originalTitle (fold sync_button cs c) = bb_originalTitle c"
  by (induction cs arbitrary: c) (simp_all add: sync_button_def Let_def)

lemma sync_wide_restores:
  assumes "bb_title b \<noteq> []" "bb_originalTitle b = []"
  shows "bb_title (sync_button False (fold sync_button cs b)) = bb_title b"
proof (cases cs)
  case Nil
  with assms show ?thesis by (simp add: sync_button_def)
next
  case (Cons x xs)
  have "bb_originalTitle (sync_button x b) = bb_title b" using assms by (simp add: sync_button_def Let_def)
  with sync_keeps_original [of "sync_button x b" xs] assms Cons show ?thesis by (simp add: sync_button_def [of False] Let_def)
qed

section \<open>Properties\<close>

text \<open>
  The control bar is complete and is built once: whatever the configuration, a row has exactly the ids the other
  scripts look up, each once and in a fixed order; mounting leaves no placeholder anywhere in the page, so that
  mounting again, with any configuration, changes nothing.\<close>

theorem control_bar_built_once:
  "ids_of (buildControlRow active cfg as) = control_ids \<and> distinct control_ids \<and>
   attr_values ''data-app-controls'' (mount_node active cfg n) = [] \<and>
   mountControlBars active' cfg' (mountControlBars active cfg page) = mountControlBars active cfg page"
  by (cases page) (simp_all add: control_row_ids mount_fixed mount_clears)

end
