(* ===== verification/Navigation.thy ===== *)
theory Navigation
  imports Markup "HOL-Library.Multiset"
begin

text \<open>
  The navigation of every page (\<open>navigation.js\<close>): the default menu, the bar with its drop-down menus and the
  off-canvas menu built from the same items, the highlighting of the current page, the handlers of the restart
  links and the loading of the control bar script. The browser's URL parser is the argument \<open>parse_url\<close>, giving path and query
  (\<open>None\<close> where it throws). Fields that an item does not have are empty.
\<close>

section \<open>Items\<close>

record nav_leaf =
  n_label :: string
  n_href :: string
  n_id :: string
  n_className :: string
  n_target :: string
  n_rel :: string
  n_title :: string
  n_track :: bool \<comment> \<open>\<open>trackActive !== false\<close>\<close>

datatype nav_sub = Divider string | Sub nav_leaf

datatype nav_entry = Dropdown string string string "nav_sub list" | Link nav_leaf

definition leaf :: "string \<Rightarrow> string \<Rightarrow> nav_leaf" where
  "leaf label href = \<lparr>n_label = label, n_href = href, n_id = [], n_className = [], n_target = [], n_rel = [], n_title = [], n_track = True\<rparr>"

definition withAssetTag :: "string \<Rightarrow> string \<Rightarrow> string" where
  "withAssetTag assetTag url =
     (if assetTag = [] \<or> \<not> starts_with url ''/a/'' then url
      else hd (split_on (CHR ''?'') url) @ ''?ts='' @ assetTag)"

definition settings_items :: "bool \<Rightarrow> nav_sub list" where
  "settings_items hasMotors =
     map Sub ([leaf ''Admin profile'' ''/config-admin.html'', leaf ''GPIO pins'' ''/config-gpio.html'']
       @ (if hasMotors then [leaf ''Pan/Tilt motors'' ''/config-motors.html''] else [])
       @ [leaf ''Network'' ''/config-network.html'', leaf ''Audio'' ''/config-audio.html'',
          leaf ''Privacy screen'' ''/config-privacy.html'', leaf ''Photosensing'' ''/config-photosensing.html'',
          leaf ''Dusk2Dawn'' ''/config-dusk2dawn.html'', leaf ''RTSP/ONVIF access'' ''/config-rtsp.html'',
          leaf ''Remote logging'' ''/config-syslog.html'', leaf ''Telegram Bot'' ''/config-telegrambot.html'',
          leaf ''Time'' ''/config-time.html'', leaf ''Web Interface'' ''/config-webui.html'',
          leaf ''WireGuard VPN'' ''/config-wireguard.html'', leaf ''ZeroTier VPN'' ''/config-zerotier.html''])
     @ [Divider [], Sub (leaf ''Reset...'' ''/reset.html'')]"

definition tools_items :: "bool \<Rightarrow> nav_sub list" where
  "tools_items flashOperationsEnabled =
     map Sub ([leaf ''File manager'' ''/tool-file-manager.html'', leaf ''Network test'' ''/tool-ping-trace.html'',
               leaf ''SD card'' ''/tool-sdcard.html'', leaf ''Send to services'' ''/tool-send2.html'']
       @ (if flashOperationsEnabled then [leaf ''Flash operations'' ''/tool-upgrade.html''] else []))
     @ [Divider [], Sub ((leaf ''Reboot camera'' ''/x/reboot.cgi'')\<lparr>n_className := ''text-danger confirm''\<rparr>)]"

definition info_items :: "nav_sub list" where
  "info_items =
     map Sub [leaf ''File: crontab'' ''/info.html?crontab'', leaf ''File: onvif.json'' ''/info.html?onvif'',
       leaf ''File: prudynt.json'' ''/info.html?prudynt'', leaf ''File: thingino.json'' ''/info.html?thingino'',
       leaf ''Log: dmesg'' ''/info.html?dmesg'', leaf ''Log: logcat'' ''/info.html?logcat'', leaf ''Log: logread'' ''/info.html?logread'',
       leaf ''Info: lsmod'' ''/info.html?lsmod'', leaf ''Info: netstat'' ''/info.html?netstat'',
       leaf ''Info: os-release'' ''/info.html?release'', leaf ''Info: top'' ''/info.html?top'', leaf ''Info: status'' ''/info.html?status'',
       leaf ''Overlay partition'' ''/info-overlay.html'', leaf ''System usage'' ''/info-usage.html'',
       leaf ''Diagnostic info'' ''/info-diagnostic.html'']"

definition streamer_items :: "nav_sub list" where
  "streamer_items =
     map Sub [leaf ''Image Quality'' ''/streamer-image.html'', leaf ''RTSP Main stream'' ''/streamer-main.html'',
       leaf ''Main stream OSD'' ''/streamer-osd0.html'', leaf ''RTSP Substream'' ''/streamer-substream.html'',
       leaf ''Substream OSD'' ''/streamer-osd1.html'', leaf ''Sensor IQ File'' ''/streamer-sensor.html'']
     @ [Divider []]
     @ map Sub [leaf ''Streamer config'' ''/info.html?prudynt'', leaf ''Streamer log'' ''/info.html?logcat'',
       (leaf ''Restart streamer'' ''#'')\<lparr>n_id := ''restart-prudynt-nav'', n_className := ''text-danger confirm'', n_track := False\<rparr>]"

definition help_items :: "nav_sub list" where
  "help_items =
     map Sub [(leaf ''About thingino'' ''https://thingino.com/'')
          \<lparr>n_target := ''_blank'', n_rel := ''noreferrer noopener'', n_track := False\<rparr>,
        (leaf ''Thingino Wiki'' ''https://github.com/themactep/thingino-firmware/wiki'')
          \<lparr>n_target := ''_blank'', n_rel := ''noreferrer noopener'', n_track := False\<rparr>]
     @ [Divider [], Sub ((leaf ''Logout'' ''/x/logout.cgi'')\<lparr>n_className := ''text-danger'', n_track := False\<rparr>)]"

definition buildDefaultMenu :: "bool \<Rightarrow> bool \<Rightarrow> nav_entry list" where
  "buildDefaultMenu hasMotors flashOperationsEnabled =
     [Dropdown ''ddInfo'' ''Information'' [] info_items,
      Dropdown ''ddSettings'' ''Settings'' [] (settings_items hasMotors),
      Dropdown ''ddTools'' ''Tools'' [] (tools_items flashOperationsEnabled),
      Dropdown ''ddServices'' ''Services'' []
        (map Sub [leaf ''Timelapse Recorder'' ''/tool-timelapse.html'', leaf ''Video Recorder'' ''/tool-record.html'',
           leaf ''Home Assistant'' ''/config-ha.html'', leaf ''MQTT Subscriptions'' ''/tool-mqtt-sub.html'']),
      Dropdown ''ddStreamer'' ''Streamer'' [] streamer_items,
      Link (leaf ''Preview'' ''/preview.html''),
      Dropdown ''ddHelp'' ''Help'' ''dropdown-menu dropdown-menu-lg-end'' help_items]"

definition menuData :: "nav_entry list \<Rightarrow> bool \<Rightarrow> bool \<Rightarrow> nav_entry list" where
  "menuData configured hasMotors flash = (if configured = [] then buildDefaultMenu hasMotors flash else configured)"

section \<open>Paths and labels\<close>

definition normalizePath :: "(string \<Rightarrow> (string \<times> string) option) \<Rightarrow> string \<Rightarrow> string" where
  "normalizePath parse_url input =
     (if input = [] then ''/''
      else let (path, search) =
             (case parse_url input of
                Some ps \<Rightarrow> ps
              | None \<Rightarrow> (case index_of_char (CHR ''?'') input of
                          Some q \<Rightarrow> (take q input, drop q input)
                        | None \<Rightarrow> (input, [])))
           in if path = [] then ''/''
              else let p1 = hd (split_on (CHR ''#'') path);
                       p2 = (if 1 < length p1 \<and> last p1 = CHR ''/'' then rev (dropWhile (\<lambda>c. c = CHR ''/'') (rev p1)) else p1)
                   in or_text p2 ''/'' @ search)"

text \<open>The title is split at hyphens and middle dots (code unit 183); the dash U+2014 is outside the modelled texts.\<close>

definition title_parts :: "string \<Rightarrow> string list" where
  "title_parts t = filter (\<lambda>w. w \<noteq> []) (map trim (split_on (CHR ''-'') (replace_char (char_of (183 :: nat)) (CHR ''-'') t)))"

definition deriveBrandLabel :: "string \<Rightarrow> string \<Rightarrow> string \<Rightarrow> string" where
  "deriveBrandLabel brandLabel navLabel title =
     (if trim brandLabel \<noteq> [] then trim brandLabel
      else if navLabel \<noteq> [] then navLabel
      else if title = [] then ''thingino''
      else (case title_parts title of _ # b # _ \<Rightarrow> b | [a] \<Rightarrow> a | [] \<Rightarrow> ''thingino''))"

section \<open>Building\<close>

type_synonym url_parser = "string \<Rightarrow> (string \<times> string) option"

definition createAnchor :: "url_parser \<Rightarrow> nav_leaf \<Rightarrow> string \<Rightarrow> node" where
  "createAnchor parse_url item defaultClass =
     Elem ''a''
       ([(''class'', if n_className item = [] then defaultClass else defaultClass @ '' '' @ n_className item), (''href'', n_href item)]
        @ opt_attr ''target'' (n_target item) @ opt_attr ''rel'' (n_rel item) @ opt_attr ''title'' (n_title item)
        @ (if n_track item \<and> starts_with (n_href item) ''/'' then [(''data-nav-path'', normalizePath parse_url (n_href item))] else []))
       [TextNode (n_label item)]"

fun sub_item :: "url_parser \<Rightarrow> nav_sub \<Rightarrow> node" where
  "sub_item parse_url (Divider c) = Elem ''li'' [] [Elem ''hr'' [(''class'', or_text c ''dropdown-divider'')] []]"
| "sub_item parse_url (Sub item) = Elem ''li'' [] [createAnchor parse_url item ''dropdown-item'']"

definition createDropdown :: "url_parser \<Rightarrow> string \<Rightarrow> string \<Rightarrow> string \<Rightarrow> nav_sub list \<Rightarrow> node" where
  "createDropdown parse_url i label menuClass items =
     Elem ''li'' [(''class'', ''nav-item dropdown'')]
       [Elem ''a'' [(''class'', ''nav-link dropdown-toggle''), (''href'', ''#''), (''id'', i), (''role'', ''button''),
          (''data-bs-toggle'', ''dropdown''), (''aria-expanded'', ''false'')] [TextNode label],
        Elem ''ul'' ((''class'', or_text menuClass ''dropdown-menu'') # opt_attr ''aria-labelledby'' i) (map (sub_item parse_url) items)]"

definition createLinkItem :: "url_parser \<Rightarrow> nav_leaf \<Rightarrow> node" where
  "createLinkItem parse_url item = Elem ''li'' [(''class'', ''nav-item'')] [createAnchor parse_url item ''nav-link'']"

fun entry_node :: "url_parser \<Rightarrow> nav_entry \<Rightarrow> node" where
  "entry_node parse_url (Dropdown i label menuClass items) = createDropdown parse_url i label menuClass items"
| "entry_node parse_url (Link item) = createLinkItem parse_url item"

fun is_preview :: "nav_entry \<Rightarrow> bool" where
  "is_preview (Link item) = (n_label item = ''Preview'')"
| "is_preview (Dropdown _ _ _ _) = False"

definition offcanvas_order :: "nav_entry list \<Rightarrow> nav_entry list" where
  "offcanvas_order items = filter is_preview items @ filter (\<lambda>e. \<not> is_preview e) items"

definition offcanvas_anchor :: "url_parser \<Rightarrow> nav_leaf \<Rightarrow> node" where
  "offcanvas_anchor parse_url item =
     (let a = createAnchor parse_url item ''d-block py-1 text-decoration-none''
      in if n_id item = [] then a else set_attribute ''id'' (n_id item @ ''-offcanvas'') a)"

fun offcanvas_sub :: "url_parser \<Rightarrow> nav_sub \<Rightarrow> node" where
  "offcanvas_sub parse_url (Divider _) = Elem ''li'' [] [Elem ''hr'' [(''class'', ''my-2'')] []]"
| "offcanvas_sub parse_url (Sub item) = Elem ''li'' [(''class'', ''mb-1'')] [offcanvas_anchor parse_url item]"

fun offcanvas_entry :: "url_parser \<Rightarrow> nav_entry \<Rightarrow> node" where
  "offcanvas_entry parse_url (Dropdown _ label _ items) =
     Elem ''li'' [(''class'', ''mb-3'')]
       [Elem ''h6'' [(''class'', ''text-uppercase text-secondary mb-2'')] [TextNode label],
        Elem ''ul'' [(''class'', ''list-unstyled ms-3'')] (map (offcanvas_sub parse_url) items)]"
| "offcanvas_entry parse_url (Link item) =
     Elem ''li'' [(''class'', ''mb-2'')] [createAnchor parse_url item ''d-block fw-bold text-decoration-none p-3'']"

definition createOffcanvasList :: "url_parser \<Rightarrow> nav_entry list \<Rightarrow> node" where
  "createOffcanvasList parse_url items =
     Elem ''ul'' [(''class'', ''list-unstyled'')] (map (offcanvas_entry parse_url) (offcanvas_order items))"

record nav_config =
  nc_brandHref :: "string option"
  nc_brandLogoAlt :: string
  nc_brandLogo :: string
  nc_brandLabel :: string
  nc_activePath :: string
  nc_controlBarSrc :: string

definition nav_list :: "url_parser \<Rightarrow> nav_entry list \<Rightarrow> node" where
  "nav_list parse_url items = Elem ''ul'' [(''class'', ''navbar-nav'')] (map (entry_node parse_url) items)"

definition buildNav :: "url_parser \<Rightarrow> nav_config \<Rightarrow> string \<Rightarrow> string \<Rightarrow> nav_entry list \<Rightarrow> node" where
  "buildNav parse_url cfg navLabel title items =
     Elem ''nav'' [(''class'', ''navbar navbar-expand-lg navbar-dark bg-dark sticky-top''), (''data-generated-nav'', ''true'')]
       [Elem ''div'' [(''class'', ''container'')]
          [Elem ''a'' [(''class'', ''navbar-brand d-flex align-items-center gap-3''),
              (''href'', case nc_brandHref cfg of None \<Rightarrow> ''/'' | Some h \<Rightarrow> h)]
             [Elem ''img'' [(''alt'', or_text (nc_brandLogoAlt cfg) ''Thingino logo''), (''width'', ''150''),
                (''src'', or_text (nc_brandLogo cfg) ''/a/logo.svg'')] [],
              Elem ''span'' [] [TextNode (deriveBrandLabel (nc_brandLabel cfg) navLabel title)]],
           Elem ''button'' [(''class'', ''navbar-toggler''), (''type'', ''button''), (''data-bs-toggle'', ''offcanvas''),
              (''data-bs-target'', ''#navOffcanvas''), (''aria-controls'', ''navOffcanvas''), (''aria-label'', ''Toggle navigation'')]
             [Elem ''span'' [(''class'', ''navbar-toggler-icon'')] []],
           Elem ''div'' [(''class'', ''collapse navbar-collapse justify-content-end d-none d-lg-flex''), (''id'', ''nbMain'')]
             [nav_list parse_url items],
           Elem ''div'' [(''class'', ''offcanvas offcanvas-end d-lg-none''), (''id'', ''navOffcanvas''), (''tabindex'', ''-1''),
              (''aria-labelledby'', ''navOffcanvasLabel'')]
             [Elem ''div'' [(''class'', ''offcanvas-header'')]
                [Elem ''h5'' [(''class'', ''offcanvas-title''), (''id'', ''navOffcanvasLabel'')] [TextNode ''Menu''],
                 Elem ''button'' [(''type'', ''button''), (''class'', ''btn-close''), (''data-bs-dismiss'', ''offcanvas''), (''aria-label'', ''Close'')] []],
              Elem ''div'' [(''class'', ''offcanvas-body'')] [createOffcanvasList parse_url items]]]]"

section \<open>The current page\<close>

definition tracks :: "string \<Rightarrow> node \<Rightarrow> bool" where
  "tracks cur n \<longleftrightarrow> attr_of ''data-nav-path'' n = Some cur"

definition is_toggle :: "node \<Rightarrow> bool" where
  "is_toggle n \<longleftrightarrow> ''nav-link'' \<in> set (classes n) \<and> ''dropdown-toggle'' \<in> set (classes n)"

text \<open>
  The tracked links of the current path become active, and so does the toggle of a drop-down menu (an element of
  the class \<open>dropdown\<close>, which are not nested) that holds one of them; the toggle is a child of the menu.
\<close>

fun highlight_node :: "string \<Rightarrow> node \<Rightarrow> node" where
  "highlight_node cur (TextNode s) = TextNode s"
| "highlight_node cur (Elem t as ns) =
     (let inner = map (highlight_node cur) ns;
          mark = ''dropdown'' \<in> set (classes (Elem t as ns)) \<and> (\<exists>n\<in>set (concat (map elems ns)). tracks cur n);
          shown = Elem t as (if mark then map (\<lambda>n. if is_toggle n then add_class ''active'' n else n) inner else inner)
      in if tracks cur (Elem t as ns) then add_class ''active'' shown else shown)"

definition highlightActive :: "url_parser \<Rightarrow> string \<Rightarrow> string \<Rightarrow> node \<Rightarrow> node" where
  "highlightActive parse_url activePath location nav =
     highlight_node (normalizePath parse_url (or_text activePath location)) nav"

section \<open>Handlers\<close>

text \<open>The restart links \<open>attachPrudyntHandlers\<close> finds in the bar and binds.\<close>

definition attachPrudyntHandlers :: "node \<Rightarrow> string list" where
  "attachPrudyntHandlers nav =
     filter (\<lambda>i. i \<in> set (ids_of nav)) [''restart-prudynt-nav'', ''restart-prudynt-nav-offcanvas'']"

datatype restart_action = LeftToConfirm | RestartPrudynt | NotAvailable

definition restartHandler :: "bool \<Rightarrow> bool \<Rightarrow> bool \<Rightarrow> restart_action" where
  "restartHandler has_confirm bypass footer_ready =
     (if has_confirm \<and> \<not> bypass then LeftToConfirm else if footer_ready then RestartPrudynt else NotAvailable)"

datatype offcanvas_click = DefaultAction | HideThenGo string | GoTo string

definition offcanvas_clicked :: "bool \<Rightarrow> string \<Rightarrow> offcanvas_click" where
  "offcanvas_clicked framework href =
     (if href = [] \<or> href = ''#'' then DefaultAction else if framework then HideThenGo href else GoTo href)"

section \<open>Mounting\<close>

datatype nav_place = ReplacesPlaceholder | ReplacesExisting | PrependedToBody | NotInserted

definition mountNavigation_place :: "bool \<Rightarrow> bool \<Rightarrow> bool \<Rightarrow> nav_place" where
  "mountNavigation_place placeholder existing body =
     (if placeholder then ReplacesPlaceholder else if existing then ReplacesExisting
      else if body then PrependedToBody else NotInserted)"

text \<open>
  The control bar script: the elements of the page that load it, with their bound flags, and how often the bar was
  rebuilt; \<open>rebuild_ready\<close> says whether \<open>window.thinginoControlBar.rebuild\<close> exists.
\<close>

record bar_script =
  bs_src :: string
  bs_bound :: bool
  bs_listeners :: nat

record bar_loader =
  has_placeholder :: bool
  rebuild_ready :: bool
  rebuilds :: nat
  scripts :: "bar_script list"

definition bindControlBarLoad :: "bar_script \<Rightarrow> bar_script" where
  "bindControlBarLoad s = (if bs_bound s then s else s\<lparr>bs_bound := True, bs_listeners := Suc (bs_listeners s)\<rparr>)"

definition ensureControlBarScript :: "string \<Rightarrow> nav_config \<Rightarrow> bar_loader \<Rightarrow> bar_loader" where
  "ensureControlBarScript assetTag cfg b =
     (if \<not> has_placeholder b then b
      else if rebuild_ready b then b\<lparr>rebuilds := Suc (rebuilds b)\<rparr>
      else (case scripts b of
              s # ss \<Rightarrow> b\<lparr>scripts := bindControlBarLoad s # ss\<rparr>
            | [] \<Rightarrow> b\<lparr>scripts := [bindControlBarLoad
                 \<lparr>bs_src = withAssetTag assetTag (or_text (nc_controlBarSrc cfg) ''/a/control-bar.js''), bs_bound = False, bs_listeners = 0\<rparr>]\<rparr>))"

definition mountNavigation :: "url_parser \<Rightarrow> nav_config \<Rightarrow> string \<Rightarrow> string \<Rightarrow> string \<Rightarrow> nav_entry list \<Rightarrow> node \<times> string list" where
  "mountNavigation parse_url cfg navLabel title location items =
     (let nav = highlightActive parse_url (nc_activePath cfg) location (buildNav parse_url cfg navLabel title items)
      in (nav, attachPrudyntHandlers nav))"

section \<open>Links and ids of the menus\<close>

lemma asset_base: "starts_with url ''/a/'' \<Longrightarrow> starts_with (takeWhile (\<lambda>d. d \<noteq> CHR ''?'') url @ r) ''/a/''"
  by (cases url rule: list.exhaust; cases "tl url"; cases "tl (tl url)") (auto simp: starts_with_def)

lemma withAssetTag_idem:
  assumes "tag \<noteq> []" "starts_with url ''/a/''"
  shows "withAssetTag tag (withAssetTag tag url) = withAssetTag tag url"
proof -
  have "takeWhile (\<lambda>d. d \<noteq> CHR ''?'') (takeWhile (\<lambda>d. d \<noteq> CHR ''?'') url @ CHR ''?'' # r) = takeWhile (\<lambda>d. d \<noteq> CHR ''?'') url" for r
    by (simp add: takeWhile_tail)
  then show ?thesis using assms asset_base [OF assms(2)] by (simp add: withAssetTag_def hd_split_on)
qed

lemma anchor_ids: "ids_of (createAnchor p item c) = []"
  by (simp add: createAnchor_def opt_attr_def)

lemma anchor_hrefs: "attr_values ''href'' (createAnchor p item c) = [n_href item]"
  by (simp add: createAnchor_def)

lemma offcanvas_anchor_ids: "ids_of (offcanvas_anchor p item) = (if n_id item = [] then [] else [n_id item @ ''-offcanvas''])"
  by (simp add: offcanvas_anchor_def createAnchor_def opt_attr_def map_of_set_assoc Let_def)

lemma offcanvas_anchor_hrefs: "attr_values ''href'' (offcanvas_anchor p item) = [n_href item]"
  by (simp add: offcanvas_anchor_def anchor_hrefs attr_values_set_other Let_def)

text \<open>The addresses of an entry, in order.\<close>

fun sub_hrefs :: "nav_sub \<Rightarrow> string list" where
  "sub_hrefs (Divider _) = []"
| "sub_hrefs (Sub item) = [n_href item]"

fun entry_hrefs :: "nav_entry \<Rightarrow> string list" where
  "entry_hrefs (Dropdown _ _ _ items) = concat (map sub_hrefs items)"
| "entry_hrefs (Link item) = [n_href item]"

lemma sub_item_hrefs: "attr_values ''href'' (sub_item p s) = sub_hrefs s" "attr_values ''href'' (offcanvas_sub p s) = sub_hrefs s"
  by (cases s; simp add: anchor_hrefs offcanvas_anchor_hrefs)+

lemma entry_node_hrefs: "attr_values ''href'' (entry_node p e) = (case e of Dropdown _ _ _ _ \<Rightarrow> [''#''] | Link _ \<Rightarrow> []) @ entry_hrefs e"
  by (cases e) (simp_all add: createDropdown_def createLinkItem_def anchor_hrefs sub_item_hrefs opt_attr_def comp_def)

lemma offcanvas_entry_hrefs: "attr_values ''href'' (offcanvas_entry p e) = entry_hrefs e"
  by (cases e) (simp_all add: anchor_hrefs sub_item_hrefs comp_def)

lemma offcanvas_order_perm: "mset (offcanvas_order items) = mset items"
  by (simp add: offcanvas_order_def)

lemma mset_concat_map_perm: "mset xs = mset ys \<Longrightarrow> mset (concat (map f xs)) = mset (concat (map f ys))"
  by (simp add: mset_concat flip: sum_mset_sum_list)

fun is_dropdown :: "nav_entry \<Rightarrow> bool" where
  "is_dropdown (Dropdown _ _ _ _) = True"
| "is_dropdown (Link _) = False"

lemma nav_list_hrefs:
  "mset (attr_values ''href'' (nav_list p items)) =
     replicate_mset (length (filter is_dropdown items)) ''#'' + mset (concat (map entry_hrefs items))"
  unfolding nav_list_def
proof (induction items)
  case (Cons e items)
  then show ?case using entry_node_hrefs [of p e] by (cases e) simp_all
qed simp

lemma sub_item_ids: "ids_of (sub_item p s) = []"
  by (cases s) (simp_all add: anchor_ids)

fun sub_offcanvas_ids :: "nav_sub \<Rightarrow> string list" where
  "sub_offcanvas_ids (Divider _) = []"
| "sub_offcanvas_ids (Sub item) = (if n_id item = [] then [] else [n_id item @ ''-offcanvas''])"

lemma offcanvas_sub_ids: "ids_of (offcanvas_sub p s) = sub_offcanvas_ids s"
  by (cases s) (simp_all add: offcanvas_anchor_ids)

lemma dropdown_ids: "ids_of (createDropdown p i l m items) = [i]"
  by (simp add: createDropdown_def sub_item_ids opt_attr_def comp_def)

fun entry_ids :: "nav_entry \<Rightarrow> string list" where
  "entry_ids (Dropdown i _ _ _) = [i]"
| "entry_ids (Link _) = []"

fun entry_offcanvas_ids :: "nav_entry \<Rightarrow> string list" where
  "entry_offcanvas_ids (Dropdown _ _ _ items) = concat (map sub_offcanvas_ids items)"
| "entry_offcanvas_ids (Link _) = []"

lemma entry_node_ids: "ids_of (entry_node p e) = entry_ids e" "ids_of (offcanvas_entry p e) = entry_offcanvas_ids e"
  by (cases e; simp add: dropdown_ids createLinkItem_def anchor_ids offcanvas_sub_ids comp_def)+

lemma nav_ids:
  "ids_of (buildNav p cfg nl t items) =
     ''nbMain'' # concat (map entry_ids items) @ [''navOffcanvas'', ''navOffcanvasLabel''] @
     concat (map entry_offcanvas_ids (offcanvas_order items))"
  by (simp add: buildNav_def nav_list_def createOffcanvasList_def entry_node_ids comp_def)

lemma highlight_attr: "k \<noteq> ''class'' \<Longrightarrow> attr_values k (highlight_node cur n) = attr_values k n"
proof (induction n)
  case (Elem t as ns)
  then have "map (attr_values k) (map (highlight_node cur) ns) = map (attr_values k) ns" by simp
  moreover have "map (attr_values k) (map (\<lambda>n. if b n then add_class c n else n) ms) = map (attr_values k) ms" for b c and ms :: "node list"
    using \<open>k \<noteq> ''class''\<close> by simp
  ultimately show ?case
    using \<open>k \<noteq> ''class''\<close> by (simp add: Let_def comp_def del: map_map)
qed simp

section \<open>Highlighting\<close>

text \<open>An element that is tracked is neither active nor a toggle before the highlighting; afterwards it is active exactly for the current path.\<close>

definition untouched :: "node \<Rightarrow> bool" where
  "untouched e \<longleftrightarrow> attr_of ''data-nav-path'' e \<noteq> None \<longrightarrow> ''active'' \<notin> set (classes e) \<and> \<not> is_toggle e"

lemma active_word: "''active'' \<noteq> []" "CHR '' '' \<notin> set ''active''" by simp_all

lemmas classes_active = classes_add_class [OF active_word]

lemma is_toggle_active: "is_toggle (add_class ''active'' n) = is_toggle n"
  by (cases n) (simp add: add_class_def, simp add: is_toggle_def classes_active)

lemma highlight_shape:
  obtains ms where "highlight_node cur (Elem t as ns) =
    (if tracks cur (Elem t as ns) then add_class ''active'' (Elem t as ms) else Elem t as ms)"
  by (simp add: Let_def)

lemma highlight_root:
  "attr_of ''data-nav-path'' (highlight_node cur n) = attr_of ''data-nav-path'' n"
  "is_toggle (highlight_node cur n) = is_toggle n"
proof -
  show "attr_of ''data-nav-path'' (highlight_node cur n) = attr_of ''data-nav-path'' n"
    by (cases n) (simp_all add: Let_def attr_add_class)
  show "is_toggle (highlight_node cur n) = is_toggle n"
  proof (cases n)
    case (Elem t as ns)
    obtain ms where ms: "highlight_node cur (Elem t as ns) =
        (if tracks cur (Elem t as ns) then add_class ''active'' (Elem t as ms) else Elem t as ms)"
      by (rule highlight_shape)
    have "is_toggle (Elem t as ms) = is_toggle (Elem t as ns)" by (simp add: is_toggle_def classes_def)
    then show ?thesis unfolding Elem ms using is_toggle_active [of "Elem t as ms"] by simp
  qed simp
qed

definition exact :: "string \<Rightarrow> node \<Rightarrow> bool" where
  "exact cur e \<longleftrightarrow> (\<forall>q. attr_of ''data-nav-path'' e = Some q \<longrightarrow> (''active'' \<in> set (classes e) \<longleftrightarrow> q = cur))"

lemma exact_marked:
  assumes "\<And>e. e \<in> set (elems m) \<Longrightarrow> exact cur e" "attr_of ''data-nav-path'' m = None" "e \<in> set (elems (add_class ''active'' m))"
  shows "exact cur e"
proof (cases m)
  case (Elem t as ns)
  have "e = add_class ''active'' m \<or> e \<in> set (elems m)"
    using assms(3) unfolding Elem elems_add_class by auto
  moreover have "exact cur (add_class ''active'' m)" using assms(2) by (simp add: exact_def attr_add_class)
  ultimately show ?thesis using assms(1) by blast
qed (use assms in \<open>simp add: add_class_def classes_def\<close>)

lemma highlight_exact:
  assumes "\<And>e. e \<in> set (elems n) \<Longrightarrow> untouched e" "e \<in> set (elems (highlight_node cur n))"
  shows "exact cur e"
  using assms
proof (induction n arbitrary: e)
  case (Elem t as ns)
  let ?inner = "map (highlight_node cur) ns"
  let ?mark = "map (\<lambda>n. if is_toggle n then add_class ''active'' n else n) ?inner"
  have inner: "exact cur e" if "m \<in> set ns" "e \<in> set (elems (highlight_node cur m))" for m e
    using Elem.IH [OF that(1)] Elem.prems(1) that by fastforce
  have marked: "exact cur e" if "m \<in> set ns" "e \<in> set (elems (let h = highlight_node cur m in if is_toggle h then add_class ''active'' h else h))" for m e
  proof (cases "is_toggle m")
    case True
    have "m \<in> set (elems m)" using True by (cases m) (simp_all add: is_toggle_def classes_def)
    then have "untouched m" using Elem.prems(1) that(1) by fastforce
    then have "attr_of ''data-nav-path'' m = None" using True by (auto simp: untouched_def)
    then show ?thesis
      using that inner [OF that(1)] True exact_marked [of "highlight_node cur m" cur e] by (simp add: highlight_root Let_def)
  next
    case False
    then show ?thesis using that inner by (simp add: highlight_root Let_def)
  qed
  have root: "exact cur r" if "r = (if tracks cur (Elem t as ns) then add_class ''active'' (Elem t as ms) else Elem t as ms)" for ms r
  proof -
    have "untouched (Elem t as ns)" using Elem.prems(1) by simp
    then have u: "''active'' \<notin> set (classes (Elem t as ms))" if "attr_of ''data-nav-path'' (Elem t as ms) \<noteq> None"
      using that by (simp add: untouched_def classes_def)
    show ?thesis
      using that u classes_active [of t as ms] by (auto simp: exact_def tracks_def attr_add_class)
  qed
  define b where "b = (''dropdown'' \<in> set (classes (Elem t as ns)) \<and> (\<exists>n\<in>set (concat (map elems ns)). tracks cur n))"
  define ms where "ms = (if b then ?mark else ?inner)"
  have hl: "highlight_node cur (Elem t as ns) = (if tracks cur (Elem t as ns) then add_class ''active'' (Elem t as ms) else Elem t as ms)"
    unfolding ms_def b_def by (simp add: Let_def)
  have "e = highlight_node cur (Elem t as ns) \<or> e \<in> set (concat (map elems ms))"
    using Elem.prems(2) unfolding hl by (cases "tracks cur (Elem t as ns)") (auto simp: elems_add_class)
  then show ?case
  proof
    assume "e = highlight_node cur (Elem t as ns)"
    then show ?thesis using root [of e ms] unfolding hl by blast
  next
    assume "e \<in> set (concat (map elems ms))"
    then show ?thesis using inner marked by (cases b) (auto simp: ms_def Let_def)
  qed
qed simp


text \<open>Menus whose items bring no class of their own that means active or toggle.\<close>

definition plain_leaf :: "nav_leaf \<Rightarrow> bool" where
  "plain_leaf item \<longleftrightarrow> set (class_words (n_className item)) \<inter> {''active'', ''dropdown-toggle''} = {}"

fun plain_sub :: "nav_sub \<Rightarrow> bool" where
  "plain_sub (Divider _) = True"
| "plain_sub (Sub item) = plain_leaf item"

fun plain_entry :: "nav_entry \<Rightarrow> bool" where
  "plain_entry (Dropdown _ _ _ items) = list_all plain_sub items"
| "plain_entry (Link item) = plain_leaf item"

definition untouched_tree :: "node \<Rightarrow> bool" where
  "untouched_tree n \<longleftrightarrow> (\<forall>e\<in>set (elems n). untouched e)"

lemma untouched_elem:
  "map_of as ''data-nav-path'' = None \<Longrightarrow> untouched_tree (Elem t as ns) \<longleftrightarrow> (\<forall>n\<in>set ns. untouched_tree n)"
  by (auto simp: untouched_tree_def untouched_def)

lemma untouched_text: "untouched_tree (TextNode s)"
  by (simp add: untouched_tree_def)

lemma anchor_untouched:
  assumes "plain_leaf item" "set (class_words c) \<inter> {''active'', ''dropdown-toggle''} = {}"
  shows "untouched_tree (createAnchor p item c)"
proof -
  have "classes (createAnchor p item c) = class_words c @ (if n_className item = [] then [] else class_words (n_className item))"
    by (simp add: createAnchor_def classes_words class_words_append [simplified])
  then have "''active'' \<notin> set (classes (createAnchor p item c))" "''dropdown-toggle'' \<notin> set (classes (createAnchor p item c))"
    using assms by (auto simp: plain_leaf_def)
  then have "untouched (createAnchor p item c)" by (simp add: untouched_def is_toggle_def)
  then show ?thesis by (simp add: untouched_tree_def createAnchor_def)
qed

lemma offcanvas_anchor_untouched:
  assumes "plain_leaf item" shows "untouched_tree (offcanvas_anchor p item)"
proof -
  have w: "set (class_words ''d-block py-1 text-decoration-none'') \<inter> {''active'', ''dropdown-toggle''} = {}" by code_simp
  obtain t as ns where a: "createAnchor p item ''d-block py-1 text-decoration-none'' = Elem t as ns"
    by (simp add: createAnchor_def)
  have "untouched_tree (Elem t as ns)" using anchor_untouched [OF assms w, of p] a by simp
  then have "untouched_tree (set_attribute ''id'' v (Elem t as ns))" for v
    by (auto simp: untouched_tree_def untouched_def is_toggle_def classes_def map_of_set_assoc)
  then show ?thesis using \<open>untouched_tree (Elem t as ns)\<close> by (simp add: offcanvas_anchor_def a Let_def)
qed

lemma entry_untouched:
  assumes "plain_entry e" shows "untouched_tree (entry_node p e)" "untouched_tree (offcanvas_entry p e)"
proof -
  have w: "set (class_words ''dropdown-item'') \<inter> {''active'', ''dropdown-toggle''} = {}" "set (class_words ''nav-link'') \<inter> {''active'', ''dropdown-toggle''} = {}"
    "set (class_words ''d-block fw-bold text-decoration-none p-3'') \<inter> {''active'', ''dropdown-toggle''} = {}" by code_simp+
  have s: "untouched_tree (sub_item p s)" "untouched_tree (offcanvas_sub p s)" if "plain_sub s" for s
    using that by (cases s; simp add: untouched_elem anchor_untouched offcanvas_anchor_untouched w)+
  show "untouched_tree (entry_node p e)" "untouched_tree (offcanvas_entry p e)"
    using assms s by (cases e; simp add: createDropdown_def createLinkItem_def untouched_elem untouched_text anchor_untouched w list_all_iff)+
qed

lemma default_menu_plain: "list_all plain_entry (buildDefaultMenu motors flash)"
proof -
  have "set (class_words ''text-danger confirm'') \<inter> {''active'', ''dropdown-toggle''} = {}" "set (class_words []) \<inter> {''active'', ''dropdown-toggle''} = {}"
   "set (class_words ''text-danger'') \<inter> {''active'', ''dropdown-toggle''} = {}"
    by code_simp+
  then show ?thesis
    by (simp add: buildDefaultMenu_def info_items_def settings_items_def tools_items_def streamer_items_def help_items_def leaf_def plain_leaf_def)
qed

section \<open>Properties\<close>

text \<open>
  The menu of small screens offers what the bar offers: for every menu, the addresses of the off-canvas list are those of
  the bar, each as often, apart from the toggles of the drop-down menus (the address \<open>#\<close> once per menu).\<close>

theorem offcanvas_menu_complete:
  "mset (attr_values ''href'' (nav_list p items)) =
     mset (attr_values ''href'' (createOffcanvasList p items)) + replicate_mset (length (filter is_dropdown items)) ''#''"
proof -
  have "mset (attr_values ''href'' (createOffcanvasList p items)) = mset (concat (map entry_hrefs items))"
    unfolding createOffcanvasList_def
    by (simp add: offcanvas_entry_hrefs comp_def mset_concat_map_perm [OF offcanvas_order_perm])
  then show ?thesis by (simp add: nav_list_hrefs)
qed

text \<open>
  The current page is highlighted and nothing else: in the mounted navigation a tracked link, in the bar or in the
  off-canvas menu, is active exactly when its normalised path is that of the current page.\<close>

theorem current_page_highlighted:
  assumes "list_all plain_entry items" "e \<in> set (elems (fst (mountNavigation p cfg nl t loc items)))" "attr_of ''data-nav-path'' e = Some q"
  shows "''active'' \<in> set (classes e) \<longleftrightarrow> q = normalizePath p (or_text (nc_activePath cfg) loc)"
proof -
  have m: "set (offcanvas_order items) = set items" by (auto simp: offcanvas_order_def)
  have "untouched_tree (buildNav p cfg nl t items)"
    using assms(1) entry_untouched [of _ p]
    by (simp add: buildNav_def nav_list_def createOffcanvasList_def untouched_elem untouched_text m list_all_iff)
  then have "exact (normalizePath p (or_text (nc_activePath cfg) loc)) e"
    using assms(2) highlight_exact [of "buildNav p cfg nl t items" e]
    unfolding untouched_tree_def mountNavigation_def highlightActive_def Let_def by auto
  then show ?thesis using assms(3) by (simp add: exact_def)
qed

definition plain_url :: url_parser where
  "plain_url u = Some (u, [])"

definition sample_nav_config :: nav_config where
  "sample_nav_config = \<lparr>nc_brandHref = None, nc_brandLogoAlt = [], nc_brandLogo = [], nc_brandLabel = [], nc_activePath = [], nc_controlBarSrc = []\<rparr>"

theorem current_page_highlighted_witness:
  "\<exists>e\<in>set (elems (fst (mountNavigation plain_url sample_nav_config [] [] ''/preview.html/'' [Link (leaf ''Preview'' ''/preview.html'')]))).
     attr_of ''data-nav-path'' e = Some ''/preview.html'' \<and> ''active'' \<in> set (classes e)"
proof -
  let ?items = "[Link (leaf ''Preview'' ''/preview.html'')]"
  let ?nav = "fst (mountNavigation plain_url sample_nav_config [] [] ''/preview.html/'' ?items)"
  have n: "normalizePath plain_url ''/preview.html/'' = ''/preview.html''" "normalizePath plain_url ''/preview.html'' = ''/preview.html''"
    by code_simp+
  have "attr_values ''data-nav-path'' ?nav = attr_values ''data-nav-path'' (buildNav plain_url sample_nav_config [] [] ?items)"
    by (simp add: mountNavigation_def highlightActive_def highlight_attr Let_def)
  moreover have "''/preview.html'' \<in> set (attr_values ''data-nav-path'' (buildNav plain_url sample_nav_config [] [] ?items))"
    by (simp add: buildNav_def nav_list_def createLinkItem_def createAnchor_def leaf_def opt_attr_def n)
  ultimately have "''/preview.html'' \<in> set (attr_values ''data-nav-path'' ?nav)" by (simp only:)
  then obtain e where e: "e \<in> set (elems ?nav)" "attr_of ''data-nav-path'' e = Some ''/preview.html''"
    unfolding attr_values_set by blast
  have "list_all plain_entry ?items" by (simp add: plain_leaf_def leaf_def class_words_def)
  then have "''active'' \<in> set (classes e)"
    using current_page_highlighted [of ?items e plain_url sample_nav_config "[]" "[]" "''/preview.html/''" "''/preview.html''"] e
    by (simp add: n sample_nav_config_def or_text_def)
  then show ?thesis using e by blast
qed

text \<open>
  The restart link of the bar does nothing: whatever the device and the configuration, in the default menu only the
  off-canvas restart link gets its handler, because the links of the bar are built without their ids.\<close>

theorem restart_link_unbound:
  "snd (mountNavigation p cfg nl t loc (buildDefaultMenu motors flash)) = [''restart-prudynt-nav-offcanvas'']"
proof -
  have "ids_of (fst (mountNavigation p cfg nl t loc items)) = ids_of (buildNav p cfg nl t items)" for items
    by (simp add: mountNavigation_def highlightActive_def ids_of_def highlight_attr Let_def)
  moreover have "set (ids_of (buildNav p cfg nl t (buildDefaultMenu motors flash))) =
      {''nbMain'', ''ddInfo'', ''ddSettings'', ''ddTools'', ''ddServices'', ''ddStreamer'', ''ddHelp'', ''navOffcanvas'', ''navOffcanvasLabel'',
       ''restart-prudynt-nav-offcanvas''}"
    by (simp add: nav_ids buildDefaultMenu_def info_items_def settings_items_def tools_items_def streamer_items_def help_items_def leaf_def
        offcanvas_order_def comp_def insert_commute)
  ultimately show ?thesis
    by (simp add: mountNavigation_def attachPrudyntHandlers_def Let_def)
qed

end
