(* ===== verification/Ansi_Log.thy ===== *)
theory Ansi_Log
  imports Js_Value
begin

text \<open>
  The formatter log of the SD card page (\<open>tool-sdcard.js\<close>): escaping of HTML, removal of terminal escape sequences,
  and the translation of a terminal text with colours into HTML (\<open>ansiToHtml\<close>), with a reference meaning of
  both sides: the characters a terminal text shows and the class each is shown in, and the same read from the HTML.
\<close>

section \<open>Escaping\<close>

definition escape_char :: "char \<Rightarrow> string" where
  "escape_char c =
     (if c = CHR ''&'' then ''&amp;'' else if c = CHR ''<'' then ''&lt;'' else if c = CHR ''>'' then ''&gt;''
      else if c = CHR 0x22 then ''&quot;'' else if c = CHR 0x27 then ''&#39;'' else [c])"

text \<open>
  The five replacements run one after the other; the ampersands come first, so that the entities of the later ones
  are left alone and each character is replaced once.
\<close>

definition replace_with :: "char \<Rightarrow> string \<Rightarrow> string \<Rightarrow> string" where
  "replace_with c r s = concat (map (\<lambda>d. if d = c then r else [d]) s)"

definition escapeHtml :: "string \<Rightarrow> string" where
  "escapeHtml s =
     replace_with (CHR 0x27) ''&#39;'' (replace_with (CHR 0x22) ''&quot;'' (replace_with (CHR ''>'') ''&gt;''
       (replace_with (CHR ''<'') ''&lt;'' (replace_with (CHR ''&'') ''&amp;'' s))))"

section \<open>Escape sequences\<close>

definition param_char :: "char \<Rightarrow> bool" where
  "param_char c \<longleftrightarrow> is_digit c \<or> c = CHR '';''"

text \<open>The pattern \<open>\u001b\[([0-9;]*)m\<close> at the start of a text: the parameters and what follows.\<close>

definition match_here :: "string \<Rightarrow> (string \<times> string) option" where
  "match_here s =
     (case s of
        a # b # r \<Rightarrow>
          if a = CHR 0x1B \<and> b = CHR ''[''
          then (case dropWhile param_char r of
                  m # rest \<Rightarrow> if m = CHR ''m'' then Some (takeWhile param_char r, rest) else None
                | [] \<Rightarrow> None)
          else None
      | _ \<Rightarrow> None)"

text \<open>\<open>exec\<close>: the text before the first match, and the match with the rest.\<close>

fun next_match :: "string \<Rightarrow> string \<times> (string \<times> string) option" where
  "next_match [] = ([], None)"
| "next_match (c # s) =
     (case match_here (c # s) of
        Some m \<Rightarrow> ([], Some m)
      | None \<Rightarrow> (let (pre, m) = next_match s in (c # pre, m)))"

lemma match_here_shorter: "match_here s = Some (ps, rest) \<Longrightarrow> length rest < length s"
proof -
  assume m: "match_here s = Some (ps, rest)"
  then obtain a b r where s: "s = a # b # r" by (auto simp: match_here_def split: list.splits)
  have "length (dropWhile param_char r) \<le> length r" by (rule length_dropWhile_le)
  with m s show ?thesis by (auto simp: match_here_def split: list.splits if_splits)
qed

lemma next_match_shorter: "next_match s = (pre, Some (ps, rest)) \<Longrightarrow> length rest < length s"
proof (induction s arbitrary: pre)
  case (Cons c s)
  show ?case
  proof (cases "match_here (c # s)")
    case None
    with Cons show ?thesis by (auto split: prod.splits)
  next
    case (Some m)
    with Cons.prems show ?thesis by (auto dest: match_here_shorter)
  qed
qed simp

function stripAnsi :: "string \<Rightarrow> string" where
  "stripAnsi s =
     (case next_match s of
        (pre, None) \<Rightarrow> pre
      | (pre, Some (_, rest)) \<Rightarrow> pre @ stripAnsi rest)"
  by pat_completeness auto
termination by (relation "measure length") (auto dest: next_match_shorter [OF sym])

declare stripAnsi.simps [simp del]

section \<open>Colours\<close>

record ansi_style =
  colorClass :: string
  bold :: bool

definition plain_style :: ansi_style where
  "plain_style = \<lparr>colorClass = [], bold = False\<rparr>"

definition buildClassName :: "ansi_style \<Rightarrow> string" where
  "buildClassName st =
     ''ansi-fragment'' @ (if bold st then '' ansi-bold'' else []) @ (if colorClass st \<noteq> [] then '' '' @ colorClass st else [])"

definition ANSI_CLASS_MAP :: "rat \<Rightarrow> string" where
  "ANSI_CLASS_MAP n =
     (if n = 66 then ''ansi-fg-66'' else if n = 70 then ''ansi-fg-70'' else if n = 142 then ''ansi-fg-142''
      else if n = 144 then ''ansi-fg-144'' else if n = 240 then ''ansi-fg-240'' else [])"

text \<open>The codes of a sequence: no parameters are one 0, an empty parameter is 0.\<close>

definition codes_of :: "string \<Rightarrow> jnum list" where
  "codes_of ps =
     (if ps = [] then [Fin 0]
      else map (\<lambda>w. if w = [] then Fin 0 else number_of_string w) (split_on (CHR '';'') ps))"

text \<open>What is written: the HTML so far, the class of the open span and whether one is open.\<close>

record ansi_out =
  html :: string
  activeClass :: string
  spanOpen :: bool

definition ensureSpan :: "ansi_style \<Rightarrow> ansi_out \<Rightarrow> ansi_out" where
  "ensureSpan st w =
     (let nextClass = buildClassName st
      in if spanOpen w \<and> nextClass = activeClass w then w
         else w\<lparr>html := html w @ (if spanOpen w then ''</span>'' else []) @ ''<span class='' @ [CHR 0x22] @ nextClass @ [CHR 0x22] @ ''>'',
                activeClass := nextClass, spanOpen := True\<rparr>)"

text \<open>The loop over the codes; \<open>38;5;n\<close> takes its two arguments along.\<close>

fun apply_codes :: "jnum list \<Rightarrow> ansi_style \<Rightarrow> ansi_out \<Rightarrow> ansi_style \<times> ansi_out" where
  "apply_codes [] st w = (st, w)"
| "apply_codes (c # cs) st w =
     (if c = NaN then apply_codes cs st w
      else if c = Fin 0 then (let st1 = \<lparr>colorClass = [], bold = False\<rparr> in apply_codes cs st1 (ensureSpan st1 w))
      else if c = Fin 1 then (let st1 = st\<lparr>bold := True\<rparr> in apply_codes cs st1 (ensureSpan st1 w))
      else if c = Fin 22 then (let st1 = st\<lparr>bold := False\<rparr> in apply_codes cs st1 (ensureSpan st1 w))
      else if c = Fin 39 then (let st1 = st\<lparr>colorClass := []\<rparr> in apply_codes cs st1 (ensureSpan st1 w))
      else (case cs of
              a # b # rest \<Rightarrow>
                if c = Fin 38 \<and> a = Fin 5
                then (let st1 = st\<lparr>colorClass := (case b of Fin q \<Rightarrow> ANSI_CLASS_MAP q | _ \<Rightarrow> [])\<rparr>
                      in apply_codes rest st1 (ensureSpan st1 w))
                else apply_codes cs st w
            | _ \<Rightarrow> apply_codes cs st w))"

definition put_chunk :: "ansi_style \<Rightarrow> string \<Rightarrow> ansi_out \<Rightarrow> ansi_out" where
  "put_chunk st chunk w =
     (if chunk = [] then w else (let w1 = ensureSpan st w in w1\<lparr>html := html w1 @ escapeHtml chunk\<rparr>))"

function ansi_loop :: "string \<Rightarrow> ansi_style \<Rightarrow> ansi_out \<Rightarrow> ansi_out" where
  "ansi_loop s st w =
     (case next_match s of
        (pre, None) \<Rightarrow> put_chunk st pre w
      | (pre, Some (ps, rest)) \<Rightarrow>
          let (st1, w1) = apply_codes (codes_of ps) st (put_chunk st pre w) in ansi_loop rest st1 w1)"
  by pat_completeness auto
termination by (relation "measure (\<lambda>(s, _, _). length s)") (auto dest: next_match_shorter [OF sym])

declare ansi_loop.simps [simp del]

definition ansiToHtml :: "string \<Rightarrow> string" where
  "ansiToHtml s =
     (if s = [] then []
      else let w = ansi_loop s plain_style \<lparr>html = [], activeClass = [], spanOpen = False\<rparr>
           in html w @ (if spanOpen w then ''</span>'' else []))"

section \<open>What is shown\<close>

text \<open>A select-graphic-rendition sequence as a function on styles.\<close>

fun sgr :: "jnum list \<Rightarrow> ansi_style \<Rightarrow> ansi_style" where
  "sgr [] st = st"
| "sgr (c # cs) st =
     (if c = Fin 0 then sgr cs plain_style
      else if c = Fin 1 then sgr cs (st\<lparr>bold := True\<rparr>)
      else if c = Fin 22 then sgr cs (st\<lparr>bold := False\<rparr>)
      else if c = Fin 39 then sgr cs (st\<lparr>colorClass := []\<rparr>)
      else (case cs of
              a # b # rest \<Rightarrow>
                if c = Fin 38 \<and> a = Fin 5 then sgr rest (st\<lparr>colorClass := (case b of Fin q \<Rightarrow> ANSI_CLASS_MAP q | _ \<Rightarrow> [])\<rparr>)
                else sgr cs st
            | _ \<Rightarrow> sgr cs st))"

text \<open>The characters a terminal text shows, each with the class of its style.\<close>

function shown :: "string \<Rightarrow> ansi_style \<Rightarrow> (char \<times> string) list" where
  "shown s st =
     (case next_match s of
        (pre, None) \<Rightarrow> map (\<lambda>c. (c, buildClassName st)) pre
      | (pre, Some (ps, rest)) \<Rightarrow> map (\<lambda>c. (c, buildClassName st)) pre @ shown rest (sgr (codes_of ps) st))"
  by pat_completeness auto
termination by (relation "measure (\<lambda>(s, _). length s)") (auto dest: next_match_shorter [OF sym])

declare shown.simps [simp del]

text \<open>The characters an HTML text of spans and entities shows, each with the class of the span it is in.\<close>

definition span_open :: string where "span_open = ''<span class='' @ [CHR 0x22]"

definition entities :: "(string \<times> char) list" where
  "entities = [(''&amp;'', CHR ''&''), (''&lt;'', CHR ''<''), (''&gt;'', CHR ''>''), (''&quot;'', CHR 0x22), (''&#39;'', CHR 0x27)]"

definition entity_at :: "string \<Rightarrow> (string \<times> char) option" where
  "entity_at s = find (\<lambda>e. starts_with s (fst e)) entities"

lemma entity_at_length: "entity_at s = Some e \<Longrightarrow> 0 < length (fst e)"
  unfolding entity_at_def entities_def by (auto simp: find_Some_iff split: if_splits)

lemma dropWhile_drop_shorter: "length (dropWhile P (drop n xs)) - k < Suc (length xs)"
proof -
  have "length (dropWhile P (drop n xs)) \<le> length (drop n xs)" by (rule length_dropWhile_le)
  then show ?thesis by simp
qed

function html_shown :: "string \<Rightarrow> string \<Rightarrow> (char \<times> string) list" where
  "html_shown cls s =
     (case s of
        [] \<Rightarrow> []
      | c # r \<Rightarrow>
          if starts_with s ''</span>'' then html_shown [] (drop 7 s)
          else if starts_with s span_open
          then (let t = drop (length span_open) s
                in html_shown (takeWhile (\<lambda>d. d \<noteq> CHR 0x22) t) (drop 2 (dropWhile (\<lambda>d. d \<noteq> CHR 0x22) t)))
          else (case entity_at s of
                  Some (e, d) \<Rightarrow> (d, cls) # html_shown cls (drop (length e) s)
                | None \<Rightarrow> (c, cls) # html_shown cls r))"
  by pat_completeness auto
termination
  by (relation "measure (\<lambda>(_, s). length s)")
    (auto simp: span_open_def dest: entity_at_length intro: dropWhile_drop_shorter)

declare html_shown.simps [simp del]

section \<open>Lemmas\<close>

lemma replace_with_append: "replace_with c r (s @ t) = replace_with c r s @ replace_with c r t"
  by (simp add: replace_with_def)

lemma escapeHtml_append: "escapeHtml (s @ t) = escapeHtml s @ escapeHtml t"
  by (simp add: escapeHtml_def replace_with_append)

lemma escapeHtml_char: "escapeHtml [c] = escape_char c"
  by (simp add: escapeHtml_def escape_char_def replace_with_def)

lemma escapeHtml_Cons: "escapeHtml (c # s) = escape_char c @ escapeHtml s"
  using escapeHtml_append [of "[c]" s] by (simp add: escapeHtml_char)

lemma html_shown_Nil [simp]: "html_shown cls [] = []"
  by (subst html_shown.simps) simp

lemma html_shown_close: "html_shown cls (''</span>'' @ s) = html_shown [] s"
  by (subst html_shown.simps) (simp add: starts_with_def)

lemma html_shown_open:
  assumes "CHR 0x22 \<notin> set k"
  shows "html_shown cls (span_open @ k @ [CHR 0x22] @ ''>'' @ s) = html_shown k s"
proof -
  have t: "takeWhile (\<lambda>d. d \<noteq> CHR 0x22) (k @ CHR 0x22 # CHR ''>'' # s) = k \<and>
    dropWhile (\<lambda>d. d \<noteq> CHR 0x22) (k @ CHR 0x22 # CHR ''>'' # s) = CHR 0x22 # CHR ''>'' # s"
    using assms by (induction k) auto
  let ?S = "span_open @ k @ [CHR 0x22] @ ''>'' @ s"
  have st: "\<not> starts_with ?S ''</span>''" "starts_with ?S span_open"
    by (simp_all add: span_open_def starts_with_def)
  obtain c r where cr: "?S = c # r" by (cases ?S) (simp_all add: span_open_def)
  have d: "drop (length span_open) ?S = k @ CHR 0x22 # CHR ''>'' # s" by simp
  have "html_shown cls ?S = (let t = drop (length span_open) ?S
      in html_shown (takeWhile (\<lambda>d. d \<noteq> CHR 0x22) t) (drop 2 (dropWhile (\<lambda>d. d \<noteq> CHR 0x22) t)))"
    using st by (subst html_shown.simps) (simp only: cr list.case if_True if_False)
  then show ?thesis unfolding d by (simp add: t)
qed

lemma entity_none: "c \<noteq> CHR ''&'' \<Longrightarrow> entity_at (c # s) = None"
  by (simp add: entity_at_def entities_def starts_with_def)

lemma html_shown_escape: "html_shown cls (escape_char c @ s) = (c, cls) # html_shown cls s"
proof -
  consider "c = CHR ''&''" | "c = CHR ''<''" | "c = CHR ''>''" | "c = CHR 0x22" | "c = CHR 0x27"
    | "c \<noteq> CHR ''&''" "c \<noteq> CHR ''<''" "c \<noteq> CHR ''>''" "c \<noteq> CHR 0x22" "c \<noteq> CHR 0x27" by blast
  then show ?thesis
  proof cases
    case 6
    then have "escape_char c @ s = c # s" by (simp add: escape_char_def)
    moreover have "\<not> starts_with (c # s) ''</span>''" "\<not> starts_with (c # s) span_open"
      using 6 by (simp_all add: starts_with_def span_open_def)
    ultimately show ?thesis using 6 by (subst html_shown.simps) (simp add: entity_none)
  qed (simp add: escape_char_def, subst html_shown.simps, simp add: starts_with_def span_open_def entity_at_def entities_def)+
qed

lemma html_shown_chunk: "html_shown cls (escapeHtml chunk @ s) = map (\<lambda>c. (c, cls)) chunk @ html_shown cls s"
proof (induction chunk)
  case Nil
  then show ?case by (simp add: escapeHtml_def replace_with_def)
next
  case (Cons c chunk)
  then show ?case by (simp add: escapeHtml_Cons html_shown_escape)
qed

text \<open>What an output adds to an earlier one, as it is shown.\<close>

definition out_class :: "ansi_out \<Rightarrow> string" where
  "out_class w = (if spanOpen w then activeClass w else [])"

definition extends :: "ansi_out \<Rightarrow> ansi_out \<Rightarrow> (char \<times> string) list \<Rightarrow> bool" where
  "extends w w' xs \<longleftrightarrow>
     (\<exists>d. html w' = html w @ d \<and> (\<forall>s. html_shown (out_class w) (d @ s) = xs @ html_shown (out_class w') s))"

lemma extends_refl: "extends w w []"
  by (simp add: extends_def)

lemma extends_trans: "extends w w1 xs \<Longrightarrow> extends w1 w2 ys \<Longrightarrow> extends w w2 (xs @ ys)"
  unfolding extends_def by (metis append.assoc)

definition style_ok :: "ansi_style \<Rightarrow> bool" where
  "style_ok st \<longleftrightarrow> CHR 0x22 \<notin> set (colorClass st)"

lemma class_no_quote: "style_ok st \<Longrightarrow> CHR 0x22 \<notin> set (buildClassName st)"
  by (simp add: style_ok_def buildClassName_def)

lemma ensureSpan_class: "out_class (ensureSpan st w) = buildClassName st" "spanOpen (ensureSpan st w)"
  by (simp_all add: out_class_def ensureSpan_def Let_def)

lemma extends_ensure:
  assumes "style_ok st" shows "extends w (ensureSpan st w) []"
proof (cases "spanOpen w \<and> buildClassName st = activeClass w")
  case True
  then show ?thesis by (simp add: ensureSpan_def extends_refl)
next
  case False
  let ?d = "(if spanOpen w then ''</span>'' else []) @ span_open @ buildClassName st @ [CHR 0x22] @ ''>''"
  have "html (ensureSpan st w) = html w @ ?d"
    using False by (auto simp: ensureSpan_def span_open_def Let_def)
  moreover have "html_shown (out_class w) (?d @ s) = html_shown (buildClassName st) s" for s
    using html_shown_open [OF class_no_quote [OF assms], of _ s] html_shown_close
    by (cases "spanOpen w") simp_all
  ultimately show ?thesis unfolding extends_def ensureSpan_class by auto
qed

lemma extends_put:
  assumes "style_ok st"
  shows "extends w (put_chunk st chunk w) (map (\<lambda>c. (c, buildClassName st)) chunk)"
proof (cases "chunk = []")
  case True
  then show ?thesis by (simp add: put_chunk_def extends_refl)
next
  case False
  let ?w = "ensureSpan st w"
  have "out_class (?w\<lparr>html := x\<rparr>) = buildClassName st" for x
    using ensureSpan_class [of st w] by (simp add: out_class_def)
  then have "extends ?w (put_chunk st chunk w) (map (\<lambda>c. (c, buildClassName st)) chunk)"
    using False by (simp add: put_chunk_def Let_def extends_def html_shown_chunk ensureSpan_class)
  from extends_trans [OF extends_ensure [OF assms] this] show ?thesis by simp
qed

lemma class_map_ok: "CHR 0x22 \<notin> set (ANSI_CLASS_MAP q)"
  by (simp add: ANSI_CLASS_MAP_def)

lemma style_ok_simps:
  "style_ok plain_style" "style_ok \<lparr>colorClass = [], bold = b\<rparr>" "style_ok (st\<lparr>bold := b\<rparr>) = style_ok st"
  "style_ok (st\<lparr>colorClass := []\<rparr>)" "style_ok (st\<lparr>colorClass := (case b' of Fin q \<Rightarrow> ANSI_CLASS_MAP q | _ \<Rightarrow> [])\<rparr>)"
  by (simp_all add: style_ok_def plain_style_def class_map_ok split: jnum.split)

lemma extends_after_ensure: "style_ok st \<Longrightarrow> extends (ensureSpan st w) w' xs \<Longrightarrow> extends w w' xs"
  using extends_trans [OF extends_ensure] by fastforce

lemma apply_codes_sgr:
  "style_ok st \<Longrightarrow> fst (apply_codes cs st w) = sgr cs st \<and> style_ok (sgr cs st) \<and> extends w (snd (apply_codes cs st w)) []"
proof (induction cs arbitrary: st w rule: length_induct)
  case (1 xs)
  show ?case
  proof (cases xs)
    case Nil
    with "1.prems" show ?thesis by (simp add: extends_refl)
  next
    case (Cons c cs)
    have IH: "fst (apply_codes ys st w) = sgr ys st \<and> style_ok (sgr ys st) \<and> extends w (snd (apply_codes ys st w)) []"
      if "length ys < length xs" "style_ok st" for ys st w
      using 1 that by blast
    have go: "fst (apply_codes ys st1 (ensureSpan st1 w)) = sgr ys st1 \<and> style_ok (sgr ys st1) \<and>
        extends w (snd (apply_codes ys st1 (ensureSpan st1 w))) []"
      if "length ys < length xs" "style_ok st1" for ys st1
      using IH [OF that] extends_after_ensure [OF that(2)] by blast
    have len: "length cs < length xs" using Cons by simp
    consider (zero) "c = Fin 0" | (one) "c = Fin 1" | (plain) "c = Fin 22" | (default) "c = Fin 39"
      | (colour) b rest where "c = Fin 38" "cs = Fin 5 # b # rest"
      | (other) "c \<noteq> Fin 0" "c \<noteq> Fin 1" "c \<noteq> Fin 22" "c \<noteq> Fin 39" "\<And>b rest. \<not> (c = Fin 38 \<and> cs = Fin 5 # b # rest)"
      by blast
    then show ?thesis
    proof cases
      case zero
      then show ?thesis using go [OF len style_ok_simps(1)] Cons by (simp add: plain_style_def Let_def)
    next
      case one
      then show ?thesis using go [OF len, of "st\<lparr>bold := True\<rparr>"] Cons "1.prems" by (simp add: style_ok_simps Let_def)
    next
      case plain
      then show ?thesis using go [OF len, of "st\<lparr>bold := False\<rparr>"] Cons "1.prems" by (simp add: style_ok_simps Let_def)
    next
      case default
      then show ?thesis using go [OF len style_ok_simps(4)] Cons by (simp add: Let_def)
    next
      case colour
      have "length rest < length xs" using Cons colour by simp
      from go [OF this style_ok_simps(5)] show ?thesis using colour Cons by (simp add: Let_def)
    next
      case other
      then have "apply_codes xs st w = apply_codes cs st w" "sgr xs st = sgr cs st"
        unfolding Cons by (auto split: list.split)
      then show ?thesis using IH [OF len "1.prems"] by simp
    qed
  qed
qed

lemma extends_loop: "style_ok st \<Longrightarrow> extends w (ansi_loop s st w) (shown s st)"
proof (induction s st w rule: ansi_loop.induct)
  case (1 s st w)
  obtain pre m where nm: "next_match s = (pre, m)" by fastforce
  show ?case
  proof (cases m)
    case None
    then show ?thesis
      using extends_put [OF "1.prems"] nm by (simp add: ansi_loop.simps [of s] shown.simps [of s])
  next
    case (Some mm)
    obtain ps rest where mm: "mm = (ps, rest)" by fastforce
    obtain st1 w1 where sw: "apply_codes (codes_of ps) st (put_chunk st pre w) = (st1, w1)" by fastforce
    have c: "st1 = sgr (codes_of ps) st" "style_ok st1" "extends (put_chunk st pre w) w1 []"
      using apply_codes_sgr [OF "1.prems", of "codes_of ps" "put_chunk st pre w"] sw by simp_all
    have "extends w1 (ansi_loop rest st1 w1) (shown rest st1)"
      by (rule "1.IH" [OF nm [symmetric] Some mm [symmetric] refl sw [symmetric] c(2)])
    from extends_trans [OF extends_put [OF "1.prems"] extends_trans [OF c(3) this]]
    have "extends w (ansi_loop rest st1 w1) (map (\<lambda>c. (c, buildClassName st)) pre @ shown rest st1)" by simp
    then show ?thesis
      using nm Some mm sw c(1) by (simp add: ansi_loop.simps [of s] shown.simps [of s])
  qed
qed

lemma stripAnsi_shown: "map fst (shown s st) = stripAnsi s"
proof (induction s st rule: shown.induct)
  case (1 s st)
  then show ?case
    by (simp add: shown.simps [of s] stripAnsi.simps [of s] comp_def split: prod.splits option.splits)
qed

section \<open>Properties\<close>

text \<open>
  C14. The coloured log refines the terminal text: for every text, reading the produced HTML shows exactly the
  characters the terminal would show, in order and each in the class of its style, whatever markup characters
  the text contains, and these are the text with the escape sequences removed.\<close>

theorem ansi_html_refines:
  "html_shown [] (ansiToHtml s) = shown s plain_style \<and> map fst (html_shown [] (ansiToHtml s)) = stripAnsi s"
proof (cases "s = []")
  case True
  then show ?thesis by (simp add: ansiToHtml_def shown.simps [of "[]"] stripAnsi.simps [of "[]"])
next
  case False
  let ?w = "ansi_loop s plain_style \<lparr>html = [], activeClass = [], spanOpen = False\<rparr>"
  have "html_shown [] (html ?w @ t) = shown s plain_style @ html_shown (out_class ?w) t" for t
    using extends_loop [OF style_ok_simps(1), of "\<lparr>html = [], activeClass = [], spanOpen = False\<rparr>" s]
    by (auto simp: extends_def out_class_def)
  moreover have "html_shown k ''</span>'' = []" for k using html_shown_close [of k "[]"] by simp
  ultimately have "html_shown [] (ansiToHtml s) = shown s plain_style"
    using False by (simp add: ansiToHtml_def Let_def)
  then show ?thesis by (simp add: stripAnsi_shown)
qed

end
