(* ===== verification/Sdcard.thy ===== *)
theory Sdcard
  imports Ansi_Log Base64 Page_State Url
begin

text \<open>
  The SD card page (\<open>tool-sdcard.js\<close>): showing the state of the card, the choice of a file system, and formatting with a
  confirmation dialog. Base64 payloads are decoded by \<open>decodeBase64String\<close> of \<open>main.js\<close>; the decoded texts are those with code points
  below 256. The dash shown for a missing value is its UTF-8 bytes.
\<close>

section \<open>Sizes\<close>

definition no_value :: string where "no_value = map char_of [226, 128, 148 :: nat]"

definition units :: "string list" where "units = [''B'', ''KB'', ''MB'', ''GB'', ''TB'', ''PB'']"

function scale_bytes :: "rat \<Rightarrow> nat \<Rightarrow> rat \<times> nat" where
  "scale_bytes sz unitIndex =
     (if 1024 \<le> sz \<and> unitIndex < length units - 1 then scale_bytes (sz / 1024) (Suc unitIndex) else (sz, unitIndex))"
  by pat_completeness auto
termination by (relation "measure (\<lambda>(_, i). length units - i)") (auto simp: units_def)

declare scale_bytes.simps [simp del]

definition formatBytes :: "js \<Rightarrow> string" where
  "formatBytes v =
     (case to_number v of
        Fin bytes \<Rightarrow>
          if bytes \<le> 0 then no_value
          else (let (sz, unitIndex) = scale_bytes bytes 0;
                    precision = (if 10 \<le> sz \<or> unitIndex = 0 then 0 else 1)
                in to_fixed precision sz @ '' '' @ units ! unitIndex)
      | _ \<Rightarrow> no_value)"

section \<open>Texts of an answer\<close>

definition decoded :: "js \<Rightarrow> string" where
  "decoded v = map char_of (decodeBase64String True (js_text v))"

definition readTextField :: "js \<Rightarrow> string \<Rightarrow> string" where
  "readTextField source key =
     (if \<not> truthy source \<or> key = [] then []
      else let b = getp source (key @ ''_b64''); plain = getp source key
           in if truthy b \<and> decoded b \<noteq> [] then decoded b
              else if truthy plain then js_text plain else [])"

section \<open>The page\<close>

record fs_option =
  o_value :: string
  o_id :: string
  o_recommended :: bool
  o_checked :: bool
  o_disabled :: bool

record sd_page =
  sd_status :: "string \<times> js list" \<comment> \<open>tone and text of the status line\<close>
  sd_status_hidden :: bool
  no_card_hidden :: bool
  content_hidden :: bool
  summary :: "(string \<times> string) list"
  summary_link :: "string option" \<comment> \<open>the address the mount point links to\<close>
  partition_text :: string
  mount_text :: string
  fs_options :: "fs_option list"
  submit_disabled :: bool
  submit_spins :: bool
  note_hidden :: bool
  log_hidden :: bool
  log_html :: string
  raw_log :: string
  copy_disabled :: bool
  lastState :: js
  pendingFilesystem :: string
  confirm_open :: bool
  confirm_fs :: string
  confirm_disabled :: bool
  refresh_disabled :: bool
  sd_busy :: busy_bar

definition setStatus :: "js list \<Rightarrow> string \<Rightarrow> sd_page \<Rightarrow> sd_page" where
  "setStatus txt tone p = p\<lparr>sd_status := (tone, txt), sd_status_hidden := False\<rparr>"

definition has_card :: "sd_page \<Rightarrow> bool" where
  "has_card p \<longleftrightarrow> truthy (lastState p) \<and> truthy (getp (lastState p) ''has_sdcard'')"

definition setFormBusy :: "bool \<Rightarrow> sd_page \<Rightarrow> sd_page" where
  "setFormBusy busy p =
     p\<lparr>fs_options := map (\<lambda>e. e\<lparr>o_disabled := busy \<or> \<not> has_card p\<rparr>) (fs_options p),
       submit_disabled := (busy \<or> \<not> has_card p), submit_spins := busy\<rparr>"

definition setCardEnabled :: "bool \<Rightarrow> sd_page \<Rightarrow> sd_page" where
  "setCardEnabled enabled p =
     setFormBusy False (p\<lparr>note_hidden := enabled,
       fs_options := map (\<lambda>e. e\<lparr>o_disabled := \<not> enabled\<rparr>) (fs_options p), submit_disabled := \<not> enabled\<rparr>)"

definition getSelectedFs :: "sd_page \<Rightarrow> string" where
  "getSelectedFs p = (case find o_checked (fs_options p) of None \<Rightarrow> [] | Some e \<Rightarrow> o_value e)"

text \<open>
  The options, one per file system; the first one that is the previous choice, recommended or at position 0 is
  checked. An entry that is \<open>null\<close> throws; the options before it are there.
\<close>

fun fs_loop :: "string \<Rightarrow> nat \<Rightarrow> bool \<Rightarrow> js list \<Rightarrow> fs_option list \<times> bool" where
  "fs_loop previous index applied [] = ([], False)"
| "fs_loop previous index applied (fs # rest) =
     (if nullish fs then ([], True)
      else let fid = getp fs ''id'';
               v = (if truthy fid then js_text fid else []);
               rec = truthy (getp fs ''recommended'');
               chosen = (\<not> applied \<and> ((previous \<noteq> [] \<and> previous = v) \<or> rec \<or> index = 0));
               (opts, threw) = fs_loop previous (Suc index) (applied \<or> chosen) rest
           in (\<lparr>o_value = v, o_id = ''fstype-'' @ (if truthy fid then js_text fid else show_nat index),
                o_recommended = rec, o_checked = chosen, o_disabled = False\<rparr> # opts, threw))"

fun check_first :: "fs_option list \<Rightarrow> fs_option list" where
  "check_first [] = []"
| "check_first (e # es) = (if list_all (\<lambda>x. \<not> o_checked x) (e # es) then e\<lparr>o_checked := True\<rparr> # es else e # es)"

definition populateFilesystems :: "js \<Rightarrow> sd_page \<Rightarrow> sd_page \<times> bool" where
  "populateFilesystems filesystems p =
     (case filesystems of
        JArr fss \<Rightarrow>
          (let (opts, threw) = fs_loop (getSelectedFs p) 0 False fss
           in (p\<lparr>fs_options := (if threw then opts else check_first opts)\<rparr>, threw))
      | _ \<Rightarrow> (p\<lparr>fs_options := []\<rparr>, True))"

text \<open>The mount point: the second word of the first line of the mounts that names the card.\<close>

definition split_words :: "string \<Rightarrow> string list" where
  "split_words s = filter (\<lambda>w. w \<noteq> []) (split_on (CHR '' '') (map (\<lambda>c. if is_space c then CHR '' '' else c) s))"

definition mountpoint_of :: "string \<Rightarrow> string" where
  "mountpoint_of mounts =
     (case find (\<lambda>line. trim line \<noteq> [] \<and> includes_str line ''/dev/mmc'') (split_on (CHR 0x0A) mounts) of
        None \<Rightarrow> no_value
      | Some line \<Rightarrow> (case split_words (trim line) of _ # m # _ \<Rightarrow> m | _ \<Rightarrow> no_value))"

definition text_or_dash :: "js \<Rightarrow> string" where
  "text_or_dash v = (if truthy v then js_text v else no_value)"

definition renderDeviceSummary :: "js \<Rightarrow> sd_page \<Rightarrow> sd_page" where
  "renderDeviceSummary device p =
     (let mp = mountpoint_of (readTextField (getp (lastState p) ''reports'') ''mounts'')
      in p\<lparr>summary :=
            [(''Device node'', text_or_dash (getp device ''node'')), (''Capacity'', formatBytes (getp device ''size_bytes'')),
             (''Mountpoint'', mp), (''Vendor'', text_or_dash (getp device ''vendor'')),
             (''Model'', text_or_dash (getp device ''model'')), (''Serial'', text_or_dash (getp device ''serial''))],
          summary_link := (if mp = no_value then None else Some (''/tool-file-manager.html?cd='' @ encodeURIComponent mp))\<rparr>)"

definition or_obj :: "js \<Rightarrow> js" where "or_obj v = js_or v (JObj [])"
definition or_arr :: "js \<Rightarrow> js" where "or_arr v = js_or v (JArr [])"

definition show_reports :: "js \<Rightarrow> sd_page \<Rightarrow> sd_page" where
  "show_reports data p =
     (let parts = readTextField (getp data ''reports'') ''partitions''; mounts = readTextField (getp data ''reports'') ''mounts'';
          out = readTextField (getp data ''format'') ''last_output''; html = ansiToHtml out; plain = stripAnsi out
      in p\<lparr>partition_text := (if parts = [] then ''No df entries found for /dev/mmc.'' else parts),
           mount_text := (if mounts = [] then ''No active mounts for /dev/mmc.'' else mounts),
           log_hidden := (out = []), log_html := (if html = [] then ''Formatter output will appear here.'' else html),
           raw_log := (if plain = [] then out else plain), copy_disabled := (out = [])\<rparr>)"

definition applyState :: "js \<Rightarrow> sd_page \<Rightarrow> (sd_page \<times> bool) \<times> effect list" where
  "applyState data p =
     (let present = truthy (getp data ''has_sdcard'');
          p1 = p\<lparr>lastState := data, sd_status_hidden := True, no_card_hidden := present, content_hidden := \<not> present\<rparr>;
          (p2, threw) = populateFilesystems (or_arr (getp data ''filesystems'')) p1
      in if threw then ((p2, True), [])
         else if \<not> present
         then ((setCardEnabled False (p2\<lparr>partition_text := ''Insert an SD card to inspect df output.'',
                  mount_text := ''Insert an SD card to inspect mounts.'', log_hidden := True, copy_disabled := True\<rparr>), False), [])
         else ((show_reports data (renderDeviceSummary (or_obj (getp data ''device'')) (setCardEnabled True p2)), False),
               [Notice ''success'' [JStr ''SD card detected and ready.''] 6000]))"

section \<open>Loading\<close>

definition loadState :: "sd_page \<Rightarrow> sd_page \<times> effect list" where
  "loadState p =
     (p\<lparr>sd_status := (''info'', [JStr ''Waiting for SD card status...'']), sd_status_hidden := False, content_hidden := True,
        no_card_hidden := True, sd_busy := showBusy (sd_busy p), refresh_disabled := True\<rparr>, [Send (Get ''/x/tool-sdcard.cgi'')])"

text \<open>An answer is its message, or the payload's \<open>data\<close>; \<open>null\<close> where the payload is, which throws later.\<close>

definition sd_answer :: "string \<Rightarrow> (js \<Rightarrow> js) \<Rightarrow> outcome \<Rightarrow> js + js" where
  "sd_answer fallback message out =
     (case out of
        Rejected m \<Rightarrow> Inl (JStr m)
      | Answer r \<Rightarrow>
          (case parsed r of
             None \<Rightarrow> Inl (JStr ''SyntaxError'')
           | Some payload \<Rightarrow>
               if \<not> resp_ok r \<or> truthy (getp payload ''error'')
               then Inl (js_or (message (getp payload ''error'')) (JStr fallback))
               else if nullish payload then Inl (JStr ''TypeError'') else Inr payload))"

definition finish_busy :: "sd_page \<Rightarrow> sd_page" where
  "finish_busy p = setFormBusy False (p\<lparr>sd_busy := hideBusy (sd_busy p)\<rparr>)"

definition load_failed :: "js \<Rightarrow> sd_page \<Rightarrow> sd_page \<times> effect list" where
  "load_failed m p =
     (setStatus (if truthy m then [JStr ''Unable to load SD card information: '', m] else [JStr ''Unable to load SD card information.'']) ''danger'' p,
      [Notice ''danger'' [js_or m (JStr ''Failed to query SD card state.'')] 6000])"

definition loadState_settle :: "outcome \<Rightarrow> sd_page \<Rightarrow> sd_page \<times> effect list" where
  "loadState_settle out p =
     (let (q, fx) = (case sd_answer ''Unable to load SD card state.'' (\<lambda>e. getp e ''message'') out of
            Inl m \<Rightarrow> load_failed m p
          | Inr payload \<Rightarrow>
              let ((q, threw), fx) = applyState (or_obj (getp payload ''data'')) p
              in if threw then load_failed (JStr ''TypeError'') q else (q, fx))
      in (finish_busy (q\<lparr>refresh_disabled := False\<rparr>), fx))"

section \<open>Formatting\<close>

definition executeFormat :: "string \<Rightarrow> sd_page \<Rightarrow> sd_page \<times> effect list" where
  "executeFormat filesystem p =
     (let fs = to_lower (if filesystem = [] then ''exfat'' else filesystem); p1 = setFormBusy True p
      in (p1\<lparr>sd_busy := showBusy (sd_busy p1)\<rparr>,
          [Send (PostForm ''/x/tool-sdcard.cgi'' [(''action'', ''format''), (''fstype'', fs)])]))"

definition format_message :: "js \<Rightarrow> js" where
  "format_message e =
     (if truthy (getp e ''message_b64'') then JStr (stripAnsi (decoded (getp e ''message_b64''))) else getp e ''message'')"

definition format_failed :: "js \<Rightarrow> sd_page \<Rightarrow> sd_page \<times> effect list" where
  "format_failed m p =
     (setStatus [JStr ''Formatting failed.''] ''danger'' p, [Notice ''danger'' [js_or m (JStr ''Formatting failed.'')] 6000])"

definition executeFormat_settle :: "outcome \<Rightarrow> sd_page \<Rightarrow> sd_page \<times> effect list" where
  "executeFormat_settle out p =
     (let (q, fx) = (case sd_answer ''Unable to format the SD card.'' format_message out of
            Inl m \<Rightarrow> format_failed m p
          | Inr payload \<Rightarrow>
              let msg = js_or (getp payload ''message'') (JStr ''SD card formatted successfully.'');
                  ((q, threw), fx) = applyState (or_obj (getp payload ''data'')) (setStatus [msg] ''success'' p)
              in if threw then (let (q1, gx) = format_failed (JStr ''TypeError'') q in (q1, Notice ''success'' [msg] 6000 # gx))
                 else (q, Notice ''success'' [msg] 6000 # fx))
      in (finish_busy q, fx))"

text \<open>\<open>has_modal\<close>: the page has the confirmation dialog; without it the format starts at once.\<close>

definition showFormatConfirmModal :: "bool \<Rightarrow> string \<Rightarrow> sd_page \<Rightarrow> sd_page \<times> effect list" where
  "showFormatConfirmModal has_modal fs p =
     (let targetFs = to_lower (if fs = [] then ''exfat'' else fs);
          p1 = p\<lparr>pendingFilesystem := targetFs, confirm_fs := to_upper targetFs\<rparr>
      in if \<not> has_modal then executeFormat targetFs p1 else (p1\<lparr>confirm_disabled := False, confirm_open := True\<rparr>, []))"

definition hideFormatConfirmModal :: "sd_page \<Rightarrow> sd_page" where
  "hideFormatConfirmModal p = p\<lparr>confirm_open := False\<rparr>"

definition format_submit :: "bool \<Rightarrow> sd_page \<Rightarrow> sd_page \<times> effect list" where
  "format_submit has_modal p =
     (if \<not> has_card p then (p, [Notice ''warning'' [JStr ''Insert an SD card before attempting to format.''] 6000])
      else showFormatConfirmModal has_modal (if getSelectedFs p = [] then ''exfat'' else getSelectedFs p) p)"

definition confirm_click :: "sd_page \<Rightarrow> sd_page \<times> effect list" where
  "confirm_click p = executeFormat (pendingFilesystem p) (hideFormatConfirmModal (p\<lparr>confirm_disabled := True\<rparr>))"

definition confirm_settle :: "outcome \<Rightarrow> sd_page \<Rightarrow> sd_page \<times> effect list" where
  "confirm_settle out p = (let (q, fx) = executeFormat_settle out p in (q\<lparr>confirm_disabled := False\<rparr>, fx))"

text \<open>Copying the log: the raw text, or what the log shows where there is none.\<close>

definition copy_log :: "bool \<Rightarrow> clipboard_env \<Rightarrow> sd_page \<Rightarrow> effect list \<times> string option" where
  "copy_log has_clipboard env p =
     (let rawLog = (if raw_log p \<noteq> [] then raw_log p else map fst (html_shown [] (log_html p)))
      in if copy_disabled p \<or> rawLog = [] then ([], None)
         else if \<not> has_clipboard then ([Notice ''warning'' [JStr ''Clipboard support is not available in this browser.''] 6000], None)
         else (case fst (copyTextToClipboard js_text env (JStr rawLog) 0) of
                 Inr t \<Rightarrow> ([], Some t)
               | Inl _ \<Rightarrow> ([Notice ''warning'' [JStr ''Unable to copy log output.''] 6000], None)))"

section \<open>Lemmas\<close>

lemma fs_loop_applied: "list_all (\<lambda>x. \<not> o_checked x) (fst (fs_loop previous i True fss))"
proof (induction fss arbitrary: i)
  case (Cons f fss)
  show ?case using Cons [of "Suc i"] by (auto simp: Let_def split: prod.splits)
qed simp

lemma fs_loop_length: "list_all (\<lambda>f. \<not> nullish f) fss \<Longrightarrow> length (fst (fs_loop previous i b fss)) = length fss \<and> \<not> snd (fs_loop previous i b fss)"
proof (induction fss arbitrary: i b)
  case (Cons f fss)
  then show ?case by (simp add: Let_def split: prod.split) (metis fst_conv snd_conv)
qed simp

lemma unchecked_replicate: "list_all (\<lambda>x. \<not> o_checked x) xs \<Longrightarrow> map o_checked xs = replicate (length xs) False"
  by (induction xs) simp_all

lemma scale_bytes_spec:
  "0 < sz \<Longrightarrow> i \<le> 5 \<Longrightarrow> i = 0 \<or> 1 \<le> sz \<Longrightarrow>
   (case scale_bytes sz i of (s, k) \<Rightarrow> s * 1024 ^ k = sz * 1024 ^ i \<and> i \<le> k \<and> k \<le> 5 \<and> (s < 1024 \<or> k = 5) \<and> (k = 0 \<or> 1 \<le> s) \<and> 0 < s)"
proof (induction sz i rule: scale_bytes.induct)
  case (1 sz i)
  show ?case
  proof (cases "1024 \<le> sz \<and> i < length units - 1")
    case True
    then have "i < 5" by (simp add: units_def)
    have r: "scale_bytes sz i = scale_bytes (sz / 1024) (Suc i)" using True by (simp add: scale_bytes.simps [of sz])
    have "case scale_bytes (sz / 1024) (Suc i) of (s, k) \<Rightarrow> s * 1024 ^ k = sz / 1024 * 1024 ^ Suc i \<and> Suc i \<le> k \<and> k \<le> 5 \<and> (s < 1024 \<or> k = 5) \<and> (k = 0 \<or> 1 \<le> s) \<and> 0 < s"
      using True \<open>i < 5\<close> "1.prems" by (intro "1.IH") auto
    then show ?thesis unfolding r by (auto split: prod.splits)
  next
    case False
    then have "scale_bytes sz i = (sz, i)" by (simp only: scale_bytes.simps [of sz i] if_False)
    then show ?thesis using 1 False by (auto simp: units_def)
  qed
qed

lemma settled_form:
  "submit_spins (fst (confirm_settle out p)) = False \<and> \<not> confirm_disabled (fst (confirm_settle out p)) \<and>
   submit_disabled (fst (confirm_settle out p)) = (\<not> has_card (fst (confirm_settle out p)))"
  by (simp add: confirm_settle_def executeFormat_settle_def finish_busy_def setFormBusy_def has_card_def Let_def split: prod.splits)

definition sample_sd :: sd_page where
  "sample_sd = \<lparr>sd_status = ([], []), sd_status_hidden = True, no_card_hidden = True, content_hidden = False, summary = [],
     summary_link = None, partition_text = [], mount_text = [],
     fs_options = [\<lparr>o_value = ''vfat'', o_id = ''fstype-vfat'', o_recommended = False, o_checked = True, o_disabled = False\<rparr>],
     submit_disabled = False, submit_spins = False, note_hidden = True, log_hidden = True, log_html = [], raw_log = [], copy_disabled = True,
     lastState = JObj [(''has_sdcard'', JBool True)], pendingFilesystem = ''exfat'', confirm_open = False, confirm_fs = [],
     confirm_disabled = False, refresh_disabled = False, sd_busy = idle_bar\<rparr>"

section \<open>Properties\<close>

text \<open>
  C28. A card is formatted only after a confirmation: on a page with the dialog, submitting the form sends no request;
  with a card it opens the dialog on the selected file system (exFAT if none is), and accepting sends
  exactly one format request, for the file system the dialog names; without a card nothing happens.\<close>

theorem format_needs_confirmation:
  "let (p1, sent) = format_submit True p; (p2, posted) = confirm_click p1
   in (\<forall>r. Send r \<notin> set sent) \<and>
      (has_card p \<longrightarrow> confirm_open p1 \<and> confirm_fs p1 = to_upper (pendingFilesystem p1) \<and>
         pendingFilesystem p1 = to_lower (if getSelectedFs p = [] then ''exfat'' else getSelectedFs p) \<and>
         posted = [Send (PostForm ''/x/tool-sdcard.cgi'' [(''action'', ''format''), (''fstype'', to_lower (pendingFilesystem p1))])] \<and>
         \<not> confirm_open p2 \<and> submit_disabled p2) \<and>
      (\<not> has_card p \<longrightarrow> p1 = p)"
  by (auto simp: format_submit_def showFormatConfirmModal_def confirm_click_def executeFormat_def hideFormatConfirmModal_def setFormBusy_def Let_def
      to_lower_def split: prod.splits if_splits)

theorem format_needs_confirmation_witness:
  "has_card sample_sd \<and>
   snd (confirm_click (fst (format_submit True sample_sd))) =
     [Send (PostForm ''/x/tool-sdcard.cgi'' [(''action'', ''format''), (''fstype'', to_lower (pendingFilesystem (fst (format_submit True sample_sd))))])]"
  using format_needs_confirmation [of sample_sd]
  by (simp add: has_card_def sample_sd_def Let_def split: prod.splits)

text \<open>
  The chosen file system is forgotten: whatever was selected before and whatever the camera recommends, filling in the
  options checks the first one and no other, so that every refresh of the page resets the choice.\<close>

theorem filesystem_choice_lost:
  assumes "list_all (\<lambda>f. \<not> nullish f) (fs # rest)"
  shows "map o_checked (fs_options (fst (populateFilesystems (JArr (fs # rest)) p))) = True # replicate (length rest) False"
proof -
  obtain opts threw where t: "fs_loop (getSelectedFs p) (Suc 0) True rest = (opts, threw)" by fastforce
  have "\<not> threw" "length opts = length rest" "map o_checked opts = replicate (length opts) False"
    using fs_loop_length [of rest "getSelectedFs p" "Suc 0" True] fs_loop_applied [of "getSelectedFs p" "Suc 0" rest] assms t
    by (simp_all add: unchecked_replicate)
  then show ?thesis
    using assms t by (simp add: populateFilesystems_def Let_def)
qed

theorem filesystem_choice_lost_witness:
  "getSelectedFs sample_sd = ''vfat'' \<and>
   map o_checked (fs_options (fst (populateFilesystems
     (JArr [JObj [(''id'', JStr ''exfat'')], JObj [(''id'', JStr ''vfat''), (''recommended'', JBool True)]]) sample_sd))) = [True, False]"
  using filesystem_choice_lost [of "JObj [(''id'', JStr ''exfat'')]" "[JObj [(''id'', JStr ''vfat''), (''recommended'', JBool True)]]" sample_sd]
  by (simp add: nullish_def getSelectedFs_def sample_sd_def)

text \<open>
  A size is shown in the largest fitting unit: the shown number times the power of 1024 of its unit is the size, the
  unit exists, the number is below 1024 except for petabytes and at least 1 except for bytes.\<close>

theorem formatBytes_scaled:
  assumes "to_number v = Fin b" "0 < b"
  shows "\<exists>sz k. b = sz * 1024 ^ k \<and> k < length units \<and> (1024 \<le> sz \<longrightarrow> k = 5) \<and> (sz < 1 \<longrightarrow> k = 0) \<and>
     formatBytes v = to_fixed (if 10 \<le> sz \<or> k = 0 then 0 else 1) sz @ '' '' @ units ! k"
proof -
  obtain sz k where s: "scale_bytes b 0 = (sz, k)" by fastforce
  have "sz * 1024 ^ k = b \<and> k \<le> 5 \<and> (sz < 1024 \<or> k = 5) \<and> (k = 0 \<or> 1 \<le> sz)"
    using scale_bytes_spec [of b 0] assms(2) s by simp
  moreover have "formatBytes v = to_fixed (if 10 \<le> sz \<or> k = 0 then 0 else 1) sz @ '' '' @ units ! k"
    using assms s by (simp add: formatBytes_def)
  ultimately show ?thesis by (intro exI [of _ sz] exI [of _ k]) (auto simp: units_def)
qed

theorem formatBytes_scaled_witness:
  "\<exists>sz k. (1536 :: rat) = sz * 1024 ^ k \<and> k < length units \<and> (1024 \<le> sz \<longrightarrow> k = 5) \<and> (sz < 1 \<longrightarrow> k = 0) \<and>
     formatBytes (JNum (Fin 1536)) = to_fixed (if 10 \<le> sz \<or> k = 0 then 0 else 1) sz @ '' '' @ units ! k"
  by (rule formatBytes_scaled) simp_all

end
