(* ===== verification/Settings_Pages.thy ===== *)
theory Settings_Pages
  imports Page_State Base64
begin

text \<open>
  The settings pages that share one protocol: \<open>config-admin.js\<close>, \<open>config-syslog.js\<close> and \<open>config-time.js\<close>; other theories use it for theirs.
  A page loads its settings into a form, sends the form on submit and loads again after an accepted
  save; controls are disabled and the busy bar is shown meanwhile. The protocol is defined once for any form; each
  page gives how an answer fills its form and what its form sends. The \<open>showAlert("", "")\<close> before the notice of an accepted save
  does nothing, since \<open>showAlert\<close> returns on an empty message (\<open>Page_State\<close>).
\<close>

section \<open>The protocol\<close>

record 'f settings_page =
  form :: 'f
  controls_disabled :: bool
  page_busy :: busy_bar
  reload_disabled :: bool

definition toggleBusy :: "bool \<Rightarrow> 'f settings_page \<Rightarrow> 'f settings_page" where
  "toggleBusy state p =
     p\<lparr>controls_disabled := state, page_busy := (if state then showBusy (page_busy p) else hideBusy (page_busy p))\<rparr>"

text \<open>\<open>data.key || ""\<close> assigned to a text field.\<close>

definition field_of :: "js \<Rightarrow> string \<Rightarrow> string" where
  "field_of data key = (if truthy (getp data key) then js_text (getp data key) else [])"

text \<open>The answer of a load: the error message (empty where it has none) or the settings.\<close>

definition read_settings :: "string \<Rightarrow> outcome \<Rightarrow> js + js" where
  "read_settings refused out =
     (case out of
        Rejected m \<Rightarrow> Inl (JStr m)
      | Answer r \<Rightarrow>
          if \<not> resp_ok r then Inl (JStr refused)
          else (case parsed r of
                  None \<Rightarrow> Inl (JStr ''SyntaxError'')
                | Some d \<Rightarrow> if nullish d then Inl (JStr ''TypeError'') else Inr d))"

definition load_start :: "string \<Rightarrow> bool \<Rightarrow> 'f settings_page \<Rightarrow> 'f settings_page \<times> effect list" where
  "load_start url preserveBusy p = (if preserveBusy then p else toggleBusy True p, [Send (Get url)])"

definition load_settle ::
  "(js \<Rightarrow> 'f \<Rightarrow> 'f) \<Rightarrow> string \<Rightarrow> string \<Rightarrow> bool \<Rightarrow> outcome \<Rightarrow> 'f settings_page \<Rightarrow> 'f settings_page \<times> effect list" where
  "load_settle fill refused unable preserveBusy out p =
     (let (q, fx) = (case read_settings refused out of
            Inr d \<Rightarrow> (p\<lparr>form := fill d (form p)\<rparr>, [])
          | Inl m \<Rightarrow> (p, [Notice ''danger'' [js_or m (JStr unable)] 6000]))
      in (if preserveBusy then q else toggleBusy False q, fx))"

text \<open>The answer of a save: \<open>!response.ok || (result && result.error)\<close> and the message of the error.\<close>

definition read_saved :: "string \<Rightarrow> outcome \<Rightarrow> js + js" where
  "read_saved failed out =
     (case out of
        Rejected m \<Rightarrow> Inl (JStr m)
      | Answer r \<Rightarrow>
          (case parsed r of
             None \<Rightarrow> Inl (JStr ''SyntaxError'')
           | Some result \<Rightarrow>
               let err = and_prop result ''error''
               in if \<not> resp_ok r \<or> truthy err
                  then Inl (if truthy err \<and> truthy (getp err ''message'') then getp err ''message'' else JStr failed)
                  else Inr result))"

definition save_start :: "string \<Rightarrow> js \<Rightarrow> 'f settings_page \<Rightarrow> 'f settings_page \<times> effect list" where
  "save_start url payload p = (toggleBusy True p, [Send (PostJson url (jsonify payload))])"

text \<open>
  The save settles: on success the page says so and loads again with the busy state kept; the busy state ends with
  that load. The second result is whether a load was started; \<open>success\<close> gives the message (\<open>None\<close> where computing it throws).
\<close>

definition save_settle ::
  "string \<Rightarrow> (js \<Rightarrow> js option) \<Rightarrow> string \<Rightarrow> string \<Rightarrow> outcome \<Rightarrow> 'f settings_page \<Rightarrow> 'f settings_page \<times> bool \<times> effect list" where
  "save_settle url success failed unable out p =
     (case read_saved failed out of
        Inl m \<Rightarrow> (toggleBusy False p, False, [Notice ''danger'' [js_or m (JStr unable)] 6000])
      | Inr result \<Rightarrow>
          (case success result of
             None \<Rightarrow> (toggleBusy False p, False, [Notice ''danger'' [JStr ''TypeError''] 6000])
           | Some msg \<Rightarrow> (p, True, [Overlay ''success'' [msg], Send (Get url)])))"

text \<open>\<open>result.message || fallback\<close> throws on \<open>null\<close>.\<close>

definition message_or :: "string \<Rightarrow> js \<Rightarrow> js option" where
  "message_or fallback result = (if nullish result then None else Some (js_or (getp result ''message'') (JStr fallback)))"

definition save_reload_settle ::
  "(js \<Rightarrow> 'f \<Rightarrow> 'f) \<Rightarrow> string \<Rightarrow> string \<Rightarrow> outcome \<Rightarrow> 'f settings_page \<Rightarrow> 'f settings_page \<times> effect list" where
  "save_reload_settle fill refused unable out p =
     (let (q, fx) = load_settle fill refused unable True out p in (toggleBusy False q, fx))"

text \<open>The reload button: \<open>loadConfig\<close> catches its own errors, so the button always reports success.\<close>

definition reload_start :: "string \<Rightarrow> 'f settings_page \<Rightarrow> 'f settings_page \<times> effect list" where
  "reload_start url p = load_start url False (p\<lparr>reload_disabled := True\<rparr>)"

definition reload_settle ::
  "(js \<Rightarrow> 'f \<Rightarrow> 'f) \<Rightarrow> string \<Rightarrow> string \<Rightarrow> string \<Rightarrow> outcome \<Rightarrow> 'f settings_page \<Rightarrow> 'f settings_page \<times> effect list" where
  "reload_settle fill refused unable reloaded out p =
     (let (q, fx) = load_settle fill refused unable False out p
      in (q\<lparr>reload_disabled := False\<rparr>, fx @ [Notice ''info'' [JStr reloaded] 3000]))"

section \<open>Admin profile\<close>

record admin_form =
  ad_name :: string
  ad_email :: string
  ad_telegram :: string
  ad_discord :: string

definition admin_url :: string where "admin_url = ''/x/json-config-admin.cgi''"

definition admin_fill :: "js \<Rightarrow> admin_form \<Rightarrow> admin_form" where
  "admin_fill d f = f\<lparr>ad_name := field_of d ''name'', ad_email := field_of d ''email'',
     ad_telegram := field_of d ''telegram'', ad_discord := field_of d ''discord''\<rparr>"

definition admin_payload :: "admin_form \<Rightarrow> js" where
  "admin_payload f = JObj [(''name'', JStr (trim (ad_name f))), (''email'', JStr (trim (ad_email f))),
     (''telegram'', JStr (trim (ad_telegram f))), (''discord'', JStr (trim (ad_discord f)))]"

definition admin_load_settle :: "bool \<Rightarrow> outcome \<Rightarrow> admin_form settings_page \<Rightarrow> admin_form settings_page \<times> effect list" where
  "admin_load_settle = load_settle admin_fill ''Failed to load admin profile'' ''Unable to load admin profile.''"

definition admin_submit :: "admin_form settings_page \<Rightarrow> admin_form settings_page \<times> effect list" where
  "admin_submit p = save_start admin_url (admin_payload (form p)) p"

definition admin_save_settle :: "outcome \<Rightarrow> admin_form settings_page \<Rightarrow> admin_form settings_page \<times> bool \<times> effect list" where
  "admin_save_settle = save_settle admin_url (\<lambda>_. Some (JStr ''Admin profile saved.'')) ''Failed to save settings'' ''Failed to save admin profile.''"

definition admin_reload_settle :: "outcome \<Rightarrow> admin_form settings_page \<Rightarrow> admin_form settings_page \<times> effect list" where
  "admin_reload_settle = reload_settle admin_fill ''Failed to load admin profile'' ''Unable to load admin profile.'' ''Admin settings reloaded from camera.''"

section \<open>Remote logging\<close>

record syslog_form =
  sy_host :: string
  sy_port :: string
  sy_enabled :: bool
  sy_file :: bool

definition syslog_url :: string where "syslog_url = ''/x/json-config-syslog.cgi''"

definition quoted_by :: "char \<Rightarrow> string \<Rightarrow> bool" where
  "quoted_by q s \<longleftrightarrow> s \<noteq> [] \<and> hd s = q \<and> last s = q"

text \<open>\<open>slice(1, -1)\<close> of the text of a quote alone is empty.\<close>

definition sanitize_text :: "string \<Rightarrow> string" where
  "sanitize_text s =
     (let t = trim s in if quoted_by (CHR 0x22) t \<or> quoted_by (CHR 0x27) t then butlast (tl t) else t)"

definition sanitizeValue :: "js \<Rightarrow> js" where
  "sanitizeValue v = (case v of JStr s \<Rightarrow> JStr (sanitize_text s) | _ \<Rightarrow> v)"

definition clean_field :: "js \<Rightarrow> string \<Rightarrow> string \<Rightarrow> string" where
  "clean_field data key fallback =
     (let v = sanitizeValue (getp data key) in if truthy v then js_text v else fallback)"

definition syslog_fill :: "js \<Rightarrow> syslog_form \<Rightarrow> syslog_form" where
  "syslog_fill d f = f\<lparr>sy_host := clean_field d ''host'' [], sy_port := clean_field d ''port'' ''514'',
     sy_enabled := (getp d ''enabled'' = JBool True), sy_file := (getp d ''file'' = JBool True)\<rparr>"

definition syslog_payload :: "syslog_form \<Rightarrow> js" where
  "syslog_payload f = JObj [(''host'', JStr (sanitize_text (sy_host f))),
     (''port'', JStr (if sanitize_text (sy_port f) = [] then ''514'' else sanitize_text (sy_port f))),
     (''enabled'', JBool (sy_enabled f)), (''file'', JBool (sy_file f))]"

definition syslog_load_settle :: "bool \<Rightarrow> outcome \<Rightarrow> syslog_form settings_page \<Rightarrow> syslog_form settings_page \<times> effect list" where
  "syslog_load_settle = load_settle syslog_fill ''Failed to load remote logging settings'' ''Unable to load remote logging settings.''"

definition syslog_submit :: "syslog_form settings_page \<Rightarrow> syslog_form settings_page \<times> effect list" where
  "syslog_submit p = save_start syslog_url (syslog_payload (form p)) p"

definition syslog_save_settle :: "outcome \<Rightarrow> syslog_form settings_page \<Rightarrow> syslog_form settings_page \<times> bool \<times> effect list" where
  "syslog_save_settle = save_settle syslog_url (\<lambda>_. Some (JStr ''Remote logging settings saved.'')) ''Failed to save settings''
     ''Failed to save remote logging settings.''"

definition syslog_reload_settle :: "outcome \<Rightarrow> syslog_form settings_page \<Rightarrow> syslog_form settings_page \<times> effect list" where
  "syslog_reload_settle = reload_settle syslog_fill ''Failed to load remote logging settings'' ''Unable to load remote logging settings.''
     ''Syslog settings reloaded from camera.''"

section \<open>Time\<close>

record time_form =
  tz_name :: string
  tz_data :: string
  ntp_servers :: "string \<times> string \<times> string \<times> string"
  dhcp_ignore_timezone :: bool
  sync_status :: string
  sync_result :: "(string \<times> js) option"
  sync_disabled :: bool
  tz_options :: "string list"
  TZ :: "(string \<times> string) list" \<comment> \<open>the names and rules of \<open>tz.json\<close>, empty until it is loaded\<close>

definition time_url :: string where "time_url = ''/x/json-config-time.cgi''"

definition findTimezone :: "(string \<times> string) list \<Rightarrow> string \<Rightarrow> (string \<times> string) option" where
  "findTimezone zones n = find (\<lambda>z. fst z = n) zones"

definition updateTimezone :: "time_form \<Rightarrow> time_form" where
  "updateTimezone f = f\<lparr>tz_data := (case findTimezone (TZ f) (tz_name f) of Some z \<Rightarrow> snd z | None \<Rightarrow> [])\<rparr>"

definition useBrowserTimezone :: "string \<Rightarrow> time_form \<Rightarrow> time_form" where
  "useBrowserTimezone browser f = updateTimezone (f\<lparr>tz_name := replace_char (CHR ''_'') (CHR '' '') browser\<rparr>)"

definition populateTimezones :: "time_form \<Rightarrow> time_form" where
  "populateTimezones f = f\<lparr>tz_options := map fst (TZ f)\<rparr>"

definition loadTimezones_settle :: "(string \<times> string) list option \<Rightarrow> time_form \<Rightarrow> time_form" where
  "loadTimezones_settle zones f = (case zones of None \<Rightarrow> f | Some zs \<Rightarrow> updateTimezone (populateTimezones (f\<lparr>TZ := zs\<rparr>)))"

definition decodeSyncStatus :: "js \<Rightarrow> string" where
  "decodeSyncStatus data =
     (if \<not> truthy data \<or> \<not> is_object data then []
      else let encoded = trim (str_or_empty (getp data ''sync_status_raw_base64''))
           in if encoded = [] then [] else map char_of (decodeBase64String True encoded))"

definition renderSyncStatus :: "string \<Rightarrow> time_form \<Rightarrow> time_form" where
  "renderSyncStatus raw f = f\<lparr>sync_status := (if raw = [] then ''No runtime NTP status available yet.'' else raw)\<rparr>"

definition time_fill :: "js \<Rightarrow> time_form \<Rightarrow> time_form" where
  "time_fill d f =
     updateTimezone (renderSyncStatus (decodeSyncStatus d)
       (f\<lparr>tz_name := field_of d ''tz_name'', tz_data := field_of d ''tz_data'',
          ntp_servers := (field_of d ''ntp_server_0'', field_of d ''ntp_server_1'', field_of d ''ntp_server_2'', field_of d ''ntp_server_3''),
          dhcp_ignore_timezone := (getp d ''dhcp_ignore_timezone'' = JStr ''true'' \<or> getp d ''dhcp_ignore_timezone'' = JBool True)\<rparr>))"

definition time_payload :: "time_form \<Rightarrow> js" where
  "time_payload f =
     (let (n0, n1, n2, n3) = ntp_servers f
      in JObj [(''action'', JStr ''update''), (''tz_name'', JStr (trim (tz_name f))), (''tz_data'', JStr (trim (tz_data f))),
           (''ntp_server_0'', JStr (trim n0)), (''ntp_server_1'', JStr (trim n1)), (''ntp_server_2'', JStr (trim n2)), (''ntp_server_3'', JStr (trim n3)),
           (''dhcp_ignore_timezone'', JBool (dhcp_ignore_timezone f))])"

text \<open>A failed load also clears the status of the synchronisation.\<close>

definition time_load_settle :: "bool \<Rightarrow> outcome \<Rightarrow> time_form settings_page \<Rightarrow> time_form settings_page \<times> effect list" where
  "time_load_settle preserveBusy out p =
     (let failed = (case read_settings ''Failed to load time configuration'' out of Inl _ \<Rightarrow> True | Inr _ \<Rightarrow> False)
      in load_settle time_fill ''Failed to load time configuration'' ''Unable to load time configuration.'' preserveBusy out
           (if failed then p\<lparr>form := renderSyncStatus [] (form p)\<rparr> else p))"

definition time_submit :: "time_form settings_page \<Rightarrow> time_form settings_page \<times> effect list" where
  "time_submit p = save_start time_url (time_payload (form p)) p"

definition time_save_settle :: "outcome \<Rightarrow> time_form settings_page \<Rightarrow> time_form settings_page \<times> bool \<times> effect list" where
  "time_save_settle = save_settle time_url (message_or ''Time configuration saved.'') ''Failed to save settings''
     ''Failed to save time configuration.''"

definition time_reload_settle :: "outcome \<Rightarrow> time_form settings_page \<Rightarrow> time_form settings_page \<times> effect list" where
  "time_reload_settle out p =
     (let (q, fx) = time_load_settle False out p
      in (q\<lparr>reload_disabled := False\<rparr>, fx @ [Notice ''info'' [JStr ''Time settings reloaded from camera.''] 3000]))"

definition showSyncResult :: "string \<Rightarrow> js \<Rightarrow> time_form \<Rightarrow> time_form" where
  "showSyncResult kind msg f = f\<lparr>sync_result := (if truthy msg then Some (kind, msg) else None)\<rparr>"

definition syncTime :: "int \<Rightarrow> time_form settings_page \<Rightarrow> time_form settings_page \<times> effect list" where
  "syncTime now p =
     (p\<lparr>form := (showSyncResult [] (JStr []) (form p))\<lparr>sync_disabled := True\<rparr>, page_busy := showBusy (page_busy p)\<rparr>,
      [Send (Get (''/x/json-sync-time.cgi?ts='' @ show_int now))])"

text \<open>The result of a synchronisation, and whether the settings are loaded again.\<close>

definition sync_answer :: "outcome \<Rightarrow> (string \<times> js) \<times> bool" where
  "sync_answer out =
     (case out of
        Rejected m \<Rightarrow> ((''danger'', js_or (JStr m) (JStr ''Failed to synchronize time'')), False)
      | Answer r \<Rightarrow>
          (case parsed r of
             None \<Rightarrow> ((''danger'', JStr ''SyntaxError''), False)
           | Some d \<Rightarrow>
               if nullish d then ((''danger'', JStr ''TypeError''), False)
               else if truthy (getp d ''error'')
               then ((''danger'', js_or (getp (getp d ''error'') ''message'') (JStr ''Synchronization failed'')), True)
               else ((''success'', js_or (getp d ''message'') (JStr ''Time synchronized'')), True)))"

text \<open>The button is freed at once, or after the load where there is one (\<open>syncTime_done\<close>).\<close>

definition syncTime_done :: "time_form settings_page \<Rightarrow> time_form settings_page" where
  "syncTime_done p = p\<lparr>form := (form p)\<lparr>sync_disabled := False\<rparr>, page_busy := hideBusy (page_busy p)\<rparr>"

definition syncTime_settle :: "outcome \<Rightarrow> time_form settings_page \<Rightarrow> time_form settings_page \<times> bool \<times> effect list" where
  "syncTime_settle out p =
     (let ((kind, msg), again) = sync_answer out; q = p\<lparr>form := showSyncResult kind msg (form p)\<rparr>
      in if again then (q, True, [Send (Get time_url)]) else (syncTime_done q, False, []))"

definition syncTime_loaded :: "outcome \<Rightarrow> time_form settings_page \<Rightarrow> time_form settings_page \<times> effect list" where
  "syncTime_loaded out p = (let (q, fx) = time_load_settle True out p in (syncTime_done q, fx))"

section \<open>The contract of a form\<close>

text \<open>
  A stored form gives back the form that sends the same again: \<open>answer\<close> is what the camera reports for the stored values (it
  may add what the form does not send), \<open>clean\<close> are the forms for which this is promised. A \<open>settings_form\<close> promises it for the page that
  saved, a \<open>free_form\<close> for every page the answer is loaded into.
\<close>

locale settings_form =
  fixes fill :: "js \<Rightarrow> 'f \<Rightarrow> 'f" and payload :: "'f \<Rightarrow> js" and clean :: "'f \<Rightarrow> bool" and answer :: "js \<Rightarrow> js"
  assumes payload_refill: "clean f \<Longrightarrow> payload (fill (answer (payload f)) f) = payload f"
    and payload_json: "clean f \<Longrightarrow> jsonify (payload f) = payload f"
begin

lemma save_then_load:
  assumes "clean (form p)" "read_settings refused out = Inr (answer (payload (form p)))"
  shows "payload (form (fst (load_settle fill refused unable preserve out p))) = payload (form p)"
  using assms payload_refill by (simp add: load_settle_def toggleBusy_def)

lemma save_sends:
  "clean (form p) \<Longrightarrow> save_start url (payload (form p)) p = (toggleBusy True p, [Send (PostJson url (payload (form p)))])"
  by (simp add: save_start_def payload_json)

end

locale free_form = settings_form +
  assumes payload_fill: "clean f \<Longrightarrow> payload (fill (answer (payload f)) g) = payload f"
begin

lemma save_then_open:
  assumes "clean (form p)" "read_settings refused out = Inr (answer (payload (form p)))"
  shows "payload (form (fst (load_settle fill refused unable preserve out q))) = payload (form p)"
  using assms payload_fill by (simp add: load_settle_def toggleBusy_def)

lemma save_then_open_sends:
  assumes "clean (form p)" "read_settings refused out = Inr (answer (payload (form p)))"
  shows "snd (save_start url (payload (form (fst (load_settle fill refused unable preserve out q)))) r) = snd (save_start url (payload (form p)) r')"
  unfolding save_then_open [OF assms] by (simp add: save_start_def)

end

section \<open>The pages keep the contract\<close>

lemma truthy_JStr: "truthy (JStr s) \<longleftrightarrow> s \<noteq> []" by simp

lemma field_of_text: "map_of kvs k = Some (JStr s) \<Longrightarrow> field_of (JObj kvs) k = s"
  by (simp add: field_of_def)

interpretation admin: free_form admin_fill admin_payload "\<lambda>_. True" "\<lambda>d. d"
  by unfold_locales (simp_all add: admin_payload_def admin_fill_def field_of_text)

definition clean_syslog :: "syslog_form \<Rightarrow> bool" where
  "clean_syslog f \<longleftrightarrow> sanitize_text (sanitize_text (sy_host f)) = sanitize_text (sy_host f) \<and>
     sanitize_text (sanitize_text (sy_port f)) = sanitize_text (sy_port f)"

lemma sanitize_514: "sanitize_text ''514'' = ''514''"
  by code_simp

lemma syslog_refill: "clean_syslog f \<Longrightarrow> syslog_payload (syslog_fill (syslog_payload f) g) = syslog_payload f"
  by (auto simp: clean_syslog_def syslog_payload_def syslog_fill_def clean_field_def sanitizeValue_def sanitize_514 Let_def)

interpretation syslog: free_form syslog_fill syslog_payload clean_syslog "\<lambda>d. d"
proof
qed (simp_all add: syslog_refill, simp add: syslog_payload_def)

lemma time_fill_data:
  "tz_data (time_fill d f) = (case findTimezone (TZ f) (field_of d ''tz_name'') of Some z \<Rightarrow> snd z | None \<Rightarrow> [])"
  by (simp add: time_fill_def updateTimezone_def renderSyncStatus_def)

lemma load_settle_enables:
  "\<not> controls_disabled (fst (load_settle fill refused unable False out p))"
  by (simp add: load_settle_def toggleBusy_def split: prod.splits)

lemma save_settle_enables:
  "fst (snd (save_settle url success failed unable out p)) \<or> \<not> controls_disabled (fst (save_settle url success failed unable out p))"
  by (simp add: save_settle_def toggleBusy_def split: sum.splits option.splits)

section \<open>Properties\<close>

text \<open>
  Saving an unknown time zone erases its rule: if the name the camera reports is not in the list (because the list has not
  arrived, could not be loaded or lacks the name), the form it fills sends an empty rule, whatever rule
  the camera had reported.\<close>

theorem unknown_timezone_erased:
  assumes "findTimezone (TZ (form p)) (field_of d ''tz_name'') = None"
    and "read_settings ''Failed to load time configuration'' out = Inr d"
  shows "\<exists>payload. snd (time_submit (fst (time_load_settle preserve out p))) = [Send (PostJson time_url payload)] \<and>
           getp payload ''tz_data'' = JStr [] \<and> getp payload ''tz_name'' = JStr (trim (field_of d ''tz_name''))"
proof -
  let ?f = "time_fill d (form p)"
  have f: "form (fst (time_load_settle preserve out p)) = ?f"
    using assms(2) by (simp add: time_load_settle_def load_settle_def toggleBusy_def)
  have t: "tz_data ?f = []" "tz_name ?f = field_of d ''tz_name''"
    using assms(1) time_fill_data [of d "form p"] by (simp_all add: time_fill_def updateTimezone_def renderSyncStatus_def)
  have "trim [] = []" by (simp add: trim_def)
  then show ?thesis
    by (simp add: time_submit_def save_start_def f time_payload_def t split: prod.split)
qed

definition sample_time :: "time_form settings_page" where
  "sample_time = \<lparr>form = \<lparr>tz_name = [], tz_data = [], ntp_servers = ([], [], [], []), dhcp_ignore_timezone = False, sync_status = [],
       sync_result = None, sync_disabled = False, tz_options = [], TZ = []\<rparr>,
     controls_disabled = True, page_busy = idle_bar, reload_disabled = False\<rparr>"

theorem unknown_timezone_erased_witness:
  "\<exists>payload. snd (time_submit (fst (time_load_settle False
       (Answer \<lparr>status = 200, text_body = ''x'', parsed = Some (JObj [(''tz_name'', JStr ''Etc/GMT''), (''tz_data'', JStr ''GMT0'')])\<rparr>) sample_time)))
     = [Send (PostJson time_url payload)] \<and> getp payload ''tz_data'' = JStr [] \<and>
     getp payload ''tz_name'' = JStr (trim (field_of (JObj [(''tz_name'', JStr ''Etc/GMT''), (''tz_data'', JStr ''GMT0'')]) ''tz_name''))"
  by (rule unknown_timezone_erased)
    (simp_all add: sample_time_def findTimezone_def read_settings_def resp_ok_def nullish_def)

text \<open>
  A failed reload is reported as a success: whatever the answer to the reload button of the settings pages, even none at all, the
  last notice says that the settings were reloaded from the camera, because the load catches its own errors.\<close>

theorem failed_reload_reported:
  "last (snd (admin_reload_settle out p)) = Notice ''info'' [JStr ''Admin settings reloaded from camera.''] 3000 \<and>
   last (snd (syslog_reload_settle out q)) = Notice ''info'' [JStr ''Syslog settings reloaded from camera.''] 3000 \<and>
   snd (admin_reload_settle (Rejected m) p) \<noteq> [Notice ''info'' [JStr ''Admin settings reloaded from camera.''] 3000]"
  by (simp add: admin_reload_settle_def syslog_reload_settle_def reload_settle_def load_settle_def read_settings_def split: prod.splits)

end
