(* ===== verification/Wireguard_Page.thy ===== *)
theory Wireguard_Page
  imports Settings_Pages
begin

text \<open>
  The WireGuard page (\<open>config-wireguard.js\<close>): the form with its load and save, the key buttons, the switch, and the
  import of a configuration file (\<open>parseWgConf\<close>). The page's optional elements are taken to exist.
\<close>

section \<open>Configuration files\<close>

text \<open>\<open>split(/\r?\n/)\<close>: at newlines, with a carriage return before them.\<close>

definition strip_cr :: "string \<Rightarrow> string" where
  "strip_cr l = (if l \<noteq> [] \<and> last l = CHR 0x0D then butlast l else l)"

definition conf_lines :: "string \<Rightarrow> string list" where
  "conf_lines t = (let ls = split_on (CHR 0x0A) t in map strip_cr (butlast ls) @ [last ls])"

definition word_char :: "char \<Rightarrow> bool" where
  "word_char c \<longleftrightarrow> (let n = (of_char c :: nat) in is_digit c \<or> 65 \<le> n \<and> n \<le> 90 \<or> 97 \<le> n \<and> n \<le> 122 \<or> n = 95)"

text \<open>\<open>^\[(\w+)\]$\<close>.\<close>

definition section_match :: "string \<Rightarrow> string option" where
  "section_match t =
     (if 3 \<le> length t \<and> hd t = CHR ''['' \<and> last t = CHR '']'' \<and> list_all word_char (butlast (tl t))
      then Some (butlast (tl t)) else None)"

text \<open>\<open>^(\w+)\s*=\s*(.+)$\<close> on a trimmed line: the key is the longest word, the value what follows the blanks after the
  sign; a dot does not match a carriage return.\<close>

definition kv_match :: "string \<Rightarrow> (string \<times> string) option" where
  "kv_match t =
     (let k = takeWhile word_char t; r = dropWhile is_space (dropWhile word_char t)
      in if k = [] then None
         else (case r of
                 c # v \<Rightarrow>
                   let w = dropWhile is_space v
                   in if c = CHR ''='' \<and> w \<noteq> [] \<and> CHR 0x0D \<notin> set w then Some (k, w) else None
               | [] \<Rightarrow> None))"

record conf_state =
  conf_section :: "string option"
  conf_result :: "string \<rightharpoonup> string"

definition conf_line :: "string \<Rightarrow> conf_state \<Rightarrow> conf_state" where
  "conf_line line c =
     (let trimmed = trim line
      in if trimmed = [] \<or> starts_with trimmed ''#'' then c
         else case section_match trimmed of
           Some s \<Rightarrow> c\<lparr>conf_section := Some (to_lower s)\<rparr>
         | None \<Rightarrow>
             (case (kv_match trimmed, conf_section c) of
                (Some (k, v), Some s) \<Rightarrow>
                  if s = [] then c else c\<lparr>conf_result := (conf_result c)(s @ ''.'' @ to_lower k \<mapsto> trim v)\<rparr>
              | _ \<Rightarrow> c))"

definition parseWgConf :: "string \<Rightarrow> string \<rightharpoonup> string" where
  "parseWgConf txt = conf_result (fold conf_line (conf_lines txt) \<lparr>conf_section = None, conf_result = Map.empty\<rparr>)"

section \<open>The form\<close>

record wg_form =
  wg_enabled :: bool
  wg_privkey :: string
  wg_localpub :: string
  wg_peerpsk :: string
  wg_address :: string
  wg_port :: string
  wg_dns :: string
  wg_endpoint :: string
  wg_provision_url :: string
  wg_provision_peer :: string
  wg_provision_token :: string
  wg_peerpub :: string
  wg_mtu :: string
  wg_keepalive :: string
  wg_allowed :: string
  privkey_visible :: bool
  peerpsk_visible :: bool
  wgStatus :: js
  wgSupported :: bool
  wg_toggle_disabled :: bool
  wg_hidden :: bool \<comment> \<open>the form is hidden, the note on missing support is shown\<close>

definition wg_url :: string where "wg_url = ''/x/json-config-wireguard.cgi''"

text \<open>The colours and texts of the switch: red and OFF while the tunnel is up.\<close>

definition wg_control :: "js \<Rightarrow> string \<times> string" where
  "wg_control st = (if st = jint 1 then (''danger'', ''OFF'') else (''success'', ''ON''))"

definition updateWgControl :: "js \<Rightarrow> wg_form \<Rightarrow> wg_form" where
  "updateWgControl st f = f\<lparr>wgStatus := st\<rparr>"

text \<open>\<open>updateKeyActionButtons\<close>: an empty key is hidden; the titles say what a click would do.\<close>

definition updateKeyActionButtons :: "wg_form \<Rightarrow> wg_form" where
  "updateKeyActionButtons f =
     f\<lparr>privkey_visible := (privkey_visible f \<and> trim (wg_privkey f) \<noteq> []),
       peerpsk_visible := (peerpsk_visible f \<and> trim (wg_peerpsk f) \<noteq> [])\<rparr>"

definition key_title :: "string \<Rightarrow> bool \<Rightarrow> string \<Rightarrow> string \<Rightarrow> string \<Rightarrow> string" where
  "key_title v visible generate show_title hide_title =
     (if trim v = [] then generate else if visible then hide_title else show_title)"

definition wg_fill :: "js \<Rightarrow> wg_form \<Rightarrow> wg_form" where
  "wg_fill d f =
     (if getp d ''wg_supported'' \<noteq> JBool True then f\<lparr>wgSupported := False, wg_hidden := True\<rparr>
      else updateKeyActionButtons (updateWgControl (js_or (getp d ''wg_status'') (jint 0))
        (f\<lparr>wgSupported := True, wg_privkey := field_of d ''privkey'', wg_localpub := field_of d ''localpub'', wg_peerpsk := field_of d ''peerpsk'',
           wg_address := field_of d ''address'', wg_port := field_of d ''port'', wg_dns := field_of d ''dns'', wg_endpoint := field_of d ''endpoint'',
           wg_provision_url := field_of d ''provision_url'', wg_provision_peer := field_of d ''provision_peer'',
           wg_provision_token := field_of d ''provision_token'', wg_peerpub := field_of d ''peerpub'', wg_mtu := field_of d ''mtu'',
           wg_keepalive := field_of d ''keepalive'', wg_allowed := field_of d ''allowed'', wg_enabled := (getp d ''enabled'' = JBool True)\<rparr>)))"

definition wg_payload :: "wg_form \<Rightarrow> js" where
  "wg_payload f =
     JObj [(''enabled'', JBool (wg_enabled f)), (''privkey'', JStr (trim (wg_privkey f))), (''peerpsk'', JStr (trim (wg_peerpsk f))),
       (''address'', JStr (trim (wg_address f))), (''port'', JStr (trim (wg_port f))), (''dns'', JStr (trim (wg_dns f))),
       (''endpoint'', JStr (trim (wg_endpoint f))), (''provision_url'', JStr (trim (wg_provision_url f))),
       (''provision_peer'', JStr (trim (wg_provision_peer f))), (''provision_token'', JStr (trim (wg_provision_token f))),
       (''peerpub'', JStr (trim (wg_peerpub f))), (''mtu'', JStr (trim (wg_mtu f))), (''keepalive'', JStr (trim (wg_keepalive f))),
       (''allowed'', JStr (trim (wg_allowed f)))]"

definition wg_load_settle :: "bool \<Rightarrow> outcome \<Rightarrow> wg_form settings_page \<Rightarrow> wg_form settings_page \<times> effect list" where
  "wg_load_settle = load_settle wg_fill ''Failed to load WireGuard configuration'' ''Unable to load WireGuard configuration.''"

definition wg_submit :: "wg_form settings_page \<Rightarrow> wg_form settings_page \<times> effect list" where
  "wg_submit p = save_start wg_url (wg_payload (form p)) p"

definition wg_save_settle :: "outcome \<Rightarrow> wg_form settings_page \<Rightarrow> wg_form settings_page \<times> bool \<times> effect list" where
  "wg_save_settle = save_settle wg_url (message_or ''WireGuard configuration saved.'') ''Failed to save settings'' ''Failed to save WireGuard configuration.''"

definition importProvisionedProfile :: "wg_form settings_page \<Rightarrow> wg_form settings_page \<times> effect list" where
  "importProvisionedProfile p =
     save_start wg_url (JObj [(''action'', JStr ''provision_import''), (''provision_url'', JStr (trim (wg_provision_url (form p)))),
       (''provision_peer'', JStr (trim (wg_provision_peer (form p)))), (''provision_token'', JStr (trim (wg_provision_token (form p))))]) p"

definition import_settle :: "outcome \<Rightarrow> wg_form settings_page \<Rightarrow> wg_form settings_page \<times> bool \<times> effect list" where
  "import_settle = save_settle wg_url (message_or ''WireGuard profile imported.'') ''Failed to import WireGuard profile'' ''Failed to import WireGuard profile.''"

definition wg_reload_settle :: "outcome \<Rightarrow> wg_form settings_page \<Rightarrow> wg_form settings_page \<times> effect list" where
  "wg_reload_settle = reload_settle wg_fill ''Failed to load WireGuard configuration'' ''Unable to load WireGuard configuration.''
     ''WireGuard settings reloaded from camera.''"

section \<open>Keys\<close>

definition generateWireGuardKeys :: "string \<Rightarrow> wg_form settings_page \<Rightarrow> wg_form settings_page \<times> effect list" where
  "generateWireGuardKeys action p = save_start wg_url (JObj [(''action'', JStr action)]) p"

definition put_keys :: "string \<Rightarrow> js \<Rightarrow> wg_form \<Rightarrow> wg_form" where
  "put_keys action data f =
     (let f1 = (if action = ''generate_keypair''
                then f\<lparr>wg_privkey := field_of data ''privkey'', wg_localpub := field_of data ''localpub''\<rparr> else f)
      in case getp data ''peerpsk'' of JStr s \<Rightarrow> f1\<lparr>wg_peerpsk := s\<rparr> | _ \<Rightarrow> f1)"

definition keys_settle :: "string \<Rightarrow> outcome \<Rightarrow> wg_form settings_page \<Rightarrow> wg_form settings_page \<times> effect list" where
  "keys_settle action out p =
     (let (q, fx) = (case read_saved ''Failed to generate WireGuard keys'' out of
            Inl m \<Rightarrow> (p, [Notice ''danger'' [js_or m (JStr ''Failed to generate WireGuard keys.'')] 6000])
          | Inr result \<Rightarrow>
              let f = put_keys action (js_or (and_prop result ''data'') (JObj [])) (form p);
                  q = p\<lparr>form := f\<rparr>
              in case message_or (if action = ''generate_keypair'' then ''WireGuard key pair generated.'' else ''WireGuard pre-shared key generated.'') result of
                   None \<Rightarrow> (q, [Notice ''danger'' [JStr ''TypeError''] 6000])
                 | Some m \<Rightarrow> (q, [Overlay ''success'' [m]]));
          r = toggleBusy False q
      in (r\<lparr>form := updateKeyActionButtons (form r)\<rparr>, fx))"

text \<open>A click on a key button: an empty key is generated, another one shown or hidden.\<close>

definition handleKeyAction :: "string \<Rightarrow> wg_form settings_page \<Rightarrow> wg_form settings_page \<times> effect list" where
  "handleKeyAction action p =
     (let f = form p; pair = (action = ''generate_keypair'')
      in if trim (if pair then wg_privkey f else wg_peerpsk f) = [] then generateWireGuardKeys action p
         else (p\<lparr>form := updateKeyActionButtons
                 (if pair then f\<lparr>privkey_visible := \<not> privkey_visible f\<rparr> else f\<lparr>peerpsk_visible := \<not> peerpsk_visible f\<rparr>)\<rparr>, []))"

section \<open>The switch\<close>

definition toggleWireGuard :: "wg_form settings_page \<Rightarrow> wg_form settings_page \<times> effect list" where
  "toggleWireGuard p =
     (p\<lparr>form := (form p)\<lparr>wg_toggle_disabled := True\<rparr>, page_busy := showBusy (page_busy p)\<rparr>,
      [Send (Get (''/x/json-wireguard.cgi?iface=wg0&state='' @ (if wgStatus (form p) = jint 1 then ''0'' else ''1'')))])"

definition toggle_result :: "outcome \<Rightarrow> wg_form \<Rightarrow> wg_form \<times> effect list" where
  "toggle_result out f =
     (case out of
        Rejected m \<Rightarrow> (f, [Notice ''danger'' [js_or (JStr m) (JStr ''Failed to toggle WireGuard'')] 6000])
      | Answer r \<Rightarrow>
          (case parsed r of
             None \<Rightarrow> (f, [Notice ''danger'' [JStr ''SyntaxError''] 6000])
           | Some d \<Rightarrow>
               if nullish d then (f, [Notice ''danger'' [JStr ''TypeError''] 6000])
               else if truthy (getp d ''error'')
               then (f, [Notice ''danger'' [js_or (getp (getp d ''error'') ''message'') (JStr ''Failed to toggle WireGuard'')] 6000])
               else let msg = getp d ''message''
                    in if nullish msg then (f, [Notice ''danger'' [JStr ''TypeError''] 6000])
                       else (updateWgControl (js_or (getp msg ''status'') (jint 0)) f,
                             [Overlay ''success'' [js_or (getp msg ''message'') (JStr ''WireGuard status updated'')]])))"

definition toggle_settle :: "outcome \<Rightarrow> wg_form settings_page \<Rightarrow> wg_form settings_page \<times> effect list" where
  "toggle_settle out p =
     (let (f, fx) = toggle_result out (form p)
      in (p\<lparr>form := f\<lparr>wg_toggle_disabled := False\<rparr>, page_busy := hideBusy (page_busy p)\<rparr>, fx))"

section \<open>Importing a file\<close>

definition imported :: "(string \<rightharpoonup> string) \<Rightarrow> string \<Rightarrow> string \<Rightarrow> string" where
  "imported conf key old = (case conf key of Some v \<Rightarrow> if v = [] then old else v | None \<Rightarrow> old)"

definition import_file :: "string \<Rightarrow> wg_form \<Rightarrow> wg_form \<times> effect list" where
  "import_file txt f =
     (let conf = parseWgConf txt;
          f1 = updateKeyActionButtons
            (f\<lparr>wg_privkey := imported conf ''interface.privatekey'' (wg_privkey f), wg_address := imported conf ''interface.address'' (wg_address f),
               wg_dns := imported conf ''interface.dns'' (wg_dns f), wg_port := imported conf ''interface.listenport'' (wg_port f),
               wg_peerpub := imported conf ''peer.publickey'' (wg_peerpub f), wg_peerpsk := imported conf ''peer.presharedkey'' (wg_peerpsk f),
               wg_endpoint := imported conf ''peer.endpoint'' (wg_endpoint f), wg_allowed := imported conf ''peer.allowedips'' (wg_allowed f),
               wg_keepalive := imported conf ''peer.persistentkeepalive'' (wg_keepalive f)\<rparr>)
      in (f1, if trim (wg_privkey f1) = []
              then [Overlay ''success'' [JStr ''WireGuard config file imported. Review settings and save.'']]
              else [Send (PostJson wg_url (JObj [(''action'', JStr ''derive_pubkey''), (''privkey'', JStr (trim (wg_privkey f1)))]))]))"

definition derive_settle :: "outcome \<Rightarrow> wg_form \<Rightarrow> wg_form \<times> effect list" where
  "derive_settle out f =
     (let result = (case out of Answer r \<Rightarrow> (case parsed r of Some d \<Rightarrow> d | None \<Rightarrow> JNull) | Rejected _ \<Rightarrow> JNull);
          key = and_prop (and_prop result ''data'') ''localpub''
      in (if truthy key then f\<lparr>wg_localpub := js_text key\<rparr> else f,
          [Overlay ''success'' [JStr ''WireGuard config file imported. Review settings and save.'']]))"

section \<open>Printed files\<close>

text \<open>The format of \<open>wg-quick\<close>: sections with the entries \<open>Key = Value\<close>, a line each.\<close>

definition entry_text :: "string \<times> string \<Rightarrow> string" where
  "entry_text e = fst e @ '' = '' @ snd e"

definition section_lines :: "string \<times> (string \<times> string) list \<Rightarrow> string list" where
  "section_lines sec = (''['' @ fst sec @ '']'') # map entry_text (snd sec)"

definition conf_text :: "(string \<times> (string \<times> string) list) list \<Rightarrow> string" where
  "conf_text secs = concat (map (\<lambda>l. l @ [CHR 0x0A]) (concat (map section_lines secs)))"

definition conf_name :: "string \<Rightarrow> bool" where
  "conf_name s \<longleftrightarrow> s \<noteq> [] \<and> list_all word_char s"

definition conf_value :: "string \<Rightarrow> bool" where
  "conf_value v \<longleftrightarrow> v \<noteq> [] \<and> \<not> is_space (hd v) \<and> \<not> is_space (last v) \<and> CHR 0x0A \<notin> set v \<and> CHR 0x0D \<notin> set v"

definition conf_ok :: "(string \<times> (string \<times> string) list) list \<Rightarrow> bool" where
  "conf_ok secs \<longleftrightarrow> list_all (\<lambda>sec. conf_name (fst sec) \<and> list_all (\<lambda>e. conf_name (fst e) \<and> conf_value (snd e)) (snd sec)) secs"

definition section_entries :: "string \<times> (string \<times> string) list \<Rightarrow> (string \<times> string) list" where
  "section_entries sec = map (\<lambda>e. (to_lower (fst sec) @ ''.'' @ to_lower (fst e), snd e)) (snd sec)"

definition conf_entries :: "(string \<times> (string \<times> string) list) list \<Rightarrow> (string \<times> string) list" where
  "conf_entries secs = concat (map section_entries secs)"

lemma conf_lines_printed:
  assumes "\<And>l. l \<in> set ls \<Longrightarrow> CHR 0x0A \<notin> set l \<and> CHR 0x0D \<notin> set l"
  shows "conf_lines (concat (map (\<lambda>l. l @ [CHR 0x0A]) ls)) = ls @ [[]]"
proof -
  have sp: "split_on (CHR 0x0A) (concat (map (\<lambda>l. l @ [CHR 0x0A]) ls)) = ls @ [[]]"
    using assms by (induction ls) (simp_all add: split_on_append_sep)
  have "map strip_cr ls = ls"
    using assms by (intro map_idI) (metis strip_cr_def last_in_set)
  then show ?thesis by (simp add: conf_lines_def Let_def sp)
qed

lemma word_char_plain:
  assumes "word_char c"
  shows "\<not> is_space c" "c \<noteq> CHR ''['' " "c \<noteq> CHR ''#''" "c \<noteq> CHR 0x0A" "c \<noteq> CHR 0x0D"
  using assms by (auto simp: word_char_def is_space_def is_digit_def Let_def)

lemma not_word_char: "\<not> word_char (CHR '' '')" "\<not> word_char (CHR ''='')" "\<not> word_char (CHR '']'')"
  by (simp_all add: word_char_def is_digit_def Let_def)

lemma conf_nameE:
  assumes "conf_name s"
  obtains c t where "s = c # t" "word_char c" "list_all word_char t" "takeWhile word_char (s @ CHR '' '' # r) = s"
    "dropWhile word_char (s @ CHR '' '' # r) = CHR '' '' # r"
proof -
  obtain c t where s: "s = c # t" using assms by (cases s) (auto simp: conf_name_def)
  have w: "\<forall>x\<in>set s. word_char x" using assms by (simp add: conf_name_def list_all_iff)
  then have "takeWhile word_char (s @ CHR '' '' # r) = s" "dropWhile word_char (s @ CHR '' '' # r) = CHR '' '' # r"
    by (simp_all add: takeWhile_append2 dropWhile_append2 not_word_char)
  then show ?thesis using that [of c t] s w by (simp add: list_all_iff)
qed

lemma space_blank: "is_space (CHR '' '')" "\<not> is_space (CHR ''='')" "\<not> is_space (CHR ''['')" "\<not> is_space (CHR '']'')"
  by (simp_all add: is_space_def)

lemma conf_line_header:
  assumes "conf_name s"
  shows "conf_line (''['' @ s @ '']'') c = c\<lparr>conf_section := Some (to_lower s)\<rparr>"
proof -
  have t: "trim (''['' @ s @ '']'') = ''['' @ s @ '']''" by (rule trim_solid) (simp_all add: space_blank)
  have "section_match (''['' @ s @ '']'') = Some s"
    using assms by (simp add: section_match_def conf_name_def Suc_le_eq)
  then show ?thesis unfolding conf_line_def t Let_def by (simp add: starts_with_def)
qed

lemma kv_match_entry:
  assumes "conf_name k" "conf_value v"
  shows "kv_match (entry_text (k, v)) = Some (k, v)"
proof -
  have v: "dropWhile is_space v = v" "v \<noteq> []" "CHR 0x0D \<notin> set v"
    using assms(2) by (cases v; simp add: conf_value_def)+
  show ?thesis
  proof (rule conf_nameE [OF assms(1), of "''= '' @ v"])
    fix c t assume "k = c # t" "takeWhile word_char (k @ CHR '' '' # ''= '' @ v) = k"
      "dropWhile word_char (k @ CHR '' '' # ''= '' @ v) = CHR '' '' # ''= '' @ v"
    moreover have "\<exists>x\<in>set v. \<not> is_space x" using assms(2) v(2) by (auto simp: conf_value_def)
    ultimately show ?thesis using v by (simp add: kv_match_def entry_text_def space_blank)
  qed
qed

lemma conf_line_entry:
  assumes "conf_name k" "conf_value v" "conf_section c = Some s" "s \<noteq> []"
  shows "conf_line (entry_text (k, v)) c = c\<lparr>conf_result := (conf_result c)(s @ ''.'' @ to_lower k \<mapsto> v)\<rparr>"
proof -
  obtain d ds where k: "k = d # ds" "word_char d" using assms(1) by (cases k) (auto simp: conf_name_def)
  have v: "v \<noteq> []" "\<not> is_space (hd v)" "\<not> is_space (last v)" using assms(2) by (simp_all add: conf_value_def)
  have t: "trim (entry_text (k, v)) = entry_text (k, v)" and tv: "trim v = v"
    using k v word_char_plain(1) [of d] by (simp_all add: trim_solid entry_text_def)
  have h: "hd (entry_text (k, v)) = d" "entry_text (k, v) \<noteq> []" using k by (simp_all add: entry_text_def)
  have "section_match (entry_text (k, v)) = None" "\<not> starts_with (entry_text (k, v)) ''#''"
    using k word_char_plain(2,3) [of d] h by (simp_all add: section_match_def starts_with_def entry_text_def)
  then show ?thesis
    using assms(3,4) h(2) unfolding conf_line_def t Let_def kv_match_entry [OF assms(1,2)] by (simp add: tv)
qed

lemma fold_entries:
  assumes "conf_section c = Some s" "s \<noteq> []" "list_all (\<lambda>e. conf_name (fst e) \<and> conf_value (snd e)) es"
  shows "fold conf_line (map entry_text es) c =
     c\<lparr>conf_result := conf_result c ++ map_of (rev (map (\<lambda>e. (s @ ''.'' @ to_lower (fst e), snd e)) es))\<rparr>"
  using assms
proof (induction es arbitrary: c)
  case (Cons e es)
  obtain k v where e: "e = (k, v)" by (cases e)
  have l: "conf_line (entry_text e) c = c\<lparr>conf_result := (conf_result c)(s @ ''.'' @ to_lower k \<mapsto> v)\<rparr>"
    using Cons.prems conf_line_entry [of k v c s] by (simp add: e)
  show ?case using Cons.prems Cons.IH [of "conf_line (entry_text e) c"] by (simp add: l) (simp add: e map_add_def fun_eq_iff split: option.splits)
qed simp

lemma fold_sections:
  assumes "conf_ok secs"
  shows "conf_result (fold conf_line (concat (map section_lines secs)) c) = conf_result c ++ map_of (rev (conf_entries secs))"
  using assms
proof (induction secs arbitrary: c)
  case (Cons sec secs)
  let ?c = "c\<lparr>conf_section := Some (to_lower (fst sec))\<rparr>"
  have ok: "conf_name (fst sec)" "list_all (\<lambda>e. conf_name (fst e) \<and> conf_value (snd e)) (snd sec)" "conf_ok secs"
    using Cons.prems by (simp_all add: conf_ok_def)
  have ne: "to_lower (fst sec) \<noteq> []" using ok(1) by (simp add: conf_name_def to_lower_def)
  show ?case
    using Cons.IH [OF ok(3)] fold_entries [of ?c, OF _ ne ok(2)] conf_line_header [OF ok(1), of c]
    by (simp add: section_lines_def conf_entries_def section_entries_def)
qed (simp add: conf_entries_def)

lemma section_lines_plain:
  assumes "conf_ok secs" "l \<in> set (concat (map section_lines secs))"
  shows "CHR 0x0A \<notin> set l \<and> CHR 0x0D \<notin> set l"
proof -
  have nm: "CHR 0x0A \<notin> set s \<and> CHR 0x0D \<notin> set s" if "conf_name s" for s
    using that word_char_plain(4,5) by (auto simp: conf_name_def list_all_iff)
  obtain sec where sec: "sec \<in> set secs" "l \<in> set (section_lines sec)" using assms(2) by auto
  have ok: "conf_name (fst sec)" "\<And>e. e \<in> set (snd sec) \<Longrightarrow> conf_name (fst e) \<and> conf_value (snd e)"
    using assms(1) sec(1) by (simp_all add: conf_ok_def list_all_iff)
  consider "l = ''['' @ fst sec @ '']''" | e where "e \<in> set (snd sec)" "l = entry_text e"
    using sec(2) by (auto simp: section_lines_def)
  then show ?thesis
  proof cases
    case 1
    then show ?thesis using nm [OF ok(1)] by simp
  next
    case (2 e)
    then show ?thesis using nm [of "fst e"] ok(2) [of e] by (simp add: entry_text_def conf_value_def)
  qed
qed

lemma conf_line_empty: "conf_line [] c = c"
  by (simp add: conf_line_def trim_def)

lemma parse_printed:
  assumes "conf_ok secs"
  shows "parseWgConf (conf_text secs) = map_of (rev (conf_entries secs))"
proof -
  have "conf_lines (conf_text secs) = concat (map section_lines secs) @ [[]]"
    unfolding conf_text_def by (rule conf_lines_printed) (rule section_lines_plain [OF assms])
  then show ?thesis by (simp add: parseWgConf_def fold_sections [OF assms] conf_line_empty)
qed

lemma conf_entry_value:
  assumes "conf_ok secs" "map_of (rev (conf_entries secs)) key = Some v"
  shows "v \<noteq> []"
proof -
  have "(key, v) \<in> set (conf_entries secs)" using assms(2) map_of_SomeD by fastforce
  then obtain sec e where "sec \<in> set secs" "e \<in> set (snd sec)" "v = snd e"
    by (auto simp: conf_entries_def section_entries_def)
  then show ?thesis using assms(1) by (auto simp: conf_ok_def list_all_iff conf_value_def)
qed

lemma imported_printed:
  assumes "conf_ok secs"
  shows "imported (parseWgConf (conf_text secs)) key old = case_option old (\<lambda>v. v) (map_of (rev (conf_entries secs)) key)"
  using conf_entry_value [OF assms, of key] by (simp add: parse_printed [OF assms] imported_def split: option.split)

text \<open>The keys the import reads and the fields they fill.\<close>

definition wg_keys :: "(string \<times> (wg_form \<Rightarrow> string)) list" where
  "wg_keys = [(''interface.privatekey'', wg_privkey), (''interface.address'', wg_address), (''interface.dns'', wg_dns),
     (''interface.listenport'', wg_port), (''peer.publickey'', wg_peerpub), (''peer.presharedkey'', wg_peerpsk),
     (''peer.endpoint'', wg_endpoint), (''peer.allowedips'', wg_allowed), (''peer.persistentkeepalive'', wg_keepalive)]"

lemma import_fields:
  assumes "(key, field) \<in> set wg_keys"
  shows "field (fst (import_file txt f)) = imported (parseWgConf txt) key (field f)"
  using assms by (auto simp: wg_keys_def import_file_def updateKeyActionButtons_def Let_def)

definition sample_conf :: "(string \<times> (string \<times> string) list) list" where
  "sample_conf = [(''Interface'', [(''PrivateKey'', ''AbC+d/0=''), (''Address'', ''10.0.0.2/32''), (''MTU'', ''1380'')]),
     (''Peer'', [(''PublicKey'', ''Zz=''), (''AllowedIPs'', ''10.0.0.0/24'')])]"

definition blank_wg :: wg_form where
  "blank_wg = \<lparr>wg_enabled = False, wg_privkey = [], wg_localpub = [], wg_peerpsk = [], wg_address = [], wg_port = [], wg_dns = [],
     wg_endpoint = [], wg_provision_url = [], wg_provision_peer = [], wg_provision_token = [], wg_peerpub = [], wg_mtu = [],
     wg_keepalive = [], wg_allowed = [], privkey_visible = False, peerpsk_visible = False, wgStatus = jint 0, wgSupported = True,
     wg_toggle_disabled = False, wg_hidden = False\<rparr>"

lemma sample_conf_ok: "conf_ok sample_conf" by code_simp

lemma sample_conf_key: "map_of (rev (conf_entries sample_conf)) ''interface.privatekey'' = Some ''AbC+d/0=''" by code_simp

section \<open>Keys are hidden while empty\<close>

text \<open>
  An empty key is never in clear. Every operation keeps this, so that the \<open>updateKeyActionButtons\<close> inside the page's
  \<open>toggleBusy\<close> changes nothing where it is not written out.
\<close>

definition keys_hidden :: "wg_form \<Rightarrow> bool" where
  "keys_hidden f \<longleftrightarrow> (privkey_visible f \<longrightarrow> trim (wg_privkey f) \<noteq> []) \<and> (peerpsk_visible f \<longrightarrow> trim (wg_peerpsk f) \<noteq> [])"

lemma keys_hidden_update: "keys_hidden f \<Longrightarrow> updateKeyActionButtons f = f"
  by (auto simp: keys_hidden_def updateKeyActionButtons_def)

lemma update_keys_hidden [simp]: "keys_hidden (updateKeyActionButtons f)"
  by (simp add: keys_hidden_def updateKeyActionButtons_def)

lemma keys_hidden_fill: "keys_hidden f \<Longrightarrow> keys_hidden (wg_fill d f)"
  by (simp add: wg_fill_def) (simp add: keys_hidden_def)

lemma keys_hidden_settle: "keys_hidden (form (fst (keys_settle action out p)))"
  by (simp add: keys_settle_def Let_def split: prod.split)

lemma keys_hidden_click:
  "keys_hidden (form p) \<Longrightarrow> keys_hidden (form (fst (handleKeyAction action p)))"
  by (simp add: handleKeyAction_def Let_def generateWireGuardKeys_def save_start_def toggleBusy_def)

lemma keys_hidden_import: "keys_hidden (fst (import_file txt f))"
  by (simp add: import_file_def Let_def)

lemma keys_hidden_toggle: "keys_hidden (form p) \<Longrightarrow> keys_hidden (form (fst (toggle_settle out p)))"
  by (auto simp: toggle_settle_def toggle_result_def updateWgControl_def keys_hidden_def Let_def
      split: outcome.split option.split prod.split)

section \<open>The form keeps the contract\<close>

text \<open>The camera's answer also says that the tunnel is supported.\<close>

definition with_support :: "js \<Rightarrow> js" where
  "with_support d = (case d of JObj kvs \<Rightarrow> JObj ((''wg_supported'', JBool True) # kvs) | _ \<Rightarrow> d)"

interpretation wg_page: free_form wg_fill wg_payload "\<lambda>_. True" with_support
  by unfold_locales
    (simp_all add: wg_payload_def wg_fill_def with_support_def field_of_text updateKeyActionButtons_def updateWgControl_def)

section \<open>Properties\<close>

text \<open>
  C15. A configuration file is imported as it says: for every file in the format of \<open>wg-quick\<close> (any sections, names in any letter case, values
  with equals signs, blanks or number signs inside) each of the nine fields the page imports shows the value of the last entry with its
  section and key, and keeps its own where the file has none.\<close>

theorem wg_import_recovers:
  assumes "conf_ok secs" "(key, field) \<in> set wg_keys"
  shows "field (fst (import_file (conf_text secs) f)) = case_option (field f) (\<lambda>v. v) (map_of (rev (conf_entries secs)) key)"
  unfolding import_fields [OF assms(2)] by (rule imported_printed [OF assms(1)])

theorem wg_import_recovers_witness: "wg_privkey (fst (import_file (conf_text sample_conf) blank_wg)) = ''AbC+d/0=''"
  using wg_import_recovers [OF sample_conf_ok, of "''interface.privatekey''" wg_privkey blank_wg] by (simp add: wg_keys_def sample_conf_key)

text \<open>
  The MTU of an imported file is dropped: the parser reads the entry, but no file changes the MTU field of the form.\<close>

theorem wg_import_loses_mtu:
  assumes "conf_value v"
  shows "parseWgConf (conf_text [(''Interface'', [(''MTU'', v)])]) ''interface.mtu'' = Some v \<and>
         wg_mtu (fst (import_file txt f)) = wg_mtu f"
proof -
  have "conf_ok [(''Interface'', [(''MTU'', v)])]"
    using assms by (simp add: conf_ok_def conf_name_def word_char_def is_digit_def)
  moreover have "to_lower ''Interface'' @ ''.'' @ to_lower ''MTU'' = ''interface.mtu''" by code_simp
  ultimately show ?thesis
    by (simp add: parse_printed import_file_def updateKeyActionButtons_def Let_def conf_entries_def section_entries_def)
qed

theorem wg_import_loses_mtu_witness:
  "parseWgConf (conf_text [(''Interface'', [(''MTU'', ''1380'')])]) ''interface.mtu'' = Some ''1380'' \<and>
   wg_mtu (fst (import_file (conf_text [(''Interface'', [(''MTU'', ''1380'')])]) blank_wg)) = []"
proof -
  have "conf_value ''1380''" by code_simp
  from wg_import_loses_mtu [OF this, of "conf_text [(''Interface'', [(''MTU'', ''1380'')])]" blank_wg]
  show ?thesis by (simp add: blank_wg_def)
qed

end
