(* ===== verification/Network_Page.thy ===== *)
theory Network_Page
  imports Settings_Pages Url "HOL-Library.Word"
begin

unbundle bit_operations_syntax

text \<open>
  The network page (\<open>config-network.js\<close>): the form with its interface cards, the generation of hardware addresses (random bytes
  are an argument), load and save on the protocol of the settings pages, and the scan for wireless networks. The controls of
  a card are those of \<open>config-network.html\<close>: the switch, the static address fields, and the others.
\<close>

section \<open>Hardware addresses\<close>

definition mac_byte :: "nat \<Rightarrow> 8 word \<Rightarrow> 8 word" where
  "mac_byte i b = (if i = 0 then (b OR 0x02) AND 0xFE else b)"

definition byte_text :: "8 word \<Rightarrow> string" where
  "byte_text b = pad_start 2 (CHR ''0'') (to_upper (to_hex (unat b)))"

fun mac_loop :: "nat \<Rightarrow> 8 word list \<Rightarrow> string" where
  "mac_loop i [] = []"
| "mac_loop i (b # bs) = byte_text (mac_byte i b) @ (if i < 5 then '':'' else []) @ mac_loop (Suc i) bs"

text \<open>\<open>bs\<close>: the six values of \<open>Math.floor(Math.random() * 256)\<close>.\<close>

definition generateMacAddress :: "8 word list \<Rightarrow> string" where
  "generateMacAddress bs = mac_loop 0 bs"

section \<open>Interface cards\<close>

record iface_card =
  ic_iface :: string
  ic_enabled :: bool
  ic_dhcp :: bool
  ic_ipv6 :: bool
  ic_mac :: string
  ic_address :: string
  ic_netmask :: string
  ic_gateway :: string
  ic_broadcast :: string
  ic_off :: bool \<comment> \<open>class \<open>iface-disabled\<close>\<close>
  ic_body_disabled :: bool
  ic_static_disabled :: bool
  ic_link :: "string \<times> string" \<comment> \<open>text and class of the badge\<close>

definition toggleCardAvailability :: "bool \<Rightarrow> iface_card \<Rightarrow> iface_card" where
  "toggleCardAvailability en c = c\<lparr>ic_off := \<not> en, ic_body_disabled := \<not> en, ic_static_disabled := \<not> en\<rparr>"

definition toggleDhcpFields :: "bool \<Rightarrow> iface_card \<Rightarrow> iface_card" where
  "toggleDhcpFields dhcp c = c\<lparr>ic_static_disabled := (dhcp \<or> ic_off c)\<rparr>"

definition updateLinkStatus :: "js \<Rightarrow> iface_card \<Rightarrow> iface_card" where
  "updateLinkStatus d c =
     c\<lparr>ic_link := (if is_true (getp d ''link_up'') then (''Link up'', ''text-bg-success'') else (''Link down'', ''text-bg-secondary''))\<rparr>"

text \<open>The result says whether the page complained with an alert box.\<close>

definition handleMacGeneration :: "8 word list \<Rightarrow> iface_card \<Rightarrow> iface_card \<times> effect list" where
  "handleMacGeneration bs c =
     (if trim (ic_mac c) \<noteq> [] then (c, [AlertBox [JStr ''Clear the MAC address before generating a new value.'']])
      else (c\<lparr>ic_mac := generateMacAddress bs\<rparr>, []))"

definition collectInterfacePayload :: "iface_card \<Rightarrow> js" where
  "collectInterfacePayload c =
     JObj [(''enabled'', JBool (ic_enabled c)), (''dhcp'', JBool (ic_dhcp c)), (''ipv6'', JBool (ic_ipv6 c)), (''mac'', JStr (trim (ic_mac c))),
       (''address'', JStr (trim (ic_address c))), (''netmask'', JStr (trim (ic_netmask c))), (''gateway'', JStr (trim (ic_gateway c))),
       (''broadcast'', JStr (trim (ic_broadcast c)))]"

definition applyInterfaceState :: "js \<Rightarrow> iface_card \<Rightarrow> iface_card" where
  "applyInterfaceState d c =
     (let c1 = c\<lparr>ic_enabled := is_true (getp d ''enabled''), ic_dhcp := is_true (getp d ''dhcp''), ic_ipv6 := is_true (getp d ''ipv6''),
            ic_mac := field_of d ''mac'', ic_address := field_of d ''address'', ic_netmask := field_of d ''netmask'',
            ic_gateway := field_of d ''gateway'', ic_broadcast := field_of d ''broadcast''\<rparr>
      in updateLinkStatus d (toggleDhcpFields (ic_dhcp c1) (toggleCardAvailability (ic_enabled c1) c1)))"

definition enabled_change :: "bool \<Rightarrow> iface_card \<Rightarrow> iface_card" where
  "enabled_change v c = (let c1 = c\<lparr>ic_enabled := v\<rparr> in toggleDhcpFields (ic_dhcp c1) (toggleCardAvailability v c1))"

definition dhcp_change :: "bool \<Rightarrow> iface_card \<Rightarrow> iface_card" where
  "dhcp_change v c = toggleDhcpFields v (c\<lparr>ic_dhcp := v\<rparr>)"

section \<open>The form\<close>

record network_form =
  nf_hostname :: string
  nf_dns_primary :: string
  nf_dns_secondary :: string
  nf_ssid :: string
  nf_pass :: string
  nf_bssid :: string
  nf_ap :: bool
  nf_cards :: "iface_card list"
  nf_shown :: bool

definition network_url :: string where "network_url = ''/x/json-config-network.cgi''"

text \<open>\<open>(data.a && data.a.b) || ""\<close> assigned to a text field.\<close>

definition sub_field :: "js \<Rightarrow> string \<Rightarrow> string \<Rightarrow> string" where
  "sub_field data a b = (let v = and_prop (getp data a) b in if truthy v then js_text v else [])"

definition fill_cards :: "js \<Rightarrow> iface_card list \<Rightarrow> iface_card list" where
  "fill_cards interfaces cs =
     (if truthy interfaces then map (\<lambda>c. applyInterfaceState (js_or (getp interfaces (ic_iface c)) (JObj [])) c) cs else cs)"

definition network_fill :: "js \<Rightarrow> network_form \<Rightarrow> network_form" where
  "network_fill d f =
     f\<lparr>nf_hostname := field_of d ''hostname'', nf_dns_primary := sub_field d ''dns'' ''primary'', nf_dns_secondary := sub_field d ''dns'' ''secondary'',
       nf_ssid := sub_field d ''wifi'' ''ssid'', nf_pass := sub_field d ''wifi'' ''password'', nf_bssid := sub_field d ''wifi'' ''bssid'',
       nf_ap := (truthy (getp d ''wifi_ap'') \<and> is_true (getp (getp d ''wifi_ap'') ''enabled'')),
       nf_cards := fill_cards (getp d ''interfaces'') (nf_cards f), nf_shown := True\<rparr>"

definition buildPayload :: "network_form \<Rightarrow> js" where
  "buildPayload f =
     JObj [(''hostname'', JStr (trim (nf_hostname f))),
       (''dns'', JObj [(''primary'', JStr (trim (nf_dns_primary f))), (''secondary'', JStr (trim (nf_dns_secondary f)))]),
       (''wifi'', JObj [(''ssid'', JStr (trim (nf_ssid f))), (''password'', JStr (trim (nf_pass f))), (''bssid'', JStr (trim (nf_bssid f)))]),
       (''wifi_ap'', JObj [(''enabled'', JBool (nf_ap f))]),
       (''interfaces'', JObj (map (\<lambda>c. (ic_iface c, collectInterfacePayload c)) (nf_cards f)))]"

definition network_load_settle :: "outcome \<Rightarrow> network_form settings_page \<Rightarrow> network_form settings_page \<times> effect list" where
  "network_load_settle = load_settle network_fill ''Failed to load network settings'' ''Unable to load network settings.'' False"

definition network_submit :: "network_form settings_page \<Rightarrow> network_form settings_page \<times> effect list" where
  "network_submit p = save_start network_url (buildPayload (form p)) p"

text \<open>The load after a save shows the busy bar again.\<close>

definition network_save_settle :: "outcome \<Rightarrow> network_form settings_page \<Rightarrow> network_form settings_page \<times> bool \<times> effect list" where
  "network_save_settle out p =
     (let (q, again, fx) = save_settle network_url
            (\<lambda>_. Some (JStr ''Network settings updated. A reboot may be required to apply everything.''))
            ''Failed to save network settings'' ''Failed to save network settings.'' out p
      in (if again then toggleBusy True q else q, again, fx))"

definition network_saved_loaded :: "outcome \<Rightarrow> network_form settings_page \<Rightarrow> network_form settings_page \<times> effect list" where
  "network_saved_loaded out p = (let (q, fx) = network_load_settle out p in (toggleBusy False q, fx))"

definition network_reload_settle :: "outcome \<Rightarrow> network_form settings_page \<Rightarrow> network_form settings_page \<times> effect list" where
  "network_reload_settle = reload_settle network_fill ''Failed to load network settings'' ''Unable to load network settings.''
     ''Network settings reloaded from camera.''"

section \<open>Scanning\<close>

record wifi_scan =
  wifiScanInProgress :: bool
  wifiNetworksScanned :: bool
  scan_disabled :: bool
  ssid_disabled :: bool
  ssid_placeholder :: string
  originalPlaceholder :: string
  ssid_list :: bool \<comment> \<open>the attribute \<open>list\<close> of the name field\<close>
  scan_options :: "(js \<times> nat \<times> js) list" \<comment> \<open>name, bars (1 to 4) and security\<close>

definition above :: "js \<Rightarrow> int \<Rightarrow> bool" where
  "above v i = (case to_number v of Fin q \<Rightarrow> q > of_int i | PosInf \<Rightarrow> True | _ \<Rightarrow> False)"

definition signalBars :: "js \<Rightarrow> nat" where
  "signalBars v = (if above v (- 50) then 4 else if above v (- 60) then 3 else if above v (- 70) then 2 else 1)"

definition ssid_input :: "string \<Rightarrow> wifi_scan \<Rightarrow> wifi_scan" where
  "ssid_input v w = w\<lparr>ssid_list := (wifiNetworksScanned w \<and> 2 \<le> length v)\<rparr>"

definition scan_click :: "wifi_scan \<Rightarrow> wifi_scan \<times> effect list" where
  "scan_click w =
     (if wifiScanInProgress w then (w, [])
      else (w\<lparr>wifiScanInProgress := True, scan_disabled := True, ssid_disabled := True, originalPlaceholder := ssid_placeholder w,
              ssid_placeholder := ''Scanning for networks...''\<rparr>, [Send (Get ''/x/wifi-scan.cgi'')]))"

fun add_options :: "js list \<Rightarrow> js list \<Rightarrow> (js \<times> nat \<times> js) list" where
  "add_options seen [] = []"
| "add_options seen (n # ns) =
     (if getp n ''ssid'' \<in> set seen then add_options seen ns
      else (getp n ''ssid'', signalBars (getp n ''signal''), getp n ''security'') # add_options (getp n ''ssid'' # seen) ns)"

definition named :: "js \<Rightarrow> bool" where
  "named n \<longleftrightarrow> truthy n \<and> truthy (getp n ''ssid'')"

text \<open>\<open>data.networks\<close> without \<open>filter\<close> throws, after the list was cleared.\<close>

definition scan_answer :: "js \<Rightarrow> wifi_scan \<Rightarrow> wifi_scan \<times> bool" where
  "scan_answer d w =
     (if nullish d then (w, True)
      else if truthy (getp d ''error'') then (w, False)
      else let w1 = w\<lparr>scan_options := []\<rparr>; nets = getp d ''networks''
           in if \<not> truthy nets then (w1, False)
              else case nets of
                JArr ns \<Rightarrow> (w1\<lparr>scan_options := add_options [] (filter named ns), wifiNetworksScanned := True,
                              ssid_placeholder := ''Start typing to select a network''\<rparr>, False)
              | _ \<Rightarrow> (w1, True))"

definition scan_failed :: "effect list" where
  "scan_failed = [Notice ''danger'' [JStr ''Failed to scan networks. Please try again.''] 6000]"

definition scan_finally :: "wifi_scan \<Rightarrow> wifi_scan" where
  "scan_finally w =
     w\<lparr>wifiScanInProgress := False, scan_disabled := False, ssid_disabled := False,
       ssid_placeholder := (if wifiNetworksScanned w then ssid_placeholder w else originalPlaceholder w)\<rparr>"

text \<open>\<open>aborted\<close>: the rejection is an \<open>AbortError\<close>.\<close>

definition scan_settle :: "bool \<Rightarrow> outcome \<Rightarrow> wifi_scan \<Rightarrow> wifi_scan \<times> effect list" where
  "scan_settle aborted out w =
     (case out of
        Rejected m \<Rightarrow> (scan_finally w, if aborted \<or> m = ''Failed to fetch'' then [] else scan_failed)
      | Answer r \<Rightarrow>
          (case parsed r of
             None \<Rightarrow> (scan_finally w, scan_failed)
           | Some d \<Rightarrow> (let (w1, threw) = scan_answer d w in (scan_finally w1, if threw then scan_failed else []))))"

section \<open>Addresses are read back\<close>

fun read_byte :: "string \<Rightarrow> 8 word option" where
  "read_byte [a, b] = (case (unhex a, unhex b) of (Some h, Some l) \<Rightarrow> Some (of_nat (16 * h + l)) | _ \<Rightarrow> None)"
| "read_byte _ = None"

definition read_mac :: "string \<Rightarrow> 8 word list option" where
  "read_mac s = those (map read_byte (split_on (CHR '':'') s))"

lemma byte_unat: "unat (b :: 8 word) < 256"
  using unsigned_less [of b, where ?'a = nat] by simp

lemma byte_text_digits:
  "byte_text b = [hex_digit (unat b div 16), hex_digit (unat b mod 16)]"
proof -
  have n: "unat b < 256" using byte_unat [of b] by simp
  then have d: "unat b div 16 < 16" by simp
  show ?thesis
  proof (cases "unat b < 16")
    case True
    moreover have "hex_digit 0 = CHR ''0''" by code_simp
    ultimately show ?thesis
      by (simp add: byte_text_def to_hex.simps [of "unat b"] to_upper_def upper_hex_digit pad_start_def)
  next
    case False
    then show ?thesis
      using d by (simp add: byte_text_def to_hex.simps [of "unat b"] to_hex.simps [of "unat b div 16"] to_upper_def upper_hex_digit pad_start_def)
  qed
qed

lemma read_byte_text: "read_byte (byte_text b) = Some b"
proof -
  have "unat b div 16 < 16" using byte_unat [of b] by simp
  moreover have "16 * (unat b div 16) + unat b mod 16 = unat b" by simp
  moreover have "(of_nat (unat b) :: 8 word) = b" by simp
  ultimately show ?thesis by (simp add: byte_text_digits unhex_hex_digit del: of_nat_add of_nat_mult)
qed

lemma byte_text_no_colon: "CHR '':'' \<notin> set (byte_text b)"
proof -
  have u: "unhex (CHR '':'') = None" by code_simp
  have "CHR '':'' \<noteq> hex_digit n" if "n < 16" for n
    using unhex_hex_digit [OF that] u by (metis option.distinct(1))
  moreover have "unat b div 16 < 16" using byte_unat [of b] by simp
  ultimately show ?thesis by (simp add: byte_text_digits)
qed

lemma mac_split:
  assumes "length bs = 6"
  shows "split_on (CHR '':'') (generateMacAddress bs) = map byte_text (mac_byte 0 (hd bs) # tl bs)"
proof -
  obtain a b c d e f where "bs = [a, b, c, d, e, f]" using assms by (auto simp: length_Suc_conv numeral_eq_Suc)
  then show ?thesis
    by (simp add: generateMacAddress_def mac_byte_def split_on_append_sep split_on_plain byte_text_no_colon)
qed

lemma those_Some: "those (map (\<lambda>x. Some (g x)) xs) = Some (map g xs)"
  by (induction xs) simp_all

lemma mac_byte_bits:
  "bit (mac_byte 0 b) 1" "\<not> bit (mac_byte 0 b) 0" "2 \<le> n \<Longrightarrow> bit (mac_byte 0 b) n = bit b n"
proof -
  have fe: "(0xFE :: 8 word) = NOT 1" by simp
  have two: "(0x02 :: 8 word) = push_bit 1 1" by simp
  show "bit (mac_byte 0 b) 1" "\<not> bit (mac_byte 0 b) 0" "2 \<le> n \<Longrightarrow> bit (mac_byte 0 b) n = bit b n"
    unfolding mac_byte_def fe two by (auto simp: bit_simps dest: bit_imp_le_length)
qed

section \<open>Cards and options\<close>

text \<open>The static fields are usable exactly on an enabled interface without DHCP, the others on an enabled one.\<close>

definition card_ok :: "iface_card \<Rightarrow> bool" where
  "card_ok c \<longleftrightarrow> ic_off c = (\<not> ic_enabled c) \<and> ic_body_disabled c = (\<not> ic_enabled c) \<and> ic_static_disabled c = (ic_dhcp c \<or> \<not> ic_enabled c)"

lemmas card_defs = toggleCardAvailability_def toggleDhcpFields_def updateLinkStatus_def Let_def

lemma card_ok_apply: "card_ok (applyInterfaceState d c)"
  by (simp add: card_ok_def applyInterfaceState_def card_defs)

lemma card_ok_enabled: "card_ok (enabled_change v c)"
  by (simp add: card_ok_def enabled_change_def card_defs)

lemma card_ok_dhcp: "card_ok c \<Longrightarrow> card_ok (dhcp_change v c)"
  by (simp add: card_ok_def dhcp_change_def card_defs)

lemma card_ok_mac: "card_ok c \<Longrightarrow> card_ok (fst (handleMacGeneration bs c))"
  by (simp add: card_ok_def handleMacGeneration_def)

lemma card_refill:
  "collectInterfacePayload (applyInterfaceState (collectInterfacePayload c) c) = collectInterfacePayload c"
  "ic_iface (applyInterfaceState d c) = ic_iface c"
  by (simp_all add: collectInterfacePayload_def applyInterfaceState_def card_defs field_of_text is_true_def)

lemma add_options_names:
  "set (map fst (add_options seen ns)) = (\<lambda>n. getp n ''ssid'') ` set ns - set seen" "distinct (map fst (add_options seen ns))"
proof (induction seen ns rule: add_options.induct)
  case (2 seen n ns)
  { case 1 then show ?case using 2 by auto }
  { case 2 then show ?case using "2.IH" by (auto simp: image_iff) }
qed simp_all

lemma scan_settle_free:
  "\<not> wifiScanInProgress (fst (scan_settle aborted out w)) \<and> \<not> scan_disabled (fst (scan_settle aborted out w)) \<and> \<not> ssid_disabled (fst (scan_settle aborted out w))"
  by (simp add: scan_settle_def scan_finally_def split: outcome.split option.split prod.split)

text \<open>After one successful scan a scan that fails leaves the name field with the text of a running scan.\<close>

lemma failed_rescan_placeholder:
  assumes "wifiNetworksScanned w" "\<not> wifiScanInProgress w"
  shows "ssid_placeholder (fst (scan_settle aborted (Rejected m) (fst (scan_click w)))) = ''Scanning for networks...''"
  using assms by (simp add: scan_settle_def scan_finally_def scan_click_def)

definition clean_network :: "network_form \<Rightarrow> bool" where
  "clean_network f \<longleftrightarrow> distinct (map ic_iface (nf_cards f))"

lemma fill_cards_stored:
  assumes "distinct (map ic_iface cs)"
  shows "map (\<lambda>c. (ic_iface c, collectInterfacePayload c)) (fill_cards (JObj (map (\<lambda>c. (ic_iface c, collectInterfacePayload c)) cs)) cs) =
     map (\<lambda>c. (ic_iface c, collectInterfacePayload c)) cs"
proof -
  have t: "truthy (collectInterfacePayload c)" for c by (simp add: collectInterfacePayload_def)
  have "map_of (map (\<lambda>c. (ic_iface c, collectInterfacePayload c)) cs) (ic_iface c) = Some (collectInterfacePayload c)" if "c \<in> set cs" for c
    by (rule map_of_is_SomeI) (use that assms in \<open>simp_all add: comp_def\<close>)
  then have "js_or (getp (JObj (map (\<lambda>c. (ic_iface c, collectInterfacePayload c)) cs)) (ic_iface c)) (JObj []) = collectInterfacePayload c" if "c \<in> set cs" for c
    using that by (simp add: js_or_def t)
  then show ?thesis by (simp add: fill_cards_def card_refill)
qed

lemma sub_field_text: "map_of kvs a = Some (JObj sub) \<Longrightarrow> map_of sub b = Some (JStr s) \<Longrightarrow> sub_field (JObj kvs) a b = s"
  by (simp add: sub_field_def and_prop_def)

lemma jsonify_card: "jsonify (collectInterfacePayload c) = collectInterfacePayload c"
  and card_not_undef: "collectInterfacePayload c \<noteq> JUndef"
  by (simp_all add: collectInterfacePayload_def)

interpretation network: settings_form network_fill buildPayload clean_network "\<lambda>d. d"
proof
  fix f
  assume "clean_network f"
  then show "buildPayload (network_fill (buildPayload f) f) = buildPayload f"
    using fill_cards_stored [of "nf_cards f"]
    by (simp add: clean_network_def buildPayload_def network_fill_def field_of_text sub_field_text is_true_def)
  show "jsonify (buildPayload f) = buildPayload f"
    by (simp add: buildPayload_def jsonify_card filter_map comp_def card_not_undef)
qed

section \<open>Properties\<close>

text \<open>
  C37. A generated hardware address is a local unicast address: whatever the six random bytes, the text is read back as six bytes, of which the
  first has the local bit set, the group bit clear and its other bits as drawn, and the others are the bytes drawn.\<close>

theorem mac_local_unicast:
  assumes "length bs = 6"
  shows "\<exists>b. read_mac (generateMacAddress bs) = Some (b # tl bs) \<and> bit b 1 \<and> \<not> bit b 0 \<and> (\<forall>n\<ge>2. bit b n = bit (hd bs) n)"
proof -
  have "read_mac (generateMacAddress bs) = Some (mac_byte 0 (hd bs) # tl bs)"
    by (simp add: read_mac_def mac_split [OF assms] comp_def read_byte_text those_Some [where g = id, simplified])
  then show ?thesis using mac_byte_bits [where b = "hd bs"] by blast
qed

theorem mac_local_unicast_witness:
  "\<exists>b. read_mac (generateMacAddress [1, 2, 3, 0xAB, 0, 255]) = Some (b # [2, 3, 0xAB, 0, 255]) \<and> bit b 1 \<and> \<not> bit b 0 \<and>
     (\<forall>n\<ge>2. bit b n = bit (1 :: 8 word) n)"
  using mac_local_unicast [of "[1, 2, 3, 0xAB, 0, 255]"] by simp

text \<open>
  The controls of an interface agree with its switches: after loading and after every change of a switch, the static fields can be edited exactly on
  an enabled interface without DHCP, and generating an address changes none of this.\<close>

theorem cards_follow_switches:
  "card_ok (fold (\<lambda>ch c. case ch of Inl v \<Rightarrow> enabled_change v c | Inr v \<Rightarrow> dhcp_change v c) chs (applyInterfaceState d c))"
proof -
  have "card_ok c \<Longrightarrow> card_ok (fold (\<lambda>ch c. case ch of Inl v \<Rightarrow> enabled_change v c | Inr v \<Rightarrow> dhcp_change v c) chs c)" for c
    by (induction chs arbitrary: c) (simp_all add: card_ok_enabled card_ok_dhcp split: sum.split)
  then show ?thesis by (simp add: card_ok_apply)
qed

text \<open>
  A scan lists every named network once: an answered scan offers exactly the names found, without repetitions, and leaves no control disabled,
  however it ends.\<close>

theorem scan_lists_once:
  assumes "parsed r = Some (JObj [(''networks'', JArr ns)])"
  shows "set (map fst (scan_options (fst (scan_settle aborted (Answer r) w)))) = (\<lambda>n. getp n ''ssid'') ` {n \<in> set ns. named n} \<and>
         distinct (map fst (scan_options (fst (scan_settle aborted (Answer r) w)))) \<and>
         \<not> ssid_disabled (fst (scan_settle aborted out w))"
  using assms add_options_names [of "[]" "filter named ns"] scan_settle_free [of aborted out w]
  by (simp add: scan_settle_def scan_answer_def scan_finally_def nullish_def)

end
