(* ===== verification/Zerotier_Page.thy ===== *)
theory Zerotier_Page
  imports Page_State "HOL-Library.AList"
begin

text \<open>
  The ZeroTier page (\<open>config-zerotier.js\<close>): loading the state of the network, connecting with a poll every two seconds, disconnecting,
  adding and removing the network. Times are \<open>Date.now()\<close> values, given to every operation that reads the clock. The list of networks
  starts with the content of the page, which holds the add button (\<open>config-zerotier.html\<close>); a rendered list replaces it.
\<close>

section \<open>State\<close>

record network =
  net_name :: js
  on_boot :: bool

text \<open>A rendered network.\<close>

record card =
  card_id :: string
  card_title :: string
  card_status :: string
  card_on_boot :: bool
  card_warning :: bool
  card_disabled :: bool
  card_label :: string
  card_spinner :: bool
  card_removable :: bool

record zt_page =
  networks :: "(string \<times> network) list"
  ztStatus :: js
  connectionStartTime :: "int option"
  isConnecting :: bool
  isDisconnecting :: bool
  polling :: bool \<comment> \<open>\<open>pollInterval\<close> is set and its interval armed\<close>
  shown :: "card list option" \<comment> \<open>the rendered list; \<open>None\<close> while the page's own content is there\<close>
  add_hidden :: "bool option" \<comment> \<open>the add button; \<open>None\<close> when it is not in the document\<close>
  unsupported_shown :: bool
  new_network_id :: string
  new_network_autostart :: bool
  modal_open :: bool
  zt_reload_disabled :: bool
  zt_busy :: busy_bar

definition API_URL :: string where "API_URL = ''/x/json-config-zerotier.cgi''"

definition init_zt :: zt_page where
  "init_zt = \<lparr>networks = [],
     ztStatus = JObj [(''supported'', JBool False), (''running'', JBool False), (''online'', JBool False)],
     connectionStartTime = None, isConnecting = False, isDisconnecting = False, polling = False, shown = None,
     add_hidden = Some False, unsupported_shown = False, new_network_id = [], new_network_autostart = False, modal_open = False,
     zt_reload_disabled = False, zt_busy = idle_bar\<rparr>"

section \<open>Rendering\<close>

definition timed_out :: "int \<Rightarrow> zt_page \<Rightarrow> bool" where
  "timed_out now s = (case connectionStartTime s of None \<Rightarrow> False | Some t \<Rightarrow> t \<noteq> 0 \<and> now - t > 30000)"

definition zt :: "string \<Rightarrow> zt_page \<Rightarrow> js" where
  "zt key s = getp (ztStatus s) key"

definition isConnected :: "zt_page \<Rightarrow> bool" where
  "isConnected s \<longleftrightarrow> truthy (zt ''running'' s) \<and> truthy (zt ''online'' s) \<and> truthy (zt ''networkStatus'' s)"

definition unauthorized :: "js \<Rightarrow> bool" where
  "unauthorized v \<longleftrightarrow> v = JStr ''ACCESS_DENIED'' \<or> v = JStr ''REQUESTING_CONFIGURATION''"

definition clear_flags :: "int \<Rightarrow> zt_page \<Rightarrow> zt_page" where
  "clear_flags now s =
     (let s1 = (if isDisconnecting s \<and> \<not> truthy (zt ''running'' s) then s\<lparr>isDisconnecting := False\<rparr> else s)
      in if isConnecting s1 \<and> (zt ''networkStatus'' s1 = JStr ''OK'' \<or> unauthorized (zt ''networkStatus'' s1) \<or> timed_out now s1)
         then s1\<lparr>isConnecting := False\<rparr> else s1)"

definition in_quotes :: "string \<Rightarrow> string" where "in_quotes t = CHR 0x22 # t @ [CHR 0x22]"

definition authorize_link :: "string \<Rightarrow> string" where
  "authorize_link nwid = ''<a href='' @ in_quotes (''https://central.zerotier.com/network/'' @ nwid) @ '' target='' @ in_quotes ''_blank'' @
     '' rel='' @ in_quotes ''noopener'' @ ''>Authorize in ZeroTier Central</a>''"

definition retry_link :: "string \<Rightarrow> string" where
  "retry_link nwid = ''Network may not exist or be unreachable. <a href='' @ in_quotes ''javascript:void(0)'' @ '' class='' @
     in_quotes ''retry-connection'' @ '' data-nwid='' @ in_quotes nwid @ ''>Retry</a>''"

text \<open>The status line, and whether the branch ends the measured time of connecting.\<close>

definition status_line :: "int \<Rightarrow> string \<Rightarrow> zt_page \<Rightarrow> string \<times> bool" where
  "status_line now nwid s =
     (let networkStatus = js_or (zt ''networkStatus'' s) (JStr []); ip = js_or (zt ''ip'' s) (JStr [])
      in if isConnected s \<and> networkStatus = JStr ''OK'' then (if truthy ip then ''IP: '' @ js_text ip else [], True)
         else if isConnected s \<and> unauthorized networkStatus then (authorize_link nwid, False)
         else if truthy (zt ''running'' s) \<and> truthy (zt ''online'' s) \<and> \<not> truthy networkStatus then (''Establishing connection'', False)
         else if truthy (zt ''running'' s) \<and> \<not> truthy (zt ''online'' s) then (''Initializing service'', False)
         else if timed_out now s then (retry_link nwid, True)
         else if isConnected s then (''Initializing'', False)
         else ([], True))"

definition toggle_label :: "zt_page \<Rightarrow> string" where
  "toggle_label s =
     (if isDisconnecting s then ''Disconnecting...''
      else if isConnecting s
      then if truthy (zt ''running'' s) \<and> truthy (zt ''online'' s) then ''Joining network...''
           else if truthy (zt ''running'' s) then ''Initializing...'' else ''Connecting...''
      else if isConnected s then ''Disconnect'' else ''Connect'')"

definition display_title :: "string \<Rightarrow> network \<Rightarrow> zt_page \<Rightarrow> string" where
  "display_title nwid n s =
     (let live = js_or (zt ''networkName'' s) (net_name n)
      in if truthy live \<and> live \<noteq> JStr nwid then nwid @ '' ('' @ js_text live @ '')'' else nwid)"

definition render_one :: "int \<Rightarrow> string \<times> network \<Rightarrow> card list \<times> zt_page \<Rightarrow> card list \<times> zt_page" where
  "render_one now entry acc =
     (let (nwid, n) = entry; (cards, s) = acc;
          s1 = clear_flags now s;
          (line, restart) = status_line now nwid s1;
          s2 = (if restart then s1\<lparr>connectionStartTime := None\<rparr> else s1);
          busy = (isConnecting s2 \<or> isDisconnecting s2)
      in (cards @ [\<lparr>card_id = nwid, card_title = display_title nwid n s2, card_status = (if line = [] then ''Not connected'' else line),
                    card_on_boot = on_boot n, card_warning = isConnected s2, card_disabled = busy, card_label = toggle_label s2,
                    card_spinner = busy, card_removable = (\<not> isConnected s2 \<and> \<not> isConnecting s2)\<rparr>], s2))"

definition renderNetworks :: "int \<Rightarrow> zt_page \<Rightarrow> zt_page" where
  "renderNetworks now s =
     (if networks s = [] then s
      else let (cards, s1) = fold (render_one now) (networks s) ([], s)
           in s1\<lparr>shown := Some cards, add_hidden := None\<rparr>)"

definition updateUI :: "int \<Rightarrow> zt_page \<Rightarrow> zt_page" where
  "updateUI now s =
     (if \<not> truthy (zt ''supported'' s) then s\<lparr>unsupported_shown := True\<rparr>
      else let s1 = renderNetworks now s
           in s1\<lparr>add_hidden := map_option (\<lambda>_. networks s1 \<noteq> []) (add_hidden s1)\<rparr>)"

section \<open>Loading\<close>

text \<open>The message of \<open>new Error(v)\<close>.\<close>

definition error_text :: "js \<Rightarrow> string" where
  "error_text v = (if v = JUndef then [] else js_text v)"

text \<open>An answer: its error message or its value.\<close>

definition read_zt :: "string \<Rightarrow> (js \<Rightarrow> js) \<Rightarrow> outcome \<Rightarrow> string + js" where
  "read_zt refused message out =
     (case out of
        Rejected m \<Rightarrow> Inl m
      | Answer r \<Rightarrow>
          if \<not> resp_ok r then Inl refused
          else (case parsed r of
                  None \<Rightarrow> Inl ''SyntaxError''
                | Some d \<Rightarrow>
                    if nullish d then Inl ''TypeError''
                    else if truthy (getp d ''error'') then Inl (error_text (message (getp d ''error''))) else Inr d))"

definition networks_of :: "js \<Rightarrow> (string \<times> network) list" where
  "networks_of d =
     (let config = getp d ''config''
      in if truthy config \<and> truthy (getp config ''nwid'')
         then [(js_text (getp config ''nwid''),
                \<lparr>net_name = js_or (getp config ''network_name'') (getp config ''nwid''), on_boot = (getp config ''enabled'' = JBool True)\<rparr>)]
         else [])"

definition load_answer :: "outcome \<Rightarrow> string + js" where
  "load_answer = read_zt ''Failed to load configuration'' (\<lambda>e. js_or (getp e ''message'') (JStr ''Not connected''))"

definition loadData :: "effect list" where
  "loadData = [Send (Get API_URL)]"

definition status_of :: "js \<Rightarrow> js" where
  "status_of d = js_or (getp d ''status'') (JObj [(''supported'', JBool False)])"

definition loadData_settle :: "int \<Rightarrow> outcome \<Rightarrow> zt_page \<Rightarrow> zt_page \<times> effect list" where
  "loadData_settle now out s =
     (case load_answer out of
        Inl m \<Rightarrow> (s, [Overlay ''danger'' [JStr (''Error loading configuration: '' @ m)]])
      | Inr d \<Rightarrow> (updateUI now (s\<lparr>networks := networks_of d, ztStatus := status_of d\<rparr>), []))"

section \<open>Connecting\<close>

definition post_action :: "string \<Rightarrow> effect" where
  "post_action action = Send (PostJson API_URL (JObj [(''action'', JStr action)]))"

definition error_of :: "js \<Rightarrow> js" where "error_of e = getp e ''message''"

definition connectNetwork :: "int \<Rightarrow> zt_page \<Rightarrow> zt_page \<times> effect list" where
  "connectNetwork now s = (s\<lparr>isConnecting := True, connectionStartTime := Some now\<rparr>, [post_action ''start''])"

definition pollConnectionStatus :: "zt_page \<Rightarrow> zt_page" where
  "pollConnectionStatus s = s\<lparr>polling := True\<rparr>"

definition connect_settle :: "outcome \<Rightarrow> zt_page \<Rightarrow> zt_page \<times> effect list" where
  "connect_settle out s =
     (case read_zt ''Failed to connect'' error_of out of
        Inl m \<Rightarrow> (s\<lparr>isConnecting := False, connectionStartTime := None\<rparr>, Overlay ''danger'' [JStr (''Error: '' @ m)] # loadData)
      | Inr _ \<Rightarrow> (pollConnectionStatus s, [Overlay ''info'' [JStr ''Connecting to network...'']]))"

definition stop_polling :: "zt_page \<Rightarrow> zt_page" where
  "stop_polling s = s\<lparr>polling := False, connectionStartTime := None, isConnecting := False\<rparr>"

text \<open>
  A tick of the poll loads; its continuation reads the status after that load. \<open>now\<close> is the time of the rendering, \<open>later\<close> that of the
  check.
\<close>

definition poll_settle :: "int \<Rightarrow> int \<Rightarrow> outcome \<Rightarrow> zt_page \<Rightarrow> zt_page \<times> effect list" where
  "poll_settle now later out s =
     (let (s1, fx) = loadData_settle now out s
      in if zt ''networkStatus'' s1 = JStr ''OK'' then (stop_polling s1, fx @ [Overlay ''success'' [JStr ''Connected successfully!'']])
         else if timed_out later s1 then (stop_polling s1, fx @ loadData)
         else (s1, fx))"

definition refresh_tick :: "zt_page \<Rightarrow> effect list" where
  "refresh_tick s = (if truthy (zt ''running'' s) \<and> \<not> polling s then loadData else [])"

section \<open>Disconnecting\<close>

definition disconnectNetwork :: "zt_page \<Rightarrow> zt_page \<times> effect list" where
  "disconnectNetwork s = (s\<lparr>isDisconnecting := True, connectionStartTime := None\<rparr>, [post_action ''stop''])"

text \<open>The second result is whether the load is the one \<open>disconnectNetwork\<close> waits for.\<close>

definition disconnect_settle :: "outcome \<Rightarrow> zt_page \<Rightarrow> zt_page \<times> bool \<times> effect list" where
  "disconnect_settle out s =
     (case read_zt ''Failed to disconnect'' error_of out of
        Inl m \<Rightarrow> (s\<lparr>isDisconnecting := False\<rparr>, False, Overlay ''danger'' [JStr (''Error: '' @ m)] # loadData)
      | Inr _ \<Rightarrow> (s, True, Overlay ''warning'' [JStr ''Disconnected from network''] # loadData))"

definition disconnect_loaded :: "int \<Rightarrow> outcome \<Rightarrow> zt_page \<Rightarrow> zt_page \<times> effect list" where
  "disconnect_loaded now out s = (let (s1, fx) = loadData_settle now out s in (s1\<lparr>isDisconnecting := False\<rparr>, fx))"

text \<open>A click on the switch of a network: the label decides. A disabled button takes no click.\<close>

definition toggle_click :: "int \<Rightarrow> card \<Rightarrow> zt_page \<Rightarrow> (zt_page \<times> effect list) option" where
  "toggle_click now c s =
     (if card_disabled c then None
      else Some (let s1 = s\<lparr>shown := map_option (map (\<lambda>d. if d = c then d\<lparr>card_disabled := True, card_spinner := True\<rparr> else d)) (shown s)\<rparr>
                 in if card_label c = ''Disconnect'' then disconnectNetwork s1 else connectNetwork now s1))"

text \<open>The retry link disconnects, and connects a second later.\<close>

definition retry_click :: "zt_page \<Rightarrow> zt_page \<times> effect list" where
  "retry_click s = disconnectNetwork s"

definition retry_timer :: "int \<Rightarrow> zt_page \<Rightarrow> zt_page \<times> effect list" where
  "retry_timer now s = connectNetwork now s"

section \<open>Removing\<close>

definition removeNetwork :: "effect list" where
  "removeNetwork = [Confirm [JStr ''Remove this network? This will disconnect and delete the configuration.'']]"

definition remove_confirmed :: "bool \<Rightarrow> effect list" where
  "remove_confirmed confirmed = (if confirmed then [post_action ''leave''] else [])"

text \<open>The second result is whether a load follows after half a second.\<close>

definition remove_settle :: "int \<Rightarrow> outcome \<Rightarrow> zt_page \<Rightarrow> zt_page \<times> bool \<times> effect list" where
  "remove_settle now out s =
     (case read_zt ''Failed to remove network'' error_of out of
        Inl m \<Rightarrow> (s, False, [Overlay ''danger'' [JStr (''Error: '' @ m)]])
      | Inr _ \<Rightarrow> (updateUI now (s\<lparr>networks := []\<rparr>), True, [Overlay ''success'' [JStr ''Network removed'']]))"

section \<open>Autostart\<close>

definition toggleAutostart :: "string \<Rightarrow> bool \<Rightarrow> zt_page \<Rightarrow> effect list" where
  "toggleAutostart nwid boot s =
     (let name = (case map_of (networks s) nwid of Some n \<Rightarrow> js_or (net_name n) (JStr nwid) | None \<Rightarrow> JStr nwid)
      in [Send (PostJson API_URL (JObj [(''enabled'', JBool boot), (''nwid'', JStr nwid), (''network_name'', name)]))])"

definition autostart_settle :: "string \<Rightarrow> bool \<Rightarrow> outcome \<Rightarrow> zt_page \<Rightarrow> zt_page \<times> effect list" where
  "autostart_settle nwid boot out s =
     (case read_zt ''Failed to update'' error_of out of
        Inl m \<Rightarrow> (s, Overlay ''danger'' [JStr (''Error: '' @ m)] # loadData)
      | Inr _ \<Rightarrow>
          (case map_of (networks s) nwid of
             None \<Rightarrow> (s, Overlay ''danger'' [JStr ''Error: TypeError''] # loadData)
           | Some n \<Rightarrow>
               (s\<lparr>networks := AList.update nwid (n\<lparr>on_boot := boot\<rparr>) (networks s)\<rparr>,
                Overlay ''success'' [JStr (''Auto-start '' @ (if boot then ''enabled'' else ''disabled''))] # loadData)))"

section \<open>Adding\<close>

definition hex_char :: "char \<Rightarrow> bool" where
  "hex_char c \<longleftrightarrow> (let n = (of_char c :: nat) in 48 \<le> n \<and> n \<le> 57 \<or> 97 \<le> n \<and> n \<le> 102 \<or> 65 \<le> n \<and> n \<le> 70)"

definition addNetwork :: "zt_page \<Rightarrow> effect list" where
  "addNetwork s =
     (let nwid = trim (new_network_id s)
      in if nwid = [] then [Overlay ''danger'' [JStr ''Please enter a network ID'']]
         else if length nwid \<noteq> 16 \<or> \<not> list_all hex_char nwid
         then [Overlay ''danger'' [JStr ''Network ID must be exactly 16 hexadecimal characters'']]
         else if map_of (networks s) nwid \<noteq> None then [Overlay ''warning'' [JStr ''This network is already in your list'']]
         else [Send (PostJson API_URL (JObj [(''nwid'', JStr nwid), (''name'', JStr nwid), (''on_boot'', JBool (new_network_autostart s))]))])"

text \<open>The second result is whether the load is the one after which the dialog closes.\<close>

definition add_settle :: "outcome \<Rightarrow> zt_page \<Rightarrow> zt_page \<times> bool \<times> effect list" where
  "add_settle out s =
     (case read_zt ''Failed to save network'' error_of out of
        Inl m \<Rightarrow> (s, False, [Overlay ''danger'' [JStr (''Error: '' @ m)]])
      | Inr _ \<Rightarrow> (s\<lparr>new_network_id := [], new_network_autostart := False\<rparr>, True,
                  Overlay ''success'' [JStr ''Network added successfully''] # loadData))"

definition open_modal :: "zt_page \<Rightarrow> zt_page" where
  "open_modal s = s\<lparr>modal_open := True\<rparr>"

definition add_loaded :: "int \<Rightarrow> outcome \<Rightarrow> zt_page \<Rightarrow> zt_page \<times> effect list" where
  "add_loaded now out s = (let (s1, fx) = loadData_settle now out s in (s1\<lparr>modal_open := False\<rparr>, fx))"

text \<open>The reload button; \<open>loadData\<close> catches its errors, so the notice always follows.\<close>

definition zt_reload_click :: "zt_page \<Rightarrow> zt_page \<times> effect list" where
  "zt_reload_click s = (s\<lparr>zt_reload_disabled := True, zt_busy := showBusy (zt_busy s)\<rparr>, loadData)"

definition zt_reload_settle :: "int \<Rightarrow> outcome \<Rightarrow> zt_page \<Rightarrow> zt_page \<times> effect list" where
  "zt_reload_settle now out s =
     (let (s1, fx) = loadData_settle now out s 
      in (s1\<lparr>zt_reload_disabled := False, zt_busy := hideBusy (zt_busy s1)\<rparr>,
          fx @ [Overlay ''info'' [JStr ''Configuration reloaded from camera'']]))"

section \<open>Lemmas\<close>

lemma networks_of_single: "networks_of d = [] \<or> (\<exists>nwid n. networks_of d = [(nwid, n)])"
  by (simp add: networks_of_def Let_def)

lemma clear_flags_frame [simp]:
  "ztStatus (clear_flags now s) = ztStatus s" "networks (clear_flags now s) = networks s" "polling (clear_flags now s) = polling s"
  "connectionStartTime (clear_flags now s) = connectionStartTime s" "shown (clear_flags now s) = shown s" "add_hidden (clear_flags now s) = add_hidden s"
  by (simp_all add: clear_flags_def Let_def)

lemma clear_flags_connecting: "isConnecting (clear_flags now s) \<Longrightarrow> isConnecting s"
  by (simp add: clear_flags_def Let_def split: if_splits)

text \<open>What the rendering of the (at most one) network does to the state the poll reads.\<close>

lemma updateUI_single:
  assumes "networks s = [(nwid, n)]" "truthy (zt ''supported'' s)"
  shows "updateUI now s = (let (cards, s1) = render_one now (nwid, n) ([], s) in s1\<lparr>shown := Some cards, add_hidden := None\<rparr>)"
  using assms by (simp add: updateUI_def renderNetworks_def Let_def split: prod.split)

lemma updateUI_idle:
  assumes "networks s = [] \<or> \<not> truthy (zt ''supported'' s)"
  shows "connectionStartTime (updateUI now s) = connectionStartTime s" "isConnecting (updateUI now s) = isConnecting s"
    "polling (updateUI now s) = polling s" "shown (updateUI now s) = shown s" "ztStatus (updateUI now s) = ztStatus s"
  using assms by (auto simp: updateUI_def renderNetworks_def Let_def)

lemma updateUI_frame:
  assumes "networks s = networks_of d"
  shows "polling (updateUI now s) = polling s" "ztStatus (updateUI now s) = ztStatus s" "isConnecting (updateUI now s) \<Longrightarrow> isConnecting s"
proof -
  have "polling (updateUI now s) = polling s \<and> ztStatus (updateUI now s) = ztStatus s \<and> (isConnecting (updateUI now s) \<longrightarrow> isConnecting s)"
  proof (cases "networks s = [] \<or> \<not> truthy (zt ''supported'' s)")
    case True
    then show ?thesis using updateUI_idle [of s now] by simp
  next
    case False
    then obtain nwid n where "networks s = [(nwid, n)]" using assms networks_of_single [of d] by metis
    then show ?thesis
      using False clear_flags_connecting [of now s] by (simp add: updateUI_single render_one_def Let_def split: prod.split)
  qed
  then show "polling (updateUI now s) = polling s" "ztStatus (updateUI now s) = ztStatus s" "isConnecting (updateUI now s) \<Longrightarrow> isConnecting s"
    by auto
qed

text \<open>A status with which a joining service answers: the measured time goes on.\<close>

definition joining :: "js \<Rightarrow> bool" where
  "joining st \<longleftrightarrow> truthy (getp st ''running'') \<and>
     (\<not> truthy (getp st ''online'') \<or> \<not> truthy (getp st ''networkStatus'') \<or> unauthorized (getp st ''networkStatus''))"

lemma joining_line: "joining (ztStatus s) \<Longrightarrow> \<not> snd (status_line now nwid s)"
  by (auto simp: joining_def status_line_def isConnected_def zt_def unauthorized_def js_or_def Let_def)

lemma joining_keeps_start:
  assumes "networks s = networks_of d" "joining (ztStatus s)"
  shows "connectionStartTime (updateUI now s) = connectionStartTime s"
proof (cases "networks s = [] \<or> \<not> truthy (zt ''supported'' s)")
  case True
  then show ?thesis by (rule updateUI_idle)
next
  case False
  then obtain nwid n where n: "networks s = [(nwid, n)]" using assms networks_of_single [of d] by metis
  have "\<not> snd (status_line now nwid (clear_flags now s))" using assms(2) by (intro joining_line) simp
  then obtain line where "status_line now nwid (clear_flags now s) = (line, False)" by (metis prod.collapse)
  with n False show ?thesis by (simp add: updateUI_single render_one_def Let_def)
qed

section \<open>Polling\<close>

definition polls :: "(int \<times> int \<times> outcome) list \<Rightarrow> zt_page \<Rightarrow> zt_page" where
  "polls evs s = fold (\<lambda>(now, later, out) s. fst (poll_settle now later out s)) evs s"

text \<open>The answer fails, or says that the service is joining or that the network is up.\<close>

definition on_its_way :: "outcome \<Rightarrow> bool" where
  "on_its_way out = (case load_answer out of Inl _ \<Rightarrow> True | Inr d \<Rightarrow> joining (status_of d) \<or> getp (status_of d) ''networkStatus'' = JStr ''OK'')"

definition poll_inv :: "int \<Rightarrow> zt_page \<Rightarrow> bool" where
  "poll_inv t0 s \<longleftrightarrow> \<not> polling s \<and> \<not> isConnecting s \<or> connectionStartTime s = Some t0"

lemma poll_stopped:
  assumes "\<not> polling s" "\<not> isConnecting s"
  shows "\<not> polling (fst (poll_settle now later out s)) \<and> \<not> isConnecting (fst (poll_settle now later out s))"
proof (cases "load_answer out")
  case (Inl m)
  then show ?thesis using assms by (simp add: poll_settle_def loadData_settle_def stop_polling_def Let_def)
next
  case (Inr d)
  let ?s = "s\<lparr>networks := networks_of d, ztStatus := status_of d\<rparr>"
  have "\<not> polling (updateUI now ?s)" "\<not> isConnecting (updateUI now ?s)"
    using assms updateUI_frame [of ?s d now] by auto
  with Inr show ?thesis by (simp add: poll_settle_def loadData_settle_def stop_polling_def Let_def)
qed

lemma poll_running:
  assumes "connectionStartTime s = Some t0" "on_its_way out"
  shows "poll_inv t0 (fst (poll_settle now later out s))"
    and "t0 \<noteq> 0 \<Longrightarrow> later - t0 > 30000 \<Longrightarrow> \<not> polling (fst (poll_settle now later out s)) \<and> \<not> isConnecting (fst (poll_settle now later out s))"
proof -
  have *: "connectionStartTime (fst (loadData_settle now out s)) = Some t0 \<or> zt ''networkStatus'' (fst (loadData_settle now out s)) = JStr ''OK''"
  proof (cases "load_answer out")
    case (Inl m)
    then show ?thesis using assms(1) by (simp add: loadData_settle_def)
  next
    case (Inr d)
    let ?s = "s\<lparr>networks := networks_of d, ztStatus := status_of d\<rparr>"
    show ?thesis
      using assms Inr updateUI_frame(2) [of ?s d now] joining_keeps_start [of ?s d now]
      by (auto simp: loadData_settle_def on_its_way_def zt_def)
  qed
  then show "poll_inv t0 (fst (poll_settle now later out s))"
    by (auto simp: poll_settle_def poll_inv_def stop_polling_def split: prod.split)
  show "\<not> polling (fst (poll_settle now later out s)) \<and> \<not> isConnecting (fst (poll_settle now later out s))" if "t0 \<noteq> 0" "later - t0 > 30000"
    using * that by (auto simp: poll_settle_def stop_polling_def timed_out_def split: prod.split)
qed

lemma poll_inv_step:
  assumes "poll_inv t0 s" "on_its_way out"
  shows "poll_inv t0 (fst (poll_settle now later out s))"
  using assms poll_stopped [of s now later out] poll_running(1) [of s t0 out now later] by (auto simp: poll_inv_def)

lemma poll_inv_polls: "poll_inv t0 s \<Longrightarrow> list_all (\<lambda>(now, later, out). on_its_way out) evs \<Longrightarrow> poll_inv t0 (polls evs s)"
proof (induction evs arbitrary: s)
  case (Cons e evs)
  then show ?case using poll_inv_step by (cases e) (auto simp: polls_def)
qed (simp add: polls_def)

lemma polls_snoc: "polls (evs @ [(now, later, out)]) s = fst (poll_settle now later out (polls evs s))"
  by (simp add: polls_def)

text \<open>A status that says that the service does not run.\<close>

definition not_running :: "outcome \<Rightarrow> bool" where
  "not_running out =
     (case load_answer out of
        Inl _ \<Rightarrow> False
      | Inr d \<Rightarrow> networks_of d \<noteq> [] \<and> truthy (getp (status_of d) ''supported'') \<and> \<not> truthy (getp (status_of d) ''running'') \<and>
                 \<not> truthy (getp (status_of d) ''networkStatus''))"

definition stuck :: "zt_page \<Rightarrow> bool" where
  "stuck s \<longleftrightarrow> polling s \<and> isConnecting s \<and> connectionStartTime s = None \<and>
     (\<exists>c. shown s = Some [c] \<and> card_disabled c \<and> card_label c = ''Connecting...'' \<and> \<not> card_removable c)"

lemma not_running_step:
  assumes "polling s" "isConnecting s" "not_running out" "\<not> timed_out now s"
  shows "stuck (fst (poll_settle now later out s))"
proof -
  obtain d where d: "load_answer out = Inr d" using assms(3) by (auto simp: not_running_def split: sum.splits)
  let ?s = "s\<lparr>networks := networks_of d, ztStatus := status_of d\<rparr>"
  obtain nwid n where n: "networks_of d = [(nwid, n)]" and st: "truthy (zt ''supported'' ?s)" "\<not> truthy (zt ''running'' ?s)" "\<not> truthy (zt ''networkStatus'' ?s)"
    using assms(3) d networks_of_single [of d] by (auto simp: not_running_def zt_def)
  have ns: "zt ''networkStatus'' ?s \<noteq> JStr ''OK''" "\<not> unauthorized (zt ''networkStatus'' ?s)"
    using st(3) by (auto simp: unauthorized_def)
  have t: "\<not> timed_out now ?s" using assms(4) by (simp add: timed_out_def)
  have cl: "isConnecting (clear_flags now ?s)" "\<not> isDisconnecting (clear_flags now ?s)"
    using assms(2) ns t st(2) by (auto simp: clear_flags_def Let_def zt_def timed_out_def split: option.splits)
  have z: "zt k (clear_flags now ?s) = zt k ?s" for k by (simp add: zt_def)
  have nc: "\<not> isConnected (clear_flags now ?s)" using st by (simp add: isConnected_def z)
  have sl: "status_line now nwid (clear_flags now ?s) = ([], True)"
    using nc st t by (simp add: status_line_def z timed_out_def Let_def)
  have u: "updateUI now ?s = (let (cards, s1) = render_one now (nwid, n) ([], ?s) in s1\<lparr>shown := Some cards, add_hidden := None\<rparr>)"
    by (rule updateUI_single) (use n st(1) in simp_all)
  have "stuck (updateUI now ?s)"
    unfolding u render_one_def sl Let_def split_conv
    using assms(1) cl nc st(2) by (simp add: stuck_def toggle_label_def isConnected_def zt_def)
  moreover have "zt ''networkStatus'' (updateUI now ?s) = zt ''networkStatus'' ?s"
    using updateUI_frame(2) [of ?s d now] by (simp add: zt_def)
  ultimately show ?thesis
    using ns by (simp add: poll_settle_def loadData_settle_def d stuck_def timed_out_def)
qed

lemma stuck_polls: "stuck s \<Longrightarrow> list_all (\<lambda>(now, later, out). not_running out) evs \<Longrightarrow> stuck (polls evs s)"
proof (induction evs arbitrary: s)
  case (Cons e evs)
  obtain now later out where e: "e = (now, later, out)" by (cases e)
  have "stuck (fst (poll_settle now later out s))"
    using Cons.prems not_running_step [of s out now later] by (simp add: e stuck_def timed_out_def)
  then show ?case using Cons by (simp add: e polls_def)
qed (simp add: polls_def)

lemma loaded_list:
  assumes "load_answer out = Inr d" "networks_of d \<noteq> []" "truthy (getp (status_of d) ''supported'')"
  shows "add_hidden (fst (loadData_settle now out s)) = None" "\<exists>c. shown (fst (loadData_settle now out s)) = Some [c]"
    "truthy (zt ''supported'' (fst (loadData_settle now out s)))"
proof -
  let ?s = "s\<lparr>networks := networks_of d, ztStatus := status_of d\<rparr>"
  obtain nwid n where n: "networks_of d = [(nwid, n)]" using assms(2) networks_of_single [of d] by auto
  have u: "updateUI now ?s = (let (cards, s1) = render_one now (nwid, n) ([], ?s) in s1\<lparr>shown := Some cards, add_hidden := None\<rparr>)"
    by (rule updateUI_single) (use n assms(3) in \<open>simp_all add: zt_def\<close>)
  show "add_hidden (fst (loadData_settle now out s)) = None" "\<exists>c. shown (fst (loadData_settle now out s)) = Some [c]"
    by (simp_all add: loadData_settle_def assms(1) u render_one_def Let_def split: prod.split)
  show "truthy (zt ''supported'' (fst (loadData_settle now out s)))"
    using updateUI_frame(2) [of ?s d now] assms(1,3) by (simp add: loadData_settle_def zt_def)
qed

lemma updateUI_empty:
  assumes "networks s = []"
  shows "shown (updateUI now s) = shown s" "add_hidden s = None \<Longrightarrow> add_hidden (updateUI now s) = None"
  using assms by (simp_all add: updateUI_def renderNetworks_def)

text \<open>The request that adds a network has no \<open>enabled\<close> member, the one the switch of the network sends has.\<close>

lemma add_request_without_enabled:
  "addNetwork s = [Send (PostJson u payload)] \<Longrightarrow> getp payload ''enabled'' = JUndef"
  by (auto simp: addNetwork_def Let_def split: if_splits)

lemma autostart_request_enabled:
  "toggleAutostart nwid boot s = [Send (PostJson u payload)] \<Longrightarrow> getp payload ''enabled'' = JBool boot"
  by (auto simp: toggleAutostart_def Let_def)

section \<open>Properties\<close>

definition zt_body :: "string \<Rightarrow> bool \<Rightarrow> bool \<Rightarrow> string \<Rightarrow> js" where
  "zt_body nwid running online st =
     JObj [(''config'', JObj [(''nwid'', JStr nwid)]),
       (''status'', JObj [(''supported'', JBool True), (''running'', JBool running), (''online'', JBool online), (''networkStatus'', JStr st)])]"

definition zt_answer_of :: "string \<Rightarrow> bool \<Rightarrow> bool \<Rightarrow> string \<Rightarrow> outcome" where
  "zt_answer_of nwid running online st = Answer \<lparr>status = 200, text_body = ''x'', parsed = Some (zt_body nwid running online st)\<rparr>"

definition accepted :: outcome where
  "accepted = Answer \<lparr>status = 200, text_body = ''x'', parsed = Some (JObj [(''success'', JBool True)])\<rparr>"

text \<open>
  C12. Polling for a connection ends: after an accepted connect at time \<open>t0\<close>, if every poll that answers at all finds the service
  joining (starting, without a network status, or waiting for an authorisation) or the network up, the first poll that settles more than
  30 seconds after \<open>t0\<close> leaves the poll off and the page no longer connecting, whatever polls came before and whichever of them failed.\<close>

theorem zt_poll_ends:
  assumes "read_zt ''Failed to connect'' error_of out = Inr d" "t0 \<noteq> 0"
    and "list_all (\<lambda>(now, later, out). on_its_way out) (evs @ [(now, later, answer)])" "later - t0 > 30000"
  shows "\<not> polling (polls (evs @ [(now, later, answer)]) (fst (connect_settle out (fst (connectNetwork t0 s))))) \<and>
         \<not> isConnecting (polls (evs @ [(now, later, answer)]) (fst (connect_settle out (fst (connectNetwork t0 s)))))"
proof -
  let ?s = "polls evs (fst (connect_settle out (fst (connectNetwork t0 s))))"
  have "poll_inv t0 ?s"
    using assms(1,3) by (intro poll_inv_polls) (simp_all add: poll_inv_def connectNetwork_def connect_settle_def pollConnectionStatus_def)
  then show ?thesis
    using assms poll_stopped [of ?s now later answer] poll_running(2) [of ?s t0 answer later now]
    by (auto simp: polls_snoc poll_inv_def)
qed

theorem zt_poll_ends_witness:
  "\<not> polling (polls ([(3000, 3000, zt_answer_of ''8056c2e21c000001'' True False [])] @ [(32000, 32001, Rejected ''timeout'')])
      (fst (connect_settle accepted (fst (connectNetwork 1000 init_zt))))) \<and>
   \<not> isConnecting (polls ([(3000, 3000, zt_answer_of ''8056c2e21c000001'' True False [])] @ [(32000, 32001, Rejected ''timeout'')])
      (fst (connect_settle accepted (fst (connectNetwork 1000 init_zt)))))"
  by (rule zt_poll_ends [where d = "JObj [(''success'', JBool True)]"])
    (simp_all add: read_zt_def accepted_def resp_ok_def nullish_def on_its_way_def load_answer_def zt_answer_of_def zt_body_def status_of_def js_or_def joining_def)



text \<open>
  A removed network stays on the page: once a network was shown, an accepted removal and the load after it, which reports no network,
  leave its card in the list, and the add button, which that list replaced, is not in the document any more.\<close>

theorem zt_removed_stays:
  assumes "load_answer out = Inr d" "networks_of d \<noteq> []" "truthy (getp (status_of d) ''supported'')"
    and "read_zt ''Failed to remove network'' error_of removed = Inr e"
    and "load_answer after = Inr d'" "networks_of d' = []"
  shows "let s1 = fst (loadData_settle t1 out s); s2 = fst (remove_settle t2 removed s1); s3 = fst (loadData_settle t3 after s2)
         in networks s3 = [] \<and> shown s3 = shown s1 \<and> (\<exists>c. shown s3 = Some [c]) \<and> add_hidden s3 = None"
proof -
  define s1 where "s1 = fst (loadData_settle t1 out s)"
  have s1: "add_hidden s1 = None" "\<exists>c. shown s1 = Some [c]" using loaded_list [OF assms(1-3)] by (simp_all add: s1_def)
  define s2 where "s2 = fst (remove_settle t2 removed s1)"
  have s2: "shown s2 = shown s1" "add_hidden s2 = None"
    using s1 updateUI_empty [of "s1\<lparr>networks := []\<rparr>" t2] assms(4) by (simp_all add: s2_def remove_settle_def)
  let ?s = "s2\<lparr>networks := [], ztStatus := status_of d'\<rparr>"
  have "networks (updateUI t3 ?s) = []" by (simp add: updateUI_def renderNetworks_def)
  moreover have s3: "fst (loadData_settle t3 after s2) = updateUI t3 ?s" using assms(5,6) by (simp add: loadData_settle_def)
  ultimately show ?thesis
    unfolding Let_def s1_def [symmetric] s2_def [symmetric] s3 using s1 s2 updateUI_empty [of ?s t3] by simp
qed

theorem zt_removed_stays_witness:
  "let s1 = fst (loadData_settle 10 (zt_answer_of ''8056c2e21c000001'' False False []) init_zt);
       s2 = fst (remove_settle 20 accepted s1); s3 = fst (loadData_settle 30 (zt_answer_of [] False False []) s2)
   in networks s3 = [] \<and> shown s3 = shown s1 \<and> (\<exists>c. shown s3 = Some [c]) \<and> add_hidden s3 = None"
  by (rule zt_removed_stays [where d = "zt_body ''8056c2e21c000001'' False False []" and e = "JObj [(''success'', JBool True)]"
        and d' = "zt_body [] False False []"])
    (simp_all add: read_zt_def accepted_def resp_ok_def nullish_def load_answer_def zt_answer_of_def zt_body_def status_of_def js_or_def networks_of_def)

end
