(* ===== verification/Sensor_Data.thy ===== *)
theory Sensor_Data
  imports Dom
begin

text \<open>
  The sensor data page (\<open>tool-sensor-data.js\<close>): a window of samples collected from the streamer's history and an event stream, running
  statistics, the datasets of the chart and the exports. The time of day text (\<open>toLocaleTimeString\<close>) is an argument; the
  styles of the chart are left out.
\<close>

section \<open>Numbers\<close>

text \<open>\<open>parseFloat\<close>: the longest prefix that is a decimal literal. The text of a number reads back as the number.\<close>

definition parse_float_text :: "string \<Rightarrow> jnum" where
  "parse_float_text s =
     (let (neg, u) = take_sign (dropWhile is_space s)
      in if starts_with u ''Infinity'' then (if neg then NegInf else PosInf)
         else case find (\<lambda>k. decimal_of (take k u) \<noteq> None) (rev [0..<Suc (length u)]) of
           None \<Rightarrow> NaN
         | Some k \<Rightarrow> (case decimal_of (take k u) of Some q \<Rightarrow> Fin (signed neg q) | None \<Rightarrow> NaN))"

definition parse_float :: "js \<Rightarrow> jnum" where
  "parse_float v = (case v of JNum n \<Rightarrow> n | _ \<Rightarrow> parse_float_text (js_text v))"

fun num_add :: "jnum \<Rightarrow> jnum \<Rightarrow> jnum" where
  "num_add (Fin a) (Fin b) = Fin (a + b)"
| "num_add NaN _ = NaN"
| "num_add _ NaN = NaN"
| "num_add PosInf NegInf = NaN"
| "num_add NegInf PosInf = NaN"
| "num_add PosInf _ = PosInf"
| "num_add NegInf _ = NegInf"
| "num_add (Fin _) b = b"

fun num_less :: "jnum \<Rightarrow> jnum \<Rightarrow> bool" where
  "num_less (Fin a) (Fin b) = (a < b)"
| "num_less NaN _ = False"
| "num_less _ NaN = False"
| "num_less NegInf b = (b \<noteq> NegInf)"
| "num_less PosInf _ = False"
| "num_less (Fin _) b = (b = PosInf)"

text \<open>\<open>Math.min\<close>, \<open>Math.max\<close> of two numbers.\<close>

definition num_min :: "jnum \<Rightarrow> jnum \<Rightarrow> jnum" where
  "num_min a b = (if a = NaN \<or> b = NaN then NaN else if num_less b a then b else a)"

definition num_max :: "jnum \<Rightarrow> jnum \<Rightarrow> jnum" where
  "num_max a b = (if a = NaN \<or> b = NaN then NaN else if num_less a b then b else a)"

section \<open>State\<close>

definition metrics :: "(string \<times> string) list" where
  "metrics = [(''ev'', ''Exposure Time (EV)''), (''total_gain'', ''Total Gain''), (''ae_luma'', ''AE Luma''), (''daynight_brightness'', ''Brightness %'')]"

record stat =
  st_latest :: jnum
  st_min :: jnum
  st_max :: jnum
  st_avg :: jnum
  st_count :: nat
  st_sum :: jnum

record collector =
  maxPoints :: int
  labels :: "string list"
  series :: "string \<rightharpoonup> jnum list"
  modeData :: "nat list"
  stats :: "string \<rightharpoonup> stat"
  nightThreshold :: "jnum option"
  dayThreshold :: "jnum option"
  y_max :: jnum
  datasets :: "(string \<times> jnum list) list" \<comment> \<open>labels and values of the chart\<close>
  stats_shown :: "(string \<times> stat) list"
  isPaused :: bool
  streaming :: bool \<comment> \<open>the event source exists\<close>
  reconnects :: nat \<comment> \<open>armed timers of \<open>startStream\<close>\<close>
  connected :: bool

definition fresh_collector :: collector where
  "fresh_collector = \<lparr>maxPoints = 300, labels = [], series = Map.empty, modeData = [], stats = Map.empty, nightThreshold = None, dayThreshold = None,
     y_max = Fin 3200, datasets = [], stats_shown = [], isPaused = False, streaming = False, reconnects = 0, connected = False\<rparr>"

section \<open>Statistics\<close>

definition updateStatsDisplay :: "collector \<Rightarrow> collector" where
  "updateStatsDisplay c = c\<lparr>stats_shown := [(k, st). k \<leftarrow> map fst metrics, st \<leftarrow> (case stats c k of None \<Rightarrow> [] | Some st \<Rightarrow> [st])]\<rparr>"

definition next_stat :: "stat option \<Rightarrow> jnum \<Rightarrow> stat" where
  "next_stat old v =
     (case old of
        None \<Rightarrow> \<lparr>st_latest = v, st_min = v, st_max = v, st_avg = v, st_count = 1, st_sum = v\<rparr>
      | Some s \<Rightarrow>
          let n = st_count s + 1; t = num_add (st_sum s) v
          in \<lparr>st_latest = v, st_min = num_min (st_min s) v, st_max = num_max (st_max s) v,
              st_avg = num_scale (1 / of_nat n) t, st_count = n, st_sum = t\<rparr>)"

definition updateStats :: "string \<Rightarrow> jnum \<Rightarrow> collector \<Rightarrow> collector" where
  "updateStats k v c = updateStatsDisplay (c\<lparr>stats := (stats c)(k \<mapsto> next_stat (stats c k) v)\<rparr>)"

section \<open>Samples\<close>

definition trimData :: "collector \<Rightarrow> collector" where
  "trimData c =
     (if int (length (labels c)) > maxPoints c
      then let excess = nat (int (length (labels c)) - maxPoints c)
           in c\<lparr>labels := drop excess (labels c), modeData := drop excess (modeData c),
                series := (\<lambda>k. if k \<in> fst ` set metrics then map_option (drop excess) (series c k) else series c k)\<rparr>
      else c)"

definition threshold_line :: "string \<Rightarrow> jnum \<Rightarrow> nat \<Rightarrow> (string \<times> jnum list) list" where
  "threshold_line name v n = (if v = NaN then [] else [(name @ '' ('' @ num_text v @ '')'', replicate n v)])"

definition updateChart :: "collector \<Rightarrow> collector" where
  "updateChart c =
     (let n = length (labels c);
          lines = [(l, d). (k, l) \<leftarrow> metrics, d \<leftarrow> (case series c k of None \<Rightarrow> [] | Some d \<Rightarrow> [d])];
          limits = (case nightThreshold c of
              None \<Rightarrow> []
            | Some v \<Rightarrow> if series c ''total_gain'' = None then []
                        else threshold_line ''Night Threshold'' v n @
                             (case dayThreshold c of None \<Rightarrow> [] | Some w \<Rightarrow> threshold_line ''Day Threshold'' w n))
      in c\<lparr>datasets := lines @ limits @
             (if modeData c = [] then [] else [(''Mode (0=Day, 1=Night)'', map (\<lambda>m. Fin (of_nat m)) (modeData c))])\<rparr>)"

fun has_key :: "js \<Rightarrow> string \<Rightarrow> bool" where
  "has_key (JObj kvs) k = (map_of kvs k \<noteq> None)"
| "has_key _ k = False"

definition to_int :: "js \<Rightarrow> jnum" where
  "to_int v = parse_int (Some 10) (js_text v)"

definition add_metric :: "js \<Rightarrow> string \<times> string \<Rightarrow> collector \<Rightarrow> collector" where
  "add_metric d m c =
     (let k = fst m
      in if \<not> has_key d k then c
         else let old = (case series c k of None \<Rightarrow> [] | Some s \<Rightarrow> s); v = parse_float (getp d k)
              in if v = NaN then c\<lparr>series := (series c)(k \<mapsto> old)\<rparr>
                 else updateStats k v (c\<lparr>series := (series c)(k \<mapsto> old @ [v])\<rparr>))"

definition set_thresholds :: "js \<Rightarrow> collector \<Rightarrow> collector" where
  "set_thresholds d c =
     (if getp d ''total_gain_night_threshold'' \<noteq> JUndef \<and> nightThreshold c = None
      then let night = to_int (getp d ''total_gain_night_threshold'')
           in c\<lparr>nightThreshold := Some night, dayThreshold := Some (to_int (getp d ''total_gain_day_threshold'')),
                y_max := (if night = NaN then y_max c else num_add night (Fin 200))\<rparr>
      else c)"

text \<open>The second result is whether the sample threw: \<open>null\<close> at once, a value without members at the test for a metric.\<close>

definition addDataPoint :: "(jnum \<Rightarrow> string) \<Rightarrow> bool \<Rightarrow> js \<Rightarrow> collector \<Rightarrow> collector \<times> bool" where
  "addDataPoint time_text chart d c =
     (if nullish d then (c, True)
      else let c1 = set_thresholds d (c\<lparr>labels := labels c @ [time_text (num_scale 1000 (to_int (getp d ''time_now'')))]\<rparr>);
               c2 = c1\<lparr>modeData := modeData c1 @ [if getp d ''daynight_mode'' = JStr ''night'' then 1 else 0]\<rparr>
           in if \<not> is_object d then (c2, True)
              else let c3 = trimData (fold (add_metric d) metrics c2)
                   in (if chart then updateChart c3 else c3, False))"

section \<open>History and stream\<close>

definition loadHistory :: "effect list" where
  "loadHistory = [Send (PostJson ''/x/json-prudynt.cgi'' (JObj [(''daynight'', JObj [(''history'', JNull)])]))]"

definition history_of :: "outcome \<Rightarrow> js list" where
  "history_of out =
     (case out of
        Answer r \<Rightarrow>
          if \<not> resp_ok r then []
          else (case parsed r of
                  Some d \<Rightarrow>
                    (let h = (if nullish d then JUndef else let n = getp d ''daynight'' in if nullish n then JUndef else getp n ''history'')
                     in case h of JArr ss \<Rightarrow> ss | _ \<Rightarrow> [])
                | None \<Rightarrow> [])
      | Rejected _ \<Rightarrow> [])"

definition startStream :: "collector \<Rightarrow> collector" where
  "startStream c = (if streaming c then c else c\<lparr>streaming := True, connected := True\<rparr>)"

definition add_history :: "(jnum \<Rightarrow> string) \<Rightarrow> js list \<Rightarrow> collector \<Rightarrow> collector" where
  "add_history time_text ss c =
     (if ss = [] then c
      else let (c1, threw) = run_all (map (addDataPoint time_text False) ss) c
           in if threw then c1 else updateChart (trimData c1))"

definition loadHistory_settle :: "(jnum \<Rightarrow> string) \<Rightarrow> outcome \<Rightarrow> collector \<Rightarrow> collector" where
  "loadHistory_settle time_text out c = startStream (add_history time_text (history_of out) c)"

definition stream_message :: "(jnum \<Rightarrow> string) \<Rightarrow> js option \<Rightarrow> collector \<Rightarrow> collector" where
  "stream_message time_text data c =
     (if isPaused c then c else case data of None \<Rightarrow> c | Some d \<Rightarrow> fst (addDataPoint time_text True d c))"

definition stream_error :: "collector \<Rightarrow> collector" where
  "stream_error c = c\<lparr>connected := False, streaming := False, reconnects := reconnects c + 1\<rparr>"

definition reconnect_fires :: "collector \<Rightarrow> collector" where
  "reconnect_fires c = (if reconnects c = 0 then c else startStream (c\<lparr>reconnects := reconnects c - 1\<rparr>))"

section \<open>Buttons\<close>

definition points_click :: "string \<Rightarrow> collector \<Rightarrow> collector" where
  "points_click pts c =
     trimData (c\<lparr>maxPoints := (case parse_int (Some 10) pts of Fin q \<Rightarrow> if q = 0 then 300 else \<lfloor>q\<rfloor> | _ \<Rightarrow> 300)\<rparr>)"

definition clear_confirmed :: "bool \<Rightarrow> collector \<Rightarrow> collector" where
  "clear_confirmed confirmed c =
     (if confirmed then updateStatsDisplay (c\<lparr>series := Map.empty, modeData := [], stats := Map.empty, labels := [], datasets := []\<rparr>) else c)"

definition togglePause :: "collector \<Rightarrow> collector" where
  "togglePause c = c\<lparr>isPaused := \<not> isPaused c\<rparr>"

section \<open>Export\<close>

definition to_fixed_num :: "nat \<Rightarrow> jnum \<Rightarrow> string" where
  "to_fixed_num n v = (case v of Fin q \<Rightarrow> to_fixed n q | _ \<Rightarrow> num_text v)"

definition csv_cell :: "collector \<Rightarrow> nat \<Rightarrow> string \<times> string \<Rightarrow> string" where
  "csv_cell c i m =
     (case series c (fst m) of None \<Rightarrow> [] | Some s \<Rightarrow> if i < length s then to_fixed_num 2 (s ! i) else [])"

definition csv_row :: "collector \<Rightarrow> nat \<Rightarrow> string" where
  "csv_row c i = CHR 0x22 # labels c ! i @ [CHR 0x22, CHR '',''] @ join_with '','' (map (csv_cell c i) metrics)"

definition exportCSV :: "collector \<Rightarrow> string" where
  "exportCSV c =
     ''Time,'' @ join_with '','' (map snd metrics) @ [CHR 0x0A] @ join_with [CHR 0x0A] (map (csv_row c) [0..<length (labels c)])"

definition stat_json :: "stat \<Rightarrow> js" where
  "stat_json s = JObj [(''latest'', JNum (st_latest s)), (''min'', JNum (st_min s)), (''max'', JNum (st_max s)), (''avg'', JNum (st_avg s)),
     (''count'', jint (int (st_count s))), (''sum'', JNum (st_sum s))]"

text \<open>The members of \<open>stats\<close> and \<open>data\<close> are listed in the order of the metrics.\<close>

definition exportJSON :: "string \<Rightarrow> collector \<Rightarrow> js" where
  "exportJSON now c =
     JObj [(''exported_at'', JStr now),
       (''stats'', JObj [(k, stat_json s). k \<leftarrow> map fst metrics, s \<leftarrow> (case stats c k of None \<Rightarrow> [] | Some s \<Rightarrow> [s])]),
       (''datapoints'', JObj [(k, JArr (map JNum s)). k \<leftarrow> map fst metrics, s \<leftarrow> (case series c k of None \<Rightarrow> [] | Some s \<Rightarrow> [s])]),
       (''labels'', JArr (map JStr (labels c)))]"

section \<open>Runs\<close>

text \<open>A closed event source sends no error.\<close>

datatype sensor_event = Message "js option" | History outcome | Points string | Clear bool | Pause | StreamError | Reconnect

fun sensor_step :: "(jnum \<Rightarrow> string) \<Rightarrow> sensor_event \<Rightarrow> collector \<Rightarrow> collector" where
  "sensor_step tt (Message d) c = stream_message tt d c"
| "sensor_step tt (History out) c = loadHistory_settle tt out c"
| "sensor_step tt (Points pts) c = points_click pts c"
| "sensor_step tt (Clear b) c = clear_confirmed b c"
| "sensor_step tt Pause c = togglePause c"
| "sensor_step tt StreamError c = (if streaming c then stream_error c else c)"
| "sensor_step tt Reconnect c = reconnect_fires c"

definition sensor_run :: "(jnum \<Rightarrow> string) \<Rightarrow> sensor_event list \<Rightarrow> collector \<Rightarrow> collector" where
  "sensor_run tt evs c = fold (sensor_step tt) evs c"

section \<open>What a sample does\<close>

lemma distinct_metrics: "distinct (map fst metrics)"
  by (simp add: metrics_def)

definition sample_vals :: "js \<Rightarrow> string \<Rightarrow> jnum list" where
  "sample_vals d k = (if has_key d k \<and> parse_float (getp d k) \<noteq> NaN then [parse_float (getp d k)] else [])"

definition series_of :: "collector \<Rightarrow> string \<Rightarrow> jnum list" where
  "series_of c k = (case series c k of None \<Rightarrow> [] | Some s \<Rightarrow> s)"

definition add_stat :: "jnum \<Rightarrow> stat option \<Rightarrow> stat option" where
  "add_stat v st = Some (next_stat st v)"

lemma updateStatsDisplay_frame [simp]:
  "series (updateStatsDisplay c) = series c" "labels (updateStatsDisplay c) = labels c" "modeData (updateStatsDisplay c) = modeData c"
  "stats (updateStatsDisplay c) = stats c" "maxPoints (updateStatsDisplay c) = maxPoints c" "isPaused (updateStatsDisplay c) = isPaused c"
  "streaming (updateStatsDisplay c) = streaming c" "reconnects (updateStatsDisplay c) = reconnects c"
  by (simp_all add: updateStatsDisplay_def)

lemma updateChart_frame [simp]:
  "series (updateChart c) = series c" "labels (updateChart c) = labels c" "modeData (updateChart c) = modeData c"
  "stats (updateChart c) = stats c" "maxPoints (updateChart c) = maxPoints c" "isPaused (updateChart c) = isPaused c"
  "streaming (updateChart c) = streaming c" "reconnects (updateChart c) = reconnects c"
  by (simp_all add: updateChart_def Let_def)

lemma set_thresholds_frame [simp]:
  "series (set_thresholds d c) = series c" "labels (set_thresholds d c) = labels c" "modeData (set_thresholds d c) = modeData c"
  "stats (set_thresholds d c) = stats c" "maxPoints (set_thresholds d c) = maxPoints c" "isPaused (set_thresholds d c) = isPaused c"
  "streaming (set_thresholds d c) = streaming c" "reconnects (set_thresholds d c) = reconnects c"
  by (simp_all add: set_thresholds_def Let_def)

lemma trimData_frame [simp]:
  "stats (trimData c) = stats c" "maxPoints (trimData c) = maxPoints c" "isPaused (trimData c) = isPaused c"
  "streaming (trimData c) = streaming c" "reconnects (trimData c) = reconnects c"
  by (simp_all add: trimData_def Let_def)

lemma add_metric_frame [simp]:
  "labels (add_metric d m c) = labels c" "modeData (add_metric d m c) = modeData c" "maxPoints (add_metric d m c) = maxPoints c"
  "isPaused (add_metric d m c) = isPaused c" "streaming (add_metric d m c) = streaming c" "reconnects (add_metric d m c) = reconnects c"
  by (simp_all add: add_metric_def updateStats_def Let_def)

lemma fold_metric_frame [simp]:
  "labels (fold (add_metric d) ms c) = labels c" "modeData (fold (add_metric d) ms c) = modeData c"
  "maxPoints (fold (add_metric d) ms c) = maxPoints c" "isPaused (fold (add_metric d) ms c) = isPaused c"
  "streaming (fold (add_metric d) ms c) = streaming c" "reconnects (fold (add_metric d) ms c) = reconnects c"
  by (induction ms arbitrary: c) simp_all

lemma add_metric_series:
  "series (add_metric d m c) k = (if k = fst m \<and> has_key d k then Some (series_of c k @ sample_vals d k) else series c k)"
  by (cases "k = fst m"; cases "has_key d k") (simp_all add: add_metric_def updateStats_def sample_vals_def series_of_def Let_def)

lemma add_metric_stats:
  "stats (add_metric d m c) k = (if k = fst m then fold add_stat (sample_vals d k) (stats c k) else stats c k)"
  by (simp add: add_metric_def updateStats_def sample_vals_def add_stat_def Let_def)

lemma fold_metric_series:
  "distinct (map fst ms) \<Longrightarrow> series (fold (add_metric d) ms c) k =
     (if k \<in> fst ` set ms \<and> has_key d k then Some (series_of c k @ sample_vals d k) else series c k)"
proof (induction ms arbitrary: c)
  case (Cons m ms)
  then show ?case by (auto simp: add_metric_series series_of_def)
qed simp

lemma fold_metric_stats:
  "distinct (map fst ms) \<Longrightarrow> stats (fold (add_metric d) ms c) k = (if k \<in> fst ` set ms then fold add_stat (sample_vals d k) (stats c k) else stats c k)"
proof (induction ms arbitrary: c)
  case (Cons m ms)
  then show ?case by (auto simp: add_metric_stats)
qed simp

lemma fold_metric_series_of:
  "series_of (fold (add_metric d) metrics c) k =
     series_of c k @ (if k \<in> fst ` set metrics \<and> has_key d k then sample_vals d k else [])"
  by (simp add: series_of_def fold_metric_series [OF distinct_metrics])

section \<open>The window\<close>

definition aligned :: "collector \<Rightarrow> bool" where
  "aligned c \<longleftrightarrow> length (modeData c) = length (labels c) \<and> dom (series c) \<subseteq> fst ` set metrics \<and> (\<forall>k. length (series_of c k) \<le> length (labels c))"

definition window_ok :: "collector \<Rightarrow> bool" where
  "window_ok c \<longleftrightarrow> aligned c \<and> int (length (labels c)) \<le> max 0 (maxPoints c)"

lemma trim_series_of:
  "series_of (trimData c) k =
     (if k \<in> fst ` set metrics then drop (nat (int (length (labels c)) - maxPoints c)) (series_of c k) else series_of c k)"
  by (simp add: series_of_def trimData_def Let_def split: option.split)

lemma trim_labels:
  "labels (trimData c) = drop (nat (int (length (labels c)) - maxPoints c)) (labels c)"
  "modeData (trimData c) = (if int (length (labels c)) > maxPoints c then drop (nat (int (length (labels c)) - maxPoints c)) (modeData c) else modeData c)"
  "dom (series (trimData c)) = dom (series c)"
  by (auto simp: trimData_def Let_def dom_def)

lemma trim_window:
  assumes "aligned c"
  shows "window_ok (trimData c)"
proof -
  have "series_of c k = []" if "k \<notin> fst ` set metrics" for k
    using that assms by (auto simp: aligned_def series_of_def dom_def split: option.split)
  moreover have "length (series_of c k) - n \<le> length (labels c) - n" for k n
    using assms by (simp add: aligned_def diff_le_mono)
  ultimately have "length (series_of (trimData c) k) \<le> length (labels (trimData c))" for k
    by (simp add: trim_series_of trim_labels)
  moreover have "length (modeData (trimData c)) = length (labels (trimData c))"
    using assms by (simp add: trim_labels aligned_def)
  moreover have "int (length (labels (trimData c))) \<le> max 0 (maxPoints c)"
    by (simp add: trim_labels)
  ultimately show ?thesis using assms by (simp add: window_ok_def aligned_def trim_labels)
qed

lemma aligned_updateChart [simp]: "aligned (updateChart c) = aligned c" "window_ok (updateChart c) = window_ok c"
  by (simp_all add: aligned_def series_of_def window_ok_def)

lemma sample_vals_le: "length (sample_vals d k) \<le> 1"
  by (simp add: sample_vals_def)

text \<open>A sample that can be read, and an event with only such samples.\<close>

definition readable :: "js \<Rightarrow> bool" where
  "readable d \<longleftrightarrow> nullish d \<or> is_object d"

fun plain_event :: "sensor_event \<Rightarrow> bool" where
  "plain_event (Message d) = (case d of None \<Rightarrow> True | Some d \<Rightarrow> readable d)"
| "plain_event (History out) = list_all readable (history_of out)"
| "plain_event _ = True"

lemma add_point_window:
  assumes "window_ok c" "readable d"
  shows "window_ok (fst (addDataPoint tt chart d c))"
proof (cases "nullish d")
  case False
  define c1 where "c1 = set_thresholds d (c\<lparr>labels := labels c @ [tt (num_scale 1000 (to_int (getp d ''time_now'')))]\<rparr>)"
  define c2 where "c2 = c1\<lparr>modeData := modeData c1 @ [if getp d ''daynight_mode'' = JStr ''night'' then 1 else 0]\<rparr>"
  have al: "aligned c" using assms(1) by (simp add: window_ok_def)
  have s2: "series c2 = series c" "length (labels c2) = Suc (length (labels c))" by (simp_all add: c2_def c1_def)
  have "length (series_of (fold (add_metric d) metrics c2) k) \<le> Suc (length (labels c))" for k
  proof -
    have "length (series_of c2 k) \<le> length (labels c)" using al s2(1) by (simp add: aligned_def series_of_def)
    then show ?thesis using sample_vals_le [of d k] by (simp add: fold_metric_series_of)
  qed
  moreover have "dom (series (fold (add_metric d) metrics c2)) \<subseteq> fst ` set metrics"
    using al s2 by (auto simp: aligned_def fold_metric_series [OF distinct_metrics] dom_def split: if_splits)
  ultimately have "aligned (fold (add_metric d) metrics c2)"
    using al s2 by (simp add: aligned_def) (simp add: c2_def c1_def)
  then show ?thesis
    using False assms(2) trim_window by (simp add: addDataPoint_def readable_def Let_def flip: c1_def c2_def)
qed (use assms in \<open>simp add: addDataPoint_def\<close>)

lemma add_history_window:
  assumes "window_ok c" "list_all readable ss"
  shows "window_ok (add_history tt ss c)"
proof -
  have w: "window_ok (fst (run_all (map (addDataPoint tt False) ss) c))"
    by (rule run_all_keeps) (use assms add_point_window in \<open>auto simp: list_all_iff\<close>)
  then have "aligned (fst (run_all (map (addDataPoint tt False) ss) c))" by (simp add: window_ok_def)
  with w trim_window assms(1) show ?thesis by (auto simp: add_history_def split: prod.split)
qed

lemma window_stream [simp]:
  "window_ok (startStream c) = window_ok c" "window_ok (stream_error c) = window_ok c" "window_ok (reconnect_fires c) = window_ok c"
  "window_ok (togglePause c) = window_ok c"
  by (simp_all add: startStream_def stream_error_def reconnect_fires_def togglePause_def window_ok_def aligned_def series_of_def)

lemma sensor_step_window:
  assumes "window_ok c" "plain_event ev"
  shows "window_ok (sensor_step tt ev c)"
proof (cases ev)
  case (Message d)
  then show ?thesis using assms add_point_window by (auto simp: stream_message_def split: option.splits)
next
  case (History out)
  then show ?thesis using assms add_history_window by (simp add: loadHistory_settle_def)
next
  case (Points pts)
  have "aligned (c\<lparr>maxPoints := n\<rparr>)" for n using assms(1) by (simp add: window_ok_def aligned_def series_of_def)
  then show ?thesis unfolding Points sensor_step.simps points_click_def by (rule trim_window)
next
  case (Clear b)
  then show ?thesis using assms(1) by (simp add: clear_confirmed_def window_ok_def aligned_def series_of_def)
qed (use assms(1) in simp_all)

lemma sensor_run_window: "window_ok c \<Longrightarrow> list_all plain_event evs \<Longrightarrow> window_ok (sensor_run tt evs c)"
  by (induction evs arbitrary: c) (simp_all add: sensor_run_def sensor_step_window)

text \<open>After the history has arrived there is one source, or none and one timer that opens the next.\<close>

definition one_source :: "collector \<Rightarrow> bool" where
  "one_source c \<longleftrightarrow> reconnects c = (if streaming c then 0 else 1)"

lemma addDataPoint_frame:
  "streaming (fst (addDataPoint tt ch d c)) = streaming c \<and> reconnects (fst (addDataPoint tt ch d c)) = reconnects c \<and> isPaused (fst (addDataPoint tt ch d c)) = isPaused c"
  by (simp add: addDataPoint_def Let_def)

lemma one_source_step:
  assumes "one_source c" "\<nexists>out. ev = History out"
  shows "one_source (sensor_step tt ev c)"
proof (cases ev)
  case (Message d)
  then show ?thesis using assms addDataPoint_frame by (auto simp: stream_message_def one_source_def split: option.splits)
qed (use assms in \<open>auto simp: one_source_def points_click_def clear_confirmed_def togglePause_def stream_error_def reconnect_fires_def startStream_def\<close>)

section \<open>Statistics of a run\<close>

definition accepted_vals :: "string \<Rightarrow> js list \<Rightarrow> jnum list" where
  "accepted_vals k ds = concat (map (\<lambda>d. sample_vals d k) ds)"

text \<open>The samples a run reads: those of messages that arrive while the page is not paused.\<close>

fun samples_read :: "bool \<Rightarrow> sensor_event list \<Rightarrow> js list" where
  "samples_read paused [] = []"
| "samples_read paused (Message (Some d) # evs) = (if paused then [] else [d]) @ samples_read paused evs"
| "samples_read paused (Pause # evs) = samples_read (\<not> paused) evs"
| "samples_read paused (_ # evs) = samples_read paused evs"

fun keeps_stats :: "sensor_event \<Rightarrow> bool" where
  "keeps_stats (Message d) = (case d of None \<Rightarrow> True | Some d \<Rightarrow> is_object d \<and> d \<noteq> JNull)"
| "keeps_stats (History _) = False"
| "keeps_stats (Clear b) = (\<not> b)"
| "keeps_stats _ = True"

lemma add_point_stats:
  assumes "is_object d" "d \<noteq> JNull" "k \<in> fst ` set metrics"
  shows "stats (fst (addDataPoint tt ch d c)) k = fold add_stat (sample_vals d k) (stats c k)"
proof -
  have "\<not> nullish d" using assms(1,2) by (cases d) (simp_all add: nullish_def)
  then show ?thesis using assms by (simp add: addDataPoint_def Let_def fold_metric_stats [OF distinct_metrics])
qed

lemma run_stats:
  assumes "list_all keeps_stats evs" "k \<in> fst ` set metrics"
  shows "stats (sensor_run tt evs c) k = fold add_stat (accepted_vals k (samples_read (isPaused c) evs)) (stats c k)"
  using assms(1)
proof (induction evs arbitrary: c)
  case (Cons ev evs)
  show ?case
  proof (cases ev)
    case (Message d)
    then show ?thesis
      using Cons assms(2) addDataPoint_frame add_point_stats
      by (cases d) (auto simp: sensor_run_def stream_message_def accepted_vals_def)
  qed (use Cons in \<open>auto simp: sensor_run_def points_click_def clear_confirmed_def togglePause_def stream_error_def reconnect_fires_def startStream_def\<close>)
qed (simp add: sensor_run_def accepted_vals_def)

lemma num_min_max_Fin [simp]: "num_min (Fin a) (Fin b) = Fin (min a b)" "num_max (Fin a) (Fin b) = Fin (max a b)"
  by (simp_all add: num_min_def num_max_def min_def max_def)

lemma fold_stat_summary:
  assumes "qs \<noteq> []"
  shows "fold add_stat (map Fin qs) None =
     Some \<lparr>st_latest = Fin (last qs), st_min = Fin (Min (set qs)), st_max = Fin (Max (set qs)),
           st_avg = Fin (sum_list qs / of_nat (length qs)), st_count = length qs, st_sum = Fin (sum_list qs)\<rparr>"
  using assms
proof (induction qs rule: rev_nonempty_induct)
  case (single q)
  then show ?case by (simp add: add_stat_def next_stat_def)
next
  case (snoc q qs)
  have mm: "Min (set (qs @ [q])) = min (Min (set qs)) q" "Max (set (qs @ [q])) = max (Max (set qs)) q"
    using snoc.hyps by (simp_all add: min.commute max.commute)
  show ?case
    unfolding mm map_append fold_append comp_apply snoc.IH by (simp add: add_stat_def next_stat_def Let_def add.commute)
qed

section \<open>Properties\<close>

text \<open>
  C29. The sensor window is bounded and aligned: whatever messages, histories, pauses, errors, reconnections and changes of the window size, as long as the
  samples are objects, the page keeps at most as many labels as the window size, exactly one mode per label, and for each metric at most one value per
  label.\<close>

theorem sensor_window_bounded:
  assumes "list_all plain_event evs"
  shows "let c = sensor_run tt evs fresh_collector
         in int (length (labels c)) \<le> max 0 (maxPoints c) \<and> length (modeData c) = length (labels c) \<and>
            (\<forall>k s. series c k = Some s \<longrightarrow> length s \<le> length (labels c))"
proof -
  have "window_ok fresh_collector" by (simp add: fresh_collector_def window_ok_def aligned_def series_of_def)
  from sensor_run_window [OF this assms, of tt] show ?thesis
    by (auto simp: window_ok_def aligned_def series_of_def Let_def split: option.splits)
qed

theorem sensor_window_bounded_witness:
  "let c = sensor_run (\<lambda>_. ''12:00'') [Message (Some (JObj [(''ev'', jint 7)])), Points ''60'', Pause] fresh_collector
   in int (length (labels c)) \<le> max 0 (maxPoints c) \<and> length (modeData c) = length (labels c) \<and>
      (\<forall>k s. series c k = Some s \<longrightarrow> length s \<le> length (labels c))"
  by (rule sensor_window_bounded) (simp add: readable_def)



text \<open>
  The exported table shifts values: if a sample lacks a metric that the next one has, the row of the first sample's time shows the value of the second, and the row
  of the second none.\<close>

theorem sensor_csv_shifts:
  assumes "m \<in> set metrics" "is_object a" "a \<noteq> JNull" "\<not> has_key a (fst m)" "is_object b" "sample_vals b (fst m) = [v]" "has_key b (fst m)"
  shows "let c = sensor_run tt [Message (Some a), Message (Some b)] fresh_collector
         in length (labels c) = 2 \<and> csv_cell c 0 m = to_fixed_num 2 v \<and> csv_cell c 1 m = []"
proof -
  have n: "\<not> nullish a" "\<not> nullish b" using assms by (cases a; cases b; simp add: nullish_def)+
  have k: "fst m \<in> fst ` set metrics" using assms(1) by simp
  define c1 where "c1 = fst (addDataPoint tt True a fresh_collector)"
  have c1: "series c1 (fst m) = None" "length (labels c1) = 1" "maxPoints c1 = 300"
    using n(1) assms(2,4) by (simp_all add: c1_def addDataPoint_def Let_def trimData_def fold_metric_series [OF distinct_metrics] fresh_collector_def)
  define c2 where "c2 = fst (addDataPoint tt True b c1)"
  have c2: "series c2 (fst m) = Some [v]" "length (labels c2) = 2"
    using n(2) assms(5-7) c1 k by (simp_all add: c2_def addDataPoint_def Let_def trimData_def fold_metric_series [OF distinct_metrics] series_of_def)
  have "sensor_run tt [Message (Some a), Message (Some b)] fresh_collector = c2"
    using addDataPoint_frame [of tt True a fresh_collector]
    by (simp add: sensor_run_def stream_message_def c1_def c2_def) (simp add: fresh_collector_def)
  with c2 show ?thesis by (simp add: csv_cell_def)
qed

theorem sensor_csv_shifts_witness:
  "let c = sensor_run (\<lambda>_. ''12:00'') [Message (Some (JObj [])), Message (Some (JObj [(''ev'', jint 7)]))] fresh_collector
   in length (labels c) = 2 \<and> csv_cell c 0 (''ev'', ''Exposure Time (EV)'') = to_fixed_num 2 (Fin 7) \<and> csv_cell c 1 (''ev'', ''Exposure Time (EV)'') = []"
  by (rule sensor_csv_shifts) (simp_all add: metrics_def sample_vals_def parse_float_def)

end
