(* ===== verification/Streamer_Pages.thy ===== *)
theory Streamer_Pages
  imports Preview_Settings
begin

text \<open>
  What the pages with settings of the streamer share, and the audio page (\<open>audio.js\<close>) and the selectors of the stream pages
  (\<open>streamer-config.js\<close>). A page asks the streamer for a block of settings, fills its controls and sends one setting per change;
  every answer may fill the controls again. The global \<open>showAlert\<close> of \<open>main.js\<close> is taken to exist, so that the pages' own
  alert boxes are not used.
\<close>

section \<open>Requests\<close>

text \<open>\<open>requestPrudynt\<close>: the parts of the error message, or the value; an empty answer is an empty object.\<close>

definition requestPrudynt :: "js \<Rightarrow> effect list" where
  "requestPrudynt payload = [Send (PostJson endpoint (jsonify payload))]"

definition prudynt_answer :: "outcome \<Rightarrow> js list + js" where
  "prudynt_answer out =
     (case out of
        Rejected m \<Rightarrow> Inl [JStr m]
      | Answer r \<Rightarrow>
          if \<not> resp_ok r then Inl [JStr ''HTTP '', jint (status r)]
          else if text_body r = [] then Inr (JObj [])
          else (case parsed r of None \<Rightarrow> Inl [JStr ''Invalid JSON from prudynt''] | Some d \<Rightarrow> Inr d))"

text \<open>
  Filling the controls from an answer: \<open>block\<close> gives the error of a value that lacks the page's block, or the block; \<open>apply\<close> fills.
  The second result is the error, if there is one.
\<close>

definition fill_answer :: "(js \<Rightarrow> js list + js) \<Rightarrow> (js \<Rightarrow> 'f \<Rightarrow> 'f \<times> bool) \<Rightarrow> outcome \<Rightarrow> 'f \<Rightarrow> 'f \<times> js list option" where
  "fill_answer block apply out f =
     (case prudynt_answer out of
        Inl e \<Rightarrow> (f, Some e)
      | Inr d \<Rightarrow>
          (case block d of
             Inl e \<Rightarrow> (f, Some e)
           | Inr b \<Rightarrow> (let (f1, threw) = apply b f in (f1, if threw then Some [JStr ''TypeError''] else None))))"

definition named_block :: "string \<Rightarrow> js \<Rightarrow> js list + js" where
  "named_block key d =
     (if \<not> truthy d \<or> \<not> truthy (getp d key) then Inl [JStr (''Missing '' @ key @ '' payload'')] else Inr (getp d key))"

text \<open>An answer to a change fills the controls only where it has the block; a failed request is reported with \<open>what\<close>.\<close>

definition update_settle :: "string \<Rightarrow> (js \<Rightarrow> 'f \<Rightarrow> 'f \<times> bool) \<Rightarrow> string \<Rightarrow> outcome \<Rightarrow> 'f \<Rightarrow> 'f \<times> effect list" where
  "update_settle key apply what out f =
     (case prudynt_answer out of
        Inl e \<Rightarrow> (f, [Notice ''danger'' (JStr (''Failed to update '' @ what @ '': '') # e) 6000])
      | Inr d \<Rightarrow>
          if truthy d \<and> truthy (getp d key)
          then (let (f1, threw) = apply (getp d key) f
                in (f1, if threw then [Notice ''danger'' [JStr (''Failed to update '' @ what @ '': ''), JStr ''TypeError''] 6000] else []))
          else (f, []))"

section \<open>Pages\<close>

record streamer_page =
  sp_fields :: fields
  sp_busy :: busy_bar
  sp_reload_disabled :: bool

text \<open>The end of a load: \<open>silent\<close> loads are those of the reload button, which adds its own notice after the load's.\<close>

definition load_notices :: "bool \<Rightarrow> string \<Rightarrow> string \<Rightarrow> string \<Rightarrow> js list option \<Rightarrow> effect list" where
  "load_notices silent failed reloaded from_camera err =
     (case err of
        Some e \<Rightarrow> [Notice ''danger'' (JStr failed # e) 6000]
      | None \<Rightarrow> if silent then [Notice ''info'' [JStr reloaded] 3000, Notice ''info'' [JStr from_camera] 3000] else [])"

section \<open>The audio page\<close>

definition ThreadAudio :: int where "ThreadAudio = 4"

definition audioParams :: "string list" where
  "audioParams = [''mic_enabled'', ''mic_format'', ''mic_sample_rate'', ''mic_bitrate'', ''mic_vol'', ''mic_gain'', ''mic_alc_gain'',
     ''mic_agc_enabled'', ''mic_high_pass_filter'', ''mic_noise_suppression'', ''mic_agc_compression_gain_db'', ''mic_agc_target_level_dbfs'',
     ''spk_enabled'', ''spk_vol'', ''spk_gain'', ''spk_sample_rate'', ''force_stereo'']"

text \<open>\<open>hasOwnProperty\<close> of a value of JSON; it throws on \<open>null\<close>, which the callers have excluded.\<close>

definition owned :: "js \<Rightarrow> string \<Rightarrow> bool" where
  "owned d k = (case d of JObj kvs \<Rightarrow> map_of kvs k \<noteq> None | _ \<Rightarrow> False)"

definition apply_owned :: "string \<Rightarrow> string list \<Rightarrow> js \<Rightarrow> fields \<Rightarrow> fields \<times> bool" where
  "apply_owned domain ps d f = run_all (map (\<lambda>q. setValue d domain q) (filter (owned d) ps)) f"

definition applyAudioConfig :: "js \<Rightarrow> fields \<Rightarrow> fields \<times> bool" where
  "applyAudioConfig = apply_owned ''audio'' audioParams"

definition audio_buildReadPayload :: js where
  "audio_buildReadPayload = JObj [(''audio'', nulls audioParams)]"

definition disableAudioControls :: "fields \<Rightarrow> fields" where
  "disableAudioControls f =
     fold disable_field (concat (map (\<lambda>q. [''audio_'' @ q, ''audio_'' @ q @ ''-slider'']) audioParams)) f"

definition loadAudioConfig :: "bool \<Rightarrow> streamer_page \<Rightarrow> streamer_page \<times> effect list" where
  "loadAudioConfig silent p =
     (if silent then p\<lparr>sp_reload_disabled := True\<rparr>
      else p\<lparr>sp_fields := disableAudioControls (sp_fields p), sp_busy := showBusy (sp_busy p)\<rparr>, requestPrudynt audio_buildReadPayload)"

definition finish_load :: "bool \<Rightarrow> streamer_page \<Rightarrow> streamer_page" where
  "finish_load silent p = (if silent then p\<lparr>sp_reload_disabled := False\<rparr> else p\<lparr>sp_busy := hideBusy (sp_busy p)\<rparr>)"

definition loadAudioConfig_settle :: "bool \<Rightarrow> outcome \<Rightarrow> streamer_page \<Rightarrow> streamer_page \<times> effect list" where
  "loadAudioConfig_settle silent out p =
     (let (f, err) = fill_answer (named_block ''audio'') applyAudioConfig out (sp_fields p)
      in (finish_load silent (p\<lparr>sp_fields := f\<rparr>),
          load_notices silent ''Unable to load audio settings: '' ''Audio settings reloaded.'' ''Audio settings reloaded from camera.'' err))"

definition audio_value :: "string \<Rightarrow> field \<Rightarrow> js" where
  "audio_value param el =
     (if f_type el = ''checkbox'' then JBool (f_checked el)
      else let v = field_text el
           in if v \<noteq> [] \<and> param \<noteq> ''mic_format'' \<and> number_of_string v \<noteq> NaN then JNum (number_of_string v) else JStr v)"

definition saveAudioValue :: "string \<Rightarrow> fields \<Rightarrow> effect list" where
  "saveAudioValue param f =
     (case inputs f (''audio_'' @ param) of
        None \<Rightarrow> []
      | Some el \<Rightarrow> requestPrudynt (JObj [(''audio'', JObj [(param, audio_value param el)]), (''action'', JObj [(''restart_thread'', jint ThreadAudio)])]))"

definition saveAudioValue_settle :: "string \<Rightarrow> outcome \<Rightarrow> streamer_page \<Rightarrow> streamer_page \<times> effect list" where
  "saveAudioValue_settle param out p =
     (let (f, fx) = update_settle ''audio'' applyAudioConfig (replace_char (CHR ''_'') (CHR '' '') param) out (sp_fields p)
      in (p\<lparr>sp_fields := f\<rparr>, fx))"

definition audio_slider_input :: "string \<Rightarrow> string \<Rightarrow> fields \<Rightarrow> fields" where
  "audio_slider_input param v f =
     (let i = ''audio_'' @ param
      in set_label (i @ ''-slider-value'') (JStr v)
           (on_field i (\<lambda>e. e\<lparr>f_value := JStr v\<rparr>) (on_field (i @ ''-slider'') (\<lambda>e. e\<lparr>f_value := JStr v\<rparr>) f)))"

section \<open>Generated options\<close>

text \<open>\<open>for (let val = min; val <= max; val += step)\<close> on rationals.\<close>

function range_loop :: "rat \<Rightarrow> rat \<Rightarrow> rat \<Rightarrow> rat list" where
  "range_loop v mx step = (if v \<le> mx \<and> 0 < step then v # range_loop (v + step) mx step else [])"
  by pat_completeness auto
termination
proof (relation "measure (\<lambda>(v, mx, step). nat (\<lceil>(mx - v) / step\<rceil> + 1))")
  fix v mx step :: rat
  assume a: "v \<le> mx \<and> 0 < step"
  then have "(mx - (v + step)) / step = (mx - v) / step - 1" by (simp add: field_simps)
  moreover have "0 \<le> (mx - v) / step" using a by simp
  then have "0 \<le> \<lceil>(mx - v) / step\<rceil>" by simp
  ultimately show "((v + step, mx, step), v, mx, step) \<in> measure (\<lambda>(v, mx, step). nat (\<lceil>(mx - v) / step\<rceil> + 1))" by simp
qed simp

declare range_loop.simps [simp del]

text \<open>A data attribute is a text or missing.\<close>

definition parseNumber :: "string option \<Rightarrow> rat option" where
  "parseNumber v = (case v of None \<Rightarrow> None | Some t \<Rightarrow> fin_val (number_of_string t))"

record select =
  sel_id :: string
  rangeMin :: "string option"
  rangeMax :: "string option"
  rangeStep :: "string option"
  optionValues :: "string option"
  options_ready :: bool
  sel_options :: "(string \<times> string) list" \<comment> \<open>values and texts\<close>

definition buildRangeValues :: "select \<Rightarrow> string list option" where
  "buildRangeValues s =
     (case (parseNumber (rangeMin s), parseNumber (rangeMax s)) of
        (Some mn, Some mx) \<Rightarrow>
          let step = (case parseNumber (rangeStep s) of Some q \<Rightarrow> if q > 0 then q else 1 | None \<Rightarrow> 1)
          in Some (map (\<lambda>q. num_text (Fin q)) (range_loop mn mx step))
      | _ \<Rightarrow> None)"

definition buildListValues :: "select \<Rightarrow> string list option" where
  "buildListValues s =
     (case optionValues s of
        None \<Rightarrow> None
      | Some raw \<Rightarrow> if raw = [] then None else Some (filter (\<lambda>t. t \<noteq> []) (map trim (split_on (CHR '','') raw))))"

text \<open>
  The selects of the document in order. \<open>$('option[value=""]')\<close> asks the whole document, so the placeholder taken is the first of all
  selects; appending it to another select removes it where it was.
\<close>

definition is_placeholder :: "string \<times> string \<Rightarrow> bool" where "is_placeholder p \<longleftrightarrow> fst p = []"

fun remove_placeholder :: "select list \<Rightarrow> select list" where
  "remove_placeholder [] = []"
| "remove_placeholder (s # ss) =
     (if filter is_placeholder (sel_options s) \<noteq> []
      then s\<lparr>sel_options := takeWhile (Not \<circ> is_placeholder) (sel_options s) @ tl (dropWhile (Not \<circ> is_placeholder) (sel_options s))\<rparr> # ss
      else s # remove_placeholder ss)"

definition first_placeholder :: "select list \<Rightarrow> (string \<times> string) option" where
  "first_placeholder ss = find is_placeholder (concat (map sel_options ss))"

definition placeholder_text :: "string \<Rightarrow> string" where
  "placeholder_text t = (if t = [] then ''- Select -'' else t)"

text \<open>\<open>preparePlaceholder\<close> of the \<open>i\<close>-th select, followed by the new options.\<close>

definition populateDynamicSelect :: "nat \<Rightarrow> select list \<Rightarrow> select list" where
  "populateDynamicSelect i ss =
     (let s = ss ! i;
          values = (case buildRangeValues s of Some vs \<Rightarrow> Some vs | None \<Rightarrow> buildListValues s)
      in if options_ready s then ss
         else case values of
           None \<Rightarrow> ss
         | Some [] \<Rightarrow> ss
         | Some vs \<Rightarrow>
             (let (head, rest) = (case first_placeholder ss of
                  None \<Rightarrow> ([([], ''- Select -'')], ss)
                | Some (v, t) \<Rightarrow> ([(v, placeholder_text t)], remove_placeholder ss))
              in rest[i := s\<lparr>sel_options := head @ map (\<lambda>v. (v, v)) vs, options_ready := True\<rparr>]))"

definition dynamic :: "select \<Rightarrow> bool" where
  "dynamic s \<longleftrightarrow> rangeMin s \<noteq> None \<or> optionValues s \<noteq> None"

definition initDynamicSelects :: "select list \<Rightarrow> select list" where
  "initDynamicSelects ss = fold populateDynamicSelect (filter (\<lambda>i. dynamic (ss ! i)) [0..<length ss]) ss"

section \<open>Modes and formats of the stream pages\<close>

definition SOC_MODE_MAP :: "(string \<times> string list) list" where
  "SOC_MODE_MAP =
     (let old = [''CBR'', ''VBR'', ''FIXQP'', ''SMART'']; new = [''CBR'', ''VBR'', ''FIXQP'', ''CAPPED_VBR'', ''CAPPED_QUALITY'']
      in [(''t10'', old), (''t20'', old), (''t21'', old), (''t23'', old), (''t30'', old),
          (''t31'', new), (''t40'', new), (''t41'', new), (''c100'', new)])"

definition SOC_FORMAT_MAP :: "(string \<times> string list) list" where
  "SOC_FORMAT_MAP =
     (let h4 = [''H264'']; h5 = [''H264'', ''H265'']
      in [(''t10'', h4), (''t20'', h4), (''t21'', h4), (''t23'', h4), (''t30'', h5), (''t31'', h5), (''t40'', h5), (''t41'', h5), (''c100'', h5)])"

text \<open>\<open>/^(t\d+|c\d+)/\<close> on the lower-case name.\<close>

definition getSocFamily :: "string \<Rightarrow> string option" where
  "getSocFamily soc =
     (case to_lower soc of
        [] \<Rightarrow> None
      | c # r \<Rightarrow> if (c = CHR ''t'' \<or> c = CHR ''c'') \<and> takeWhile is_digit r \<noteq> [] then Some (c # takeWhile is_digit r) else None)"

definition getSupportedModes :: "string \<Rightarrow> string list" where
  "getSupportedModes soc =
     (case Option.bind (getSocFamily soc) (map_of SOC_MODE_MAP) of
        Some ms \<Rightarrow> ms | None \<Rightarrow> [''CBR'', ''VBR'', ''FIXQP'', ''CAPPED_VBR'', ''CAPPED_QUALITY''])"

definition getSupportedFormats :: "string \<Rightarrow> string list" where
  "getSupportedFormats soc =
     (case Option.bind (getSocFamily soc) (map_of SOC_FORMAT_MAP) of Some fs \<Rightarrow> fs | None \<Rightarrow> [''H264'', ''H265''])"

text \<open>A selector: its value and options. A value is lost when the options are replaced, and set again where it is supported.\<close>

record selector =
  so_value :: string
  so_options :: "(string \<times> string) list"

definition repopulate :: "(string \<times> string) list \<Rightarrow> selector \<Rightarrow> selector" where
  "repopulate opts s =
     s\<lparr>so_options := ([], ''- Select -'') # opts, so_value := (if so_value s \<noteq> [] \<and> so_value s \<in> set (map fst opts) then so_value s else [])\<rparr>"

definition populateModeSelectors :: "string \<Rightarrow> selector \<Rightarrow> selector" where
  "populateModeSelectors soc = repopulate (map (\<lambda>m. (m, replace_char (CHR ''_'') (CHR '' '') m)) (getSupportedModes soc))"

definition populateFormatSelectors :: "string \<Rightarrow> selector \<Rightarrow> selector" where
  "populateFormatSelectors soc = repopulate (map (\<lambda>m. (m, m)) (getSupportedFormats soc))"

text \<open>\<open>/^SOC=(.+)$/m\<close> on the lines of \<open>os-release\<close>.\<close>

definition soc_of_release :: "string \<Rightarrow> string option" where
  "soc_of_release txt =
     map_option (drop 4) (find (\<lambda>l. starts_with l ''SOC='' \<and> length l > 4) (concat (map (split_on (CHR 0x0D)) (split_on (CHR 0x0A) txt))))"

text \<open>The name by which the selectors are filled: from the configuration, else from \<open>os-release\<close>, else none.\<close>

definition detected_soc :: "string \<Rightarrow> outcome \<Rightarrow> string" where
  "detected_soc configured out =
     (if configured \<noteq> [] then configured
      else case out of
        Answer r \<Rightarrow> if resp_ok r then (case soc_of_release (text_body r) of Some s \<Rightarrow> s | None \<Rightarrow> []) else []
      | Rejected _ \<Rightarrow> [])"

definition detectSocAndPopulateModes :: "string \<Rightarrow> outcome \<Rightarrow> selector \<times> selector \<Rightarrow> selector \<times> selector" where
  "detectSocAndPopulateModes configured out sels =
     (let soc = detected_soc configured out in (populateModeSelectors soc (fst sels), populateFormatSelectors soc (snd sels)))"

definition savePrudyntConfig_confirmed :: "bool \<Rightarrow> save_button \<Rightarrow> save_button \<times> effect list" where
  "savePrudyntConfig_confirmed = save_confirmed"

text \<open>Here an answer \<open>null\<close> counts as a failed save.\<close>

definition persist_answer :: "outcome \<Rightarrow> js list option" where
  "persist_answer out =
     (case out of
        Rejected m \<Rightarrow> Some [JStr m]
      | Answer r \<Rightarrow>
          if \<not> resp_ok r then Some [JStr ''HTTP '', jint (status r)]
          else (case parsed r of
                  None \<Rightarrow> Some [JStr ''SyntaxError'']
                | Some d \<Rightarrow>
                    if truthy (getp d ''action'') \<and> getp (getp d ''action'') ''save_config'' = JStr ''ok'' then None
                    else Some [JStr ''Save failed'']))"

definition savePrudyntConfig_settle :: "outcome \<Rightarrow> save_button \<Rightarrow> save_button \<times> effect list" where
  "savePrudyntConfig_settle out b =
     (b\<lparr>sb_disabled := False\<rparr>,
      case persist_answer out of
        None \<Rightarrow> [Notice ''success'' [JStr ''Configuration saved successfully to /etc/prudynt.json''] 3000]
      | Some m \<Rightarrow> [Notice ''danger'' (JStr ''Failed to save configuration: '' # m) 6000])"

section \<open>Lemmas\<close>

text \<open>A filled form: filling one setting leaves the fields of the others, the kinds of the fields and the presence of labels alone.\<close>

lemma labels_on_field [simp]: "labels (on_field i g f) = labels f"
  by (simp add: on_field_def)

lemma labels_set_label_None [simp]: "labels (set_label i v f) k = None \<longleftrightarrow> labels f k = None"
  by (simp add: set_label_def)

lemma set_slider_frame: "j \<noteq> i @ ''-slider'' \<Longrightarrow> inputs (set_slider i v f) j = inputs f j"
  by (simp add: set_slider_def split: option.splits)

lemma set_slider_types: "map_option f_type (inputs (set_slider i v f) j) = map_option f_type (inputs f j)"
  by (simp add: set_slider_def option.map_comp comp_def split: option.splits)

lemma set_slider_labels: "labels (set_slider i v f) k = None \<longleftrightarrow> labels f k = None"
  by (simp add: set_slider_def split: option.splits)

lemma setValue_frame:
  "j \<noteq> domain @ ''_'' @ q \<Longrightarrow> j \<noteq> domain @ ''_'' @ q @ ''-slider'' \<Longrightarrow> inputs (fst (setValue d domain q f)) j = inputs f j"
  by (simp add: setValue_def Let_def set_slider_frame split: option.splits)

lemma setValue_types: "map_option f_type (inputs (fst (setValue d domain q f)) j) = map_option f_type (inputs f j)"
proof (cases "j = domain @ ''_'' @ q")
  case True
  then show ?thesis by (simp add: setValue_def Let_def inputs_set_slider option.map_comp comp_def split: option.splits)
next
  case False
  then show ?thesis by (simp add: setValue_def Let_def set_slider_types split: option.splits)
qed

lemma setValue_labels: "labels (fst (setValue d domain q f)) k = None \<longleftrightarrow> labels f k = None"
  by (simp add: setValue_def Let_def set_slider_labels split: option.splits)

definition shows_value :: "js \<Rightarrow> field \<Rightarrow> field \<Rightarrow> bool" where
  "shows_value v el el' \<longleftrightarrow> f_type el' = f_type el \<and> (if f_type el = ''checkbox'' then f_checked el' = truthy v else f_value el' = v)"

definition labelled :: "string \<Rightarrow> fields \<Rightarrow> string \<Rightarrow> bool" where
  "labelled domain f q \<longleftrightarrow>
     map_option f_type (inputs f (domain @ ''_'' @ q)) = Some ''range'' \<longrightarrow> labels f (domain @ ''_'' @ q @ ''-show'') \<noteq> None"

lemma labelled_setValue [simp]: "labelled domain (fst (setValue d domain' q' f)) q \<longleftrightarrow> labelled domain f q"
  unfolding labelled_def setValue_labels setValue_types ..

lemma setValue_shows:
  assumes "\<not> nullish d" "getp d q \<noteq> JUndef" "labelled domain f q"
  shows "\<not> snd (setValue d domain q f)"
    and "inputs f (domain @ ''_'' @ q) = Some el \<Longrightarrow>
      \<exists>el'. inputs (fst (setValue d domain q f)) (domain @ ''_'' @ q) = Some el' \<and> shows_value (getp d q) el el'"
  using assms by (auto simp: setValue_def Let_def labelled_def shows_value_def inputs_set_slider split: option.splits)

lemma fill_frame:
  assumes "q \<notin> set qs" "CHR ''-'' \<notin> set q"
  shows "inputs (fst (run_all (map (setValue d domain) qs) f)) (domain @ ''_'' @ q) = inputs f (domain @ ''_'' @ q)"
  using assms(1)
proof (induction qs arbitrary: f)
  case (Cons p qs)
  have "q \<noteq> p @ ''-slider''" using assms(2) by auto
  then have "inputs (fst (setValue d domain p f)) (domain @ ''_'' @ q) = inputs f (domain @ ''_'' @ q)"
    using Cons.prems by (intro setValue_frame) auto
  with Cons show ?case by (auto simp: Let_def split: prod.splits)
qed simp

lemma fill_shows:
  assumes "distinct qs" "\<And>q. q \<in> set qs \<Longrightarrow> CHR ''-'' \<notin> set q" "\<not> nullish d" "\<And>q. q \<in> set qs \<Longrightarrow> getp d q \<noteq> JUndef"
    "\<And>q. q \<in> set qs \<Longrightarrow> labelled domain f q"
  shows "\<not> snd (run_all (map (setValue d domain) qs) f) \<and>
    (\<forall>q el. q \<in> set qs \<longrightarrow> inputs f (domain @ ''_'' @ q) = Some el \<longrightarrow>
      (\<exists>el'. inputs (fst (run_all (map (setValue d domain) qs) f)) (domain @ ''_'' @ q) = Some el' \<and> shows_value (getp d q) el el'))"
  using assms
proof (induction qs arbitrary: f)
  case (Cons p qs)
  obtain f1 where f1: "setValue d domain p f = (f1, False)"
    using setValue_shows(1) [of d p domain f] Cons.prems by (cases "setValue d domain p f") auto
  have keep: "inputs f1 (domain @ ''_'' @ q) = inputs f (domain @ ''_'' @ q)" if "q \<in> set qs" for q
  proof -
    have "CHR ''-'' \<notin> set q" using Cons.prems(2) that by simp
    then have "q \<noteq> p" "q \<noteq> p @ ''-slider''" using that Cons.prems(1) by auto
    then show ?thesis using setValue_frame [of "domain @ ''_'' @ q" domain p d f] by (simp add: f1)
  qed
  have "labelled domain f1 q" if "q \<in> set qs" for q
    using labelled_setValue [of domain d domain p f q] Cons.prems(5) that by (simp add: f1)
  then have IH: "\<not> snd (run_all (map (setValue d domain) qs) f1)"
    "\<And>q el. q \<in> set qs \<Longrightarrow> inputs f1 (domain @ ''_'' @ q) = Some el \<Longrightarrow>
      \<exists>el'. inputs (fst (run_all (map (setValue d domain) qs) f1)) (domain @ ''_'' @ q) = Some el' \<and> shows_value (getp d q) el el'"
    using Cons.IH [of f1] Cons.prems by auto
  have first: "\<exists>el'. inputs (fst (run_all (map (setValue d domain) qs) f1)) (domain @ ''_'' @ p) = Some el' \<and> shows_value (getp d p) el el'"
    if "inputs f (domain @ ''_'' @ p) = Some el" for el
    using setValue_shows(2) [of d p domain f el] fill_frame [of p qs d domain f1] that Cons.prems by (simp add: f1)
  show ?case using IH keep first by (simp add: f1)
qed simp

section \<open>Properties\<close>

text \<open>The values a control of the audio page stands for: switches, the name of the format, integers.\<close>

definition audio_setting :: "string \<Rightarrow> field \<Rightarrow> js \<Rightarrow> bool" where
  "audio_setting q el v =
     (case v of
        JBool _ \<Rightarrow> f_type el = ''checkbox''
      | JStr s \<Rightarrow> f_type el \<noteq> ''checkbox'' \<and> (q = ''mic_format'' \<or> number_of_string s = NaN)
      | JNum (Fin r) \<Rightarrow> f_type el \<noteq> ''checkbox'' \<and> q \<noteq> ''mic_format'' \<and> r = of_int \<lfloor>r\<rfloor>
      | _ \<Rightarrow> False)"

lemma audio_value_shown:
  assumes "audio_setting q el v" "shows_value v el el'"
  shows "audio_value q el' = v" "jsonify v = v" "v \<noteq> JUndef"
proof -
  show "audio_value q el' = v"
  proof (cases v)
    case (JNum n)
    then obtain i where i: "v = jint i" "f_type el \<noteq> ''checkbox''" "q \<noteq> ''mic_format''"
      using assms(1) by (cases n) (auto simp: audio_setting_def intro: that)
    have "show_int i \<noteq> []" by (simp add: show_int_def)
    then show ?thesis using assms(2) i by (simp add: audio_value_def shows_value_def field_text_def number_of_show_int)
  qed (use assms in \<open>auto simp: audio_setting_def audio_value_def shows_value_def field_text_def\<close>)
qed (use assms(1) in \<open>auto simp: audio_setting_def split: js.splits jnum.splits\<close>)

lemma audioParams_plain: "distinct audioParams" "list_all (\<lambda>q. CHR ''-'' \<notin> set q) audioParams"
  by code_simp+


definition sample_audio :: streamer_page where
  "sample_audio = \<lparr>sp_fields = \<lparr>inputs = [''audio_mic_vol'' \<mapsto> text_field ''number'' JNull, ''audio_mic_enabled'' \<mapsto> text_field ''checkbox'' JNull], labels = Map.empty\<rparr>,
     sp_busy = idle_bar, sp_reload_disabled = False\<rparr>"

definition sample_block :: "(string \<times> js) list" where
  "sample_block = [(''mic_enabled'', JBool True), (''mic_vol'', jint 80)]"


lemma range_loop_values:
  assumes "0 < step" "v \<le> mx"
  shows "\<exists>n. range_loop v mx step = map (\<lambda>k. v + of_nat k * step) [0..<Suc n] \<and> v + of_nat n * step \<le> mx \<and> mx < v + of_nat (Suc n) * step"
  using assms
proof (induction v mx step rule: range_loop.induct)
  case (1 v mx step)
  show ?case
  proof (cases "v + step \<le> mx")
    case True
    then obtain n where n: "range_loop (v + step) mx step = map (\<lambda>k. v + step + of_nat k * step) [0..<Suc n]"
      "v + step + of_nat n * step \<le> mx" "mx < v + step + of_nat (Suc n) * step"
      using 1 by blast
    have "map (\<lambda>k. v + step + of_nat k * step) [0..<Suc n] = map (\<lambda>k. v + of_nat k * step) (map Suc [0..<Suc n])"
      by (simp add: algebra_simps)
    then have "range_loop v mx step = map (\<lambda>k. v + of_nat k * step) [0..<Suc (Suc n)]"
      using "1.prems" n(1) by (simp add: range_loop.simps [of v] map_Suc_upt upt_conv_Cons del: upt_Suc)
    moreover have "v + of_nat (Suc n) * step \<le> mx" "mx < v + of_nat (Suc (Suc n)) * step" using n(2,3) by (simp_all add: algebra_simps)
    ultimately show ?thesis by blast
  next
    case False
    then have "range_loop v mx step = [v]" using "1.prems" by (simp add: range_loop.simps)
    with False "1.prems" show ?thesis by (intro exI [of _ 0]) simp
  qed
qed

text \<open>
  The options generated for a range are exactly its values: the limit from which the loop starts and every further step that does not
  exceed the upper limit, in order; the loop ends for all limits and steps, because a step that is zero, negative or no number counts as one.\<close>

theorem range_options_exact:
  assumes "parseNumber (rangeMin s) = Some mn" "parseNumber (rangeMax s) = Some mx" "mn \<le> mx"
  shows "\<exists>step n. 0 < step \<and> (\<forall>q. parseNumber (rangeStep s) = Some q \<longrightarrow> step = (if q > 0 then q else 1)) \<and>
     buildRangeValues s = Some (map (\<lambda>k. num_text (Fin (mn + of_nat k * step))) [0..<Suc n]) \<and>
     mn + of_nat n * step \<le> mx \<and> mx < mn + of_nat (Suc n) * step"
proof -
  define step where "step = (case parseNumber (rangeStep s) of Some q \<Rightarrow> if q > 0 then q else 1 | None \<Rightarrow> 1)"
  have pos: "0 < step" by (simp add: step_def split: option.splits)
  then obtain n where "range_loop mn mx step = map (\<lambda>k. mn + of_nat k * step) [0..<Suc n]"
    "mn + of_nat n * step \<le> mx" "mx < mn + of_nat (Suc n) * step"
    using range_loop_values assms(3) by blast
  then show ?thesis
    using pos assms(1,2) by (intro exI [of _ step] exI [of _ n]) (auto simp: buildRangeValues_def step_def comp_def simp del: upt_Suc of_nat_Suc)
qed

definition blank_select :: select where
  "blank_select = \<lparr>sel_id = [], rangeMin = None, rangeMax = None, rangeStep = None, optionValues = None, options_ready = False, sel_options = [([], ''- Select -'')]\<rparr>"

theorem range_options_exact_witness:
  "\<exists>step n. 0 < step \<and> (\<forall>q. parseNumber (Some ''2'') = Some q \<longrightarrow> step = (if q > 0 then q else 1)) \<and>
     buildRangeValues (blank_select\<lparr>rangeMin := Some ''6'', rangeMax := Some ''256'', rangeStep := Some ''2''\<rparr>) =
       Some (map (\<lambda>k. num_text (Fin (6 + of_nat k * step))) [0..<Suc n]) \<and>
     6 + of_nat n * step \<le> 256 \<and> 256 < 6 + of_nat (Suc n) * step"
proof -
  have "parseNumber (Some ''6'') = Some 6" "parseNumber (Some ''256'') = Some 256" by code_simp+
  then show ?thesis
    using range_options_exact [of "blank_select\<lparr>rangeMin := Some ''6'', rangeMax := Some ''256'', rangeStep := Some ''2''\<rparr>" 6 256] by simp
qed

text \<open>
  The placeholder a select gets is the first of the document, taken from the select \<open>i\<close> that has it: that one can no longer be emptied. On
  \<open>config-audio.html\<close>, where each of the four selects has one, only the last keeps one.
\<close>

lemma find_skip: "\<forall>x\<in>set xs. \<not> P x \<Longrightarrow> find P (xs @ ys) = find P ys"
  by (induction xs) simp_all

lemma remove_placeholder_at:
  assumes "i < length ss" "\<And>k. k < i \<Longrightarrow> filter is_placeholder (sel_options (ss ! k)) = []" "filter is_placeholder (sel_options (ss ! i)) = [p]"
  shows "map (\<lambda>s. filter is_placeholder (sel_options s)) (remove_placeholder ss) = (map (\<lambda>s. filter is_placeholder (sel_options s)) ss)[i := []]
    \<and> first_placeholder ss = Some p \<and> length (remove_placeholder ss) = length ss"
  using assms
proof (induction ss arbitrary: i)
  case (Cons s ss)
  show ?case
  proof (cases i)
    case 0
    let ?xs = "sel_options s"
    have f: "filter is_placeholder ?xs = [p]" using Cons.prems(3) 0 by simp
    obtain us vs where uv: "?xs = us @ p # vs" "\<forall>u\<in>set us. \<not> is_placeholder u" "is_placeholder p" "[] = filter is_placeholder vs"
      using f unfolding filter_eq_Cons_iff by blast
    then have "takeWhile (Not \<circ> is_placeholder) ?xs = us" "dropWhile (Not \<circ> is_placeholder) ?xs = p # vs"
      by (simp_all add: takeWhile_append dropWhile_append)
    moreover have "filter is_placeholder us = []" using uv(2) by (simp add: filter_empty_conv)
    ultimately show ?thesis using f 0 uv by (simp add: first_placeholder_def find_skip)
  next
    case (Suc k)
    have "filter is_placeholder (sel_options s) = []" using Cons.prems(2) [of 0] Suc by simp
    moreover from this have "find is_placeholder (sel_options s @ ws) = find is_placeholder ws" for ws
      by (simp add: filter_empty_conv find_skip)
    moreover have "map (\<lambda>s. filter is_placeholder (sel_options s)) (remove_placeholder ss) = (map (\<lambda>s. filter is_placeholder (sel_options s)) ss)[k := []]
        \<and> first_placeholder ss = Some p \<and> length (remove_placeholder ss) = length ss"
      by (rule Cons.IH) (use Cons.prems Suc Cons.prems(2) [of "Suc m" for m] in simp_all)
    ultimately show ?thesis using Suc by (simp add: first_placeholder_def)
  qed
qed simp

lemma placeholder_moves:
  assumes "i < length ss" "\<And>k. k < i \<Longrightarrow> filter is_placeholder (sel_options (ss ! k)) = []" "filter is_placeholder (sel_options (ss ! i)) = [p]"
    and "j < length ss" "\<not> options_ready (ss ! j)" "[] \<notin> set vs" "vs \<noteq> []"
    and "(case buildRangeValues (ss ! j) of Some us \<Rightarrow> Some us | None \<Rightarrow> buildListValues (ss ! j)) = Some vs"
  shows "map (\<lambda>s. filter is_placeholder (sel_options s)) (populateDynamicSelect j ss) =
    (map (\<lambda>s. filter is_placeholder (sel_options s)) ss)[i := [], j := [([], placeholder_text (snd p))]]"
proof -
  obtain u us where vs: "vs = u # us" using assms(7) by (cases vs) auto
  have "is_placeholder p" using filter_eq_ConsD [OF assms(3)] by blast
  then obtain t where p: "p = ([], t)" by (cases p) (simp add: is_placeholder_def)
  have none: "filter is_placeholder (map (\<lambda>v. (v, v)) vs) = []" using assms(6) by (auto simp: filter_empty_conv is_placeholder_def)
  show ?thesis
    using remove_placeholder_at [OF assms(1-3)] assms(4,5,8) none
    by (simp add: populateDynamicSelect_def vs p map_update is_placeholder_def)
qed

lemma selector_supported:
  "so_value (fst (detectSocAndPopulateModes soc out sels)) \<in> insert [] (set (getSupportedModes (detected_soc soc out)))"
  "so_value (snd (detectSocAndPopulateModes soc out sels)) \<in> insert [] (set (getSupportedFormats (detected_soc soc out)))"
  by (auto simp: detectSocAndPopulateModes_def populateModeSelectors_def populateFormatSelectors_def repopulate_def Let_def)

lemma selector_keeps:
  "so_value (fst sels) \<in> set (getSupportedModes (detected_soc soc out)) \<Longrightarrow>
   so_value (fst (detectSocAndPopulateModes soc out sels)) = so_value (fst sels)"
  by (auto simp: detectSocAndPopulateModes_def populateModeSelectors_def repopulate_def Let_def comp_def)

end
