(* ===== verification/Photosensing_Page.thy ===== *)
theory Photosensing_Page
  imports Streamer_Pages
begin

text \<open>
  The page of the day and night switching (\<open>config-photosensing.js\<close>): thresholds, controls and schedule are read from the streamer and
  written to the configuration file by the save button, all at once. The functions that send a single setting exist in the script; no
  event calls them.
\<close>

section \<open>Filling the form\<close>

definition dayNightParams :: "string list" where
  "dayNightParams = [''total_gain_night_threshold'', ''total_gain_day_threshold'']"

definition dayNightScheduleParams :: "string list" where "dayNightScheduleParams = [''enabled'', ''start_at'', ''stop_at'']"

definition dayNightControls :: "string list" where "dayNightControls = [''color'', ''ircut'', ''ir850'', ''ir940'', ''white'']"

record photo_page =
  ph_fields :: fields
  ph_busy :: busy_bar
  ph_reload_disabled :: bool
  ph_save_disabled :: bool
  ph_hidden :: bool \<comment> \<open>of \<open>#photosensing-content\<close>\<close>
  initialLoadComplete :: bool
  ph_buttons :: "slider_button list"

definition disablePhotosensingInputs :: "fields \<Rightarrow> fields" where
  "disablePhotosensingInputs f =
     fold disable_field
       (concat (map (\<lambda>q. [''daynight_'' @ q, ''daynight_'' @ q @ ''-slider'']) dayNightParams)
        @ map (\<lambda>c. ''daynight_controls_'' @ c) dayNightControls @ map (\<lambda>q. ''daynight_schedule_'' @ q) dayNightScheduleParams) f"

definition photo_buildReadPayload :: js where
  "photo_buildReadPayload = JObj [(''daynight'', JObj
     ([(''controls'', nulls dayNightControls), (''schedule'', nulls dayNightScheduleParams)] @ map (\<lambda>q. (q, JNull)) dayNightParams))]"

definition show_control :: "js \<Rightarrow> field \<Rightarrow> field" where
  "show_control v e = e\<lparr>f_checked := truthy v, f_disabled := False, f_wrapper_disabled := map_option (\<lambda>_. False) (f_wrapper_disabled e)\<rparr>"

definition show_schedule :: "js \<Rightarrow> field \<Rightarrow> field" where
  "show_schedule v e =
     (if f_type e = ''checkbox'' then e\<lparr>f_checked := truthy v, f_disabled := False\<rparr> else e\<lparr>f_value := js_or v (JStr []), f_disabled := False\<rparr>)"

text \<open>One group of controls: those with a setting in the block.\<close>

definition fill_group :: "string \<Rightarrow> (js \<Rightarrow> field \<Rightarrow> field) \<Rightarrow> string list \<Rightarrow> js \<Rightarrow> fields \<Rightarrow> fields" where
  "fill_group prefix show ks block f =
     (if truthy block then fold (\<lambda>k. on_field (prefix @ k) (show (getp block k))) (filter (owned block) ks) f else f)"

definition applyDaynightConfig :: "js \<Rightarrow> fields \<Rightarrow> fields \<times> bool" where
  "applyDaynightConfig daynight f =
     (let (f1, threw) = apply_owned ''daynight'' dayNightParams daynight f
      in if threw then (f1, True)
         else (fill_group ''daynight_schedule_'' show_schedule dayNightScheduleParams (getp daynight ''schedule'')
                 (fill_group ''daynight_controls_'' show_control dayNightControls (getp daynight ''controls'') f1), False))"

section \<open>Loading\<close>

definition loadPhotosensingConfig :: "bool \<Rightarrow> photo_page \<Rightarrow> photo_page \<times> effect list" where
  "loadPhotosensingConfig silent p =
     (if silent then p\<lparr>ph_reload_disabled := True\<rparr>
      else p\<lparr>ph_busy := showBusy (ph_busy p), ph_fields := disablePhotosensingInputs (ph_fields p)\<rparr>, requestPrudynt photo_buildReadPayload)"

definition first_load_done :: "photo_page \<Rightarrow> photo_page" where
  "first_load_done p =
     (if initialLoadComplete p then p
      else p\<lparr>ph_hidden := False, ph_buttons := attachSliderButtons (ph_buttons p), initialLoadComplete := True\<rparr>)"

definition loadPhotosensingConfig_settle :: "bool \<Rightarrow> outcome \<Rightarrow> photo_page \<Rightarrow> photo_page \<times> effect list" where
  "loadPhotosensingConfig_settle silent out p =
     (let (f, err) = fill_answer (named_block ''daynight'') applyDaynightConfig out (ph_fields p);
          p1 = p\<lparr>ph_fields := f\<rparr>;
          p2 = (if err = None then first_load_done p1 else p1)
      in (if silent then p2\<lparr>ph_reload_disabled := False\<rparr> else p2\<lparr>ph_busy := hideBusy (ph_busy p2)\<rparr>,
          load_notices silent ''Unable to load photosensing settings: '' ''Photosensing settings reloaded.''
            ''Photosensing settings reloaded from camera.'' err))"

definition daynight_slider_input :: "string \<Rightarrow> string \<Rightarrow> fields \<Rightarrow> fields" where
  "daynight_slider_input param v f =
     (let i = ''daynight_'' @ param
      in set_label (i @ ''-slider-value'') (JStr v)
           (on_field i (\<lambda>e. e\<lparr>f_value := JStr v\<rparr>) (on_field (i @ ''-slider'') (\<lambda>e. e\<lparr>f_value := JStr v\<rparr>) f)))"

section \<open>Single settings\<close>

definition threshold_value :: "field \<Rightarrow> js" where
  "threshold_value el =
     (if f_type el = ''checkbox'' then JBool (f_checked el)
      else let n = number_of_string (field_text el) in if n = NaN then jint 0 else JNum n)"

definition schedule_value :: "field \<Rightarrow> js" where
  "schedule_value el = (if f_type el = ''checkbox'' then JBool (f_checked el) else JStr (field_text el))"

definition saveDaynightParam :: "string \<Rightarrow> fields \<Rightarrow> effect list" where
  "saveDaynightParam param f =
     (case inputs f (''daynight_'' @ param) of
        None \<Rightarrow> [] | Some el \<Rightarrow> requestPrudynt (JObj [(''daynight'', JObj [(param, threshold_value el)])]))"

definition saveDaynightControl :: "string \<Rightarrow> fields \<Rightarrow> effect list" where
  "saveDaynightControl control f =
     (case inputs f (''daynight_controls_'' @ control) of
        None \<Rightarrow> [] | Some el \<Rightarrow> requestPrudynt (JObj [(''daynight'', JObj [(''controls'', JObj [(control, JBool (f_checked el))])])]))"

definition saveDaynightScheduleParam :: "string \<Rightarrow> fields \<Rightarrow> effect list" where
  "saveDaynightScheduleParam param f =
     (case inputs f (''daynight_schedule_'' @ param) of
        None \<Rightarrow> [] | Some el \<Rightarrow> requestPrudynt (JObj [(''daynight'', JObj [(''schedule'', JObj [(param, schedule_value el)])])]))"

definition sendDaynightUpdate_settle :: "string \<Rightarrow> outcome \<Rightarrow> fields \<Rightarrow> fields \<times> effect list" where
  "sendDaynightUpdate_settle what = update_settle ''daynight'' applyDaynightConfig what"

section \<open>The save button\<close>

definition collect :: "string \<Rightarrow> (field \<Rightarrow> js) \<Rightarrow> string list \<Rightarrow> fields \<Rightarrow> (string \<times> js) list" where
  "collect prefix get ks f = concat (map (\<lambda>k. case inputs f (prefix @ k) of None \<Rightarrow> [] | Some el \<Rightarrow> [(k, get el)]) ks)"

definition daynight_payload :: "fields \<Rightarrow> js" where
  "daynight_payload f = JObj [(''daynight'', JObj
     (collect ''daynight_'' threshold_value dayNightParams f
      @ [(''schedule'', JObj (collect ''daynight_schedule_'' schedule_value dayNightScheduleParams f)),
         (''controls'', JObj (collect ''daynight_controls_'' (\<lambda>e. JBool (f_checked e)) dayNightControls f))]))]"

definition photo_save :: "photo_page \<Rightarrow> photo_page \<times> effect list" where
  "photo_save p =
     (p\<lparr>ph_save_disabled := True\<rparr>, [Send (PostJson ''/x/json-prudynt-save.cgi'' (jsonify (daynight_payload (ph_fields p))))])"

definition photo_saved :: "outcome \<Rightarrow> js list + js" where
  "photo_saved out =
     (case out of
        Rejected m \<Rightarrow> Inl [JStr m]
      | Answer r \<Rightarrow>
          if \<not> resp_ok r then Inl [JStr ''HTTP '', jint (status r)]
          else (case parsed r of
                  None \<Rightarrow> Inl [JStr ''SyntaxError'']
                | Some d \<Rightarrow>
                    if nullish d then Inl [JStr ''TypeError'']
                    else if truthy (getp d ''error'') then Inl [js_or (JStr (js_text (getp d ''error''))) (JStr ''Error'')]
                    else Inr (js_or (getp d ''message'') (JStr ''Configuration saved successfully to /etc/prudynt.json''))))"

definition photo_save_settle :: "outcome \<Rightarrow> photo_page \<Rightarrow> photo_page \<times> effect list" where
  "photo_save_settle out p =
     (p\<lparr>ph_save_disabled := False\<rparr>,
      case photo_saved out of
        Inr m \<Rightarrow> [Notice ''success'' [m] 3000]
      | Inl e \<Rightarrow> [Notice ''danger'' (JStr ''Failed to save configuration: '' # e) 6000])"

section \<open>Lemmas\<close>

lemma map_of_collect: "map_of (collect prefix get ks f) k = (if k \<in> set ks then map_option get (inputs f (prefix @ k)) else None)"
  by (induction ks) (auto simp: collect_def split: option.splits)

lemma collect_cong:
  assumes "\<And>k. k \<in> set ks \<Longrightarrow> map_option get (inputs f (prefix @ k)) = map_option get (inputs g (prefix @ k))"
  shows "collect prefix get ks f = collect prefix get ks g"
proof -
  have "(case inputs f (prefix @ k) of None \<Rightarrow> [] | Some el \<Rightarrow> [(k, get el)]) = (case inputs g (prefix @ k) of None \<Rightarrow> [] | Some el \<Rightarrow> [(k, get el)])"
    if "k \<in> set ks" for k
    using assms [OF that] by (cases "inputs f (prefix @ k)"; cases "inputs g (prefix @ k)") auto
  then show ?thesis unfolding collect_def by (metis (no_types, lifting) map_eq_conv)
qed

lemma fold_on_field_miss: "\<forall>k\<in>set ks. i \<noteq> prefix @ k \<Longrightarrow> inputs (fold (\<lambda>k. on_field (prefix @ k) (g k)) ks f) i = inputs f i"
  by (induction ks arbitrary: f) auto

lemma fold_on_field_hit:
  "distinct ks \<Longrightarrow> k \<in> set ks \<Longrightarrow> inputs (fold (\<lambda>k. on_field (prefix @ k) (g k)) ks f) (prefix @ k) = map_option (g k) (inputs f (prefix @ k))"
proof (induction ks arbitrary: f)
  case (Cons a ks)
  then have "\<forall>x\<in>set ks. prefix @ a \<noteq> prefix @ x" by auto
  with Cons show ?case by (cases "k = a") (simp_all add: fold_on_field_miss)
qed simp

lemma on_field_None: "inputs f i = None \<Longrightarrow> inputs (on_field j g f) i = None"
  by auto

lemma fold_on_field_None: "inputs f i = None \<Longrightarrow> inputs (fold (\<lambda>k. on_field (prefix @ k) (g k)) ks f) i = None"
  by (induction ks arbitrary: f) (simp_all add: on_field_None del: inputs_on_field)

lemma fill_group_miss: "\<forall>k\<in>set ks. i \<noteq> prefix @ k \<Longrightarrow> inputs (fill_group prefix show ks b f) i = inputs f i"
  by (simp add: fill_group_def fold_on_field_miss)

lemma fill_group_hit:
  "distinct ks \<Longrightarrow> k \<in> set ks \<Longrightarrow> truthy b \<Longrightarrow> owned b k \<Longrightarrow>
   inputs (fill_group prefix show ks b f) (prefix @ k) = map_option (show (getp b k)) (inputs f (prefix @ k))"
  unfolding fill_group_def by (simp add: fold_on_field_hit)

text \<open>A group filled from what the same group of another page, with the same kinds of controls, was read as.\<close>

lemma fill_group_collected:
  assumes "distinct ks" "k \<in> set ks" "map_option f_type (inputs g (prefix @ k)) = map_option f_type (inputs f (prefix @ k))"
    "\<And>e e'. f_type e' = f_type e \<Longrightarrow> get (show (get e) e') = get e"
  shows "map_option get (inputs (fill_group prefix show ks (JObj (collect prefix get ks f)) g) (prefix @ k)) = map_option get (inputs f (prefix @ k))"
proof (cases "inputs f (prefix @ k)")
  case None
  then have "inputs g (prefix @ k) = None" using assms(3) by simp
  then have "inputs (fill_group prefix show ks b g) (prefix @ k) = None" for b by (simp add: fill_group_def fold_on_field_None)
  then show ?thesis using None assms(3) by simp
next
  case (Some e)
  then obtain e' where "inputs g (prefix @ k) = Some e'" "f_type e' = f_type e" using assms(3) by auto
  then show ?thesis
    using Some assms(1,2,4) by (simp add: fill_group_hit owned_def map_of_collect)
qed

lemma collect_filled:
  assumes "distinct ks" "\<And>k. k \<in> set ks \<Longrightarrow> map_option f_type (inputs g (prefix @ k)) = map_option f_type (inputs f (prefix @ k))"
    "\<And>e e'. f_type e' = f_type e \<Longrightarrow> get (show (get e) e') = get e"
  shows "collect prefix get ks (fill_group prefix show ks (JObj (collect prefix get ks f)) g) = collect prefix get ks f"
  by (rule collect_cong) (rule fill_group_collected [OF assms(1) _ assms(2,3)])

lemma collect_miss:
  "\<forall>k\<in>set ks. \<forall>j\<in>set js. prefix @ k \<noteq> prefix' @ j \<Longrightarrow> collect prefix get ks (fill_group prefix' show js b f) = collect prefix get ks f"
  by (rule collect_cong) (simp add: fill_group_miss)

definition same_controls :: "fields \<Rightarrow> fields \<Rightarrow> bool" where
  "same_controls f g \<longleftrightarrow> list_all (\<lambda>i. map_option f_type (inputs g i) = map_option f_type (inputs f i))
     (map ((@) ''daynight_'') dayNightParams @ map ((@) ''daynight_schedule_'') dayNightScheduleParams @ map ((@) ''daynight_controls_'') dayNightControls)"

text \<open>The thresholds are integers (an empty or unreadable one counts as 0).\<close>

definition whole_thresholds :: "fields \<Rightarrow> bool" where
  "whole_thresholds f \<longleftrightarrow> list_all (\<lambda>k. case inputs f (''daynight_'' @ k) of None \<Rightarrow> True
     | Some el \<Rightarrow> (case threshold_value el of JNum (Fin q) \<Rightarrow> q = of_int \<lfloor>q\<rfloor> | JBool _ \<Rightarrow> True | _ \<Rightarrow> False)) dayNightParams"

lemma threshold_shown:
  assumes "shows_value (threshold_value e) e' e''" "f_type e' = f_type e"
    "case threshold_value e of JNum (Fin q) \<Rightarrow> q = of_int \<lfloor>q\<rfloor> | JBool _ \<Rightarrow> True | _ \<Rightarrow> False"
  shows "threshold_value e'' = threshold_value e"
proof (cases "f_type e = ''checkbox''")
  case True
  then show ?thesis using assms(1,2) by (simp add: threshold_value_def shows_value_def)
next
  case False
  then obtain q where q: "threshold_value e = JNum (Fin q)" "q = of_int \<lfloor>q\<rfloor>"
    using assms(3) by (cases "number_of_string (field_text e)") (simp_all add: threshold_value_def)
  define i where "i = \<lfloor>q\<rfloor>"
  have "threshold_value e = jint i" using q by (simp add: i_def)
  then show ?thesis
    using assms(1,2) False by (simp add: threshold_value_def [of e''] shows_value_def field_text_def number_of_show_int)
qed

lemma schedule_shown: "f_type e' = f_type e \<Longrightarrow> schedule_value (show_schedule (schedule_value e) e') = schedule_value e"
  by (simp add: schedule_value_def show_schedule_def js_or_def field_text_def)

lemma control_shown: "JBool (f_checked (show_control (JBool (f_checked e)) e')) = JBool (f_checked e)"
  by (simp add: show_control_def)

lemma daynight_names:
  "distinct dayNightParams" "distinct dayNightScheduleParams" "distinct dayNightControls"
  "list_all (\<lambda>q. CHR ''-'' \<notin> set q) dayNightParams" "''schedule'' \<notin> set dayNightParams" "''controls'' \<notin> set dayNightParams"
  by code_simp+

section \<open>Properties\<close>

lemma apply_thresholds:
  assumes "\<And>k. k \<in> set dayNightParams \<Longrightarrow> map_option f_type (inputs g (''daynight_'' @ k)) = map_option f_type (inputs f (''daynight_'' @ k))"
    and "whole_thresholds f" "\<And>k. k \<in> set dayNightParams \<Longrightarrow> labelled ''daynight'' g k"
    and "d = JObj (collect ''daynight_'' threshold_value dayNightParams f @ rest)" "fst ` set rest \<inter> set dayNightParams = {}"
  obtains h where "apply_owned ''daynight'' dayNightParams d g = (h, False)"
    "\<And>k. k \<in> set dayNightParams \<Longrightarrow> map_option threshold_value (inputs h (''daynight_'' @ k)) = map_option threshold_value (inputs f (''daynight_'' @ k))"
    "\<And>k. CHR ''-'' \<notin> set k \<Longrightarrow> k \<notin> set dayNightParams \<Longrightarrow> inputs h (''daynight_'' @ k) = inputs g (''daynight_'' @ k)"
proof -
  let ?qs = "filter (owned d) dayNightParams" and ?r = "run_all (map (setValue d ''daynight'') (filter (owned d) dayNightParams)) g"
  have look: "getp d k = (case inputs f (''daynight_'' @ k) of None \<Rightarrow> JUndef | Some e \<Rightarrow> threshold_value e)"
    "owned d k \<longleftrightarrow> inputs f (''daynight_'' @ k) \<noteq> None" if "k \<in> set dayNightParams" for k
  proof -
    have "map_of rest k = None" using that assms(5) by (auto simp: map_of_eq_None_iff)
    then have "map_of (collect ''daynight_'' threshold_value dayNightParams f @ rest) k = map_option threshold_value (inputs f (''daynight_'' @ k))"
      using that by (simp add: map_of_collect map_add_def split: option.splits)
    then show "getp d k = (case inputs f (''daynight_'' @ k) of None \<Rightarrow> JUndef | Some e \<Rightarrow> threshold_value e)"
      "owned d k \<longleftrightarrow> inputs f (''daynight_'' @ k) \<noteq> None"
      by (auto simp: assms(4) owned_def split: option.splits)
  qed
  have fill: "\<not> snd ?r \<and> (\<forall>q el. q \<in> set ?qs \<longrightarrow> inputs g (''daynight'' @ ''_'' @ q) = Some el \<longrightarrow>
      (\<exists>el'. inputs (fst ?r) (''daynight'' @ ''_'' @ q) = Some el' \<and> shows_value (getp d q) el el'))"
    by (rule fill_shows) (use daynight_names assms(3) look in \<open>auto simp: list_all_iff assms(4) nullish_def threshold_value_def Let_def split: option.splits\<close>)
  show thesis
  proof
    show "apply_owned ''daynight'' dayNightParams d g = (fst ?r, False)"
      using fill by (simp add: apply_owned_def prod_eq_iff)
    show "inputs (fst ?r) (''daynight_'' @ k) = inputs g (''daynight_'' @ k)" if "CHR ''-'' \<notin> set k" "k \<notin> set dayNightParams" for k
      using fill_frame [of k ?qs d "''daynight''" g] that by simp
    fix k assume k: "k \<in> set dayNightParams"
    show "map_option threshold_value (inputs (fst ?r) (''daynight_'' @ k)) = map_option threshold_value (inputs f (''daynight_'' @ k))"
    proof (cases "inputs f (''daynight_'' @ k)")
      case None
      then have "k \<notin> set ?qs" "CHR ''-'' \<notin> set k" using look(2) [OF k] daynight_names(4) k by (auto simp: list_all_iff)
      then show ?thesis using fill_frame [of k ?qs d "''daynight''" g] None assms(1) [OF k] by simp
    next
      case (Some e)
      then obtain e' where e': "inputs g (''daynight_'' @ k) = Some e'" "f_type e' = f_type e" using assms(1) [OF k] by auto
      then obtain e'' where e'': "inputs (fst ?r) (''daynight_'' @ k) = Some e''" "shows_value (threshold_value e) e' e''"
        using fill k look [OF k] Some by force
      have "case threshold_value e of JNum (Fin q) \<Rightarrow> q = of_int \<lfloor>q\<rfloor> | JBool _ \<Rightarrow> True | _ \<Rightarrow> False"
        using assms(2) k Some by (auto simp: whole_thresholds_def list_all_iff)
      then show ?thesis using threshold_shown [OF e''(2) e'(2)] e''(1) Some by simp
    qed
  qed
qed

lemma group_ids:
  "\<forall>k\<in>set dayNightParams. \<forall>j\<in>set dayNightControls. ''daynight_'' @ k \<noteq> ''daynight_controls_'' @ j"
  "\<forall>k\<in>set dayNightParams. \<forall>j\<in>set dayNightScheduleParams. ''daynight_'' @ k \<noteq> ''daynight_schedule_'' @ j"
  "\<forall>k\<in>set dayNightControls. \<forall>j\<in>set dayNightScheduleParams. ''daynight_controls_'' @ k \<noteq> ''daynight_schedule_'' @ j"
  "k \<in> set dayNightControls \<Longrightarrow> CHR ''-'' \<notin> set (''controls_'' @ k) \<and> ''controls_'' @ k \<notin> set dayNightParams"
  "k \<in> set dayNightScheduleParams \<Longrightarrow> CHR ''-'' \<notin> set (''schedule_'' @ k) \<and> ''schedule_'' @ k \<notin> set dayNightParams"
  by (auto simp: dayNightParams_def dayNightControls_def dayNightScheduleParams_def)

text \<open>
  What the photosensing page saves is what the camera's settings make of any page again: if the streamer reports the block of
  settings that one page saved, loading it into a page with the same controls, in whatever state, makes that page's save button
  send exactly the same block, thresholds, schedule and controls together. The thresholds are integers; an unreadable one was saved as 0.\<close>

theorem photosensing_survives_save:
  assumes "prudynt_answer out = Inr (daynight_payload (ph_fields p))" "whole_thresholds (ph_fields p)"
    and "same_controls (ph_fields p) (ph_fields q)" "\<And>k. k \<in> set dayNightParams \<Longrightarrow> labelled ''daynight'' (ph_fields q) k"
  shows "snd (photo_save (fst (loadPhotosensingConfig_settle silent out q))) = snd (photo_save p)"
proof -
  let ?f = "ph_fields p" and ?g = "ph_fields q"
  define sch where "sch = JObj (collect ''daynight_schedule_'' schedule_value dayNightScheduleParams ?f)"
  define ctl where "ctl = JObj (collect ''daynight_controls_'' (\<lambda>e. JBool (f_checked e)) dayNightControls ?f)"
  define d where "d = JObj (collect ''daynight_'' threshold_value dayNightParams ?f @ [(''schedule'', sch), (''controls'', ctl)])"
  have same: "map_option f_type (inputs ?g i) = map_option f_type (inputs ?f i)"
    if "i \<in> (@) ''daynight_'' ` set dayNightParams \<union> (@) ''daynight_schedule_'' ` set dayNightScheduleParams \<union> (@) ''daynight_controls_'' ` set dayNightControls" for i
    using that assms(3) by (auto simp: same_controls_def list_all_iff)
  obtain h where h: "apply_owned ''daynight'' dayNightParams d ?g = (h, False)"
    "\<And>k. k \<in> set dayNightParams \<Longrightarrow> map_option threshold_value (inputs h (''daynight_'' @ k)) = map_option threshold_value (inputs ?f (''daynight_'' @ k))"
    "\<And>k. CHR ''-'' \<notin> set k \<Longrightarrow> k \<notin> set dayNightParams \<Longrightarrow> inputs h (''daynight_'' @ k) = inputs ?g (''daynight_'' @ k)"
    using apply_thresholds [of ?g ?f d "[(''schedule'', sch), (''controls'', ctl)]"] same assms(2,4) daynight_names d_def by auto
  have dget: "getp d ''schedule'' = sch" "getp d ''controls'' = ctl"
    using daynight_names by (simp_all add: d_def map_add_def map_of_collect)
  define h1 where "h1 = fill_group ''daynight_controls_'' show_control dayNightControls ctl h"
  define h2 where "h2 = fill_group ''daynight_schedule_'' show_schedule dayNightScheduleParams sch h1"
  have after: "ph_fields (fst (loadPhotosensingConfig_settle silent out q)) = h2"
    using assms(1) h(1) dget
    by (simp add: loadPhotosensingConfig_settle_def fill_answer_def named_block_def daynight_payload_def applyDaynightConfig_def first_load_done_def
        h1_def h2_def d_def sch_def ctl_def Let_def)
  have "map_option f_type (inputs h (''daynight_controls_'' @ k)) = map_option f_type (inputs ?f (''daynight_controls_'' @ k))"
    if k: "k \<in> set dayNightControls" for k
    using h(3) [of "''controls_'' @ k"] group_ids(4) [OF k] same [of "''daynight_controls_'' @ k"] k by simp
  then have "collect ''daynight_controls_'' (\<lambda>e. JBool (f_checked e)) dayNightControls h2 = collect ''daynight_controls_'' (\<lambda>e. JBool (f_checked e)) dayNightControls ?f"
    unfolding h2_def collect_miss [OF group_ids(3)] h1_def ctl_def by (rule collect_filled [OF daynight_names(3) _ control_shown])
  moreover have "map_option f_type (inputs h1 (''daynight_schedule_'' @ k)) = map_option f_type (inputs ?f (''daynight_schedule_'' @ k))"
    if k: "k \<in> set dayNightScheduleParams" for k
    using h(3) [of "''schedule_'' @ k"] group_ids(5) [OF k] same [of "''daynight_schedule_'' @ k"] k by (simp add: h1_def fill_group_miss)
  then have "collect ''daynight_schedule_'' schedule_value dayNightScheduleParams h2 = collect ''daynight_schedule_'' schedule_value dayNightScheduleParams ?f"
    unfolding h2_def sch_def by (rule collect_filled [OF daynight_names(2) _ schedule_shown])
  moreover have "collect ''daynight_'' threshold_value dayNightParams h2 = collect ''daynight_'' threshold_value dayNightParams ?f"
    unfolding h2_def h1_def collect_miss [OF group_ids(2)] collect_miss [OF group_ids(1)] by (rule collect_cong) (rule h(2))
  ultimately show ?thesis by (simp add: photo_save_def after daynight_payload_def)
qed

definition sample_photo :: "js \<Rightarrow> js \<Rightarrow> photo_page" where
  "sample_photo threshold start = \<lparr>ph_fields = \<lparr>inputs = [''daynight_total_gain_night_threshold'' \<mapsto> text_field ''text'' threshold,
       ''daynight_schedule_start_at'' \<mapsto> text_field ''time'' start, ''daynight_controls_ircut'' \<mapsto> (text_field ''checkbox'' JNull)\<lparr>f_checked := True\<rparr>],
       labels = Map.empty\<rparr>,
     ph_busy = idle_bar, ph_reload_disabled = False, ph_save_disabled = False, ph_hidden = True, initialLoadComplete = False, ph_buttons = []\<rparr>"

lemma forty: "number_of_string ''40'' = Fin 40"
  by code_simp

theorem photosensing_survives_save_witness:
  "snd (photo_save (fst (loadPhotosensingConfig_settle False
     (Answer \<lparr>status = 200, text_body = ''x'', parsed = Some (daynight_payload (ph_fields (sample_photo (JStr ''40'') (JStr ''07:00''))))\<rparr>)
     (sample_photo JNull JNull)))) =
   snd (photo_save (sample_photo (JStr ''40'') (JStr ''07:00'')))"
proof (rule photosensing_survives_save)
  show "whole_thresholds (ph_fields (sample_photo (JStr ''40'') (JStr ''07:00'')))"
    by (simp add: forty whole_thresholds_def dayNightParams_def sample_photo_def text_field_def threshold_value_def field_text_def)
  show "same_controls (ph_fields (sample_photo (JStr ''40'') (JStr ''07:00''))) (ph_fields (sample_photo JNull JNull))"
    by (simp add: same_controls_def dayNightParams_def dayNightControls_def dayNightScheduleParams_def sample_photo_def text_field_def)
qed (auto simp: prudynt_answer_def resp_ok_def dayNightParams_def labelled_def sample_photo_def text_field_def)

end
