(* ===== verification/Privacy_Page.thy ===== *)
theory Privacy_Page
  imports Streamer_Pages Url
begin

text \<open>
  The page of the privacy screens (\<open>privacy.js\<close>): for each stream a block of settings is read from the streamer, shown, and sent back one
  setting per change. A colour travels as \<open>#RRGGBBAA\<close> and is shown as a colour and an opacity; the font size is stored 256 times as large as it is shown.
\<close>

section \<open>Settings\<close>

definition streamIds :: "nat list" where "streamIds = [0, 1]"

definition standardFields :: "string list" where
  "standardFields = [''enabled'', ''text'', ''layer'', ''opacity'', ''position'', ''rotation'', ''font_size'', ''stroke_size'', ''image_path'',
     ''image_width'', ''image_height'']"

definition numericFields :: "string list" where
  "numericFields = [''layer'', ''opacity'', ''rotation'', ''font_size'', ''stroke_size'', ''image_width'', ''image_height'']"

definition allowEmptyFields :: "string list" where "allowEmptyFields = [''image_path'', ''text'']"

definition FontSizeScale :: int where "FontSizeScale = 256"

text \<open>The key of a colour with the names of its two controls.\<close>

definition colorFieldMap :: "(string \<times> string \<times> string) list" where
  "colorFieldMap = [(''fill_color'', ''fill_color'', ''fill_alpha''), (''stroke_color'', ''stroke_color'', ''stroke_alpha'')]"

definition privacy_id :: "nat \<Rightarrow> string \<Rightarrow> string" where "privacy_id k q = ''privacy'' @ show_nat k @ ''_'' @ q"

record privacy_page =
  pr_fields :: fields
  pr_busy :: busy_bar
  pr_hidden :: bool
  pr_reload_disabled :: bool
  pr_save_disabled :: bool

definition disablePrivacyControls :: "fields \<Rightarrow> fields" where
  "disablePrivacyControls f =
     fold disable_field
       (concat (map (\<lambda>k. map (privacy_id k) (standardFields @ [''fill_color'', ''stroke_color'', ''fill_alpha'', ''stroke_alpha''])) streamIds)) f"

definition createRequestTemplate :: js where
  "createRequestTemplate = nulls (standardFields @ map fst colorFieldMap)"

definition buildRequestPayload :: js where
  "buildRequestPayload = JObj
     (map (\<lambda>k. (stream_name k, JObj [(''osd'', JObj [(''privacy'', createRequestTemplate)])])) streamIds)"

section \<open>Colours\<close>

text \<open>The pattern \<open>^#[0-9a-fA-F]{n}$\<close>.\<close>

definition hex_color :: "nat \<Rightarrow> string \<Rightarrow> bool" where
  "hex_color n t = (case t of [] \<Rightarrow> False | c # r \<Rightarrow> c = CHR ''#'' \<and> length r = n \<and> list_all (\<lambda>d. unhex d \<noteq> None) r)"

definition normalizeColor :: "js \<Rightarrow> string option" where
  "normalizeColor value =
     (case value of
        JStr s \<Rightarrow> let trimmed = trim s in if hex_color 6 trimmed then Some (to_upper trimmed) else None
      | _ \<Rightarrow> None)"

definition clampAlpha :: "js \<Rightarrow> int option" where
  "clampAlpha value = map_option (\<lambda>q. min 255 (max 0 (math_round q))) (fin_val (to_number value))"

definition buildHexColor :: "js \<Rightarrow> js \<Rightarrow> string" where
  "buildHexColor color alpha =
     (let safeColor = (case normalizeColor color of Some c \<Rightarrow> c | None \<Rightarrow> ''#000000'');
          alphaHex = (case clampAlpha alpha of Some a \<Rightarrow> to_upper (pad_start 2 (CHR ''0'') (to_hex (nat a))) | None \<Rightarrow> ''FF'')
      in safeColor @ alphaHex)"

definition splitHexColor :: "js \<Rightarrow> string \<times> jnum" where
  "splitHexColor hex8 =
     (case hex8 of
        JStr s \<Rightarrow>
          if hex_color 8 (trim s)
          then (let normalized = to_upper (trim s) in (substring normalized 0 7, parse_int (Some 16) (substring normalized 7 9)))
          else (''#000000'', Fin 255)
      | _ \<Rightarrow> (''#000000'', Fin 255))"

section \<open>Showing\<close>

definition applyColorField :: "nat \<Rightarrow> string \<Rightarrow> js \<Rightarrow> fields \<Rightarrow> fields" where
  "applyColorField k key value f =
     (case map_of colorFieldMap key of
        None \<Rightarrow> f
      | Some (colorId, alphaId) \<Rightarrow>
          if inputs f (privacy_id k colorId) = None \<or> inputs f (privacy_id k alphaId) = None then f
          else let (color, alpha) = splitHexColor (js_or value (JStr []))
               in on_field (privacy_id k alphaId) (\<lambda>e. e\<lparr>f_disabled := False, f_value := (if is_finite alpha then JNum alpha else jint 255)\<rparr>)
                    (on_field (privacy_id k colorId) (\<lambda>e. e\<lparr>f_disabled := False, f_value := JStr color\<rparr>) f))"

definition resolve_field :: "string \<Rightarrow> js \<Rightarrow> js" where
  "resolve_field q value =
     (if q = ''font_size''
      then (case fin_val (to_number value) of Some n \<Rightarrow> jint (max 0 (math_round (n / of_int FontSizeScale))) | None \<Rightarrow> JStr [])
      else value)"

definition setPrivacyField :: "nat \<Rightarrow> string \<Rightarrow> js \<Rightarrow> fields \<Rightarrow> fields" where
  "setPrivacyField k q value f =
     (let resolved = resolve_field q value
      in on_field (privacy_id k q)
           (\<lambda>e. let e1 = e\<lparr>f_disabled := False\<rparr>
                in if f_type e = ''checkbox'' then e1\<lparr>f_checked := truthy resolved\<rparr>
                   else e1\<lparr>f_value := (if nullish resolved then JStr [] else resolved)\<rparr>) f)"

definition applyPrivacyConfig :: "nat \<Rightarrow> js \<Rightarrow> fields \<Rightarrow> fields" where
  "applyPrivacyConfig k privacy f =
     (if \<not> truthy privacy then f
      else fold (\<lambda>key. applyColorField k key (getp privacy key)) (filter (owned privacy) (map fst colorFieldMap))
             (fold (\<lambda>q. setPrivacyField k q (getp privacy q)) (filter (owned privacy) standardFields) f))"

definition privacy_block :: "nat \<Rightarrow> js \<Rightarrow> js" where
  "privacy_block k d = getp (getp (getp d (stream_name k)) ''osd'') ''privacy''"

definition privacy_toggleInitialLoading :: "bool \<Rightarrow> privacy_page \<Rightarrow> privacy_page" where
  "privacy_toggleInitialLoading active p =
     (if active then p\<lparr>pr_busy := showBusy (pr_busy p), pr_hidden := True\<rparr> else p\<lparr>pr_busy := hideBusy (pr_busy p), pr_hidden := False\<rparr>)"

definition loadPrivacyConfig :: "bool \<Rightarrow> privacy_page \<Rightarrow> privacy_page \<times> effect list" where
  "loadPrivacyConfig silent p =
     (if silent then p\<lparr>pr_reload_disabled := True\<rparr> else privacy_toggleInitialLoading True p, requestPrudynt buildRequestPayload)"

definition loadPrivacyConfig_settle :: "bool \<Rightarrow> outcome \<Rightarrow> privacy_page \<Rightarrow> privacy_page \<times> effect list" where
  "loadPrivacyConfig_settle silent out p =
     (let (p1, fx) = (case prudynt_answer out of
            Inl e \<Rightarrow> (p, [Notice ''danger'' (JStr ''Unable to load privacy settings: '' # e) 6000])
          | Inr d \<Rightarrow> (p\<lparr>pr_fields := applyPrivacyConfig 1 (privacy_block 1 d) (applyPrivacyConfig 0 (privacy_block 0 d) (pr_fields p))\<rparr>,
                     if silent then [Notice ''info'' [JStr ''Privacy settings reloaded from camera.''] 3000] else []))
      in (if silent then p1\<lparr>pr_reload_disabled := False\<rparr> else privacy_toggleInitialLoading False p1, fx))"

section \<open>Sending\<close>

definition sendPrivacyUpdate :: "nat \<Rightarrow> js \<Rightarrow> effect list" where
  "sendPrivacyUpdate k payload =
     requestPrudynt (JObj [(stream_name k, JObj [(''osd'', JObj [(''privacy'', payload)])]),
       (''action'', JObj [(''restart_thread'', jint (or ThreadVideo ThreadOSD))])])"

definition sendPrivacyUpdate_settle :: "nat \<Rightarrow> outcome \<Rightarrow> privacy_page \<Rightarrow> privacy_page \<times> effect list" where
  "sendPrivacyUpdate_settle k out p =
     (case prudynt_answer out of
        Inl e \<Rightarrow> (p, [Notice ''danger'' (JStr (''Failed to update stream '' @ show_nat k @ '' privacy: '') # e) 6000])
      | Inr d \<Rightarrow> (p\<lparr>pr_fields := applyPrivacyConfig k (privacy_block k d) (pr_fields p)\<rparr>, []))"

text \<open>\<open>getFieldValue\<close>; \<open>marked\<close> says that the control has the attribute \<open>data-allow-empty="true"\<close>.\<close>

definition getFieldValue :: "bool \<Rightarrow> field \<Rightarrow> string \<Rightarrow> js option" where
  "getFieldValue marked el q =
     (if f_type el = ''checkbox'' then Some (JBool (f_checked el))
      else let v = field_text el
           in if v = [] then (if marked \<or> q \<in> set allowEmptyFields then Some (JStr []) else None)
              else if q \<in> set numericFields then map_option (\<lambda>n. JNum (Fin n)) (fin_val (number_of_string v))
              else Some (JStr v))"

definition formatFieldName :: "string \<Rightarrow> string" where "formatFieldName q = replace_char (CHR ''_'') (CHR '' '') q"

text \<open>What is sent for a value; \<open>value * FontSizeScale\<close> converts it to a number.\<close>

definition payload_value :: "string \<Rightarrow> js \<Rightarrow> js" where
  "payload_value q value =
     (if q = ''font_size''
      then (case fin_val (to_number value) of Some n \<Rightarrow> jint (max 0 (math_round (n * of_int FontSizeScale))) | None \<Rightarrow> JNum NaN)
      else value)"

definition handleStandardChange :: "(string \<Rightarrow> bool) \<Rightarrow> nat \<Rightarrow> string \<Rightarrow> fields \<Rightarrow> effect list" where
  "handleStandardChange marked k q f =
     (case inputs f (privacy_id k q) of
        None \<Rightarrow> []
      | Some el \<Rightarrow>
          (case getFieldValue (marked (privacy_id k q)) el q of
             None \<Rightarrow> [Notice ''warning'' [JStr (''Enter a valid value for '' @ formatFieldName q @ '' (stream '' @ show_nat k @ '').'')] 6000]
           | Some v \<Rightarrow> sendPrivacyUpdate k (JObj [(q, payload_value q v)])))"

definition handleColorChange :: "nat \<Rightarrow> string \<Rightarrow> fields \<Rightarrow> effect list" where
  "handleColorChange k key f =
     (case map_of colorFieldMap key of
        None \<Rightarrow> []
      | Some (colorId, alphaId) \<Rightarrow>
          (case (inputs f (privacy_id k colorId), inputs f (privacy_id k alphaId)) of
             (Some colorEl, Some alphaEl) \<Rightarrow>
               (case (normalizeColor (JStr (field_text colorEl)), clampAlpha (JStr (field_text alphaEl))) of
                  (Some safeColor, Some safeAlpha) \<Rightarrow>
                    sendPrivacyUpdate k (JObj [(key, JStr (buildHexColor (JStr safeColor) (jint safeAlpha)))])
                | _ \<Rightarrow> [Notice ''warning''
                    [JStr (''Select a valid color and alpha for '' @ formatFieldName key @ '' (stream '' @ show_nat k @ '').'')] 6000])
           | _ \<Rightarrow> []))"

definition persistPrudyntConfig :: "bool \<Rightarrow> privacy_page \<Rightarrow> privacy_page \<times> effect list" where
  "persistPrudyntConfig confirmed p =
     (if \<not> confirmed then (p, [])
      else (p\<lparr>pr_save_disabled := True\<rparr>, [Send (PostJson endpoint (JObj [(''action'', JObj [(''save_config'', JNull)])]))]))"

definition persistPrudyntConfig_settle :: "outcome \<Rightarrow> privacy_page \<Rightarrow> privacy_page \<times> effect list" where
  "persistPrudyntConfig_settle out p =
     (p\<lparr>pr_save_disabled := False\<rparr>,
      case persist_answer out of
        None \<Rightarrow> [Notice ''success'' [JStr ''Configuration saved to /etc/prudynt.json.''] 6000]
      | Some e \<Rightarrow> [Notice ''danger'' (JStr ''Failed to save privacy settings: '' # e) 6000])"

section \<open>Lemmas\<close>

lemma hex_val_unhex: "hex_val c = unhex c"
  by (simp add: hex_val_def unhex_def)

lemma unhex_bound: "unhex c = Some d \<Longrightarrow> d < 16"
  by (auto simp: unhex_def Let_def split: if_splits)

lemma hex_char_upper: "unhex c = Some d \<Longrightarrow> to_upper_char c = hex_digit d"
proof -
  assume "unhex c = Some d"
  then consider "48 \<le> (of_char c :: nat)" "of_char c \<le> (57 :: nat)" "d = of_char c - 48"
    | "97 \<le> (of_char c :: nat)" "of_char c \<le> (102 :: nat)" "d = of_char c - 87"
    | "65 \<le> (of_char c :: nat)" "of_char c \<le> (70 :: nat)" "d = of_char c - 55"
    by (auto simp: unhex_def Let_def split: if_splits)
  then show ?thesis
  proof cases
    case 1
    then have "48 + d = of_char c" "d < 10" by linarith+
    then show ?thesis using 1 by (simp add: to_upper_char_def hex_digit_def)
  next
    case 2
    then have "55 + d = of_char c - 32" "\<not> d < 10" by linarith+
    then show ?thesis using 2 by (simp add: to_upper_char_def hex_digit_def)
  next
    case 3
    then have "55 + d = of_char c" "\<not> d < 10" by linarith+
    then show ?thesis using 3 by (simp add: to_upper_char_def hex_digit_def)
  qed
qed

lemma hex_digit_upper: "d < 16 \<Longrightarrow> to_upper_char (hex_digit d) = hex_digit d"
  using hex_char_upper [OF unhex_hex_digit] .

lemma hex_not_space: "unhex c = Some d \<Longrightarrow> \<not> is_space c"
  by (auto simp: unhex_def is_space_def Let_def split: if_splits)

lemma upper_hash: "to_upper_char (CHR ''#'') = CHR ''#''" "\<not> is_space (CHR ''#'')"
  by code_simp+

text \<open>A text \<open>#\<close> with hexadecimal digits: its capital form is one too, and white space around it plays no part.\<close>

lemma hex_color_upper: "hex_color n t \<Longrightarrow> hex_color n (to_upper t) \<and> to_upper (to_upper t) = to_upper t"
proof -
  assume "hex_color n t"
  then obtain r where t: "t = CHR ''#'' # r" "length r = n" "list_all (\<lambda>d. unhex d \<noteq> None) r"
    by (cases t) (auto simp: hex_color_def)
  have "unhex (to_upper_char c) \<noteq> None \<and> to_upper_char (to_upper_char c) = to_upper_char c" if "c \<in> set r" for c
  proof -
    obtain d where d: "unhex c = Some d" using t(3) \<open>c \<in> set r\<close> by (auto simp: list_all_iff)
    then show ?thesis using unhex_bound [OF d] by (simp add: hex_char_upper unhex_hex_digit hex_digit_upper)
  qed
  then show ?thesis using t by (simp add: hex_color_def to_upper_def upper_hash list_all_iff)
qed

lemma hex_color_solid: "hex_color n t \<Longrightarrow> 0 < n \<Longrightarrow> trim t = t"
proof -
  assume "hex_color n t" "0 < n"
  then obtain r where t: "t = CHR ''#'' # r" "r \<noteq> []" "list_all (\<lambda>d. unhex d \<noteq> None) r"
    by (cases t) (auto simp: hex_color_def)
  have "unhex (last r) \<noteq> None" using t(2,3) by (simp add: list_all_iff)
  then have "\<not> is_space (last r)" using hex_not_space by auto
  then show ?thesis using t upper_hash by (intro trim_solid) simp_all
qed

lemma normalizeColor_idem:
  assumes "normalizeColor v = Some c"
  shows "hex_color 6 c" "to_upper c = c" "trim c = c" "normalizeColor (JStr c) = Some c"
proof -
  obtain s where s: "hex_color 6 (trim s)" "c = to_upper (trim s)"
    using assms by (auto simp: normalizeColor_def Let_def split: js.splits if_splits)
  then show 1: "hex_color 6 c" and 2: "to_upper c = c" using hex_color_upper by auto
  show 3: "trim c = c" using hex_color_solid [OF 1] by simp
  show "normalizeColor (JStr c) = Some c" using 1 2 3 by (simp add: normalizeColor_def)
qed

lemma clampAlpha_bounds: "clampAlpha v = Some a \<Longrightarrow> 0 \<le> a \<and> a \<le> 255"
  by (auto simp: clampAlpha_def)

lemma clampAlpha_int: "0 \<le> a \<Longrightarrow> a \<le> 255 \<Longrightarrow> clampAlpha (jint a) = Some a"
  by (simp add: clampAlpha_def)

lemma two_hex_digits:
  assumes "n < 256"
  shows "to_upper (pad_start 2 (CHR ''0'') (to_hex n)) = [hex_digit (n div 16), hex_digit (n mod 16)]"
proof (cases "n < 16")
  case True
  have "to_upper_char (CHR ''0'') = hex_digit 0" by code_simp
  with True show ?thesis by (simp add: to_hex.simps [of n] to_upper_def upper_hex_digit pad_start_def)
next
  case False
  moreover have "n div 16 < 16" using assms by simp
  ultimately show ?thesis by (simp add: to_hex.simps [of n] to_hex.simps [of "n div 16"] to_upper_def upper_hex_digit pad_start_def)
qed

lemma parse_hex_byte: "n < 256 \<Longrightarrow> parse_int (Some 16) [hex_digit (n div 16), hex_digit (n mod 16)] = Fin (of_nat n)"
proof -
  assume n: "n < 256"
  let ?a = "hex_digit (n div 16)" and ?b = "hex_digit (n mod 16)"
  have d: "unhex ?a = Some (n div 16)" "unhex ?b = Some (n mod 16)" using n by (simp_all add: unhex_hex_digit)
  have sp: "\<not> is_space ?a" using hex_not_space [OF d(1)] .
  have sgn: "take_sign [?a, ?b] = (False, [?a, ?b])"
  proof -
    have "unhex (CHR ''-'') = None" "unhex (CHR ''+'') = None" by code_simp+
    then have "?a \<noteq> CHR ''-''" "?a \<noteq> CHR ''+''" using d(1) by auto
    then show ?thesis by simp
  qed
  have "of_char (to_lower_char ?b) \<le> (102 :: nat)" by (auto simp: to_lower_char_def hex_digit_def Let_def)
  then have "to_lower_char ?b \<noteq> CHR ''x''" by auto
  then have pre: "strip_hex [?a, ?b] = [?a, ?b]" by (auto simp: strip_hex_def radix_of_prefix_def to_lower_def)
  have "radix_val 16 0 [?a, ?b] = n" "takeWhile (\<lambda>c. radix_digit 16 c \<noteq> None) [?a, ?b] = [?a, ?b]"
    using d n by (simp_all add: hex_val_unhex radix_digit_def)
  then show ?thesis using sp sgn pre by (simp add: parse_int_def signed_def del: take_sign.simps radix_val.simps)
qed

text \<open>Splitting a built colour.\<close>

lemma split_built:
  assumes "normalizeColor v = Some c" "0 \<le> a" "a \<le> 255"
  shows "splitHexColor (JStr (buildHexColor (JStr c) (jint a))) = (c, Fin (of_int a))" "buildHexColor (JStr c) (jint a) \<noteq> []"
proof -
  note c = normalizeColor_idem [OF assms(1)]
  have n: "nat a < 256" using assms(2,3) by simp
  let ?h = "[hex_digit (nat a div 16), hex_digit (nat a mod 16)]"
  have b: "buildHexColor (JStr c) (jint a) = c @ ?h"
    using c(4) clampAlpha_int [OF assms(2,3)] two_hex_digits [OF n] by (simp add: buildHexColor_def)
  obtain r where r: "c = CHR ''#'' # r" "length r = 6" "list_all (\<lambda>d. unhex d \<noteq> None) r"
    using c(1) by (cases c) (auto simp: hex_color_def)
  have h8: "hex_color 8 (c @ ?h)" using r n by (simp add: hex_color_def unhex_hex_digit)
  have up: "to_upper (c @ ?h) = c @ ?h" using c(2) n by (simp add: to_upper_def hex_digit_upper)
  have "substring (c @ ?h) 0 7 = c" "substring (c @ ?h) 7 9 = ?h" using r by (simp_all add: substring_def)
  then show "splitHexColor (JStr (buildHexColor (JStr c) (jint a))) = (c, Fin (of_int a))" "buildHexColor (JStr c) (jint a) \<noteq> []"
    using b h8 up hex_color_solid [OF h8] parse_hex_byte [OF n] assms(2) r by (simp_all add: splitHexColor_def)
qed

lemma privacy_id_inj [simp]: "privacy_id k q = privacy_id k r \<longleftrightarrow> q = r"
  by (simp add: privacy_id_def)

section \<open>Properties\<close>

text \<open>
  C23. A colour of a privacy screen survives: when the colour control shows a colour, in whatever letters, and the opacity control a number, using either sends a
  text \<open>#RRGGBBAA\<close> to the stream; when the camera reports that text back, to this or any other page with the two controls, they show that colour in capital letters and
  the opacity rounded into 0 to 255, and using them again sends the same text.\<close>

theorem privacy_color_survives:
  assumes "map_of colorFieldMap key = Some (ci, ai)" "inputs f (privacy_id k ci) = Some ce" "inputs f (privacy_id k ai) = Some ae"
    and "normalizeColor (JStr (field_text ce)) = Some c" "clampAlpha (JStr (field_text ae)) = Some a"
    and "inputs g (privacy_id k ci) = Some ce'" "inputs g (privacy_id k ai) = Some ae'"
  shows "\<exists>t g'. handleColorChange k key f = sendPrivacyUpdate k (JObj [(key, JStr t)]) \<and>
     applyPrivacyConfig k (JObj [(key, JStr t)]) g = g' \<and> 0 \<le> a \<and> a \<le> 255 \<and>
     map_option f_value (inputs g' (privacy_id k ci)) = Some (JStr c) \<and> map_option f_value (inputs g' (privacy_id k ai)) = Some (jint a) \<and>
     handleColorChange k key g' = handleColorChange k key f"
proof -
  have ab: "0 \<le> a" "a \<le> 255" using clampAlpha_bounds [OF assms(5)] by auto
  note sp = split_built [OF assms(4) ab]
  define t where "t = buildHexColor (JStr c) (jint a)"
  define g' where "g' = applyPrivacyConfig k (JObj [(key, JStr t)]) g"
  have key: "key = ''fill_color'' \<and> ci = ''fill_color'' \<and> ai = ''fill_alpha'' \<or> key = ''stroke_color'' \<and> ci = ''stroke_color'' \<and> ai = ''stroke_alpha''"
    using map_of_SomeD [OF assms(1)] by (simp add: colorFieldMap_def)
  have sent: "handleColorChange k key f = sendPrivacyUpdate k (JObj [(key, JStr t)])"
    using assms(1-5) by (simp add: handleColorChange_def t_def)
  have "applyPrivacyConfig k (JObj [(key, JStr t)]) g = applyColorField k key (JStr t) g"
    using key by (elim disjE conjE) (simp_all add: applyPrivacyConfig_def owned_def standardFields_def colorFieldMap_def)
  then have g': "g' = on_field (privacy_id k ai) (\<lambda>e. e\<lparr>f_disabled := False, f_value := jint a\<rparr>)
      (on_field (privacy_id k ci) (\<lambda>e. e\<lparr>f_disabled := False, f_value := JStr c\<rparr>) g)"
    using sp assms(1,6,7) by (simp add: g'_def applyColorField_def t_def js_or_def)
  have ne: "ci \<noteq> ai" using key by (elim disjE conjE) simp_all
  have again: "normalizeColor (JStr c) = Some c" "clampAlpha (JStr (show_int a)) = Some a"
    using normalizeColor_idem [OF assms(4)] ab by (simp_all add: clampAlpha_def number_of_show_int)
  then have "handleColorChange k key g' = handleColorChange k key f"
    unfolding sent g' unfolding handleColorChange_def using assms(1,6,7) ne by (simp add: t_def field_text_def)
  then show ?thesis using sent ab assms(6,7) ne by (intro exI [of _ t] exI [of _ g']) (simp add: g'_def [symmetric], simp add: g')
qed

definition color_page :: "js \<Rightarrow> js \<Rightarrow> fields" where
  "color_page color alpha = \<lparr>inputs = [privacy_id 1 ''fill_color'' \<mapsto> text_field ''color'' color, privacy_id 1 ''fill_alpha'' \<mapsto> text_field ''hidden'' alpha], labels = Map.empty\<rparr>"

theorem privacy_color_survives_witness:
  "\<exists>t g'. handleColorChange 1 ''fill_color'' (color_page (JStr ''#a0b1c2'') (JStr ''300'')) = sendPrivacyUpdate 1 (JObj [(''fill_color'', JStr t)]) \<and>
     applyPrivacyConfig 1 (JObj [(''fill_color'', JStr t)]) (color_page JNull JNull) = g' \<and> (0 :: int) \<le> 255 \<and> (255 :: int) \<le> 255 \<and>
     map_option f_value (inputs g' (privacy_id 1 ''fill_color'')) = Some (JStr ''#A0B1C2'') \<and>
     map_option f_value (inputs g' (privacy_id 1 ''fill_alpha'')) = Some (jint 255) \<and>
     handleColorChange 1 ''fill_color'' g' = handleColorChange 1 ''fill_color'' (color_page (JStr ''#a0b1c2'') (JStr ''300''))"
proof (rule privacy_color_survives)
  show "normalizeColor (JStr (field_text (text_field ''color'' (JStr ''#a0b1c2'')))) = Some ''#A0B1C2''"
    unfolding text_field_def field_text_def by simp code_simp
  show "clampAlpha (JStr (field_text (text_field ''hidden'' (JStr ''300'')))) = Some 255"
    unfolding text_field_def field_text_def by simp code_simp
qed (simp_all add: colorFieldMap_def color_page_def)

text \<open>A font size survives: the number shown is sent scaled, and reported back it is shown again.\<close>

lemma font_size_survives: "0 \<le> n \<Longrightarrow> resolve_field ''font_size'' (payload_value ''font_size'' (jint n)) = jint n"
proof -
  assume n: "0 \<le> n"
  have "math_round (of_int n * of_int FontSizeScale) = n * FontSizeScale"
    using math_round_of_int [of "n * FontSizeScale"] by simp
  then show ?thesis using n by (simp add: resolve_field_def payload_value_def FontSizeScale_def)
qed

end
