(* ===== verification/Motors.thy ===== *)
theory Motors
  imports Page_State Url
begin

text \<open>
  Pan and tilt: the settings page (\<open>config-motors.js\<close>) and the movement controls on the preview (\<open>preview-motors.js\<close>). The settings page has all the
  elements of \<open>config-motors.html\<close>; its number inputs keep, as HTML demands, only texts that are numbers.
\<close>

section \<open>The settings form\<close>

record motors_form =
  gpio_pan :: "string list" \<comment> \<open>the four inputs\<close>
  gpio_tilt :: "string list"
  steps_pan :: string
  steps_tilt :: string
  speed_pan :: string
  speed_tilt :: string
  accel_pan :: string
  accel_tilt :: string
  motion_driver :: string
  preview_control_mode :: string
  homing :: bool
  pos_0_x :: string
  pos_0_y :: string
  pins_disabled :: bool
  accel_disabled :: bool
  pos_disabled :: bool

record motors_page =
  mo_form :: motors_form
  motorIsSpi :: bool
  mo_badge :: string
  mo_help :: string
  mo_hidden :: bool
  mo_loaded :: bool \<comment> \<open>\<open>initialLoadComplete\<close>\<close>
  mo_busy :: busy_bar
  mo_reload_disabled :: bool

definition normalizeMotionDriver :: "js \<Rightarrow> string" where
  "normalizeMotionDriver v = (if v = JStr ''profiled'' then ''profiled'' else ''legacy'')"

definition normalizePreviewControlMode :: "js \<Rightarrow> string" where
  "normalizePreviewControlMode v = (if v = JStr ''continuous'' then ''continuous'' else ''step'')"

definition updateMotionDriverInputs :: "motors_page \<Rightarrow> motors_page" where
  "updateMotionDriverInputs p =
     (let f = mo_form p; profiled = normalizeMotionDriver (JStr (motion_driver f)) = ''profiled''
      in p\<lparr>mo_form := (if profiled then f\<lparr>accel_disabled := False\<rparr>
                       else f\<lparr>accel_disabled := True, accel_pan := ''0'', accel_tilt := ''0''\<rparr>),
           mo_help := (if profiled then ''Profiled mode active: acceleration fields control ramping in motors-daemon.''
                       else ''Legacy mode active: acceleration values are ignored and saved as 0.'')\<rparr>)"

definition parseMotorPins :: "js \<Rightarrow> string list" where
  "parseMotorPins raw =
     (case raw of JStr s \<Rightarrow> words s | _ \<Rightarrow> [])"

definition setMotorPins :: "string list \<Rightarrow> string list" where
  "setMotorPins pins = map (\<lambda>i. number_input (if i < length pins then pins ! i else [])) [0..<4]"

definition field_value :: "js \<Rightarrow> string" where
  "field_value v = number_input (if nullish v then [] else js_text v)"

definition updateHomingInputs :: "motors_form \<Rightarrow> motors_form" where
  "updateHomingInputs f = f\<lparr>pos_disabled := \<not> homing f\<rparr>"

text \<open>\<open>split(/\s*,\s*/)\<close>: the white space on both sides of a comma goes with it.\<close>

definition trim_start :: "string \<Rightarrow> string" where "trim_start s = dropWhile is_space s"
definition trim_end :: "string \<Rightarrow> string" where "trim_end s = rev (dropWhile is_space (rev s))"

fun comma_parts :: "string list \<Rightarrow> string list" where
  "comma_parts [] = []"
| "comma_parts [w] = [w]"
| "comma_parts (w # v # ws) = trim_end w # comma_parts (trim_start v # ws)"

definition pos_part :: "nat \<Rightarrow> js \<Rightarrow> string" where
  "pos_part i v =
     (case v of
        JStr s \<Rightarrow> let ps = comma_parts (split_on (CHR '','') s) in if i < length ps then ps ! i else []
      | _ \<Rightarrow> [])"

definition updateBadge :: "bool \<Rightarrow> string" where
  "updateBadge isSpi = (if isSpi then ''SPI motor board'' else ''Discrete GPIO driver'')"

definition applyMotorsConfig :: "js \<Rightarrow> motors_page \<Rightarrow> motors_page" where
  "applyMotorsConfig config p =
     (if \<not> is_object config \<or> \<not> truthy config then p
      else let f = (mo_form p)
             \<lparr>gpio_pan := setMotorPins (parseMotorPins (getp config ''gpio_pan'')),
              gpio_tilt := setMotorPins (parseMotorPins (getp config ''gpio_tilt'')),
              steps_pan := field_value (getp config ''steps_pan''),
              steps_tilt := field_value (getp config ''steps_tilt''),
              speed_pan := field_value (getp config ''speed_pan''),
              speed_tilt := field_value (getp config ''speed_tilt''),
              accel_pan := field_value (getp config ''accel_pan''),
              accel_tilt := field_value (getp config ''accel_tilt''),
              motion_driver := normalizeMotionDriver (getp config ''motion_driver''),
              preview_control_mode := normalizePreviewControlMode (getp config ''preview_control_mode''),
              homing := is_true (getp config ''homing''),
              pos_0_x := number_input (pos_part 0 (getp config ''pos_0'')),
              pos_0_y := number_input (pos_part 1 (getp config ''pos_0''))\<rparr>;
             spi = is_true (getp config ''is_spi'')
           in updateMotionDriverInputs (p\<lparr>mo_form := (updateHomingInputs f)\<lparr>pins_disabled := spi\<rparr>, motorIsSpi := spi, mo_badge := updateBadge spi\<rparr>))"

section \<open>Loading and saving\<close>

definition motorsConfigEndpoint :: string where "motorsConfigEndpoint = ''/x/json-motors-config.cgi''"

text \<open>The answer to both: the message of the error, or the settings.\<close>

definition motors_answer :: "outcome \<Rightarrow> js + js" where
  "motors_answer out =
     (case out of
        Rejected m \<Rightarrow> Inl (JStr m)
      | Answer r \<Rightarrow>
          let payload = (case parsed r of Some d \<Rightarrow> d | None \<Rightarrow> JNull)
          in if \<not> resp_ok r \<or> \<not> truthy payload \<or> getp payload ''result'' \<noteq> JStr ''success''
             then Inl (js_or (and_prop (and_prop payload ''error'') ''message'') (JStr (''HTTP '' @ show_int (status r))))
             else Inr (js_or (getp payload ''message'') (JObj [])))"

definition loadMotorsConfig :: "bool \<Rightarrow> motors_page \<Rightarrow> motors_page \<times> effect list" where
  "loadMotorsConfig silent p =
     (if silent then p\<lparr>mo_reload_disabled := True\<rparr> else p\<lparr>mo_busy := showBusy (mo_busy p)\<rparr>, [Send (Get motorsConfigEndpoint)])"

definition loadMotorsConfig_settle :: "bool \<Rightarrow> outcome \<Rightarrow> motors_page \<Rightarrow> motors_page \<times> effect list" where
  "loadMotorsConfig_settle silent out p =
     (let (p1, fx) = (case motors_answer out of
            Inl m \<Rightarrow> (p, [Notice ''danger'' [JStr ''Unable to load motor settings: '', m] 6000])
          | Inr c \<Rightarrow> ((let q = applyMotorsConfig c p in if mo_loaded q then q else q\<lparr>mo_hidden := False, mo_loaded := True\<rparr>),
                     if silent then [Notice ''info'' [JStr ''Motor settings reloaded from camera.''] 3000] else []))
      in (if silent then p1\<lparr>mo_reload_disabled := False\<rparr> else p1\<lparr>mo_busy := hideBusy (mo_busy p1)\<rparr>, fx))"

text \<open>\<open>new FormData(form)\<close>: the controls that are not disabled, in the order of the page.\<close>

definition formData :: "motors_form \<Rightarrow> params" where
  "formData f =
     (let pins = (\<lambda>axis vs. if pins_disabled f then [] else zip (map (\<lambda>i. ''gpio_'' @ axis @ ''_'' @ show_nat i) [1..<5]) vs)
      in pins ''pan'' (gpio_pan f) @ [(''steps_pan'', steps_pan f), (''speed_pan'', speed_pan f)]
         @ pins ''tilt'' (gpio_tilt f) @ [(''steps_tilt'', steps_tilt f), (''speed_tilt'', speed_tilt f),
           (''motion_driver'', motion_driver f), (''preview_control_mode'', preview_control_mode f)]
         @ (if accel_disabled f then [] else [(''accel_pan'', accel_pan f), (''accel_tilt'', accel_tilt f)])
         @ (if homing f then [(''homing'', ''true'')] else [])
         @ (if pos_disabled f then [] else [(''pos_0_x'', pos_0_x f), (''pos_0_y'', pos_0_y f)]))"

text \<open>\<open>.replace(/_/g, " ").replace(/\b\w/g, upper)\<close> on a name of letters, digits and underscores.\<close>

fun title_case :: "bool \<Rightarrow> string \<Rightarrow> string" where
  "title_case start [] = []"
| "title_case start (c # s) =
     (if c = CHR ''_'' then CHR '' '' # title_case True s else (if start then to_upper_char c else c) # title_case False s)"

definition required_pins :: "string list" where
  "required_pins = [''gpio_pan_1'', ''gpio_pan_2'', ''gpio_pan_3'', ''gpio_pan_4'', ''gpio_tilt_1'', ''gpio_tilt_2'', ''gpio_tilt_3'', ''gpio_tilt_4'']"

definition blank :: "string option \<Rightarrow> bool" where
  "blank v = (case v of None \<Rightarrow> True | Some t \<Rightarrow> trim t = [])"

text \<open>\<open>!v || parseInt(v) <= 0\<close> and \<open>v !== null && v !== "" && parseInt(v) < 0\<close>: a text that is no number passes both.\<close>

definition bad_steps :: "string option \<Rightarrow> bool" where
  "bad_steps v = (case v of None \<Rightarrow> True | Some t \<Rightarrow> t = [] \<or> (case parse_int None t of Fin q \<Rightarrow> q \<le> 0 | _ \<Rightarrow> False))"

definition bad_accel :: "string option \<Rightarrow> bool" where
  "bad_accel v = (case v of None \<Rightarrow> False | Some t \<Rightarrow> t \<noteq> [] \<and> (case parse_int None t of Fin q \<Rightarrow> q < 0 | _ \<Rightarrow> False))"

definition motors_errors :: "bool \<Rightarrow> params \<Rightarrow> string list" where
  "motors_errors spi d =
     (let get = map_of d
      in (if spi then [] else map (\<lambda>k. title_case True k @ '' is required'') (filter (\<lambda>k. blank (get k)) required_pins))
         @ (if bad_steps (get ''steps_pan'') then [''Pan max steps must be a positive number''] else [])
         @ (if bad_steps (get ''steps_tilt'') then [''Tilt max steps must be a positive number''] else [])
         @ (if bad_accel (get ''accel_pan'') then [''Pan acceleration must be zero or positive''] else [])
         @ (if bad_accel (get ''accel_tilt'') then [''Tilt acceleration must be zero or positive''] else [])
         @ (if get ''motion_driver'' \<noteq> Some ''legacy'' \<and> get ''motion_driver'' \<noteq> Some ''profiled''
            then [''Motion driver must be legacy or profiled''] else [])
         @ (if get ''preview_control_mode'' \<noteq> Some ''step'' \<and> get ''preview_control_mode'' \<noteq> Some ''continuous''
            then [''Preview PTZ controls must be step or continuous''] else []))"

definition motors_params :: "motors_form \<Rightarrow> params" where
  "motors_params f =
     (let d = formData f;
          d1 = (if map_of d ''motion_driver'' = Some ''profiled'' then d else set_param ''accel_tilt'' ''0'' (set_param ''accel_pan'' ''0'' d))
      in [(''form'', ''motors''), (''homing'', if homing f then ''true'' else ''false'')] @ filter (\<lambda>p. fst p \<noteq> ''form'' \<and> fst p \<noteq> ''homing'') d1)"

definition saveMotorsConfig :: "motors_page \<Rightarrow> motors_page \<times> effect list" where
  "saveMotorsConfig p =
     (let errors = motors_errors (motorIsSpi p) (formData (mo_form p))
      in if errors \<noteq> []
         then (p, [Notice ''danger'' [JStr (''Please fix the following errors:<br>'' @ join_with ''<br>'' errors)] 6000])
         else (p\<lparr>mo_busy := showBusy (mo_busy p)\<rparr>, [Send (PostForm motorsConfigEndpoint (motors_params (mo_form p)))]))"

definition saveMotorsConfig_settle :: "outcome \<Rightarrow> motors_page \<Rightarrow> motors_page \<times> effect list" where
  "saveMotorsConfig_settle out p =
     (let (p1, fx) = (case motors_answer out of
            Inl m \<Rightarrow> (p, [Notice ''danger'' [JStr ''Failed to save motor settings: '', m] 6000])
          | Inr c \<Rightarrow> (applyMotorsConfig c p, [Notice ''success'' [JStr ''Motor settings updated.''] 6000]))
      in (p1\<lparr>mo_busy := hideBusy (mo_busy p1)\<rparr>, fx))"

text \<open>Reading the position; an answer \<open>null\<close> makes the destructuring throw.\<close>

definition readMotorsPosition :: "effect list" where
  "readMotorsPosition = [Send (Get ''/x/json-motor.cgi?d=j'')]"

definition readMotorsPosition_settle :: "outcome \<Rightarrow> motors_page \<Rightarrow> motors_page \<times> effect list" where
  "readMotorsPosition_settle out p =
     (let failed = (\<lambda>e. (p, [Notice ''danger'' (JStr ''Unable to read current position: '' # e) 6000]))
      in case out of
           Rejected m \<Rightarrow> failed [JStr m]
         | Answer r \<Rightarrow>
             if \<not> resp_ok r then failed [JStr ''HTTP '', jint (status r)]
             else (case parsed r of
                     None \<Rightarrow> failed [JStr ''SyntaxError'']
                   | Some d \<Rightarrow>
                       if nullish d then failed [JStr ''TypeError'']
                       else let msg = getp d ''message''; f = mo_form p;
                                f1 = (if truthy msg
                                      then f\<lparr>pos_0_x := number_input (if getp msg ''xpos'' = JNull then [] else js_text (getp msg ''xpos'')),
                                             pos_0_y := number_input (if getp msg ''ypos'' = JNull then [] else js_text (getp msg ''ypos''))\<rparr>
                                      else f)
                            in (p\<lparr>mo_form := updateHomingInputs (f1\<lparr>homing := True\<rparr>)\<rparr>,
                                [Notice ''success'' [JStr ''Captured current position as new reference.''] 4000])))"

definition homing_change :: "bool \<Rightarrow> motors_page \<Rightarrow> motors_page" where
  "homing_change checked p = p\<lparr>mo_form := updateHomingInputs ((mo_form p)\<lparr>homing := checked\<rparr>)\<rparr>"

definition driver_change :: "string \<Rightarrow> motors_page \<Rightarrow> motors_page" where
  "driver_change v p = updateMotionDriverInputs (p\<lparr>mo_form := (mo_form p)\<lparr>motion_driver := v\<rparr>\<rparr>)"

text \<open>The flip buttons reverse the pins of an axis.\<close>

definition flip_motor :: "string \<Rightarrow> motors_form \<Rightarrow> motors_form" where
  "flip_motor dir f =
     (if pins_disabled f then f
      else if dir = ''pan'' then f\<lparr>gpio_pan := rev (gpio_pan f)\<rparr>
      else if dir = ''tilt'' then f\<lparr>gpio_tilt := rev (gpio_tilt f)\<rparr> else f)"

section \<open>Movement commands\<close>

definition no_params :: js where
  "no_params = JObj [(''steps_pan'', jint 0), (''steps_tilt'', jint 0), (''pos_0_x'', jint 0), (''pos_0_y'', jint 0)]"

definition getPreviewControlMode :: "js \<Rightarrow> string" where
  "getPreviewControlMode mp = normalizePreviewControlMode (getp (js_or mp (JObj [])) ''preview_control_mode'')"

text \<open>\<open>ensureMotorParams\<close>: asks only where there are none yet; any JSON of the answer is taken, whatever its status.\<close>

definition ensureMotorParams :: "js \<Rightarrow> effect list" where
  "ensureMotorParams mp = (if truthy mp then [] else [Send (Get ''/x/json-motor-params.cgi'')])"

definition ensureMotorParams_settle :: "outcome \<Rightarrow> js" where
  "ensureMotorParams_settle out =
     (let fallback = JObj [(''steps_pan'', jint 0), (''steps_tilt'', jint 0), (''pos_0_x'', jint 0), (''pos_0_y'', jint 0), (''preview_control_mode'', JStr ''step'')]
      in case out of Rejected _ \<Rightarrow> fallback | Answer r \<Rightarrow> (case parsed r of Some d \<Rightarrow> d | None \<Rightarrow> fallback))"

text \<open>The relative move of a direction, with \<open>step = x_max / steps\<close> on both axes.\<close>

definition move_delta :: "jnum \<Rightarrow> string \<Rightarrow> jnum \<times> jnum" where
  "move_delta step dir =
     (if includes_str dir ''l'' then num_scale (-1) step else if includes_str dir ''r'' then step else Fin 0,
      if includes_str dir ''d'' then num_scale (-1) step else if includes_str dir ''u'' then step else Fin 0)"

text \<open>The commands \<open>moveMotor\<close> sends at once; homing sends its second one after the answer to the first.\<close>

definition moveMotor :: "js \<Rightarrow> string \<Rightarrow> nat \<Rightarrow> string list" where
  "moveMotor motorParams dir steps =
     (let mp = js_or motorParams no_params; x_max = to_number (getp mp ''steps_pan''); y_max = to_number (getp mp ''steps_tilt'');
          (x, y) = move_delta (num_scale (1 / of_nat steps) x_max) dir
      in if dir = ''homing'' then [''d=r'']
         else if dir = ''cc'' then [''d=x&x='' @ num_text (num_scale (1 / 2) x_max) @ ''&y='' @ num_text (num_scale (1 / 2) y_max)]
         else [''d=g&x='' @ num_text x @ ''&y='' @ num_text y])"

definition runMotorCmd :: "string \<Rightarrow> effect" where
  "runMotorCmd args = Send (Get (''/x/json-motor.cgi?'' @ args))"

text \<open>After the answer to \<open>d=r\<close> (its JSON must be readable and not \<open>null\<close>) and 800 ms, the camera moves to the stored position, if there is one.\<close>

definition homing_command :: "js \<Rightarrow> outcome \<Rightarrow> string option" where
  "homing_command motorParams out =
     (let mp = js_or motorParams no_params
      in case out of
           Rejected _ \<Rightarrow> None
         | Answer r \<Rightarrow>
             (case (parsed r, fin_val (to_number (getp mp ''pos_0_x'')), fin_val (to_number (getp mp ''pos_0_y''))) of
                (Some d, Some x0, Some y0) \<Rightarrow>
                  if nullish d then None else Some (''d=x&x='' @ num_text (Fin x0) @ ''&y='' @ num_text (Fin y0))
              | _ \<Rightarrow> None))"

section \<open>The movement controls\<close>

text \<open>
  \<open>timer\<close> and \<open>holdInterval\<close> are the variables of the script; \<open>armed\<close> and \<open>intervals\<close> what the browser has under way: an id with a direction (and the number of steps
  to the whole range). \<open>sent\<close> are the commands.
\<close>

record motor_ui =
  motorParams :: js
  timer :: "nat option"
  armed :: "(nat \<times> string \<times> nat) list"
  holdInterval :: "nat option"
  intervals :: "(nat \<times> string) list"
  next_id :: nat
  sent :: "string list"

definition move :: "string \<Rightarrow> nat \<Rightarrow> motor_ui \<Rightarrow> motor_ui" where
  "move dir steps u = u\<lparr>sent := sent u @ moveMotor (motorParams u) dir steps\<rparr>"

definition arm :: "string \<Rightarrow> nat \<Rightarrow> motor_ui \<Rightarrow> motor_ui" where
  "arm dir steps u = u\<lparr>timer := Some (next_id u), armed := armed u @ [(next_id u, dir, steps)], next_id := Suc (next_id u)\<rparr>"

definition clear_timer :: "motor_ui \<Rightarrow> motor_ui" where
  "clear_timer u = u\<lparr>armed := filter (\<lambda>t. Some (fst t) \<noteq> timer u) (armed u)\<rparr>"

definition step_click :: "string \<Rightarrow> nat \<Rightarrow> motor_ui \<Rightarrow> motor_ui" where
  "step_click dir detail u = (if detail = 1 then arm dir 100 u else u)"

definition step_dblclick :: "string \<Rightarrow> nat \<Rightarrow> motor_ui \<Rightarrow> motor_ui" where
  "step_dblclick dir detail u = (if detail = 2 then move dir 10 (clear_timer u) else u)"

definition center_click :: "nat \<Rightarrow> motor_ui \<Rightarrow> motor_ui" where
  "center_click detail u = (if detail = 1 then arm ''cc'' 100 u else u)"

definition center_dblclick :: "motor_ui \<Rightarrow> motor_ui" where
  "center_dblclick u = move ''homing'' 100 (clear_timer u)"

definition timer_fires :: "nat \<Rightarrow> motor_ui \<Rightarrow> motor_ui" where
  "timer_fires i u =
     (case map_of (armed u) i of
        None \<Rightarrow> u
      | Some (dir, steps) \<Rightarrow> move dir steps (u\<lparr>armed := filter (\<lambda>t. fst t \<noteq> i) (armed u)\<rparr>))"

definition stopContinuousMove :: "motor_ui \<Rightarrow> motor_ui" where
  "stopContinuousMove u =
     (case holdInterval u of
        None \<Rightarrow> u
      | Some i \<Rightarrow> u\<lparr>intervals := filter (\<lambda>t. fst t \<noteq> i) (intervals u), holdInterval := None\<rparr>)"

definition startContinuousMove :: "string \<Rightarrow> motor_ui \<Rightarrow> motor_ui" where
  "startContinuousMove dir u =
     (if dir = [] then u
      else let v = move dir 100 (stopContinuousMove u)
           in v\<lparr>holdInterval := Some (next_id v), intervals := intervals v @ [(next_id v, dir)], next_id := Suc (next_id v)\<rparr>)"

definition interval_ticks :: "nat \<Rightarrow> motor_ui \<Rightarrow> motor_ui" where
  "interval_ticks i u = (case map_of (intervals u) i of None \<Rightarrow> u | Some dir \<Rightarrow> move dir 100 u)"

text \<open>The events of a page; the arrows are bound in one of the two modes, the centre button in both.\<close>

inductive motor_step :: "bool \<Rightarrow> motor_ui \<Rightarrow> motor_ui \<Rightarrow> bool" for stepMode where
  click: "stepMode \<Longrightarrow> motor_step stepMode u (step_click dir detail u)"
| dblclick: "stepMode \<Longrightarrow> motor_step stepMode u (step_dblclick dir detail u)"
| pointerdown: "\<not> stepMode \<Longrightarrow> motor_step stepMode u (startContinuousMove dir u)"
| release: "\<not> stepMode \<Longrightarrow> motor_step stepMode u (stopContinuousMove u)"
| tick: "motor_step stepMode u (interval_ticks i u)"
| center: "motor_step stepMode u (center_click detail u)"
| center_twice: "motor_step stepMode u (center_dblclick u)"
| fires: "motor_step stepMode u (timer_fires i u)"

definition motor_start :: "js \<Rightarrow> motor_ui" where
  "motor_start mp = \<lparr>motorParams = mp, timer = None, armed = [], holdInterval = None, intervals = [], next_id = 1, sent = [''d=j'']\<rparr>"

section \<open>Lemmas\<close>

lemma parse_joined_pins: "\<forall>w\<in>set ws. valid_float w \<Longrightarrow> parseMotorPins (JStr (join_with '' '' ws)) = ws"
  using float_nonempty float_solid by (auto simp: parseMotorPins_def intro!: words_join)

lemma set_pins: "length ws = 4 \<Longrightarrow> \<forall>w\<in>set ws. valid_float w \<Longrightarrow> setMotorPins ws = ws"
  by (rule nth_equalityI) (auto simp: setMotorPins_def number_input_def)

lemma shown_pins: "length ws = 4 \<Longrightarrow> \<forall>w\<in>set ws. valid_float w \<Longrightarrow> setMotorPins (parseMotorPins (JStr (join_with '' '' ws))) = ws"
  using parse_joined_pins [of ws] set_pins [of ws] by (cases ws) auto

lemma pos_parts:
  assumes "number_input x = x" "number_input y = y"
  shows "pos_part 0 (JStr (x @ '','' @ y)) = x" "pos_part 1 (JStr (x @ '','' @ y)) = y"
proof -
  have solid: "\<not> is_space c \<and> c \<noteq> CHR '',''" if "number_input t = t" "c \<in> set t" for t c
    using that float_solid [of t c] by (auto simp: number_input_def split: if_splits)
  have "split_on (CHR '','') (x @ CHR '','' # y) = [x, y]"
    using solid [OF assms(1)] solid [OF assms(2)] split_on_plain [of "CHR '',''" x] split_on_plain [of "CHR '',''" y]
    unfolding split_on_append by fastforce
  moreover have "trim_end x = x" using solid [OF assms(1)] by (cases "rev x") (auto simp: trim_end_def rev_swap)
  moreover have "trim_start y = y" using solid [OF assms(2)] by (cases y) (auto simp: trim_start_def)
  ultimately show "pos_part 0 (JStr (x @ '','' @ y)) = x" "pos_part 1 (JStr (x @ '','' @ y)) = y" by (simp_all add: pos_part_def)
qed

text \<open>
  A configuration that reports a form: the pins of an axis in one text, the home position as \<open>x,y\<close>, numbers as numbers or texts, switches as booleans or
  texts. This is how \<open>json-motors-config.cgi\<close> stores the parameters of a save.
\<close>

definition reports_text :: "js \<Rightarrow> string \<Rightarrow> string \<Rightarrow> bool" where
  "reports_text c k t \<longleftrightarrow> (if nullish (getp c k) then [] else js_text (getp c k)) = t"

definition reports :: "js \<Rightarrow> bool \<Rightarrow> motors_form \<Rightarrow> bool" where
  "reports c spi f \<longleftrightarrow>
     is_object c \<and> truthy c \<and> getp c ''gpio_pan'' = JStr (join_with '' '' (gpio_pan f)) \<and> getp c ''gpio_tilt'' = JStr (join_with '' '' (gpio_tilt f)) \<and>
     reports_text c ''steps_pan'' (steps_pan f) \<and> reports_text c ''steps_tilt'' (steps_tilt f) \<and>
     reports_text c ''speed_pan'' (speed_pan f) \<and> reports_text c ''speed_tilt'' (speed_tilt f) \<and>
     reports_text c ''accel_pan'' (accel_pan f) \<and> reports_text c ''accel_tilt'' (accel_tilt f) \<and>
     getp c ''motion_driver'' = JStr (motion_driver f) \<and> getp c ''preview_control_mode'' = JStr (preview_control_mode f) \<and>
     is_true (getp c ''homing'') = homing f \<and> getp c ''pos_0'' = JStr (pos_0_x f @ '','' @ pos_0_y f) \<and> is_true (getp c ''is_spi'') = spi"

text \<open>A form as the page keeps it: numbers, a known driver and mode, no acceleration for the legacy driver, and the controls disabled that do not apply.\<close>

definition clean_motors :: "bool \<Rightarrow> motors_form \<Rightarrow> bool" where
  "clean_motors spi f \<longleftrightarrow>
     length (gpio_pan f) = 4 \<and> length (gpio_tilt f) = 4 \<and> list_all valid_float (gpio_pan f @ gpio_tilt f) \<and>
     list_all (\<lambda>t. number_input t = t) [steps_pan f, steps_tilt f, speed_pan f, speed_tilt f, accel_pan f, accel_tilt f, pos_0_x f, pos_0_y f] \<and>
     motion_driver f \<in> {''legacy'', ''profiled''} \<and> preview_control_mode f \<in> {''step'', ''continuous''} \<and>
     accel_disabled f = (motion_driver f = ''legacy'') \<and> (motion_driver f = ''legacy'' \<longrightarrow> accel_pan f = ''0'' \<and> accel_tilt f = ''0'') \<and>
     pos_disabled f = (\<not> homing f) \<and> pins_disabled f = spi"

lemma field_value_reported: "reports_text c k t \<Longrightarrow> number_input t = t \<Longrightarrow> field_value (getp c k) = t"
  by (simp add: reports_text_def field_value_def)

lemma apply_reported:
  assumes "reports c spi f" "clean_motors spi f"
  shows "mo_form (applyMotorsConfig c p) = f" "motorIsSpi (applyMotorsConfig c p) = spi"
proof -
  have pins: "setMotorPins (parseMotorPins (JStr (join_with '' '' (gpio_pan f)))) = gpio_pan f"
    "setMotorPins (parseMotorPins (JStr (join_with '' '' (gpio_tilt f)))) = gpio_tilt f"
    using assms(2) by (auto simp: clean_motors_def list_all_iff intro!: shown_pins)
  have pos: "pos_part 0 (JStr (pos_0_x f @ '','' @ pos_0_y f)) = pos_0_x f" "pos_part 1 (JStr (pos_0_x f @ '','' @ pos_0_y f)) = pos_0_y f"
    using assms(2) pos_parts by (simp_all add: clean_motors_def)
  have drv: "normalizeMotionDriver (JStr (motion_driver f)) = motion_driver f" "normalizePreviewControlMode (JStr (preview_control_mode f)) = preview_control_mode f"
    using assms(2) by (auto simp: clean_motors_def normalizeMotionDriver_def normalizePreviewControlMode_def)
  have nums: "field_value (getp c ''steps_pan'') = steps_pan f" "field_value (getp c ''steps_tilt'') = steps_tilt f"
    "field_value (getp c ''speed_pan'') = speed_pan f" "field_value (getp c ''speed_tilt'') = speed_tilt f"
    "field_value (getp c ''accel_pan'') = accel_pan f" "field_value (getp c ''accel_tilt'') = accel_tilt f"
    "number_input (pos_0_x f) = pos_0_x f" "number_input (pos_0_y f) = pos_0_y f"
    using assms by (simp_all add: reports_def clean_motors_def field_value_reported)
  have c: "is_object c" "truthy c" "getp c ''gpio_pan'' = JStr (join_with '' '' (gpio_pan f))" "getp c ''gpio_tilt'' = JStr (join_with '' '' (gpio_tilt f))"
    "getp c ''motion_driver'' = JStr (motion_driver f)" "getp c ''preview_control_mode'' = JStr (preview_control_mode f)"
    "is_true (getp c ''homing'') = homing f" "getp c ''pos_0'' = JStr (pos_0_x f @ '','' @ pos_0_y f)" "is_true (getp c ''is_spi'') = spi"
    using assms(1) unfolding reports_def by blast+
  have "motion_driver f = ''legacy'' \<and> accel_disabled f \<and> accel_pan f = ''0'' \<and> accel_tilt f = ''0'' \<or> motion_driver f = ''profiled'' \<and> \<not> accel_disabled f"
    "pos_disabled f = (\<not> homing f)" "pins_disabled f = spi"
    using assms(2) by (auto simp: clean_motors_def)
  then show "mo_form (applyMotorsConfig c p) = f" "motorIsSpi (applyMotorsConfig c p) = spi"
    using c pins pos drv nums
    by (cases f; auto simp: applyMotorsConfig_def updateHomingInputs_def updateMotionDriverInputs_def)+
qed

section \<open>Properties of the settings page\<close>

text \<open>
  Motor settings survive: if the camera reports the settings of one page's form, loading them into any page, in whatever state, gives that page the same form,
  the disabled controls included, and the same request on the next save. The form is one the page can have: numbers in the number inputs, a known driver and mode.\<close>

theorem motors_survive_reload:
  assumes "motors_answer out = Inr c" "reports c (motorIsSpi p) (mo_form p)" "clean_motors (motorIsSpi p) (mo_form p)"
  shows "mo_form (fst (loadMotorsConfig_settle silent out q)) = mo_form p \<and>
         snd (saveMotorsConfig (fst (loadMotorsConfig_settle silent out q))) = snd (saveMotorsConfig p)"
proof -
  have "mo_form (fst (loadMotorsConfig_settle silent out q)) = mo_form p" "motorIsSpi (fst (loadMotorsConfig_settle silent out q)) = motorIsSpi p"
    using apply_reported [OF assms(2,3)] assms(1) by (simp_all add: loadMotorsConfig_settle_def Let_def)
  then show ?thesis by (simp add: saveMotorsConfig_def Let_def)
qed

definition sample_motors :: "bool \<Rightarrow> motors_form" where
  "sample_motors home = \<lparr>gpio_pan = [''55'', ''56'', ''57'', ''58''], gpio_tilt = [''59'', ''60'', ''61'', ''62''], steps_pan = ''40'', steps_tilt = ''20'',
     speed_pan = ''9'', speed_tilt = [], accel_pan = ''0'', accel_tilt = ''0'', motion_driver = ''legacy'', preview_control_mode = ''step'', homing = home,
     pos_0_x = ''10'', pos_0_y = ''-2.5'', pins_disabled = False, accel_disabled = True, pos_disabled = \<not> home\<rparr>"

definition sample_motors_page :: "motors_form \<Rightarrow> motors_page" where
  "sample_motors_page f = \<lparr>mo_form = f, motorIsSpi = False, mo_badge = [], mo_help = [], mo_hidden = True, mo_loaded = False, mo_busy = idle_bar,
     mo_reload_disabled = False\<rparr>"

definition sample_config :: js where
  "sample_config = JObj [(''gpio_pan'', JStr ''55 56 57 58''), (''gpio_tilt'', JStr ''59 60 61 62''), (''steps_pan'', JStr ''40''), (''steps_tilt'', JStr ''20''),
     (''speed_pan'', JStr ''9''), (''accel_pan'', JStr ''0''), (''accel_tilt'', JStr ''0''), (''motion_driver'', JStr ''legacy''),
     (''preview_control_mode'', JStr ''step''), (''homing'', JBool True), (''pos_0'', JStr ''10,-2.5'')]"

lemma sample_floats: "list_all valid_float [''55'', ''56'', ''57'', ''58'', ''59'', ''60'', ''61'', ''62'', ''40'', ''20'', ''9'', ''0'', ''10'', ''-2.5'']"
  by code_simp

theorem motors_survive_reload_witness:
  "let out = Answer \<lparr>status = 200, text_body = ''x'', parsed = Some (JObj [(''result'', JStr ''success''), (''message'', sample_config)])\<rparr>;
       p = sample_motors_page (sample_motors True); q = sample_motors_page ((sample_motors True)\<lparr>steps_pan := [], homing := False\<rparr>)
   in mo_form (fst (loadMotorsConfig_settle False out q)) = mo_form p \<and>
      snd (saveMotorsConfig (fst (loadMotorsConfig_settle False out q))) = snd (saveMotorsConfig p)"
  unfolding Let_def
proof (rule motors_survive_reload)
  show "motors_answer (Answer \<lparr>status = 200, text_body = ''x'', parsed = Some (JObj [(''result'', JStr ''success''), (''message'', sample_config)])\<rparr>) = Inr sample_config"
    by (simp add: motors_answer_def resp_ok_def js_or_def sample_config_def)
  show "reports sample_config (motorIsSpi (sample_motors_page (sample_motors True))) (mo_form (sample_motors_page (sample_motors True)))"
    by (simp add: reports_def reports_text_def sample_config_def sample_motors_page_def sample_motors_def is_true_def nullish_def)
  show "clean_motors (motorIsSpi (sample_motors_page (sample_motors True))) (mo_form (sample_motors_page (sample_motors True)))"
    using sample_floats by (simp add: clean_motors_def sample_motors_page_def sample_motors_def number_input_def)
qed

lemma set_param_keys: "fst ` set (set_param a v d) \<subseteq> insert a (fst ` set d)"
  by (induction d) (force split: if_splits)+

lemma filtered_keys: "fst ` set (xs @ filter P ys) \<subseteq> fst ` set xs \<union> fst ` set ys"
  by auto

lemma motors_params_keys:
  "fst ` set (motors_params f) \<subseteq> {''form'', ''homing'', ''accel_pan'', ''accel_tilt''} \<union> fst ` set (formData f)"
proof -
  define d1 where "d1 = (if map_of (formData f) ''motion_driver'' = Some ''profiled'' then formData f
    else set_param ''accel_tilt'' ''0'' (set_param ''accel_pan'' ''0'' (formData f)))"
  have "fst ` set d1 \<subseteq> {''accel_pan'', ''accel_tilt''} \<union> fst ` set (formData f)"
    using set_param_keys [of "''accel_tilt''" "''0''" "set_param ''accel_pan'' ''0'' (formData f)"] set_param_keys [of "''accel_pan''" "''0''" "formData f"]
    unfolding d1_def by (auto split: if_splits)
  moreover have "motors_params f = [(''form'', ''motors''), (''homing'', if homing f then ''true'' else ''false'')] @
      filter (\<lambda>p. fst p \<noteq> ''form'' \<and> fst p \<noteq> ''homing'') d1"
    by (simp only: motors_params_def d1_def Let_def)
  then have "fst ` set (motors_params f) \<subseteq> {''form'', ''homing''} \<union> fst ` set d1"
    using filtered_keys [of "[(''form'', ''motors''), (''homing'', if homing f then ''true'' else ''false'')]"] by (simp del: if_split)
  ultimately show ?thesis by blast
qed

text \<open>
  Switching homing off loses the stored home position: from any form, once homing is unchecked the two position inputs are disabled, so a save
  sends neither of them, although the page still shows the numbers.\<close>

theorem homing_off_drops_position:
  assumes "snd (saveMotorsConfig (homing_change False p)) = [Send (PostForm url ps)]"
  shows "''pos_0_x'' \<notin> fst ` set ps \<and> ''pos_0_y'' \<notin> fst ` set ps \<and> (''homing'', ''false'') \<in> set ps \<and>
     pos_0_x (mo_form (homing_change False p)) = pos_0_x (mo_form p) \<and> pos_0_y (mo_form (homing_change False p)) = pos_0_y (mo_form p)"
proof -
  let ?f = "mo_form (homing_change False p)"
  have ps: "ps = motors_params ?f"
    using assms by (simp add: saveMotorsConfig_def Let_def split: if_splits)
  have "''pos_0_x'' \<notin> fst ` set (formData ?f)" "''pos_0_y'' \<notin> fst ` set (formData ?f)"
    by (auto simp: formData_def homing_change_def updateHomingInputs_def Let_def dest!: set_zip_leftD)
  then have "''pos_0_x'' \<notin> fst ` set ps" "''pos_0_y'' \<notin> fst ` set ps"
    using subsetD [OF motors_params_keys, of "''pos_0_x''" ?f] subsetD [OF motors_params_keys, of "''pos_0_y''" ?f] unfolding ps by (simp_all, blast+)
  then show ?thesis by (simp add: ps motors_params_def Let_def homing_change_def updateHomingInputs_def)
qed

lemma sample_errors: "motors_errors False (formData (sample_motors False)) = []"
  by code_simp

theorem homing_off_drops_position_witness:
  "''pos_0_x'' \<notin> fst ` set (motors_params (sample_motors False)) \<and> ''pos_0_y'' \<notin> fst ` set (motors_params (sample_motors False)) \<and>
   (''homing'', ''false'') \<in> set (motors_params (sample_motors False)) \<and>
   pos_0_x (mo_form (homing_change False (sample_motors_page (sample_motors True)))) = pos_0_x (mo_form (sample_motors_page (sample_motors True))) \<and>
   pos_0_y (mo_form (homing_change False (sample_motors_page (sample_motors True)))) = pos_0_y (mo_form (sample_motors_page (sample_motors True)))"
proof (rule homing_off_drops_position)
  have f: "mo_form (homing_change False (sample_motors_page (sample_motors True))) = sample_motors False"
    by (simp add: homing_change_def sample_motors_page_def updateHomingInputs_def sample_motors_def)
  have "motorIsSpi (homing_change False (sample_motors_page (sample_motors True))) = False" by (simp add: homing_change_def sample_motors_page_def)
  with f show "snd (saveMotorsConfig (homing_change False (sample_motors_page (sample_motors True)))) =
      [Send (PostForm motorsConfigEndpoint (motors_params (sample_motors False)))]"
    by (simp add: saveMotorsConfig_def sample_errors Let_def)
qed

text \<open>What a save that is sent has checked: the pins unless the board is SPI, and no step count that reads as a number below one.\<close>

lemma sent_settings_checked:
  assumes "snd (saveMotorsConfig p) = [Send (PostForm url ps)]" "\<not> motorIsSpi p" "k \<in> set required_pins"
  shows "\<not> blank (map_of (formData (mo_form p)) k)" "\<not> bad_steps (map_of (formData (mo_form p)) ''steps_pan'')"
    "\<not> bad_steps (map_of (formData (mo_form p)) ''steps_tilt'')"
  using assms by (auto simp: saveMotorsConfig_def motors_errors_def Let_def filter_empty_conv split: if_splits)

text \<open>A step count that \<open>parseInt\<close> cannot read passes the check.\<close>

lemma unreadable_steps_pass: "valid_float ''.5'' \<and> \<not> bad_steps (Some ''.5'')"
  by code_simp

lemma flip_involutive: "flip_motor dir (flip_motor dir f) = f"
  by (simp add: flip_motor_def)

section \<open>Properties of the movement controls\<close>

text \<open>The invariant: armed timers are older than the next id, and the interval the script remembers is the only one there is.\<close>

definition motor_inv :: "motor_ui \<Rightarrow> bool" where
  "motor_inv u \<longleftrightarrow> list_all (\<lambda>t. fst t < next_id u) (armed u) \<and>
     map fst (intervals u) = (case holdInterval u of None \<Rightarrow> [] | Some i \<Rightarrow> [i])"

lemmas motor_defs = step_click_def step_dblclick_def center_click_def center_dblclick_def timer_fires_def startContinuousMove_def
  stopContinuousMove_def interval_ticks_def move_def arm_def clear_timer_def

lemma stop_inv: "motor_inv u \<Longrightarrow> motor_inv (stopContinuousMove u) \<and> intervals (stopContinuousMove u) = [] \<and> holdInterval (stopContinuousMove u) = None"
  by (cases "holdInterval u") (auto simp: motor_inv_def stopContinuousMove_def list_all_iff Cons_eq_map_conv map_eq_Cons_conv)

lemma start_inv: "motor_inv u \<Longrightarrow> motor_inv (startContinuousMove dir u)"
  using stop_inv [of u] by (auto simp: motor_inv_def startContinuousMove_def move_def Let_def list_all_iff less_Suc_eq)

lemma motor_step_inv: "motor_step stepMode u v \<Longrightarrow> motor_inv u \<Longrightarrow> motor_inv v"
proof (induction rule: motor_step.cases)
  case (pointerdown u dir)
  then show ?case using start_inv by simp
next
  case (release u)
  then show ?case using stop_inv by simp
qed (auto simp: motor_inv_def motor_defs list_all_iff less_Suc_eq split: option.splits)

lemma motor_reachable_inv: "(motor_step stepMode)\<^sup>*\<^sup>* (motor_start mp) u \<Longrightarrow> motor_inv u"
proof (induction rule: rtranclp_induct)
  case base
  show ?case by (simp add: motor_inv_def motor_start_def)
next
  case (step u v)
  then show ?case using motor_step_inv by blast
qed

text \<open>Steps of a page on which no arrow is pressed: ticks of intervals and further release events.\<close>

definition idle_step :: "motor_ui \<Rightarrow> motor_ui \<Rightarrow> bool" where
  "idle_step u v \<longleftrightarrow> v = stopContinuousMove u \<or> (\<exists>i. v = interval_ticks i u)"

lemma idle_keeps:
  "idle_step\<^sup>*\<^sup>* u v \<Longrightarrow> intervals u = [] \<Longrightarrow> intervals v = [] \<and> sent v = sent u"
  by (induction rule: rtranclp_induct) (auto simp: idle_step_def stopContinuousMove_def interval_ticks_def split: option.splits)



text \<open>
  A double click is one large move: in step mode, from every reachable state, the two clicks and the double click of a browser's event sequence send exactly the
  command for a tenth of the range, and cancel the small move the first click had armed; moves armed by earlier clicks elsewhere stay armed.\<close>

theorem double_click_one_move:
  assumes "(motor_step True)\<^sup>*\<^sup>* (motor_start mp) u"
  shows "let v = step_dblclick dir 2 (step_click dir 2 (step_click dir 1 u))
         in sent v = sent u @ moveMotor (motorParams u) dir 10 \<and> armed v = armed u"
proof -
  have "\<forall>t\<in>set (armed u). fst t \<noteq> next_id u" using motor_reachable_inv [OF assms] by (auto simp: motor_inv_def list_all_iff)
  then show ?thesis by (auto simp: step_dblclick_def step_click_def move_def arm_def clear_timer_def Let_def intro: filter_True)
qed

theorem double_click_one_move_witness:
  "let v = step_dblclick ''uc'' 2 (step_click ''uc'' 2 (step_click ''uc'' 1 (step_click ''cl'' 1 (motor_start JNull))))
   in sent v = sent (step_click ''cl'' 1 (motor_start JNull)) @ moveMotor (motorParams (step_click ''cl'' 1 (motor_start JNull))) ''uc'' 10 \<and>
      armed v = armed (step_click ''cl'' 1 (motor_start JNull))"
  by (rule double_click_one_move [where mp = JNull]) (rule r_into_rtranclp, rule motor_step.click, simp)

text \<open>Opposite arrows undo each other.\<close>

lemma opposite_moves:
  "list_all (\<lambda>(a, b). move_delta (Fin q) b = (num_scale (-1) (fst (move_delta (Fin q) a)), num_scale (-1) (snd (move_delta (Fin q) a))))
     [(''uc'', ''dc''), (''ur'', ''dl''), (''cr'', ''cl''), (''dr'', ''ul'')]"
  by (simp add: move_delta_def starts_with_def)

end
