(* ===== verification/Access_Pages.thy ===== *)
theory Access_Pages
  imports Settings_Pages Preview_Endpoints Confirm
begin

text \<open>
  The pages that set how the camera is reached: the RTSP and ONVIF password with the addresses of the streams (\<open>config-rtsp.js\<close>), and the web interface with its
  password, theme, trusted addresses and access key (\<open>config-webui.js\<close>). Both follow the protocol of \<open>Settings_Pages\<close>.
\<close>

section \<open>RTSP and ONVIF\<close>

record rtsp_form =
  rp_username :: string
  rp_password :: string
  rp_type :: string \<comment> \<open>of the password input\<close>
  rp_reveal :: bool
  url_onvif :: string
  url_rtsp_main :: string
  url_rtsp_sub :: string
  url_rtsp_mic :: string

definition ipv6Wrap :: "string \<Rightarrow> string" where
  "ipv6Wrap host = (if host \<noteq> [] \<and> includes_str host '':'' \<and> \<not> starts_with host ''['' then ''['' @ host @ '']'' else host)"

definition buildCredential :: "js \<Rightarrow> js \<Rightarrow> string" where
  "buildCredential user pass = encodeURIComponent (js_text user) @ '':'' @ encodeURIComponent (js_text pass)"

definition updatePasswordFieldVisibility :: "rtsp_form \<Rightarrow> rtsp_form" where
  "updatePasswordFieldVisibility f = f\<lparr>rp_type := (if rp_reveal f then ''text'' else ''password'')\<rparr>"

definition formatHostWithPort :: "string \<Rightarrow> js \<Rightarrow> int list \<Rightarrow> string" where
  "formatHostWithPort host port defaultPorts =
     (let numericPort = parse_int (Some 10) (js_text port)
      in if \<not> truthy port \<or> numericPort = NaN \<or> numericPort \<in> set (map (\<lambda>i. Fin (of_int i)) defaultPorts) then host
         else host @ '':'' @ num_text numericPort)"

definition applyDefault :: "js \<Rightarrow> string \<Rightarrow> js" where
  "applyDefault v fallback = (if v = JUndef \<or> v = JNull \<or> v = JStr [] then JStr fallback else v)"

text \<open>The settings with the defaults of the page; \<open>host\<close> is \<open>defaultHost\<close>.\<close>

definition updateSamples :: "string \<Rightarrow> (string \<Rightarrow> js) \<Rightarrow> rtsp_form \<Rightarrow> rtsp_form" where
  "updateSamples defaultHost d f =
     (let host = ipv6Wrap defaultHost;
          auth = buildCredential (d ''username'') (d ''password'');
          rtsp = (\<lambda>ch. ''rtsp://'' @ auth @ ''@'' @ formatHostWithPort host (d ''rtsp_port'') [554] @ ''/'' @ js_text (d ch))
      in f\<lparr>url_onvif := ''onvif://'' @ auth @ ''@'' @ formatHostWithPort host (d ''onvif_port'') [80, 443] @ ''/onvif/device_service'',
           url_rtsp_main := rtsp ''rtsp_ch0'', url_rtsp_sub := rtsp ''rtsp_ch1'', url_rtsp_mic := rtsp ''rtsp_mic''\<rparr>)"

definition rtspDefaults :: "(string \<times> string) list" where
  "rtspDefaults = [(''username'', ''thingino''), (''password'', ''thingino''), (''onvif_port'', ''80''), (''rtsp_port'', ''554''),
     (''rtsp_ch0'', ''ch0''), (''rtsp_ch1'', ''ch1''), (''rtsp_mic'', ''mic'')]"

definition rtsp_normalized :: "js \<Rightarrow> string \<Rightarrow> js" where
  "rtsp_normalized data k = (case map_of rtspDefaults k of Some v \<Rightarrow> applyDefault (getp data k) v | None \<Rightarrow> JUndef)"

definition rtsp_fill :: "string \<Rightarrow> js \<Rightarrow> rtsp_form \<Rightarrow> rtsp_form" where
  "rtsp_fill defaultHost data f =
     (let d = rtsp_normalized data
      in updateSamples defaultHost d (f\<lparr>rp_username := js_text (d ''username''), rp_password := js_text (d ''password'')\<rparr>))"

definition rtsp_config_url :: string where "rtsp_config_url = ''/x/json-config-rtsp.cgi''"

definition rtsp_load_settle :: "string \<Rightarrow> bool \<Rightarrow> outcome \<Rightarrow> rtsp_form settings_page \<Rightarrow> rtsp_form settings_page \<times> effect list" where
  "rtsp_load_settle defaultHost =
     load_settle (rtsp_fill defaultHost) ''Failed to load RTSP configuration'' ''Unable to load RTSP configuration.''"

definition rtsp_submit :: "rtsp_form settings_page \<Rightarrow> rtsp_form settings_page \<times> effect list" where
  "rtsp_submit p =
     (let newPassword = trim (rp_password (form p))
      in if newPassword = [] then (p, [Notice ''warning'' [JStr ''Please provide a password.''] 6000])
         else save_start rtsp_config_url (JObj [(''password'', JStr newPassword)]) p)"

text \<open>Unlike the other pages this one reads \<open>result.error\<close> and \<open>result.message\<close> without asking for \<open>result\<close>.\<close>

definition rtsp_saved :: "outcome \<Rightarrow> js option" where
  "rtsp_saved out =
     (case out of
        Rejected m \<Rightarrow> Some (JStr m)
      | Answer r \<Rightarrow>
          (case parsed r of
             None \<Rightarrow> Some (JStr ''SyntaxError'')
           | Some result \<Rightarrow>
               if nullish result then Some (JStr ''TypeError'')
               else if \<not> resp_ok r \<or> truthy (getp result ''error'') then Some (js_or (getp result ''message'') (JStr ''Failed to update password''))
               else None))"

definition rtsp_save_settle :: "outcome \<Rightarrow> rtsp_form settings_page \<Rightarrow> rtsp_form settings_page \<times> bool \<times> effect list" where
  "rtsp_save_settle out p =
     (case rtsp_saved out of
        Some m \<Rightarrow> (toggleBusy False p, False, [Notice ''danger'' [js_or m (JStr ''Failed to update password.'')] 6000])
      | None \<Rightarrow> (p, True, [Overlay ''success'' [JStr ''RTSP/ONVIF password updated. Services restarted.''], Send (Get rtsp_config_url)]))"

definition rtsp_reload_settle :: "string \<Rightarrow> outcome \<Rightarrow> rtsp_form settings_page \<Rightarrow> rtsp_form settings_page \<times> effect list" where
  "rtsp_reload_settle defaultHost =
     reload_settle (rtsp_fill defaultHost) ''Failed to load RTSP configuration'' ''Unable to load RTSP configuration.''
       ''RTSP settings reloaded from camera.''"

definition rtsp_reveal :: "bool \<Rightarrow> rtsp_form \<Rightarrow> rtsp_form" where
  "rtsp_reveal checked f = updatePasswordFieldVisibility (f\<lparr>rp_reveal := checked\<rparr>)"

section \<open>The web interface\<close>

record webui_form =
  wu_username :: string
  wu_password :: string
  wu_type :: string
  wu_reveal :: "bool option" \<comment> \<open>the switch, where the page has it\<close>
  wu_theme :: string
  wu_paranoid :: bool
  wu_track_focus :: bool
  wu_focus_timeout :: string
  wu_bypass :: string

definition resetPasswordField :: "webui_form \<Rightarrow> webui_form" where
  "resetPasswordField f = f\<lparr>wu_password := [], wu_type := ''password'', wu_reveal := map_option (\<lambda>_. False) (wu_reveal f)\<rparr>"

definition handlePasswordReveal :: "bool \<Rightarrow> webui_form \<Rightarrow> webui_form" where
  "handlePasswordReveal checked f = f\<lparr>wu_reveal := Some checked, wu_type := (if checked then ''text'' else ''password'')\<rparr>"

text \<open>\<open>parseInt(v) || 0\<close>.\<close>

definition int_or_0 :: "string \<Rightarrow> int" where
  "int_or_0 t = (case parse_int None t of Fin q \<Rightarrow> \<lfloor>q\<rfloor> | _ \<Rightarrow> 0)"

record webui_config =
  cf_username :: js
  cf_theme :: js
  cf_paranoid :: bool
  cf_track_focus :: bool
  cf_focus_timeout :: int
  cf_bypass :: string
  cf_activeTheme :: js

definition resolveActiveTheme :: "nat \<Rightarrow> js \<Rightarrow> js" where
  "resolveActiveTheme hour pref =
     (if pref = JStr ''light'' \<or> pref = JStr ''dark'' then pref else JStr (if 8 < hour \<and> hour < 20 then ''light'' else ''dark''))"

definition normalizeConfig :: "nat \<Rightarrow> js \<Rightarrow> webui_config" where
  "normalizeConfig hour raw =
     (let t = (if getp raw ''theme'' \<in> {JStr ''light'', JStr ''dark'', JStr ''auto''} then getp raw ''theme'' else JStr ''auto'')
      in \<lparr>cf_username = js_or (getp raw ''username'') (JStr ''root''), cf_theme = t, cf_paranoid = (getp raw ''paranoid'' = JBool True),
          cf_track_focus = (getp raw ''track_focus'' = JBool True),
          cf_focus_timeout = max 0 (min 300 (int_or_0 (js_text (getp raw ''focus_timeout'')))),
          cf_bypass = str_or_empty (getp raw ''auth_bypass_ips''), cf_activeTheme = resolveActiveTheme hour t\<rparr>)"

definition webui_fill :: "nat \<Rightarrow> js \<Rightarrow> webui_form \<Rightarrow> webui_form" where
  "webui_fill hour data f =
     (let c = normalizeConfig hour data
      in resetPasswordField (f\<lparr>wu_username := js_text (cf_username c), wu_theme := js_text (cf_theme c), wu_paranoid := cf_paranoid c,
           wu_track_focus := cf_track_focus c, wu_focus_timeout := show_int (cf_focus_timeout c), wu_bypass := cf_bypass c\<rparr>))"

definition webui_payload :: "webui_form \<Rightarrow> js" where
  "webui_payload f = JObj
     ([(''theme'', JStr (wu_theme f)), (''paranoid'', JBool (wu_paranoid f)), (''track_focus'', JBool (wu_track_focus f)),
       (''focus_timeout'', jint (int_or_0 (wu_focus_timeout f))), (''auth_bypass_ips'', JStr (trim (wu_bypass f)))]
      @ (if trim (wu_password f) = [] then [] else [(''password'', JStr (trim (wu_password f)))]))"

definition webui_url :: string where "webui_url = ''/x/json-config-webui.cgi''"

definition webui_load_settle :: "nat \<Rightarrow> bool \<Rightarrow> outcome \<Rightarrow> webui_form settings_page \<Rightarrow> webui_form settings_page \<times> effect list" where
  "webui_load_settle hour = load_settle (webui_fill hour) ''Failed to load Web UI settings'' ''Unable to load Web UI settings.''"

definition webui_submit :: "webui_form settings_page \<Rightarrow> webui_form settings_page \<times> effect list" where
  "webui_submit p = save_start webui_url (webui_payload (form p)) p"

definition webui_save_settle :: "outcome \<Rightarrow> webui_form settings_page \<Rightarrow> webui_form settings_page \<times> bool \<times> effect list" where
  "webui_save_settle out p =
     (let (q, loading, fx) = save_settle webui_url (\<lambda>_. Some (JStr ''Web UI settings saved.'')) ''Failed to save settings''
            ''Failed to save Web UI settings.'' out p
      in (if loading then q\<lparr>form := resetPasswordField (form q)\<rparr> else q, loading, fx))"

definition webui_reload_settle :: "nat \<Rightarrow> outcome \<Rightarrow> webui_form settings_page \<Rightarrow> webui_form settings_page \<times> effect list" where
  "webui_reload_settle hour =
     reload_settle (webui_fill hour) ''Failed to load Web UI settings'' ''Unable to load Web UI settings.''
       ''Web UI settings reloaded from camera.''"

section \<open>Trusted addresses\<close>

text \<open>The two suggestions of the menu, or \<open>None\<close> where the address could not be found: \<open>split\<close> throws on a value that is no text.\<close>

definition bypass_suggestions :: "outcome \<Rightarrow> (string \<times> string) option" where
  "bypass_suggestions out =
     (case out of
        Rejected _ \<Rightarrow> None
      | Answer r \<Rightarrow>
          (case parsed r of
             Some (JObj kvs) \<Rightarrow>
               (case getp (JObj kvs) ''client_ip'' of
                  JStr ip \<Rightarrow> if ip = [] then None else Some (ip, join_with ''.'' (take 3 (split_on (CHR ''.'') ip)) @ ''.0/24'')
                | _ \<Rightarrow> None)
           | _ \<Rightarrow> None))"

definition bypass_entries :: "string \<Rightarrow> string list" where
  "bypass_entries t = (if trim t = [] then [] else filter (\<lambda>e. e \<noteq> []) (map trim (split_on (CHR '','') (trim t))))"

definition bypass_pick :: "string \<Rightarrow> string \<Rightarrow> string" where
  "bypass_pick pick t =
     (let entries = bypass_entries t in if pick \<in> set entries then t else join_with '', '' (entries @ [pick]))"

section \<open>The access key\<close>

record key_box =
  kb_display :: js
  kb_placeholder :: string
  kb_copy_disabled :: bool
  kb_delete_disabled :: bool
  kb_example_hidden :: bool
  kb_example :: js

definition key_url :: string where "key_url = ''/x/api-key.cgi''"

definition loadApiKey_settle :: "outcome \<Rightarrow> key_box \<Rightarrow> key_box" where
  "loadApiKey_settle out b =
     (case out of
        Rejected _ \<Rightarrow> b
      | Answer r \<Rightarrow>
          (case parsed r of
             None \<Rightarrow> b
           | Some d \<Rightarrow>
               if nullish d then b
               else let key = getp d ''api_key''
                    in if truthy (getp d ''exists'') \<and> truthy key
                       then b\<lparr>kb_display := key, kb_copy_disabled := False, kb_delete_disabled := False, kb_example_hidden := False, kb_example := key\<rparr>
                       else b\<lparr>kb_display := JStr [], kb_placeholder := ''No API key generated'', kb_copy_disabled := True, kb_delete_disabled := True,
                              kb_example_hidden := True\<rparr>))"

text \<open>
  \<open>if (!confirm(...)) return;\<close>: \<open>confirm\<close> is the dialog of \<open>main.js\<close>, which returns a promise; as a condition the promise is true, so the request is sent
  with the dialog still open.
\<close>

definition generate_click :: "confirm_modal \<Rightarrow> confirm_modal \<times> effect list" where
  "generate_click m =
     (thinginoConfirm (JStr ''Generate a new API key? This will invalidate the old key if it exists.'') JUndef m, [Send (PostText key_url [])])"

definition delete_click :: "confirm_modal \<Rightarrow> confirm_modal \<times> effect list" where
  "delete_click m =
     (thinginoConfirm (JStr ''Delete the API key? API access will stop working.'') JUndef m, [Send (Delete key_url)])"

text \<open>What follows the answer: a new load (its end is followed by the notice) or an error.\<close>

definition key_answer :: "outcome \<Rightarrow> string + js" where
  "key_answer out =
     (case out of
        Rejected m \<Rightarrow> Inl m
      | Answer r \<Rightarrow> (case parsed r of None \<Rightarrow> Inl ''SyntaxError'' | Some d \<Rightarrow> Inr d))"

definition generate_settle :: "outcome \<Rightarrow> bool \<times> effect list" where
  "generate_settle out =
     (case key_answer out of
        Inl m \<Rightarrow> (False, [Notice ''danger'' [JStr ''Error: '', JStr m] 6000])
      | Inr d \<Rightarrow>
          if nullish d then (False, [Notice ''danger'' [JStr ''Error: '', JStr ''TypeError''] 6000])
          else if truthy (getp d ''api_key'') then (True, [Send (Get key_url)])
          else (False, [Notice ''danger'' [JStr ''Failed to generate API key''] 6000]))"

definition delete_settle :: "outcome \<Rightarrow> bool \<times> effect list" where
  "delete_settle out =
     (case key_answer out of
        Inl m \<Rightarrow> (False, [Notice ''danger'' [JStr ''Error: '', JStr m] 6000])
      | Inr _ \<Rightarrow> (True, [Send (Get key_url)]))"

definition key_reloaded :: "string \<Rightarrow> outcome \<Rightarrow> key_box \<Rightarrow> key_box \<times> effect list" where
  "key_reloaded message out b = (loadApiKey_settle out b, [Notice ''success'' [JStr message] 6000])"

section \<open>Lemmas\<close>

lemma host_with_port_agrees: "formatHostWithPort host port [d] = formatPreviewHostWithPort host port d"
  by (simp add: formatHostWithPort_def formatPreviewHostWithPort_def)

lemma wraps_agree: "ipv6Wrap host = wrapIpv6Host host" "buildCredential u w = buildRtspCredential u w"
  by (simp_all add: ipv6Wrap_def wrapIpv6Host_def buildCredential_def buildRtspCredential_def)

lemma rtsp_normalized_simps:
  "rtsp_normalized d ''username'' = applyDefault (getp d ''username'') ''thingino''"
  "rtsp_normalized d ''password'' = applyDefault (getp d ''password'') ''thingino''"
  "rtsp_normalized d ''rtsp_port'' = applyDefault (getp d ''rtsp_port'') ''554''"
  "rtsp_normalized d ''rtsp_ch0'' = applyDefault (getp d ''rtsp_ch0'') ''ch0''"
  "rtsp_normalized d ''rtsp_ch1'' = applyDefault (getp d ''rtsp_ch1'') ''ch1''"
  by (simp_all add: rtsp_normalized_def rtspDefaults_def)

lemma applyDefault_preview: "applyDefault v s = previewEndpointValue v (JStr s)"
  by (simp add: applyDefault_def previewEndpointValue_def)

text \<open>The web interface form.\<close>

definition clean_webui :: "webui_form \<Rightarrow> bool" where
  "clean_webui f \<longleftrightarrow> wu_theme f \<in> {''light'', ''dark'', ''auto''} \<and> 0 \<le> int_or_0 (wu_focus_timeout f) \<and> int_or_0 (wu_focus_timeout f) \<le> 300 \<and>
     trim (wu_password f) = []"

lemma signless_show_int: "take_sign (dropWhile is_space (show_int i)) = (i < 0, show_nat (nat \<bar>i\<bar>))"
proof (cases "i < 0")
  case True
  have "is_space (CHR ''-'') = False" by (simp add: is_space_def)
  with True show ?thesis by (simp add: show_int_def)
next
  case False
  obtain c s where c: "show_nat (nat i) = c # s" "is_digit c" by (rule show_nat_Cons)
  then have "\<not> is_space c" "c \<noteq> CHR ''-''" "c \<noteq> CHR ''+''" using digit_not_space by (auto simp: is_digit_def)
  with False c show ?thesis by (simp add: show_int_def)
qed

lemma parse_int_auto_show_int: "parse_int None (show_int i) = Fin (of_int i)"
proof -
  have "radix_of_prefix (show_nat n) = None" for n by (rule radix_of_digits) (rule show_nat_digits)
  then have "parse_int None (show_int i) = parse_int (Some 10) (show_int i)" by (simp add: parse_int_def signless_show_int)
  then show ?thesis by (simp add: parse_int_show_int)
qed

lemma int_or_0_show: "int_or_0 (show_int i) = i"
  using parse_int_auto_show_int [of i] by (simp add: int_or_0_def)

interpretation webui: free_form "webui_fill hour" webui_payload clean_webui "\<lambda>d. d" for hour
proof
  have fill: "webui_payload (webui_fill hour (webui_payload f) g) = webui_payload f" if "clean_webui f" for f g
  proof -
    have "wu_theme f = ''light'' \<or> wu_theme f = ''dark'' \<or> wu_theme f = ''auto''" using that by (simp add: clean_webui_def)
    then show ?thesis
      using that by (elim disjE) (simp_all add: clean_webui_def webui_payload_def webui_fill_def normalizeConfig_def resetPasswordField_def
          int_or_0_show trim_Nil Let_def)
  qed
  then show "clean_webui f \<Longrightarrow> webui_payload (webui_fill hour (webui_payload f) f) = webui_payload f"
    "clean_webui f \<Longrightarrow> webui_payload (webui_fill hour (webui_payload f) g) = webui_payload f" for f g by blast+
  show "clean_webui f \<Longrightarrow> jsonify (webui_payload f) = webui_payload f" for f by (simp add: webui_payload_def)
qed

section \<open>Properties\<close>

text \<open>
  C19. The stream addresses of the RTSP page are those of the preview: for every user, password, port and stream path the camera has, of whatever JSON type or missing, a preview that has received
  them in a message lists for both streams exactly the addresses the RTSP page shows after loading them.\<close>

theorem rtsp_page_agrees_with_preview:
  assumes "ep_state p = previewEndpointState" "ep_list p = Some ks"
  shows "map lk_copyUrl (take 2 (the (ep_list (updatePreviewEndpointState net l
      (JObj [(''rtsp'', JObj [(''username'', u), (''password'', w), (''port'', q)]), (''stream0'', JObj [(''rtsp_endpoint'', c0)]), (''stream1'', JObj [(''rtsp_endpoint'', c1)])]) p)))) =
    (let g = rtsp_fill (endpoint_host net l) (JObj [(''username'', u), (''password'', w), (''rtsp_port'', q), (''rtsp_ch0'', c0), (''rtsp_ch1'', c1)]) f
     in [url_rtsp_main g, url_rtsp_sub g])"
  using assms
  by (simp add: updatePreviewEndpointState_def renderPreviewEndpoints_def endpoint_entries_def endpoint_link_of_def rtsp_url_def updated_state_def
      previewEndpointState_def rtsp_fill_def updateSamples_def rtsp_normalized_simps applyDefault_preview host_with_port_agrees wraps_agree Let_def numeral_eq_Suc)

definition sample_endpoints :: endpoint_page where
  "sample_endpoints = \<lparr>ep_state = previewEndpointState, ep_key = JStr [], ep_list = Some []\<rparr>"

definition blank_rtsp :: rtsp_form where
  "blank_rtsp = \<lparr>rp_username = [], rp_password = [], rp_type = ''password'', rp_reveal = False, url_onvif = [], url_rtsp_main = [], url_rtsp_sub = [], url_rtsp_mic = []\<rparr>"

theorem rtsp_page_agrees_with_preview_witness:
  "map lk_copyUrl (take 2 (the (ep_list (updatePreviewEndpointState [] sample_location
      (JObj [(''rtsp'', JObj [(''username'', JStr ''ann''), (''password'', JStr ''p:@/''), (''port'', JStr ''5540'')]),
        (''stream0'', JObj [(''rtsp_endpoint'', JNull)]), (''stream1'', JObj [(''rtsp_endpoint'', JStr ''low'')])]) sample_endpoints)))) =
    (let g = rtsp_fill (endpoint_host [] sample_location)
        (JObj [(''username'', JStr ''ann''), (''password'', JStr ''p:@/''), (''rtsp_port'', JStr ''5540''), (''rtsp_ch0'', JNull), (''rtsp_ch1'', JStr ''low'')]) blank_rtsp
     in [url_rtsp_main g, url_rtsp_sub g])"
  by (rule rtsp_page_agrees_with_preview) (simp_all add: sample_endpoints_def)

text \<open>A new password is what the addresses then contain, whatever characters it has.\<close>

lemma new_password_in_links:
  assumes "CHR ''/'' \<notin> set host" "d = JObj [(''username'', JStr u), (''password'', JStr w)]" "u \<noteq> []" "w \<noteq> []"
  shows "rtsp_parts (url_rtsp_main (rtsp_fill host d f)) = Some (u, w, formatPreviewHostWithPort (wrapIpv6Host host) (JStr ''554'') 554, ''ch0'')"
proof -
  have "url_rtsp_main (rtsp_fill host d f) =
      ''rtsp://'' @ (encodeURIComponent u @ '':'' @ encodeURIComponent w) @ ''@'' @ formatPreviewHostWithPort (wrapIpv6Host host) (JStr ''554'') 554 @ ''/'' @ ''ch0''"
    using assms(2-4) by (simp add: rtsp_fill_def updateSamples_def rtsp_normalized_simps applyDefault_def host_with_port_agrees wraps_agree buildRtspCredential_def Let_def)
  then show ?thesis by (simp only:) (rule rtsp_parts_of, rule host_port_no_slash [OF assms(1)])
qed

text \<open>A trusted address is added once, after the ones already there.\<close>

definition plain_entry :: "string \<Rightarrow> bool" where
  "plain_entry e \<longleftrightarrow> e \<noteq> [] \<and> trim e = e \<and> CHR '','' \<notin> set e"

lemma plain_entry_ends: "plain_entry e \<Longrightarrow> \<not> is_space (hd e) \<and> \<not> is_space (last e)"
  using trim_solid_ends [of e] by (simp add: plain_entry_def)

lemma trim_lead: "is_space c \<Longrightarrow> trim (c # s) = trim s"
  by (simp add: trim_def)

lemma joined_entries:
  "es \<noteq> [] \<Longrightarrow> list_all plain_entry es \<Longrightarrow>
   map trim (split_on (CHR '','') (join_with '', '' es)) = es \<and> join_with '', '' es \<noteq> [] \<and>
   hd (join_with '', '' es) = hd (hd es) \<and> last (join_with '', '' es) = last (last es)"
proof (induction es)
  case (Cons e es)
  show ?case
  proof (cases es)
    case Nil
    then show ?thesis using Cons.prems by (simp add: split_on_plain plain_entry_def)
  next
    case (Cons d ds)
    have IH: "map trim (split_on (CHR '','') (join_with '', '' es)) = es" "join_with '', '' es \<noteq> []" "last (join_with '', '' es) = last (last es)"
      using Cons.IH Cons.prems \<open>es = d # ds\<close> by auto
    have e: "CHR '','' \<notin> set e" "e \<noteq> []" "trim e = e" using Cons.prems by (auto simp: plain_entry_def)
    have j: "join_with '', '' (e # es) = e @ CHR '','' # CHR '' '' # join_with '', '' es" by (simp add: \<open>es = d # ds\<close>)
    have sp: "is_space (CHR '' '')" by code_simp
    obtain v vs where v: "split_on (CHR '','') (join_with '', '' es) = v # vs" by (cases "split_on (CHR '','') (join_with '', '' es)") auto
    then have "map trim (split_on (CHR '','') (CHR '' '' # join_with '', '' es)) = es" using IH(1) sp by (simp add: trim_lead)
    then show ?thesis using e IH(2,3) \<open>es = d # ds\<close> unfolding j by (simp add: split_on_append split_on_plain)
  qed
qed simp

lemma entries_of_joined: "list_all plain_entry es \<Longrightarrow> bypass_entries (join_with '', '' es) = es"
proof (cases "es = []")
  case False
  assume p: "list_all plain_entry es"
  then have "plain_entry (hd es)" "plain_entry (last es)" using False by (auto simp: list_all_iff)
  then have "trim (join_with '', '' es) = join_with '', '' es"
    using joined_entries [OF False p] plain_entry_ends by (intro trim_solid) auto
  moreover have "filter (\<lambda>e. e \<noteq> []) es = es" using p by (auto simp: list_all_iff plain_entry_def filter_id_conv)
  ultimately show ?thesis using joined_entries [OF False p] by (simp add: bypass_entries_def)
qed (simp add: bypass_entries_def trim_Nil)

lemma bypass_pick_once:
  assumes "list_all plain_entry (bypass_entries t)" "plain_entry e"
  shows "bypass_entries (bypass_pick e t) = (if e \<in> set (bypass_entries t) then bypass_entries t else bypass_entries t @ [e])"
    "bypass_pick e (bypass_pick e t) = bypass_pick e t"
proof -
  show a: "bypass_entries (bypass_pick e t) = (if e \<in> set (bypass_entries t) then bypass_entries t else bypass_entries t @ [e])"
    using assms entries_of_joined [of "bypass_entries t @ [e]"] by (simp add: bypass_pick_def Let_def)
  then show "bypass_pick e (bypass_pick e t) = bypass_pick e t" by (simp add: bypass_pick_def [of e "bypass_pick e t"] split: if_splits)
qed

text \<open>
  The access key is deleted unasked: a click on the delete button, or on the generate button, opens the dialog and at the same moment sends the request; the dialog
  is among those still waiting for an answer, and whatever the user answers afterwards comes too late.\<close>

theorem key_deleted_unasked:
  "snd (delete_click m) = [Send (Delete key_url)] \<and> snd (generate_click m) = [Send (PostText key_url [])] \<and>
   next_dialog m \<in> set (listening (fst (delete_click m))) \<and> next_dialog m \<in> set (listening (fst (generate_click m))) \<and>
   answers (fst (delete_click m)) = answers m \<and> answers (fst (generate_click m)) = answers m \<and> is_shown (fst (delete_click m))"
  by (simp add: delete_click_def generate_click_def thinginoConfirm_def showConfirmDialog_def normalizeConfirmOptions_def assignFrom_def
      resolveConfirmIntentClass_def ConfirmDefaults_def js_or_def Let_def)

end
