(* ===== verification/Gpio_Page.thy ===== *)
theory Gpio_Page
  imports Settings_Pages
begin

text \<open>
  The page of the lamps on GPIO pins (\<open>config-gpio.js\<close>): one card per lamp the camera has, with its pin, polarity, state on boot and, for a pin with pulse width
  modulation, channel and level. A card is its contents; the configuration of a lamp is an object or, in the older form, a pin number with a suffix.
\<close>

section \<open>Pins\<close>

definition gpioConfigs :: "(string \<times> string) list" where
  "gpioConfigs = [(''led_r'', ''Red LED''), (''led_g'', ''Green LED''), (''led_b'', ''Blue LED''), (''led_y'', ''Yellow LED''), (''led_o'', ''Orange LED''),
     (''led_w'', ''White LED''), (''ir850'', ''850 nm IR LED''), (''ir940'', ''940 nm IR LED''), (''white'', ''White LED'')]"

record pin_data =
  pd_pin :: js
  pd_activeLow :: bool
  pd_activeOnBoot :: bool
  pd_pwmLvl :: js

definition all_digits :: "string \<Rightarrow> bool" where "all_digits t \<longleftrightarrow> t \<noteq> [] \<and> list_all is_digit t"

text \<open>\<open>slice(-1)\<close> and \<open>slice(0, -1)\<close> of an empty text are empty.\<close>

definition parseGPIOPinData :: "js \<Rightarrow> pin_data" where
  "parseGPIOPinData d =
     (if is_object d \<and> getp d ''pin'' \<noteq> JUndef
      then \<lparr>pd_pin = getp d ''pin'', pd_activeLow = is_true (getp d ''active_low''), pd_activeOnBoot = is_true (getp d ''active_on_boot''),
            pd_pwmLvl = js_or (getp d ''pwm_level'') (JStr [])\<rparr>
      else let t = js_text d; plain = all_digits t
           in \<lparr>pd_pin = JStr (if plain then t else butlast t), pd_activeLow = (\<not> plain \<and> t \<noteq> [] \<and> last t = CHR ''o''),
               pd_activeOnBoot = False, pd_pwmLvl = JStr []\<rparr>)"

definition pin_number :: "js \<Rightarrow> int option" where
  "pin_number pin = (case parse_int None (js_text pin) of Fin q \<Rightarrow> Some \<lfloor>q\<rfloor> | _ \<Rightarrow> None)"

definition isPWMPin :: "int list \<Rightarrow> js \<Rightarrow> bool" where
  "isPWMPin pwmPins pin = (case pin_number pin of Some n \<Rightarrow> n \<in> set pwmPins | None \<Rightarrow> False)"

fun index_of :: "int \<Rightarrow> int list \<Rightarrow> nat option" where
  "index_of n [] = None"
| "index_of n (m # ms) = (if m = n then Some 0 else map_option Suc (index_of n ms))"

definition getPWMChannel :: "int list \<Rightarrow> js \<Rightarrow> string" where
  "getPWMChannel pwmPins pin =
     (case pin_number pin of Some n \<Rightarrow> (case index_of n pwmPins of Some i \<Rightarrow> show_nat i | None \<Rightarrow> []) | None \<Rightarrow> [])"

section \<open>Cards\<close>

record gpio_card =
  gc_name :: string
  gc_label :: string
  gc_pin :: string
  gc_low :: string
  gc_lit :: bool
  gc_pwm :: "(string \<times> string) option" \<comment> \<open>channel and the level input\<close>

definition createGPIOCard :: "js \<Rightarrow> int list \<Rightarrow> string \<times> string \<Rightarrow> gpio_card option" where
  "createGPIOCard gpioData pwmPins config =
     (let d = getp gpioData (fst config); p = parseGPIOPinData d
      in if \<not> truthy d then None
         else Some \<lparr>gc_name = fst config, gc_label = snd config, gc_pin = js_text (pd_pin p), gc_low = (if pd_activeLow p then ''Yes'' else ''No''),
                    gc_lit = pd_activeOnBoot p,
                    gc_pwm = (if isPWMPin pwmPins (pd_pin p) then Some (getPWMChannel pwmPins (pd_pin p), js_text (pd_pwmLvl p)) else None)\<rparr>)"

definition nth_js :: "js list \<Rightarrow> nat \<Rightarrow> js" where "nth_js vs i = (if i < length vs then vs ! i else JUndef)"

definition createIRCutCard :: "js \<Rightarrow> string \<times> string" where
  "createIRCutCard gpioData =
     (let ircut = js_or (getp gpioData ''ircut'') (JArr []);
          pin = (\<lambda>i. case ircut of
                       JArr vs \<Rightarrow> nth_js vs i
                     | JStr s \<Rightarrow> nth_js (map JStr (split_on (CHR '' '') s)) i
                     | _ \<Rightarrow> JStr [])
      in (js_text (js_or (pin 0) (JStr ''-'')), js_text (js_or (pin 1) (JStr ''-''))))"

section \<open>The page\<close>

record gpio_form =
  gpioData :: js
  pwmPins :: "int list"
  gpio_cards :: "gpio_card list"
  ircut_pins :: "(string \<times> string) option"

definition gpio_url :: string where "gpio_url = ''/x/json-config-gpio.cgi''"

definition pins_of_text :: "string \<Rightarrow> int list" where
  "pins_of_text t = concat (map (\<lambda>w. case parse_int None w of Fin q \<Rightarrow> [\<lfloor>q\<rfloor>] | _ \<Rightarrow> []) (split_on (CHR '','') t))"

definition gpio_render :: "gpio_form \<Rightarrow> gpio_form" where
  "gpio_render f =
     f\<lparr>gpio_cards := concat (map (\<lambda>c. case createGPIOCard (gpioData f) (pwmPins f) c of None \<Rightarrow> [] | Some g \<Rightarrow> [g]) gpioConfigs),
       ircut_pins := Some (createIRCutCard (gpioData f))\<rparr>"

text \<open>Filling the form; the second result is a thrown error: a list of pins that is no text has no \<open>split\<close>, and the data of the lamps are replaced by then.\<close>

definition gpio_fill :: "js \<Rightarrow> gpio_form \<Rightarrow> gpio_form \<times> bool" where
  "gpio_fill d f =
     (let f1 = f\<lparr>gpioData := js_or (getp d ''gpio'') (JObj [])\<rparr>
      in case js_or (getp d ''pwm_pins'') (JStr []) of
           JStr t \<Rightarrow> (gpio_render (f1\<lparr>pwmPins := pins_of_text t\<rparr>), False)
         | _ \<Rightarrow> (f1, True))"

definition gpio_load_settle :: "bool \<Rightarrow> outcome \<Rightarrow> gpio_form settings_page \<Rightarrow> gpio_form settings_page \<times> effect list" where
  "gpio_load_settle preserveBusy out p =
     (let (q, fx) = (case read_settings ''Failed to load GPIO configuration'' out of
            Inl m \<Rightarrow> (p, [Notice ''danger'' [js_or m (JStr ''Unable to load GPIO configuration.'')] 6000])
          | Inr d \<Rightarrow> (let (f, threw) = gpio_fill d (form p) in (p\<lparr>form := f\<rparr>, if threw then [Notice ''danger'' [JStr ''TypeError''] 6000] else [])))
      in (if preserveBusy then q else toggleBusy False q, fx))"

definition find_card :: "string \<Rightarrow> gpio_form \<Rightarrow> gpio_card option" where
  "find_card name f = find (\<lambda>c. gc_name c = name) (gpio_cards f)"

definition gpio_entry :: "string \<Rightarrow> gpio_form \<Rightarrow> (string \<times> js) list" where
  "gpio_entry name f =
     (let d = getp (gpioData f) name; p = parseGPIOPinData d
      in if \<not> truthy d \<or> \<not> truthy (pd_pin p) then []
         else [(name, JObj
           ([(''pin'', JStr (trim (js_text (pd_pin p)))), (''inv'', JBool (pd_activeLow p)),
             (''lit'', JBool (case find_card name f of Some c \<Rightarrow> gc_lit c | None \<Rightarrow> False))]
            @ (case Option.bind (find_card name f) gc_pwm of
                 Some (ch, lvl) \<Rightarrow> if lvl = [] then [] else [(''lvl'', JStr (trim lvl))]
               | None \<Rightarrow> [])))])"

definition gpio_payload :: "gpio_form \<Rightarrow> js" where
  "gpio_payload f = JObj (concat (map (\<lambda>c. gpio_entry (fst c) f) gpioConfigs))"

definition gpio_submit :: "gpio_form settings_page \<Rightarrow> gpio_form settings_page \<times> effect list" where
  "gpio_submit p = save_start gpio_url (gpio_payload (form p)) p"

definition gpio_save_settle :: "outcome \<Rightarrow> gpio_form settings_page \<Rightarrow> gpio_form settings_page \<times> bool \<times> effect list" where
  "gpio_save_settle = save_settle gpio_url (message_or ''GPIO configuration saved.'') ''Failed to save settings'' ''Failed to save GPIO configuration.''"

definition gpio_reload_settle :: "outcome \<Rightarrow> gpio_form settings_page \<Rightarrow> gpio_form settings_page \<times> effect list" where
  "gpio_reload_settle out p =
     (let (q, fx) = gpio_load_settle False out p
      in (q\<lparr>reload_disabled := False\<rparr>, fx @ [Notice ''info'' [JStr ''GPIO settings reloaded from camera.''] 3000]))"

text \<open>The test button of a lamp, and what the user changes on a card.\<close>

definition gpio_test :: "string \<Rightarrow> effect list" where
  "gpio_test name = [Send (PostForm ''/x/json-gpio.cgi'' [(''n'', name), (''s'', ''~'')])]"

definition on_card :: "string \<Rightarrow> (gpio_card \<Rightarrow> gpio_card) \<Rightarrow> gpio_form \<Rightarrow> gpio_form" where
  "on_card name g f = f\<lparr>gpio_cards := map (\<lambda>c. if gc_name c = name then g c else c) (gpio_cards f)\<rparr>"

definition set_lit :: "string \<Rightarrow> bool \<Rightarrow> gpio_form \<Rightarrow> gpio_form" where
  "set_lit name v = on_card name (\<lambda>c. c\<lparr>gc_lit := v\<rparr>)"

definition set_level :: "string \<Rightarrow> string \<Rightarrow> gpio_form \<Rightarrow> gpio_form" where
  "set_level name v = on_card name (\<lambda>c. c\<lparr>gc_pwm := map_option (\<lambda>(ch, _). (ch, v)) (gc_pwm c)\<rparr>)"

section \<open>Lemmas\<close>

lemma distinct_lamps: "distinct (map fst gpioConfigs)"
  by code_simp

lemma gpio_entry_names: "p \<in> set (gpio_entry n f) \<Longrightarrow> fst p = n"
  by (auto simp: gpio_entry_def Let_def split: if_splits)

lemma map_of_entries:
  "map_of (concat (map (\<lambda>c. gpio_entry (fst c) f) cs)) n = (if n \<in> fst ` set cs then map_of (gpio_entry n f) n else None)"
proof (induction cs)
  case (Cons c cs)
  have "map_of (gpio_entry (fst c) f) n = None" if "fst c \<noteq> n"
    using that gpio_entry_names [of _ "fst c" f] by (force simp: map_of_eq_None_iff)
  then show ?case using Cons by (cases "fst c = n") (auto simp: map_add_def split: option.splits)
qed simp

lemma card_name: "createGPIOCard d ps c = Some g \<Longrightarrow> gc_name g = fst c"
  by (auto simp: createGPIOCard_def Let_def split: if_splits)

lemma find_rendered:
  "distinct (map fst cs) \<Longrightarrow> (n, l) \<in> set cs \<Longrightarrow>
   find (\<lambda>g. gc_name g = n) (concat (map (\<lambda>c. case createGPIOCard d ps c of None \<Rightarrow> [] | Some g \<Rightarrow> [g]) cs)) = createGPIOCard d ps (n, l)"
proof (induction cs)
  case (Cons c cs)
  have none: "find (\<lambda>g. gc_name g = n) (concat (map (\<lambda>c. case createGPIOCard d ps c of None \<Rightarrow> [] | Some g \<Rightarrow> [g]) cs)) = None" if "n \<notin> fst ` set cs"
    using that card_name by (force simp: find_None_iff split: option.splits)
  show ?case
  proof (cases "c = (n, l)")
    case True
    then have "n \<notin> fst ` set cs" using Cons.prems(1) by auto
    then show ?thesis using True none by (cases "createGPIOCard d ps c") (auto simp: card_name)
  next
    case False
    then have "(n, l) \<in> set cs" using Cons.prems(2) by auto
    moreover from this have "n \<in> fst ` set cs" by force
    then have "fst c \<noteq> n" using Cons.prems(1) by auto
    ultimately have "(n, l) \<in> set cs" "fst c \<noteq> n" by blast+
    then show ?thesis using Cons by (cases "createGPIOCard d ps c") (auto simp: card_name)
  qed
qed simp

text \<open>What \<open>json-config-gpio.cgi\<close> stores of a request and reports: the keys of a lamp by their names in the configuration, an empty level not at all.\<close>

definition stored_lamp :: "js \<Rightarrow> js" where
  "stored_lamp e = JObj ([(''pin'', getp e ''pin''), (''active_low'', getp e ''inv''), (''active_on_boot'', getp e ''lit'')]
     @ (if truthy (getp e ''lvl'') then [(''pwm_level'', getp e ''lvl'')] else []))"

definition stored_gpio :: "string \<Rightarrow> js \<Rightarrow> js" where
  "stored_gpio pwm d = JObj [(''gpio'', (case d of JObj kvs \<Rightarrow> JObj (map (\<lambda>(n, e). (n, stored_lamp e)) kvs) | v \<Rightarrow> v)), (''pwm_pins'', JStr pwm)]"

text \<open>
  A form as the page builds it from the camera's pins \<open>pwm\<close>: a lamp with a pin has a card, with a level exactly when its pin can be modulated, and the texts have no white space
  around them.
\<close>

definition lamp_ok :: "string \<Rightarrow> gpio_form \<Rightarrow> string \<Rightarrow> bool" where
  "lamp_ok pwm f n \<longleftrightarrow>
     (let d = getp (gpioData f) n; pin = pd_pin (parseGPIOPinData d)
      in truthy d \<and> truthy pin \<longrightarrow>
         trim (js_text pin) = js_text pin \<and> js_text pin \<noteq> [] \<and>
         (case find_card n f of
            None \<Rightarrow> False
          | Some c \<Rightarrow> (gc_pwm c \<noteq> None) = isPWMPin (pins_of_text pwm) pin \<and> (case gc_pwm c of None \<Rightarrow> True | Some (ch, lvl) \<Rightarrow> trim lvl = lvl)))"

definition clean_gpio :: "string \<Rightarrow> gpio_form \<Rightarrow> bool" where
  "clean_gpio pwm f \<longleftrightarrow> list_all (\<lambda>c. lamp_ok pwm f (fst c)) gpioConfigs"

lemma stored_lookup:
  assumes "(n, l) \<in> set gpioConfigs"
  shows "getp (getp (stored_gpio pwm (gpio_payload f)) ''gpio'') n = (case map_of (gpio_entry n f) n of None \<Rightarrow> JUndef | Some e \<Rightarrow> stored_lamp e)"
proof -
  have m: "map_of (map (\<lambda>(n, e). (n, stored_lamp e)) kvs) n = map_option stored_lamp (map_of kvs n)" for kvs
    by (induction kvs) auto
  have "n \<in> fst ` set gpioConfigs" using assms by force
  then show ?thesis by (simp add: stored_gpio_def gpio_payload_def m map_of_entries split: option.splits)
qed

lemma lamp_refilled:
  assumes "(n, l) \<in> set gpioConfigs" "lamp_ok pwm f n"
    and "f' = gpio_render (g\<lparr>gpioData := getp (stored_gpio pwm (gpio_payload f)) ''gpio'', pwmPins := pins_of_text pwm\<rparr>)"
  shows "gpio_entry n f' = gpio_entry n f"
proof -
  let ?d = "getp (gpioData f) n" and ?p = "parseGPIOPinData (getp (gpioData f) n)"
  have data: "getp (gpioData f') n = (case map_of (gpio_entry n f) n of None \<Rightarrow> JUndef | Some e \<Rightarrow> stored_lamp e)"
    using stored_lookup [OF assms(1)] by (simp add: assms(3) gpio_render_def)
  have card: "find_card n f' = createGPIOCard (gpioData f') (pins_of_text pwm) (n, l)"
    using find_rendered [OF distinct_lamps assms(1)] by (simp add: find_card_def assms(3) gpio_render_def)
  show ?thesis
  proof (cases "truthy ?d \<and> truthy (pd_pin ?p)")
    case False
    then show ?thesis using data by (simp add: gpio_entry_def Let_def)
  next
    case True
    then obtain c where c: "find_card n f = Some c" "(gc_pwm c \<noteq> None) = isPWMPin (pins_of_text pwm) (pd_pin ?p)"
      "\<And>ch lvl. gc_pwm c = Some (ch, lvl) \<Longrightarrow> trim lvl = lvl" "trim (js_text (pd_pin ?p)) = js_text (pd_pin ?p)" "js_text (pd_pin ?p) \<noteq> []"
      using assms(2) by (auto simp: lamp_ok_def Let_def split: option.splits)
    have pwm: "isPWMPin ps (JStr (js_text (pd_pin ?p))) = isPWMPin ps (pd_pin ?p)" for ps by (simp add: isPWMPin_def pin_number_def)
    have yes: "is_true (JBool b) = b" for b by (simp add: is_true_def)
    show ?thesis
      using True c data card
      by (cases "gc_pwm c") (auto simp: gpio_entry_def stored_lamp_def createGPIOCard_def parseGPIOPinData_def [of "JObj _"] pwm yes js_or_def Let_def split: prod.splits)
  qed
qed

lemma gpio_refill:
  assumes "clean_gpio pwm f"
  shows "gpio_payload (fst (gpio_fill (stored_gpio pwm (gpio_payload f)) g)) = gpio_payload f"
proof -
  let ?d = "stored_gpio pwm (gpio_payload f)"
  have d: "truthy (getp ?d ''gpio'')" "getp ?d ''pwm_pins'' = JStr pwm" by (simp_all add: stored_gpio_def gpio_payload_def)
  have "js_or (getp ?d ''pwm_pins'') (JStr []) = JStr pwm" by (simp add: d js_or_def)
  then have f': "fst (gpio_fill ?d g) = gpio_render (g\<lparr>gpioData := getp ?d ''gpio'', pwmPins := pins_of_text pwm\<rparr>)"
    using d(1) by (simp add: gpio_fill_def js_or_def Let_def)
  have same: "gpio_entry (fst c) (fst (gpio_fill ?d g)) = gpio_entry (fst c) f" if "c \<in> set gpioConfigs" for c
    using that assms f' lamp_refilled [of "fst c" "snd c" pwm f _ g] by (simp add: clean_gpio_def list_all_iff)
  define h where "h = fst (gpio_fill ?d g)"
  have "map (\<lambda>c. gpio_entry (fst c) h) gpioConfigs = map (\<lambda>c. gpio_entry (fst c) f) gpioConfigs"
    unfolding h_def by (rule map_cong) (simp_all only: same)
  then have "gpio_payload h = gpio_payload f" by (simp only: gpio_payload_def)
  then show ?thesis by (simp only: h_def)
qed

lemma json_object: "\<forall>p\<in>set kvs. snd p \<noteq> JUndef \<and> jsonify (snd p) = snd p \<Longrightarrow> jsonify (JObj kvs) = JObj kvs"
  by (induction kvs) auto

interpretation gpio: free_form "\<lambda>d f. fst (gpio_fill d f)" gpio_payload "clean_gpio pwm" "stored_gpio pwm" for pwm
proof
  have j: "jsonify (snd p) = snd p" "snd p \<noteq> JUndef" if "p \<in> set (gpio_entry n f)" for p n f
    using that by (auto simp: gpio_entry_def Let_def split: if_splits option.splits)
  then have "\<forall>p\<in>set (concat (map (\<lambda>c. gpio_entry (fst c) f) gpioConfigs)). snd p \<noteq> JUndef \<and> jsonify (snd p) = snd p" for f by fastforce
  then show "clean_gpio pwm f \<Longrightarrow> jsonify (gpio_payload f) = gpio_payload f" for f
    unfolding gpio_payload_def by (intro json_object)
qed (simp_all add: gpio_refill)

section \<open>Properties\<close>

text \<open>
  Lamp settings survive a save: if the camera stores what the page sends for each lamp and reports it with the same list of pins, the page that loads the answer sends
  exactly the same settings on its next save: pins, polarity, state on boot and levels, of every lamp.\<close>

theorem gpio_survives_save:
  assumes "clean_gpio pwm (form p)" "read_settings ''Failed to load GPIO configuration'' out = Inr (stored_gpio pwm (gpio_payload (form p)))"
  shows "snd (gpio_submit (fst (gpio_load_settle preserve out q))) = snd (gpio_submit p)"
  using gpio.payload_fill [OF assms(1), of "form q"] assms(2)
  by (simp add: gpio_submit_def save_start_def gpio_load_settle_def toggleBusy_def split_beta)

text \<open>
  A lamp on pin 0 cannot be saved: with the pin as the number 0 the page shows the card, its switch can be set, and the request that is sent has no entry for the
  lamp.\<close>

theorem gpio_pin_zero_lost:
  assumes "(n, l) \<in> set gpioConfigs" "getp (gpioData f) n = JObj kvs" "map_of kvs ''pin'' = Some (jint 0)"
  shows "createGPIOCard (gpioData f) (pwmPins f) (n, l) \<noteq> None \<and> gpio_entry n (set_lit n v f) = [] \<and>
     n \<notin> fst ` set (case gpio_payload (set_lit n v f) of JObj ps \<Rightarrow> ps | _ \<Rightarrow> [])"
proof -
  have e: "gpio_entry n (set_lit n v f) = []"
    using assms(2,3) by (simp add: gpio_entry_def set_lit_def on_card_def parseGPIOPinData_def)
  have "n \<notin> fst ` set (concat (map (\<lambda>c. gpio_entry (fst c) (set_lit n v f)) gpioConfigs))"
    using e map_of_entries [of "set_lit n v f" gpioConfigs n] by (simp add: map_of_eq_None_iff split: if_splits)
  then show ?thesis using e assms(2) by (simp add: createGPIOCard_def gpio_payload_def Let_def)
qed

definition sample_lamps :: gpio_form where
  "sample_lamps = \<lparr>gpioData = JObj [(''ir850'', JObj [(''pin'', JStr ''47''), (''active_low'', JBool True)]), (''led_r'', JObj [(''pin'', jint 0)])], pwmPins = [],
     gpio_cards = [\<lparr>gc_name = ''ir850'', gc_label = ''850 nm IR LED'', gc_pin = ''47'', gc_low = ''Yes'', gc_lit = True, gc_pwm = None\<rparr>], ircut_pins = None\<rparr>"

definition lamps_page :: "gpio_form settings_page" where
  "lamps_page = \<lparr>form = sample_lamps, controls_disabled = False, page_busy = idle_bar, reload_disabled = False\<rparr>"

lemma lamps_clean: "clean_gpio [] sample_lamps"
proof -
  have "pins_of_text [] = []" "trim ''47'' = ''47''" by code_simp+
  then show ?thesis
    by (simp add: clean_gpio_def gpioConfigs_def lamp_ok_def sample_lamps_def parseGPIOPinData_def find_card_def isPWMPin_def Let_def split: option.splits)
qed

theorem gpio_survives_save_witness:
  "snd (gpio_submit (fst (gpio_load_settle True
     (Answer \<lparr>status = 200, text_body = ''x'', parsed = Some (stored_gpio [] (gpio_payload (form lamps_page)))\<rparr>) lamps_page))) = snd (gpio_submit lamps_page)"
proof (rule gpio_survives_save)
  show "clean_gpio [] (form lamps_page)" using lamps_clean by (simp add: lamps_page_def)
qed (simp add: read_settings_def resp_ok_def nullish_def stored_gpio_def)

theorem gpio_pin_zero_lost_witness:
  "createGPIOCard (gpioData sample_lamps) (pwmPins sample_lamps) (''led_r'', ''Red LED'') \<noteq> None \<and> gpio_entry ''led_r'' (set_lit ''led_r'' True sample_lamps) = [] \<and>
   ''led_r'' \<notin> fst ` set (case gpio_payload (set_lit ''led_r'' True sample_lamps) of JObj ps \<Rightarrow> ps | _ \<Rightarrow> [])"
  by (rule gpio_pin_zero_lost [where kvs = "[(''pin'', jint 0)]"]) (simp_all add: gpioConfigs_def sample_lamps_def)

text \<open>The older form of a pin: the suffix \<open>o\<close> marks a lamp that is active low.\<close>

lemma parse_pin_text:
  "pd_pin (parseGPIOPinData (JStr (show_nat n))) = JStr (show_nat n)"
  "pd_pin (parseGPIOPinData (JStr (show_nat n @ ''o''))) = JStr (show_nat n)" "pd_activeLow (parseGPIOPinData (JStr (show_nat n @ ''o'')))"
  "\<not> pd_activeLow (parseGPIOPinData (JStr (show_nat n @ ''O'')))"
proof -
  have "show_nat n \<noteq> []" by (rule show_nat_Cons [of n]) simp
  then have d: "all_digits (show_nat n)" using show_nat_digits by (simp add: all_digits_def list_all_iff)
  have "\<not> all_digits (show_nat n @ ''o'')" "\<not> all_digits (show_nat n @ ''O'')" by (simp_all add: all_digits_def is_digit_def)
  with d show "pd_pin (parseGPIOPinData (JStr (show_nat n))) = JStr (show_nat n)"
    "pd_pin (parseGPIOPinData (JStr (show_nat n @ ''o''))) = JStr (show_nat n)" "pd_activeLow (parseGPIOPinData (JStr (show_nat n @ ''o'')))"
    "\<not> pd_activeLow (parseGPIOPinData (JStr (show_nat n @ ''O'')))"
    by (simp_all add: parseGPIOPinData_def butlast_append Let_def)
qed

end
