(* ===== verification/Telegram_Page.thy ===== *)
theory Telegram_Page
  imports Settings_Pages "HOL-Library.AList"
begin

text \<open>
  The page of the Telegram bot (\<open>config-telegrambot.js\<close>): token, users and commands are edited in a form; what else the configuration has is kept by the page and sent back. Whether
  the bot runs is asked and set with a second request.
\<close>

section \<open>The form\<close>

record bot_command =
  bc_handle :: string
  bc_description :: string
  bc_exec :: string

record bot_form =
  bt_token :: string
  bt_users :: string
  bt_user_ids :: string
  bt_enabled :: bool
  bt_commands :: "bot_command list" \<comment> \<open>the rows\<close>
  originalConfig :: js
  bt_debug :: js

text \<open>\<open>cmd?.handle || ""\<close> in the three inputs of a new row.\<close>

definition addCommandRow :: "js \<Rightarrow> bot_form \<Rightarrow> bot_form" where
  "addCommandRow cmd f =
     f\<lparr>bt_commands := bt_commands f @ [\<lparr>bc_handle = field_of cmd ''handle'', bc_description = field_of cmd ''description'', bc_exec = field_of cmd ''exec''\<rparr>]\<rparr>"

definition remove_row :: "nat \<Rightarrow> bot_form \<Rightarrow> bot_form" where
  "remove_row i f = f\<lparr>bt_commands := take i (bt_commands f) @ drop (Suc i) (bt_commands f)\<rparr>"

definition splitUsers :: "string \<Rightarrow> string list" where "splitUsers s = words s"

text \<open>\<open>join(" ")\<close> of an array: \<open>null\<close> and \<open>undefined\<close> are empty.\<close>

definition joined :: "js list \<Rightarrow> string" where
  "joined vs = join_with '' '' (map (\<lambda>v. if nullish v then [] else js_text v) vs)"

section \<open>Loading\<close>

definition bot_url :: string where "bot_url = ''/x/json-telegrambot.cgi''"

definition bot_fill :: "js \<Rightarrow> bot_form \<Rightarrow> bot_form" where
  "bot_fill data f =
     f\<lparr>originalConfig := data, bt_token := field_of data ''token'',
       bt_users := (case getp data ''allowed_usernames'' of JArr vs \<Rightarrow> joined vs | _ \<Rightarrow> field_of data ''users''),
       bt_user_ids := (case getp data ''allowed_user_ids'' of JArr vs \<Rightarrow> joined vs | _ \<Rightarrow> [])\<rparr>"

text \<open>The first answer fills the texts and asks for the state; \<open>None\<close> where the load ends with an error.\<close>

definition bot_load :: "bool \<Rightarrow> bot_form settings_page \<Rightarrow> bot_form settings_page \<times> effect list" where
  "bot_load preserveBusy p = load_start bot_url preserveBusy p"

definition bot_load_settle :: "bool \<Rightarrow> outcome \<Rightarrow> bot_form settings_page \<Rightarrow> bot_form settings_page \<times> js option \<times> effect list" where
  "bot_load_settle preserveBusy out p =
     (case read_settings ''Failed to load configuration'' out of
        Inl m \<Rightarrow> (if preserveBusy then p else toggleBusy False p, None,
          [Notice ''danger'' [js_or m (JStr ''Unable to load Telegram bot configuration.'')] 6000])
      | Inr data \<Rightarrow> (p\<lparr>form := bot_fill data (form p)\<rparr>, Some data, [Send (Get ''/x/ctl-telegrambot.cgi?status=1'')]))"

text \<open>The state of the bot: what the service says, or the configuration where it says nothing readable.\<close>

definition bot_enabled :: "js \<Rightarrow> outcome \<Rightarrow> bool" where
  "bot_enabled data out =
     (let fallback = (getp data ''enabled_boot'' = JBool True \<or> getp data ''enabled'' = JBool True \<or> getp data ''enabled'' = JStr ''true'')
      in case out of
           Rejected _ \<Rightarrow> fallback
         | Answer r \<Rightarrow>
             (case parsed r of
                None \<Rightarrow> fallback
              | Some st \<Rightarrow> if nullish st then fallback else getp st ''enabled_boot'' = JBool True \<or> getp st ''enabled_runtime'' = JBool True))"

definition bot_show :: "js \<Rightarrow> bool \<Rightarrow> bot_form \<Rightarrow> bot_form" where
  "bot_show data enabled f =
     (fold addCommandRow (case getp data ''commands'' of JArr cs \<Rightarrow> cs | _ \<Rightarrow> []) (f\<lparr>bt_enabled := enabled, bt_commands := []\<rparr>))\<lparr>bt_debug := data\<rparr>"

definition bot_status_settle :: "bool \<Rightarrow> js \<Rightarrow> outcome \<Rightarrow> bot_form settings_page \<Rightarrow> bot_form settings_page" where
  "bot_status_settle preserveBusy data out p =
     (let q = p\<lparr>form := bot_show data (bot_enabled data out) (form p)\<rparr> in if preserveBusy then q else toggleBusy False q)"

section \<open>Saving\<close>

definition user_ids :: "string \<Rightarrow> js list" where
  "user_ids t = concat (map (\<lambda>w. case parse_int (Some 10) w of Fin q \<Rightarrow> if q > 0 then [JNum (Fin q)] else [] | _ \<Rightarrow> []) (splitUsers t))"

definition sent_commands :: "bot_command list \<Rightarrow> js list" where
  "sent_commands rows =
     concat (map (\<lambda>c. let h = trim (bc_handle c); e = trim (bc_exec c)
                      in if h \<noteq> [] \<and> e \<noteq> []
                         then [JObj [(''handle'', JStr h), (''description'', JStr (trim (bc_description c))), (''exec'', JStr e)]] else []) rows)"

text \<open>
  The request: a copy of what was loaded with four keys set and \<open>enabled\<close> removed. Setting a key of a value that is no object throws (the script is strict); the keys set on an
  array are not serialised.
\<close>

definition bot_payload :: "bot_form \<Rightarrow> js option" where
  "bot_payload f =
     (case js_or (originalConfig f) (JObj []) of
        JObj kvs \<Rightarrow>
          Some (JObj (filter (\<lambda>p. fst p \<noteq> ''enabled'')
            (AList.update ''commands'' (JArr (sent_commands (bt_commands f)))
              (AList.update ''allowed_user_ids'' (JArr (user_ids (bt_user_ids f)))
                (AList.update ''allowed_usernames'' (JArr (map JStr (splitUsers (bt_users f))))
                  (AList.update ''token'' (JStr (trim (bt_token f))) kvs))))))
      | JArr vs \<Rightarrow> Some (JArr vs)
      | _ \<Rightarrow> None)"

definition bot_save :: "bot_form settings_page \<Rightarrow> bot_form settings_page \<times> effect list" where
  "bot_save p =
     (case bot_payload (form p) of
        None \<Rightarrow> (toggleBusy False (toggleBusy True p), [Notice ''danger'' [JStr ''TypeError''] 6000])
      | Some d \<Rightarrow> save_start bot_url d p)"

text \<open>The answer to the save, then to the switch (whatever it is), then a load with the busy state kept.\<close>

definition bot_save_settle :: "bool \<Rightarrow> outcome \<Rightarrow> bot_form settings_page \<Rightarrow> bot_form settings_page \<times> bool \<times> effect list" where
  "bot_save_settle enabled out p =
     (case out of
        Rejected m \<Rightarrow> (toggleBusy False p, False, [Notice ''danger'' [js_or (JStr m) (JStr ''Failed to save Telegram bot configuration.'')] 6000])
      | Answer r \<Rightarrow>
          if \<not> resp_ok r then (toggleBusy False p, False, [Notice ''danger'' [JStr (''HTTP '' @ show_int (status r))] 6000])
          else (p, True, [Send (Get (''/x/ctl-telegrambot.cgi?enabled='' @ (if enabled then ''1'' else ''0'')))]))"

definition bot_switch_settle :: "bot_form settings_page \<Rightarrow> bot_form settings_page \<times> effect list" where
  "bot_switch_settle p =
     (let (q, fx) = bot_load True p in (q, Overlay ''success'' [JStr ''Telegram bot configuration saved.''] # fx))"

definition bot_restart_settle :: "outcome \<Rightarrow> effect list" where
  "bot_restart_settle out =
     (let failed = [Notice ''danger'' [JStr ''Failed to restart Telegram bot service.''] 6000]
      in case out of
           Rejected _ \<Rightarrow> failed
         | Answer r \<Rightarrow> if resp_ok r then [Overlay ''success'' [JStr ''Telegram bot service restarted.'']] else failed)"

section \<open>Lemmas\<close>

lemma update_same: "map_of kvs k = Some v \<Longrightarrow> AList.update k v kvs = kvs"
  by (induction kvs) auto

lemma filter_no_key: "k \<notin> fst ` set kvs \<Longrightarrow> filter (\<lambda>p. fst p \<noteq> k) kvs = kvs"
  by (induction kvs) auto

lemma word_parts: "w \<in> set (split_by p s) \<Longrightarrow> c \<in> set w \<Longrightarrow> \<not> p c"
proof (induction s arbitrary: w)
  case (Cons d s)
  have "split_by p s \<noteq> []" by (cases s) simp_all
  then obtain v vs where v: "split_by p s = v # vs" by (cases "split_by p s") auto
  have "\<forall>x\<in>set (v # vs). c \<in> set x \<longrightarrow> \<not> p c" using Cons.IH Cons.prems(2) v by auto
  then show ?case using Cons.prems v by (cases "p d") auto
qed simp

lemma words_solid: "w \<in> set (words s) \<Longrightarrow> w \<noteq> [] \<and> (\<forall>c\<in>set w. \<not> is_space c)"
  using word_parts by (auto simp: words_def)

lemma words_words: "words (join_with '' '' (words s)) = words s"
  using words_solid by (intro words_join) auto

lemma user_ids_ints: "v \<in> set (user_ids t) \<Longrightarrow> \<exists>i. v = jint i \<and> 0 < i"
proof -
  assume "v \<in> set (user_ids t)"
  then obtain w where w: "v \<in> set (case parse_int (Some 10) w of Fin q \<Rightarrow> if q > 0 then [JNum (Fin q)] else [] | _ \<Rightarrow> [])"
    by (auto simp: user_ids_def)
  then show ?thesis by (cases rule: parse_int_cases [of "Some 10" w]) (auto split: if_splits)
qed

lemma ids_again:
  assumes "\<forall>v\<in>set vs. \<exists>i. v = jint i \<and> 0 < i"
  shows "user_ids (joined vs) = vs"
proof -
  have "\<exists>ns. vs = map jint ns \<and> (\<forall>i\<in>set ns. 0 < i)"
    using assms
  proof (induction vs)
    case (Cons v vs)
    then obtain i ns where "v = jint i" "0 < i" "vs = map jint ns" "\<forall>i\<in>set ns. 0 < i" by auto
    then show ?case by (intro exI [of _ "i # ns"]) simp
  qed simp
  then obtain ns where vs: "vs = map jint ns" and pos: "\<forall>i\<in>set ns. 0 < i" by blast
  have "joined vs = join_with '' '' (map show_int ns)" unfolding joined_def vs by (simp add: nullish_def comp_def)
  moreover have "words (join_with '' '' (map show_int ns)) = map show_int ns"
  proof (rule words_join)
    have "show_int i \<noteq> []" for i by (simp add: show_int_def)
    then show "w \<noteq> []" if "w \<in> set (map show_int ns)" for w using that by (metis (no_types, lifting) ex_map_conv)
    show "\<not> is_space c" if "w \<in> set (map show_int ns)" "c \<in> set w" for w c
      using that show_int_chars digit_not_space by (force simp: is_space_def)
  qed
  moreover have "concat (map (\<lambda>w. case parse_int (Some 10) w of Fin q \<Rightarrow> if q > 0 then [JNum (Fin q)] else [] | _ \<Rightarrow> []) (map show_int ns)) = map jint ns"
    using pos by (induction ns) (simp_all add: parse_int_show_int)
  ultimately show ?thesis unfolding user_ids_def splitUsers_def vs by simp
qed

lemma rows_shown:
  "bt_commands (fold addCommandRow cs f) = bt_commands f @ map (\<lambda>c. \<lparr>bc_handle = field_of c ''handle'', bc_description = field_of c ''description'', bc_exec = field_of c ''exec''\<rparr>) cs"
  by (induction cs arbitrary: f) (simp_all add: addCommandRow_def)

lemma rows_frame:
  "bt_token (fold addCommandRow cs f) = bt_token f" "bt_users (fold addCommandRow cs f) = bt_users f"
  "bt_user_ids (fold addCommandRow cs f) = bt_user_ids f" "originalConfig (fold addCommandRow cs f) = originalConfig f"
  by (induction cs arbitrary: f) (simp_all add: addCommandRow_def)

lemma commands_again:
  "sent_commands (map (\<lambda>c. \<lparr>bc_handle = field_of c ''handle'', bc_description = field_of c ''description'', bc_exec = field_of c ''exec''\<rparr>) (sent_commands rows)) = sent_commands rows"
  by (induction rows) (auto simp: sent_commands_def field_of_def trim_Nil Let_def)

lemma token_again: "trim (field_of (JObj kvs) ''token'') = t" if "map_of kvs ''token'' = Some (JStr t)" "trim t = t"
  using that by (auto simp: field_of_def)

text \<open>The texts a form sends, read again from a configuration that has them.\<close>

lemma payload_again:
  assumes "map_of kvs ''token'' = Some (JStr (trim t))" "map_of kvs ''allowed_usernames'' = Some (JArr (map JStr (words u)))"
    "map_of kvs ''allowed_user_ids'' = Some (JArr (user_ids i))" "map_of kvs ''commands'' = Some (JArr (sent_commands rows))"
    "''enabled'' \<notin> fst ` set kvs"
  shows "bot_payload (bot_show (JObj kvs) e (bot_fill (JObj kvs) g)) = Some (JObj kvs)"
proof -
  let ?f = "bot_show (JObj kvs) e (bot_fill (JObj kvs) g)"
  have "trim (bt_token ?f) = trim t" using token_again [OF assms(1)] by (simp add: bot_show_def bot_fill_def rows_frame)
  moreover have "splitUsers (bt_users ?f) = words u"
    using assms(2) by (simp add: bot_show_def bot_fill_def rows_frame splitUsers_def joined_def comp_def nullish_def words_words)
  moreover have "user_ids (bt_user_ids ?f) = user_ids i"
    using assms(3) user_ids_ints ids_again by (simp add: bot_show_def bot_fill_def rows_frame)
  moreover have "sent_commands (bt_commands ?f) = sent_commands rows"
    using assms(4) by (simp add: bot_show_def bot_fill_def rows_shown commands_again)
  moreover have "originalConfig ?f = JObj kvs" by (simp add: bot_show_def bot_fill_def rows_frame)
  ultimately show ?thesis using assms by (simp add: bot_payload_def js_or_def update_same filter_no_key)
qed

section \<open>Properties\<close>

text \<open>
  C22. The bot's configuration survives: a save of a loaded configuration sends an object in which every key the page does not edit, \<open>enabled\<close> apart, has the value it was loaded
  with; and if the camera reports what was sent, a page that loads it, whatever the bot's state, sends the same object again.\<close>

theorem telegram_survives_save:
  assumes "originalConfig (form p) = JObj kvs" "read_settings ''Failed to load configuration'' out = Inr d"
    and "bot_payload (form p) = Some d"
  shows "(\<forall>k. k \<in> {''token'', ''allowed_usernames'', ''allowed_user_ids'', ''commands'', ''enabled''} \<or> getp d k = getp (JObj kvs) k) \<and>
    snd (bot_save (bot_status_settle busy d st (fst (bot_load_settle busy' out q)))) = snd (bot_save p)"
proof -
  let ?f = "form p"
  define us where "us = AList.update ''commands'' (JArr (sent_commands (bt_commands ?f)))
    (AList.update ''allowed_user_ids'' (JArr (user_ids (bt_user_ids ?f)))
      (AList.update ''allowed_usernames'' (JArr (map JStr (words (bt_users ?f)))) (AList.update ''token'' (JStr (trim (bt_token ?f))) kvs)))"
  define ks where "ks = filter (\<lambda>p. fst p \<noteq> ''enabled'') us"
  have d: "d = JObj ks" using assms(1,3) by (simp add: bot_payload_def js_or_def ks_def us_def splitUsers_def)
  have m: "map_of ks k = map_of us k" if "k \<noteq> ''enabled''" for k using that by (simp add: ks_def map_of_filter_other)
  have fresh: "''enabled'' \<notin> fst ` set ks" by (auto simp: ks_def)
  have "getp d k = getp (JObj kvs) k" if "k \<notin> {''token'', ''allowed_usernames'', ''allowed_user_ids'', ''commands'', ''enabled''}" for k
    using that m [of k] by (simp add: d us_def update_conv')
  moreover have "bot_payload (bot_show (JObj ks) e (bot_fill (JObj ks) g)) = Some (JObj ks)" for e g
    by (rule payload_again [where t = "bt_token ?f" and u = "bt_users ?f" and i = "bt_user_ids ?f" and rows = "bt_commands ?f"])
      (simp_all add: m us_def update_conv' fresh)
  ultimately show ?thesis
    using assms(2,3) by (auto simp: bot_save_def bot_load_settle_def bot_status_settle_def toggleBusy_def save_start_def d Let_def)
qed

definition sample_bot :: "bot_form settings_page" where
  "sample_bot = \<lparr>form = \<lparr>bt_token = '' t1 '', bt_users = ''ann  bob'', bt_user_ids = ''12 x'', bt_enabled = True, bt_commands = [],
       originalConfig = JObj [(''polling'', JBool True), (''enabled'', JBool True)], bt_debug = JNull\<rparr>,
     controls_disabled = False, page_busy = idle_bar, reload_disabled = False\<rparr>"

theorem telegram_survives_save_witness:
  "\<exists>d. bot_payload (form sample_bot) = Some d \<and> getp d ''polling'' = JBool True \<and>
     snd (bot_save (bot_status_settle False d (Rejected []) (fst (bot_load_settle True (Answer \<lparr>status = 200, text_body = ''x'', parsed = Some d\<rparr>) sample_bot)))) =
     snd (bot_save sample_bot)"
proof -
  obtain d where d: "bot_payload (form sample_bot) = Some d" "\<not> nullish d"
    by (simp add: bot_payload_def js_or_def sample_bot_def nullish_def)
  have "originalConfig (form sample_bot) = JObj [(''polling'', JBool True), (''enabled'', JBool True)]" by (simp add: sample_bot_def)
  moreover have "read_settings ''Failed to load configuration'' (Answer \<lparr>status = 200, text_body = ''x'', parsed = Some d\<rparr>) = Inr d"
    using d(2) by (simp add: read_settings_def resp_ok_def)
  ultimately have t: "(\<forall>k. k \<in> {''token'', ''allowed_usernames'', ''allowed_user_ids'', ''commands'', ''enabled''} \<or>
        getp d k = getp (JObj [(''polling'', JBool True), (''enabled'', JBool True)]) k) \<and>
      snd (bot_save (bot_status_settle False d (Rejected []) (fst (bot_load_settle True (Answer \<lparr>status = 200, text_body = ''x'', parsed = Some d\<rparr>) sample_bot)))) =
      snd (bot_save sample_bot)"
    by (rule telegram_survives_save) (rule d(1))
  moreover have "getp d ''polling'' = JBool True" using spec [OF conjunct1 [OF t], of "''polling''"] by simp
  ultimately show ?thesis using d(1) by blast
qed

end
