(* ===== verification/Services.thy ===== *)
theory Services
  imports Send Page_State Base64 Ansi_Log
begin

text \<open>
  The pages of the sending services (\<open>tool-send2.js\<close>, the nine \<open>tool-send2-*.js\<close> and \<open>gphotos-auth-callback.js\<close>). The nine pages load and save
  their fields by the same few expressions, so a page is the table of its fields, each with the rule by which the page reads and sends it.
  Inputs are named by the configuration key, which their id ends in. Line breaks in single-line inputs are not modelled.
\<close>

section \<open>The fields of a service\<close>

text \<open>
  How a field is filled from the service's settings \<open>d\<close> and what the save sends for it (\<open>v\<close> the value of the input):
  \<open>Line t\<close>: \<open>d.k || t\<close> and \<open>v.trim()\<close>; \<open>LineOr t\<close>: the same, and \<open>v.trim() || t\<close>; \<open>Port n\<close>: \<open>d.k || "n"\<close> in a number input and \<open>Number(v) || n\<close>;
  \<open>Level n\<close>: \<open>d.k ?? n\<close> and \<open>Number(v) || n\<close>; \<open>Off\<close> and \<open>On\<close>: a switch that is off or on where the setting is missing; \<open>Never\<close>: a
  switch that is always off; \<open>Choice\<close>: a list, which shows only one of its options.
\<close>

datatype rule = Line string | LineOr string | Port int | Level int | Off | On | Never | Choice

record service =
  sv_key :: string
  sv_title :: string
  sv_rows :: "(string \<times> rule) list"

record service_form =
  sv_text :: "string \<Rightarrow> string"
  sv_check :: "string \<Rightarrow> bool"
  sv_options :: "string list"

definition text_or :: "js \<Rightarrow> string \<Rightarrow> js \<Rightarrow> string" where
  "text_or d k fallback = js_text (js_or (getp d k) fallback)"

definition set_text :: "string \<Rightarrow> string \<Rightarrow> service_form \<Rightarrow> service_form" where
  "set_text k v f = f\<lparr>sv_text := (sv_text f)(k := v)\<rparr>"

definition set_check :: "string \<Rightarrow> bool \<Rightarrow> service_form \<Rightarrow> service_form" where
  "set_check k b f = f\<lparr>sv_check := (sv_check f)(k := b)\<rparr>"

fun put_field :: "js \<Rightarrow> string \<times> rule \<Rightarrow> service_form \<Rightarrow> service_form" where
  "put_field d (k, Line t) f = set_text k (text_or d k (JStr t)) f"
| "put_field d (k, LineOr t) f = set_text k (text_or d k (JStr t)) f"
| "put_field d (k, Port n) f = set_text k (number_input (text_or d k (JStr (show_int n)))) f"
| "put_field d (k, Level n) f = set_text k (number_input (js_text (coalesce (getp d k) (jint n)))) f"
| "put_field d (k, Off) f = set_check k (is_true (getp d k)) f"
| "put_field d (k, On) f = set_check k (getp d k \<noteq> JBool False \<and> getp d k \<noteq> JStr ''false'') f"
| "put_field d (k, Never) f = set_check k False f"
| "put_field d (k, Choice) f = (let v = text_or d k (JStr []) in set_text k (if v \<in> set (sv_options f) then v else []) f)"

fun sent_field :: "service_form \<Rightarrow> string \<times> rule \<Rightarrow> string \<times> js" where
  "sent_field f (k, Line t) = (k, JStr (trim (sv_text f k)))"
| "sent_field f (k, LineOr t) = (k, js_or (JStr (trim (sv_text f k))) (JStr t))"
| "sent_field f (k, Port n) = (k, js_or (JNum (number_of_string (sv_text f k))) (jint n))"
| "sent_field f (k, Level n) = (k, js_or (JNum (number_of_string (sv_text f k))) (jint n))"
| "sent_field f (k, Off) = (k, JBool (sv_check f k))"
| "sent_field f (k, On) = (k, JBool (sv_check f k))"
| "sent_field f (k, Never) = (k, JBool False)"
| "sent_field f (k, Choice) = (k, JStr (trim (sv_text f k)))"

definition service_fill :: "service \<Rightarrow> js \<Rightarrow> service_form \<Rightarrow> service_form" where
  "service_fill s data f = fold (put_field (js_or (getp data (sv_key s)) (JObj []))) (sv_rows s) f"

definition service_payload :: "service \<Rightarrow> service_form \<Rightarrow> js" where
  "service_payload s f = JObj [(sv_key s, JObj (map (sent_field f) (sv_rows s) @ [(''enabled'', JBool True)]))]"

section \<open>The nine pages\<close>

definition email_page :: service where
  "email_page = \<lparr>sv_key = ''email'', sv_title = ''Email'', sv_rows =
     [(''host'', Line []), (''port'', Port 587), (''username'', Line []), (''password'', Line []), (''use_ssl'', Off), (''trust_cert'', Off),
      (''from_name'', Line []), (''from_address'', Line []), (''to_name'', Line []), (''to_address'', Line []), (''send_photo'', On),
      (''send_video'', Off), (''subject'', Line ''Motion detected''), (''body'', Line [])]\<rparr>"

definition ftp_page :: service where
  "ftp_page = \<lparr>sv_key = ''ftp'', sv_title = ''FTP'', sv_rows =
     [(''host'', Line []), (''port'', Port 21), (''username'', Line []), (''password'', Line []), (''path'', Line []), (''template'', Line []),
      (''send_photo'', On), (''send_video'', Off)]\<rparr>"

definition telegram_page :: service where
  "telegram_page = \<lparr>sv_key = ''telegram'', sv_title = ''Telegram'', sv_rows =
     [(''token'', Line []), (''channel'', Line []), (''caption'', Line []), (''send_photo'', On), (''send_video'', Off)]\<rparr>"

definition gotify_page :: service where
  "gotify_page = \<lparr>sv_key = ''gotify'', sv_title = ''Gotify'', sv_rows =
     [(''url'', Line []), (''token'', Line []), (''title'', Line ''Thingino Camera''), (''message'', Line ''Motion detected at %Y-%m-%d %H:%M:%S''),
      (''extras'', Line []), (''priority'', Level 5), (''send_photo'', Never), (''send_video'', Never)]\<rparr>"

definition mqtt_page :: service where
  "mqtt_page = \<lparr>sv_key = ''mqtt'', sv_title = ''MQTT'', sv_rows =
     [(''client_id'', Line []), (''host'', Line []), (''port'', Port 1883), (''username'', Line []), (''password'', Line []), (''use_ssl'', Off),
      (''topic'', Line []), (''message'', Line [])]\<rparr>"

definition webhook_page :: service where
  "webhook_page = \<lparr>sv_key = ''webhook'', sv_title = ''Webhook'', sv_rows =
     [(''url'', Line []), (''message'', Line []), (''send_photo'', On), (''send_video'', Off)]\<rparr>"

definition storage_page :: service where
  "storage_page = \<lparr>sv_key = ''storage'', sv_title = ''Storage'', sv_rows =
     [(''mount'', Choice), (''device_path'', LineOr ''%hostname/motion''), (''template'', LineOr ''%Y%m%d/%H/%Y%m%dT%H%M%S''),
      (''send_photo'', On), (''send_video'', Off)]\<rparr>"

definition ntfy_page :: service where
  "ntfy_page = \<lparr>sv_key = ''ntfy'', sv_title = ''Ntfy'', sv_rows =
     [(''host'', Line []), (''port'', Port 443), (''topic'', Line []), (''username'', Line []), (''password'', Line []), (''token'', Line []),
      (''use_ssl'', On)]\<rparr>"

definition gphotos_page :: service where
  "gphotos_page = \<lparr>sv_key = ''gphotos'', sv_title = ''Google Photos'', sv_rows =
     [(''client_id'', Line []), (''client_secret'', Line []), (''refresh_token'', Line []), (''album_id'', Line []),
      (''description_template'', Line []), (''photo_name_template'', Line []), (''video_name_template'', Line [])]\<rparr>"

definition service_pages :: "service list" where
  "service_pages = [email_page, ftp_page, telegram_page, gotify_page, mqtt_page, webhook_page, storage_page, ntfy_page, gphotos_page]"

section \<open>Loading and saving\<close>

definition loaded_data :: "outcome \<Rightarrow> js option" where
  "loaded_data out =
     (case out of
        Rejected _ \<Rightarrow> None
      | Answer r \<Rightarrow> if \<not> resp_ok r then None else (case parsed r of Some d \<Rightarrow> if nullish d then None else Some d | None \<Rightarrow> None))"

definition populates :: "js \<Rightarrow> js option" where
  "populates d = (if nullish d then Some (JStr ''TypeError'') else None)"

definition service_load_settle :: "service \<Rightarrow> outcome \<Rightarrow> service_form \<Rightarrow> service_form \<times> send_effect list" where
  "service_load_settle s out f =
     (case loaded_data out of Some d \<Rightarrow> service_fill s d f | None \<Rightarrow> f, send2Load_settle (sv_title s) populates out)"

definition service_submit :: "service \<Rightarrow> bool \<Rightarrow> bool \<Rightarrow> service_form \<Rightarrow> bool \<times> send_effect list" where
  "service_submit s valid validated f = send2Save (sv_title s) valid (Inr (jsonify (service_payload s f))) validated"

text \<open>The Gotify page first checks the extras; \<open>parse\<close> is \<open>JSON.parse\<close>.\<close>

definition extras_ok :: "js option \<Rightarrow> bool" where
  "extras_ok v = (case v of Some (JObj _) \<Rightarrow> True | _ \<Rightarrow> False)"

definition gotify_submit :: "(string \<Rightarrow> js option) \<Rightarrow> bool \<Rightarrow> bool \<Rightarrow> service_form \<Rightarrow> bool \<times> send_effect list" where
  "gotify_submit parse valid validated f =
     (let extras = trim (sv_text f ''extras'')
      in if extras \<noteq> [] \<and> \<not> extras_ok (parse extras)
         then (validated, [Do (Notice ''danger'' [JStr (if parse extras = None then ''SyntaxError'' else ''Extras must be a JSON object.'')] 6000)])
         else service_submit gotify_page valid validated f)"

section \<open>Mount points\<close>

text \<open>
  The storage page asks the camera to run a command and reads the mount points from the page \<open>run.cgi\<close> makes of its output. Once they have
  arrived, or the request has failed, it fills its fields.
\<close>

definition mounts_command :: string where
  "mounts_command = ''awk '' @ [CHR 0x27] @ ''/cif|fat|nfs|smb/{print $2}'' @ [CHR 0x27] @ '' /etc/mtab''"

definition storage_answer :: "outcome \<Rightarrow> js option" where
  "storage_answer out = (case out of Answer r \<Rightarrow> if resp_ok r then parsed r else None | Rejected _ \<Rightarrow> None)"

definition storage_load_settle :: "outcome \<Rightarrow> send_effect list" where
  "storage_load_settle out =
     (if storage_answer out = None then send2Load_settle ''Storage'' populates out
      else [Do (Send (Get (''/x/run.cgi?cmd='' @ btoa mounts_command)))])"

fun mount_loop :: "bool \<Rightarrow> string list \<Rightarrow> string list" where
  "mount_loop capturing [] = []"
| "mount_loop capturing (line # ls) =
     (if includes_str line ''</b>'' \<and> \<not> includes_str line ''#'' then mount_loop True ls
      else if includes_str line ''<b>#'' \<and> includes_str line ''</b>'' then (if capturing then [] else mount_loop capturing ls)
      else if capturing \<and> trim line \<noteq> [] \<and> \<not> includes_str line ''<'' then trim line # mount_loop capturing ls
      else mount_loop capturing ls)"

definition read_mounts :: "string \<Rightarrow> string list" where
  "read_mounts txt = mount_loop False (split_on (CHR 0x0A) txt)"

definition loadMountpoints_settle :: "outcome \<Rightarrow> service_form \<Rightarrow> service_form" where
  "loadMountpoints_settle out f =
     (case out of
        Answer r \<Rightarrow> f\<lparr>sv_options := [] # read_mounts (text_body r), sv_text := (sv_text f)(''mount'' := [])\<rparr>
      | Rejected _ \<Rightarrow> f)"

definition storage_mounts_settle :: "js \<Rightarrow> outcome \<Rightarrow> service_form \<Rightarrow> service_form \<times> send_effect list" where
  "storage_mounts_settle d out f =
     (let g = loadMountpoints_settle out f
      in if nullish d then (g, send2Load_failed ''Storage'' (JStr ''TypeError'')) else (service_fill storage_page d g, [BusyOff]))"

text \<open>What \<open>run.cgi\<close> prints for a command that succeeds with the given lines.\<close>

definition run_page :: "string \<Rightarrow> string list \<Rightarrow> string" where
  "run_page cmd ls = ''<b># '' @ cmd @ [CHR 0x0A] @ ''</b>'' @ [CHR 0x0A] @ concat (map (\<lambda>l. l @ [CHR 0x0A]) ls) @ ''<b># </b>'' @ [CHR 0x0A]"

section \<open>The overview\<close>

text \<open>
  \<open>tool-send2.js\<close>: the motion settings, the switches of the services and what each can send. \<open>range_value\<close> is what a range input with the given
  limits and step keeps of a text.
\<close>

definition services :: "string list" where
  "services = [''email'', ''ftp'', ''telegram'', ''gotify'', ''mqtt'', ''webhook'', ''storage'', ''ntfy'', ''gphotos'']"

definition serviceCapabilities :: "(string \<times> bool \<times> bool) list" where
  "serviceCapabilities = [(''email'', True, True), (''ftp'', True, True), (''telegram'', True, True), (''gotify'', False, False), (''mqtt'', True, False),
     (''webhook'', True, True), (''storage'', True, True), (''ntfy'', True, False), (''gphotos'', True, True)]"

record send2_page =
  s2_enabled :: bool
  s2_sensitivity :: string
  s2_sensitivity_label :: string
  s2_cooldown :: string
  s2_cooldown_label :: string
  s2_switches :: "string \<Rightarrow> bool" \<comment> \<open>\<open>motion_send2...\<close>, by service\<close>
  s2_badges :: "string \<Rightarrow> bool \<times> bool" \<comment> \<open>photo and video\<close>
  s2_busy :: busy_bar
  s2_save_disabled :: bool

definition slide_sensitivity :: "string \<Rightarrow> send2_page \<Rightarrow> send2_page" where
  "slide_sensitivity v p = p\<lparr>s2_sensitivity := v, s2_sensitivity_label := v\<rparr>"

definition slide_cooldown :: "string \<Rightarrow> send2_page \<Rightarrow> send2_page" where
  "slide_cooldown v p = p\<lparr>s2_cooldown := v, s2_cooldown_label := v\<rparr>"

definition apply_motion :: "(int \<Rightarrow> int \<Rightarrow> int \<Rightarrow> string \<Rightarrow> string) \<Rightarrow> js \<Rightarrow> send2_page \<Rightarrow> send2_page" where
  "apply_motion range_value motion p =
     (if \<not> truthy motion then p
      else (slide_cooldown (range_value 1 60 1 (text_or motion ''cooldown_time'' (jint 15)))
             (slide_sensitivity (range_value 1 8 1 (text_or motion ''sensitivity'' (jint 4))) (p\<lparr>s2_enabled := is_true (getp motion ''enabled'')\<rparr>)))
           \<lparr>s2_switches := (\<lambda>s. if s \<in> set services then is_true (getp motion (''send2'' @ s)) else s2_switches p s)\<rparr>)"

definition badge_of :: "js \<Rightarrow> string \<Rightarrow> bool \<times> bool" where
  "badge_of data s =
     (let d = getp data s
      in case map_of serviceCapabilities s of
           Some (photo, video) \<Rightarrow> (photo \<and> truthy d \<and> is_true (getp d ''send_photo''), video \<and> truthy d \<and> is_true (getp d ''send_video''))
         | None \<Rightarrow> (False, False))"

definition send2_fill :: "(int \<Rightarrow> int \<Rightarrow> int \<Rightarrow> string \<Rightarrow> string) \<Rightarrow> js \<Rightarrow> send2_page \<Rightarrow> send2_page" where
  "send2_fill range_value data p =
     (apply_motion range_value (getp data ''motion'') p)\<lparr>s2_badges := (\<lambda>s. if s \<in> set services then badge_of data s else s2_badges p s)\<rparr>"

definition send2_load :: "send2_page \<Rightarrow> send2_page \<times> effect list" where
  "send2_load p = (p\<lparr>s2_busy := showBusy (s2_busy p)\<rparr>, [Send (Get send2_url)])"

definition send2_answer :: "string \<Rightarrow> outcome \<Rightarrow> js + js" where
  "send2_answer refused out =
     (case out of
        Rejected m \<Rightarrow> Inl (JStr m)
      | Answer r \<Rightarrow>
          if \<not> resp_ok r then Inl (JStr refused)
          else (case parsed r of
                  None \<Rightarrow> Inl (JStr ''SyntaxError'')
                | Some d \<Rightarrow> if nullish d then Inl (JStr ''TypeError'') else Inr d))"

definition send2_load_settle :: "(int \<Rightarrow> int \<Rightarrow> int \<Rightarrow> string \<Rightarrow> string) \<Rightarrow> outcome \<Rightarrow> send2_page \<Rightarrow> send2_page \<times> effect list" where
  "send2_load_settle range_value out p =
     (let (q, fx) = (case send2_answer ''Failed to load configuration'' out of
            Inl m \<Rightarrow> (p, [Notice ''danger'' [JStr ''Failed to load configuration: '', err_text m] 6000])
          | Inr d \<Rightarrow> (send2_fill range_value d p, []))
      in (q\<lparr>s2_busy := hideBusy (s2_busy q)\<rparr>, fx))"

definition motion_payload :: "send2_page \<Rightarrow> js" where
  "motion_payload p = JObj [(''motion'', JObj [(''enabled'', JBool (s2_enabled p)), (''sensitivity'', JNum (number_of_string (s2_sensitivity p))),
     (''cooldown_time'', JNum (number_of_string (s2_cooldown p)))])]"

definition saveMotionSettings :: "send2_page \<Rightarrow> send2_page \<times> effect list" where
  "saveMotionSettings p =
     (p\<lparr>s2_busy := showBusy (s2_busy p), s2_save_disabled := True\<rparr>, [Send (PostJson send2_url (jsonify (motion_payload p)))])"

definition saveMotionSettings_settle :: "outcome \<Rightarrow> send2_page \<Rightarrow> send2_page \<times> effect list" where
  "saveMotionSettings_settle out p =
     (let failed = (\<lambda>m. [Notice ''danger'' [JStr ''Failed to save settings: '', err_text m] 6000])
      in (p\<lparr>s2_busy := hideBusy (s2_busy p), s2_save_disabled := False\<rparr>,
          case send2_answer ''Failed to save settings'' out of
            Inl m \<Rightarrow> failed m
          | Inr d \<Rightarrow>
              if truthy (getp d ''error'') then failed (js_or (getp (getp d ''error'') ''message'') (JStr ''Failed to save settings''))
              else [Notice ''success'' [JStr ''Motion settings saved successfully.''] 3000]))"

text \<open>A switch of a service sends its new state at once and keeps it whatever the answer is.\<close>

definition switch_change :: "string \<Rightarrow> bool \<Rightarrow> send2_page \<Rightarrow> send2_page \<times> effect list" where
  "switch_change s v p =
     (p\<lparr>s2_switches := (s2_switches p)(s := v)\<rparr>,
      [Send (PostJson send2_url (JObj [(''motion'', JObj [(''send2'' @ s, JBool v)])]))])"

definition error_message :: "js \<Rightarrow> js" where
  "error_message m = (if m = JUndef then JStr [] else JStr (js_text m))"

definition updateMotionValue_settle :: "string \<Rightarrow> outcome \<Rightarrow> effect list" where
  "updateMotionValue_settle service out =
     (let failed = (\<lambda>m. [Notice ''danger'' [JStr (''Failed to update '' @ service @ '': ''), err_text m] 6000])
      in case send2_answer ''Failed to update'' out of
           Inl m \<Rightarrow> failed m
         | Inr d \<Rightarrow> if truthy (getp d ''error'') then failed (error_message (getp (getp d ''error'') ''message'')) else [])"

section \<open>Tests\<close>

definition test_params :: "string \<Rightarrow> bool \<Rightarrow> params" where
  "test_params target verbose = (''to'', target) # (if verbose then [(''verbose'', ''1'')] else [])"

record test_box =
  tb_title :: string
  tb_output :: string
  tb_open :: bool
  tb_button_disabled :: bool

definition test_click :: "string \<Rightarrow> bool \<Rightarrow> test_box \<Rightarrow> test_box \<times> effect list" where
  "test_click target verbose b =
     (if target = [] then (b, [])
      else (b\<lparr>tb_title := ''Test: '' @ target, tb_output := ''Running...'', tb_open := True, tb_button_disabled := True\<rparr>,
            [Send (Get (''/x/send.cgi?'' @ show_params (test_params target verbose)))]))"

text \<open>The pattern \<open>\\u001b\\[[0-9;]*[A-Za-z]\<close> at the start of a text, and its removal; texts are UTF-8 bytes, \<open>pretty\<close> is \<open>JSON.stringify(v, null, 2)\<close>.\<close>

definition is_letter :: "char \<Rightarrow> bool" where
  "is_letter c \<longleftrightarrow> is_alnum c \<and> \<not> is_digit c"

definition escape_here :: "string \<Rightarrow> string option" where
  "escape_here s =
     (case s of
        a # b # r \<Rightarrow>
          if a = CHR 0x1B \<and> b = CHR ''['' then
            (case dropWhile param_char r of c # t \<Rightarrow> if is_letter c then Some t else None | [] \<Rightarrow> None)
          else None
      | _ \<Rightarrow> None)"

function strip_escapes :: "string \<Rightarrow> string" where
  "strip_escapes [] = []"
| "strip_escapes (c # s) = (case escape_here (c # s) of Some rest \<Rightarrow> strip_escapes rest | None \<Rightarrow> c # strip_escapes s)"
  by pat_completeness auto
termination
proof (relation "measure length")
  fix c s rest
  assume "escape_here (c # s) = Some rest"
  then obtain b r where s: "s = b # r" and r: "rest = tl (dropWhile param_char r)"
    by (auto simp: escape_here_def split: list.splits if_splits)
  have "length (dropWhile param_char r) \<le> length r" by (rule length_dropWhile_le)
  then show "(rest, c # s) \<in> measure length" using s r by simp
qed auto

declare strip_escapes.simps [simp del]

definition strip_js :: "js \<Rightarrow> string" where
  "strip_js v = (case v of JStr s \<Rightarrow> strip_escapes s | _ \<Rightarrow> js_text v)"

definition message_text :: "(js \<Rightarrow> string) \<Rightarrow> js \<Rightarrow> string" where
  "message_text pretty msg =
     (let t = (if truthy (getp msg ''output_b64'') then strip_escapes (utf8_encode (decodeBase64String True (js_text (getp msg ''output_b64''))))
               else strip_js (js_or (getp msg ''output'') (JStr (pretty msg))))
      in if truthy (getp msg ''status'') \<and> getp msg ''status'' \<noteq> JStr ''success'' then ''['' @ js_text (getp msg ''status'') @ ''] '' @ t else t)"

definition test_text :: "(js \<Rightarrow> string) \<Rightarrow> js \<Rightarrow> string" where
  "test_text pretty d =
     (if \<not> truthy d then ''No response received.''
      else if truthy (getp d ''error'')
      then ''Error: '' @ js_text (js_or (getp (getp d ''error'') ''message'') (js_or (getp (getp d ''error'') ''code'') (getp d ''error'')))
      else if truthy (getp d ''message'') \<and> is_object (getp d ''message'') then message_text pretty (getp d ''message'')
      else (case getp d ''message'' of JStr m \<Rightarrow> strip_escapes m | _ \<Rightarrow> strip_escapes (pretty d)))"

definition renderTestResult :: "(js \<Rightarrow> string) \<Rightarrow> js \<Rightarrow> test_box \<Rightarrow> test_box" where
  "renderTestResult pretty d b = b\<lparr>tb_output := (let t = test_text pretty d in if t = [] then ''(no output)'' else t)\<rparr>"

definition test_settle :: "(js \<Rightarrow> string) \<Rightarrow> outcome \<Rightarrow> test_box \<Rightarrow> test_box" where
  "test_settle pretty out b =
     (let b1 = (case out of
            Rejected m \<Rightarrow> b\<lparr>tb_output := ''Request failed: TypeError: '' @ m\<rparr>
          | Answer r \<Rightarrow>
              (case parsed r of None \<Rightarrow> b\<lparr>tb_output := ''Request failed: SyntaxError''\<rparr> | Some d \<Rightarrow> renderTestResult pretty d b))
      in b1\<lparr>tb_button_disabled := False\<rparr>)"

section \<open>The authorization window\<close>

text \<open>
  \<open>gphotos-auth-callback.js\<close>: what the window tells the page that opened it; \<open>opener\<close> says whether there is one and whether posting to
  it throws. The results are the posted message, the shown status and whether the window closes.
\<close>

definition or_null :: "string option \<Rightarrow> js" where
  "or_null v = (case v of Some (c # s) \<Rightarrow> JStr (c # s) | _ \<Rightarrow> JNull)"

definition auth_message :: "params \<Rightarrow> js" where
  "auth_message ps = JObj ((''source'', JStr ''thingino-gphotos'')
     # map (\<lambda>k. (k, or_null (map_of ps k))) [''code'', ''state'', ''scope'', ''error'', ''error_description''])"

definition auth_callback :: "bool option \<Rightarrow> string \<Rightarrow> js option \<times> string \<times> bool" where
  "auth_callback opener query =
     (case opener of
        Some False \<Rightarrow> (Some (auth_message (parse_params query)), ''Authorization code sent back to Thingino.'', True)
      | Some True \<Rightarrow> (None, ''Unable to notify the camera. Please copy the URL manually.'', False)
      | None \<Rightarrow> (None, ''No parent window detected. Return to Thingino and paste the '' @ [CHR 0x22] @ ''code'' @ [CHR 0x22] @ '' parameter manually.'', False))"


section \<open>Saving and loading again\<close>

fun clean_row :: "service_form \<Rightarrow> string \<times> rule \<Rightarrow> bool" where
  "clean_row f (k, Line t) = (trim (sv_text f k) = [] \<longrightarrow> t = [])"
| "clean_row f (k, LineOr t) = (trim t = t)"
| "clean_row f (k, Choice) = (sv_text f k = [] \<or> sv_text f k \<in> set (sv_options f) \<and> trim (sv_text f k) = sv_text f k)"
| "clean_row f (k, Port n) = (case snd (sent_field f (k, Port n)) of JNum (Fin q) \<Rightarrow> q = of_int \<lfloor>q\<rfloor> \<and> q \<noteq> 0 | _ \<Rightarrow> False)"
| "clean_row f (k, Level n) = (case snd (sent_field f (k, Level n)) of JNum (Fin q) \<Rightarrow> q = of_int \<lfloor>q\<rfloor> \<and> q \<noteq> 0 | _ \<Rightarrow> False)"
| "clean_row f (k, _) = True"

definition clean_service :: "service \<Rightarrow> service_form \<Rightarrow> bool" where
  "clean_service s f \<longleftrightarrow> list_all (clean_row f) (sv_rows s)"

lemma fst_sent_field [simp]: "fst (sent_field f x) = fst x"
  by (cases x; cases "snd x") simp_all

lemma put_field_options [simp]: "sv_options (put_field d x f) = sv_options f"
  by (cases x; cases "snd x") (simp_all add: set_text_def set_check_def Let_def)

lemma put_field_frame: "fst x \<noteq> k \<Longrightarrow> sv_text (put_field d x f) k = sv_text f k \<and> sv_check (put_field d x f) k = sv_check f k"
  by (cases x; cases "snd x") (simp_all add: set_text_def set_check_def Let_def)

lemma sent_put_cong:
  "sv_options f = sv_options g \<Longrightarrow> sent_field (put_field d (k, r) f) (k, r) = sent_field (put_field d (k, r) g) (k, r)"
  by (cases r) (simp_all add: set_text_def set_check_def Let_def)

lemma sent_frame: "fst x \<noteq> fst y \<Longrightarrow> sent_field (put_field d x f) y = sent_field f y"
  using put_field_frame [of x "fst y" d f] by (cases y; cases "snd y") simp_all

lemma sent_frame_fold: "fst y \<notin> fst ` set xs \<Longrightarrow> sent_field (fold (put_field d) xs f) y = sent_field f y"
  by (induction xs arbitrary: f) (auto simp: sent_frame)

lemma sent_fold:
  "distinct (map fst xs) \<Longrightarrow> y \<in> set xs \<Longrightarrow> sent_field (fold (put_field d) xs f) y = sent_field (put_field d y f) y"
proof (induction xs arbitrary: f)
  case (Cons x xs)
  show ?case
  proof (cases "y = x")
    case True
    then have "fst y \<notin> fst ` set xs" using Cons.prems by auto
    then show ?thesis using True by (simp add: sent_frame_fold)
  next
    case False
    then have "y \<in> set xs" using Cons.prems by auto
    then show ?thesis using Cons sent_put_cong [of "put_field d x f" f d "fst y" "snd y"] by simp
  qed
qed simp

lemma sent_number:
  assumes "q = of_int \<lfloor>q\<rfloor>" "q \<noteq> 0"
  shows "js_or (JNum (number_of_string (number_input (js_text (JNum (Fin q)))))) (jint n) = JNum (Fin q)"
proof -
  obtain i where i: "q = of_int i" using assms(1) by blast
  then show ?thesis using assms(2) num_text_of_int [of i] by (simp add: number_of_show_int js_or_def)
qed

lemma row_again:
  assumes "clean_row f (k, r)" "getp d k = snd (sent_field f (k, r))" "sv_options g = sv_options f"
  shows "sent_field (put_field d (k, r) g) (k, r) = sent_field f (k, r)"
proof (cases r)
  case (Port n)
  then obtain q where q: "snd (sent_field f (k, Port n)) = JNum (Fin q)" "q = of_int \<lfloor>q\<rfloor>" "q \<noteq> 0"
    using assms(1) by (auto split: js.splits jnum.splits)
  then show ?thesis using assms(2) Port sent_number [OF q(2,3)] by (simp add: text_or_def set_text_def js_or_def)
next
  case (Level n)
  then obtain q where q: "snd (sent_field f (k, Level n)) = JNum (Fin q)" "q = of_int \<lfloor>q\<rfloor>" "q \<noteq> 0"
    using assms(1) by (auto split: js.splits jnum.splits)
  then show ?thesis using assms(2) Level sent_number [OF q(2,3)] by (simp add: set_text_def coalesce_def nullish_def js_or_def)
qed (use assms in \<open>auto simp: text_or_def set_text_def set_check_def js_or_def is_true_def Let_def trim_Nil\<close>)

lemma reported_row:
  assumes "distinct (map fst xs)" "x \<in> set xs"
  shows "getp (JObj (map (sent_field f) xs @ ys)) (fst x) = snd (sent_field f x)"
proof -
  have "map fst (map (sent_field f) xs) = map fst xs" by simp
  moreover have "(fst x, snd (sent_field f x)) \<in> set (map (sent_field f) xs)"
    using assms(2) by (metis fst_sent_field image_eqI list.set_map prod.collapse)
  ultimately have "map_of (map (sent_field f) xs) (fst x) = Some (snd (sent_field f x))"
    using assms(1) by (metis map_of_is_SomeI)
  then show ?thesis by (simp add: map_add_def)
qed

lemma service_again:
  assumes "distinct (map fst (sv_rows s))" "clean_service s f" "sv_options g = sv_options f"
    and "getp data (sv_key s) = getp (service_payload s f) (sv_key s)"
  shows "service_payload s (service_fill s data g) = service_payload s f"
proof -
  let ?d = "JObj (map (sent_field f) (sv_rows s) @ [(''enabled'', JBool True)])"
  have d: "js_or (getp data (sv_key s)) (JObj []) = ?d" using assms(4) by (simp add: service_payload_def js_or_def)
  have "sent_field (fold (put_field ?d) (sv_rows s) g) x = sent_field f x" if x: "x \<in> set (sv_rows s)" for x
  proof -
    have "clean_row f (fst x, snd x)" using assms(2) x by (simp add: clean_service_def list_all_iff)
    moreover have "getp ?d (fst x) = snd (sent_field f (fst x, snd x))" unfolding prod.collapse by (rule reported_row [OF assms(1) x])
    ultimately show ?thesis using sent_fold [OF assms(1) x, of ?d g] row_again [OF _ _ assms(3)] by (metis prod.collapse)
  qed
  then have "map (sent_field (service_fill s data g)) (sv_rows s) = map (sent_field f) (sv_rows s)"
    by (simp add: service_fill_def d)
  then show ?thesis by (simp add: service_payload_def)
qed

lemma service_pages_distinct: "s \<in> set service_pages \<Longrightarrow> distinct (map fst (sv_rows s))"
  unfolding service_pages_def list.set insert_iff empty_iff
  by (elim disjE FalseE) (simp_all add: email_page_def ftp_page_def telegram_page_def gotify_page_def mqtt_page_def webhook_page_def storage_page_def
      ntfy_page_def gphotos_page_def)


definition sample_service :: service_form where
  "sample_service = \<lparr>sv_text = (\<lambda>k. if k = ''port'' then ''22'' else if k = ''host'' then '' ftp.lan '' else []), sv_check = (\<lambda>k. k = ''send_video''), sv_options = []\<rparr>"


text \<open>
  A priority of zero is lost: the Gotify page shows the priority 0 the camera reports, and saves it as 5.\<close>

theorem gotify_zero_priority:
  assumes "loaded_data out = Some data" "getp (getp data ''gotify'') ''priority'' = jint 0"
  shows "sv_text (fst (service_load_settle gotify_page out f)) ''priority'' = ''0'' \<and>
         getp (getp (service_payload gotify_page (fst (service_load_settle gotify_page out f))) ''gotify'') ''priority'' = jint 5"
proof -
  have "js_or (getp data ''gotify'') (JObj []) = getp data ''gotify''" using assms(2) by (cases "getp data ''gotify''") (auto simp: js_or_def)
  moreover have "show_nat 0 = ''0''" by code_simp
  ultimately have "number_input (js_text (coalesce (getp (js_or (getp data ''gotify'') (JObj [])) ''priority'') (jint 5))) = ''0''"
    using assms(2) number_input_show_int [of 0] num_text_of_int [of 0] by (simp add: coalesce_def nullish_def show_int_def)
  then have t: "sv_text (service_fill gotify_page data f) ''priority'' = ''0''"
    by (simp add: service_fill_def gotify_page_def set_text_def set_check_def)
  moreover have "number_of_string ''0'' = Fin 0" by code_simp
  ultimately show ?thesis using assms(1) by (simp add: service_load_settle_def service_payload_def gotify_page_def js_or_def)
qed

theorem gotify_zero_priority_witness:
  "getp (getp (service_payload gotify_page (fst (service_load_settle gotify_page
     (Answer \<lparr>status = 200, text_body = ''x'', parsed = Some (JObj [(''gotify'', JObj [(''priority'', jint 0)])])\<rparr>) sample_service))) ''gotify'') ''priority'' = jint 5"
  using gotify_zero_priority [where out = "Answer \<lparr>status = 200, text_body = ''x'', parsed = Some (JObj [(''gotify'', JObj [(''priority'', jint 0)])])\<rparr>"
      and data = "JObj [(''gotify'', JObj [(''priority'', jint 0)])]" and f = sample_service]
  by (simp add: loaded_data_def resp_ok_def nullish_def)

text \<open>
  The storage page reads the mount points from the page the camera's command runner prints: whatever the mount points, as long as they are
  not blank, have no blanks around them, no line break and no markup, exactly they are offered, in order, after the empty choice.\<close>

theorem mounts_offered:
  assumes "list_all (\<lambda>m. m \<noteq> [] \<and> trim m = m \<and> CHR 0x0A \<notin> set m \<and> CHR ''<'' \<notin> set m) ms" "text_body r = run_page mounts_command ms"
  shows "sv_options (loadMountpoints_settle (Answer r) f) = [] # ms"
proof -
  have plain: "mount_loop True (ms @ [''<b># </b>'', []]) = ms"
    using assms(1)
  proof (induction ms)
    case (Cons m ms)
    then have "\<not> includes_str m ''<b>#''" "\<not> includes_str m ''</b>''" "\<not> includes_str m ''<''"
      by (auto dest: includes_first)
    with Cons show ?case by simp
  next
    case Nil
    show ?case by code_simp
  qed
  have "split_on (CHR 0x0A) (concat (map (\<lambda>l. l @ [CHR 0x0A]) ms) @ ''<b># </b>'' @ [CHR 0x0A]) = ms @ [''<b># </b>'', []]"
    using assms(1) by (induction ms) (simp_all add: split_on_append_sep)
  moreover have "CHR 0x0A \<notin> set (''<b># '' @ mounts_command)" by (simp add: mounts_command_def)
  moreover have "run_page mounts_command ms = (''<b># '' @ mounts_command) @ CHR 0x0A # ''</b>'' @ CHR 0x0A #
      (concat (map (\<lambda>l. l @ [CHR 0x0A]) ms) @ ''<b># </b>'' @ [CHR 0x0A])"
    by (simp add: run_page_def)
  moreover have "CHR 0x0A \<notin> set ''</b>''" by simp
  ultimately have "split_on (CHR 0x0A) (run_page mounts_command ms) = (''<b># '' @ mounts_command) # ''</b>'' # ms @ [''<b># </b>'', []]"
    by (metis split_on_append_sep)
  moreover have "\<not> includes_str (''<b># '' @ mounts_command) ''</b>''" "includes_str ''</b>'' ''</b>''" "\<not> includes_str ''</b>'' ''#''"
    by code_simp+
  then have "mount_loop False ((''<b># '' @ mounts_command) # ''</b>'' # ls) = mount_loop True ls" for ls
    by (simp del: includes_str.simps append_Cons)
  ultimately show ?thesis using assms(2) plain by (simp add: loadMountpoints_settle_def read_mounts_def)
qed

theorem mounts_offered_witness:
  "sv_options (loadMountpoints_settle (Answer \<lparr>status = 200, text_body = run_page mounts_command [''/mnt/nas'', ''/mnt/mmcblk0p1''], parsed = None\<rparr>) sample_service)
   = [[], ''/mnt/nas'', ''/mnt/mmcblk0p1'']"
proof (rule mounts_offered)
  show "list_all (\<lambda>m. m \<noteq> [] \<and> trim m = m \<and> CHR 0x0A \<notin> set m \<and> CHR ''<'' \<notin> set m) [''/mnt/nas'', ''/mnt/mmcblk0p1'']" by code_simp
qed simp

text \<open>
  A mount point that is not mounted is forgotten: if the camera reports a mount point that the list does not offer (a share that is not mounted
  at the moment), the page shows none, and saving the page sends an empty mount point.\<close>

theorem unmounted_share_erased:
  assumes "\<not> nullish data" "getp (getp data ''storage'') ''mount'' = JStr m" "m \<notin> set (read_mounts (text_body r))"
  shows "getp (getp (service_payload storage_page (fst (storage_mounts_settle data (Answer r) f))) ''storage'') ''mount'' = JStr []"
proof -
  have "js_or (getp data ''storage'') (JObj []) = getp data ''storage''" using assms(2) by (cases "getp data ''storage''") (auto simp: js_or_def)
  then have "sv_text (put_field (js_or (getp data ''storage'') (JObj [])) (''mount'', Choice) (loadMountpoints_settle (Answer r) f)) ''mount'' = []"
    using assms(2,3) by (simp add: text_or_def js_or_def set_text_def loadMountpoints_settle_def Let_def)
  then have "sv_text (service_fill storage_page data (loadMountpoints_settle (Answer r) f)) ''mount'' = []"
    by (simp add: service_fill_def storage_page_def put_field_frame set_text_def set_check_def)
  then show ?thesis using assms(1) by (simp add: storage_mounts_settle_def service_payload_def storage_page_def Let_def trim_Nil)
qed

theorem unmounted_share_erased_witness:
  "getp (getp (service_payload storage_page (fst (storage_mounts_settle (JObj [(''storage'', JObj [(''mount'', JStr ''/mnt/nas'')])])
     (Answer \<lparr>status = 200, text_body = [], parsed = None\<rparr>) sample_service))) ''storage'') ''mount'' = JStr []"
  by (rule unmounted_share_erased [where m = "''/mnt/nas''"]) (simp_all add: nullish_def read_mounts_def)

text \<open>
  The motion settings the overview loaded are what it saves, provided the range inputs keep the whole numbers within their limits.\<close>

theorem motion_settings_sent_back:
  assumes "\<And>mn mx i. mn \<le> i \<Longrightarrow> i \<le> mx \<Longrightarrow> range_value mn mx 1 (show_int i) = show_int i"
    and "send2_answer ''Failed to load configuration'' out = Inr (JObj d)" "map_of d ''motion'' = Some (JObj m)"
    and "map_of m ''enabled'' = Some (JBool e)" "map_of m ''sensitivity'' = Some (jint a)" "1 \<le> a" "a \<le> 8"
    and "map_of m ''cooldown_time'' = Some (jint b)" "1 \<le> b" "b \<le> 60"
  shows "snd (saveMotionSettings (fst (send2_load_settle range_value out p))) =
    [Send (PostJson send2_url (JObj [(''motion'', JObj [(''enabled'', JBool e), (''sensitivity'', jint a), (''cooldown_time'', jint b)])]))]"
proof -
  have ab: "text_or (JObj m) ''sensitivity'' (jint 4) = show_int a" "text_or (JObj m) ''cooldown_time'' (jint 15) = show_int b"
    using assms(5-10) num_text_of_int [of a] num_text_of_int [of b] by (simp_all add: text_or_def js_or_def)
  moreover have "is_true (JBool e) = e" by (simp add: is_true_def)
  ultimately show ?thesis
    using assms by (simp add: send2_load_settle_def send2_fill_def apply_motion_def slide_cooldown_def slide_sensitivity_def saveMotionSettings_def
        motion_payload_def number_of_show_int)
qed

theorem motion_settings_sent_back_witness:
  "snd (saveMotionSettings (fst (send2_load_settle (\<lambda>_ _ _ v. v) (Answer \<lparr>status = 200, text_body = ''x'', parsed = Some (JObj [(''motion'', JObj
     [(''enabled'', JBool True), (''sensitivity'', jint 5), (''cooldown_time'', jint 30)])])\<rparr>) p))) =
   [Send (PostJson send2_url (JObj [(''motion'', JObj [(''enabled'', JBool True), (''sensitivity'', jint 5), (''cooldown_time'', jint 30)])]))]" for p
  by (rule motion_settings_sent_back [where m = "[(''enabled'', JBool True), (''sensitivity'', jint 5), (''cooldown_time'', jint 30)]"
      and d = "[(''motion'', JObj [(''enabled'', JBool True), (''sensitivity'', jint 5), (''cooldown_time'', jint 30)])]"]) (simp_all add: send2_answer_def resp_ok_def nullish_def)

end
