(* ===== verification/Recorder_Pages.thy ===== *)
theory Recorder_Pages
  imports Timelapse Page_State Settings_Pages
begin

text \<open>
  The pages of the video recorder (\<open>tool-record.js\<close>) and of the timelapse recorder (\<open>tool-timelapse.js\<close>), which talk to the same script of the
  camera and share their functions. All elements of the two documents exist; number inputs keep only numbers.
\<close>

section \<open>What the pages share\<close>

record 'f tool_page =
  tp_form :: 'f
  tp_mount :: string
  tp_mounts :: "(string \<times> string) list" \<comment> \<open>values and texts of the options\<close>
  tp_link :: "string option" \<comment> \<open>the address, none where the link is disabled\<close>
  tp_hint :: string
  tp_debug :: "string \<times> string"
  tp_status :: "string \<times> string"
  tp_status_hidden :: bool
  tp_hide_timers :: nat
  tp_submit_disabled :: bool
  tp_busy :: busy_bar

definition record_url :: string where "record_url = ''/x/tool-record.cgi''"

definition tool_setStatus :: "string \<Rightarrow> string \<Rightarrow> 'f tool_page \<Rightarrow> 'f tool_page" where
  "tool_setStatus message variant p = p\<lparr>tp_status := (message, variant), tp_status_hidden := False\<rparr>"

definition hide_fires :: "'f tool_page \<Rightarrow> 'f tool_page" where
  "hide_fires p = (if tp_hide_timers p = 0 then p else p\<lparr>tp_status_hidden := True, tp_hide_timers := tp_hide_timers p - 1\<rparr>)"

definition mount_options :: "js list \<Rightarrow> js \<Rightarrow> (string \<times> string) list" where
  "mount_options mounts current =
     ([], if mounts = [] then ''No mounts detected'' else ''Select a mount'') # map (\<lambda>v. (js_text v, js_text v)) mounts
     @ (if truthy current \<and> current \<notin> set mounts then [(js_text current, js_text current @ '' (missing)'')] else [])"

definition populateMountSelect :: "js list \<Rightarrow> js \<Rightarrow> 'f tool_page \<Rightarrow> 'f tool_page" where
  "populateMountSelect mounts current p =
     (let v = js_text (js_or current (JStr []))
      in p\<lparr>tp_mounts := mount_options mounts current, tp_mount := (if v \<in> fst ` set (mount_options mounts current) then v else [])\<rparr>)"

definition boolFromValue :: "js \<Rightarrow> bool" where
  "boolFromValue v \<longleftrightarrow> v = JBool True \<or> v = JStr ''true'' \<or> v = jint 1 \<or> v = JStr ''1''"

definition link_address :: "string \<Rightarrow> string option" where
  "link_address path =
     (if path = [] then None
      else let normalized = (if starts_with path ''/'' then path else ''/'' @ path)
           in Some (if normalized = ''/'' then ''/tool-file-manager.html'' else ''/tool-file-manager.html?cd='' @ encodeURIComponent normalized))"

definition number_or :: "js \<Rightarrow> int \<Rightarrow> string" where
  "number_or v n = number_input (js_text (js_or v (jint n)))"

text \<open>
  Both pages apply an answer in the same order: the mount points, the fields, the link, the hint and the texts for debugging. \<open>key\<close> names the
  part of the answer that is the page's own.
\<close>

definition tool_applyState :: "string \<Rightarrow> (js \<Rightarrow> 'f \<Rightarrow> 'f) \<Rightarrow> ('f tool_page \<Rightarrow> string) \<Rightarrow> string \<Rightarrow> js \<Rightarrow> 'f tool_page \<Rightarrow> 'f tool_page" where
  "tool_applyState key fill target no_data data p =
     (let p1 = populateMountSelect (case getp data ''mounts'' of JArr ms \<Rightarrow> ms | _ \<Rightarrow> []) (and_prop (getp data key) ''mount'') p;
          p2 = p1\<lparr>tp_form := fill (js_or (getp data key) (JObj [])) (tp_form p1)\<rparr>;
          debug = js_or (getp data ''debug'') (JObj [])
      in p2\<lparr>tp_link := link_address (target p2),
            tp_hint := js_text (js_or (and_prop (getp data ''messages'') ''strftime_hint'') (JStr ''Supports strftime-style placeholders such as %Y or %H.'')),
            tp_debug := (js_text (js_or (getp debug key) (JStr no_data)),
                         js_text (js_or (getp debug ''crontab'') (JStr ''No crontab entries available.'')))\<rparr>)"

definition recorder_answer :: "string \<Rightarrow> outcome \<Rightarrow> js + js" where
  "recorder_answer fallback out =
     (case out of
        Rejected m \<Rightarrow> Inl (JStr m)
      | Answer r \<Rightarrow>
          (case parsed r of
             None \<Rightarrow> Inl (JStr ''SyntaxError'')
           | Some payload \<Rightarrow>
               (let has_error = truthy payload \<and> truthy (getp payload ''error'')
                in if \<not> resp_ok r \<or> has_error
                   then Inl (js_or (if has_error then getp (getp payload ''error'') ''message''
                                    else JStr (''Request failed with status '' @ show_int (status r))) (JStr fallback))
                   else if nullish payload then Inl (JStr ''TypeError'') else Inr payload)))"

definition tool_loadState :: "'f tool_page \<Rightarrow> 'f tool_page \<times> effect list" where
  "tool_loadState p = (p\<lparr>tp_busy := showBusy (tp_busy p)\<rparr>, [Send (Get record_url)])"

definition tool_loadState_settle :: "(js \<Rightarrow> 'f tool_page \<Rightarrow> 'f tool_page) \<Rightarrow> outcome \<Rightarrow> 'f tool_page \<Rightarrow> 'f tool_page \<times> effect list" where
  "tool_loadState_settle apply out p =
     (let (q, fx) = (case recorder_answer ''Unable to load settings'' out of
            Inl m \<Rightarrow> (tool_setStatus ''Unable to load settings.'' ''danger'' p, [Notice ''danger'' [js_or m (JStr ''Recorder API request failed.'')] 6000])
          | Inr payload \<Rightarrow>
              (let p1 = tool_setStatus ''Settings loaded.'' ''success'' (apply (js_or (getp payload ''data'') (JObj [])) p)
               in (p1\<lparr>tp_hide_timers := Suc (tp_hide_timers p1)\<rparr>, [])))
      in (q\<lparr>tp_busy := hideBusy (tp_busy q)\<rparr>, fx))"

definition tool_submit :: "('f tool_page \<Rightarrow> params) \<Rightarrow> 'f tool_page \<Rightarrow> 'f tool_page \<times> effect list" where
  "tool_submit build p =
     (p\<lparr>tp_submit_disabled := True, tp_busy := showBusy (tp_busy p)\<rparr>, [Send (PostText record_url (show_params (build p)))])"

definition tool_submit_settle ::
  "(js \<Rightarrow> 'f tool_page \<Rightarrow> 'f tool_page) \<Rightarrow> string \<Rightarrow> outcome \<Rightarrow> 'f tool_page \<Rightarrow> 'f tool_page \<times> effect list" where
  "tool_submit_settle apply updated out p =
     (let (q, fx) = (case recorder_answer ''Unable to save changes'' out of
            Inl m \<Rightarrow> (tool_setStatus ''Unable to save changes.'' ''danger'' p, [Notice ''danger'' [js_or m (JStr ''Unexpected error while saving.'')] 6000])
          | Inr payload \<Rightarrow>
              (let msg = js_or (getp payload ''message'') (JStr updated);
                   p1 = tool_setStatus (js_text msg) ''success'' (apply (js_or (getp payload ''data'') (JObj [])) p)
               in (p1\<lparr>tp_hide_timers := Suc (tp_hide_timers p1)\<rparr>, [Notice ''success'' [msg] 6000])))
      in (q\<lparr>tp_busy := hideBusy (tp_busy q), tp_submit_disabled := False\<rparr>, fx))"

section \<open>The video recorder\<close>

record video_form =
  vr_device_path :: string
  vr_filename :: string
  vr_channel :: string
  vr_duration :: string
  vr_limit :: string
  vr_min_free_mb :: string
  vr_check_interval :: string
  vr_autostart :: bool
  vr_cleanup_enabled :: bool

definition channel_value :: "js \<Rightarrow> string" where
  "channel_value v =
     (let t = (case v of JNum x \<Rightarrow> num_text x | _ \<Rightarrow> js_text (js_or v (JStr ''0''))) in if t \<in> {''0'', ''1''} then t else [])"

definition applyVideoState :: "js \<Rightarrow> video_form \<Rightarrow> video_form" where
  "applyVideoState video f =
     f\<lparr>vr_device_path := field_of video ''device_path'', vr_filename := field_of video ''filename'', vr_channel := channel_value (getp video ''channel''),
       vr_duration := number_or (getp video ''duration'') 60, vr_limit := number_or (getp video ''limit'') 15,
       vr_min_free_mb := number_or (getp video ''min_free_mb'') 500, vr_check_interval := number_or (getp video ''check_interval'') 60,
       vr_autostart := boolFromValue (getp video ''autostart''), vr_cleanup_enabled := boolFromValue (getp video ''cleanup_enabled'')\<rparr>"

definition video_target :: "video_form tool_page \<Rightarrow> string" where
  "video_target p = trim (tp_mount p)"

definition updateVideoLink :: "video_form tool_page \<Rightarrow> video_form tool_page" where
  "updateVideoLink p = p\<lparr>tp_link := link_address (video_target p)\<rparr>"

definition video_applyState :: "js \<Rightarrow> video_form tool_page \<Rightarrow> video_form tool_page" where
  "video_applyState = tool_applyState ''video'' applyVideoState video_target ''No recorder data available.''"

definition buildVideoParams :: "video_form tool_page \<Rightarrow> params" where
  "buildVideoParams p =
     (let f = tp_form p
      in fold (\<lambda>(k, v). set_param k v)
           [(''form'', ''video''), (''vr_mount'', trim (tp_mount p)), (''vr_device_path'', trim (vr_device_path f)),
            (''vr_filename'', trim (vr_filename f)), (''vr_channel'', if vr_channel f = [] then ''0'' else vr_channel f), (''vr_duration'', vr_duration f),
            (''vr_limit'', vr_limit f), (''vr_min_free_mb'', vr_min_free_mb f), (''vr_check_interval'', vr_check_interval f),
            (''vr_autostart'', bool_text (vr_autostart f)), (''vr_cleanup_enabled'', bool_text (vr_cleanup_enabled f))] [])"

section \<open>The timelapse recorder\<close>

record timelapse_form =
  tf_enabled :: bool
  tf_filepath :: string
  tf_filename :: string
  tf_interval :: string
  tf_keep_days :: string
  tf_preset :: bool
  tf_presets :: presets

definition timelapse_fill :: "js \<Rightarrow> timelapse_form \<Rightarrow> timelapse_form" where
  "timelapse_fill t f =
     (let ps = js_or (getp t ''presets'') (JObj []); flag = (\<lambda>k. boolFromValue (getp ps k))
      in f\<lparr>tf_enabled := boolFromValue (getp t ''enabled''), tf_filepath := field_of t ''filepath'', tf_filename := field_of t ''filename'',
           tf_interval := number_or (getp t ''interval'') 1,
           tf_keep_days := number_input (case getp t ''keep_days'' of JNum x \<Rightarrow> num_text x | v \<Rightarrow> js_text (js_or v (jint 7))),
           tf_preset := boolFromValue (getp t ''preset_enabled''),
           tf_presets := \<lparr>p_ircut = flag ''ircut'', p_ir850 = flag ''ir850'', p_ir940 = flag ''ir940'', p_white = flag ''white'', p_color = flag ''color''\<rparr>\<rparr>)"

definition timelapse_target :: "timelapse_form tool_page \<Rightarrow> string" where
  "timelapse_target p =
     (let mount = trim (tp_mount p); folder = trim (tf_filepath (tp_form p)); slash = (\<lambda>c. c = CHR ''/'')
      in if mount \<noteq> [] \<and> folder \<noteq> [] then rev (dropWhile slash (rev mount)) @ ''/'' @ dropWhile slash folder else mount)"

definition updateTimelapseLink :: "timelapse_form tool_page \<Rightarrow> timelapse_form tool_page" where
  "updateTimelapseLink p = p\<lparr>tp_link := link_address (timelapse_target p)\<rparr>"

definition timelapse_applyState :: "js \<Rightarrow> timelapse_form tool_page \<Rightarrow> timelapse_form tool_page" where
  "timelapse_applyState = tool_applyState ''timelapse'' timelapse_fill timelapse_target ''No timelapse data available.''"

definition buildTimelapseParams :: "timelapse_form tool_page \<Rightarrow> params" where
  "buildTimelapseParams p =
     (let f = tp_form p; ps = tf_presets f
      in fold (\<lambda>(k, v). set_param k v)
           [(''form'', ''timelapse''), (''tl_enabled'', bool_text (tf_enabled f)), (''tl_mount'', trim (tp_mount p)), (''tl_filepath'', trim (tf_filepath f)),
            (''tl_filename'', trim (tf_filename f)), (''tl_interval'', tf_interval f), (''tl_keep_days'', tf_keep_days f),
            (''tl_preset_enabled'', bool_text (tf_preset f)), (''tl_ircut'', bool_text (p_ircut ps)), (''tl_ir850'', bool_text (p_ir850 ps)),
            (''tl_ir940'', bool_text (p_ir940 ps)), (''tl_white'', bool_text (p_white ps)), (''tl_color'', bool_text (p_color ps))] [])"

section \<open>Agreement with the camera\<close>

lemma mount_shown: "tp_mount (populateMountSelect ms (JStr m) p) = m"
proof -
  have "m \<in> fst ` set (mount_options ms (JStr m))"
  proof (cases "m = [] \<or> JStr m \<notin> set ms")
    case False
    then have "(m, m) \<in> set (mount_options ms (JStr m))" by (force simp: mount_options_def)
    then show ?thesis by force
  next
    case True
    then have "(m, m @ '' (missing)'') \<in> set (mount_options ms (JStr m)) \<or> m = []" by (auto simp: mount_options_def)
    then show ?thesis by (force simp: mount_options_def)
  qed
  moreover have "js_text (js_or (JStr m) (JStr [])) = m" by (cases m) (simp_all add: js_or_def)
  ultimately show ?thesis by (simp add: populateMountSelect_def Let_def)
qed

lemma populate_form [simp]: "tp_form (populateMountSelect ms c p) = tp_form p"
  by (simp add: populateMountSelect_def Let_def)

lemma applied_state:
  assumes "map_of d key = Some (JObj t)" "map_of t ''mount'' = Some (JStr m)"
  shows "tp_mount (tool_applyState key fill target no_data (JObj d) p) = m"
    and "tp_form (tool_applyState key fill target no_data (JObj d) p) = fill (JObj t) (tp_form p)"
  using assms by (simp_all add: tool_applyState_def Let_def mount_shown and_prop_def js_or_def)

lemma number_shown: "n \<noteq> 0 \<Longrightarrow> number_or (jint n) k = show_int n"
  using num_text_of_int [of n] by (simp add: number_or_def js_or_def)

lemma channel_shown: "channel_value (JNum (Fin 0)) = ''0''" "channel_value (JNum (Fin 1)) = ''1''"
proof -
  have "show_nat 0 = ''0''" "show_nat 1 = ''1''" by code_simp+
  then show "channel_value (JNum (Fin 0)) = ''0''" "channel_value (JNum (Fin 1)) = ''1''"
    using num_text_of_int [of 0] num_text_of_int [of 1] by (simp_all add: channel_value_def show_int_def)
qed

lemma video_params:
  "buildVideoParams p =
     [(''form'', ''video''), (''vr_mount'', trim (tp_mount p)), (''vr_device_path'', trim (vr_device_path (tp_form p))),
      (''vr_filename'', trim (vr_filename (tp_form p))), (''vr_channel'', if vr_channel (tp_form p) = [] then ''0'' else vr_channel (tp_form p)),
      (''vr_duration'', vr_duration (tp_form p)), (''vr_limit'', vr_limit (tp_form p)), (''vr_min_free_mb'', vr_min_free_mb (tp_form p)),
      (''vr_check_interval'', vr_check_interval (tp_form p)), (''vr_autostart'', bool_text (vr_autostart (tp_form p))),
      (''vr_cleanup_enabled'', bool_text (vr_cleanup_enabled (tp_form p)))]"
  by (simp add: buildVideoParams_def Let_def)

lemma timelapse_params:
  "buildTimelapseParams p =
     [(''form'', ''timelapse''), (''tl_enabled'', bool_text (tf_enabled (tp_form p))), (''tl_mount'', trim (tp_mount p)),
      (''tl_filepath'', trim (tf_filepath (tp_form p))), (''tl_filename'', trim (tf_filename (tp_form p))), (''tl_interval'', tf_interval (tp_form p)),
      (''tl_keep_days'', tf_keep_days (tp_form p)), (''tl_preset_enabled'', bool_text (tf_preset (tp_form p))),
      (''tl_ircut'', bool_text (p_ircut (tf_presets (tp_form p)))), (''tl_ir850'', bool_text (p_ir850 (tf_presets (tp_form p)))),
      (''tl_ir940'', bool_text (p_ir940 (tf_presets (tp_form p)))), (''tl_white'', bool_text (p_white (tf_presets (tp_form p)))),
      (''tl_color'', bool_text (p_color (tf_presets (tp_form p))))]"
  by (simp add: buildTimelapseParams_def Let_def)

lemma flag_of_bool:
  assumes "list_all (\<lambda>(k, v). \<exists>b. v = JBool b) ps"
  shows "boolFromValue (getp (JObj ps) x) \<longleftrightarrow> getp (JObj ps) x = JBool True"
proof (cases "map_of ps x")
  case (Some v)
  then have "(x, v) \<in> set ps" by (rule map_of_SomeD)
  then obtain b where "v = JBool b" using assms unfolding list_all_iff by blast
  then show ?thesis using Some by (simp add: boolFromValue_def)
qed (simp add: boolFromValue_def)

text \<open>What the camera reports of the saved settings of the video recorder: texts trimmed, numbers and flags with their JSON type.\<close>

definition reports_video :: "(string \<times> js) list \<Rightarrow> video_form tool_page \<Rightarrow> bool" where
  "reports_video v p \<longleftrightarrow>
     (let f = tp_form p
      in map_of v ''mount'' = Some (JStr (trim (tp_mount p))) \<and> map_of v ''device_path'' = Some (JStr (trim (vr_device_path f))) \<and>
         map_of v ''filename'' = Some (JStr (trim (vr_filename f))) \<and>
         map_of v ''channel'' = Some (jint (if vr_channel f = ''1'' then 1 else 0)) \<and>
         list_all (\<lambda>(k, t). \<exists>n. n \<noteq> 0 \<and> t = show_int n \<and> map_of v k = Some (jint n))
           [(''duration'', vr_duration f), (''limit'', vr_limit f), (''min_free_mb'', vr_min_free_mb f), (''check_interval'', vr_check_interval f)] \<and>
         map_of v ''autostart'' = Some (JBool (vr_autostart f)) \<and> map_of v ''cleanup_enabled'' = Some (JBool (vr_cleanup_enabled f)))"

text \<open>
  The video recorder's settings survive: if the camera reports what the page saved, with any mount points and any other data, the page loaded from the answer, whatever it
  showed before, saves exactly the same again; a mount point that is not mounted any more is kept as a missing one.\<close>

theorem video_settings_survive:
  assumes "vr_channel (tp_form p) \<in> {[], ''0'', ''1''}" "reports_video v p"
    and "recorder_answer ''Unable to load settings'' out = Inr (JObj ps)" "map_of ps ''data'' = Some (JObj d)" "map_of d ''video'' = Some (JObj v)"
  shows "snd (tool_submit buildVideoParams (fst (tool_loadState_settle video_applyState out q))) = snd (tool_submit buildVideoParams p)"
proof -
  let ?q = "video_applyState (JObj d) q"
  have m: "map_of v ''mount'' = Some (JStr (trim (tp_mount p)))" using assms(2) by (simp add: reports_video_def Let_def)
  have "buildVideoParams ?q = buildVideoParams p"
    using assms(1,2) applied_state [OF assms(5) m, where fill = applyVideoState and target = video_target]
    by (elim insertE) (auto simp: video_applyState_def video_params applyVideoState_def reports_video_def Let_def field_of_text number_shown
        channel_shown boolFromValue_def)
  moreover have "buildVideoParams (fst (tool_loadState_settle video_applyState out q)) = buildVideoParams ?q"
    using assms(3,4) by (simp add: tool_loadState_settle_def tool_setStatus_def js_or_def Let_def video_params)
  ultimately show ?thesis by (simp add: tool_submit_def)
qed

definition sample_video :: "video_form tool_page" where
  "sample_video = \<lparr>tp_form = \<lparr>vr_device_path = '' cam/records'', vr_filename = ''%H'', vr_channel = ''1'', vr_duration = show_int 60, vr_limit = show_int 15,
       vr_min_free_mb = show_int 500, vr_check_interval = show_int 60, vr_autostart = True, vr_cleanup_enabled = False\<rparr>,
     tp_mount = ''/mnt/nas'', tp_mounts = [], tp_link = None, tp_hint = [], tp_debug = ([], []), tp_status = ([], []), tp_status_hidden = True,
     tp_hide_timers = 0, tp_submit_disabled = False, tp_busy = idle_bar\<rparr>"

definition sample_video_report :: "(string \<times> js) list" where
  "sample_video_report = [(''mount'', JStr (trim ''/mnt/nas'')), (''device_path'', JStr (trim '' cam/records'')), (''filename'', JStr (trim ''%H'')), (''channel'', jint 1),
     (''duration'', jint 60), (''limit'', jint 15), (''min_free_mb'', jint 500), (''check_interval'', jint 60), (''autostart'', JBool True),
     (''cleanup_enabled'', JBool False)]"

theorem video_settings_survive_witness:
  "snd (tool_submit buildVideoParams (fst (tool_loadState_settle video_applyState
     (Answer \<lparr>status = 200, text_body = ''x'', parsed = Some (JObj [(''data'', JObj [(''mounts'', JArr []), (''video'', JObj sample_video_report)])])\<rparr>)
     (sample_video\<lparr>tp_mount := []\<rparr>)))) = snd (tool_submit buildVideoParams sample_video)"
proof (rule video_settings_survive [where v = sample_video_report and ps = "[(''data'', JObj [(''mounts'', JArr []), (''video'', JObj sample_video_report)])]"
      and d = "[(''mounts'', JArr []), (''video'', JObj sample_video_report)]"])
  show "reports_video sample_video_report sample_video"
    by (simp add: reports_video_def sample_video_report_def sample_video_def)
qed (simp_all add: sample_video_def recorder_answer_def resp_ok_def nullish_def)

text \<open>
  C20. The timelapse page and the timelapse button of the control bar agree: for a report with the types the camera uses (flags as booleans, texts without blanks around them, a
  positive interval and a number of days), the form the page sends after loading it is the form the button would send to leave the recorder as it is.\<close>

theorem timelapse_page_agrees_with_button:
  assumes "map_of t ''enabled'' = Some (JBool e)" "map_of t ''mount'' = Some (JStr m)" "map_of t ''filepath'' = Some (JStr path)"
    and "map_of t ''filename'' = Some (JStr name)" "trim m = m" "trim path = path" "trim name = name"
    and "map_of t ''interval'' = Some (jint i)" "1 \<le> i" "map_of t ''keep_days'' = Some (jint k)" "0 \<le> k" "map_of t ''preset_enabled'' = Some (JBool pe)"
    and "map_of t ''presets'' = Some (JObj ps)" "list_all (\<lambda>(k, v). \<exists>b. v = JBool b) ps" "map_of d ''timelapse'' = Some (JObj t)"
  shows "buildTimelapseParams (timelapse_applyState (JObj d) p) = buildTimelapseToggleParams e (timelapse_of (JObj t))"
proof -
  note st = applied_state [OF assms(15,2), where fill = timelapse_fill and target = timelapse_target]
  have n: "number_or (jint i) 1 = show_int i" "number_input (num_text (Fin (of_int k))) = show_int k"
    using assms(9) number_shown [of i] num_text_of_int [of k] by simp_all
  have i: "int_at_least 1 1 (jint i) = i" "int_at_least 0 7 (jint k) = k" using assms(9,11) by (simp_all add: int_at_least_def)
  have f: "boolFromValue (getp (JObj ps) x) \<longleftrightarrow> getp (JObj ps) x = JBool True" for x by (rule flag_of_bool [OF assms(14)])
  show ?thesis
    unfolding params_list timelapse_params timelapse_applyState_def st timelapse_fill_def timelapse_of_def Let_def
    using assms n i f by (simp add: field_of_text js_or_def boolFromValue_def)
qed

definition sample_timelapse :: "(string \<times> js) list" where
  "sample_timelapse = [(''enabled'', JBool True), (''mount'', JStr []), (''filepath'', JStr []), (''filename'', JStr []), (''interval'', jint 5),
     (''keep_days'', jint 0), (''preset_enabled'', JBool False), (''presets'', JObj [(''ircut'', JBool True)])]"

definition sample_tl_page :: "timelapse_form tool_page" where
  "sample_tl_page = \<lparr>tp_form = \<lparr>tf_enabled = False, tf_filepath = ''old'', tf_filename = [], tf_interval = [], tf_keep_days = [], tf_preset = True,
       tf_presets = \<lparr>p_ircut = False, p_ir850 = False, p_ir940 = False, p_white = False, p_color = False\<rparr>\<rparr>,
     tp_mount = [], tp_mounts = [], tp_link = None, tp_hint = [], tp_debug = ([], []), tp_status = ([], []), tp_status_hidden = True,
     tp_hide_timers = 0, tp_submit_disabled = False, tp_busy = idle_bar\<rparr>"

theorem timelapse_page_agrees_with_button_witness:
  "buildTimelapseParams (timelapse_applyState (JObj [(''timelapse'', JObj sample_timelapse)]) sample_tl_page) = buildTimelapseToggleParams True (timelapse_of (JObj sample_timelapse))"
  by (rule timelapse_page_agrees_with_button [where t = sample_timelapse and m = "[]" and path = "[]" and name = "[]" and i = 5 and k = 0 and pe = False
        and ps = "[(''ircut'', JBool True)]"]) (simp_all add: sample_timelapse_def trim_Nil, blast)

end
