(* ===== verification/Footer.thy ===== *)
theory Footer
  imports Markup Dom
begin

text \<open>
  The footer (\<open>footer.js\<close>): the message overlay with its timer, the restart of the streamer with the polling of its process id, the
  element tree of the footer and its mounting. \<open>cfg\<close> is the footer's configuration object (\<open>globalConfig\<close>). The replacement patterns of
  \<open>String.replace\<close> in a host name (a dollar sign) are not modelled, as host names have none.
\<close>

section \<open>The message overlay\<close>

record overlay_el =
  ov_text :: js
  ov_variant :: string
  ov_shown :: bool

record message_box =
  mb_element :: "overlay_el option"
  overlayTimerId :: "nat option"
  mb_armed :: "(nat \<times> rat) list" \<comment> \<open>the timers that are set, with their delay\<close>
  mb_next :: nat

definition clear_overlay_timer :: "message_box \<Rightarrow> message_box" where
  "clear_overlay_timer b = b\<lparr>mb_armed := filter (\<lambda>t. Some (fst t) \<noteq> overlayTimerId b) (mb_armed b)\<rparr>"

definition dismissOverlay :: "message_box \<Rightarrow> message_box" where
  "dismissOverlay b =
     (case mb_element b of
        None \<Rightarrow> b
      | Some e \<Rightarrow> (clear_overlay_timer b)\<lparr>overlayTimerId := None, mb_element := Some (e\<lparr>ov_shown := False\<rparr>)\<rparr>)"

definition overlay_touchend :: "int \<Rightarrow> message_box \<Rightarrow> message_box" where
  "overlay_touchend dy b = (if \<bar>dy\<bar> < 10 \<or> dy < - 20 then dismissOverlay b else b)"

definition message_duration :: "js \<Rightarrow> rat" where
  "message_duration cfg = max 0 (case fin_val (to_number (getp cfg ''restartMessageDuration'')) of Some q \<Rightarrow> q | None \<Rightarrow> 4000)"

definition showGlobalMessage :: "js \<Rightarrow> js \<Rightarrow> string \<Rightarrow> message_box \<Rightarrow> message_box" where
  "showGlobalMessage cfg message variant b =
     (let c = clear_overlay_timer (b\<lparr>mb_element := Some \<lparr>ov_text = message, ov_variant = variant, ov_shown = True\<rparr>\<rparr>)
      in c\<lparr>overlayTimerId := Some (mb_next c), mb_armed := mb_armed c @ [(mb_next c, message_duration cfg)], mb_next := Suc (mb_next c)\<rparr>)"

definition overlay_timer_fires :: "nat \<Rightarrow> message_box \<Rightarrow> message_box" where
  "overlay_timer_fires i b =
     (if i \<in> fst ` set (mb_armed b)
      then b\<lparr>mb_armed := filter (\<lambda>t. fst t \<noteq> i) (mb_armed b), mb_element := map_option (\<lambda>e. e\<lparr>ov_shown := False\<rparr>) (mb_element b)\<rparr>
      else b)"

definition no_message :: message_box where
  "no_message = \<lparr>mb_element = None, overlayTimerId = None, mb_armed = [], mb_next = 1\<rparr>"

inductive message_step :: "js \<Rightarrow> message_box \<Rightarrow> message_box \<Rightarrow> bool" for cfg where
  shows_message: "message_step cfg b (showGlobalMessage cfg message variant b)"
| click: "message_step cfg b (dismissOverlay b)"
| touch: "message_step cfg b (overlay_touchend dy b)"
| fires: "message_step cfg b (overlay_timer_fires i b)"

section \<open>Restarting the streamer\<close>

datatype restart_effect = Asked js | AskStatus string | RestartCall string string \<comment> \<open>method, endpoint\<close>

record restart_button =
  rb_disabled :: bool
  rb_inert :: bool \<comment> \<open>the class \<open>pe-none\<close>\<close>
  rb_label :: string
  rb_original :: string \<comment> \<open>\<open>dataset.originalLabel\<close>, empty where it is not set\<close>

record restart_page =
  rp_box :: message_box
  rp_button :: "restart_button option" \<comment> \<open>none where the restart is called from \<open>thinginoFooter.restartPrudynt\<close>\<close>
  rp_reload_after :: "rat option"
  rp_requests :: "restart_effect list"

definition restart_confirm_text :: "js \<Rightarrow> js" where
  "restart_confirm_text cfg = js_or (getp cfg ''restartConfirmMessage'')
     (JStr (''Restart prudynt service?'' @ [CHR 0x0A, CHR 0x0A] @ ''The video stream will be interrupted for a few seconds.''))"

definition restart_ask :: "restart_page \<Rightarrow> js \<Rightarrow> restart_page" where
  "restart_ask p cfg = p\<lparr>rp_requests := rp_requests p @ [Asked (restart_confirm_text cfg)]\<rparr>"

definition statusUrl :: string where "statusUrl = ''/x/prudynt-status.cgi''"

definition button_busy :: "js \<Rightarrow> restart_button \<Rightarrow> restart_button" where
  "button_busy cfg b =
     \<lparr>rb_disabled = True, rb_inert = True,
      rb_label = ''<span class='' @ [CHR 0x22] @ ''spinner-border spinner-border-sm me-2'' @ [CHR 0x22] @ '' role='' @ [CHR 0x22] @ ''status'' @ [CHR 0x22] @
        '' aria-hidden='' @ [CHR 0x22] @ ''true'' @ [CHR 0x22] @ ''></span><span>'' @
        js_text (js_or (getp cfg ''restartLoadingLabel'') (JStr (''Restarting'' @ map char_of [0xE2, 0x80, 0xA6 :: nat]))) @ ''</span>'',
      rb_original = or_text (rb_original b) (rb_label b)\<rparr>"

definition button_idle :: "restart_button \<Rightarrow> restart_button" where
  "button_idle b = b\<lparr>rb_disabled := False, rb_inert := False, rb_label := rb_original b\<rparr>"

definition button_failed :: "restart_button \<Rightarrow> restart_button" where
  "button_failed b = b\<lparr>rb_disabled := False, rb_inert := False, rb_label := or_text (rb_original b) (rb_label b)\<rparr>"

definition restart_confirmed :: "js \<Rightarrow> bool \<Rightarrow> restart_page \<Rightarrow> restart_page" where
  "restart_confirmed cfg yes p =
     (if yes then p\<lparr>rp_button := map_option (button_busy cfg) (rp_button p), rp_requests := rp_requests p @ [AskStatus statusUrl]\<rparr> else p)"

text \<open>The process id of a status answer: the empty text where there is none.\<close>

definition status_pid :: "outcome \<Rightarrow> js" where
  "status_pid out =
     (case out of
        Rejected _ \<Rightarrow> JStr []
      | Answer r \<Rightarrow>
          if resp_ok r then (case parsed r of Some d \<Rightarrow> js_or (getp (js_or d (JObj [])) ''pid'') (JStr []) | None \<Rightarrow> JStr []) else JStr [])"

definition restart_request :: "js \<Rightarrow> restart_page \<Rightarrow> restart_page" where
  "restart_request cfg p =
     (let url = js_text (js_or (getp cfg ''restartEndpoint'') (JStr ''/x/restart-prudynt.cgi''));
          how = js_text (js_or (getp cfg ''restartMethod'') (JStr ''GET''))
      in p\<lparr>rp_requests := rp_requests p @ [RestartCall how url]\<rparr>)"

definition restart_failed :: "js \<Rightarrow> js \<Rightarrow> restart_page \<Rightarrow> restart_page" where
  "restart_failed cfg err p =
     p\<lparr>rp_box := showGlobalMessage cfg (JStr (js_text (js_or (getp cfg ''restartErrorMessage'') (JStr ''Failed to restart prudynt'')) @ '': '' @ js_text err))
         ''danger'' (rp_box p), rp_button := map_option button_failed (rp_button p)\<rparr>"

definition restart_finished :: "js \<Rightarrow> bool \<Rightarrow> restart_page \<Rightarrow> restart_page" where
  "restart_finished cfg cameBack p =
     (let q = p\<lparr>rp_box := showGlobalMessage cfg
            (if cameBack then js_or (getp cfg ''restartSuccessMessage'') (JStr ''Prudynt restarted successfully'')
             else JStr (''Prudynt restart is taking longer than expected'' @ map char_of [0xE2, 0x80, 0xA6 :: nat]))
            (if cameBack then ''success'' else ''warning'') (rp_box p)\<rparr>
      in if getp cfg ''restartReload'' = JBool False then q\<lparr>rp_button := map_option button_idle (rp_button q)\<rparr>
         else q\<lparr>rp_reload_after := Some (max 0 (case fin_val (to_number (getp cfg ''restartReloadDelay'')) of Some d \<Rightarrow> d | None \<Rightarrow> 800))\<rparr>)"

text \<open>
  The polling loop: \<open>now\<close> is the time at the head of the loop, each poll the time at which its request settled (the loop waits a second before it)
  and how. The result says that the loop waits for the next poll, or that it has ended and whether the streamer came back.
\<close>

datatype poll_result = Polling | Ended bool

definition came_back :: "js \<Rightarrow> outcome \<Rightarrow> bool" where
  "came_back oldPid out \<longleftrightarrow> truthy (status_pid out) \<and> status_pid out \<noteq> oldPid"

fun poll_loop :: "js \<Rightarrow> int \<Rightarrow> int \<Rightarrow> (int \<times> outcome) list \<Rightarrow> poll_result" where
  "poll_loop oldPid deadline now polls =
     (if now < deadline
      then (case polls of
              [] \<Rightarrow> Polling
            | (t, out) # rest \<Rightarrow> if came_back oldPid out then Ended True else poll_loop oldPid deadline t rest)
      else Ended False)"

declare poll_loop.simps [simp del]

definition restart_settle :: "js \<Rightarrow> js \<Rightarrow> int \<Rightarrow> outcome \<Rightarrow> (int \<times> outcome) list \<Rightarrow> restart_page \<Rightarrow> restart_page" where
  "restart_settle cfg oldPid now out polls p =
     (case out of
        Rejected m \<Rightarrow> restart_failed cfg (JStr m) p
      | Answer r \<Rightarrow>
          if \<not> resp_ok r then restart_failed cfg (JStr (''HTTP '' @ show_int (status r))) p
          else (case poll_loop oldPid (now + 30000) now polls of Polling \<Rightarrow> p | Ended b \<Rightarrow> restart_finished cfg b p))"

section \<open>The footer\<close>

definition createElement :: "string \<Rightarrow> string \<Rightarrow> string \<Rightarrow> node" where
  "createElement tag className txt = Elem tag (opt_attr ''class'' className) (if txt = [] then [] else [TextNode txt])"

definition config_text :: "js \<Rightarrow> string \<Rightarrow> string \<Rightarrow> string" where
  "config_text cfg k fallback = js_text (js_or (getp cfg k) (JStr fallback))"

definition buildFooter :: "js \<Rightarrow> node" where
  "buildFooter cfg =
     Elem ''footer'' [(''class'', config_text cfg ''className'' ''x-small text-secondary border-top''), (''data-generated-footer'', ''true'')]
       [Elem ''div'' [(''class'', ''container pt-3'')]
         [Elem ''div'' [(''class'', ''row'')]
           [Elem ''div'' [(''class'', ''col col-sm-5 mb-2'')]
              [Elem ''div'' [(''id'', ''footer-host'')] [TextNode (config_text cfg ''hostName'' ''unknown'')],
               Elem ''div'' [(''id'', ''uptime'')] [],
               Elem ''div'' []
                 [Elem ''a'' [(''href'', ''#''), (''id'', ''theme-toggle''), (''title'', config_text cfg ''themeToggleTitle'' ''Toggle theme'')]
                    [TextNode (config_text cfg ''themeToggleLabel'' ''Toggle theme'')]]],
            Elem ''div'' [(''class'', ''col col-sm-7 mb-2 text-sm-end'')]
              [Elem ''div'' [] [TextNode ''Powered by '', Elem ''a'' [(''href'', ''https://thingino.com/'')] [TextNode ''Thingino'']],
               createElement ''div'' ''small'' (config_text cfg ''buildInfo'' [])]]]]"

fun replace_first :: "string \<Rightarrow> string \<Rightarrow> string \<Rightarrow> string" where
  "replace_first pat new [] = (if pat = [] then new else [])"
| "replace_first pat new (c # s) = (if starts_with (c # s) pat then new @ drop (length pat) (c # s) else c # replace_first pat new s)"

definition hostLabelText :: "js \<Rightarrow> string \<Rightarrow> string" where
  "hostLabelText cfg hostname = replace_first ''${host}'' hostname (config_text cfg ''hostTemplate'' ''Connected as ${host}'')"

definition footer_hostname :: "js \<Rightarrow> string \<Rightarrow> string \<Rightarrow> string" where
  "footer_hostname cfg hostname host = config_text cfg ''host'' (or_text hostname (or_text host ''camera.local''))"

text \<open>
  The first element in document order with a property: replacing it by a tree, and setting its text. The second result says whether there was one.
\<close>

fun edit_first :: "(node \<Rightarrow> bool) \<Rightarrow> (node \<Rightarrow> node) \<Rightarrow> node \<Rightarrow> node \<times> bool"
  and edit_first_list :: "(node \<Rightarrow> bool) \<Rightarrow> (node \<Rightarrow> node) \<Rightarrow> node list \<Rightarrow> node list \<times> bool" where
  "edit_first P f (TextNode s) = (TextNode s, False)"
| "edit_first P f (Elem t as ns) =
     (if P (Elem t as ns) then (f (Elem t as ns), True)
      else let (ms, hit) = edit_first_list P f ns in (Elem t as ms, hit))"
| "edit_first_list P f [] = ([], False)"
| "edit_first_list P f (n # ns) =
     (let (m, hit) = edit_first P f n
      in if hit then (m # ns, True) else let (ms, hit') = edit_first_list P f ns in (n # ms, hit'))"

fun set_text_content :: "string \<Rightarrow> node \<Rightarrow> node" where
  "set_text_content t (TextNode s) = TextNode s"
| "set_text_content t (Elem tag as ns) = Elem tag as (if t = [] then [] else [TextNode t])"

definition is_placeholder_el :: "node \<Rightarrow> bool" where
  "is_placeholder_el n \<longleftrightarrow> attr_of ''data-app-footer'' n \<noteq> None"

fun is_generated_footer :: "node \<Rightarrow> bool" where
  "is_generated_footer (TextNode s) = False"
| "is_generated_footer (Elem t as ns) = (t = ''footer'' \<and> map_of as ''data-generated-footer'' = Some ''true'')"

definition updateHostLabel :: "js \<Rightarrow> string \<Rightarrow> string \<Rightarrow> node \<Rightarrow> node" where
  "updateHostLabel cfg hostname host body =
     fst (edit_first (\<lambda>n. attr_of ''id'' n = Some ''footer-host'') (set_text_content (hostLabelText cfg (footer_hostname cfg hostname host))) body)"

definition place_footer :: "js \<Rightarrow> node \<Rightarrow> node" where
  "place_footer cfg body =
     (let (b, hit) = edit_first is_placeholder_el (\<lambda>_. buildFooter cfg) body
      in if hit then b else if filter is_generated_footer (elems body) = [] then append_nodes body [buildFooter cfg] else body)"

definition mountFooter :: "js \<Rightarrow> string \<Rightarrow> string \<Rightarrow> node \<Rightarrow> node" where
  "mountFooter cfg hostname host body = updateHostLabel cfg hostname host (place_footer cfg body)"

section \<open>Lemmas\<close>

lemma edit_miss:
  "edit_first P f n = (m, False) \<Longrightarrow> m = n \<and> (\<forall>e\<in>set (elems n). \<not> P e)"
  "edit_first_list P f ns = (ms, False) \<Longrightarrow> ms = ns \<and> (\<forall>n\<in>set ns. \<forall>e\<in>set (elems n). \<not> P e)"
  by (induction P f n and P f ns arbitrary: m and ms rule: edit_first_edit_first_list.induct) (auto split: if_splits prod.splits)

text \<open>What replacing the first element does to a count of elements.\<close>

definition elem_count :: "(node \<Rightarrow> bool) \<Rightarrow> node \<Rightarrow> nat" where
  "elem_count Q n = length (filter Q (elems n))"

definition head_wise :: "(node \<Rightarrow> bool) \<Rightarrow> bool" where
  "head_wise Q \<longleftrightarrow> (\<forall>t as ns ms. Q (Elem t as ns) = Q (Elem t as ms))"

lemma elem_count_simps [simp]:
  "elem_count Q (TextNode s) = 0"
  "elem_count Q (Elem t as ns) = (if Q (Elem t as ns) then 1 else 0) + sum_list (map (elem_count Q) ns)"
proof -
  have "length (filter Q (concat (map elems ns))) = sum_list (map (elem_count Q) ns)" by (induction ns) (simp_all add: elem_count_def)
  then show "elem_count Q (Elem t as ns) = (if Q (Elem t as ns) then 1 else 0) + sum_list (map (elem_count Q) ns)" by (simp add: elem_count_def)
qed (simp add: elem_count_def)

lemma elems_sub: "e \<in> set (elems n) \<Longrightarrow> set (elems e) \<subseteq> set (elems n)"
  by (induction n) auto

lemma elem_count_sub: "e \<in> set (elems n) \<Longrightarrow> elem_count Q n = 0 \<Longrightarrow> elem_count Q e = 0"
  using elems_sub by (fastforce simp: elem_count_def filter_empty_conv)

lemma edit_hit:
  "edit_first P f n = (m, True) \<Longrightarrow> head_wise Q \<Longrightarrow> \<exists>e\<in>set (elems n). P e \<and> elem_count Q m + elem_count Q e = elem_count Q n + elem_count Q (f e)"
  "edit_first_list P f ns = (ms, True) \<Longrightarrow> head_wise Q \<Longrightarrow>
     \<exists>n\<in>set ns. \<exists>e\<in>set (elems n). P e \<and> sum_list (map (elem_count Q) ms) + elem_count Q e = sum_list (map (elem_count Q) ns) + elem_count Q (f e)"
proof (induction P f n and P f ns arbitrary: m and ms rule: edit_first_edit_first_list.induct)
  case (2 P f t as ns)
  show ?case
  proof (cases "P (Elem t as ns)")
    case True
    then show ?thesis using 2 by (intro bexI [of _ "Elem t as ns"]) auto
  next
    case False
    then obtain ms where l: "edit_first_list P f ns = (ms, True)" and m: "m = Elem t as ms" using 2(2) by (auto split: prod.splits)
    then obtain n e where "n \<in> set ns" "e \<in> set (elems n)" "P e" "sum_list (map (elem_count Q) ms) + elem_count Q e = sum_list (map (elem_count Q) ns) + elem_count Q (f e)"
      using 2(1) [OF False] 2(3) by blast
    moreover have "Q (Elem t as ms) = Q (Elem t as ns)" using 2(3) by (simp add: head_wise_def)
    ultimately show ?thesis using m by (intro bexI [of _ e]) auto
  qed
next
  case (4 P f n ns)
  show ?case
  proof (cases "edit_first P f n")
    case (Pair m hit)
    show ?thesis
    proof (cases hit)
      case True
      then obtain e where "e \<in> set (elems n)" "P e" "elem_count Q m + elem_count Q e = elem_count Q n + elem_count Q (f e)" using 4 Pair by metis
      moreover have "ms = m # ns" using 4(3) Pair True by simp
      ultimately show ?thesis by auto
    next
      case False
      then obtain ns' where l: "edit_first_list P f ns = (ns', True)" and ms: "ms = n # ns'" using 4(3) Pair by (auto split: prod.splits)
      then obtain k e where "k \<in> set ns" "e \<in> set (elems k)" "P e"
        "sum_list (map (elem_count Q) ns') + elem_count Q e = sum_list (map (elem_count Q) ns) + elem_count Q (f e)"
        using 4(2) [OF Pair [symmetric] _ False] 4(4) Pair False by (metis 4(2))
      then show ?thesis using ms by auto
    qed
  qed
qed simp_all

fun same_head :: "node \<Rightarrow> node \<Rightarrow> bool" where
  "same_head (Elem t as ns) (Elem t' as' ns') = (t = t' \<and> as = as')"
| "same_head _ _ = False"

lemma edit_elems:
  "edit_first P f n = (m, h) \<Longrightarrow> x \<in> set (elems m) \<Longrightarrow>
     x \<in> set (elems n) \<or> (\<exists>e\<in>set (elems n). P e \<and> x \<in> set (elems (f e)) \<or> same_head e x \<and> 1 < length (elems e))"
  "edit_first_list P f ns = (ms, h) \<Longrightarrow> k \<in> set ms \<Longrightarrow> x \<in> set (elems k) \<Longrightarrow>
     \<exists>n\<in>set ns. x \<in> set (elems n) \<or> (\<exists>e\<in>set (elems n). P e \<and> x \<in> set (elems (f e)) \<or> same_head e x \<and> 1 < length (elems e))"
proof (induction P f n and P f ns arbitrary: m h and ms h k rule: edit_first_edit_first_list.induct)
  case (2 P f t as ns)
  show ?case
  proof (cases "P (Elem t as ns)")
    case True
    then show ?thesis using 2 by auto
  next
    case False
    then obtain ms where l: "edit_first_list P f ns = (ms, h)" and m: "m = Elem t as ms" using 2(2) by (auto split: prod.splits)
    show ?thesis
    proof (cases h)
      case False
      then have "ms = ns" using l edit_miss(2) [of P f ns ms] by simp
      then show ?thesis using m 2(3) by simp
    next
      case True
      then obtain n e where "n \<in> set ns" "e \<in> set (elems n)" using l edit_hit(2) [of P f ns ms "\<lambda>_. True"] by (auto simp: head_wise_def)
      then have long: "1 < length (elems (Elem t as ns))"
        by (cases "concat (map elems ns)") auto
      from m 2(3) consider "x = m" | k where "k \<in> set ms" "x \<in> set (elems k)" by auto
      then show ?thesis
      proof cases
        case 1
        then show ?thesis using m long by (intro disjI2 bexI [of _ "Elem t as ns"]) auto
      next
        case 2
        then show ?thesis using "2.IH" [OF \<open>\<not> P (Elem t as ns)\<close> l] by fastforce
      qed
    qed
  qed
next
  case (4 P f n ns)
  then show ?case by (fastforce split: if_splits prod.splits)
qed simp_all

definition host_leaf :: "node \<Rightarrow> bool" where
  "host_leaf n \<longleftrightarrow> list_all (\<lambda>e. attr_of ''id'' e = Some ''footer-host'' \<longrightarrow> length (elems e) = 1) (elems n)"

definition footer_ok :: "node \<Rightarrow> bool" where
  "footer_ok b \<longleftrightarrow> elem_count is_placeholder_el b = 0 \<and> elem_count is_generated_footer b = 1 \<and> host_leaf b"

lemma head_wise_marks: "head_wise is_placeholder_el" "head_wise is_generated_footer"
  by (simp_all add: head_wise_def is_placeholder_el_def)

lemma same_head_attr: "same_head e x \<Longrightarrow> attr_of k e = attr_of k x"
  by (cases e; cases x) simp_all

lemma host_leaf_edit:
  assumes "host_leaf n" "edit_first P f n = (m, h)" "\<And>e. P e \<Longrightarrow> host_leaf (f e)"
  shows "host_leaf m"
  unfolding host_leaf_def list_all_iff
proof (intro ballI impI)
  fix x assume x: "x \<in> set (elems m)" and i: "attr_of ''id'' x = Some ''footer-host''"
  from edit_elems(1) [OF assms(2) x] show "length (elems x) = 1"
  proof (elim disjE bexE conjE)
    fix e assume "P e" "x \<in> set (elems (f e))"
    then show ?thesis using assms(3) i by (auto simp: host_leaf_def list_all_iff)
  next
    fix e assume "e \<in> set (elems n)" "same_head e x" "1 < length (elems e)"
    moreover from this have "attr_of ''id'' e = Some ''footer-host''" using i same_head_attr by metis
    ultimately show ?thesis using assms(1) by (auto simp: host_leaf_def list_all_iff)
  qed (use assms(1) i in \<open>auto simp: host_leaf_def list_all_iff\<close>)
qed

lemma footer_marks: "elem_count is_placeholder_el (buildFooter cfg) = 0" "elem_count is_generated_footer (buildFooter cfg) = 1" "host_leaf (buildFooter cfg)"
  by (simp_all add: buildFooter_def createElement_def is_placeholder_el_def host_leaf_def opt_attr_def)

lemma host_leaf_append: "host_leaf (Elem t as ns) \<Longrightarrow> map_of as ''id'' \<noteq> Some ''footer-host'' \<Longrightarrow> host_leaf f \<Longrightarrow> host_leaf (append_nodes (Elem t as ns) [f])"
  by (simp add: host_leaf_def)

lemma place_ok:
  assumes "b = Elem t as ns" "map_of as ''id'' \<noteq> Some ''footer-host''" "elem_count is_placeholder_el b \<le> 1" "elem_count is_generated_footer b = 0" "host_leaf b"
  shows "footer_ok (place_footer cfg b)"
proof (cases "edit_first is_placeholder_el (\<lambda>_. buildFooter cfg) b")
  case (Pair m hit)
  show ?thesis
  proof (cases hit)
    case True
    with Pair have e: "edit_first is_placeholder_el (\<lambda>_. buildFooter cfg) b = (m, True)" by simp
    from edit_hit(1) [OF e head_wise_marks(1)] obtain x where x: "is_placeholder_el x" "x \<in> set (elems b)" "elem_count is_placeholder_el m + elem_count is_placeholder_el x = elem_count is_placeholder_el b"
      by (auto simp: footer_marks)
    then have "1 \<le> elem_count is_placeholder_el x" by (cases x) (auto simp: is_placeholder_el_def)
    then have "elem_count is_placeholder_el m = 0" using x(3) assms(3) by simp
    moreover have "elem_count is_generated_footer m = 1"
      using edit_hit(1) [OF e head_wise_marks(2)] assms(4) elem_count_sub by (force simp: footer_marks)
    moreover have "host_leaf m" by (rule host_leaf_edit [OF assms(5) e]) (rule footer_marks)
    ultimately show ?thesis using e by (simp add: footer_ok_def place_footer_def)
  next
    case False
    with Pair have "edit_first is_placeholder_el (\<lambda>_. buildFooter cfg) b = (m, False)" by simp
    from edit_miss(1) [OF this] have "\<forall>e\<in>set (elems b). \<not> is_placeholder_el e" by simp
    then have "elem_count is_placeholder_el b = 0" by (simp add: elem_count_def filter_empty_conv)
    then have "footer_ok (append_nodes b [buildFooter cfg])"
      using assms host_leaf_append [OF _ assms(2) footer_marks(3)] footer_marks by (simp add: footer_ok_def is_placeholder_el_def)
    then show ?thesis using Pair False assms(4) by (simp add: place_footer_def elem_count_def)
  qed
qed

lemma place_fixed:
  assumes "footer_ok b"
  shows "place_footer cfg b = b"
proof (cases "edit_first is_placeholder_el (\<lambda>_. buildFooter cfg) b")
  case (Pair m hit)
  have "filter is_placeholder_el (elems b) = []" "filter is_generated_footer (elems b) \<noteq> []"
    using assms by (auto simp: footer_ok_def elem_count_def)
  moreover have "\<not> hit" using edit_hit(1) [of is_placeholder_el _ b m "\<lambda>_. True"] Pair calculation(1) by (auto simp: filter_empty_conv head_wise_def)
  ultimately show ?thesis using Pair edit_miss(1) by (simp add: place_footer_def)
qed

lemma text_content_marks:
  "attr_of ''id'' e = Some i \<Longrightarrow> length (elems e) = 1 \<Longrightarrow> head_wise Q \<Longrightarrow> elem_count Q (set_text_content t e) = elem_count Q e"
proof (cases e)
  case (Elem tag as ns)
  assume "length (elems e) = 1" and q: "head_wise Q"
  then have "concat (map elems ns) = []" using Elem by simp
  then have "sum_list (map (elem_count Q) ns) = 0" by (simp add: elem_count_def)
  moreover have "Q (Elem tag as ns) = Q (Elem tag as (if t = [] then [] else [TextNode t]))" using q unfolding head_wise_def by blast
  ultimately show ?thesis using Elem by simp
qed simp

lemma label_ok:
  assumes "footer_ok b"
  shows "footer_ok (updateHostLabel cfg hostname host b)"
proof -
  let ?P = "\<lambda>n. attr_of ''id'' n = Some ''footer-host''" and ?f = "set_text_content (hostLabelText cfg (footer_hostname cfg hostname host))"
  obtain m h where e: "edit_first ?P ?f b = (m, h)" by fastforce
  have leaf: "host_leaf (?f x)" if "?P x" for x using that by (cases x) (simp_all add: host_leaf_def)
  have same: "elem_count Q m = elem_count Q b" if "head_wise Q" for Q
  proof (cases h)
    case True
    with e have e': "edit_first ?P ?f b = (m, True)" by simp
    from edit_hit(1) [OF e' that] obtain x where "x \<in> set (elems b)" "?P x" "elem_count Q m + elem_count Q x = elem_count Q b + elem_count Q (?f x)" by blast
    moreover from this have "length (elems x) = 1" using assms by (auto simp: footer_ok_def host_leaf_def list_all_iff)
    ultimately show ?thesis using text_content_marks [OF _ _ that] by fastforce
  next
    case False
    with e have "edit_first ?P ?f b = (m, False)" by simp
    from edit_miss(1) [OF this] show ?thesis by simp
  qed
  have "host_leaf m" using assms host_leaf_edit [OF _ e leaf] by (simp add: footer_ok_def)
  then show ?thesis using assms e same head_wise_marks by (simp add: footer_ok_def updateHostLabel_def)
qed

text \<open>
  The footer is there once: in a page with at most one placeholder for it (and no second host label with elements inside), however often and with whatever settings the footer
  is mounted or rebuilt, the document has exactly one generated footer and no placeholder.\<close>

theorem footer_mounted_once:
  assumes "map_of as ''id'' \<noteq> Some ''footer-host''" "elem_count is_placeholder_el (Elem t as ns) \<le> 1" "elem_count is_generated_footer (Elem t as ns) = 0"
    and "host_leaf (Elem t as ns)" "xs \<noteq> []"
  shows "elem_count is_generated_footer (fold (\<lambda>(cfg, hostname, host). mountFooter cfg hostname host) xs (Elem t as ns)) = 1 \<and>
         elem_count is_placeholder_el (fold (\<lambda>(cfg, hostname, host). mountFooter cfg hostname host) xs (Elem t as ns)) = 0"
proof -
  have again: "footer_ok b \<Longrightarrow> footer_ok (fold (\<lambda>(cfg, hostname, host). mountFooter cfg hostname host) ys b)" for ys b
    by (induction ys arbitrary: b) (auto simp: mountFooter_def place_fixed label_ok)
  obtain x ys where "xs = x # ys" using assms(5) by (cases xs) auto
  then have "footer_ok (fold (\<lambda>(cfg, hostname, host). mountFooter cfg hostname host) xs (Elem t as ns))"
    using again place_ok [OF refl assms(1-4)] label_ok by (cases x) (simp add: mountFooter_def)
  then show ?thesis by (simp add: footer_ok_def)
qed

theorem footer_mounted_once_witness:
  "elem_count is_generated_footer (fold (\<lambda>(cfg, hostname, host). mountFooter cfg hostname host) [(JObj [], ''cam'', []), (JObj [], ''cam'', [])]
     (Elem ''body'' [] [Elem ''div'' [(''data-app-footer'', [])] []])) = 1"
  using footer_mounted_once [of "[]" "''body''" "[Elem ''div'' [(''data-app-footer'', [])] []]" "[(JObj [], ''cam'', []), (JObj [], ''cam'', [])]"]
  by (simp add: is_placeholder_el_def host_leaf_def)

section \<open>The overlay and the restart\<close>

definition message_shown :: "message_box \<Rightarrow> bool" where
  "message_shown b \<longleftrightarrow> (case mb_element b of Some e \<Rightarrow> ov_shown e | None \<Rightarrow> False)"

definition message_inv :: "js \<Rightarrow> message_box \<Rightarrow> bool" where
  "message_inv cfg b \<longleftrightarrow> (if message_shown b then \<exists>i. overlayTimerId b = Some i \<and> mb_armed b = [(i, message_duration cfg)] else mb_armed b = [])"

lemmas message_defs = message_inv_def message_shown_def showGlobalMessage_def dismissOverlay_def overlay_touchend_def overlay_timer_fires_def
  clear_overlay_timer_def Let_def

lemma dismiss_inv: "message_inv cfg b \<Longrightarrow> message_inv cfg (dismissOverlay b)"
  by (auto simp: message_defs split: option.splits if_splits)

lemma message_step_inv: "message_step cfg b c \<Longrightarrow> message_inv cfg b \<Longrightarrow> message_inv cfg c"
proof (induction rule: message_step.induct)
  case (shows_message b message variant)
  then show ?case by (auto simp: message_defs split: option.splits if_splits)
next
  case (touch b dy)
  then show ?case using dismiss_inv by (simp add: overlay_touchend_def)
next
  case (fires b i)
  then show ?case by (auto simp: message_defs split: option.splits if_splits)
qed (rule dismiss_inv)

lemma message_inv_reachable: "(message_step cfg)\<^sup>*\<^sup>* no_message b \<Longrightarrow> message_inv cfg b"
proof (induction rule: rtranclp_induct)
  case (step y z)
  then show ?case by (blast intro: message_step_inv)
qed (simp add: message_inv_def message_shown_def no_message_def)

text \<open>
  A message of the overlay is always taken away, by its own timer: after any sequence of messages, clicks, touches and timers, exactly one timer is set while a message is
  shown and none while there is none; the timer is the one of the last message, with the configured delay, and hides the message when it fires. A timer of an earlier message
  can therefore never hide a later one.\<close>

theorem message_timer_invariant:
  assumes "(message_step cfg)\<^sup>*\<^sup>* no_message b"
  shows "(if message_shown b
          then \<exists>i. overlayTimerId b = Some i \<and> mb_armed b = [(i, message_duration cfg)] \<and> 0 \<le> message_duration cfg \<and>
                   \<not> message_shown (overlay_timer_fires i b)
          else mb_armed b = [])"
  using message_inv_reachable [OF assms]
  by (auto simp: message_inv_def message_duration_def message_shown_def overlay_timer_fires_def split: option.splits)

theorem message_timer_invariant_witness:
  "message_shown (showGlobalMessage (JObj []) (JStr ''b'') ''info'' (showGlobalMessage (JObj []) (JStr ''a'') ''info'' no_message)) \<and>
   (\<exists>i. mb_armed (showGlobalMessage (JObj []) (JStr ''b'') ''info'' (showGlobalMessage (JObj []) (JStr ''a'') ''info'' no_message)) = [(i, message_duration (JObj []))])"
proof -
  let ?c = "showGlobalMessage (JObj []) (JStr ''b'') ''info'' (showGlobalMessage (JObj []) (JStr ''a'') ''info'' no_message)"
  have "(message_step (JObj []))\<^sup>*\<^sup>* no_message ?c"
    by (meson message_step.shows_message rtranclp.rtrancl_into_rtrancl rtranclp.rtrancl_refl)
  moreover have "message_shown ?c" by (simp add: message_defs)
  ultimately show ?thesis using message_timer_invariant [of "JObj []" ?c] by auto
qed

text \<open>The polls wait a second each: every one settles at least a second after the one before it.\<close>

fun second_apart :: "int \<Rightarrow> (int \<times> outcome) list \<Rightarrow> bool" where
  "second_apart now [] = True"
| "second_apart now ((t, out) # rest) = (now + 1000 \<le> t \<and> second_apart t rest)"

definition poll_starts :: "int \<Rightarrow> (int \<times> outcome) list \<Rightarrow> (int \<times> outcome) list" where
  "poll_starts now polls = zip (now # map fst polls) (map snd polls)"

lemma poll_starts_simps [simp]: "poll_starts now [] = []" "poll_starts now ((t, out) # rest) = (now, out) # poll_starts t rest"
  by (simp_all add: poll_starts_def)

lemma poll_starts_after: "second_apart now polls \<Longrightarrow> (s, out) \<in> set (poll_starts now polls) \<Longrightarrow> now \<le> s"
  by (induction now polls rule: second_apart.induct) fastforce+

lemma poll_loop_ends:
  "second_apart now polls \<Longrightarrow> deadline \<le> now + 1000 * int (length polls) \<Longrightarrow>
     poll_loop oldPid deadline now polls = Ended (\<exists>(s, out) \<in> set (poll_starts now polls). s < deadline \<and> came_back oldPid out)"
proof (induction now polls rule: second_apart.induct)
  case (1 now)
  then show ?case by (simp add: poll_loop.simps)
next
  case (2 now t out rest)
  show ?case
  proof (cases "now < deadline")
    case True
    then show ?thesis using 2 by (simp add: poll_loop.simps [of _ _ now])
  next
    case False
    then have "\<not> s < deadline" if "(s, out') \<in> set (poll_starts now ((t, out) # rest))" for s out'
      using poll_starts_after [OF 2(2) that] by simp
    then show ?thesis using False by (force simp: poll_loop.simps [of _ _ now])
  qed
qed

text \<open>
  C13. A restart of the streamer that the camera accepts comes to an end: with thirty polls, each at least a second after the one before, the page is finished, and it says
  that the streamer restarted exactly when one of the polls begun within the thirty seconds reported a process id other than the old one. Otherwise it says that the restart takes longer.\<close>

theorem restart_poll_ends:
  assumes "resp_ok r" "second_apart now polls" "30 \<le> length polls"
  shows "restart_settle cfg oldPid now (Answer r) polls p =
         restart_finished cfg (\<exists>(s, out) \<in> set (poll_starts now polls). s < now + 30000 \<and> came_back oldPid out) p"
  using poll_loop_ends [OF assms(2), of "now + 30000"] assms by (simp add: restart_settle_def)

lemma second_apart_replicate: "second_apart now (map (\<lambda>i. (now + 1000 * (int i + 1), out)) [0..<n])"
proof (induction n arbitrary: now)
  case (Suc n)
  have "map (\<lambda>i. (now + 1000 * (int i + 1), out)) [0..<Suc n] =
        (now + 1000, out) # map (\<lambda>i. (now + 1000 + 1000 * (int i + 1), out)) [0..<n]"
    unfolding upt_conv_Cons [OF zero_less_Suc] by (simp add: map_Suc_upt [symmetric] o_def algebra_simps del: upt_Suc map_Suc_upt)
  then show ?case using Suc [of "now + 1000"] by simp
qed simp

theorem restart_poll_ends_witness:
  "restart_settle (JObj []) (JStr ''12'') 0 (Answer \<lparr>status = 200, text_body = ''ok'', parsed = None\<rparr>)
     (map (\<lambda>i. (0 + 1000 * (int i + 1), Rejected ''offline'')) [0..<30]) \<lparr>rp_box = no_message, rp_button = None, rp_reload_after = None, rp_requests = []\<rparr> =
   restart_finished (JObj []) False \<lparr>rp_box = no_message, rp_button = None, rp_reload_after = None, rp_requests = []\<rparr>"
proof -
  let ?polls = "map (\<lambda>i. (0 + 1000 * (int i + 1), Rejected ''offline'')) [0..<30]"
  have "\<not> came_back (JStr ''12'') out" if "(s, out) \<in> set (poll_starts 0 ?polls)" for s out
    using set_zip_rightD [OF that [unfolded poll_starts_def]] by (auto simp: came_back_def status_pid_def)
  then have no: "\<not> (\<exists>(s, out) \<in> set (poll_starts 0 ?polls). s < 0 + 30000 \<and> came_back (JStr ''12'') out)" by blast
  show ?thesis
    using restart_poll_ends [where r = "\<lparr>status = 200, text_body = ''ok'', parsed = None\<rparr>" and now = 0 and polls = ?polls and cfg = "JObj []" and oldPid = "JStr ''12''"
      and p = "\<lparr>rp_box = no_message, rp_button = None, rp_reload_after = None, rp_requests = []\<rparr>", OF _ second_apart_replicate] no
    by (simp only: if_False) (simp add: resp_ok_def)
qed

text \<open>
  Where the process id before the restart is unknown (its request failed, or the answer had none), the first poll that reports any process id ends the wait as a
  success, the streamer's old process included: the page then says that the streamer restarted and reloads although it may not have stopped yet.\<close>

theorem unknown_pid_counts_as_restart:
  assumes "status_pid before = JStr []" "resp_ok r" "status_pid out = JStr pid" "pid \<noteq> []"
  shows "restart_settle cfg (status_pid before) now (Answer r) ((t, out) # polls) p = restart_finished cfg True p"
  using assms by (simp add: restart_settle_def poll_loop.simps [of _ _ now] came_back_def)

theorem unknown_pid_counts_as_restart_witness:
  "restart_settle (JObj []) (status_pid (Rejected ''offline'')) 0 (Answer \<lparr>status = 200, text_body = [], parsed = None\<rparr>)
     [(1000, Answer \<lparr>status = 200, text_body = [], parsed = Some (JObj [(''pid'', JStr ''12'')])\<rparr>)] \<lparr>rp_box = no_message, rp_button = None, rp_reload_after = None, rp_requests = []\<rparr> =
   restart_finished (JObj []) True \<lparr>rp_box = no_message, rp_button = None, rp_reload_after = None, rp_requests = []\<rparr>"
  using unknown_pid_counts_as_restart [where before = "Rejected ''offline''" and r = "\<lparr>status = 200, text_body = [], parsed = None\<rparr>"
      and out = "Answer \<lparr>status = 200, text_body = [], parsed = Some (JObj [(''pid'', JStr ''12'')])\<rparr>" and pid = "''12''" and cfg = "JObj []" and now = 0 and t = 1000
      and polls = "[]" and p = "\<lparr>rp_box = no_message, rp_button = None, rp_reload_after = None, rp_requests = []\<rparr>"]
  by (simp add: status_pid_def resp_ok_def js_or_def)

end
