(* ===== verification/Tool_Pages.thy ===== *)
theory Tool_Pages
  imports Stream_Output Page_State Markup Url
begin

text \<open>
  The network tests (\<open>tool-ping-trace.js\<close>), a page that runs a command of the camera in the console of \<open>Stream_Output\<close>. The page
  has its console as a part of its state; the console's events (\<open>Started\<close>, \<open>Finished\<close>) are handled at once, as the
  browser dispatches them. \<open>html\<close> is the browser's parser behind \<open>innerHTML\<close> (see \<open>Stream_Output\<close>), \<open>plain\<close> the text content of a markup text.
  The clipboard and line wrap buttons are browser display.
\<close>

definition ellipsis :: string where "ellipsis = map char_of [0xE2, 0x80, 0xA6 :: nat]"

text \<open>A list shows a value only where it is one of its options.\<close>

definition pick_option :: "string list \<Rightarrow> string \<Rightarrow> string" where
  "pick_option opts v = (if v \<in> set opts then v else [])"

section \<open>Network tests\<close>

record ping_page =
  pg_running :: bool
  pg_run_disabled :: bool
  pg_status :: "string \<times> string" \<comment> \<open>text and tone\<close>
  pg_heading :: string
  pg_copy_disabled :: bool
  pg_copy_hidden :: bool
  pg_actions :: "string list"
  pg_action :: string
  pg_descriptions :: "(string \<times> js) list" \<comment> \<open>the last entry of an id counts\<close>
  pg_help :: js
  pg_interfaces :: "string list"
  pg_interface :: string
  pg_target :: string
  pg_size :: string
  pg_count :: string
  pg_limits :: "(string \<times> string) \<times> (string \<times> string)" \<comment> \<open>\<open>min\<close> and \<open>max\<close> of the size and of the count\<close>
  pg_metadata :: js
  pg_console :: console

definition setRunningState :: "bool \<Rightarrow> ping_page \<Rightarrow> ping_page" where
  "setRunningState state p = p\<lparr>pg_running := state, pg_run_disabled := state\<rparr>"

definition updateStatus :: "string \<Rightarrow> string \<Rightarrow> ping_page \<Rightarrow> ping_page" where
  "updateStatus txt tone p = p\<lparr>pg_status := (txt, tone)\<rparr>"

definition clearOutput :: "ping_page \<Rightarrow> ping_page" where
  "clearOutput p =
     p\<lparr>pg_console := (pg_console p)\<lparr>inner_html := [], data_cmd := [], data_stream := [], data_encoded := []\<rparr>,
       pg_copy_disabled := True, pg_copy_hidden := True, pg_heading := ''Diagnostics output''\<rparr>"

text \<open>The default of a field the camera reports: \<open>metadata && metadata.defaults && metadata.defaults.k\<close>.\<close>

definition reported_default :: "js \<Rightarrow> string \<Rightarrow> js" where
  "reported_default metadata k = and_prop (and_prop metadata ''defaults'') k"

definition populateInterfaces :: "js \<Rightarrow> ping_page \<Rightarrow> ping_page \<times> bool" where
  "populateInterfaces list p =
     (case js_or list (JArr [JStr ''auto'']) of
        JArr vs \<Rightarrow>
          (p\<lparr>pg_interfaces := map js_text vs,
             pg_interface := pick_option (map js_text vs) (js_text (js_or (reported_default (pg_metadata p) ''interface'') (JStr ''auto'')))\<rparr>, True)
      | _ \<Rightarrow> (p\<lparr>pg_interfaces := [], pg_interface := []\<rparr>, False))"

definition updateActionHelp :: "ping_page \<Rightarrow> ping_page" where
  "updateActionHelp p =
     p\<lparr>pg_help := js_or (case map_of (rev (pg_descriptions p)) (pg_action p) of Some d \<Rightarrow> d | None \<Rightarrow> JUndef) (JStr ''Run a diagnostic test.'')\<rparr>"

text \<open>The flag says that the function returned; it throws where the actions are no array or an action is \<open>null\<close>. The ids are texts.\<close>

definition populateActions :: "js \<Rightarrow> ping_page \<Rightarrow> ping_page \<times> bool" where
  "populateActions actions p =
     (case actions of
        JArr vs \<Rightarrow>
          (let good = takeWhile (\<lambda>v. \<not> nullish v) vs; ids = map (\<lambda>v. js_text (getp v ''id'')) good;
               q = p\<lparr>pg_descriptions := map (\<lambda>v. (js_text (getp v ''id''), js_or (getp v ''description'') (JStr []))) good,
                     pg_actions := ids, pg_action := (case ids of [] \<Rightarrow> [] | i # _ \<Rightarrow> i)\<rparr>
           in if good = vs
              then (updateActionHelp (q\<lparr>pg_action := pick_option ids
                      (js_text (js_or (reported_default (pg_metadata p) ''action'')
                        (js_or (case vs of v # _ \<Rightarrow> getp v ''id'' | [] \<Rightarrow> JUndef) (JStr ''ping''))))\<rparr>), True)
              else (q, False))
      | _ \<Rightarrow> (p\<lparr>pg_descriptions := [], pg_actions := [], pg_action := []\<rparr>, False))"

definition ping_url :: string where "ping_url = ''/x/tool-ping-trace.cgi''"

definition loadMetadata :: "ping_page \<Rightarrow> ping_page \<times> effect list" where
  "loadMetadata p = (updateStatus (''Loading metadata'' @ ellipsis) ''secondary'' p, [Send (Get ping_url)])"

text \<open>The answer of both requests: a message or the payload.\<close>

definition read_payload :: "string \<Rightarrow> outcome \<Rightarrow> js + js" where
  "read_payload fallback out =
     (case out of
        Rejected m \<Rightarrow> Inl (JStr m)
      | Answer r \<Rightarrow>
          (case parsed r of
             None \<Rightarrow> Inl (JStr ''SyntaxError'')
           | Some payload \<Rightarrow>
               let err = and_prop payload ''error''
               in if \<not> resp_ok r \<or> truthy err
                  then Inl (if truthy err \<and> truthy (getp err ''message'') then getp err ''message'' else JStr fallback)
                  else Inr payload))"

definition limit_pair :: "js \<Rightarrow> string \<times> string \<Rightarrow> string \<times> string" where
  "limit_pair l old = (if truthy l then (js_text (getp l ''min''), js_text (getp l ''max'')) else old)"

definition or_values :: "js \<Rightarrow> string \<Rightarrow> string \<Rightarrow> string" where
  "or_values d old mn = number_input (if truthy d then js_text d else or_text old mn)"

definition fill_limits :: "js \<Rightarrow> ping_page \<Rightarrow> ping_page" where
  "fill_limits payload p =
     (let defaults = js_or (getp payload ''defaults'') (JObj []); limits = js_or (getp payload ''limits'') (JObj [])
      in p\<lparr>pg_size := or_values (getp defaults ''packet_size'') (pg_size p) (fst (fst (pg_limits p))),
           pg_count := or_values (getp defaults ''count'') (pg_count p) (fst (snd (pg_limits p))),
           pg_limits := (limit_pair (getp limits ''packet_size'') (fst (pg_limits p)), limit_pair (getp limits ''count'') (snd (pg_limits p)))\<rparr>)"

definition metadata_failed :: "js \<Rightarrow> ping_page \<Rightarrow> ping_page \<times> effect list" where
  "metadata_failed m p =
     (updateStatus ''Metadata unavailable. Some features may not work.'' ''danger'' p,
      [Notice ''danger'' [js_or m (JStr ''Failed to load metadata for this tool.'')] 6000])"

definition loadMetadata_settle :: "outcome \<Rightarrow> ping_page \<Rightarrow> ping_page \<times> effect list" where
  "loadMetadata_settle out p =
     (case read_payload ''Unable to load metadata.'' out of
        Inl m \<Rightarrow> metadata_failed m p
      | Inr payload \<Rightarrow>
          let p1 = p\<lparr>pg_metadata := payload\<rparr>
          in if nullish payload then metadata_failed (JStr ''TypeError'') p1
             else let (p2, ok) = populateActions (js_or (getp payload ''actions'') (JArr [])) p1
                  in if \<not> ok then metadata_failed (JStr ''TypeError'') p2
                     else let (p3, ok') = populateInterfaces (js_or (getp payload ''interfaces'') (JArr [JStr ''auto''])) p2
                          in if \<not> ok' then metadata_failed (JStr ''TypeError'') p3
                             else (updateStatus ''Metadata loaded. Ready to run tests.'' ''success'' (fill_limits payload p3), []))"

subsection \<open>Running a test\<close>

definition submitForm :: "ping_page \<Rightarrow> ping_page \<times> effect list" where
  "submitForm p =
     (if pg_running p then (p, [])
      else (updateStatus (''Preparing command'' @ ellipsis) ''info'' (setRunningState True (clearOutput p)),
            [Send (PostForm ping_url
               [(''action'', pg_action p), (''target'', trim (pg_target p)), (''interface'', or_text (pg_interface p) ''auto''),
                (''packet_size'', pg_size p), (''count'', pg_count p)])]))"

text \<open>What the page does on the console's events.\<close>

definition ping_on_start :: "string \<Rightarrow> ping_page \<Rightarrow> ping_page" where
  "ping_on_start cmd p =
     (let c = or_text cmd (data_cmd (pg_console p))
      in updateStatus (''Running test and streaming output'' @ ellipsis) ''info''
           (p\<lparr>pg_heading := (if c \<noteq> [] then ''# '' @ c else ''Diagnostics output''), pg_copy_disabled := True, pg_copy_hidden := True\<rparr>))"

definition ping_on_finish :: "(string \<Rightarrow> string) \<Rightarrow> ping_page \<Rightarrow> ping_page" where
  "ping_on_finish plain p =
     (let hasOutput = (trim (plain (inner_html (pg_console p))) \<noteq> [])
      in updateStatus ''Command finished.'' ''success'' ((setRunningState False p)\<lparr>pg_copy_disabled := \<not> hasOutput, pg_copy_hidden := \<not> hasOutput\<rparr>))"

fun ping_event :: "(string \<Rightarrow> string) \<Rightarrow> console_effect \<Rightarrow> ping_page \<Rightarrow> ping_page" where
  "ping_event plain (Started cmd) p = ping_on_start cmd p"
| "ping_event plain Finished p = ping_on_finish plain p"
| "ping_event plain _ p = p"

definition with_console :: "(string \<Rightarrow> string) \<Rightarrow> console \<times> console_effect list \<Rightarrow> ping_page \<Rightarrow> ping_page \<times> console_effect list" where
  "with_console plain r p = (fold (ping_event plain) (snd r) (p\<lparr>pg_console := fst r\<rparr>), snd r)"

definition test_failed :: "js \<Rightarrow> ping_page \<Rightarrow> ping_page \<times> effect list \<times> console_effect list" where
  "test_failed m p =
     (updateStatus ''Unable to run test.'' ''danger'' (setRunningState False p), [Notice ''danger'' [js_or m (JStr ''Network Test request failed.'')] 6000], [])"

definition submitForm_settle :: "(string \<Rightarrow> string) \<Rightarrow> (string \<Rightarrow> string) \<Rightarrow> outcome \<Rightarrow> ping_page \<Rightarrow> ping_page \<times> effect list \<times> console_effect list" where
  "submitForm_settle html plain out p =
     (case read_payload ''Unable to start the requested test.'' out of
        Inl m \<Rightarrow> test_failed m p
      | Inr payload \<Rightarrow>
          if nullish payload then test_failed (JStr ''TypeError'') p
          else let command = js_or (getp payload ''command'') (getp payload ''cmd'');
                   stream = js_text (js_or (getp payload ''stream'') (JStr [])); encoded = js_text (js_or (getp payload ''encoded'') (JStr []))
               in if \<not> truthy command then test_failed (JStr ''Response did not include a command to run.'') p
                  else let cmd = js_text command;
                           q = updateStatus (''Starting command'' @ ellipsis) ''info''
                                 (p\<lparr>pg_heading := ''# '' @ cmd,
                                    pg_console := (pg_console p)\<lparr>data_cmd := cmd, data_stream := stream, data_encoded := encoded\<rparr>\<rparr>);
                           (r, fx) = with_console plain (start_command html cmd \<lparr>o_stream = stream, o_encoded = encoded, o_reboot = None\<rparr> (pg_console q)) q
                       in (r, [], fx))"

definition ping_stream_settle :: "(string \<Rightarrow> string) \<Rightarrow> (string \<Rightarrow> string) \<Rightarrow> stream_outcome \<Rightarrow> ping_page \<Rightarrow> ping_page \<times> console_effect list" where
  "ping_stream_settle html plain out p = with_console plain (streamCommand_settle html out (pg_console p)) p"

definition ping_clear :: "ping_page \<Rightarrow> ping_page" where
  "ping_clear p = updateStatus ''Output cleared. Ready for a new test.'' ''secondary'' (clearOutput p)"

definition choose_action :: "string \<Rightarrow> ping_page \<Rightarrow> ping_page" where
  "choose_action a p = updateActionHelp (p\<lparr>pg_action := a\<rparr>)"

text \<open>The page at work: the flag says that a test's request is on its way. The command of an answer is a text.\<close>

definition text_command :: "outcome \<Rightarrow> bool" where
  "text_command out =
     (case read_payload [] out of
        Inl _ \<Rightarrow> True
      | Inr payload \<Rightarrow> let command = js_or (getp payload ''command'') (getp payload ''cmd'') in \<not> truthy command \<or> is_str command)"

inductive ping_step :: "(string \<Rightarrow> string) \<Rightarrow> (string \<Rightarrow> string) \<Rightarrow> ping_page \<times> bool \<Rightarrow> ping_page \<times> bool \<Rightarrow> bool" for html plain where
  submit: "ping_step html plain (p, w) (fst (submitForm p), w \<or> snd (submitForm p) \<noteq> [])"
| answer: "text_command out \<Longrightarrow> ping_step html plain (p, True) (fst (submitForm_settle html plain out p), False)"
| stream_end: "commandInFlight (pg_console p) \<Longrightarrow> ping_step html plain (p, w) (fst (ping_stream_settle html plain out p), w)"
| load: "ping_step html plain (p, w) (fst (loadMetadata p), w)"
| loaded: "ping_step html plain (p, w) (fst (loadMetadata_settle out p), w)"
| clear: "ping_step html plain (p, w) (ping_clear p, w)"
| choose: "ping_step html plain (p, w) (choose_action a p, w)"

definition fresh_ping :: "ping_page \<Rightarrow> bool" where
  "fresh_ping p \<longleftrightarrow> \<not> pg_running p \<and> \<not> pg_run_disabled p \<and> \<not> commandInFlight (pg_console p)"

definition ping_inv :: "ping_page \<times> bool \<Rightarrow> bool" where
  "ping_inv s \<longleftrightarrow> pg_run_disabled (fst s) = pg_running (fst s) \<and> pg_running (fst s) = (snd s \<or> commandInFlight (pg_console (fst s))) \<and>
     \<not> (snd s \<and> commandInFlight (pg_console (fst s)))"

lemmas ping_defs = setRunningState_def updateStatus_def clearOutput_def ping_clear_def choose_action_def updateActionHelp_def loadMetadata_def

lemma ping_frame:
  "pg_running (fst (populateActions a p)) = pg_running p" "pg_run_disabled (fst (populateActions a p)) = pg_run_disabled p"
  "pg_console (fst (populateActions a p)) = pg_console p"
  "pg_running (fst (populateInterfaces l p)) = pg_running p" "pg_run_disabled (fst (populateInterfaces l p)) = pg_run_disabled p"
  "pg_console (fst (populateInterfaces l p)) = pg_console p"
  "pg_running (fst (metadata_failed m p)) = pg_running p" "pg_run_disabled (fst (metadata_failed m p)) = pg_run_disabled p"
  "pg_console (fst (metadata_failed m p)) = pg_console p"
  "pg_running (fill_limits d p) = pg_running p" "pg_run_disabled (fill_limits d p) = pg_run_disabled p"
  "pg_console (fill_limits d p) = pg_console p"
  by (simp_all add: populateActions_def populateInterfaces_def metadata_failed_def fill_limits_def ping_defs Let_def split: js.split)

lemma loaded_frame:
  "pg_running (fst (loadMetadata_settle out p)) = pg_running p" "pg_run_disabled (fst (loadMetadata_settle out p)) = pg_run_disabled p"
  "pg_console (fst (loadMetadata_settle out p)) = pg_console p"
  by (simp_all add: loadMetadata_settle_def ping_frame ping_defs Let_def split_def split: sum.split)

text \<open>
  What a page relies on in its console: a command that is not empty starts on a free console and is ignored on a busy one, and the end of the stream,
  however it came, frees the console and is announced last. A page's run is a list of commands (\<open>Inl\<close>) and ends of streams (\<open>Inr\<close>).
\<close>

locale command_console =
  fixes start :: "string \<Rightarrow> start_options \<Rightarrow> 'c \<Rightarrow> 'c \<times> console_effect list" and settle :: "'r \<Rightarrow> 'c \<Rightarrow> 'c \<times> console_effect list"
    and busy :: "'c \<Rightarrow> bool"
  assumes start_free: "\<not> busy c \<Longrightarrow> cmd \<noteq> [] \<Longrightarrow> busy (fst (start cmd opts c)) \<and> (\<exists>k u. snd (start cmd opts c) = [Started k, Fetch u])"
    and start_taken: "busy c \<Longrightarrow> cmd \<noteq> [] \<Longrightarrow> busy (fst (start cmd opts c)) \<and> snd (start cmd opts c) = []"
    and settle_frees: "\<not> busy (fst (settle out c)) \<and>
      (\<exists>fx. snd (settle out c) = fx @ [Finished] \<and> (\<forall>e\<in>set fx. \<exists>u. e = Goto u))"
begin

fun run :: "(string \<times> start_options + 'r) list \<Rightarrow> 'c \<Rightarrow> 'c \<times> console_effect list" where
  "run [] c = (c, [])"
| "run (Inl (cmd, opts) # es) c = (let (d, fx) = start cmd opts c; (e, gx) = run es d in (e, fx @ gx))"
| "run (Inr out # es) c = (let (d, fx) = (if busy c then settle out c else (c, [])); (e, gx) = run es d in (e, fx @ gx))"

definition begun :: "console_effect list \<Rightarrow> nat" where
  "begun fx = length (filter (\<lambda>e. \<exists>k. e = Started k) fx)"

definition ended :: "console_effect list \<Rightarrow> nat" where
  "ended fx = length (filter (\<lambda>e. e = Finished) fx)"

lemma counts [simp]:
  "begun [] = 0" "ended [] = 0" "begun (fx @ gx) = begun fx + begun gx" "ended (fx @ gx) = ended fx + ended gx"
  "begun (e # fx) = (if \<exists>k. e = Started k then Suc (begun fx) else begun fx)" "ended (e # fx) = (if e = Finished then Suc (ended fx) else ended fx)"
  by (simp_all add: begun_def ended_def)

lemma settle_counts: "begun (snd (settle out c)) = 0 \<and> ended (snd (settle out c)) = 1 \<and> \<not> busy (fst (settle out c))"
proof -
  obtain fx where fx: "snd (settle out c) = fx @ [Finished]" "\<forall>e\<in>set fx. \<exists>u. e = Goto u" using settle_frees by blast
  then have "filter (\<lambda>e. \<exists>k. e = Started k) fx = []" "filter (\<lambda>e. e = Finished) fx = []" by (auto simp: filter_empty_conv)
  then show ?thesis using fx(1) settle_frees [of out c] by (simp add: begun_def ended_def)
qed

lemma commands_balance:
  assumes "list_all (\<lambda>x. case x of Inl p \<Rightarrow> fst p \<noteq> [] | Inr _ \<Rightarrow> True) es"
  shows "begun (snd (run es c)) + (if busy c then 1 else 0) = ended (snd (run es c)) + (if busy (fst (run es c)) then 1 else 0)"
  using assms
proof (induction es arbitrary: c)
  case (Cons x es)
  show ?case
  proof (cases x)
    case (Inl p)
    obtain cmd opts where x: "x = Inl (cmd, opts)" using Inl by (cases p) simp
    show ?thesis
      using Cons.IH [of "fst (start cmd opts c)"] Cons.prems start_free [of c cmd opts] start_taken [of c cmd opts]
      by (cases "busy c") (auto simp: x split_def Let_def)
  next
    case (Inr out)
    show ?thesis
      using Cons.IH [of "fst (settle out c)"] Cons.IH [of c] Cons.prems settle_counts [of out c] by (auto simp: Inr split_def Let_def)
  qed
qed simp

end

interpretation console: command_console "start_command html" "streamCommand_settle html" commandInFlight for html
proof
  show "\<not> commandInFlight c \<Longrightarrow> cmd \<noteq> [] \<Longrightarrow> commandInFlight (fst (start_command html cmd opts c)) \<and> (\<exists>k u. snd (start_command html cmd opts c) = [Started k, Fetch u])"
    for html c cmd opts
    by (cases "o_reboot opts") (auto simp: start_command_def startStreaming_def streamCommand_def or_else_def Let_def)
  show "commandInFlight c \<Longrightarrow> cmd \<noteq> [] \<Longrightarrow> commandInFlight (fst (start_command html cmd opts c)) \<and> snd (start_command html cmd opts c) = []" for html c cmd opts
    by (cases "o_reboot opts") (simp_all add: start_command_def startStreaming_def Let_def)
  show "\<not> commandInFlight (fst (streamCommand_settle html out c)) \<and>
      (\<exists>fx. snd (streamCommand_settle html out c) = fx @ [Finished] \<and> (\<forall>e\<in>set fx. \<exists>u. e = Goto u))" for html out c
    by (auto simp: streamCommand_settle_def finalizeStream_def Let_def)
qed

text \<open>
  Commands and their ends alternate: whatever commands a page starts on a free console and however their streams end, as many
  have begun as have ended, but for the one that runs.\<close>

theorem commands_alternate:
  assumes "\<not> commandInFlight c" "list_all (\<lambda>x. case x of Inl p \<Rightarrow> fst p \<noteq> [] | Inr _ \<Rightarrow> True) es"
  shows "console.begun (snd (console.run html es c)) = console.ended (snd (console.run html es c)) + (if commandInFlight (fst (console.run html es c)) then 1 else 0)"
  using console.commands_balance [OF assms(2), of html c] assms(1) by simp

lemma event_console: "pg_console (ping_event plain e p) = pg_console p"
  by (cases e) (simp_all add: ping_on_start_def ping_on_finish_def ping_defs Let_def)

lemma events_console: "pg_console (fold (ping_event plain) es p) = pg_console p"
  by (induction es arbitrary: p) (simp_all add: event_console)

lemma other_events: "\<forall>e\<in>set fx. \<exists>u. e = Goto u \<Longrightarrow> fold (ping_event plain) fx p = p"
  by (induction fx arbitrary: p) auto

lemma stream_end_inv:
  "pg_running (fst (ping_stream_settle html plain out p)) = False" "pg_run_disabled (fst (ping_stream_settle html plain out p)) = False"
  "commandInFlight (pg_console (fst (ping_stream_settle html plain out p))) = False"
proof -
  obtain fx where fx: "snd (streamCommand_settle html out (pg_console p)) = fx @ [Finished]" "\<forall>e\<in>set fx. \<exists>u. e = Goto u"
    using console.settle_frees by blast
  show "pg_running (fst (ping_stream_settle html plain out p)) = False" "pg_run_disabled (fst (ping_stream_settle html plain out p)) = False"
    "commandInFlight (pg_console (fst (ping_stream_settle html plain out p))) = False"
    using console.settle_frees [of html out "pg_console p"] other_events [OF fx(2)]
    by (simp_all add: ping_stream_settle_def with_console_def fx(1) events_console ping_on_finish_def ping_defs Let_def)
qed

lemma started_inv:
  assumes "\<not> commandInFlight c" "cmd \<noteq> []" "pg_running p" "pg_run_disabled p"
  shows "pg_running (fst (with_console plain (start_command html cmd opts c) p)) \<and> pg_run_disabled (fst (with_console plain (start_command html cmd opts c) p)) \<and>
         commandInFlight (pg_console (fst (with_console plain (start_command html cmd opts c) p)))"
  using console.start_free [OF assms(1,2), of html opts] assms(3,4)
  by (auto simp: with_console_def ping_on_start_def ping_defs Let_def)


lemma read_payload_any: "read_payload a out = Inr d \<Longrightarrow> read_payload b out = Inr d"
  by (auto simp: read_payload_def Let_def split: outcome.splits option.splits if_splits)

lemma answer_inv:
  assumes "text_command out" "ping_inv (p, True)"
  shows "ping_inv (fst (submitForm_settle html plain out p), False)"
proof (cases "read_payload ''Unable to start the requested test.'' out")
  case (Inl m)
  then show ?thesis using assms(2) by (simp add: submitForm_settle_def test_failed_def ping_inv_def ping_defs)
next
  case (Inr d)
  define command where "command = js_or (getp d ''command'') (getp d ''cmd'')"
  have p: "pg_running p" "pg_run_disabled p" "\<not> commandInFlight (pg_console p)" using assms(2) by (simp_all add: ping_inv_def)
  have "\<not> truthy command \<or> js_text command \<noteq> []"
    using assms(1) read_payload_any [OF Inr, of "[]"] by (cases command) (auto simp: text_command_def command_def [symmetric] Let_def)
  then show ?thesis
    using p Inr started_inv [of "(pg_console p)\<lparr>data_cmd := js_text command, data_stream := s, data_encoded := e\<rparr>" "js_text command" _ plain html for s e]
    by (auto simp: submitForm_settle_def test_failed_def ping_inv_def ping_defs command_def [symmetric] Let_def split_def)
qed

lemma ping_step_inv: "ping_step html plain s t \<Longrightarrow> ping_inv s \<Longrightarrow> ping_inv t"
proof (induction rule: ping_step.induct)
  case (submit p w)
  then show ?case by (auto simp: submitForm_def ping_inv_def ping_defs)
next
  case (answer out p)
  then show ?case by (rule answer_inv)
next
  case (stream_end p w out)
  then show ?case using stream_end_inv [of html plain out p] by (auto simp: ping_inv_def)
qed (simp_all add: ping_inv_def loaded_frame ping_defs)

text \<open>
  C11. The network test page never hangs and never runs two tests: along every sequence of clicks, answers and ends of streams, the page is running a test exactly while its
  request is on its way or its command streams, never both, and the button is disabled exactly then. Every answer without a command and every end of a stream, however it came, frees the page.\<close>

theorem one_test_at_a_time:
  assumes "fresh_ping p" "(ping_step html plain)\<^sup>*\<^sup>* (p, False) (q, w)"
  shows "pg_running q = (w \<or> commandInFlight (pg_console q)) \<and> \<not> (w \<and> commandInFlight (pg_console q)) \<and> pg_run_disabled q = pg_running q \<and>
         \<not> pg_running (fst (ping_stream_settle html plain end q)) \<and> (snd (submitForm q) \<noteq> [] \<longleftrightarrow> \<not> pg_running q)"
proof -
  have "ping_inv (p, False)" using assms(1) by (simp add: ping_inv_def fresh_ping_def)
  have "ping_inv s \<Longrightarrow> ping_inv t" if "(ping_step html plain)\<^sup>*\<^sup>* s t" for s t
    using that by (induction rule: rtranclp_induct) (blast intro: ping_step_inv)+
  with assms(2) \<open>ping_inv (p, False)\<close> have "ping_inv (q, w)" by blast
  then show ?thesis using stream_end_inv by (auto simp: ping_inv_def submitForm_def)
qed

definition sample_ping :: ping_page where
  "sample_ping = \<lparr>pg_running = False, pg_run_disabled = False, pg_status = ([], []), pg_heading = [], pg_copy_disabled = True, pg_copy_hidden = True, pg_actions = [''ping''],
     pg_action = ''ping'', pg_descriptions = [], pg_help = JStr [], pg_interfaces = [''auto''], pg_interface = ''auto'', pg_target = ''thingino.com'', pg_size = ''56'',
     pg_count = ''5'', pg_limits = ((''56'', ''65535''), (''1'', ''30'')), pg_metadata = JNull,
     pg_console = \<lparr>commandInFlight = False, inner_html = [], data_reboot = [], data_cmd = [], data_stream = [], data_encoded = []\<rparr>\<rparr>"

theorem one_test_at_a_time_witness:
  "pg_running (fst (submitForm sample_ping)) \<and> snd (submitForm (fst (submitForm sample_ping))) = []"
proof -
  have "ping_step id id (sample_ping, False) (fst (submitForm sample_ping), True)"
    using ping_step.submit [of id id sample_ping False] by (simp add: submitForm_def sample_ping_def)
  then have "(ping_step id id)\<^sup>*\<^sup>* (sample_ping, False) (fst (submitForm sample_ping), True)" by blast
  moreover have "fresh_ping sample_ping" by (simp add: fresh_ping_def sample_ping_def)
  ultimately show ?thesis using one_test_at_a_time [of sample_ping id id "fst (submitForm sample_ping)" True] by auto
qed

end
