(* ===== verification/Firmware_Pages.thy ===== *)
theory Firmware_Pages
  imports Tool_Pages
begin

text \<open>
  The firmware pages: upgrade (\<open>tool-upgrade.js\<close>), reset overview (\<open>reset.js\<close>), reset (\<open>firmware-reset.js\<close>) and the waiting page (\<open>wait.js\<close>).
  Upgrade and reset run a command of the camera in the console of \<open>Stream_Output\<close>. A file to upload is its name; \<open>html\<close>, \<open>plain\<close> and \<open>nodes\<close> are what
  the browser makes of a markup text: its serialisation, its text and its nodes.
\<close>

section \<open>Firmware upgrade\<close>

fun has_own_key :: "js \<Rightarrow> string \<Rightarrow> bool" where
  "has_own_key (JObj kvs) k = (map_of kvs k \<noteq> None)"
| "has_own_key _ k = False"

fun getNested :: "js \<Rightarrow> string list \<Rightarrow> js \<Rightarrow> js" where
  "getNested current [] fallback = (if current = JUndef then fallback else current)"
| "getNested current (k # ks) fallback =
     (if \<not> truthy current \<or> \<not> is_object current \<or> \<not> has_own_key current k then fallback else getNested (getp current k) ks fallback)"

text \<open>A button with its spinner: \<open>buttonLabels\<close> keeps the label it gets back.\<close>

record busy_button =
  bb_disabled :: bool
  bb_spinning :: bool

definition setButtonBusy :: "bool \<Rightarrow> busy_button \<Rightarrow> busy_button" where
  "setButtonBusy busy b = b\<lparr>bb_disabled := busy, bb_spinning := busy\<rparr>"

record upgrade_page =
  ug_metadata :: js
  ug_partitions :: "(string \<times> string) list" \<comment> \<open>value and label of the options\<close>
  ug_partition :: string
  ug_partition_disabled :: bool
  ug_status :: "string \<times> string"
  ug_refresh_disabled :: bool
  ug_busy :: busy_bar
  ug_ota :: busy_button
  ug_upload :: busy_button
  ug_files :: "string list"
  ug_copy_disabled :: bool
  ug_modal_shown :: bool
  ug_console :: console

datatype upgrade_effect = Do effect | Upload string | RunConsole console_effect

definition upgrade_url :: string where "upgrade_url = ''/x/tool-upgrade.cgi''"

definition upgrade_setStatus :: "string \<Rightarrow> string \<Rightarrow> upgrade_page \<Rightarrow> upgrade_page" where
  "upgrade_setStatus txt tone p = p\<lparr>ug_status := (txt, tone)\<rparr>"

definition partition_option :: "js \<Rightarrow> string \<times> string" where
  "partition_option part =
     (js_text (js_or (getp part ''download_url'') (JStr (upgrade_url @ ''?partition='' @ js_text (getp part ''id'')))),
      js_text (js_or (getp part ''label'') (getp part ''id'')))"

text \<open>The flag says that the function returned; a partition that is \<open>null\<close> makes it throw.\<close>

definition populatePartitions :: "js list \<Rightarrow> upgrade_page \<Rightarrow> upgrade_page \<times> bool" where
  "populatePartitions vs p =
     (if vs = []
      then (p\<lparr>ug_partitions := [(''No mtd partitions detected'', ''No mtd partitions detected'')], ug_partition := ''No mtd partitions detected'',
              ug_partition_disabled := True\<rparr>, True)
      else let good = takeWhile (\<lambda>v. \<not> nullish v) vs; opts = map partition_option good;
               q = p\<lparr>ug_partitions := opts, ug_partition := (case opts of [] \<Rightarrow> [] | x # _ \<Rightarrow> fst x)\<rparr>
           in if good = vs then (q\<lparr>ug_partition_disabled := False\<rparr>, True) else (q, False))"

definition upgrade_applyState :: "js \<Rightarrow> upgrade_page \<Rightarrow> upgrade_page \<times> bool" where
  "upgrade_applyState data p =
     populatePartitions (case getNested data [''mtd'', ''partitions''] (JArr []) of JArr vs \<Rightarrow> vs | _ \<Rightarrow> []) (p\<lparr>ug_metadata := data\<rparr>)"

definition upgrade_loadState :: "upgrade_page \<Rightarrow> upgrade_page \<times> upgrade_effect list" where
  "upgrade_loadState p = (p\<lparr>ug_busy := showBusy (ug_busy p), ug_refresh_disabled := True\<rparr>, [Do (Send (Get upgrade_url))])"

text \<open>The answer of the three requests: \<open>new Error(message)\<close> makes a text of the message.\<close>

definition upgrade_answer :: "string \<Rightarrow> outcome \<Rightarrow> string + js" where
  "upgrade_answer fallback out =
     (case out of
        Rejected m \<Rightarrow> Inl m
      | Answer r \<Rightarrow>
          (case parsed r of
             None \<Rightarrow> Inl ''SyntaxError''
           | Some payload \<Rightarrow>
               if resp_ok r \<and> nullish payload then Inl ''TypeError''
               else if \<not> resp_ok r \<or> truthy (getp payload ''error'') then Inl (js_text (getNested payload [''error'', ''message''] (JStr fallback)))
               else Inr payload))"

definition alert :: "string \<Rightarrow> string \<Rightarrow> upgrade_effect" where
  "alert tone txt = Do (Notice tone [JStr txt] 6000)"

definition upgrade_loadState_settle :: "outcome \<Rightarrow> upgrade_page \<Rightarrow> upgrade_page \<times> upgrade_effect list" where
  "upgrade_loadState_settle out p =
     (let fin = (\<lambda>q. q\<lparr>ug_busy := hideBusy (ug_busy q), ug_refresh_disabled := False\<rparr>);
          failed = (\<lambda>m q. (fin (upgrade_setStatus ''Flash metadata unavailable.'' ''danger'' q), [alert ''danger'' (or_text m ''Failed to load flash metadata.'')]))
      in case upgrade_answer ''Unable to load flash metadata.'' out of
           Inl m \<Rightarrow> failed m p
         | Inr payload \<Rightarrow>
             let (q, ok) = upgrade_applyState (js_or (getp payload ''data'') (JObj [])) p
             in if ok then (fin (upgrade_setStatus ''Flash metadata loaded.'' ''success'' q), []) else failed ''TypeError'' q)"

subsection \<open>Running a command\<close>

definition handleCommandStart :: "upgrade_page \<Rightarrow> upgrade_page" where
  "handleCommandStart p = p\<lparr>ug_copy_disabled := True, ug_busy := showBusy (ug_busy p), ug_modal_shown := True\<rparr>"

definition handleCommandFinished :: "(string \<Rightarrow> string) \<Rightarrow> upgrade_page \<Rightarrow> upgrade_page \<times> upgrade_effect list" where
  "handleCommandFinished plain p =
     upgrade_loadState (p\<lparr>ug_busy := hideBusy (ug_busy p), ug_copy_disabled := (trim (plain (inner_html (ug_console p))) = [])\<rparr>)"

fun upgrade_events :: "(string \<Rightarrow> string) \<Rightarrow> console_effect list \<Rightarrow> upgrade_page \<Rightarrow> upgrade_page \<times> upgrade_effect list" where
  "upgrade_events plain [] p = (p, [])"
| "upgrade_events plain (e # es) p =
     (let (q, fx) = (case e of
            Started _ \<Rightarrow> (handleCommandStart p, [RunConsole e])
          | Finished \<Rightarrow> (let (q, gx) = handleCommandFinished plain p in (q, RunConsole e # gx))
          | _ \<Rightarrow> (p, [RunConsole e]));
          (r, gx) = upgrade_events plain es q
      in (r, fx @ gx))"

definition startCommand :: "(string \<Rightarrow> string) \<Rightarrow> (string \<Rightarrow> string) \<Rightarrow> string \<Rightarrow> upgrade_page \<Rightarrow> upgrade_page \<times> upgrade_effect list" where
  "startCommand html plain command p =
     (if command = [] then (p, [alert ''warning'' ''No command returned by the firmware.''])
      else let (c, fx) = start_command html command \<lparr>o_stream = [], o_encoded = [], o_reboot = Some True\<rparr> ((ug_console p)\<lparr>data_reboot := ''true''\<rparr>)
           in upgrade_events plain fx (p\<lparr>ug_console := c\<rparr>))"

definition upgrade_stream_settle :: "(string \<Rightarrow> string) \<Rightarrow> (string \<Rightarrow> string) \<Rightarrow> stream_outcome \<Rightarrow> upgrade_page \<Rightarrow> upgrade_page \<times> upgrade_effect list" where
  "upgrade_stream_settle html plain out p =
     (let (c, fx) = streamCommand_settle html out (ug_console p) in upgrade_events plain fx (p\<lparr>ug_console := c\<rparr>))"

subsection \<open>Upgrade from the network\<close>

text \<open>The chosen option (its value and label); the confirmation, and what its answer does.\<close>

definition ota_question :: "(string \<times> string) option \<Rightarrow> string" where
  "ota_question selected =
     ''Are you sure you want to download and apply '' @ (case selected of Some (v, l) \<Rightarrow> l | None \<Rightarrow> ''update'') @ ''?'' @ [CHR 0x0A, CHR 0x0A] @
     ''This will reboot the camera when finished.''"

definition handleOtaClick :: "(string \<times> string) option \<Rightarrow> upgrade_effect list" where
  "handleOtaClick selected = [Do (Confirm [JStr (ota_question selected)])]"

definition requestOtaCommand :: "string \<Rightarrow> upgrade_page \<Rightarrow> upgrade_page \<times> upgrade_effect list" where
  "requestOtaCommand option p =
     (p\<lparr>ug_ota := setButtonBusy True (ug_ota p)\<rparr>, [Do (Send (PostForm upgrade_url [(''action'', ''ota''), (''option'', option)]))])"

definition ota_confirmed :: "(string \<times> string) option \<Rightarrow> bool \<Rightarrow> upgrade_page \<Rightarrow> upgrade_page \<times> upgrade_effect list" where
  "ota_confirmed selected yes p =
     (if yes then requestOtaCommand (case selected of Some (v, l) \<Rightarrow> v | None \<Rightarrow> ''partial'') p else (p, []))"

definition requestOtaCommand_settle :: "(string \<Rightarrow> string) \<Rightarrow> (string \<Rightarrow> string) \<Rightarrow> outcome \<Rightarrow> upgrade_page \<Rightarrow> upgrade_page \<times> upgrade_effect list" where
  "requestOtaCommand_settle html plain out p =
     (let (q, fx) = (case upgrade_answer ''OTA request failed.'' out of
            Inl m \<Rightarrow> (upgrade_setStatus ''OTA request failed.'' ''danger'' p, [alert ''danger'' (or_text m ''Failed to start OTA upgrade.'')])
          | Inr payload \<Rightarrow>
              (let (q, gx) = startCommand html plain (js_text (js_or (getp payload ''command'') (JStr []))) p
               in (q, (if truthy (getp payload ''message'') then [Do (Notice ''success'' [getp payload ''message''] 6000)] else []) @ gx)))
      in (q\<lparr>ug_ota := setButtonBusy False (ug_ota q)\<rparr>, fx))"

subsection \<open>Upgrade from a file\<close>

definition choose_files :: "string list \<Rightarrow> upgrade_page \<Rightarrow> upgrade_page" where
  "choose_files fs p = p\<lparr>ug_files := fs, ug_upload := (ug_upload p)\<lparr>bb_disabled := (fs = [])\<rparr>\<rparr>"

definition uploadFirmware :: "upgrade_page \<Rightarrow> upgrade_page \<times> upgrade_effect list" where
  "uploadFirmware p =
     (case ug_files p of
        [] \<Rightarrow> (p, [alert ''warning'' ''Select a firmware image first.''])
      | f # _ \<Rightarrow> (p\<lparr>ug_upload := setButtonBusy True (ug_upload p), ug_busy := showBusy (ug_busy p)\<rparr>, [Upload f]))"

definition uploadFirmware_settle :: "(string \<Rightarrow> string) \<Rightarrow> (string \<Rightarrow> string) \<Rightarrow> outcome \<Rightarrow> upgrade_page \<Rightarrow> upgrade_page \<times> upgrade_effect list" where
  "uploadFirmware_settle html plain out p =
     (let (q, fx) = (case upgrade_answer ''Firmware upload failed.'' out of
            Inl m \<Rightarrow> (upgrade_setStatus ''Upload failed.'' ''danger'' p, [alert ''danger'' (or_text m ''Firmware upload failed.'')])
          | Inr payload \<Rightarrow>
              (let (q, gx) = startCommand html plain
                     (js_text (js_or (getp payload ''command'') (getNested (ug_metadata p) [''upload'', ''command''] (JStr [])))) p
               in (q\<lparr>ug_files := [], ug_upload := (ug_upload q)\<lparr>bb_disabled := True\<rparr>\<rparr>,
                   Do (Notice ''success'' [js_or (getp payload ''message'') (JStr ''Firmware uploaded. Ready to flash.'')] 6000) # gx)))
      in (q\<lparr>ug_busy := hideBusy (ug_busy q), ug_upload := setButtonBusy False (ug_upload q)\<rparr>, fx))"

subsection \<open>Downloads\<close>

definition handleBackupDownload :: "upgrade_page \<Rightarrow> upgrade_effect list" where
  "handleBackupDownload p =
     (let url = getNested (ug_metadata p) [''backup'', ''download_url''] (JStr [])
      in if truthy url then [Do (Redirect (js_text url))] else [alert ''warning'' ''Backup endpoint unavailable.''])"

definition handlePartitionDownload :: "upgrade_page \<Rightarrow> upgrade_effect list" where
  "handlePartitionDownload p =
     (if ug_partition p = [] then [alert ''warning'' ''Select a partition first.''] else [Do (Redirect (ug_partition p))])"

definition clear_log :: "upgrade_page \<Rightarrow> upgrade_page" where
  "clear_log p = p\<lparr>ug_console := (ug_console p)\<lparr>inner_html := []\<rparr>, ug_copy_disabled := True\<rparr>"

section \<open>Firmware reset\<close>

record reset_page =
  rs_status :: string
  rs_title :: string
  rs_summary :: string
  rs_output_shown :: bool
  rs_console :: console

definition ACTIONS :: "(string \<times> string \<times> string) list" where
  "ACTIONS =
     [(''wipeoverlay'', ''Wipe overlay partition'', ''Erase all files stored in the overlay partition. Most customizations will be lost.''),
      (''fullreset'', ''Reset firmware to defaults'', ''Factory reset the firmware and overlay partition. All settings and files will be removed.'')]"

definition requestCommand :: "string \<Rightarrow> reset_page \<Rightarrow> reset_page \<times> effect list" where
  "requestCommand actionId p =
     (case map_of ACTIONS actionId of
        None \<Rightarrow> (p\<lparr>rs_status := ''Select an action from the Reset page to continue.''\<rparr>,
          [Notice ''warning'' [JStr ''No reset action selected. Use the Reset page to choose what to wipe.''] 6000])
      | Some (title, description) \<Rightarrow>
          (p\<lparr>rs_title := title, rs_summary := description, rs_status := ''Preparing reset command...''\<rparr>,
           [Send (PostJson ''/x/firmware-reset.cgi'' (JObj [(''action'', JStr actionId)]))]))"

definition requestCommand_settle :: "(string \<Rightarrow> string) \<Rightarrow> outcome \<Rightarrow> reset_page \<Rightarrow> reset_page \<times> effect list \<times> console_effect list" where
  "requestCommand_settle html out p =
     (let failed = (\<lambda>m. (p\<lparr>rs_status := ''Reset aborted.''\<rparr>, [Notice ''danger'' [js_or m (JStr ''Unable to start the requested reset action.'')] 6000], []))
      in case read_payload ''Failed to prepare reset command.'' out of
           Inl m \<Rightarrow> failed m
         | Inr payload \<Rightarrow>
             if nullish payload then failed (JStr ''TypeError'')
             else let command = js_or (js_or (getp payload ''command'') (getp payload ''cmd'')) (JStr [])
                  in if \<not> truthy command then failed (JStr ''Reset command response did not include a command.'')
                     else let cmd = js_text command; reboot = (getp payload ''reboot'' \<noteq> JBool False);
                              (c, fx) = start_command html cmd \<lparr>o_stream = [], o_encoded = [], o_reboot = Some reboot\<rparr>
                                ((rs_console p)\<lparr>data_cmd := cmd, data_reboot := (if reboot then ''true'' else ''false'')\<rparr>)
                          in (p\<lparr>rs_output_shown := True, rs_status := ''Executing command...'', rs_console := c\<rparr>, [], fx))"

section \<open>The reset overview\<close>

definition buildCta :: "js \<Rightarrow> node option" where
  "buildCta cta =
     (let variant = js_text (js_or (getp cta ''variant'') (JStr ''secondary''))
      in if getp cta ''type'' = JStr ''form''
         then Some (Elem ''form''
                [(''method'', js_text (js_or (getp cta ''method'') (JStr ''POST''))), (''action'', js_text (js_or (getp cta ''action'') (JStr ''#'')))]
                (map (\<lambda>f. Elem ''input'' [(''type'', ''hidden''), (''name'', js_text (getp f ''name'')), (''value'', js_text (getp f ''value''))] [])
                   (case getp cta ''fields'' of JArr fs \<Rightarrow> fs | _ \<Rightarrow> []) @
                 [Elem ''button'' [(''type'', ''submit''), (''class'', ''btn btn-'' @ variant)] [TextNode (js_text (js_or (getp cta ''button'') (JStr ''Continue'')))]]))
         else if getp cta ''type'' = JStr ''link''
         then Some (Elem ''a'' [(''href'', js_text (js_or (getp cta ''href'') (JStr ''#''))), (''class'', ''btn btn-'' @ variant)]
                [TextNode (js_text (js_or (getp cta ''text'') (JStr ''Continue'')))])
         else None)"

definition createActionCard :: "(string \<Rightarrow> node list) \<Rightarrow> js \<Rightarrow> node" where
  "createActionCard nodes action =
     Elem ''div'' [(''class'', ''col'')]
       [Elem ''div'' [(''class'', ''alert alert-danger h-100 d-flex flex-column'')]
         ([Elem ''h4'' [(''class'', ''alert-heading'')] [TextNode (js_text (js_or (getp action ''title'') (JStr ''Reset action'')))],
           Elem ''p'' [(''class'', ''flex-grow-1'')] (nodes (js_text (js_or (getp action ''description_html'') (JStr []))))] @
          (case buildCta (js_or (getp action ''cta'') (JObj [])) of Some n \<Rightarrow> [n] | None \<Rightarrow> []))]"

text \<open>Where building a card throws: the action is \<open>null\<close>, or its form has fields that are no list of values.\<close>

definition action_card_ok :: "js \<Rightarrow> bool" where
  "action_card_ok action \<longleftrightarrow> \<not> nullish action \<and>
     (let cta = js_or (getp action ''cta'') (JObj [])
      in getp cta ''type'' = JStr ''form'' \<longrightarrow>
           (case getp cta ''fields'' of JArr fs \<Rightarrow> list_all (\<lambda>f. \<not> nullish f) fs | v \<Rightarrow> \<not> truthy v))"

record actions_page =
  ac_grid :: "node list"
  ac_status :: "(string \<times> string) option" \<comment> \<open>text and tone, where it is shown\<close>

definition loadActions :: "bool \<Rightarrow> actions_page \<Rightarrow> actions_page \<times> effect list" where
  "loadActions showSpinner p =
     ((if showSpinner then p\<lparr>ac_status := Some (''Loading reset options...'', ''info'')\<rparr> else p), [Send (Get ''/x/reset.cgi'')])"

definition loadActions_settle :: "(string \<Rightarrow> node list) \<Rightarrow> outcome \<Rightarrow> actions_page \<Rightarrow> actions_page \<times> effect list" where
  "loadActions_settle nodes out p =
     (let failed_on = (\<lambda>m q. (q\<lparr>ac_status := Some (''Unable to load reset options. Try again.'', ''danger'')\<rparr>,
            [Notice ''danger'' [JStr (or_text m ''Unknown error'')] 6000])); failed = (\<lambda>m. failed_on m p)
      in case out of
           Rejected m \<Rightarrow> failed m
         | Answer r \<Rightarrow>
             if \<not> resp_ok r then failed (''Request failed with status '' @ show_int (status r))
             else (case parsed r of
                     None \<Rightarrow> failed ''SyntaxError''
                   | Some payload \<Rightarrow>
                       if nullish payload then failed ''TypeError''
                       else (case getp payload ''actions'' of
                               JArr (a # as) \<Rightarrow>
                                 (let q = p\<lparr>ac_grid := map (createActionCard nodes) (takeWhile action_card_ok (a # as)), ac_status := None\<rparr>
                                  in if list_all action_card_ok (a # as) then (q, []) else failed_on ''TypeError'' q)
                             | _ \<Rightarrow> (p\<lparr>ac_grid := [], ac_status := Some (''No reset actions available right now.'', ''warning'')\<rparr>, []))))"

section \<open>The waiting page\<close>

record wait_page =
  wt_s :: nat
  wt_value :: nat
  wt_timer :: bool \<comment> \<open>the timer of \<open>t\<close> is set\<close>
  wt_asking :: nat \<comment> \<open>requests on their way\<close>
  wt_asked :: nat \<comment> \<open>requests so far\<close>
  wt_gone :: bool \<comment> \<open>the page was replaced\<close>

datatype wait_event = Tick | Settled bool

definition wait_t :: "nat \<Rightarrow> wait_page \<Rightarrow> wait_page" where
  "wait_t mx p =
     (let q = p\<lparr>wt_s := Suc (wt_s p), wt_value := min mx (Suc (wt_s p)), wt_timer := False\<rparr>
      in if Suc (wt_s p) = mx then q\<lparr>wt_asking := Suc (wt_asking p), wt_asked := Suc (wt_asked p)\<rparr> else q\<lparr>wt_timer := True\<rparr>)"

definition wait_g_settle :: "bool \<Rightarrow> wait_page \<Rightarrow> wait_page" where
  "wait_g_settle ok p =
     (let q = p\<lparr>wt_asking := wt_asking p - 1\<rparr> in if ok then q\<lparr>wt_gone := True\<rparr> else q\<lparr>wt_s := 0, wt_timer := True\<rparr>)"

fun wait_step :: "nat \<Rightarrow> wait_event \<Rightarrow> wait_page \<Rightarrow> wait_page" where
  "wait_step mx Tick p = (if wt_timer p then wait_t mx p else p)"
| "wait_step mx (Settled ok) p = (if 0 < wt_asking p then wait_g_settle ok p else p)"

definition wait_start :: wait_page where
  "wait_start = \<lparr>wt_s = 0, wt_value = 0, wt_timer = True, wt_asking = 0, wt_asked = 0, wt_gone = False\<rparr>"


section \<open>Lemmas\<close>

lemma wait_ticks:
  assumes "wt_timer p" "wt_s p + n < mx"
  shows "fold (wait_step mx) (replicate n Tick) p = p\<lparr>wt_s := wt_s p + n, wt_value := (if n = 0 then wt_value p else wt_s p + n)\<rparr>"
  using assms
proof (induction n arbitrary: p)
  case (Suc n)
  have "wait_step mx Tick p = p\<lparr>wt_s := Suc (wt_s p), wt_value := Suc (wt_s p)\<rparr>"
    using Suc.prems by (simp add: wait_t_def Let_def)
  then show ?case using Suc.IH [of "p\<lparr>wt_s := Suc (wt_s p), wt_value := Suc (wt_s p)\<rparr>"] Suc.prems by simp
qed simp

lemma wait_round:
  assumes "wt_timer p" "wt_s p = 0" "wt_asking p = 0" "0 < mx"
  shows "fold (wait_step mx) (replicate mx Tick @ [Settled ok]) p =
         (let q = p\<lparr>wt_value := mx, wt_asked := Suc (wt_asked p), wt_asking := 0\<rparr>
          in if ok then q\<lparr>wt_s := mx, wt_timer := False, wt_gone := True\<rparr> else q)"
proof -
  obtain m where m: "mx = Suc m" using assms(4) by (cases mx) auto
  have "replicate mx Tick = replicate m Tick @ [Tick]" using m replicate_append_same [of m Tick] by simp
  moreover have "fold (wait_step mx) (replicate m Tick) p = p\<lparr>wt_s := m, wt_value := (if m = 0 then wt_value p else m)\<rparr>"
    using wait_ticks [of p m mx] assms m by simp
  ultimately show ?thesis using assms m by (cases ok) (simp_all add: wait_t_def wait_g_settle_def Let_def)
qed

lemma wait_rounds:
  assumes "wt_timer p" "wt_s p = 0" "wt_asking p = 0" "0 < mx"
  shows "fold (wait_step mx) (concat (replicate k (replicate mx Tick @ [Settled False]))) p =
         p\<lparr>wt_value := (if k = 0 then wt_value p else mx), wt_asked := wt_asked p + k\<rparr>"
  using assms
proof (induction k arbitrary: p)
  case (Suc k)
  let ?R = "replicate mx Tick @ [Settled False]" and ?q = "p\<lparr>wt_value := mx, wt_asked := Suc (wt_asked p)\<rparr>"
  have "fold (wait_step mx) ?R p = ?q"
    using wait_round [OF Suc.prems, of False] Suc.prems by (simp add: Let_def)
  then have "fold (wait_step mx) (concat (replicate (Suc k) ?R)) p = fold (wait_step mx) (concat (replicate k ?R)) ?q"
    unfolding replicate_Suc concat.simps fold_append comp_def by simp
  then show ?case using Suc.IH [of ?q] Suc.prems by simp
qed simp

text \<open>
  The waiting page leaves as soon as the camera answers: it asks after every full count of the progress bar and never in between, starts over after a failure, and after
  any number of failures the first answer, and only an answer, takes the browser back to the camera.\<close>

theorem wait_page_leaves:
  assumes "0 < mx"
  shows "fold (wait_step mx) (concat (replicate k (replicate mx Tick @ [Settled False])) @ replicate mx Tick @ [Settled True]) wait_start =
         \<lparr>wt_s = mx, wt_value = mx, wt_timer = False, wt_asking = 0, wt_asked = Suc k, wt_gone = True\<rparr>"
proof -
  have "fold (wait_step mx) (concat (replicate k (replicate mx Tick @ [Settled False]))) wait_start =
      wait_start\<lparr>wt_value := (if k = 0 then 0 else mx), wt_asked := k\<rparr>"
    using wait_rounds [of wait_start mx k] assms by (simp add: wait_start_def)
  then show ?thesis
    using wait_round [of "wait_start\<lparr>wt_value := (if k = 0 then 0 else mx), wt_asked := k\<rparr>" mx True] assms
    by (simp add: wait_start_def Let_def)
qed

theorem wait_page_leaves_witness:
  "wt_gone (fold (wait_step 20) (concat (replicate 2 (replicate 20 Tick @ [Settled False])) @ replicate 20 Tick @ [Settled True]) wait_start)"
  by (subst wait_page_leaves) simp_all


section \<open>Upgrades\<close>

text \<open>The answer that starts a command: it is read without an error and names the command.\<close>

definition starts :: "outcome \<Rightarrow> string \<Rightarrow> js \<Rightarrow> bool" where
  "starts out cmd payload \<longleftrightarrow> (\<forall>m. upgrade_answer m out = Inr payload) \<and> getp payload ''command'' = JStr cmd \<and> cmd \<noteq> []"

lemma events_frame:
  "ug_console (fst (upgrade_events plain es p)) = ug_console p" "ug_files (fst (upgrade_events plain es p)) = ug_files p"
  "ug_upload (fst (upgrade_events plain es p)) = ug_upload p" "ug_metadata (fst (upgrade_events plain es p)) = ug_metadata p"
  by (induction es arbitrary: p)
    (simp_all add: handleCommandStart_def handleCommandFinished_def upgrade_loadState_def Let_def split_def split: console_effect.split)

lemma startCommand_free:
  assumes "\<not> commandInFlight (ug_console p)" "cmd \<noteq> []"
  shows "commandInFlight (ug_console (fst (startCommand html plain cmd p))) \<and> data_reboot (ug_console (fst (startCommand html plain cmd p))) = ''true''"
  using assms
  by (simp add: startCommand_def start_command_def startStreaming_def streamCommand_def or_else_def Let_def split_def events_frame)

lemma startCommand_taken:
  assumes "commandInFlight (ug_console p)" "cmd \<noteq> []"
  shows "startCommand html plain cmd p = (p\<lparr>ug_console := (ug_console p)\<lparr>data_reboot := ''true''\<rparr>\<rparr>, [])"
  using assms by (simp add: startCommand_def start_command_def startStreaming_def Let_def)

lemma stream_end_reboots:
  "data_reboot c = ''true'' \<Longrightarrow> snd (streamCommand_settle html out c) = [Goto ''/x/reboot.cgi'', Finished]"
  by (simp add: streamCommand_settle_def finalizeStream_def Let_def split: stream_outcome.split)

text \<open>
  C39. A flash command that never ran reboots the camera all the same: after an upload the camera accepts, on a page where no command runs, the command
  is started, and when its stream ends the page goes to the reboot address, whether the command's output arrived in full, broke off, was refused
  by the server or never came.\<close>

theorem flash_always_reboots:
  assumes "\<not> commandInFlight (ug_console p)" "starts out cmd payload"
  shows "commandInFlight (ug_console (fst (uploadFirmware_settle html plain out p))) \<and>
         RunConsole (Goto ''/x/reboot.cgi'') \<in> set (snd (upgrade_stream_settle html plain ends (fst (uploadFirmware_settle html plain out p)))) \<and>
         commandInFlight (ug_console (fst (requestOtaCommand_settle html plain out p))) \<and>
         RunConsole (Goto ''/x/reboot.cgi'') \<in> set (snd (upgrade_stream_settle html plain ends (fst (requestOtaCommand_settle html plain out p))))"
proof -
  have a: "upgrade_answer m out = Inr payload" for m using assms(2) by (simp add: starts_def)
  have c: "js_text (js_or (getp payload ''command'') v) = cmd" for v using assms(2) by (simp add: starts_def js_or_def)
  have s: "commandInFlight (ug_console (fst (startCommand html plain cmd p)))" "data_reboot (ug_console (fst (startCommand html plain cmd p))) = ''true''"
    using startCommand_free [OF assms(1)] assms(2) by (simp_all add: starts_def)
  have u: "ug_console (fst (uploadFirmware_settle html plain out p)) = ug_console (fst (startCommand html plain cmd p))"
    by (simp add: uploadFirmware_settle_def a c Let_def split_def)
  have t: "ug_console (fst (requestOtaCommand_settle html plain out p)) = ug_console (fst (startCommand html plain cmd p))"
    by (simp add: requestOtaCommand_settle_def a c Let_def split_def)
  have e: "RunConsole (Goto ''/x/reboot.cgi'') \<in> set (snd (upgrade_stream_settle html plain ends q))" if "data_reboot (ug_console q) = ''true''" for q
    using stream_end_reboots [OF that, of html ends] by (simp add: upgrade_stream_settle_def Let_def split_def)
  show ?thesis using u t s e by simp
qed

definition sample_upgrade :: upgrade_page where
  "sample_upgrade = \<lparr>ug_metadata = JNull, ug_partitions = [], ug_partition = [], ug_partition_disabled = True, ug_status = ([], []), ug_refresh_disabled = False,
     ug_busy = idle_bar, ug_ota = \<lparr>bb_disabled = False, bb_spinning = False\<rparr>, ug_upload = \<lparr>bb_disabled = True, bb_spinning = True\<rparr>, ug_files = [''fw.bin''],
     ug_copy_disabled = True, ug_modal_shown = False,
     ug_console = \<lparr>commandInFlight = False, inner_html = [], data_reboot = ''true'', data_cmd = [], data_stream = [], data_encoded = []\<rparr>\<rparr>"

definition flash_answer :: outcome where
  "flash_answer = Answer \<lparr>status = 200, text_body = [], parsed = Some (JObj [(''command'', JStr ''sysupgrade'')])\<rparr>"

lemma flash_answer_starts: "starts flash_answer ''sysupgrade'' (JObj [(''command'', JStr ''sysupgrade'')])"
  by (simp add: starts_def flash_answer_def upgrade_answer_def resp_ok_def nullish_def)

theorem flash_always_reboots_witness:
  "RunConsole (Goto ''/x/reboot.cgi'') \<in> set (snd (upgrade_stream_settle id id (RefusedBy 500 ''error'') (fst (uploadFirmware_settle id id flash_answer sample_upgrade))))"
  using flash_always_reboots [OF _ flash_answer_starts, of sample_upgrade id id "RefusedBy 500 ''error''"] by (simp add: sample_upgrade_def)

text \<open>
  An upload that is accepted while another command runs is reported as a success and then forgotten: the page shows the success notice, starts
  nothing, and the running command goes on as it was, except that it now ends in a reboot.\<close>

theorem upload_during_command_dropped:
  assumes "commandInFlight (ug_console p)" "starts out cmd payload"
  shows "snd (uploadFirmware_settle html plain out p) =
           [Do (Notice ''success'' [js_or (getp payload ''message'') (JStr ''Firmware uploaded. Ready to flash.'')] 6000)] \<and>
         ug_console (fst (uploadFirmware_settle html plain out p)) = (ug_console p)\<lparr>data_reboot := ''true''\<rparr>"
proof -
  have "cmd \<noteq> []" and a: "upgrade_answer ''Firmware upload failed.'' out = Inr payload" and c: "js_text (js_or (getp payload ''command'') v) = cmd" for v
    using assms(2) by (simp_all add: starts_def js_or_def)
  then show ?thesis using startCommand_taken [OF assms(1) \<open>cmd \<noteq> []\<close>, of html plain] by (simp add: uploadFirmware_settle_def a c)
qed

theorem upload_during_command_dropped_witness:
  "snd (uploadFirmware_settle id id flash_answer (sample_upgrade\<lparr>ug_console := (ug_console sample_upgrade)\<lparr>commandInFlight := True\<rparr>\<rparr>)) =
   [Do (Notice ''success'' [JStr ''Firmware uploaded. Ready to flash.''] 6000)]"
  using upload_during_command_dropped [OF _ flash_answer_starts, of "sample_upgrade\<lparr>ug_console := (ug_console sample_upgrade)\<lparr>commandInFlight := True\<rparr>\<rparr>" id id]
  by (simp add: js_or_def)

text \<open>
  After an accepted upload the page has no file any more, yet its upload button is enabled, and the busy bar is hidden although the command runs:
  the code that ends the upload undoes both.\<close>

theorem upload_button_reenabled:
  assumes "\<not> commandInFlight (ug_console p)" "starts out cmd payload"
  shows "ug_files (fst (uploadFirmware_settle html plain out p)) = [] \<and> \<not> bb_disabled (ug_upload (fst (uploadFirmware_settle html plain out p))) \<and>
         busyBarTimeout (ug_busy (fst (uploadFirmware_settle html plain out p))) = None"
proof -
  have a: "upgrade_answer ''Firmware upload failed.'' out = Inr payload" using assms(2) by (simp add: starts_def)
  have "busyBarTimeout (hideBusy b) = None" for b by (simp add: hideBusy_def clear_busy_timeout_def Let_def split: option.split)
  then show ?thesis by (simp add: uploadFirmware_settle_def a setButtonBusy_def Let_def split_def)
qed

theorem upload_button_reenabled_witness:
  "\<not> bb_disabled (ug_upload (fst (uploadFirmware_settle id id flash_answer sample_upgrade)))"
  using upload_button_reenabled [OF _ flash_answer_starts, of sample_upgrade id id] by (simp add: sample_upgrade_def)

end
