(* ===== verification/Plugin_Pages.thy ===== *)
theory Plugin_Pages
  imports Settings_Pages Markup
begin

text \<open>
  Settings pages of the optional packages: Home Assistant (\<open>config-ha.js\<close>), MQTT subscriptions (\<open>tool-mqtt-sub.js\<close>) and sunrise tracking
  (\<open>config-dusk2dawn.js\<close>). The first follows the protocol of \<open>Settings_Pages\<close>; the second has a table of rows; the third has its own. Line breaks in single-line
  inputs are not modelled.
\<close>

section \<open>Home Assistant\<close>

record ha_form =
  haEnabled :: bool
  deviceName :: string
  deviceModel :: string
  discoveryPrefix :: string
  stateInterval :: string
  cameraInterval :: string
  discoveryInterval :: string
  otaCheckInterval :: string
  mqttHost :: string
  mqttPort :: string
  mqttUsername :: string
  mqttPassword :: string
  mqttClientId :: string
  mqttSsl :: bool
  ha_switches :: "string \<rightharpoonup> bool" \<comment> \<open>the entity switches the page has\<close>

definition ha_entities :: "string list" where
  "ha_entities = [''motion'', ''motion_guard'', ''ircut'', ''daynight'', ''daynight_status'', ''privacy'', ''physical_privacy'', ''color'', ''ir850'', ''ir940'',
     ''white_light'', ''gain'', ''rssi'', ''mic'', ''ptz'', ''shabbat'', ''snapshot'', ''live_view'', ''reboot'', ''ota'']"

definition ha_url :: string where "ha_url = ''/x/json-config-ha.cgi''"

text \<open>\<open>sanitizeValue(String(d.k || '')) || fallback\<close>.\<close>

definition clean_number :: "js \<Rightarrow> string \<Rightarrow> string \<Rightarrow> string" where
  "clean_number d k fallback = or_text (sanitize_text (js_text (js_or (getp d k) (JStr [])))) fallback"

definition ha_fill :: "js \<Rightarrow> ha_form \<Rightarrow> ha_form" where
  "ha_fill d f =
     (let mqtt = js_or (getp d ''mqtt'') (JObj [])
      in f\<lparr>mqttHost := clean_field mqtt ''host'' [], mqttPort := clean_number mqtt ''port'' ''1883'',
           mqttUsername := clean_field mqtt ''username'' [], mqttPassword := clean_field mqtt ''password'' [],
           mqttClientId := clean_field mqtt ''client_id_prefix'' ''thingino-ha'', mqttSsl := (getp mqtt ''use_ssl'' = JBool True),
           deviceName := clean_field d ''device_name'' [], deviceModel := clean_field d ''device_model'' [],
           discoveryPrefix := clean_field d ''discovery_prefix'' ''homeassistant'',
           stateInterval := clean_number d ''state_interval'' ''15'', cameraInterval := clean_number d ''camera_interval'' ''60'',
           discoveryInterval := clean_number d ''discovery_interval'' ''3600'', otaCheckInterval := clean_number d ''ota_check_interval'' ''21600'',
           haEnabled := (getp d ''enabled'' = JBool True),
           ha_switches := (\<lambda>e. if e \<in> set ha_entities then map_option (\<lambda>_. getp d (''enable_'' @ e) \<noteq> JBool False) (ha_switches f e) else ha_switches f e)\<rparr>)"

text \<open>\<open>parseInt(sanitizeValue(v), 10) || n\<close>.\<close>

definition int_or :: "string \<Rightarrow> int \<Rightarrow> js" where
  "int_or v n = js_or (JNum (parse_int (Some 10) (sanitize_text v))) (jint n)"

definition ha_payload :: "ha_form \<Rightarrow> js" where
  "ha_payload f =
     JObj ([(''enabled'', JBool (haEnabled f)), (''device_name'', JStr (sanitize_text (deviceName f))),
            (''device_model'', JStr (sanitize_text (deviceModel f))),
            (''discovery_prefix'', JStr (or_text (sanitize_text (discoveryPrefix f)) ''homeassistant'')),
            (''state_interval'', int_or (stateInterval f) 15), (''camera_interval'', int_or (cameraInterval f) 60),
            (''discovery_interval'', int_or (discoveryInterval f) 3600), (''ota_check_interval'', int_or (otaCheckInterval f) 21600),
            (''mqtt'', JObj [(''host'', JStr (sanitize_text (mqttHost f))), (''port'', int_or (mqttPort f) 1883),
               (''username'', JStr (sanitize_text (mqttUsername f))), (''password'', JStr (sanitize_text (mqttPassword f))),
               (''client_id_prefix'', JStr (or_text (sanitize_text (mqttClientId f)) ''thingino-ha'')), (''use_ssl'', JBool (mqttSsl f))])] @
           map (\<lambda>e. (''enable_'' @ e, JBool (case ha_switches f e of Some b \<Rightarrow> b | None \<Rightarrow> False))) ha_entities)"

definition ha_load :: "bool \<Rightarrow> ha_form settings_page \<Rightarrow> ha_form settings_page \<times> effect list" where
  "ha_load = load_start ha_url"

definition ha_load_settle :: "bool \<Rightarrow> outcome \<Rightarrow> ha_form settings_page \<Rightarrow> ha_form settings_page \<times> effect list" where
  "ha_load_settle = load_settle ha_fill ''Failed to load Home Assistant settings'' ''Unable to load Home Assistant settings.''"

definition ha_submit :: "ha_form settings_page \<Rightarrow> ha_form settings_page \<times> effect list" where
  "ha_submit p = save_start ha_url (ha_payload (form p)) p"

definition ha_save_settle :: "outcome \<Rightarrow> ha_form settings_page \<Rightarrow> ha_form settings_page \<times> bool \<times> effect list" where
  "ha_save_settle = save_settle ha_url (\<lambda>_. Some (JStr ''Home Assistant settings saved.'')) ''Failed to save settings''
     ''Failed to save Home Assistant settings.''"

definition ha_reload_settle :: "outcome \<Rightarrow> ha_form settings_page \<Rightarrow> ha_form settings_page \<times> effect list" where
  "ha_reload_settle = reload_settle ha_fill ''Failed to load Home Assistant settings'' ''Unable to load Home Assistant settings.''
     ''Home Assistant settings reloaded from camera.''"

section \<open>MQTT subscriptions\<close>

record sub_row =
  sub_enabled :: bool
  sub_topic :: string
  sub_qos :: string
  sub_action :: string

definition PRESETS :: "(string \<times> string \<times> string) list" where
  "PRESETS =
     [(''Reboot camera'', ''reboot'', []), (''Take snapshot'', ''snapshot'', []),
      (''Enable IR cut'', ''echo ir_on > /proc/jz/isp/ircut'', []), (''Disable IR cut'', ''echo ir_off > /proc/jz/isp/ircut'', []),
      (''Log to syslog'', ''logger -t mqtt '' @ [CHR 0x22] @ ''Topic: $MQTT_TOPIC Payload: $MQTT_PAYLOAD'' @ [CHR 0x22], []),
      (''Conditional reboot (pay=1)'', ''[ '' @ [CHR 0x22] @ ''$MQTT_PAYLOAD'' @ [CHR 0x22] @ '' = '' @ [CHR 0x22] @ ''1'' @ [CHR 0x22] @ '' ] && reboot'', []),
      (''Telegram hub agent'', ''telegram-cam-agent '' @ [CHR 0x22] @ ''$MQTT_PAYLOAD'' @ [CHR 0x22], ''thingino/cam/%id/cmd'')]"

definition preset_click :: "string \<times> string \<times> string \<Rightarrow> sub_row \<Rightarrow> sub_row" where
  "preset_click pr r = (case pr of (label, cmd, topic) \<Rightarrow> r\<lparr>sub_action := cmd, sub_topic := or_text topic (sub_topic r)\<rparr>)"

definition qos_values :: "string list" where "qos_values = [''0'', ''1'', ''2'']"

record sub_form =
  ms_enabled :: bool
  ms_host :: string
  ms_host_invalid :: bool
  ms_port :: string
  ms_username :: string
  ms_password :: string
  ms_ssl :: bool
  ms_rows :: "sub_row list"
  ms_empty_shown :: bool
  ms_validated :: bool

definition updateEmptyState :: "sub_form \<Rightarrow> sub_form" where
  "updateEmptyState f = f\<lparr>ms_empty_shown := (ms_rows f = [])\<rparr>"

definition sub_row_of :: "js \<Rightarrow> sub_row" where
  "sub_row_of d =
     (let data = js_or d (JObj []); q = js_text (if nullish (getp data ''qos'') then jint 0 else getp data ''qos'')
      in \<lparr>sub_enabled = (getp data ''enabled'' \<noteq> JBool False), sub_topic = field_of data ''topic'',
          sub_qos = (if q \<in> set qos_values then q else []), sub_action = field_of data ''action''\<rparr>)"

definition addSubscriptionRow :: "js \<Rightarrow> sub_form \<Rightarrow> sub_form" where
  "addSubscriptionRow d f = updateEmptyState (f\<lparr>ms_rows := ms_rows f @ [sub_row_of d]\<rparr>)"

definition remove_subscription :: "nat \<Rightarrow> sub_form \<Rightarrow> sub_form" where
  "remove_subscription i f = updateEmptyState (f\<lparr>ms_rows := take i (ms_rows f) @ drop (Suc i) (ms_rows f)\<rparr>)"

text \<open>\<open>parseInt(v, 10) || n\<close>.\<close>

definition parsed_or :: "string \<Rightarrow> int \<Rightarrow> js" where
  "parsed_or v n = js_or (JNum (parse_int (Some 10) v)) (jint n)"

definition row_sent :: "sub_row \<Rightarrow> js" where
  "row_sent r = JObj [(''topic'', JStr (trim (sub_topic r))), (''qos'', parsed_or (sub_qos r) 0),
     (''enabled'', JBool (sub_enabled r)), (''action'', JStr (trim (sub_action r)))]"

definition collectSubscriptions :: "sub_form \<Rightarrow> js list" where
  "collectSubscriptions f = map row_sent (ms_rows f)"

definition validateBroker :: "sub_form \<Rightarrow> sub_form \<times> bool" where
  "validateBroker f =
     (let bad = (ms_enabled f \<and> trim (ms_host f) = []) in (f\<lparr>ms_host_invalid := bad\<rparr>, \<not> bad))"

definition sub_fill :: "js \<Rightarrow> sub_form \<Rightarrow> sub_form" where
  "sub_fill data f =
     updateEmptyState (fold addSubscriptionRow (case getp data ''subscriptions'' of JArr vs \<Rightarrow> vs | _ \<Rightarrow> [])
       (f\<lparr>ms_enabled := (getp data ''enabled'' = JBool True), ms_host := field_of data ''host'',
          ms_port := number_input (js_text (js_or (getp data ''port'') (jint 1883))), ms_username := field_of data ''username'',
          ms_password := field_of data ''password'', ms_ssl := (getp data ''use_ssl'' = JBool True), ms_rows := []\<rparr>))"

definition sub_payload :: "sub_form \<Rightarrow> js" where
  "sub_payload f =
     JObj [(''enabled'', JBool (ms_enabled f)), (''host'', JStr (trim (ms_host f))), (''port'', parsed_or (ms_port f) 1883),
       (''username'', JStr (trim (ms_username f))), (''password'', JStr (trim (ms_password f))), (''use_ssl'', JBool (ms_ssl f)),
       (''subscriptions'', JArr (collectSubscriptions f))]"

definition sub_url :: string where "sub_url = ''/x/json-config-mqtt-sub.cgi''"

definition sub_load_settle :: "bool \<Rightarrow> outcome \<Rightarrow> sub_form settings_page \<Rightarrow> sub_form settings_page \<times> effect list" where
  "sub_load_settle = load_settle sub_fill ''Failed to load MQTT subscription settings'' ''Unable to load MQTT subscription settings.''"

text \<open>\<open>valid\<close> is \<open>form.checkValidity()\<close>.\<close>

definition sub_submit :: "bool \<Rightarrow> sub_form settings_page \<Rightarrow> sub_form settings_page \<times> effect list" where
  "sub_submit valid p =
     (if \<not> valid then (p\<lparr>form := (form p)\<lparr>ms_validated := True\<rparr>\<rparr>, [])
      else let (f, ok) = validateBroker (form p)
           in if ok then save_start sub_url (sub_payload f) (p\<lparr>form := f\<rparr>) else (p\<lparr>form := f\<lparr>ms_validated := True\<rparr>\<rparr>, []))"

text \<open>A refused answer whose body is \<open>null\<close> makes the reading of its error throw.\<close>

definition sub_saved :: "outcome \<Rightarrow> js + js" where
  "sub_saved out =
     (case out of
        Rejected m \<Rightarrow> Inl (JStr m)
      | Answer r \<Rightarrow>
          (case parsed r of
             None \<Rightarrow> Inl (JStr ''SyntaxError'')
           | Some result \<Rightarrow>
               if \<not> resp_ok r \<or> truthy (and_prop result ''error'')
               then Inl (if nullish result then JStr ''TypeError''
                         else js_or (if truthy (getp result ''error'') then getp (getp result ''error'') ''message'' else JUndef) (JStr ''Failed to save settings''))
               else Inr result))"

definition sub_save_settle :: "outcome \<Rightarrow> sub_form settings_page \<Rightarrow> sub_form settings_page \<times> bool \<times> effect list" where
  "sub_save_settle out p =
     (case sub_saved out of
        Inl m \<Rightarrow> (toggleBusy False p, False, [Notice ''danger'' [js_or m (JStr ''Failed to save MQTT subscription settings.'')] 6000])
      | Inr _ \<Rightarrow> (p\<lparr>form := (form p)\<lparr>ms_validated := False\<rparr>\<rparr>, True,
          [Overlay ''success'' [JStr ''MQTT subscription settings saved.''], Send (Get sub_url)]))"

definition sub_reload_settle :: "outcome \<Rightarrow> sub_form settings_page \<Rightarrow> sub_form settings_page \<times> effect list" where
  "sub_reload_settle = reload_settle sub_fill ''Failed to load MQTT subscription settings'' ''Unable to load MQTT subscription settings.''
     ''MQTT subscription settings reloaded.''"

definition sub_restart :: "busy_bar \<Rightarrow> busy_bar \<times> effect list" where
  "sub_restart b = (showBusy b, [Send (Get ''/x/mqtt-sub-restart.cgi'')])"

definition sub_restart_settle :: "outcome \<Rightarrow> busy_bar \<Rightarrow> busy_bar \<times> effect list" where
  "sub_restart_settle out b =
     (hideBusy b,
      case out of
        Rejected m \<Rightarrow> [Notice ''danger'' [js_or (JStr m) (JStr ''Failed to restart MQTT subscription service.'')] 6000]
      | Answer r \<Rightarrow>
          if resp_ok r then [Overlay ''success'' [JStr ''MQTT subscription service restarted.'']]
          else [Notice ''danger'' [JStr (''HTTP '' @ show_int (status r))] 6000])"


section \<open>Sunrise tracking\<close>

datatype geo_state = GeoReady | GeoBusy | GeoDone

record sun_page =
  sun_enabled :: bool
  sun_text :: "string \<Rightarrow> string" \<comment> \<open>the other inputs, by parameter\<close>
  sun_disabled :: bool \<comment> \<open>of the five inputs\<close>
  sun_save_disabled :: bool
  sun_reload_disabled :: bool
  sun_busy :: busy_bar
  sun_geo :: geo_state

definition sunParams :: "string list" where
  "sunParams = [''enabled'', ''latitude'', ''longitude'', ''sunrise_offset'', ''sunset_offset'']"

definition is_offset :: "string \<Rightarrow> bool" where
  "is_offset param = (param = ''sunrise_offset'' \<or> param = ''sunset_offset'')"

definition sun_url :: string where "sun_url = ''/x/json-daynight-sun.cgi''"

definition disableInputs :: "sun_page \<Rightarrow> sun_page" where
  "disableInputs p = p\<lparr>sun_disabled := True\<rparr>"

definition sun_field :: "js \<Rightarrow> string \<Rightarrow> string" where
  "sun_field sun param =
     (let v = getp sun param in if \<not> nullish v \<and> v \<noteq> JStr [] then js_text v else if is_offset param then ''0'' else [])"

definition applyConfig :: "js \<Rightarrow> sun_page \<Rightarrow> sun_page" where
  "applyConfig sun p =
     p\<lparr>sun_enabled := truthy (getp sun ''enabled''),
       sun_text := (\<lambda>k. if k \<in> set (tl sunParams) then sun_field sun k else sun_text p k), sun_disabled := False\<rparr>"

definition sun_load :: "sun_page \<Rightarrow> sun_page \<times> effect list" where
  "sun_load p = (disableInputs (p\<lparr>sun_busy := showBusy (sun_busy p)\<rparr>), [Send (Get sun_url)])"

definition sun_answer :: "outcome \<Rightarrow> string + js" where
  "sun_answer out =
     (case out of
        Rejected m \<Rightarrow> Inl (or_text m ''TypeError'')
      | Answer r \<Rightarrow>
          if \<not> resp_ok r then Inl (''HTTP '' @ show_int (status r))
          else (case parsed r of None \<Rightarrow> Inl ''SyntaxError'' | Some d \<Rightarrow> if nullish d then Inl ''TypeError'' else Inr d))"

definition sun_load_settle :: "outcome \<Rightarrow> sun_page \<Rightarrow> sun_page \<times> effect list" where
  "sun_load_settle out p =
     (let (q, fx) = (case sun_answer out of
            Inl m \<Rightarrow> (p, [Notice ''danger'' [JStr (''Unable to load settings: '' @ m)] 6000])
          | Inr data \<Rightarrow> (applyConfig (js_or (getp data ''sun'') (JObj [])) p, []))
      in (q\<lparr>sun_busy := hideBusy (sun_busy q)\<rparr>, fx))"

definition sun_sent :: "sun_page \<Rightarrow> string \<Rightarrow> js" where
  "sun_sent p param =
     (if param = ''enabled'' then JBool (sun_enabled p)
      else let n = number_of_string (sun_text p param) in if is_offset param \<and> n \<noteq> NaN then JNum n else JStr (sun_text p param))"

definition sun_payload :: "sun_page \<Rightarrow> js" where
  "sun_payload p = JObj [(''sun'', JObj (map (\<lambda>k. (k, sun_sent p k)) sunParams))]"

definition sun_save :: "sun_page \<Rightarrow> sun_page \<times> effect list" where
  "sun_save p = (p\<lparr>sun_save_disabled := True\<rparr>, [Send (PostJson sun_url (jsonify (sun_payload p)))])"

definition sun_save_settle :: "outcome \<Rightarrow> sun_page \<Rightarrow> sun_page \<times> effect list" where
  "sun_save_settle out p =
     (p\<lparr>sun_save_disabled := False\<rparr>,
      case (case sun_answer out of
              Inl m \<Rightarrow> Inl m
            | Inr d \<Rightarrow> if truthy (getp d ''error'') then Inl (js_text (getp d ''error'')) else Inr d) of
        Inl m \<Rightarrow> [Notice ''danger'' [JStr (''Failed to save: '' @ m)] 6000]
      | Inr _ \<Rightarrow> [Notice ''success'' [JStr ''Dusk2Dawn settings saved.''] 3000])"

definition sun_reload :: "sun_page \<Rightarrow> sun_page \<times> effect list" where
  "sun_reload p = sun_load (p\<lparr>sun_reload_disabled := True\<rparr>)"

definition sun_reload_settle :: "outcome \<Rightarrow> sun_page \<Rightarrow> sun_page \<times> effect list" where
  "sun_reload_settle out p =
     (let (q, fx) = sun_load_settle out p in (q\<lparr>sun_reload_disabled := False\<rparr>, fx @ [Notice ''info'' [JStr ''Settings reloaded.''] 3000]))"

text \<open>The location button; \<open>parse_float\<close> is \<open>parseFloat\<close> of a text.\<close>

definition to_fixed6 :: "(string \<Rightarrow> jnum) \<Rightarrow> js \<Rightarrow> string" where
  "to_fixed6 parse_float v =
     (case (case v of JNum n \<Rightarrow> n | _ \<Rightarrow> parse_float (js_text v)) of Fin q \<Rightarrow> to_fixed 6 q | n \<Rightarrow> num_text n)"

definition applyCoords :: "(string \<Rightarrow> jnum) \<Rightarrow> js \<Rightarrow> js \<Rightarrow> sun_page \<Rightarrow> sun_page" where
  "applyCoords parse_float lat lng p =
     p\<lparr>sun_text := (sun_text p)(''latitude'' := to_fixed6 parse_float lat, ''longitude'' := to_fixed6 parse_float lng), sun_geo := GeoDone\<rparr>"

definition geo_url :: string where "geo_url = ''https://ipapi.co/json/''"

definition geo_click :: "bool \<Rightarrow> sun_page \<Rightarrow> sun_page \<times> effect list" where
  "geo_click has_geolocation p = (p\<lparr>sun_geo := GeoBusy\<rparr>, if has_geolocation then [] else [Send (Get geo_url)])"

definition geo_position :: "(string \<Rightarrow> jnum) \<Rightarrow> (rat \<times> rat) option \<Rightarrow> sun_page \<Rightarrow> sun_page \<times> effect list" where
  "geo_position parse_float pos p =
     (case pos of
        Some (lat, lng) \<Rightarrow> (applyCoords parse_float (JNum (Fin lat)) (JNum (Fin lng)) p, [])
      | None \<Rightarrow> (p, [Send (Get geo_url)]))"

definition tryIPGeo_settle :: "(string \<Rightarrow> jnum) \<Rightarrow> outcome \<Rightarrow> sun_page \<Rightarrow> sun_page \<times> effect list" where
  "tryIPGeo_settle parse_float out p =
     (let failed = (p\<lparr>sun_geo := GeoReady\<rparr>,
            [Notice ''warning'' [JStr (''Could not determine location automatically. Use the '' @ [CHR 0x22] @ ''Find manually'' @ [CHR 0x22] @ '' link.'')] 6000])
      in case sun_answer out of
           Inl _ \<Rightarrow> failed
         | Inr d \<Rightarrow>
             if truthy (getp d ''latitude'') \<and> truthy (getp d ''longitude'')
             then (applyCoords parse_float (getp d ''latitude'') (getp d ''longitude'') p,
                   [Notice ''info'' [JStr ''Location set from IP address (city-level accuracy). Adjust if needed.''] 5000])
             else failed)"

section \<open>Lemmas\<close>

lemma show_int_unquoted: "c \<in> set (show_int i) \<Longrightarrow> c \<noteq> CHR 0x22 \<and> c \<noteq> CHR 0x27"
  using show_int_chars [of c i] by (auto simp: is_digit_def)

lemma sanitize_show_int: "sanitize_text (show_int i) = show_int i"
proof -
  have ne: "show_int i \<noteq> []" by (simp add: show_int_def)
  have "\<not> quoted_by (CHR 0x22) (show_int i)" "\<not> quoted_by (CHR 0x27) (show_int i)"
    using ne show_int_unquoted [of "hd (show_int i)" i] by (auto simp: quoted_by_def)
  then show ?thesis by (simp add: sanitize_text_def show_int_solid)
qed

lemma int_or_int: "n \<noteq> 0 \<Longrightarrow> \<exists>i. i \<noteq> 0 \<and> int_or v n = jint i"
  by (cases rule: parse_int_cases [of "Some 10" "sanitize_text v"]) (auto simp: int_or_def js_or_def)

lemma int_or_again:
  assumes "m \<noteq> 0" "getp d k = int_or v m"
  shows "int_or (clean_number d k fallback) n = int_or v m"
proof -
  obtain i where i: "i \<noteq> 0" "int_or v m = jint i" using int_or_int [OF assms(1)] by blast
  moreover have "show_int i \<noteq> []" by (simp add: show_int_def)
  ultimately show ?thesis
    using assms(2) num_text_of_int [of i] by (simp add: clean_number_def js_or_def sanitize_show_int or_text_def int_or_def parse_int_show_int)
qed

lemma clean_again:
  "getp d k = JStr (sanitize_text v) \<Longrightarrow> sanitize_text (sanitize_text v) = sanitize_text v \<Longrightarrow> sanitize_text (clean_field d k []) = sanitize_text v"
  by (auto simp: clean_field_def sanitizeValue_def Let_def)

lemma clean_or_again:
  "getp d k = JStr (or_text (sanitize_text v) w) \<Longrightarrow> sanitize_text (sanitize_text v) = sanitize_text v \<Longrightarrow> sanitize_text w = w \<Longrightarrow>
   or_text (sanitize_text (clean_field d k w)) w = or_text (sanitize_text v) w"
  by (auto simp: clean_field_def sanitizeValue_def or_text_def Let_def)

definition stable :: "string \<Rightarrow> bool" where
  "stable v \<longleftrightarrow> sanitize_text (sanitize_text v) = sanitize_text v"

definition clean_ha :: "ha_form \<Rightarrow> bool" where
  "clean_ha f \<longleftrightarrow> list_all stable [deviceName f, deviceModel f, discoveryPrefix f, mqttHost f, mqttUsername f, mqttPassword f, mqttClientId f] \<and>
     list_all (\<lambda>e. ha_switches f e \<noteq> None) ha_entities"

lemma enable_keys: "map_of (map (\<lambda>e. (''enable_'' @ e, g e)) es) (''enable_'' @ e) = (if e \<in> set es then Some (g e) else None)"
  by (induction es) auto

lemma ha_payload_get:
  "getp (ha_payload f) ''enabled'' = JBool (haEnabled f)" "getp (ha_payload f) ''device_name'' = JStr (sanitize_text (deviceName f))"
  "getp (ha_payload f) ''device_model'' = JStr (sanitize_text (deviceModel f))"
  "getp (ha_payload f) ''discovery_prefix'' = JStr (or_text (sanitize_text (discoveryPrefix f)) ''homeassistant'')"
  "getp (ha_payload f) ''state_interval'' = int_or (stateInterval f) 15" "getp (ha_payload f) ''camera_interval'' = int_or (cameraInterval f) 60"
  "getp (ha_payload f) ''discovery_interval'' = int_or (discoveryInterval f) 3600"
  "getp (ha_payload f) ''ota_check_interval'' = int_or (otaCheckInterval f) 21600"
  "getp (ha_payload f) ''mqtt'' = JObj [(''host'', JStr (sanitize_text (mqttHost f))), (''port'', int_or (mqttPort f) 1883),
               (''username'', JStr (sanitize_text (mqttUsername f))), (''password'', JStr (sanitize_text (mqttPassword f))),
               (''client_id_prefix'', JStr (or_text (sanitize_text (mqttClientId f)) ''thingino-ha'')), (''use_ssl'', JBool (mqttSsl f))]"
  by (simp_all add: ha_payload_def)

lemma ha_payload_enable:
  "e \<in> set ha_entities \<Longrightarrow> getp (ha_payload f) (''enable_'' @ e) = JBool (case ha_switches f e of Some b \<Rightarrow> b | None \<Rightarrow> False)"
  using enable_keys [of "\<lambda>e. JBool (case ha_switches f e of Some b \<Rightarrow> b | None \<Rightarrow> False)" ha_entities e] by (simp add: ha_payload_def)


lemma stable_defaults: "sanitize_text ''homeassistant'' = ''homeassistant''" "sanitize_text ''thingino-ha'' = ''thingino-ha''"
  by code_simp+

lemma ha_refill:
  assumes "clean_ha f" "list_all (\<lambda>e. ha_switches g e \<noteq> None) ha_entities"
  shows "ha_payload (ha_fill (ha_payload f) g) = ha_payload f"
proof -
  define M where "M = getp (ha_payload f) ''mqtt''"
  let ?h = "ha_fill (ha_payload f) g" and ?D = "ha_payload f"
  have m: "js_or M (JObj []) = M" by (simp add: M_def ha_payload_get js_or_def)
  have st: "stable (deviceName f)" "stable (deviceModel f)" "stable (discoveryPrefix f)" "stable (mqttHost f)" "stable (mqttUsername f)" "stable (mqttPassword f)"
    "stable (mqttClientId f)" using assms(1) by (simp_all add: clean_ha_def)
  have h: "deviceName ?h = clean_field ?D ''device_name'' []" "deviceModel ?h = clean_field ?D ''device_model'' []"
    "discoveryPrefix ?h = clean_field ?D ''discovery_prefix'' ''homeassistant''" "mqttHost ?h = clean_field M ''host'' []"
    "mqttUsername ?h = clean_field M ''username'' []" "mqttPassword ?h = clean_field M ''password'' []"
    "mqttClientId ?h = clean_field M ''client_id_prefix'' ''thingino-ha''" "stateInterval ?h = clean_number ?D ''state_interval'' ''15''"
    "cameraInterval ?h = clean_number ?D ''camera_interval'' ''60''" "discoveryInterval ?h = clean_number ?D ''discovery_interval'' ''3600''"
    "otaCheckInterval ?h = clean_number ?D ''ota_check_interval'' ''21600''" "mqttPort ?h = clean_number M ''port'' ''1883''"
    by (simp_all add: ha_fill_def m Let_def M_def [symmetric])
  have mq: "getp M ''host'' = JStr (sanitize_text (mqttHost f))" "getp M ''username'' = JStr (sanitize_text (mqttUsername f))"
    "getp M ''password'' = JStr (sanitize_text (mqttPassword f))" "getp M ''port'' = int_or (mqttPort f) 1883" "getp M ''use_ssl'' = JBool (mqttSsl f)"
    "getp M ''client_id_prefix'' = JStr (or_text (sanitize_text (mqttClientId f)) ''thingino-ha'')"
    by (simp_all add: M_def ha_payload_get)
  have texts: "sanitize_text (deviceName ?h) = sanitize_text (deviceName f)" "sanitize_text (deviceModel ?h) = sanitize_text (deviceModel f)"
    "or_text (sanitize_text (discoveryPrefix ?h)) ''homeassistant'' = or_text (sanitize_text (discoveryPrefix f)) ''homeassistant''"
    "sanitize_text (mqttHost ?h) = sanitize_text (mqttHost f)" "sanitize_text (mqttUsername ?h) = sanitize_text (mqttUsername f)"
    "sanitize_text (mqttPassword ?h) = sanitize_text (mqttPassword f)"
    "or_text (sanitize_text (mqttClientId ?h)) ''thingino-ha'' = or_text (sanitize_text (mqttClientId f)) ''thingino-ha''"
    unfolding h using st [unfolded stable_def]
    by (blast intro: clean_again clean_or_again ha_payload_get mq stable_defaults)+
  have nums: "int_or (stateInterval ?h) 15 = int_or (stateInterval f) 15" "int_or (cameraInterval ?h) 60 = int_or (cameraInterval f) 60"
    "int_or (discoveryInterval ?h) 3600 = int_or (discoveryInterval f) 3600" "int_or (otaCheckInterval ?h) 21600 = int_or (otaCheckInterval f) 21600"
    "int_or (mqttPort ?h) 1883 = int_or (mqttPort f) 1883"
    unfolding h by (rule int_or_again; simp add: ha_payload_get mq)+
  have sw: "(case ha_switches ?h e of Some b \<Rightarrow> b | None \<Rightarrow> False) = (case ha_switches f e of Some b \<Rightarrow> b | None \<Rightarrow> False)" if "e \<in> set ha_entities" for e
    using that assms(2) ha_payload_enable [OF that, of f] by (auto simp: ha_fill_def Let_def list_all_iff)
  have bools: "haEnabled ?h = haEnabled f" "mqttSsl ?h = mqttSsl f"
    by (simp_all add: ha_fill_def ha_payload_get(1) M_def [symmetric] m mq Let_def)
  show ?thesis
    unfolding ha_payload_def [of ?h] texts nums bools
    using sw map_cong [of ha_entities ha_entities "\<lambda>e. (''enable_'' @ e, JBool (case ha_switches ?h e of Some b \<Rightarrow> b | None \<Rightarrow> False))"
      "\<lambda>e. (''enable_'' @ e, JBool (case ha_switches f e of Some b \<Rightarrow> b | None \<Rightarrow> False))"] by (simp add: ha_payload_def)
qed


lemma ha_payload_json: "jsonify (ha_payload f) = ha_payload f"
proof -
  have n: "n \<noteq> 0 \<Longrightarrow> jsonify (int_or v n) = int_or v n \<and> int_or v n \<noteq> JUndef" for v n using int_or_int [of n v] by auto
  show ?thesis by (simp add: ha_payload_def n comp_def)
qed

interpretation ha: settings_form ha_fill ha_payload clean_ha "\<lambda>d. d"
proof
  fix f
  assume "clean_ha f"
  then show "ha_payload (ha_fill (ha_payload f) f) = ha_payload f" using ha_refill [of f f] by (simp add: clean_ha_def)
qed (rule ha_payload_json)

definition clean_subs :: "sub_form \<Rightarrow> bool" where
  "clean_subs f \<longleftrightarrow> list_all (\<lambda>r. sub_qos r \<in> set ([] # qos_values)) (ms_rows f)"

lemma qos_again:
  assumes "q \<in> set ([] # qos_values)"
  shows "\<exists>i \<in> {0, 1, 2}. parsed_or q 0 = jint i"
proof -
  have "parse_int (Some 10) [] = NaN" "parse_int (Some 10) ''0'' = Fin 0" "parse_int (Some 10) ''1'' = Fin 1" "parse_int (Some 10) ''2'' = Fin 2" by code_simp+
  then show ?thesis using assms by (auto simp: qos_values_def js_or_def parsed_or_def)
qed

lemma qos_text: "i \<in> {0, 1, 2} \<Longrightarrow> show_int i \<in> set qos_values"
proof -
  have "show_int 0 = ''0''" "show_int 1 = ''1''" "show_int 2 = ''2''" by code_simp+
  then show "i \<in> {0, 1, 2} \<Longrightarrow> show_int i \<in> set qos_values" by (auto simp: qos_values_def)
qed

lemma sub_row_again:
  assumes "sub_qos r \<in> set ([] # qos_values)"
  shows "row_sent (sub_row_of (row_sent r)) = row_sent r"
proof -
  obtain i where i: "i \<in> {0, 1, 2}" "parsed_or (sub_qos r) 0 = jint i" using qos_again [OF assms] by blast
  have q: "sub_qos (sub_row_of (row_sent r)) = show_int i"
    using i(2) qos_text [OF i(1)] num_text_of_int [of i] by (simp add: sub_row_of_def row_sent_def js_or_def nullish_def Let_def)
  have "parsed_or (show_int i) 0 = jint i" by (simp add: parsed_or_def parse_int_show_int js_or_def)
  moreover have "sub_topic (sub_row_of (row_sent r)) = trim (sub_topic r)" "sub_action (sub_row_of (row_sent r)) = trim (sub_action r)"
    "sub_enabled (sub_row_of (row_sent r)) = sub_enabled r"
    by (simp_all add: sub_row_of_def row_sent_def js_or_def field_of_def Let_def)
  ultimately show ?thesis using q i(2) by (simp add: row_sent_def [of "sub_row_of (row_sent r)"]) (simp add: row_sent_def)
qed

lemma rows_added: "ms_rows (fold addSubscriptionRow vs f) = ms_rows f @ map sub_row_of vs"
  by (induction vs arbitrary: f) (simp_all add: addSubscriptionRow_def updateEmptyState_def)

lemma rows_frame_subs:
  "ms_enabled (fold addSubscriptionRow vs f) = ms_enabled f" "ms_host (fold addSubscriptionRow vs f) = ms_host f"
  "ms_port (fold addSubscriptionRow vs f) = ms_port f" "ms_username (fold addSubscriptionRow vs f) = ms_username f"
  "ms_password (fold addSubscriptionRow vs f) = ms_password f" "ms_ssl (fold addSubscriptionRow vs f) = ms_ssl f"
  by (induction vs arbitrary: f) (simp_all add: addSubscriptionRow_def updateEmptyState_def)

lemma port_again: "\<exists>i. i \<noteq> 0 \<and> parsed_or v 1883 = jint i"
  by (cases rule: parse_int_cases [of "Some 10" v]) (auto simp: parsed_or_def js_or_def)

lemma sub_refill:
  assumes "clean_subs f"
  shows "sub_payload (sub_fill (sub_payload f) g) = sub_payload f"
proof -
  obtain i where i: "i \<noteq> 0" "parsed_or (ms_port f) 1883 = jint i" using port_again by blast
  have p: "ms_port (sub_fill (sub_payload f) g) = show_int i"
    using i num_text_of_int [of i] by (simp add: sub_fill_def updateEmptyState_def rows_frame_subs sub_payload_def js_or_def)
  have r: "ms_rows (sub_fill (sub_payload f) g) = map sub_row_of (map row_sent (ms_rows f))"
    by (simp add: sub_fill_def updateEmptyState_def rows_added sub_payload_def collectSubscriptions_def)
  have "map row_sent (map sub_row_of (map row_sent (ms_rows f))) = map row_sent (ms_rows f)"
    using assms sub_row_again by (simp add: clean_subs_def list_all_iff)
  moreover have "parsed_or (show_int i) 1883 = jint i" using i(1) by (simp add: parsed_or_def parse_int_show_int js_or_def)
  moreover have "ms_enabled (sub_fill (sub_payload f) g) = ms_enabled f" "ms_host (sub_fill (sub_payload f) g) = trim (ms_host f)"
    "ms_username (sub_fill (sub_payload f) g) = trim (ms_username f)" "ms_password (sub_fill (sub_payload f) g) = trim (ms_password f)"
    "ms_ssl (sub_fill (sub_payload f) g) = ms_ssl f"
    by (simp_all add: sub_fill_def updateEmptyState_def rows_frame_subs sub_payload_def field_of_def)
  ultimately show ?thesis
    unfolding sub_payload_def [of "sub_fill (sub_payload f) g"] collectSubscriptions_def p r by (simp add: sub_payload_def collectSubscriptions_def i(2))
qed

lemma sub_payload_json: "clean_subs f \<Longrightarrow> jsonify (sub_payload f) = sub_payload f"
proof -
  assume c: "clean_subs f"
  have "jsonify (row_sent r) = row_sent r" if "r \<in> set (ms_rows f)" for r
  proof -
    have "sub_qos r \<in> set ([] # qos_values)" using c that by (simp add: clean_subs_def list_all_iff)
    from qos_again [OF this] obtain i where "parsed_or (sub_qos r) 0 = jint i" by blast
    then show ?thesis by (simp add: row_sent_def)
  qed
  moreover have "row_sent r \<noteq> JUndef" for r by (simp add: row_sent_def)
  ultimately show ?thesis using port_again [of "ms_port f"] by (auto simp: sub_payload_def collectSubscriptions_def)
qed

interpretation subs: free_form sub_fill sub_payload clean_subs "\<lambda>d. d"
  by unfold_locales (simp_all add: sub_refill sub_payload_json)


section \<open>Properties\<close>


definition sample_ha :: "ha_form settings_page" where
  "sample_ha = \<lparr>form = \<lparr>haEnabled = True, deviceName = ''cam'', deviceModel = [], discoveryPrefix = [], stateInterval = ''30'', cameraInterval = [], discoveryInterval = [],
       otaCheckInterval = [], mqttHost = ''hub'', mqttPort = ''1884'', mqttUsername = [], mqttPassword = ''key'', mqttClientId = [], mqttSsl = False,
       ha_switches = (\<lambda>_. Some True)\<rparr>, controls_disabled = False, page_busy = idle_bar, reload_disabled = False\<rparr>"

lemma sample_ha_clean: "clean_ha (form sample_ha)"
proof -
  have "list_all stable [''cam'', [], ''hub'', ''key'']" by code_simp
  then show ?thesis by (simp add: clean_ha_def sample_ha_def list_all_iff)
qed


text \<open>
  A secret in quotes is stripped: if the broker password the camera reports begins and ends with the same quote, the page shows it
  without the quotes, and saving the page sends the password without them.\<close>

theorem quoted_password_stripped:
  assumes "read_settings ''Failed to load Home Assistant settings'' out = Inr d" "getp (getp d ''mqtt'') ''password'' = JStr (c # w @ [c])"
    and "c = CHR 0x22 \<or> c = CHR 0x27" "sanitize_text w = w"
  shows "mqttPassword (form (fst (ha_load_settle preserve out p))) = w \<and>
         getp (getp (ha_payload (form (fst (ha_load_settle preserve out p)))) ''mqtt'') ''password'' = JStr w"
proof -
  have f: "form (fst (ha_load_settle preserve out p)) = ha_fill d (form p)"
    using assms(1) by (simp add: ha_load_settle_def load_settle_def toggleBusy_def)
  have "js_or (getp d ''mqtt'') (JObj []) = getp d ''mqtt''" using assms(2) by (cases "getp d ''mqtt''") (auto simp: js_or_def)
  moreover have "\<not> is_space c" using assms(3) by (auto simp: is_space_def)
  then have "trim (c # w @ [c]) = c # w @ [c]" by (intro trim_solid) auto
  then have "sanitize_text (c # w @ [c]) = w" using assms(3) by (auto simp: sanitize_text_def quoted_by_def butlast_append)
  ultimately have "mqttPassword (ha_fill d (form p)) = w"
    using assms(2) by (auto simp: ha_fill_def clean_field_def sanitizeValue_def Let_def)
  then show ?thesis using assms(4) by (simp add: f ha_payload_get)
qed

theorem quoted_password_stripped_witness:
  "getp (getp (ha_payload (form (fst (ha_load_settle True
     (Answer \<lparr>status = 200, text_body = [], parsed = Some (JObj [(''mqtt'', JObj [(''password'', JStr [CHR 0x27, CHR ''x'', CHR 0x27])])])\<rparr>) sample_ha)))) ''mqtt'') ''password''
   = JStr ''x''"
proof -
  have "sanitize_text ''x'' = ''x''" by code_simp
  then show ?thesis
    using quoted_password_stripped [where out = "Answer \<lparr>status = 200, text_body = [], parsed = Some (JObj [(''mqtt'', JObj [(''password'', JStr [CHR 0x27, CHR ''x'', CHR 0x27])])])\<rparr>"
      and d = "JObj [(''mqtt'', JObj [(''password'', JStr [CHR 0x27, CHR ''x'', CHR 0x27])])]" and c = "CHR 0x27" and w = "''x''" and preserve = True and p = sample_ha]
    by (simp add: read_settings_def resp_ok_def nullish_def)
qed

text \<open>
  MQTT subscriptions survive a save: a page whose quality levels are among the offered ones sends its broker settings and rows, and any page that
  loads what the camera stored sends the same again, every row in its order.\<close>

theorem subscriptions_survive_save:
  assumes "clean_subs (form p)" "read_settings ''Failed to load MQTT subscription settings'' out = Inr (sub_payload (form p))"
  shows "sub_payload (form (fst (sub_load_settle preserve out q))) = sub_payload (form p) \<and>
         length (ms_rows (form (fst (sub_load_settle preserve out q)))) = length (ms_rows (form p)) \<and>
         ms_empty_shown (form (fst (sub_load_settle preserve out q))) = (ms_rows (form p) = [])"
proof -
  have "form (fst (sub_load_settle preserve out q)) = sub_fill (sub_payload (form p)) (form q)"
    using assms(2) by (simp add: sub_load_settle_def load_settle_def toggleBusy_def)
  moreover have "ms_rows (sub_fill (sub_payload (form p)) (form q)) = map sub_row_of (map row_sent (ms_rows (form p)))"
    by (simp add: sub_fill_def updateEmptyState_def rows_added sub_payload_def collectSubscriptions_def)
  moreover have "ms_empty_shown (sub_fill d f) = (ms_rows (sub_fill d f) = [])" for d f by (simp add: sub_fill_def updateEmptyState_def)
  moreover have "sub_payload (form (fst (sub_load_settle preserve out q))) = sub_payload (form p)"
    unfolding sub_load_settle_def by (rule subs.save_then_open [OF assms])
  ultimately show ?thesis by simp
qed

definition sample_subs :: "sub_form settings_page" where
  "sample_subs = \<lparr>form = \<lparr>ms_enabled = True, ms_host = ''hub'', ms_host_invalid = False, ms_port = ''1883'', ms_username = [], ms_password = [], ms_ssl = False,
      ms_rows = [\<lparr>sub_enabled = True, sub_topic = ''cam/cmd'', sub_qos = ''1'', sub_action = ''reboot''\<rparr>], ms_empty_shown = False, ms_validated = False\<rparr>,
     controls_disabled = False, page_busy = idle_bar, reload_disabled = False\<rparr>"

theorem subscriptions_survive_save_witness:
  "sub_payload (form (fst (sub_load_settle True (Answer \<lparr>status = 200, text_body = [], parsed = Some (sub_payload (form sample_subs))\<rparr>) sample_subs))) = sub_payload (form sample_subs)"
  using subscriptions_survive_save [where p = sample_subs and q = sample_subs and preserve = True
      and out = "Answer \<lparr>status = 200, text_body = [], parsed = Some (sub_payload (form sample_subs))\<rparr>"]
  by (simp add: clean_subs_def sample_subs_def qos_values_def read_settings_def resp_ok_def nullish_def sub_payload_def)

text \<open>
  The sunrise settings survive a save: with whole offsets, any page that loads what the camera stored shows the same coordinates and sends the same again.\<close>

theorem sun_survives_save:
  assumes "number_of_string (sun_text p ''sunrise_offset'') = Fin (of_int a)" "number_of_string (sun_text p ''sunset_offset'') = Fin (of_int b)"
    and "sun_answer out = Inr (jsonify (sun_payload p))"
  shows "sun_payload (fst (sun_load_settle out q)) = sun_payload p \<and> \<not> sun_disabled (fst (sun_load_settle out q)) \<and>
         sun_text (fst (sun_load_settle out q)) ''latitude'' = sun_text p ''latitude''"
proof -
  define sun where "sun = JObj [(''enabled'', JBool (sun_enabled p)), (''latitude'', JStr (sun_text p ''latitude'')), (''longitude'', JStr (sun_text p ''longitude'')),
    (''sunrise_offset'', jint a), (''sunset_offset'', jint b)]"
  have pl: "sun_payload p = JObj [(''sun'', sun)]"
    using assms(1,2) by (simp add: sun_payload_def sunParams_def sun_sent_def is_offset_def sun_def Let_def)
  have "jsonify sun = sun" by (simp add: sun_def)
  then have "sun_answer out = Inr (JObj [(''sun'', sun)])" using assms(3) pl by (simp add: sun_def)
  moreover have "js_or sun (JObj []) = sun" by (simp add: sun_def js_or_def)
  ultimately have q: "fst (sun_load_settle out q) = (applyConfig sun q)\<lparr>sun_busy := hideBusy (sun_busy q)\<rparr>"
    by (simp add: sun_load_settle_def applyConfig_def)
  have f: "sun_field sun ''latitude'' = sun_text p ''latitude''" "sun_field sun ''longitude'' = sun_text p ''longitude''"
    "sun_field sun ''sunrise_offset'' = show_int a" "sun_field sun ''sunset_offset'' = show_int b" "getp sun ''enabled'' = JBool (sun_enabled p)"
    using num_text_of_int [of a] num_text_of_int [of b] by (auto simp: sun_field_def sun_def nullish_def is_offset_def)
  have "sun_payload (fst (sun_load_settle out q)) = JObj [(''sun'', sun)]"
    unfolding q by (simp add: sun_payload_def sunParams_def sun_sent_def is_offset_def applyConfig_def f number_of_show_int Let_def) (simp add: sun_def)
  then show ?thesis using pl q f(1) by (simp add: applyConfig_def sunParams_def)
qed

definition sample_sun :: sun_page where
  "sample_sun = \<lparr>sun_enabled = False, sun_text = (\<lambda>_. []), sun_disabled = False, sun_save_disabled = False, sun_reload_disabled = False, sun_busy = idle_bar, sun_geo = GeoReady\<rparr>"

theorem sun_survives_save_witness:
  "sun_payload (fst (sun_load_settle (Answer \<lparr>status = 200, text_body = [], parsed = Some (jsonify (sun_payload sample_sun))\<rparr>) sample_sun)) = sun_payload sample_sun"
proof -
  have "number_of_string [] = Fin 0" by code_simp
  then show ?thesis
    using sun_survives_save [where p = sample_sun and q = sample_sun and a = 0 and b = 0 and out = "Answer \<lparr>status = 200, text_body = [], parsed = Some (jsonify (sun_payload sample_sun))\<rparr>"]
    by (simp add: sample_sun_def sun_answer_def resp_ok_def nullish_def sun_payload_def)
qed

text \<open>
  Saving the sunrise page after a load that failed erases the settings: the inputs stay disabled and empty, but the save button works,
  and a click sends a switched off tracker without coordinates and with zero offsets.\<close>

theorem failed_load_then_save_erases:
  assumes "sun_answer out = Inl m" "\<not> sun_enabled p" "\<forall>k\<in>set (tl sunParams). sun_text p k = []"
  shows "snd (sun_save (fst (sun_load_settle out (fst (sun_load p))))) =
         [Send (PostJson sun_url (JObj [(''sun'', JObj [(''enabled'', JBool False), (''latitude'', JStr []), (''longitude'', JStr []),
            (''sunrise_offset'', jint 0), (''sunset_offset'', jint 0)])]))] \<and>
         sun_disabled (fst (sun_load_settle out (fst (sun_load p)))) \<and> sun_save_disabled (fst (sun_load_settle out (fst (sun_load p)))) = sun_save_disabled p"
proof -
  have "number_of_string [] = Fin 0" by code_simp
  then show ?thesis
    using assms by (simp add: sun_load_settle_def sun_load_def disableInputs_def sun_save_def sun_payload_def sunParams_def sun_sent_def is_offset_def Let_def)
qed

theorem failed_load_then_save_erases_witness:
  "snd (sun_save (fst (sun_load_settle (Rejected ''offline'') (fst (sun_load sample_sun))))) =
     [Send (PostJson sun_url (JObj [(''sun'', JObj [(''enabled'', JBool False), (''latitude'', JStr []), (''longitude'', JStr []),
        (''sunrise_offset'', jint 0), (''sunset_offset'', jint 0)])]))]"
  using failed_load_then_save_erases [where out = "Rejected ''offline''" and m = "''offline''" and p = sample_sun]
  by (simp add: sun_answer_def sample_sun_def or_text_def)

end
