(* ===== verification/Info_Pages.thy ===== *)
theory Info_Pages
  imports Text_Editor Page_State Markup Url Tool_Pages
begin

text \<open>
  The information pages: command outputs with the text editor (\<open>info.js\<close>), system usage (\<open>info-usage.js\<close>), diagnostic log (\<open>info-diagnostic.js\<close>) and
  overlay usage (\<open>info-overlay.js\<close>). Texts that arrive in Base64 are lists of code points, as in \<open>Base64\<close>. The command lines that
  \<open>info.js\<close> shows are ASCII texts. The numbers of the usage answers are JSON numbers, so that \<open>+\<close> adds them. Style changes, animations, the toast of the usage
  page and the clipboard are browser display.
\<close>

section \<open>Command outputs\<close>

text \<open>\<open>decode\<close> is \<open>decodeURIComponent\<close>, which fails on a malformed escape.\<close>

definition parseInitialTab :: "(string \<Rightarrow> string option) \<Rightarrow> string \<Rightarrow> string option" where
  "parseInitialTab decode location_search =
     (let search = (if starts_with location_search ''?'' then tl location_search else location_search)
      in if search = [] then Some ''system''
         else if CHR ''='' \<in> set search
         then (let ps = parse_params search; get = (\<lambda>k. case map_of ps k of Some v \<Rightarrow> v | None \<Rightarrow> [])
               in Some (or_text (get ''section'') (or_text (get ''name'') (or_text (get ''tab'') ''system''))))
         else decode search)"

definition buildShareUrl :: "string \<Rightarrow> string" where
  "buildShareUrl command = ''/x/send.cgi?to=termbin&payload='' @ encodeURIComponent (btoa command)"

definition or_points :: "cps \<Rightarrow> cps \<Rightarrow> cps" where
  "or_points a b = (if a = [] then b else a)"

definition decodeCommandOutput :: "js \<Rightarrow> cps" where
  "decodeCommandOutput entry =
     (if \<not> truthy entry \<or> \<not> is_object entry then []
      else let encoded = trim (str_or_empty (getp entry ''output_base64'')); fallback = bytes_of (str_or_empty (getp entry ''output''))
           in if encoded = [] then fallback
              else or_points (decodeBase64String True encoded) (or_points fallback (bytes_of ''[Unable to decode output]'')))"

definition decodeExtrasHtml :: "js \<Rightarrow> cps" where
  "decodeExtrasHtml payload =
     (if \<not> truthy payload \<or> \<not> is_object payload then []
      else let encoded = trim (str_or_empty (getp payload ''extras_html_base64'')) in if encoded = [] then [] else decodeBase64String True encoded)"

text \<open>A block of the page: the heading, the address of the share link and the output.\<close>

record output_block =
  ob_title :: string
  ob_share :: string
  ob_text :: cps

definition output_block_of :: "js \<Rightarrow> output_block" where
  "output_block_of entry =
     \<lparr>ob_title = ''# '' @ js_text (js_or (getp entry ''command'') (JStr ''command'')),
      ob_share = buildShareUrl (js_text (js_or (getp entry ''command'') (JStr []))), ob_text = decodeCommandOutput entry\<rparr>"

record info_page =
  in_blocks :: "output_block list"
  in_empty_note :: bool
  in_extras :: cps
  in_busy :: busy_bar

text \<open>The flag says that the function returned: an entry that is \<open>null\<close> makes it throw.\<close>

definition renderOutputs :: "js \<Rightarrow> info_page \<Rightarrow> info_page \<times> bool" where
  "renderOutputs es p =
     (case es of
        JArr (v # vs) \<Rightarrow>
          (let good = takeWhile (\<lambda>e. \<not> nullish e) (v # vs)
           in (p\<lparr>in_blocks := map output_block_of good, in_empty_note := False\<rparr>, good = v # vs))
      | _ \<Rightarrow> (p\<lparr>in_blocks := [], in_empty_note := True\<rparr>, True))"

definition loadSection :: "string \<Rightarrow> info_page \<Rightarrow> info_page \<times> effect list" where
  "loadSection tabId p =
     (p\<lparr>in_busy := showBusy (in_busy p), in_blocks := [], in_empty_note := False, in_extras := []\<rparr>,
      [Send (Get (''/x/info.cgi?'' @ encodeURIComponent (or_text tabId ''system'')))])"

definition loadSection_settle :: "outcome \<Rightarrow> info_page \<Rightarrow> info_page \<times> effect list" where
  "loadSection_settle out p =
     (let failed = (\<lambda>m q. (q, [Notice ''danger'' [js_or m (JStr ''Unable to load the requested section.'')] 6000]));
          (q, fx) = (case read_payload ''Failed to fetch logs.'' out of
            Inl m \<Rightarrow> failed m p
          | Inr data \<Rightarrow>
              if nullish data then failed (JStr ''TypeError'') p
              else let (q, ok) = renderOutputs (js_or (getp data ''commands'') (JArr [])) p
                   in if ok then (q\<lparr>in_extras := decodeExtrasHtml data\<rparr>, []) else failed (JStr ''TypeError'') q)
      in (q\<lparr>in_busy := hideBusy (in_busy q)\<rparr>, fx))"

subsection \<open>The editor of the page\<close>

text \<open>Over the state of \<open>Text_Editor\<close>; the script is a second one, without a directory to refresh, and clears the text area before it loads.\<close>

definition info_backup :: "string \<Rightarrow> editor \<Rightarrow> ed_effect list" where
  "info_backup stamp e =
     (case (currentFile e, originalContent e) of
        (Some f, Some c) \<Rightarrow> if f = [] \<or> c = [] then [] else [Backup (base_name f @ ''.backup_'' @ stamp) c]
      | _ \<Rightarrow> [])"

definition info_loadTextFile :: "string \<Rightarrow> editor \<Rightarrow> editor \<times> ed_effect list" where
  "info_loadTextFile filePath e =
     (e\<lparr>editor_status := [JStr ''Loading...''], area_disabled := True, save_disabled := True, reload_disabled := True, raw_value := []\<rparr>,
      [EGet (''/x/texteditor.cgi?file='' @ encodeURIComponent filePath)])"

definition info_load_failed :: "js \<Rightarrow> editor \<Rightarrow> editor \<times> ed_effect list" where
  "info_load_failed msg e =
     (e\<lparr>editor_status := [JStr ''Error: '', msg], raw_value := [], area_disabled := True, save_disabled := True, reload_disabled := True\<rparr>,
      [EAlert ''danger'' [JStr ''Failed to load file: '', msg]])"

definition info_load_settle :: "string \<Rightarrow> outcome \<Rightarrow> editor \<Rightarrow> editor \<times> ed_effect list" where
  "info_load_settle filePath out e =
     (case read_editor_answer out of
        Inl msg \<Rightarrow> info_load_failed msg e
      | Inr data \<Rightarrow>
          let e1 = e\<lparr>currentFile := Some filePath\<rparr>; raw = str_or_empty (getp data ''content''); encoded = (getp data ''content_encoding'' = JStr ''base64'');
              content = (if encoded then decodeBase64String True raw else bytes_of raw)
          in if encoded \<and> content = [] \<and> raw \<noteq> [] then info_load_failed (JStr ''Failed to decode file content'') e1
             else (e1\<lparr>originalContent := Some content, isModified := False, raw_value := content, area_disabled := \<not> truthy (getp data ''writable''),
                      save_disabled := True, reload_disabled := False,
                      editor_status := [JStr (if truthy (getp data ''writable'') then ''Ready'' else ''Read-only'')], editor_label := ''Edit: '' @ base_name filePath\<rparr>, []))"

definition info_input :: "cps \<Rightarrow> editor \<Rightarrow> editor" where
  "info_input v e =
     (let m = (Some (area_value v) \<noteq> originalContent e) in e\<lparr>raw_value := v, isModified := m, save_disabled := \<not> m\<rparr>)"

definition info_tab :: "nat \<Rightarrow> nat \<Rightarrow> editor \<Rightarrow> editor" where
  "info_tab start stop e = (let v = text_of e in info_input (take start v @ [32, 32] @ drop stop v) e)"

definition info_save_post :: "editor \<Rightarrow> editor \<times> ed_effect list" where
  "info_save_post e =
     (e\<lparr>editor_status := [JStr ''Saving...''], save_disabled := True\<rparr>,
      [EPost (''/x/texteditor.cgi?file='' @ file_param (currentFile e)) (utf8_encode (text_of e))])"

definition info_saveTextFile :: "string \<Rightarrow> editor \<Rightarrow> editor \<times> ed_effect list" where
  "info_saveTextFile stamp e =
     (if currentFile e = None \<or> currentFile e = Some [] \<or> \<not> isModified e then (e, [])
      else if autoBackup e then (e, info_backup stamp e @ [SaveSoon])
      else info_save_post e)"

definition info_save_settle :: "outcome \<Rightarrow> editor \<Rightarrow> editor \<times> ed_effect list" where
  "info_save_settle out e =
     (let failed = (\<lambda>msg d. (d\<lparr>editor_status := [JStr ''Save failed: '', msg], save_disabled := \<not> isModified d\<rparr>,
            [EAlert ''danger'' [JStr ''Failed to save file: '', msg]]))
      in case read_editor_answer out of
           Inl msg \<Rightarrow> failed msg e
         | Inr _ \<Rightarrow>
             let d = e\<lparr>originalContent := Some (text_of e), isModified := False, save_disabled := True, editor_status := [JStr ''Saved successfully'']\<rparr>
             in case currentFile d of
                  None \<Rightarrow> failed (JStr ''TypeError'') d
                | Some f \<Rightarrow> (d, [EAlert ''success'' [JStr (''File saved: '' @ base_name f)]]))"

definition info_reload :: "editor \<Rightarrow> editor \<times> ed_effect list" where
  "info_reload e =
     (let ask = (if isModified e then [AskConfirm ''Discard unsaved changes and reload?''] else [])
      in if currentFile e = None \<or> currentFile e = Some [] then (e, ask)
         else (let (d, fx) = info_loadTextFile (the (currentFile e)) e in (d, ask @ fx)))"

definition info_hidden :: "string \<Rightarrow> editor \<Rightarrow> editor \<times> ed_effect list" where
  "info_hidden stamp e =
     (let (d, fx) = (if isModified e
            then (let (d, gx) = info_saveTextFile stamp e in (d, AskConfirm ''You have unsaved changes. Do you want to save before closing?'' # gx))
            else (e, []))
      in (d\<lparr>currentFile := None, originalContent := None, isModified := False, raw_value := [], editor_status := [JStr ''Ready'']\<rparr>, fx))"

definition info_ctrl_s :: "string \<Rightarrow> editor \<Rightarrow> editor \<times> ed_effect list" where
  "info_ctrl_s stamp e = (if save_disabled e then (e, []) else info_saveTextFile stamp e)"

definition editFile :: "string \<Rightarrow> editor \<Rightarrow> editor \<times> ed_effect list" where
  "editFile filePath e = info_loadTextFile filePath e"

section \<open>System usage\<close>

text \<open>\<open>section.k || 0\<close> of a JSON number.\<close>

definition amount :: "js \<Rightarrow> string \<Rightarrow> rat" where
  "amount d k = (case getp d k of JNum (Fin q) \<Rightarrow> q | _ \<Rightarrow> 0)"

text \<open>The free amount that is shown and the share that is used; \<open>None\<close> where there is no data. A total is finite.\<close>

definition usage_numbers :: "js \<Rightarrow> (rat \<times> int) option" where
  "usage_numbers section =
     (let t = (case to_number (getp section ''total'') of Fin q \<Rightarrow> q | _ \<Rightarrow> 0)
      in if \<not> truthy section \<or> t = 0 then None
         else let free = (case to_number (getp section ''free'') of
                            Fin f \<Rightarrow> max 0 f
                          | _ \<Rightarrow> max 0 (t - (case to_number (getp section ''used'') of Fin u \<Rightarrow> u | _ \<Rightarrow> 0)));
                  used = max 0 (t - free)
              in Some (free, math_round (used / t * 100)))"

definition formatUsageSummary :: "js \<Rightarrow> string" where
  "formatUsageSummary section =
     (case usage_numbers section of
        None \<Rightarrow> ''No data available''
      | Some (free, percent) \<Rightarrow> num_text (Fin free) @ '' KiB free ('' @ show_int percent @ ''% used)'')"

record legend_item =
  lg_color :: string
  lg_label :: string
  lg_value :: rat
  lg_total :: rat

definition legend_text :: "legend_item \<Rightarrow> string" where
  "legend_text i =
     (let t = (if lg_total i = 0 then 1 else lg_total i); percent = (if t > 0 then math_round (lg_value i / t * 100) else 0)
      in lg_label i @ '': '' @ num_text (Fin (lg_value i)) @ '' KiB ('' @ show_int percent @ ''%)'')"

definition memory_parts :: "js \<Rightarrow> (string \<times> string \<times> rat) list" where
  "memory_parts memory =
     (let used = amount memory ''total'' - amount memory ''free'';
          active = amount memory ''active''; buffers = amount memory ''buffers''; cached = amount memory ''cached''
      in [(''#ff6b6b'', ''Active'', active), (''#ffb347'', ''Buffers'', buffers), (''#4ecdc4'', ''Cached'', cached),
          (''#95a5a6'', ''Other'', max 0 (used - (active + buffers + cached)))])"

record usage_view =
  uv_titles :: "string list"
  uv_bars :: "(string \<times> progress_bar option) list"
  uv_legends :: "(string \<times> string list) list"
  uv_summaries :: "string list"

definition used_bar :: "js \<Rightarrow> string \<Rightarrow> progress_bar option" where
  "used_bar s label = setProgressBar True (JNum (Fin (amount s ''used''))) (JNum (Fin (if amount s ''total'' = 0 then 1 else amount s ''total''))) (JStr label)"

definition used_legend :: "js \<Rightarrow> string \<Rightarrow> string list" where
  "used_legend s color =
     [legend_text \<lparr>lg_color = color, lg_label = ''Used'', lg_value = amount s ''used'', lg_total = (if amount s ''total'' = 0 then 1 else amount s ''total'')\<rparr>]"

definition updateUsageView :: "js \<Rightarrow> usage_view" where
  "updateUsageView data =
     (let memory = js_or (getp data ''memory'') (JObj []); overlay = js_or (getp data ''overlay'') (JObj []); extras = js_or (getp data ''extras'') (JObj []);
          memTotal = amount memory ''total''; memFree = amount memory ''free''
      in \<lparr>uv_titles = [''Memory ('' @ num_text (Fin memTotal) @ '' KiB)'', ''Overlay partition ('' @ num_text (Fin (amount overlay ''total'')) @ '' KiB)'',
            ''Extras storage ('' @ num_text (Fin (amount extras ''total'')) @ '' KiB)''],
          uv_bars =
            map (\<lambda>(c, l, v). (''#pb-memory-'' @ to_lower l, setProgressBar True (JNum (Fin v)) (JNum (Fin memTotal)) (JStr (''Memory '' @ l)))) (memory_parts memory) @
            [(''#pb-overlay-used'', used_bar overlay ''Overlay Usage''), (''#pb-extras-used'', used_bar extras ''Extras Usage'')],
          uv_legends = [(''memory-legend'', map (\<lambda>(c, l, v). legend_text \<lparr>lg_color = c, lg_label = l, lg_value = v, lg_total = memTotal\<rparr>) (memory_parts memory)),
            (''overlay-legend'', used_legend overlay ''#b084f7''), (''extras-legend'', used_legend extras ''#4a90e2'')],
          uv_summaries = [formatUsageSummary (JObj [(''total'', JNum (Fin memTotal)), (''free'', JNum (Fin memFree)), (''used'', JNum (Fin (memTotal - memFree)))]),
            formatUsageSummary overlay, formatUsageSummary extras]\<rparr>)"

record usage_page =
  us_spinner :: bool
  us_content :: bool
  us_error :: "js option"
  us_refresh_disabled :: bool
  us_view :: "usage_view option"

definition fetchUsageData :: "outcome \<Rightarrow> js + js" where
  "fetchUsageData out =
     (case out of
        Rejected m \<Rightarrow> Inl (JStr m)
      | Answer r \<Rightarrow>
          if \<not> resp_ok r then Inl (JStr (''Request failed with status '' @ show_int (status r)))
          else (case parsed r of
                  None \<Rightarrow> Inl (JStr ''SyntaxError'')
                | Some payload \<Rightarrow>
                    let d = and_prop payload ''data'' in if truthy d \<and> is_object d then Inr d else Inl (JStr ''Usage response missing data.'')))"

definition loadUsage :: "bool \<Rightarrow> usage_page \<Rightarrow> usage_page \<times> effect list" where
  "loadUsage silent p =
     (if silent then p\<lparr>us_refresh_disabled := True\<rparr> else p\<lparr>us_error := None, us_content := False, us_spinner := True\<rparr>, [Send (Get ''/x/json-system-usage.cgi'')])"

definition loadUsage_settle :: "bool \<Rightarrow> outcome \<Rightarrow> usage_page \<Rightarrow> usage_page" where
  "loadUsage_settle silent out p =
     (let q = (case fetchUsageData out of
            Inr d \<Rightarrow> p\<lparr>us_view := Some (updateUsageView d), us_spinner := False, us_content := True\<rparr>
          | Inl m \<Rightarrow> p\<lparr>us_content := False, us_spinner := False, us_error := Some (js_or m (JStr ''Unable to load usage data.''))\<rparr>)
      in if silent then q\<lparr>us_refresh_disabled := False\<rparr> else q)"


section \<open>Diagnostic log\<close>

text \<open>The white space of \<open>trim()\<close> on code points.\<close>

definition point_space :: "nat \<Rightarrow> bool" where
  "point_space n \<longleftrightarrow> 9 \<le> n \<and> n \<le> 13 \<or> n = 32 \<or> n = 160 \<or> n = 0x1680 \<or> 0x2000 \<le> n \<and> n \<le> 0x200A \<or>
     n = 0x2028 \<or> n = 0x2029 \<or> n = 0x202F \<or> n = 0x205F \<or> n = 0x3000 \<or> n = 0xFEFF"

definition trim_points :: "cps \<Rightarrow> cps" where
  "trim_points v = rev (dropWhile point_space (rev (dropWhile point_space v)))"

record diag_page =
  lastLink :: js
  diagnosticData :: cps
  dg_result_shown :: bool
  dg_link_shown :: bool
  dg_output :: "cps option" \<comment> \<open>the shown output\<close>
  dg_upload_shown :: bool
  dg_download_shown :: bool
  dg_submit_disabled :: bool
  dg_upload_disabled :: bool
  dg_busy :: busy_bar

definition diag_url :: string where "diag_url = ''/x/info-diagnostic.cgi''"

definition toggleBusyState :: "bool \<Rightarrow> diag_page \<Rightarrow> diag_page" where
  "toggleBusyState isBusy p = p\<lparr>dg_submit_disabled := isBusy, dg_busy := (if isBusy then showBusy (dg_busy p) else hideBusy (dg_busy p))\<rparr>"

definition diag_output :: "js \<Rightarrow> cps" where
  "diag_output payload =
     (let encoded = trim (str_or_empty (getp payload ''output_b64'')); fallback = bytes_of (str_or_empty (getp payload ''output''))
      in trim_points (if encoded = [] then fallback
           else or_points (decodeBase64String True encoded) (or_points fallback (bytes_of ''[Unable to decode diagnostic output]''))))"

definition renderResult :: "js \<Rightarrow> diag_page \<Rightarrow> diag_page \<times> effect list" where
  "renderResult payload p =
     (if truthy (getp payload ''link'')
      then (p\<lparr>lastLink := getp payload ''link'', dg_link_shown := True, dg_output := None, dg_upload_shown := False, dg_download_shown := False, dg_result_shown := True\<rparr>,
            [Notice ''success'' [JStr ''Diagnostic log uploaded successfully.''] 6000])
      else let raw = diag_output payload
           in (p\<lparr>diagnosticData := raw, dg_output := (if raw = [] then None else Some raw), dg_upload_shown := (raw \<noteq> []), dg_download_shown := (raw \<noteq> []),
                 dg_link_shown := False, dg_result_shown := True\<rparr>,
               [Notice ''success'' [JStr (if raw = [] then ''Diagnostic log generated.'' else ''Diagnostic log generated successfully.'')] 6000]))"

definition diag_submit :: "bool \<Rightarrow> diag_page \<Rightarrow> diag_page \<times> effect list" where
  "diag_submit direct p =
     (toggleBusyState True (p\<lparr>dg_result_shown := False, dg_output := None, dg_link_shown := False, dg_upload_shown := False, dg_download_shown := False,
        diagnosticData := [], lastLink := JStr []\<rparr>),
      [Send (PostForm diag_url [(if direct then ''direct_upload'' else ''generate_only'', ''true'')])])"

text \<open>The answer of both requests: \<open>!response.ok || data.error\<close> and \<open>data?.error?.message || fallback\<close>.\<close>

definition diag_answer :: "string \<Rightarrow> outcome \<Rightarrow> js + js" where
  "diag_answer failed out =
     (case out of
        Rejected m \<Rightarrow> Inl (JStr m)
      | Answer r \<Rightarrow>
          (case parsed r of
             None \<Rightarrow> Inl (JStr ''SyntaxError'')
           | Some data \<Rightarrow>
               if resp_ok r \<and> nullish data then Inl (JStr ''TypeError'')
               else if \<not> resp_ok r \<or> truthy (getp data ''error'')
               then Inl (js_or (getp (getp data ''error'') ''message'') (JStr (failed @ '' (HTTP '' @ show_int (status r) @ '')'')))
               else Inr data))"

definition diag_settle :: "outcome \<Rightarrow> diag_page \<Rightarrow> diag_page \<times> effect list" where
  "diag_settle out p =
     (let (q, fx) = (case diag_answer ''Failed to generate diagnostics'' out of
            Inl m \<Rightarrow> (p, [Notice ''danger'' [js_or m (JStr ''Failed to generate diagnostic log.'')] 6000])
          | Inr data \<Rightarrow> renderResult data p)
      in (toggleBusyState False q, fx))"

definition diag_upload :: "diag_page \<Rightarrow> diag_page \<times> effect list" where
  "diag_upload p =
     (if diagnosticData p = [] then (p, [Notice ''warning'' [JStr ''No diagnostic data to upload.''] 6000])
      else (p\<lparr>dg_upload_disabled := True\<rparr>, [Send (PostForm diag_url [(''upload_data'', utf8_encode (diagnosticData p))])]))"

definition diag_upload_settle :: "outcome \<Rightarrow> diag_page \<Rightarrow> diag_page \<times> effect list" where
  "diag_upload_settle out p =
     (let (q, fx) = (case diag_answer ''Upload failed'' out of
            Inl m \<Rightarrow> (p, [Notice ''danger'' [js_or m (JStr ''Upload failed.'')] 6000])
          | Inr data \<Rightarrow>
              if truthy (getp data ''link'')
              then (p\<lparr>lastLink := getp data ''link'', dg_link_shown := True\<rparr>, [Notice ''success'' [JStr ''Diagnostic log uploaded successfully.''] 6000])
              else (p, [Notice ''danger'' [JStr ''Upload successful but no link received.''] 6000]))
      in (q\<lparr>dg_upload_disabled := False\<rparr>, fx))"

text \<open>What the download saves; \<open>stamp\<close> is the time in the name of the file.\<close>

definition diag_download :: "string \<Rightarrow> diag_page \<Rightarrow> (string \<times> string) option \<times> effect list" where
  "diag_download stamp p =
     (if diagnosticData p = [] then (None, [Notice ''danger'' [JStr ''No diagnostic data to download.''] 6000])
      else let filename = ''thingino-diag-'' @ stamp @ ''.log''
           in (Some (filename, utf8_encode (diagnosticData p)), [Notice ''success'' [JStr (''Diagnostic log downloaded as '' @ filename)] 6000]))"

section \<open>Overlay usage\<close>

record overlay_page =
  op_label :: js
  op_width :: rat \<comment> \<open>of the bar, in percent\<close>
  op_now :: rat
  op_state :: js
  op_danger :: bool
  op_listing :: cps
  op_busy :: busy_bar

definition decodeListing :: "js \<Rightarrow> cps" where
  "decodeListing payload =
     (if \<not> truthy payload \<or> \<not> is_object payload then []
      else let encoded = trim (str_or_empty (getp payload ''listing_base64'')); listing = bytes_of (str_or_empty (getp payload ''listing''))
           in if encoded = [] then listing else or_points (decodeBase64String True encoded) listing)"

text \<open>A number of a JSON answer is finite.\<close>

definition setUsage :: "js \<Rightarrow> overlay_page \<Rightarrow> overlay_page" where
  "setUsage data p =
     (let usage = (if truthy data \<and> truthy (getp data ''usage'') then getp data ''usage'' else JObj []);
          percent = (case getp usage ''percent'' of JNum (Fin q) \<Rightarrow> q | _ \<Rightarrow> 0); state = js_or (getp usage ''state'') (JStr ''primary'')
      in p\<lparr>op_label := js_or (getp usage ''label'') (JStr ''--''), op_width := max 0 (min 100 percent), op_now := percent, op_state := state,
           op_danger := (state = JStr ''danger'')\<rparr>)"

definition loadOverlay :: "overlay_page \<Rightarrow> overlay_page \<times> effect list" where
  "loadOverlay p = (p\<lparr>op_busy := showBusy (op_busy p)\<rparr>, [Send (Get ''/x/info-overlay.cgi'')])"

definition loadOverlay_settle :: "outcome \<Rightarrow> overlay_page \<Rightarrow> overlay_page \<times> effect list" where
  "loadOverlay_settle out p =
     (let (q, fx) = (case read_payload ''Failed to load overlay usage.'' out of
            Inl m \<Rightarrow> (p\<lparr>op_listing := bytes_of ''Unable to load directory listing.''\<rparr>, [Notice ''danger'' [js_or m (JStr ''Unable to load overlay stats.'')] 6000])
          | Inr data \<Rightarrow> ((setUsage data p)\<lparr>op_listing := or_points (decodeListing data) (bytes_of ''No files reported.'')\<rparr>, []))
      in (q\<lparr>op_busy := hideBusy (op_busy q)\<rparr>, fx))"

section \<open>Lemmas\<close>

lemma b64_solid: "b64_val c = Some n \<Longrightarrow> \<not> is_space c"
  by (auto simp: b64_val_def is_space_def Let_def split: if_splits)

lemma btoa_solid: "c \<in> set (btoa s) \<Longrightarrow> \<not> is_space c"
proof -
  assume "c \<in> set (btoa s)"
  then consider v where "v \<in> set (sextets (bytes_of s))" "c = b64_char v" | "c = CHR ''=''" by (auto simp: btoa_def Let_def split: if_splits)
  then show ?thesis
  proof cases
    case 1
    have "v < 64" using bytes_less by (rule sextets_less [OF _ 1(1)])
    then show ?thesis using 1(2) b64_val_char b64_solid by blast
  qed (simp add: is_space_def)
qed

lemma trim_btoa: "trim (btoa s) = btoa s"
proof (cases "btoa s = []")
  case False
  then show ?thesis using btoa_solid [of "hd (btoa s)" s] btoa_solid [of "last (btoa s)" s] by (intro trim_solid) simp_all
qed (simp add: trim_Nil)

section \<open>Properties\<close>

text \<open>
  C21. The editor of the information page behaves like the one of the file manager: loading, editing, the tab key, saving and closing give the same
  state and the same requests, apart from the directory, which it does not refresh, and the text area, which it clears while it loads.\<close>

theorem info_editor_agrees:
  "fst (info_loadTextFile f e) = (fst (loadTextFile f e))\<lparr>raw_value := []\<rparr> \<and> snd (info_loadTextFile f e) = snd (loadTextFile f e) \<and>
   info_load_settle f out (fst (info_loadTextFile f e)) = loadTextFile_settle f out (fst (loadTextFile f e)) \<and>
   info_input v e = input_event v e \<and> info_tab i j e = tab_key i j e \<and> info_saveTextFile stamp e = saveTextFile stamp e \<and>
   fst (info_save_settle out e) = fst (saveTextFile_settle out e) \<and>
   snd (info_save_settle out e) = filter (\<lambda>x. x \<noteq> RefreshSoon) (snd (saveTextFile_settle out e)) \<and>
   info_hidden stamp e = editor_hidden stamp e \<and> info_ctrl_s stamp e = ctrl_s stamp e"
proof -
  have save: "info_saveTextFile stamp e = saveTextFile stamp e" for e
    by (auto simp: info_saveTextFile_def saveTextFile_def info_backup_def downloadBackupFromMemory_def info_save_post_def save_post_def split: option.splits)
  have load: "info_load_settle f out (fst (info_loadTextFile f e)) = loadTextFile_settle f out (fst (loadTextFile f e))"
    by (auto simp: info_load_settle_def loadTextFile_settle_def info_loadTextFile_def loadTextFile_def info_load_failed_def load_failed_def content_of_def Let_def
        split: sum.splits)
  have settle: "fst (info_save_settle out e) = fst (saveTextFile_settle out e)"
    "snd (info_save_settle out e) = filter (\<lambda>x. x \<noteq> RefreshSoon) (snd (saveTextFile_settle out e))"
    by (simp_all add: info_save_settle_def saveTextFile_settle_def save_failed_def Let_def split: sum.splits option.splits)
  show ?thesis
    using save load settle by (simp add: info_loadTextFile_def loadTextFile_def info_input_def input_event_def check_modified_def info_tab_def tab_key_def
        info_hidden_def editor_hidden_def info_ctrl_s_def ctrl_s_def Let_def)
qed

text \<open>
  Closing the editor of the information page while a reload is under way empties the file: the reload of a modified text clears the text area
  at once but leaves the modified mark, so closing sends the empty text to the file, whatever the user answers to either question.\<close>

theorem close_during_reload_empties_file:
  assumes "currentFile e = Some f" "f \<noteq> []" "isModified e" "\<not> autoBackup e"
  shows "AskConfirm ''Discard unsaved changes and reload?'' \<in> set (snd (info_reload e)) \<and>
         EPost (''/x/texteditor.cgi?file='' @ encodeURIComponent f) [] \<in> set (snd (info_hidden stamp (fst (info_reload e))))"
  using assms
  by (simp add: info_reload_def info_loadTextFile_def info_hidden_def info_saveTextFile_def info_save_post_def file_param_def utf8_encode_def Let_def)

theorem close_during_reload_empties_file_witness:
  "EPost (''/x/texteditor.cgi?file='' @ encodeURIComponent ''/a'') [] \<in> set (snd (info_hidden [] (fst (info_reload
     (blank_editor\<lparr>currentFile := Some ''/a'', originalContent := Some [65], isModified := True, raw_value := [65, 66]\<rparr>)))))"
  using close_during_reload_empties_file [of "blank_editor\<lparr>currentFile := Some ''/a'', originalContent := Some [65], isModified := True, raw_value := [65, 66]\<rparr>" "''/a''" "[]"]
  by (simp add: blank_editor_def)

text \<open>
  The shares of the usage page are shares: whatever the camera reports, the used percentage of a summary lies between 0 and 100 and the free amount is not negative; and where
  the reported parts of the memory fit into what is used, the four parts add up to exactly the used memory.\<close>

theorem usage_shares_bounded:
  "(case usage_numbers section of Some (free, percent) \<Rightarrow> 0 \<le> free \<and> 0 \<le> percent \<and> percent \<le> 100 | None \<Rightarrow> True) \<and>
   (amount m ''active'' + amount m ''buffers'' + amount m ''cached'' \<le> amount m ''total'' - amount m ''free'' \<longrightarrow>
    sum_list (map (\<lambda>(c, l, v). v) (memory_parts m)) = amount m ''total'' - amount m ''free'')"
proof -
  have range: "0 \<le> math_round (max 0 (t - f) / t * 100) \<and> math_round (max 0 (t - f) / t * 100) \<le> 100" if "0 \<le> f" for t f :: rat
  proof -
    have "0 \<le> max 0 (t - f) / t * 100 \<and> max 0 (t - f) / t * 100 \<le> 100"
    proof (cases "0 < t")
      case True
      then have "max 0 (t - f) \<le> t" using that by simp
      then show ?thesis using True by (simp add: divide_le_eq)
    next
      case False
      then have "max 0 (t - f) = 0" using that by simp
      then show ?thesis by simp
    qed
    then show ?thesis using math_round_ge [of 0 "max 0 (t - f) / t * 100"] math_round_le [of "max 0 (t - f) / t * 100" 100] by simp
  qed
  have "case usage_numbers section of Some (free, percent) \<Rightarrow> 0 \<le> free \<and> 0 \<le> percent \<and> percent \<le> 100 | None \<Rightarrow> True"
    using range by (simp add: usage_numbers_def Let_def split: jnum.split)
  moreover have "sum_list (map (\<lambda>(c, l, v). v) (memory_parts m)) = amount m ''total'' - amount m ''free''"
    if "amount m ''active'' + amount m ''buffers'' + amount m ''cached'' \<le> amount m ''total'' - amount m ''free''"
    using that by (simp add: memory_parts_def Let_def)
  ultimately show ?thesis by blast
qed

theorem usage_shares_bounded_witness:
  "sum_list (map (\<lambda>(c, l, v). v) (memory_parts (JObj [(''total'', jint 100), (''free'', jint 40), (''active'', jint 30), (''cached'', jint 10)]))) = 60"
  using usage_shares_bounded [of JNull "JObj [(''total'', jint 100), (''free'', jint 40), (''active'', jint 30), (''cached'', jint 10)]"]
  by (simp add: amount_def)

text \<open>
  An error of the usage page outlives it: after a failed load, a refresh that succeeds shows the new numbers and still the old error message.\<close>

theorem usage_error_stays:
  assumes "fetchUsageData out = Inl m" "fetchUsageData out' = Inr d"
  shows "let p1 = loadUsage_settle False out (fst (loadUsage False p)); p2 = loadUsage_settle True out' (fst (loadUsage True p1))
         in us_error p2 = Some (js_or m (JStr ''Unable to load usage data.'')) \<and> us_content p2 \<and> us_view p2 = Some (updateUsageView d)"
  using assms by (simp add: loadUsage_settle_def loadUsage_def Let_def)

theorem usage_error_stays_witness:
  "us_error (loadUsage_settle True (Answer \<lparr>status = 200, text_body = [], parsed = Some (JObj [(''data'', JObj [])])\<rparr>)
     (fst (loadUsage True (loadUsage_settle False (Rejected ''offline'') (fst (loadUsage False
       \<lparr>us_spinner = False, us_content = False, us_error = None, us_refresh_disabled = False, us_view = None\<rparr>)))))) = Some (JStr ''offline'')"
  using usage_error_stays [where out = "Rejected ''offline''" and m = "JStr ''offline''" and out' = "Answer \<lparr>status = 200, text_body = [], parsed = Some (JObj [(''data'', JObj [])])\<rparr>"
      and d = "JObj []" and p = "\<lparr>us_spinner = False, us_content = False, us_error = None, us_refresh_disabled = False, us_view = None\<rparr>"]
  by (simp add: fetchUsageData_def resp_ok_def and_prop_def js_or_def Let_def)

text \<open>
  What a command's share link carries is the command, and a diagnostic log is shown, uploaded and downloaded as the camera made it: the payload of the link decodes to the
  command; a log in Base64 without white space at its ends is shown unchanged, and the upload and the download send exactly its UTF-8 bytes.\<close>

theorem shared_texts_roundtrip:
  assumes "list_all scalar_value v" "hd v \<noteq> 0xFEFF" "v \<noteq> []" "trim_points v = v" "\<not> truthy (getp d ''link'')"
    and "getp d ''output_b64'' = JStr (btoa (utf8_encode v))"
  shows "atob (pct_decode (drop (length ''/x/send.cgi?to=termbin&payload='') (buildShareUrl command))) = Some command \<and>
         dg_output (fst (renderResult d p)) = Some v \<and>
         snd (diag_upload (fst (renderResult d p))) = [Send (PostForm diag_url [(''upload_data'', utf8_encode v)])] \<and>
         fst (diag_download stamp (fst (renderResult d p))) = Some (''thingino-diag-'' @ stamp @ ''.log'', utf8_encode v)"
proof -
  have share: "atob (pct_decode (drop (length ''/x/send.cgi?to=termbin&payload='') (buildShareUrl command))) = Some command"
    by (simp add: buildShareUrl_def pct_decode_uri atob_btoa)
  have "btoa (utf8_encode v) \<noteq> []" using assms(3) by (simp add: btoa_Nil_iff utf8_encode_Nil)
  moreover have "decodeBase64String True (btoa (utf8_encode v)) = v" using assms(1,2) by (intro decode_text) simp_all
  ultimately have "diag_output d = v"
    using assms(3,4,6) by (simp add: diag_output_def trim_btoa or_points_def)
  then show ?thesis using assms(3,5) share by (simp add: renderResult_def diag_upload_def diag_download_def Let_def)
qed

definition sample_diag :: diag_page where
  "sample_diag = \<lparr>lastLink = JStr [], diagnosticData = [], dg_result_shown = False, dg_link_shown = False, dg_output = None, dg_upload_shown = False,
     dg_download_shown = False, dg_submit_disabled = False, dg_upload_disabled = False, dg_busy = idle_bar\<rparr>"

theorem shared_texts_roundtrip_witness:
  "dg_output (fst (renderResult (JObj [(''output_b64'', JStr (btoa (utf8_encode [72, 0xB0])))]) sample_diag)) = Some [72, 0xB0] \<and>
   atob (pct_decode (drop (length ''/x/send.cgi?to=termbin&payload='') (buildShareUrl ''dmesg''))) = Some ''dmesg''"
  using shared_texts_roundtrip [where v = "[72, 0xB0]" and d = "JObj [(''output_b64'', JStr (btoa (utf8_encode [72, 0xB0])))]" and command = "''dmesg''"
      and p = sample_diag and stamp = "[]"]
  by (simp add: scalar_value_def trim_points_def point_space_def)

end
