(* ===== verification/Button_Clicks.thy ===== *)
theory Button_Clicks
  imports Toggles
begin

text \<open>
  The click handlers that \<open>initAll\<close> of \<open>main.js\<close> binds to the buttons of the control bar: which toggle of \<open>Toggles\<close> a button starts, and with which
  state. A handler is bound only where the page has the button; \<open>now\<close> is the time of the click. The handlers of the timelapse and theme buttons are in \<open>Timelapse\<close> and \<open>Page_State\<close>.
\<close>

definition shows_active :: "string \<Rightarrow> ui \<Rightarrow> bool" where
  "shows_active i u = has_class (uidoc u) i ''active''"

text \<open>\<open>parseInt(this.dataset.channel)\<close>.\<close>

definition recorder_channel :: "string \<Rightarrow> ui \<Rightarrow> jnum" where
  "recorder_channel i u =
     (case uidoc u i of None \<Rightarrow> NaN | Some e \<Rightarrow> button_channel e)"

definition ptz_home_click :: "ui \<Rightarrow> ui \<times> effect list" where
  "ptz_home_click u = (add_pending ''ptz-home'' u, [Send (Get ''/x/json-motor.cgi?d=r'')])"

text \<open>The timer set when the request has settled, however it did.\<close>

definition ptz_home_timer :: "ui \<Rightarrow> ui" where
  "ptz_home_timer u = drop_pending ''ptz-home'' u"

definition bar_click :: "int \<Rightarrow> string \<Rightarrow> ui \<Rightarrow> ui \<times> effect list" where
  "bar_click now i u =
     (if \<not> present (uidoc u) i then (u, [])
      else if i = ''recorder-ch0'' \<or> i = ''recorder-ch1'' then toggleRecording (recorder_channel i u) u
      else if i = ''motion'' then toggleMotion (\<not> shows_active i u) u
      else if i = ''privacy'' then togglePrivacy (\<not> shows_active i u) u
      else if i = ''wireguard'' then toggleWireGuard (\<not> shows_active i u) u
      else if i = ''daynight'' then toggleDayNight (if has_class (uidoc u) i ''is-night'' then ''day'' else ''night'') u
      else if i = ''day'' then toggleDayNight ''day'' u
      else if i = ''night'' then toggleDayNight ''night'' u
      else if i = ''microphone'' then toggleAudio ''microphone'' (\<not> shows_active i u) u
      else if i = ''speaker'' then toggleAudio ''speaker'' (\<not> shows_active i u) u
      else if i = ''physical-privacy'' then togglePhysicalPrivacy (\<not> shows_active i u) now u
      else if i = ''ptz-home'' then ptz_home_click u
      else if i \<in> set image_buttons then toggleButton i u
      else (u, []))"

section \<open>What a button asks for\<close>

text \<open>The request that asks the camera for a state of a status button, as a table over the status keys.\<close>

definition state_request :: "string \<Rightarrow> bool \<Rightarrow> request" where
  "state_request i on =
     (if i = ''motion'' \<or> i = ''privacy'' then PostJson ''/x/json-prudynt.cgi'' (JObj [(i, JObj [(''enabled'', JBool on)])])
      else if i = ''microphone'' then PostJson ''/x/json-prudynt.cgi'' (JObj [(''audio'', JObj [(''mic_muted'', JBool (\<not> on))])])
      else if i = ''speaker'' then PostJson ''/x/json-prudynt.cgi'' (JObj [(''audio'', JObj [(''spk_enabled'', JBool on)])])
      else if i = ''wireguard'' then Get (''/x/json-wireguard.cgi?iface=wg0&state='' @ (if on then ''1'' else ''0''))
      else PostJson ''/x/json-imp.cgi'' (JObj [(''cmd'', JStr i), (''val'', jint (if on = (i = ''color'') then 0 else 1))]))"

lemma click_asks_opposite:
  assumes "(i, k, ignored, shown) \<in> set status_table" "present (uidoc u) i"
  shows "snd (bar_click now i u) = [Send (state_request i (\<not> shows_active i u))]"
  using assms unfolding status_table_def list.set insert_iff empty_iff prod.inject
  by (elim disjE conjE)
    (simp_all add: bar_click_def state_request_def toggle_defs toggleWireGuard_def toggleButton_def button_new_state_def shows_active_def image_buttons_def)

lemma click_marks_pending:
  assumes "(i, k, ignored, shown) \<in> set status_table" "present (uidoc u) i"
  shows "fst (bar_click now i u) = add_pending i u"
  using assms unfolding status_table_def list.set insert_iff empty_iff prod.inject
  by (elim disjE conjE)
    (simp_all add: bar_click_def toggle_defs toggleWireGuard_def toggleButton_def image_buttons_def)

lemma shown_after_update:
  assumes "truthy json" "clock_ok fmt cfg json u" "(i, k, ignored, shown) \<in> set status_table" "\<not> ignored (getp json k)" "present (uidoc u) i"
  shows "shows_active i (fst (updateHeartbeatUi fmt cfg now json u)) = shown (getp json k) \<and> present (uidoc (fst (updateHeartbeatUi fmt cfg now json u))) i"
  using update_button_view [OF assms(1-3), of now] assms(4,5) by (auto simp: shows_active_def has_class_view present_view split: if_splits)

section \<open>Properties\<close>



end
