(* ===== verification/Spec2Isabelle.thy ===== *)
theory Spec2Isabelle
  imports Toggles Heartbeat Timelapse Stream_Output Confirm Page_State Controls Send File_List Text_Editor
    Preview_Settings Preview_Imaging Preview_Watchdog Control_Bar Navigation Sdcard Wireguard_Page Network_Page Zerotier_Page
    Sensor_Data Streamer_Pages Photosensing_Page Privacy_Page Motors Access_Pages Gpio_Page Telegram_Page Services Recorder_Pages
    Footer Tool_Pages Firmware_Pages Plugin_Pages Info_Pages Button_Clicks
begin

text \<open>
  A model of the browser side of the Thingino camera's web interface, the scripts under
  \<open>src/package/thingino-webui/files/www/a/\<close> and those of the packages \<open>thingino-ha\<close> and \<open>thingino-dusk2dawn\<close>.

  \<^bold>\<open>The program.\<close> Every page of the camera loads \<open>main.js\<close>, which keeps the page's connection to the camera (an event
  stream and pollers for the status), turns each status message into changes of the document (\<open>updateHeartbeatUi\<close>), and holds the toggles of
  the control bar, the confirmation system, the command console, theme, busy bar, alerts and the sending of snapshots.
  \<open>navigation.js\<close> and \<open>control-bar.js\<close> build the menu and the bar whose buttons \<open>main.js\<close> looks up by id. A page adds its own script: the preview
  with its stream, settings and imaging sliders (\<open>preview.js\<close>), the file manager (\<open>tool-file-manager.js\<close>), the SD card page
  (\<open>tool-sdcard.js\<close>), the settings, tool and information pages. \<open>footer.js\<close> adds the footer, the message overlay and the restart of the streamer. Scripts share the document, some global variables and the camera's CGI
  scripts, which are outside the model: their answers are arguments.

  \<^bold>\<open>How code is modelled.\<close> A script's variables and the elements it touches form a record; an event handler is a function from the
  record to the new record and the list of its effects (requests, notices, dialogs: \<open>Dom.effect\<close>). An
  asynchronous function is cut at each \<open>await\<close> that waits for the camera: the part before it is a definition with the function's name, the part after it one
  with the suffix \<open>_settle\<close> (\<open>_loaded\<close> for a second wait), which takes how the request ended (\<open>Dom.outcome\<close>: rejected, or
  answered with a status, a text and what \<open>JSON.parse\<close> makes of it). So every interleaving of answers with other events is a sequence of such steps.
  Timers are ids or names in the record and a step that fires one; times are arguments. JavaScript values are the datatype \<open>Js_Value.js\<close>
  with \<open>truthy\<close>, \<open>getp\<close> (member access), number conversion and printing; numbers are rationals. A raised exception is a value: \<open>Inl\<close>, \<open>None\<close>, or an
  early end of \<open>run_all\<close>. The text of an exception of the engine is its class name.

  \<^bold>\<open>Theories.\<close>
  \<^item> \<open>Prelude\<close>, \<open>Js_Value\<close>, \<open>Dom\<close>, \<open>Markup\<close>: shared lemmas on lists and texts, JavaScript values, the document as a map from ids to elements,
    element trees. \<open>Url\<close>, \<open>Base64\<close>: the encodings of the browser (\<open>encodeURIComponent\<close>, \<open>URLSearchParams\<close>, Base64, UTF-8).
  \<^item> \<open>Heartbeat_Ui\<close>: \<open>updateHeartbeatUi\<close> block by block; \<open>Toggles\<close>: the toggles of \<open>main.js\<close>; \<open>Button_Clicks\<close>: the click handlers of the control bar; \<open>Heartbeat\<close>: event stream, pollers, visibility and
    password gate as a step function with reachability. \<open>Agent_Api\<close>, \<open>Timelapse\<close>: the agent's address and answers, the
    configuration cache, the timelapse button.
  \<^item> \<open>Stream_Output\<close>: the command console and its line iterator; \<open>Confirm\<close>: dialogs and guarded elements; \<open>Page_State\<close>: theme (with \<open>theme-init.js\<close>), clipboard,
    progress, busy bar, alerts; \<open>Controls\<close>: form helpers; \<open>Send\<close>: sending and downloads.
  \<^item> \<open>File_List\<close>, \<open>Text_Editor\<close>: \<open>tool-file-manager.js\<close>.
  \<^item> \<open>Preview_Endpoints\<close>, \<open>Preview_Settings\<close>, \<open>Preview_Imaging\<close>, \<open>Preview_Watchdog\<close>: \<open>preview.js\<close>, in the order of its parts.
  \<^item> \<open>Control_Bar\<close>: \<open>control-bar.js\<close>; \<open>Navigation\<close>: \<open>navigation.js\<close>.
  \<^item> \<open>Ansi_Log\<close>, \<open>Sdcard\<close>: \<open>tool-sdcard.js\<close>.
  \<^item> \<open>Settings_Pages\<close>: the load and save protocol of the settings pages, with the locale \<open>settings_form\<close> as the contract of a form and its extension
    \<open>free_form\<close>, and the pages \<open>config-admin.js\<close>, \<open>config-syslog.js\<close> and \<open>config-time.js\<close>. On this protocol: \<open>Wireguard_Page\<close> (\<open>config-wireguard.js\<close> with its
    file import), \<open>Network_Page\<close> (\<open>config-network.js\<close>, hardware addresses on bytes, \<open>8 word\<close>, and the scan), \<open>Access_Pages\<close> (\<open>config-rtsp.js\<close>, \<open>config-webui.js\<close>), \<open>Gpio_Page\<close>
    (\<open>config-gpio.js\<close>), \<open>Telegram_Page\<close> (\<open>config-telegrambot.js\<close>) and \<open>Plugin_Pages\<close> (\<open>config-ha.js\<close>, \<open>tool-mqtt-sub.js\<close>, \<open>config-dusk2dawn.js\<close>).
  \<^item> \<open>Zerotier_Page\<close>: \<open>config-zerotier.js\<close>; \<open>Streamer_Pages\<close>: \<open>streamer-config.js\<close>, \<open>audio.js\<close>; \<open>Photosensing_Page\<close>: \<open>config-photosensing.js\<close>; \<open>Privacy_Page\<close>: \<open>privacy.js\<close>;
    \<open>Motors\<close>: \<open>config-motors.js\<close>, \<open>preview-motors.js\<close>.
  \<^item> \<open>Services\<close>: \<open>tool-send2.js\<close>, the nine \<open>tool-send2-*.js\<close> as tables of fields, \<open>gphotos-auth-callback.js\<close>; \<open>Recorder_Pages\<close>: \<open>tool-record.js\<close>, \<open>tool-timelapse.js\<close>;
    \<open>Sensor_Data\<close>: \<open>tool-sensor-data.js\<close>.
  \<^item> \<open>Footer\<close>: \<open>footer.js\<close>; \<open>Tool_Pages\<close>: \<open>tool-ping-trace.js\<close> with the console as a part of its state; \<open>Firmware_Pages\<close>: \<open>tool-upgrade.js\<close>, \<open>firmware-reset.js\<close>, \<open>reset.js\<close>,
    \<open>wait.js\<close>; \<open>Info_Pages\<close>: \<open>info.js\<close>, \<open>info-usage.js\<close>, \<open>info-diagnostic.js\<close>, \<open>info-overlay.js\<close>.

  \<^bold>\<open>Interfaces.\<close> A contract several operations share is a locale, interpreted on each of them: \<open>status_block\<close> (eleven blocks of the reducer),
  \<open>confirmed_toggle\<close> (the toggles with an answer), \<open>gated_poller\<close> (the four pollers), \<open>guarded_action\<close> (guarded clicks and submits), \<open>text_codec\<close> (the two
  encodings of an address), \<open>settings_form\<close> and \<open>free_form\<close> (the admin, remote logging, WireGuard, network, web interface, lamps, Home Assistant and
  MQTT subscription forms), \<open>command_console\<close> (what the pages that run commands rely on in the console).

  \<^bold>\<open>What is shown.\<close> Safety and liveness of the status channels (nothing runs behind the gate, no timer leaks, polling survives, bounded back-off);
  the reducer shows what a message says, also on the bar that \<open>control-bar.js\<close> really builds (below), and a click then asks for the opposite; motors stop when the button is released; the sensor statistics refine
  their definition over all samples; round trips of addresses, encodings, files, colours and settings (what a page saves and the camera reports, it sends again), for the
  sending services, the Telegram bot, Home Assistant and the pages above; pages that show or send the same thing agree (RTSP page and preview, timelapse page and
  button, the two text editors); a generated hardware address is local and unicast; the line iterator does not depend on chunks; the coloured
  log refines the terminal text; confirmations are asked and answered once; a card is formatted only after one; the listing is sorted; the network test page runs one test at a time and
  never hangs; the watchdog's pauses are bounded; polling for a ZeroTier connection and for the restarted streamer
  ends. Where the code does not do what it means to, the theorem says what it does do: a partial status message forgets recordings, a ZeroTier service
  that does not start leaves the page connecting for good, a flash command that never ran reboots the camera. Theorems without a number are
  further facts of the same kind (a second console command repeats the first, a failed reload empties a file, leaving kills the preview, an unknown time
  zone or an unmounted share is erased, the API key is deleted before the question is answered, an accepted upload is dropped while a command runs, an error of the usage page stays).

  \<^bold>\<open>Termination.\<close> Every definition is total: loops over data are structural or have a measure (the line iterator the remaining text, the ANSI loop the remaining
  text, \<open>scale_bytes\<close> the remaining units); no fuel is used. Loops in time (pollers, watchdog, ZeroTier poll, the waiting page) are sequences of steps, and what ends them is proved over
  all sequences; the polling loop of the footer is a recursion over the polls and is shown to be over after thirty.

  \<^bold>\<open>Parameters.\<close> What the browser does and the scripts do not define is an argument: \<open>JSON.parse\<close> and the answers of the camera, the
  locale formatting of times, \<open>localeCompare\<close>, the URL parser behind \<open>normalizePath\<close>, the value a range input keeps, random bytes, \<open>parseFloat\<close>, what an HTML parser makes of a text, the
  answers of the dialog framework.

  \<^bold>\<open>Not modelled.\<close> \<open>runtime-config.js\<close> (generated data), the copy buttons of the pages, styles, animations, the drawing of charts
  and images, functions without a caller (\<open>resetShareControls\<close>, \<open>formatBytes\<close> of the upgrade page, \<open>extractLinkFromText\<close>), the CGI shell scripts, the firmware's
  C programs and the build system. Code points above 255 are their UTF-8 bytes where a text is sent and absent elsewhere.
\<close>

section \<open>The control bar and the status messages\<close>

text \<open>
  The document of a tree of elements, as the scripts look it up by id: the first element with that id.
\<close>

definition text_of :: "node \<Rightarrow> js list" where
  "text_of n = [JStr t. TextNode t \<leftarrow> children n]"

definition elem_of :: "node \<Rightarrow> elem" where
  "elem_of n = blank_elem\<lparr>cls := set (classes n), content := text_of n, disabled := (attr_of ''disabled'' n \<noteq> None),
     attrs := (\<lambda>k. attr_of k n)\<rparr>"

definition doc_of :: "node \<Rightarrow> doc" where
  "doc_of n = (\<lambda>i. map_option elem_of (find (\<lambda>e. attr_of ''id'' e = Some i) (elems n)))"

lemma doc_of_present: "present (doc_of n) i \<longleftrightarrow> i \<in> set (ids_of n)"
  by (auto simp: present_def doc_of_def ids_of_def attr_values_set find_None_iff)

lemma mount_node_ids:
  assumes "e \<in> set (elems n)" "attr_of ''data-app-controls'' e \<noteq> None"
  shows "set control_ids \<subseteq> set (ids_of (mount_node active cfg n))"
  using assms
proof (induction n)
  case (Elem t as ns)
  show ?case
  proof (cases "map_of as ''data-app-controls''")
    case None
    then obtain m where "m \<in> set ns" "e \<in> set (elems m)" using Elem.prems by auto
    with None Elem.IH Elem.prems(2) show ?thesis by (fastforce simp: ids_of_def)
  qed (simp add: control_row_ids(1))
qed simp

lemma status_ids: "(i, k, ignored, shows) \<in> set status_table \<Longrightarrow> i \<in> set control_ids"
  unfolding status_table_def list.set insert_iff empty_iff prod.inject
  by (elim disjE conjE; simp add: control_ids_def)


definition sample_page :: node where
  "sample_page = Elem ''body'' [] [Elem ''main'' [] [Elem ''div'' [(''data-app-controls'', [])] []]]"

definition plain_bar :: bar_config where
  "plain_bar = \<lparr>c_wrapperClass = [], c_timeRowClass = [], c_clockColClass = [], c_rowClass = [], c_btnColClass = []\<rparr>"


section \<open>The settings pages\<close>


definition sample_admin :: "admin_form settings_page" where
  "sample_admin = \<lparr>form = \<lparr>ad_name = '' Ann'', ad_email = ''a@b'', ad_telegram = [], ad_discord = []\<rparr>,
     controls_disabled = True, page_busy = idle_bar, reload_disabled = False\<rparr>"

definition sample_syslog :: "syslog_form settings_page" where
  "sample_syslog = \<lparr>form = \<lparr>sy_host = ''log.lan'', sy_port = [], sy_enabled = True, sy_file = False\<rparr>,
     controls_disabled = True, page_busy = idle_bar, reload_disabled = False\<rparr>"

definition sample_wg :: "wg_form settings_page" where
  "sample_wg = \<lparr>form = blank_wg\<lparr>wg_address := ''10.0.0.2/32''\<rparr>, controls_disabled = True, page_busy = idle_bar, reload_disabled = False\<rparr>"

definition sample_network :: "network_form settings_page" where
  "sample_network = \<lparr>form = \<lparr>nf_hostname = ''cam'', nf_dns_primary = [], nf_dns_secondary = [], nf_ssid = ''home'', nf_pass = [], nf_bssid = [],
       nf_ap = False, nf_cards = [\<lparr>ic_iface = ''eth0'', ic_enabled = True, ic_dhcp = True, ic_ipv6 = False, ic_mac = [], ic_address = [], ic_netmask = [],
         ic_gateway = [], ic_broadcast = [], ic_off = False, ic_body_disabled = False, ic_static_disabled = True, ic_link = ([], [])\<rparr>], nf_shown = True\<rparr>,
     controls_disabled = True, page_busy = idle_bar, reload_disabled = False\<rparr>"

definition reported :: "js \<Rightarrow> outcome" where
  "reported d = Answer \<lparr>status = 200, text_body = ''x'', parsed = Some d\<rparr>"

lemma read_reported: "\<not> nullish d \<Longrightarrow> read_settings refused (reported d) = Inr d"
  by (simp add: read_settings_def reported_def resp_ok_def)


end
